(* ===== verification/Prelude.thy ===== *)
theory Prelude
  imports Main
begin

text \<open>
  Shared vocabulary of the development: the result type of code that can throw, the tables the
  Prisma client reads and writes (rows in insertion order), and the generic lemmas about them
  that the component theories use.
\<close>

section \<open>Theorem collections\<close>

named_theorems tbl \<open>rewriting of table operations\<close>
named_theorems frame \<open>which columns an operation leaves alone\<close>

section \<open>Code that can throw\<close>

text \<open>A computation that may throw: \<open>Inl\<close> is the exception, \<open>Inr\<close> the returned value.\<close>

definition bindE :: "'e + 'a \<Rightarrow> ('a \<Rightarrow> 'e + 'b) \<Rightarrow> 'e + 'b" where
  "bindE m f = (case m of Inl e \<Rightarrow> Inl e | Inr x \<Rightarrow> f x)"

lemma bindE_simps [simp]:
  "bindE (Inl e) f = Inl e"
  "bindE (Inr x) f = f x"
  by (simp_all add: bindE_def)

lemma bindE_Inr_iff: "bindE m f = Inr y \<longleftrightarrow> (\<exists>x. m = Inr x \<and> f x = Inr y)"
  by (cases m) auto

lemma bindE_InrE [elim]:
  assumes "bindE m f = Inr y"
  obtains x where "m = Inr x" and "f x = Inr y"
  using assms by (auto simp: bindE_Inr_iff)

lemma bindE_assoc: "bindE (bindE m f) g = bindE m (\<lambda>x. bindE (f x) g)"
  by (cases m) auto

text \<open>Throwing when a record that must exist is missing (\<open>findUniqueOrThrow\<close>).\<close>

definition orThrow :: "'e \<Rightarrow> 'a option \<Rightarrow> 'e + 'a" where
  "orThrow e v = (case v of None \<Rightarrow> Inl e | Some x \<Rightarrow> Inr x)"

lemma orThrow_simps [simp]:
  "orThrow e None = Inl e"
  "orThrow e (Some x) = Inr x"
  by (simp_all add: orThrow_def)

lemma orThrow_Inr_iff [simp]: "orThrow e v = Inr x \<longleftrightarrow> v = Some x"
  by (cases v) auto

text \<open>A loop whose body may throw stops at the first exception.\<close>

fun foldE :: "('a \<Rightarrow> 's \<Rightarrow> 'e + 's) \<Rightarrow> 'a list \<Rightarrow> 's \<Rightarrow> 'e + 's" where
  "foldE f [] s = Inr s"
| "foldE f (x # xs) s = bindE (f x s) (foldE f xs)"

lemma foldE_append: "foldE f (xs @ ys) s = bindE (foldE f xs s) (foldE f ys)"
proof (induction xs arbitrary: s)
  case Nil
  then show ?case by simp
next
  case (Cons x xs)
  then show ?case by (cases "f x s") auto
qed

lemma foldE_invariant:
  assumes "foldE f xs s = Inr t" and "P s"
    and "\<And>x s t. x \<in> set xs \<Longrightarrow> P s \<Longrightarrow> f x s = Inr t \<Longrightarrow> P t"
  shows "P t"
  using assms
proof (induction xs arbitrary: s)
  case Nil
  then show ?case by simp
next
  case (Cons x xs)
  then obtain u where u: "f x s = Inr u" "foldE f xs u = Inr t" by auto
  have "P u" using Cons.prems(2) Cons.prems(3) [of x s u] u(1) by simp
  have step: "P b" if "y \<in> set xs" "P a" "f y a = Inr b" for y a b
    using Cons.prems(3) [of y a b] that by simp
  show ?case by (rule Cons.IH [OF u(2) \<open>P u\<close> step])
qed

section \<open>Tables\<close>

text \<open>
  A table is the list of its rows. \<open>findFirst\<close>/\<open>findUnique\<close> is \<open>find\<close>, \<open>findMany\<close> is
  \<open>filter\<close>, \<open>create\<close> appends, and \<open>update\<close>/\<open>updateMany\<close> rewrites the rows its \<open>where\<close>
  clause selects and reports how many there were.
\<close>

definition updWhere :: "('r \<Rightarrow> bool) \<Rightarrow> ('r \<Rightarrow> 'r) \<Rightarrow> 'r list \<Rightarrow> 'r list" where
  "updWhere P f t = map (\<lambda>r. if P r then f r else r) t"

definition countWhere :: "('r \<Rightarrow> bool) \<Rightarrow> 'r list \<Rightarrow> nat" where
  "countWhere P t = length (filter P t)"

lemma updWhere_simps [simp]:
  "updWhere P f [] = []"
  "updWhere P f (r # t) = (if P r then f r else r) # updWhere P f t"
  "updWhere P f (t @ t') = updWhere P f t @ updWhere P f t'"
  by (simp_all add: updWhere_def)

lemma length_updWhere [simp]: "length (updWhere P f t) = length t"
  by (simp add: updWhere_def)

lemma set_updWhere: "set (updWhere P f t) = f ` {r \<in> set t. P r} \<union> {r \<in> set t. \<not> P r}"
  by (auto simp: updWhere_def)

lemma in_updWhereE:
  assumes "r \<in> set (updWhere P f t)"
  obtains q where "q \<in> set t" and "P q" and "r = f q" | "r \<in> set t" and "\<not> P r"
  using assms by (auto simp: set_updWhere)

lemma updWhere_none [tbl]: "(\<And>r. r \<in> set t \<Longrightarrow> \<not> P r) \<Longrightarrow> updWhere P f t = t"
  by (induction t) auto

lemma map_updWhere: "(\<And>r. P r \<Longrightarrow> g (f r) = g r) \<Longrightarrow> map g (updWhere P f t) = map g t"
  by (induction t) auto

lemma countWhere_simps [simp]:
  "countWhere P [] = 0"
  "countWhere P (r # t) = (if P r then Suc (countWhere P t) else countWhere P t)"
  "countWhere P (t @ t') = countWhere P t + countWhere P t'"
  by (simp_all add: countWhere_def)

lemma countWhere_eq_0_iff [simp]: "countWhere P t = 0 \<longleftrightarrow> (\<forall>r \<in> set t. \<not> P r)"
  by (induction t) auto

lemma countWhere_pos_iff: "0 < countWhere P t \<longleftrightarrow> (\<exists>r \<in> set t. P r)"
  by (induction t) auto

lemma find_SomeD: "find P t = Some r \<Longrightarrow> r \<in> set t \<and> P r"
  by (auto simp: find_Some_iff)

lemma find_NoneD: "find P t = None \<Longrightarrow> r \<in> set t \<Longrightarrow> \<not> P r"
  by (auto simp: find_None_iff)

lemma find_append: "find P (xs @ ys) = (case find P xs of None \<Rightarrow> find P ys | Some x \<Rightarrow> Some x)"
  by (induction xs) auto

text \<open>Looking a row up by its key after an update of the rows with (another) key.\<close>

lemma find_updWhere_other [tbl]:
  assumes "\<And>r. P r \<Longrightarrow> Q (f r) = Q r" and "\<And>r. r \<in> set t \<Longrightarrow> Q r \<Longrightarrow> \<not> P r"
  shows "find Q (updWhere P f t) = find Q t"
  using assms by (induction t) auto

lemma find_updWhere_same [tbl]:
  assumes "\<And>r. P r \<Longrightarrow> P (f r)"
  shows "find P (updWhere P f t) = map_option f (find P t)"
  using assms by (induction t) auto

lemma find_updWhere_keep [tbl]:
  assumes "\<And>r. P r \<Longrightarrow> Q (f r) = Q r"
  shows "find Q (updWhere P f t) = map_option (\<lambda>r. if P r then f r else r) (find Q t)"
  using assms by (induction t) auto

text \<open>A table whose rows have pairwise different keys.\<close>

definition uniqueBy :: "('r \<Rightarrow> 'k) \<Rightarrow> 'r list \<Rightarrow> bool" where
  "uniqueBy key t \<longleftrightarrow> distinct (map key t)"

lemma uniqueBy_updWhere [tbl]:
  "(\<And>r. P r \<Longrightarrow> key (f r) = key r) \<Longrightarrow> uniqueBy key (updWhere P f t) = uniqueBy key t"
  by (simp add: uniqueBy_def map_updWhere)

lemma uniqueBy_eq:
  "uniqueBy key t \<Longrightarrow> r \<in> set t \<Longrightarrow> q \<in> set t \<Longrightarrow> key r = key q \<Longrightarrow> r = q"
  unfolding uniqueBy_def by (metis distinct_map inj_on_eq_iff)

lemma find_uniqueBy:
  "uniqueBy key t \<Longrightarrow> r \<in> set t \<Longrightarrow> find (\<lambda>q. key q = key r) t = Some r"
proof (induction t)
  case Nil
  then show ?case by simp
next
  case (Cons q t)
  then show ?case by (auto simp: uniqueBy_def)
qed

text \<open>Rows whose keys are different and among the first \<open>n\<close> identifiers drawn.\<close>

definition named :: "(nat \<Rightarrow> string) \<Rightarrow> nat \<Rightarrow> ('r \<Rightarrow> string) \<Rightarrow> 'r list \<Rightarrow> bool" where
  "named uuid n key t \<longleftrightarrow> uniqueBy key t \<and> (\<forall>r \<in> set t. key r \<in> uuid ` {..<n})"

lemma named_mono: "named uuid n key t \<Longrightarrow> n \<le> m \<Longrightarrow> named uuid m key t"
  unfolding named_def by fastforce

lemma named_fresh:
  assumes "inj uuid" and "named uuid n key t"
  shows "uuid n \<notin> key ` set t"
proof
  assume "uuid n \<in> key ` set t"
  then obtain k where "k < n" "uuid n = uuid k" using assms(2) by (force simp: named_def)
  then show False using injD [OF assms(1), of n k] by simp
qed

lemma named_snoc:
  "inj uuid \<Longrightarrow> named uuid n key t \<Longrightarrow> key r = uuid n \<Longrightarrow> named uuid (Suc n) key (t @ [r])"
  unfolding named_def uniqueBy_def by (fastforce simp: inj_def lessThan_Suc)

lemma named_map: "(\<And>r. key (f r) = key r) \<Longrightarrow> named uuid n key (map f t) = named uuid n key t"
  by (simp add: named_def uniqueBy_def o_def)

lemma named_updWhere: "(\<And>r. key (f r) = key r) \<Longrightarrow> named uuid n key (updWhere P f t) = named uuid n key t"
  unfolding updWhere_def by (rule named_map) simp

text \<open>Sums over a table: updating the one row with a key moves the sum by that row's change.\<close>

lemma sum_updWhere_unique:
  fixes g :: "'r \<Rightarrow> 'a::ab_group_add"
  assumes "uniqueBy key t" and "r \<in> set t"
  shows "sum_list (map g (updWhere (\<lambda>q. key q = key r) f t))
       = sum_list (map g t) + (g (f r) - g r)"
  using assms
proof (induction t)
  case Nil
  then show ?case by simp
next
  case (Cons q t)
  show ?case
  proof (cases "q = r")
    case True
    then have "\<And>s. s \<in> set t \<Longrightarrow> key s \<noteq> key r"
      using Cons.prems(1) by (auto simp: uniqueBy_def image_iff)
    then have "updWhere (\<lambda>q. key q = key r) f t = t" by (simp add: updWhere_none)
    with True show ?thesis by simp
  next
    case False
    with Cons.prems have r: "r \<in> set t" and u: "uniqueBy key t" and "key q \<noteq> key r"
      by (auto simp: uniqueBy_def image_iff)
    with Cons.IH [OF u r] show ?thesis by (simp add: add.assoc)
  qed
qed

end
