(* ===== verification/JS_Date.thy ===== *)
theory JS_Date
  imports Prelude
begin

text \<open>
  The ECMAScript \<open>Date\<close> operations the program uses. A \<open>Date\<close> is its time value, milliseconds
  since 1 January 1970; local time is UTC (the platform's institutions are in Ghana, UTC+0 without
  daylight saving), so \<open>setHours\<close>, \<open>getMonth\<close> and their like read the time value directly.
  \<open>dayFromYear\<close>, \<open>yearOf\<close>, \<open>monthOf\<close>, \<open>dateOf\<close>, \<open>weekDay\<close> and \<open>makeDay\<close> are the abstract operations
  DayFromYear, YearFromTime, MonthFromTime, DateFromTime, WeekDay and MakeDay of the language
  standard; the lemmas give their arithmetic: every day has one year, month and date, months are
  28 to 31 days long and lie one after the other.
\<close>

type_synonym time = int

abbreviation msPerDay :: int where "msPerDay \<equiv> 86400000"

definition dayOf :: "time \<Rightarrow> int" where "dayOf t = t div msPerDay"

definition weekDay :: "int \<Rightarrow> int" where "weekDay d = (4 + d) mod 7"

definition dayFromYear :: "int \<Rightarrow> int" where
  "dayFromYear y = 365 * (y - 1970) + (y - 1969) div 4 - (y - 1901) div 100 + (y - 1601) div 400"

definition leapYear :: "int \<Rightarrow> bool" where
  "leapYear y \<longleftrightarrow> y mod 4 = 0 \<and> y mod 100 \<noteq> 0 \<or> y mod 400 = 0"

definition yearOf :: "int \<Rightarrow> int" where
  "yearOf d = (let y = 1970 + (400 * d) div 146097 in
     if d < dayFromYear y then y - 1 else if d < dayFromYear (y + 1) then y else y + 1)"

text \<open>Days before a month (0 is January) within its year.\<close>

definition cumDays :: "bool \<Rightarrow> int \<Rightarrow> int" where
  "cumDays leap m = (if m \<le> 0 then 0 else if m = 1 then 31 else
     (if leap then 1 else 0) +
     (if m = 2 then 59 else if m = 3 then 90 else if m = 4 then 120 else if m = 5 then 151
      else if m = 6 then 181 else if m = 7 then 212 else if m = 8 then 243 else if m = 9 then 273
      else if m = 10 then 304 else if m = 11 then 334 else 365))"

text \<open>The last month that has begun on day \<open>e\<close> of the year.\<close>

fun monthUpTo :: "bool \<Rightarrow> int \<Rightarrow> nat \<Rightarrow> int" where
  "monthUpTo leap e 0 = 0"
| "monthUpTo leap e (Suc m) = (if cumDays leap (int (Suc m)) \<le> e then int (Suc m) else monthUpTo leap e m)"

definition monthIn :: "bool \<Rightarrow> int \<Rightarrow> int" where
  "monthIn leap e = monthUpTo leap e 11"

definition monthOf :: "int \<Rightarrow> int" where
  "monthOf d = (let y = yearOf d in monthIn (leapYear y) (d - dayFromYear y))"

definition dateOf :: "int \<Rightarrow> int" where
  "dateOf d = (let y = yearOf d in d - dayFromYear y - cumDays (leapYear y) (monthOf d) + 1)"

definition makeDay :: "int \<Rightarrow> int \<Rightarrow> int \<Rightarrow> int" where
  "makeDay y m dt = (let ym = y + m div 12 in dayFromYear ym + cumDays (leapYear ym) (m mod 12) + dt - 1)"

text \<open>\<open>new Date(year, month, date)\<close>: years 0 to 99 mean the twentieth century.\<close>

definition newDate :: "int \<Rightarrow> int \<Rightarrow> int \<Rightarrow> time" where
  "newDate y m dt = makeDay (if 0 \<le> y \<and> y \<le> 99 then 1900 + y else y) m dt * msPerDay"

text \<open>\<open>setDate(getDate() + n)\<close>, \<open>setMonth(getMonth() + n)\<close> and \<open>setFullYear(getFullYear() + n)\<close>.\<close>

definition plusDays :: "time \<Rightarrow> int \<Rightarrow> time" where
  "plusDays t n = (let d = dayOf t in
     makeDay (yearOf d) (monthOf d) (dateOf d + n) * msPerDay + t mod msPerDay)"

definition plusMonths :: "time \<Rightarrow> int \<Rightarrow> time" where
  "plusMonths t n = (let d = dayOf t in
     makeDay (yearOf d) (monthOf d + n) (dateOf d) * msPerDay + t mod msPerDay)"

definition plusYears :: "time \<Rightarrow> int \<Rightarrow> time" where
  "plusYears t n = (let d = dayOf t in
     makeDay (yearOf d + n) (monthOf d) (dateOf d) * msPerDay + t mod msPerDay)"

definition startOfDay :: "time \<Rightarrow> time" where
  "startOfDay t = dayOf t * msPerDay"

definition endOfDay :: "time \<Rightarrow> time" where
  "endOfDay t = dayOf t * msPerDay + (msPerDay - 1)"

section \<open>Years\<close>

lemma div_Suc:
  assumes "0 < (c :: int)"
  shows "(x + 1) div c = x div c + (if c dvd x + 1 then 1 else 0)"
proof (cases "c dvd x + 1")
  case True
  then obtain q where "x + 1 = c * q" by (auto elim: dvdE)
  then have "x = c * (q - 1) + (c - 1)" by (simp add: algebra_simps)
  then have "x div c = q - 1" by (rule int_div_pos_eq) (use assms in auto)
  then show ?thesis using True \<open>x + 1 = c * q\<close> assms by simp
next
  case False
  have "x mod c \<noteq> c - 1"
  proof
    assume "x mod c = c - 1"
    then have "x + 1 = c * (x div c) + c" using mult_div_mod_eq [of c x] by linarith
    then have "x + 1 = c * (x div c + 1)" by (simp add: algebra_simps)
    then show False using False by simp
  qed
  then have "x mod c + 1 < c" using pos_mod_bound [OF assms, of x] by linarith
  then have "(x + 1) div c = x div c"
    using mult_div_mod_eq [of c x] pos_mod_sign [OF assms, of x] by (intro int_div_pos_eq) auto
  then show ?thesis using False by simp
qed

lemma dvd_minus_multiple: "(c :: int) dvd k \<Longrightarrow> c dvd z - k \<longleftrightarrow> c dvd z"
  by (metis diff_add_cancel dvd_add_left_iff)

lemma div_step:
  "(z - 1968) div 4 = (z - 1969) div 4 + (if 4 dvd z then 1 else (0::int))"
  "(z - 1900) div 100 = (z - 1901) div 100 + (if 100 dvd z then 1 else (0::int))"
  "(z - 1600) div 400 = (z - 1601) div 400 + (if 400 dvd z then 1 else (0::int))"
  using div_Suc [of 4 "z - 1969"] div_Suc [of 100 "z - 1901"] div_Suc [of 400 "z - 1601"]
  by (simp_all add: dvd_minus_multiple)

lemma dayFromYear_Suc: "dayFromYear (y + 1) = dayFromYear y + (if leapYear y then 366 else 365)"
proof -
  have dvd: "400 dvd y \<Longrightarrow> 100 dvd y" "100 dvd y \<Longrightarrow> 4 dvd y"
    by (auto elim!: dvd_trans [rotated])
  have "dayFromYear (y + 1) = 365 * (y - 1970) + 365
      + (y - 1968) div 4 - (y - 1900) div 100 + (y - 1600) div 400"
    by (simp only: dayFromYear_def) simp
  also have "\<dots> = dayFromYear y + 365
      + (if 4 dvd y then 1 else 0) - (if 100 dvd y then 1 else 0) + (if 400 dvd y then 1 else 0)"
    unfolding div_step dayFromYear_def by (simp only: ac_simps diff_conv_add_uminus minus_add_distrib)
  also have "\<dots> = dayFromYear y + (if leapYear y then 366 else 365)"
    using dvd by (cases "400 dvd y"; cases "100 dvd y"; cases "4 dvd y") (simp_all add: leapYear_def mod_eq_0_iff_dvd)
  finally show ?thesis .
qed

lemma div_bounds: "0 < (c :: int) \<Longrightarrow> c * (x div c) \<le> x \<and> x < c * (x div c) + c"
  using mult_div_mod_eq [of c x] pos_mod_bound [of c x] pos_mod_sign [of c x] by linarith

lemma dayFromYear_bounds:
  "400 * dayFromYear y \<le> 146097 * (y - 1970) + 600"
  "146097 * (y - 1970) - 800 \<le> 400 * dayFromYear y"
proof -
  define a b c where "a = (y - 1969) div 4" and "b = (y - 1901) div 100" and "c = (y - 1601) div 400"
  have "4 * a \<le> y - 1969 \<and> y - 1969 < 4 * a + 4" unfolding a_def by (rule div_bounds) simp
  moreover have "100 * b \<le> y - 1901 \<and> y - 1901 < 100 * b + 100" unfolding b_def by (rule div_bounds) simp
  moreover have "400 * c \<le> y - 1601 \<and> y - 1601 < 400 * c + 400" unfolding c_def by (rule div_bounds) simp
  moreover have "dayFromYear y = 365 * (y - 1970) + a - b + c" by (simp add: dayFromYear_def a_def b_def c_def)
  ultimately have "400 * dayFromYear y \<le> 146097 * (y - 1970) + 600 \<and>
    146097 * (y - 1970) - 800 \<le> 400 * dayFromYear y"
    by simp
  then show "400 * dayFromYear y \<le> 146097 * (y - 1970) + 600"
    "146097 * (y - 1970) - 800 \<le> 400 * dayFromYear y"
    by simp_all
qed

lemma dayFromYear_less: "y < z \<Longrightarrow> dayFromYear y < dayFromYear z"
proof (induction z rule: int_gr_induct)
  case base
  then show ?case by (simp add: dayFromYear_Suc)
next
  case (step z)
  then show ?case by (simp add: dayFromYear_Suc)
qed

lemma dayFromYear_mono: "y \<le> z \<Longrightarrow> dayFromYear y \<le> dayFromYear z"
  using dayFromYear_less [of y z] by (cases "y = z") auto

lemma scale_400: "400 * a \<le> 400 * b + 399 \<Longrightarrow> a \<le> (b :: int)" by simp

lemma yearOf_bounds: "dayFromYear (yearOf d) \<le> d" "d < dayFromYear (yearOf d + 1)"
proof -
  define q y where "q = (400 * d) div 146097" and "y = 1970 + q"
  have y_def': "y = 1970 + (400 * d) div 146097" by (simp only: q_def y_def)
  have "146097 * q \<le> 400 * d \<and> 400 * d < 146097 * q + 146097"
    unfolding q_def by (rule div_bounds) simp
  then have e: "146097 * (y - 1970) \<le> 400 * d" "400 * d < 146097 * (y - 1970) + 146097"
    unfolding y_def add_diff_cancel_left' by (auto simp only:)
  define k where "k = 146097 * (y - 1970)"
  have k: "146097 * (y - 1 - 1970) = k - 146097" "146097 * (y + 2 - 1970) = k + 292194"
    unfolding k_def by (simp_all add: algebra_simps)
  have "dayFromYear (y - 1) \<le> d"
    using dayFromYear_bounds(1) [of "y - 1"] e unfolding k k_def [symmetric]
    by - (rule scale_400, linarith)
  moreover have "d < dayFromYear (y + 2)"
    using dayFromYear_bounds(2) [of "y + 2"] e unfolding k k_def [symmetric] by linarith
  ultimately show "dayFromYear (yearOf d) \<le> d" "d < dayFromYear (yearOf d + 1)"
    by (auto simp: yearOf_def y_def' [symmetric] Let_def add.commute)
qed

lemma yearOf_unique:
  assumes "dayFromYear y \<le> d" "d < dayFromYear (y + 1)" shows "yearOf d = y"
proof (rule ccontr)
  assume "yearOf d \<noteq> y"
  then consider "yearOf d + 1 \<le> y" | "y + 1 \<le> yearOf d" by linarith
  then show False
    using yearOf_bounds [of d] assms dayFromYear_mono by cases (metis linorder_not_less order_trans)+
qed

lemma yearOf_mono: "d \<le> e \<Longrightarrow> yearOf d \<le> yearOf e"
  using yearOf_bounds [of d] yearOf_bounds [of e] dayFromYear_mono [of "yearOf e + 1" "yearOf d"]
  by linarith

section \<open>Months\<close>

text \<open>\<open>monthStart n\<close>: the first day of month \<open>n mod 12\<close> of year \<open>n div 12\<close>.\<close>

definition monthStart :: "int \<Rightarrow> int" where
  "monthStart n = dayFromYear (n div 12) + cumDays (leapYear (n div 12)) (n mod 12)"

definition monthIndex :: "int \<Rightarrow> int" where
  "monthIndex d = 12 * yearOf d + monthOf d"

lemma makeDay_monthStart: "makeDay y m dt = monthStart (12 * y + m) + dt - 1"
  by (simp add: makeDay_def monthStart_def Let_def)

lemma month_cases:
  assumes "0 \<le> m" "m < (12::int)"
  shows "m = 0 \<or> m = 1 \<or> m = 2 \<or> m = 3 \<or> m = 4 \<or> m = 5 \<or> m = 6 \<or> m = 7 \<or> m = 8 \<or> m = 9 \<or> m = 10 \<or> m = 11"
  using assms by presburger

lemma cumDays_simps [simp]:
  "cumDays l 0 = 0" "cumDays l 1 = 31"
  "cumDays True 2 = 60" "cumDays True 3 = 91" "cumDays True 4 = 121" "cumDays True 5 = 152"
  "cumDays True 6 = 182" "cumDays True 7 = 213" "cumDays True 8 = 244" "cumDays True 9 = 274"
  "cumDays True 10 = 305" "cumDays True 11 = 335" "cumDays True 12 = 366"
  "cumDays False 2 = 59" "cumDays False 3 = 90" "cumDays False 4 = 120" "cumDays False 5 = 151"
  "cumDays False 6 = 181" "cumDays False 7 = 212" "cumDays False 8 = 243" "cumDays False 9 = 273"
  "cumDays False 10 = 304" "cumDays False 11 = 334" "cumDays False 12 = 365"
  by (simp_all add: cumDays_def)

lemma cumDays_step:
  "0 \<le> m \<Longrightarrow> m < 11 \<Longrightarrow> 28 \<le> cumDays l (m + 1) - cumDays l m \<and> cumDays l (m + 1) - cumDays l m \<le> 31"
  using month_cases [of m] by (cases l; auto)

lemma div_mod_12: "0 \<le> r \<Longrightarrow> r < 12 \<Longrightarrow> (12 * q + r) div 12 = q \<and> (12 * q + r) mod 12 = (r :: int)"
  by simp

lemma next_month:
  "n mod 12 = 11 \<Longrightarrow> (n + 1) div 12 = n div 12 + 1 \<and> (n + 1) mod 12 = (0 :: int)"
  "n mod 12 \<noteq> 11 \<Longrightarrow> (n + 1) div 12 = n div 12 \<and> (n + 1) mod 12 = n mod 12 + 1"
proof -
  have n: "n = 12 * (n div 12) + n mod 12" by simp
  {
    assume "n mod 12 = 11"
    then have "n = 12 * (n div 12) + 11" using n by (simp only:)
    then have *: "n + 1 = 12 * (n div 12 + 1) + 0" by (simp only: distrib_left)
    show "(n + 1) div 12 = n div 12 + 1 \<and> (n + 1) mod 12 = 0"
      using div_mod_12 [of 0 "n div 12 + 1"] unfolding * [symmetric] by simp
  }
  assume "n mod 12 \<noteq> 11"
  then have "n mod 12 + 1 < 12" using pos_mod_bound [of 12 n] by linarith
  then show "(n + 1) div 12 = n div 12 \<and> (n + 1) mod 12 = n mod 12 + 1"
    using n div_mod_12 [of "n mod 12 + 1" "n div 12"] pos_mod_sign [of 12 n] by (simp add: add.assoc [symmetric])
qed

lemma monthStart_step: "28 \<le> monthStart (n + 1) - monthStart n" "monthStart (n + 1) - monthStart n \<le> 31"
proof -
  have "28 \<le> monthStart (n + 1) - monthStart n \<and> monthStart (n + 1) - monthStart n \<le> 31"
  proof (cases "n mod 12 = 11")
    case True
    then show ?thesis using next_month(1) [of n] by (simp add: monthStart_def dayFromYear_Suc cumDays_def)
  next
    case False
    then have "n mod 12 < 11" using pos_mod_bound [of 12 n] by linarith
    then show ?thesis
      using False next_month(2) [of n] cumDays_step [of "n mod 12"] pos_mod_sign [of 12 n]
      by (simp add: monthStart_def)
  qed
  then show "28 \<le> monthStart (n + 1) - monthStart n" "monthStart (n + 1) - monthStart n \<le> 31" by auto
qed

lemma monthStart_less: "m < n \<Longrightarrow> monthStart m + 28 \<le> monthStart n"
proof (induction n rule: int_gr_induct)
  case base
  then show ?case using monthStart_step(1) [of m] by linarith
next
  case (step n)
  then show ?case using monthStart_step(1) [of n] by linarith
qed

lemma monthStart_le: "m \<le> n \<Longrightarrow> monthStart m \<le> monthStart n"
  using monthStart_less [of m n] by (cases "m = n") auto

lemma monthStart_year: "monthStart (12 * y) = dayFromYear y"
  by (simp add: monthStart_def cumDays_def)

lemma monthUpTo_bounds:
  "0 \<le> monthUpTo l e m" "monthUpTo l e m \<le> int m"
  "0 \<le> e \<Longrightarrow> cumDays l (monthUpTo l e m) \<le> e"
  "e < cumDays l (int m + 1) \<Longrightarrow> e < cumDays l (monthUpTo l e m + 1)"
  for l by (induction m) (auto simp: add.commute)

lemma monthIn_bounds:
  assumes "0 \<le> e" "e < (if l then 366 else 365)"
  shows "0 \<le> monthIn l e" "monthIn l e < 12" "cumDays l (monthIn l e) \<le> e" "e < cumDays l (monthIn l e + 1)"
  using assms monthUpTo_bounds [where l = l and e = e and m = 11] by (cases l; simp add: monthIn_def)+

lemma doy_bounds: "0 \<le> d - dayFromYear (yearOf d)"
  "d - dayFromYear (yearOf d) < (if leapYear (yearOf d) then 366 else 365)"
  using yearOf_bounds [of d] by (simp_all add: dayFromYear_Suc)

lemma monthOf_range: "0 \<le> monthOf d" "monthOf d < 12"
  using monthIn_bounds(1,2) [OF doy_bounds [of d]] by (simp_all add: monthOf_def Let_def)

lemma monthIndex_div_mod [simp]: "monthIndex d div 12 = yearOf d" "monthIndex d mod 12 = monthOf d"
  using monthOf_range [of d] by (simp_all add: monthIndex_def)

lemma dateOf_monthStart: "dateOf d = d - monthStart (monthIndex d) + 1"
  by (simp add: monthStart_def dateOf_def Let_def)

lemma monthIndex_bounds: "monthStart (monthIndex d) \<le> d" "d < monthStart (monthIndex d + 1)"
proof -
  let ?l = "leapYear (yearOf d)" and ?e = "d - dayFromYear (yearOf d)"
  note b = monthIn_bounds [OF doy_bounds [of d]]
  show "monthStart (monthIndex d) \<le> d"
    using b(3) by (simp add: monthStart_def monthOf_def Let_def)
  show "d < monthStart (monthIndex d + 1)"
  proof (cases "monthOf d = 11")
    case True
    then have "monthIndex d + 1 = 12 * (yearOf d + 1)" by (simp add: monthIndex_def)
    then show ?thesis using yearOf_bounds(2) [of d] by (simp only: monthStart_year)
  next
    case False
    then have "(monthIndex d + 1) div 12 = yearOf d" "(monthIndex d + 1) mod 12 = monthOf d + 1"
      using monthOf_range [of d] div_mod_12 [of "monthOf d + 1" "yearOf d"]
      by (simp_all add: monthIndex_def add.assoc)
    then show ?thesis using b(4) by (simp add: monthStart_def monthOf_def Let_def)
  qed
qed

lemma monthIndex_unique:
  assumes "monthStart n \<le> d" "d < monthStart (n + 1)" shows "monthIndex d = n"
proof (rule ccontr)
  assume "monthIndex d \<noteq> n"
  then consider "monthIndex d + 1 \<le> n" | "n + 1 \<le> monthIndex d" by linarith
  then show False
    using monthIndex_bounds [of d] assms monthStart_le by cases (metis linorder_not_less order_trans)+
qed

lemma monthIndex_monthStart [simp]: "monthIndex (monthStart n) = n"
  using monthStart_step(1) [of n] by (intro monthIndex_unique) auto

lemma dateOf_range: "1 \<le> dateOf d" "dateOf d \<le> 31"
  using monthIndex_bounds [of d] monthStart_step(2) [of "monthIndex d"]
  by (simp_all add: dateOf_monthStart)

lemma makeDay_parts: "makeDay (yearOf d) (monthOf d) (dateOf d + n) = d + n"
  by (simp add: makeDay_monthStart dateOf_monthStart monthIndex_def [symmetric])

section \<open>Moving a date\<close>

lemma dayOf_of_day [simp]: "dayOf (d * msPerDay) = d" "0 \<le> r \<Longrightarrow> r < msPerDay \<Longrightarrow> dayOf (d * msPerDay + r) = d"
  by (simp_all add: dayOf_def)

lemma dayOf_bounds: "dayOf t * msPerDay \<le> t" "t \<le> dayOf t * msPerDay + (msPerDay - 1)"
  using div_bounds [of msPerDay t] by (simp_all add: dayOf_def)

lemma dayOf_mono: "t \<le> u \<Longrightarrow> dayOf t \<le> dayOf u"
  by (simp add: dayOf_def zdiv_mono1)

lemma plusDays_eq: "plusDays t n = t + n * msPerDay"
proof -
  have "dayOf t * msPerDay + t mod msPerDay = t" by (simp add: dayOf_def)
  then show ?thesis unfolding plusDays_def Let_def makeDay_parts by (simp add: algebra_simps)
qed

lemma plusMonths_eq:
  "plusMonths t n = (monthStart (monthIndex (dayOf t) + n) + dateOf (dayOf t) - 1) * msPerDay + t mod msPerDay"
  by (simp add: plusMonths_def Let_def makeDay_monthStart monthIndex_def add.assoc)

lemma plusYears_eq:
  "plusYears t n = (monthStart (monthIndex (dayOf t) + 12 * n) + dateOf (dayOf t) - 1) * msPerDay + t mod msPerDay"
  by (simp add: plusYears_def Let_def makeDay_monthStart monthIndex_def algebra_simps)

lemma plusMonths_0: "plusMonths t 0 = t"
proof -
  have "dayOf t * msPerDay + t mod msPerDay = t" by (simp add: dayOf_def)
  then show ?thesis by (simp add: plusMonths_eq dateOf_monthStart)
qed

lemma plusMonths_less: "m < n \<Longrightarrow> plusMonths t m < plusMonths t n"
  using monthStart_less [of "monthIndex (dayOf t) + m" "monthIndex (dayOf t) + n"]
  unfolding plusMonths_eq by simp

text \<open>Adding months never moves a date more than one month past the target month.\<close>

lemma plusMonths_month:
  "dayOf (plusMonths t n) \<in> {monthStart (monthIndex (dayOf t) + n) .. monthStart (monthIndex (dayOf t) + n) + 30}"
  using dateOf_range [of "dayOf t"] by (simp add: plusMonths_eq del: left_diff_distrib_numeral)

end
