(* ===== verification/Report_Ranges.thy ===== *)
theory Report_Ranges
  imports JS_Date
begin

text \<open>
  \<open>lib/reportRanges.ts\<close>: the date ranges every report of the platform shares. A range is
  calendar-aligned (this, last, next week/month/quarter/half-year/year), runs from today to the end
  of a period, or is a rolling window. The lemmas reduce the calendar periods to whole months
  (\<open>monthStart\<close>), which gives the containment and tiling properties.
\<close>

section \<open>The ranges\<close>

datatype reportRangeId =
    TODAY | THIS_WEEK | THIS_MONTH | THIS_QUARTER | THIS_HALF_YEAR | THIS_YEAR
  | TOMORROW | WEEK_TO_END | MONTH_TO_END | QUARTER_TO_END | HALF_YEAR_TO_END | YEAR_TO_END
  | NEXT_WEEK | NEXT_MONTH | NEXT_QUARTER | NEXT_HALF_YEAR | NEXT_YEAR
  | YESTERDAY | LAST_WEEK | LAST_MONTH | LAST_QUARTER | LAST_HALF_YEAR | LAST_YEAR
  | NEXT_ONE_WEEK | NEXT_ONE_MONTH | NEXT_3_MONTHS | NEXT_6_MONTHS | NEXT_ONE_YEAR
  | LAST_ONE_WEEK | LAST_ONE_MONTH | LAST_3_MONTHS | LAST_6_MONTHS | LAST_ONE_YEAR
  | CUSTOM

definition startOfWeek :: "time \<Rightarrow> time" where
  "startOfWeek t = (let r = startOfDay t; wd = weekDay (dayOf r); day = (if wd = 0 then 7 else wd) in
     plusDays r (- (day - 1)))"

definition endOfWeek :: "time \<Rightarrow> time" where
  "endOfWeek t = endOfDay (plusDays (startOfWeek t) 6)"

definition startOfMonth :: "time \<Rightarrow> time" where
  "startOfMonth t = newDate (yearOf (dayOf t)) (monthOf (dayOf t)) 1"

definition endOfMonth :: "time \<Rightarrow> time" where
  "endOfMonth t = endOfDay (newDate (yearOf (dayOf t)) (monthOf (dayOf t) + 1) 0)"

definition startOfQuarter :: "time \<Rightarrow> time" where
  "startOfQuarter t = (let q = monthOf (dayOf t) div 3 in newDate (yearOf (dayOf t)) (q * 3) 1)"

definition endOfQuarter :: "time \<Rightarrow> time" where
  "endOfQuarter t = (let q = monthOf (dayOf t) div 3 in endOfDay (newDate (yearOf (dayOf t)) (q * 3 + 3) 0))"

definition startOfHalfYear :: "time \<Rightarrow> time" where
  "startOfHalfYear t = (let h = (if monthOf (dayOf t) < 6 then 0 else 6) in newDate (yearOf (dayOf t)) h 1)"

definition endOfHalfYear :: "time \<Rightarrow> time" where
  "endOfHalfYear t = (let h = (if monthOf (dayOf t) < 6 then 5 else 11) in
     endOfDay (newDate (yearOf (dayOf t)) (h + 1) 0))"

definition startOfYear :: "time \<Rightarrow> time" where
  "startOfYear t = newDate (yearOf (dayOf t)) 0 1"

definition endOfYear :: "time \<Rightarrow> time" where
  "endOfYear t = endOfDay (newDate (yearOf (dayOf t)) 11 31)"

text \<open>
  \<open>resolveReportRange(id, now, custom)\<close>. \<open>parse\<close> is the language's date parser, \<open>None\<close> standing for
  an invalid date; the only range that throws is a \<open>CUSTOM\<close> one without its dates.
\<close>

type_synonym dateRange = "time option \<times> time option"

abbreviation span :: "time \<Rightarrow> time \<Rightarrow> string + dateRange" where
  "span f t \<equiv> Inr (Some f, Some t)"

definition resolveReportRange ::
  "(string \<Rightarrow> time option) \<Rightarrow> reportRangeId \<Rightarrow> time \<Rightarrow> (string \<times> string) option \<Rightarrow> string + dateRange" where
  "resolveReportRange parse i now custom = (let today = startOfDay now in
     case i of
       TODAY \<Rightarrow> span today (endOfDay today)
     | THIS_WEEK \<Rightarrow> span (startOfWeek today) (endOfWeek today)
     | THIS_MONTH \<Rightarrow> span (startOfMonth today) (endOfMonth today)
     | THIS_QUARTER \<Rightarrow> span (startOfQuarter today) (endOfQuarter today)
     | THIS_HALF_YEAR \<Rightarrow> span (startOfHalfYear today) (endOfHalfYear today)
     | THIS_YEAR \<Rightarrow> span (startOfYear today) (endOfYear today)
     | TOMORROW \<Rightarrow> (let t = plusDays today 1 in span t (endOfDay t))
     | WEEK_TO_END \<Rightarrow> span today (endOfWeek today)
     | MONTH_TO_END \<Rightarrow> span today (endOfMonth today)
     | QUARTER_TO_END \<Rightarrow> span today (endOfQuarter today)
     | HALF_YEAR_TO_END \<Rightarrow> span today (endOfHalfYear today)
     | YEAR_TO_END \<Rightarrow> span today (endOfYear today)
     | NEXT_WEEK \<Rightarrow> (let n = plusDays (startOfWeek today) 7 in span n (endOfWeek n))
     | NEXT_MONTH \<Rightarrow> (let n = plusMonths (startOfMonth today) 1 in span n (endOfMonth n))
     | NEXT_QUARTER \<Rightarrow> (let n = plusMonths (startOfQuarter today) 3 in span n (endOfQuarter n))
     | NEXT_HALF_YEAR \<Rightarrow> (let n = plusMonths (startOfHalfYear today) 6 in span n (endOfHalfYear n))
     | NEXT_YEAR \<Rightarrow> (let n = plusYears (startOfYear today) 1 in span n (endOfYear n))
     | YESTERDAY \<Rightarrow> (let y = plusDays today (- 1) in span y (endOfDay y))
     | LAST_WEEK \<Rightarrow> (let l = plusDays (startOfWeek today) (- 7) in span l (endOfWeek l))
     | LAST_MONTH \<Rightarrow> (let l = plusMonths (startOfMonth today) (- 1) in span l (endOfMonth l))
     | LAST_QUARTER \<Rightarrow> (let l = plusMonths (startOfQuarter today) (- 3) in span l (endOfQuarter l))
     | LAST_HALF_YEAR \<Rightarrow> (let l = plusMonths (startOfHalfYear today) (- 6) in span l (endOfHalfYear l))
     | LAST_YEAR \<Rightarrow> (let l = plusYears (startOfYear today) (- 1) in span l (endOfYear l))
     | NEXT_ONE_WEEK \<Rightarrow> span today (endOfDay (plusDays today 7))
     | NEXT_ONE_MONTH \<Rightarrow> span today (endOfDay (plusMonths today 1))
     | NEXT_3_MONTHS \<Rightarrow> span today (endOfDay (plusMonths today 3))
     | NEXT_6_MONTHS \<Rightarrow> span today (endOfDay (plusMonths today 6))
     | NEXT_ONE_YEAR \<Rightarrow> span today (endOfDay (plusYears today 1))
     | LAST_ONE_WEEK \<Rightarrow> span (plusDays today (- 7)) (endOfDay today)
     | LAST_ONE_MONTH \<Rightarrow> span (plusMonths today (- 1)) (endOfDay today)
     | LAST_3_MONTHS \<Rightarrow> span (plusMonths today (- 3)) (endOfDay today)
     | LAST_6_MONTHS \<Rightarrow> span (plusMonths today (- 6)) (endOfDay today)
     | LAST_ONE_YEAR \<Rightarrow> span (plusYears today (- 1)) (endOfDay today)
     | CUSTOM \<Rightarrow> (case custom of
           None \<Rightarrow> Inl ''CUSTOM range requires from/to dates''
         | Some (f, t) \<Rightarrow> Inr (map_option startOfDay (parse f), map_option endOfDay (parse t))))"

section \<open>Calendar periods as whole months\<close>

lemma dayOf_startOfDay [simp]: "dayOf (startOfDay t) = dayOf t"
  by (simp add: startOfDay_def)

lemma startOfDay_le: "startOfDay t \<le> t" "t \<le> endOfDay t" "startOfDay t \<le> endOfDay t"
  using dayOf_bounds [of t] by (simp_all add: startOfDay_def endOfDay_def)

lemma endOfDay_startOfDay: "endOfDay (startOfDay t) = endOfDay t"
  by (simp add: endOfDay_def)

text \<open>The months \<open>n, n + 1, \<dots>, n + p - 1\<close>, as a span of time.\<close>

definition monthsFrom :: "int \<Rightarrow> int \<Rightarrow> time \<times> time" where
  "monthsFrom n p = (monthStart n * msPerDay, monthStart (n + p) * msPerDay - 1)"

abbreviation modern :: "int \<Rightarrow> bool" where "modern d \<equiv> 100 \<le> yearOf d"

lemma newDate_modern: "100 \<le> y \<Longrightarrow> newDate y m dt = (monthStart (12 * y + m) + dt - 1) * msPerDay"
  by (simp add: newDate_def makeDay_monthStart)

lemma yearOf_monthStart [simp]: "yearOf (monthStart n) = n div 12"
  by (metis monthIndex_div_mod(1) monthIndex_monthStart)

lemma monthOf_monthStart [simp]: "monthOf (monthStart n) = n mod 12"
  by (metis monthIndex_div_mod(2) monthIndex_monthStart)

lemma dateOf_first [simp]: "dateOf (monthStart n) = 1"
  by (simp add: dateOf_monthStart)

lemma plusMonths_first: "plusMonths (monthStart n * msPerDay) k = monthStart (n + k) * msPerDay"
  by (simp add: plusMonths_eq)

lemma plusYears_first: "plusYears (monthStart n * msPerDay) k = monthStart (n + 12 * k) * msPerDay"
  by (simp add: plusYears_eq)

lemma day_idem [simp]: "startOfDay (d * msPerDay) = d * msPerDay" "endOfDay (endOfDay t) = endOfDay t"
  "startOfDay (startOfDay t) = startOfDay t"
  by (simp_all add: startOfDay_def endOfDay_def)

lemma endOfDay_pred [simp]: "endOfDay (d * msPerDay - 1) = d * msPerDay - 1"
proof -
  have "d * msPerDay - 1 = (d - 1) * msPerDay + (msPerDay - 1)" by simp
  then have "dayOf (d * msPerDay - 1) = d - 1" by (simp only: dayOf_of_day)
  then show ?thesis by (simp add: endOfDay_def)
qed

lemma endOfDay_before: "endOfDay (d * msPerDay - msPerDay) = d * msPerDay - 1"
proof -
  have "d * msPerDay - msPerDay = (d - 1) * msPerDay" by simp
  then show ?thesis unfolding endOfDay_def by (simp only: dayOf_of_day) simp
qed

abbreviation mi :: "time \<Rightarrow> int" where "mi t \<equiv> monthIndex (dayOf t)"

lemma mi_split: "mi t = 12 * yearOf (dayOf t) + monthOf (dayOf t)"
  by (simp add: monthIndex_def)

lemma div_in_year: "p * q = 12 \<Longrightarrow> 0 < p \<Longrightarrow> 12 * y + (m div p) * p = p * ((12 * y + m) div p)" for p q y m :: int
proof -
  assume pq: "p * q = 12" and p: "0 < p"
  have "12 * y + m = m + p * (q * y)" using pq by (simp flip: mult.assoc)
  then have "(12 * y + m) div p = q * y + m div p" using p by (simp only: div_mult_self2)
  then show ?thesis using pq by (simp add: distrib_left mult.commute flip: mult.assoc)
qed

lemma month_period:
  "modern (dayOf t) \<Longrightarrow> (startOfMonth t, endOfMonth t) = monthsFrom (mi t) 1"
  by (simp add: startOfMonth_def endOfMonth_def newDate_modern monthsFrom_def mi_split endOfDay_before
      add.assoc [symmetric])

lemma quarter_period:
  "modern (dayOf t) \<Longrightarrow> (startOfQuarter t, endOfQuarter t) = monthsFrom (3 * (mi t div 3)) 3"
  using div_in_year [of 3 4 "yearOf (dayOf t)" "monthOf (dayOf t)"]
  by (simp add: startOfQuarter_def endOfQuarter_def newDate_modern monthsFrom_def mi_split
      endOfDay_before Let_def add.assoc [symmetric])

lemma half_of_month: "(if monthOf d < 6 then 0 else 6) = (monthOf d div 6) * 6"
  using month_cases [OF monthOf_range, of d] by auto

lemma half_year_period:
  "modern (dayOf t) \<Longrightarrow> (startOfHalfYear t, endOfHalfYear t) = monthsFrom (6 * (mi t div 6)) 6"
proof -
  assume m: "modern (dayOf t)"
  have h: "(if monthOf (dayOf t) < 6 then 5 else 11) + 1 = (if monthOf (dayOf t) < 6 then 0 else 6) + (6 :: int)"
    by simp
  show ?thesis
    using m div_in_year [of 6 2 "yearOf (dayOf t)" "monthOf (dayOf t)"]
    unfolding startOfHalfYear_def endOfHalfYear_def Let_def h unfolding half_of_month
    by (simp add: newDate_modern monthsFrom_def mi_split endOfDay_before add.assoc [symmetric])
qed

lemma year_period:
  "modern (dayOf t) \<Longrightarrow> (startOfYear t, endOfYear t) = monthsFrom (12 * (mi t div 12)) 12"
proof -
  assume m: "modern (dayOf t)"
  have dec: "monthStart (12 * y + 11) + 31 - 1 = monthStart (12 * y + 12) - 1" for y
    using monthStart_year [of "y + 1"] by (simp add: monthStart_def dayFromYear_Suc)
  have "endOfYear t = endOfDay ((monthStart (12 * yearOf (dayOf t) + 12) - 1) * msPerDay)"
    unfolding endOfYear_def newDate_modern [OF m] dec ..
  then show ?thesis
    using m by (simp add: startOfYear_def newDate_modern monthsFrom_def endOfDay_before)
qed

lemma mod_7_pred: "(if x mod 7 = 0 then 7 else x mod 7) - 1 = (x - 1) mod (7 :: int)"
proof -
  define q r where "q = x div 7" and "r = x mod 7"
  have x: "x = 7 * q + r" by (simp add: q_def r_def)
  have r: "0 \<le> r" "r < 7" by (simp_all add: r_def)
  show ?thesis
  proof (cases "r = 0")
    case True
    then have "x - 1 = 7 * (q - 1) + 6" using x by simp
    moreover have "(7 * k + 6) mod 7 = (6 :: int)" for k by simp
    ultimately have "(x - 1) mod 7 = 6" by (simp only:)
    then show ?thesis using True by (simp add: r_def [symmetric])
  next
    case False
    then have "x - 1 = 7 * q + (r - 1)" "0 \<le> r - 1" "r - 1 < 7" using x r by simp_all
    then have "(x - 1) mod 7 = r - 1" by (simp only:) simp
    then show ?thesis using False by (simp add: r_def [symmetric])
  qed
qed

lemma week_start: "startOfWeek t = (dayOf t - (dayOf t + 3) mod 7) * msPerDay"
proof -
  have wd: "(if weekDay d = 0 then 7 else weekDay d) - 1 = (d + 3) mod 7" for d
    using mod_7_pred [of "4 + d"] unfolding weekDay_def by (simp add: add.commute)
  show ?thesis
    unfolding startOfWeek_def Let_def wd by (simp add: plusDays_eq startOfDay_def algebra_simps)
qed

lemma week_end: "endOfWeek t = startOfWeek t + 7 * msPerDay - 1"
  by (simp add: endOfWeek_def week_start plusDays_eq endOfDay_def dayOf_def)

section \<open>The contract of a calendar period\<close>

text \<open>
  A start/end pair of functions is a calendar period of \<open>p\<close> months when it yields the block of \<open>p\<close>
  whole months around its argument.
\<close>

locale calendar_period =
  fixes startOf endOf :: "time \<Rightarrow> time" and p :: int
  assumes period: "modern (dayOf t) \<Longrightarrow> (startOf t, endOf t) = monthsFrom (p * (mi t div p)) p"
    and p_pos: "0 < p" and p_le: "p \<le> 12"
begin

lemma start_eq: "modern (dayOf t) \<Longrightarrow> startOf t = monthStart (p * (mi t div p)) * msPerDay"
  and end_eq: "modern (dayOf t) \<Longrightarrow> endOf t = monthStart (p * (mi t div p) + p) * msPerDay - 1"
  using period [of t] by (simp_all add: monthsFrom_def)

lemma block: "p * (mi t div p) \<le> mi t" "mi t + 1 \<le> p * (mi t div p) + p"
  using div_bounds [OF p_pos, of "mi t"] by auto

lemma contains: "modern (dayOf t) \<Longrightarrow> startOf t \<le> t \<and> t \<le> endOf t"
proof -
  assume m: "modern (dayOf t)"
  have "monthStart (p * (mi t div p)) \<le> dayOf t" "dayOf t + 1 \<le> monthStart (p * (mi t div p) + p)"
    using block [of t, THEN monthStart_le] monthIndex_bounds [of "dayOf t"] by linarith+
  then show ?thesis using dayOf_bounds [of t] m by (simp add: start_eq end_eq)
qed

lemma start_le_end: "modern (dayOf t) \<Longrightarrow> startOf t \<le> endOf t"
  using contains by fastforce

lemma mi_block: "mi (monthStart (p * k) * msPerDay) div p = k"
  using p_pos by simp

lemma next_start: "modern (dayOf t) \<Longrightarrow> plusMonths (startOf t) p = endOf t + 1"
  by (simp add: start_eq end_eq plusMonths_first)

lemma next_modern: "modern (dayOf t) \<Longrightarrow> modern (dayOf (plusMonths (startOf t) p))"
  using next_start contains [of t] dayOf_mono [of t "endOf t + 1"] yearOf_mono [of "dayOf t"] by fastforce

lemma previous_start:
  "modern (dayOf t) \<Longrightarrow> plusMonths (startOf t) (- p) = monthStart (p * (mi t div p - 1)) * msPerDay"
  by (simp add: start_eq plusMonths_first algebra_simps)

lemma previous_end:
  assumes "102 \<le> yearOf (dayOf t)"
  shows "modern (dayOf (plusMonths (startOf t) (- p)))"
    and "endOf (plusMonths (startOf t) (- p)) + 1 = startOf t"
proof -
  have m: "modern (dayOf t)" using assms by simp
  have "12 * 102 \<le> mi t" using assms mi_split [of t] monthOf_range [of "dayOf t"] by linarith
  moreover have "p * (mi t div p - 1) = p * (mi t div p) - p" by (simp add: algebra_simps)
  ultimately have "1200 \<le> p * (mi t div p - 1)" using block(2) [of t] p_le by linarith
  then have "1200 div 12 \<le> p * (mi t div p - 1) div 12" by (rule zdiv_mono1) simp
  then show mp: "modern (dayOf (plusMonths (startOf t) (- p)))"
    using m by (simp add: previous_start)
  have "endOf (plusMonths (startOf t) (- p))
      = monthStart (p * (mi t div p - 1) + p) * msPerDay - 1"
    using mp m p_pos by (simp add: end_eq previous_start)
  also have "p * (mi t div p - 1) + p = p * (mi t div p)" by (simp add: algebra_simps)
  finally show "endOf (plusMonths (startOf t) (- p)) + 1 = startOf t"
    using m by (simp add: start_eq)
qed

lemma ordered:
  assumes "102 \<le> yearOf (dayOf t)"
  shows "startOf t \<le> t" "t \<le> endOf t" "startOf t \<le> endOf t"
    "plusMonths (startOf t) p \<le> endOf (plusMonths (startOf t) p)"
    "plusMonths (startOf t) (- p) \<le> endOf (plusMonths (startOf t) (- p))"
  using assms contains [of t] contains [OF next_modern [of t]] contains [OF previous_end(1) [OF assms]]
  by auto

lemma tiles:
  assumes "102 \<le> yearOf (dayOf t)"
  shows "plusMonths (startOf t) p = endOf t + 1"
    and "endOf (plusMonths (startOf t) (- p)) = startOf t - 1"
    and "plusMonths (startOf t) (- p) < startOf t" and "startOf t \<le> endOf t"
    and "endOf t + 1 \<le> endOf (endOf t + 1)"
  using assms next_start [of t] previous_end(2) [OF assms] ordered [OF assms] by auto

end

interpretation month: calendar_period startOfMonth endOfMonth 1
  by unfold_locales (simp_all add: month_period)

interpretation quarter: calendar_period startOfQuarter endOfQuarter 3
  by unfold_locales (simp_all add: quarter_period)

interpretation half_year: calendar_period startOfHalfYear endOfHalfYear 6
  by unfold_locales (simp_all add: half_year_period)

interpretation year: calendar_period startOfYear endOfYear 12
  by unfold_locales (simp_all add: year_period)

lemma week_contains: "startOfWeek t \<le> t" "t \<le> endOfWeek t" "startOfWeek t \<le> endOfWeek t"
proof -
  have "0 \<le> (dayOf t + 3) mod 7" "(dayOf t + 3) mod 7 < 7" by simp_all
  then show "startOfWeek t \<le> t" "t \<le> endOfWeek t" "startOfWeek t \<le> endOfWeek t"
    using dayOf_bounds [of t] unfolding week_end week_start by simp_all
qed

lemma week_tiles:
  "endOfWeek (plusDays (startOfWeek t) (- 7)) = startOfWeek t - 1"
  "plusDays (startOfWeek t) 7 = endOfWeek t + 1"
  "plusDays (startOfWeek t) (- 7) < startOfWeek t"
  "endOfWeek t + 1 \<le> endOfWeek (endOfWeek t + 1)"
proof -
  define d where "d = dayOf t - (dayOf t + 3) mod 7"
  have "(d + 3) mod 7 = ((dayOf t + 3) - (dayOf t + 3) mod 7) mod 7" by (simp add: d_def algebra_simps)
  also have "\<dots> = 0" by (simp add: minus_mod_eq_mult_div)
  finally have d0: "(d + 3) mod 7 = 0" .
  then obtain q where "d + 3 = 7 * q" by auto
  then have "d - 7 + 3 = 7 * (q - 1)" by simp
  then have d7: "(d - 7 + 3) mod 7 = 0" by (simp only:) simp
  have w: "startOfWeek t = d * msPerDay" by (simp add: week_start d_def)
  have bk: "plusDays (startOfWeek t) (- 7) = (d - 7) * msPerDay" by (simp add: w plusDays_eq algebra_simps)
  have "startOfWeek ((d - 7) * msPerDay) = (d - 7) * msPerDay"
    unfolding week_start dayOf_of_day d7 by simp
  then show "endOfWeek (plusDays (startOfWeek t) (- 7)) = startOfWeek t - 1"
    unfolding week_end [of "plusDays (startOfWeek t) (- 7)"] unfolding bk by (simp add: w algebra_simps)
  show "plusDays (startOfWeek t) 7 = endOfWeek t + 1" "plusDays (startOfWeek t) (- 7) < startOfWeek t"
    by (simp_all add: plusDays_eq week_end)
  show "endOfWeek t + 1 \<le> endOfWeek (endOfWeek t + 1)" by (rule week_contains)
qed

lemma plusYears_12: "plusYears t n = plusMonths t (12 * n)"
  by (simp add: plusYears_eq plusMonths_eq)

lemma modern_epoch: "0 \<le> now \<Longrightarrow> 1970 \<le> yearOf (dayOf now)"
proof -
  assume "0 \<le> now"
  then have "yearOf 0 \<le> yearOf (dayOf now)" by (intro yearOf_mono) (simp add: dayOf_def)
  moreover have "yearOf 0 = 1970" by (simp add: yearOf_def dayFromYear_def)
  ultimately show ?thesis by simp
qed

lemma midnight_plus [simp]:
  "startOfDay t = t \<Longrightarrow> startOfDay (plusMonths t n) = plusMonths t n"
  "startOfDay t = t \<Longrightarrow> startOfDay (plusYears t n) = plusYears t n"
  "startOfDay t = t \<Longrightarrow> startOfDay (plusDays t n) = plusDays t n"
proof -
  assume "startOfDay t = t"
  then obtain d where d: "t = d * msPerDay" by (metis startOfDay_def)
  then show "startOfDay (plusMonths t n) = plusMonths t n" for n
    by (simp add: plusMonths_eq startOfDay_def dayOf_def flip: left_diff_distrib)
  then show "startOfDay (plusYears t n) = plusYears t n" unfolding plusYears_12 .
  have "t + n * msPerDay = (d + n) * msPerDay" by (simp add: d)
  then show "startOfDay (plusDays t n) = plusDays t n" unfolding plusDays_eq by (simp only: day_idem)
qed

lemma midnight_starts [simp]:
  "startOfDay (startOfWeek t) = startOfWeek t" "startOfDay (startOfMonth t) = startOfMonth t"
  "startOfDay (startOfQuarter t) = startOfQuarter t" "startOfDay (startOfHalfYear t) = startOfHalfYear t"
  "startOfDay (startOfYear t) = startOfYear t"
  by (simp_all only: week_start startOfMonth_def startOfQuarter_def startOfHalfYear_def startOfYear_def
      newDate_def Let_def day_idem)

lemma day_ends [simp]:
  "endOfDay (endOfWeek t) = endOfWeek t" "endOfDay (endOfMonth t) = endOfMonth t"
  "endOfDay (endOfQuarter t) = endOfQuarter t" "endOfDay (endOfHalfYear t) = endOfHalfYear t"
  "endOfDay (endOfYear t) = endOfYear t"
  by (simp_all only: endOfWeek_def endOfMonth_def endOfQuarter_def endOfHalfYear_def endOfYear_def
      Let_def day_idem)

lemma endOfDay_least: "startOfDay now \<le> t \<Longrightarrow> endOfDay t = t \<Longrightarrow> now \<le> t"
  using dayOf_mono [of "startOfDay now" t] startOfDay_le(2) [of now]
  unfolding endOfDay_def dayOf_startOfDay by linarith

lemma plus_forward:
  "0 < n \<Longrightarrow> t \<le> endOfDay (plusDays t n)" "0 < n \<Longrightarrow> t \<le> endOfDay (plusMonths t n)"
  "0 < n \<Longrightarrow> plusDays t (- n) \<le> endOfDay t" "0 < n \<Longrightarrow> plusMonths t (- n) \<le> endOfDay t"
  using plusMonths_less [of 0 n t] plusMonths_less [of "- n" 0 t] startOfDay_le(2) [of "plusMonths t n"]
    startOfDay_le(2) [of "plusDays t n"] startOfDay_le(2) [of t]
  by (auto simp: plusMonths_0 plusDays_eq)

lemmas month_order = month.ordered quarter.ordered half_year.ordered year.ordered

lemmas range_order = startOfDay_le week_contains month.ordered quarter.ordered half_year.ordered year.ordered
  plus_forward plusYears_12

section \<open>Properties\<close>

text \<open>
  Every range that does not ask for custom dates resolves, and to a proper interval: it
  starts no later than it ends, at midnight, and ends at the last millisecond of a day.
\<close>

theorem report_range_ordered:
  assumes "0 \<le> now" and "i \<noteq> CUSTOM"
  shows "\<exists>f t. resolveReportRange parse i now custom = Inr (Some f, Some t) \<and> f \<le> t
           \<and> startOfDay f = f \<and> endOfDay t = t"
proof -
  have m: "102 \<le> yearOf (dayOf (startOfDay now))" using modern_epoch [OF assms(1)] by simp
  show ?thesis
    using assms(2) m range_order(1-3) week_contains
    by (cases i) (simp_all add: resolveReportRange_def range_order Let_def)
qed

theorem report_range_ordered_witness:
  "\<exists>f t. resolveReportRange (\<lambda>_. None) LAST_MONTH 1700000000000 None = Inr (Some f, Some t) \<and> f \<le> t
     \<and> startOfDay f = f \<and> endOfDay t = t"
  by (rule report_range_ordered) simp_all

text \<open>
  The ranges named after the current day or period contain the present moment.
\<close>

theorem report_range_contains_now:
  assumes "0 \<le> now"
    and "i \<in> {TODAY, THIS_WEEK, THIS_MONTH, THIS_QUARTER, THIS_HALF_YEAR, THIS_YEAR,
               WEEK_TO_END, MONTH_TO_END, QUARTER_TO_END, HALF_YEAR_TO_END, YEAR_TO_END}"
  shows "\<exists>f t. resolveReportRange parse i now custom = Inr (Some f, Some t) \<and> f \<le> now \<and> now \<le> t"
proof -
  have m: "102 \<le> yearOf (dayOf (startOfDay now))" using modern_epoch [OF assms(1)] by simp
  have le: "f \<le> startOfDay now \<Longrightarrow> f \<le> now" for f using startOfDay_le [of now] by simp
  note lo = week_contains(1) [of "startOfDay now", THEN le] month.ordered(1) [OF m, THEN le]
    quarter.ordered(1) [OF m, THEN le] half_year.ordered(1) [OF m, THEN le] year.ordered(1) [OF m, THEN le]
  have hi: "now \<le> endOfWeek (startOfDay now)" "now \<le> endOfMonth (startOfDay now)"
    "now \<le> endOfQuarter (startOfDay now)" "now \<le> endOfHalfYear (startOfDay now)"
    "now \<le> endOfYear (startOfDay now)" "now \<le> endOfDay now"
    by (rule endOfDay_least; use month_order [OF m] week_contains startOfDay_le in simp)+
  show ?thesis
    using assms(2) lo hi
    by (auto simp: resolveReportRange_def Let_def startOfDay_le endOfDay_startOfDay)
qed

theorem report_range_contains_now_witness:
  "\<exists>f t. resolveReportRange (\<lambda>_. None) THIS_QUARTER 1700000000000 None = Inr (Some f, Some t)
     \<and> f \<le> 1700000000000 \<and> 1700000000000 \<le> t"
  by (rule report_range_contains_now) simp_all

text \<open>
  The calendar periods tile the calendar: the last one ends one millisecond before this
  one starts, and the next one starts one millisecond after this one ends, for weeks, months,
  quarters, half-years and years alike.
\<close>

theorem report_ranges_tile:
  assumes "0 \<le> now"
    and "(l, c, n) \<in> {(LAST_WEEK, THIS_WEEK, NEXT_WEEK), (LAST_MONTH, THIS_MONTH, NEXT_MONTH),
           (LAST_QUARTER, THIS_QUARTER, NEXT_QUARTER), (LAST_HALF_YEAR, THIS_HALF_YEAR, NEXT_HALF_YEAR),
           (LAST_YEAR, THIS_YEAR, NEXT_YEAR)}"
  shows "\<exists>a b e d. resolveReportRange parse l now custom = Inr (Some a, Some (b - 1))
           \<and> resolveReportRange parse c now custom = Inr (Some b, Some (e - 1))
           \<and> resolveReportRange parse n now custom = Inr (Some e, Some d)
           \<and> a < b \<and> b < e \<and> e \<le> d"
proof -
  have m: "102 \<le> yearOf (dayOf (startOfDay now))" using modern_epoch [OF assms(1)] by simp
  show ?thesis
    using assms(2)
    by (auto simp: resolveReportRange_def Let_def plusYears_12 week_tiles week_contains
        month.tiles [OF m] quarter.tiles [OF m] half_year.tiles [OF m] year.tiles [OF m])
qed

theorem report_ranges_tile_witness:
  "\<exists>b e d. resolveReportRange (\<lambda>_. None) LAST_YEAR 1700000000000 None = Inr (Some d, Some (b - 1))
     \<and> resolveReportRange (\<lambda>_. None) THIS_YEAR 1700000000000 None = Inr (Some b, Some (e - 1)) \<and> b < e"
  using report_ranges_tile [of 1700000000000 LAST_YEAR THIS_YEAR NEXT_YEAR "\<lambda>_. None" None] by auto

end
