(* ===== verification/JS_Number.thy ===== *)
theory JS_Number
  imports Complex_Main Prelude
begin

text \<open>
  The numbers of the source. A JavaScript \<open>number\<close> is an IEEE 754 binary64 value; every
  arithmetic operator rounds the exact result to the nearest double, ties to even. A value is
  represented by the rational number it denotes, and \<open>fl\<close> is the rounding. NaN, the
  infinities and the bounds of the exponent are outside the model: every amount of the program
  fits a \<open>Decimal(16, 2)\<close> column, and the code guards its divisions.

  A \<open>Decimal(p, 2)\<close> column holds a whole number of hundredths (pesewas), an \<open>int\<close> here;
  \<open>cents k\<close> is what \<open>Number(column)\<close> reads back, and \<open>toDec2\<close> what the column stores when
  the code writes a number to it.
\<close>

type_synonym num = rat

section \<open>Rounding to binary64\<close>

subsection \<open>The binary exponent of a positive rational\<close>

function blen :: "int \<Rightarrow> int" where
  "blen n = (if n \<le> 0 then 0 else 1 + blen (n div 2))"
  by pat_completeness auto
termination by (relation "measure nat") auto

declare blen.simps [simp del]

lemma blen_nonneg: "0 \<le> blen n"
proof (induction n rule: blen.induct)
  case (1 n)
  then show ?case by (subst blen.simps) auto
qed

lemma blen_bounds:
  assumes "0 < n"
  shows "2 powi (blen n - 1) \<le> (of_int n :: rat) \<and> (of_int n :: rat) < 2 powi (blen n)"
  using assms
proof (induction n rule: blen.induct)
  case (1 n)
  show ?case
  proof (cases "n = 1")
    case True
    then show ?thesis by (simp add: blen.simps)
  next
    case False
    with "1.prems" have pos: "0 < n div 2" by simp
    have eq: "blen n = 1 + blen (n div 2)" using "1.prems" by (subst blen.simps) simp
    have IH: "2 powi (blen (n div 2) - 1) \<le> (of_int (n div 2) :: rat)"
      "(of_int (n div 2) :: rat) < 2 powi (blen (n div 2))"
      using "1.IH" "1.prems" pos by auto
    define q where "q = n div 2"
    have n: "n = 2 * q \<or> n = 2 * q + 1" unfolding q_def by presburger
    have e: "(2 :: rat) powi (blen q) = 2 * 2 powi (blen q - 1)"
      by (subst power_int_add_1' [symmetric]) auto
    have "(of_int q :: rat) + 1 \<le> 2 powi (blen q)"
    proof -
      have "(2 :: rat) powi (blen q) = of_int (2 ^ nat (blen q))"
        using blen_nonneg [of q] by (simp add: power_int_nonneg_exp)
      then show ?thesis using IH(2) unfolding q_def [symmetric]
        by (metis of_int_add of_int_1 of_int_le_iff of_int_less_iff zless_imp_add1_zle)
    qed
    then have "(of_int n :: rat) < 2 * 2 powi (blen q)" using n by auto
    moreover have "2 * 2 powi (blen q - 1) \<le> (of_int n :: rat)"
      using IH(1) n unfolding q_def [symmetric] by auto
    moreover have "(2 :: rat) powi (1 + blen q) = 2 * 2 powi (blen q)"
      by (subst power_int_add) auto
    ultimately show ?thesis using eq e unfolding q_def [symmetric] by simp
  qed
qed

definition flog :: "rat \<Rightarrow> int" where
  "flog x = (case quotient_of x of (a, b) \<Rightarrow>
     let e = blen a - blen b in if 2 powi e \<le> x then e else e - 1)"

lemma flog_bounds:
  assumes "0 < x"
  shows "2 powi (flog x) \<le> x" and "x < 2 powi (flog x + 1)"
proof -
  obtain a b where q: "quotient_of x = (a, b)" by force
  then have x: "x = of_int a / of_int b" and b: "0 < b"
    by (auto simp: quotient_of_div quotient_of_denom_pos)
  with assms have a: "0 < a" by (simp add: zero_less_divide_iff)
  note A = blen_bounds [OF a] and B = blen_bounds [OF b]
  define e where "e = blen a - blen b"
  have pos: "0 < (of_int b :: rat)" using b by simp
  have "x * of_int b = of_int a" using x pos by simp
  have lower: "2 powi (e - 1) \<le> x"
  proof -
    have "2 powi (e - 1) * of_int b \<le> (2 :: rat) powi (e - 1) * 2 powi (blen b)"
      using B by (intro mult_left_mono) auto
    also have "\<dots> = (2 :: rat) powi (blen a - 1)"
      by (subst power_int_add [symmetric]) (auto simp: e_def)
    also have "\<dots> \<le> of_int a" using A by simp
    finally show ?thesis using pos \<open>x * of_int b = of_int a\<close>
      by (metis mult_le_cancel_right_pos)
  qed
  have upper: "x < 2 powi (e + 1)"
  proof -
    have "of_int a < (2 :: rat) powi (blen a)" using A by simp
    also have "\<dots> = 2 powi (e + 1) * 2 powi (blen b - 1)"
      by (subst power_int_add [symmetric]) (auto simp: e_def)
    also have "\<dots> \<le> 2 powi (e + 1) * of_int b"
      using B by (intro mult_left_mono) auto
    finally show ?thesis using pos \<open>x * of_int b = of_int a\<close>
      by (metis mult_less_cancel_right_pos)
  qed
  have "flog x = (if 2 powi e \<le> x then e else e - 1)"
    by (simp add: flog_def q e_def Let_def)
  with lower upper show "2 powi (flog x) \<le> x" and "x < 2 powi (flog x + 1)"
    by (auto split: if_splits)
qed

lemma powi2_less_iff: "(2 :: rat) powi m < 2 powi n \<longleftrightarrow> m < n"
  by (metis linorder_not_le one_less_numeral_iff power_int_increasing power_int_strict_increasing
      semiring_norm(76) less_imp_le)

lemma flog_le_iff: "0 < x \<Longrightarrow> x < 2 powi (e + 1) \<Longrightarrow> flog x \<le> e"
  using flog_bounds [of x] powi2_less_iff [of "flog x" "e + 1"] by linarith

lemma flog_ge_iff: "0 < x \<Longrightarrow> 2 powi e \<le> x \<Longrightarrow> e \<le> flog x"
  using flog_bounds [of x] powi2_less_iff [of e "flog x + 1"] by linarith

lemma flog_mono: "0 < x \<Longrightarrow> x \<le> y \<Longrightarrow> flog x \<le> flog y"
  using flog_bounds [of x] flog_ge_iff [of y "flog x"] by linarith

subsection \<open>Round half to even, and the rounding to 53 significant bits\<close>

definition rne :: "rat \<Rightarrow> int" where
  "rne y = (let f = \<lfloor>y\<rfloor>; d = y - of_int f in
     if d < 1/2 then f else if 1/2 < d then f + 1 else if even f then f else f + 1)"

lemma rne_of_int [simp]: "rne (of_int k) = k"
  by (simp add: rne_def)

lemma rne_error: "\<bar>of_int (rne y) - y\<bar> \<le> 1/2"
  unfolding rne_def Let_def by (auto simp: abs_if) linarith+

lemma rne_mono:
  assumes "x \<le> y" shows "rne x \<le> rne y"
proof (cases "\<lfloor>x\<rfloor> = \<lfloor>y\<rfloor>")
  case True
  with assms show ?thesis unfolding rne_def Let_def by auto
next
  case False
  with assms have "\<lfloor>x\<rfloor> + 1 \<le> \<lfloor>y\<rfloor>" using floor_mono [OF assms] by simp
  moreover have "rne x \<le> \<lfloor>x\<rfloor> + 1" and "\<lfloor>y\<rfloor> \<le> rne y"
    by (auto simp: rne_def Let_def)
  ultimately show ?thesis by simp
qed

lemma rne_minus: "rne (- y) = - rne y"
proof (cases "y = of_int \<lfloor>y\<rfloor>")
  case True
  then obtain k where "y = of_int k" by blast
  then show ?thesis by (metis of_int_minus rne_of_int)
next
  case False
  then have "\<lfloor>- y\<rfloor> = - \<lfloor>y\<rfloor> - 1" by linarith
  then show ?thesis unfolding rne_def Let_def by auto
qed

definition fl :: "rat \<Rightarrow> num" where
  "fl x = (if x = 0 then 0
           else let u = 2 powi (flog \<bar>x\<bar> - 52) in of_int (rne (x / u)) * u)"

lemma fl_0 [simp]: "fl 0 = 0"
  by (simp add: fl_def)

lemma fl_minus: "fl (- x) = - fl x"
  by (simp add: fl_def Let_def rne_minus)

text \<open>The unit in the last place of a positive number, and the significand's size.\<close>

lemma ulp_scale:
  assumes "0 < x"
  shows "2 ^ 52 \<le> x / 2 powi (flog x - 52)" and "x / 2 powi (flog x - 52) < 2 ^ 53"
proof -
  have u: "(0 :: rat) < 2 powi (flog x - 52)" by simp
  have e1: "(2 :: rat) powi (flog x) = 2 ^ 52 * 2 powi (flog x - 52)"
    by (subst power_int_of_nat [symmetric], subst power_int_add [symmetric]) auto
  have e2: "(2 :: rat) powi (flog x + 1) = 2 ^ 53 * 2 powi (flog x - 52)"
    by (subst power_int_of_nat [symmetric], subst power_int_add [symmetric])
       (auto simp: add.commute)
  show "2 ^ 52 \<le> x / 2 powi (flog x - 52)"
    using flog_bounds(1) [OF assms] e1 u by (simp add: pos_le_divide_eq)
  show "x / 2 powi (flog x - 52) < 2 ^ 53"
    using flog_bounds(2) [OF assms] e2 u by (simp add: pos_divide_less_eq)
qed

lemma rne_bounds:
  "of_int a \<le> x \<Longrightarrow> a \<le> rne x"
  "x \<le> of_int b \<Longrightarrow> rne x \<le> b"
  using rne_mono [of "of_int a" x] rne_mono [of x "of_int b"] by simp_all

lemma fl_pos_form:
  assumes "0 < x"
  obtains m where "fl x = of_int m * 2 powi (flog x - 52)" and "2 ^ 52 \<le> m" and "m \<le> 2 ^ 53"
    and "\<bar>of_int m - x / 2 powi (flog x - 52)\<bar> \<le> 1/2"
proof
  let ?m = "rne (x / 2 powi (flog x - 52))"
  show "fl x = of_int ?m * 2 powi (flog x - 52)" using assms by (simp add: fl_def Let_def)
  show "2 ^ 52 \<le> ?m" using ulp_scale(1) [OF assms] by (intro rne_bounds) simp
  show "?m \<le> 2 ^ 53" using ulp_scale(2) [OF assms] by (intro rne_bounds) simp
  show "\<bar>of_int ?m - x / 2 powi (flog x - 52)\<bar> \<le> 1/2" by (rule rne_error)
qed

lemma fl_pos: "0 < x \<Longrightarrow> 0 < fl x"
  by (erule fl_pos_form) simp

lemma fl_nonneg: "0 \<le> x \<Longrightarrow> 0 \<le> fl x"
  using fl_pos [of x] by (cases "x = 0") auto

lemma fl_eq_0_iff [simp]: "fl x = 0 \<longleftrightarrow> x = 0"
  using fl_pos [of x] fl_pos [of "- x"] fl_minus [of x] by (cases "x = 0") (auto simp: neq_iff)

lemma fl_between:
  assumes "0 < x"
  shows "2 powi (flog x) \<le> fl x" and "fl x \<le> 2 powi (flog x + 1)"
proof -
  obtain m where m: "fl x = of_int m * 2 powi (flog x - 52)" "2 ^ 52 \<le> m" "m \<le> 2 ^ 53"
    using fl_pos_form [OF assms] by metis
  have e1: "(2 :: rat) powi (flog x) = 2 ^ 52 * 2 powi (flog x - 52)"
    by (subst power_int_of_nat [symmetric], subst power_int_add [symmetric]) auto
  have e2: "(2 :: rat) powi (flog x + 1) = 2 ^ 53 * 2 powi (flog x - 52)"
    by (subst power_int_of_nat [symmetric], subst power_int_add [symmetric])
       (auto simp: add.commute)
  have "(of_int (2 ^ 52) :: rat) \<le> of_int m" "(of_int m :: rat) \<le> of_int (2 ^ 53)"
    using m(2,3) by (simp_all only: of_int_le_iff)
  then have "(2 ^ 52 :: rat) \<le> of_int m" "of_int m \<le> (2 ^ 53 :: rat)" by simp_all
  then show "2 powi (flog x) \<le> fl x" and "fl x \<le> 2 powi (flog x + 1)"
    unfolding e1 e2 m(1) by (auto intro!: mult_right_mono)
qed

lemma fl_mono_pos:
  assumes "0 < x" and "x \<le> y"
  shows "fl x \<le> fl y"
proof (cases "flog x = flog y")
  case True
  have "rne (x / 2 powi (flog x - 52)) \<le> rne (y / 2 powi (flog x - 52))"
    using assms by (intro rne_mono divide_right_mono) auto
  then have "(of_int (rne (x / 2 powi (flog x - 52))) :: rat) \<le> of_int (rne (y / 2 powi (flog x - 52)))"
    by simp
  then show ?thesis using assms True by (simp add: fl_def Let_def mult_right_mono)
next
  case False
  then have "flog x + 1 \<le> flog y" using flog_mono [OF assms] by simp
  then have "(2 :: rat) powi (flog x + 1) \<le> 2 powi (flog y)" by (simp add: power_int_increasing)
  with fl_between(2) [of x] fl_between(1) [of y] assms show ?thesis by linarith
qed

lemma fl_mono: "x \<le> y \<Longrightarrow> fl x \<le> fl y"
proof -
  assume le: "x \<le> y"
  consider "0 < x" | "x \<le> 0" "0 \<le> y" | "y < 0" by linarith
  then show ?thesis
  proof cases
    case 1
    then show ?thesis using fl_mono_pos le by simp
  next
    case 2
    then show ?thesis using fl_nonneg [of y] fl_nonneg [of "- x"] by (simp add: fl_minus)
  next
    case 3
    then show ?thesis using fl_mono_pos [of "- y" "- x"] le by (simp add: fl_minus)
  qed
qed

text \<open>The error of one rounding is at most \<open>2\<^sup>-\<^sup>5\<^sup>3\<close> of the value.\<close>

lemma fl_error_pos:
  assumes "0 < x" shows "\<bar>fl x - x\<bar> \<le> x / 2 ^ 53"
proof -
  define u where "u = (2 :: rat) powi (flog x - 52)"
  obtain m where m: "fl x = of_int m * u" "\<bar>of_int m - x / u\<bar> \<le> 1/2"
    using fl_pos_form [OF assms] unfolding u_def by metis
  have u: "0 < u" by (simp add: u_def)
  have "fl x - x = (of_int m - x / u) * u" using m(1) u by (simp add: field_simps)
  then have "\<bar>fl x - x\<bar> = \<bar>of_int m - x / u\<bar> * u" using u by (simp add: abs_mult)
  also have "\<dots> \<le> 1/2 * u" using m(2) u by (intro mult_right_mono) auto
  also have "\<dots> \<le> x / 2 ^ 53"
    using ulp_scale(1) [OF assms] u unfolding u_def [symmetric] by (simp add: field_simps)
  finally show ?thesis .
qed

lemma fl_error: "\<bar>fl x - x\<bar> \<le> \<bar>x\<bar> / 2 ^ 53"
  using fl_error_pos [of x] fl_error_pos [of "- x"]
  by (cases "x = 0") (auto simp: fl_minus abs_if neq_iff split: if_splits)

text \<open>Numbers with at most 53 significant bits are doubles: rounding leaves them alone.\<close>

lemma fl_exact_pos:
  assumes x: "x = of_int m * 2 powi k" and m: "0 < m" "m \<le> 2 ^ 53"
  shows "fl x = x"
proof (cases "m = 2 ^ 53")
  case True
  then have x2: "x = 2 powi (k + 53)" using x by (simp add: power_int_add)
  then have pos: "0 < x" by simp
  have "flog x = k + 53"
  proof (rule antisym)
    show "flog x \<le> k + 53" by (rule flog_le_iff [OF pos]) (simp only: x2 powi2_less_iff)
    show "k + 53 \<le> flog x" by (rule flog_ge_iff [OF pos]) (simp only: x2)
  qed
  moreover have "(2 :: rat) powi (k + 53) = 2 ^ 52 * 2 powi (k + 1)"
    by (subst power_int_of_nat [symmetric], subst power_int_add [symmetric])
       (auto simp: add.commute)
  ultimately have "x / 2 powi (flog x - 52) = of_int (2 ^ 52)"
    using x2 by (simp add: add.commute)
  then have "rne (x / 2 powi (flog x - 52)) = 2 ^ 52" by (metis rne_of_int)
  then show ?thesis using pos \<open>x / 2 powi (flog x - 52) = of_int (2 ^ 52)\<close>
    by (simp add: fl_def Let_def) (simp add: field_simps)
next
  case False
  with m have m53: "m < 2 ^ 53" by simp
  have pos: "0 < x" using x m by simp
  have "x < 2 powi (k + 53)"
  proof -
    have "(of_int m :: rat) < 2 ^ 53" using m53 by (metis of_int_less_iff of_int_numeral of_int_power)
    then show ?thesis using x by (simp add: power_int_add)
  qed
  then have e: "flog x \<le> k + 52" using flog_le_iff [OF pos, of "k + 52"] by (simp add: add.assoc)
  define n where "n = nat (k + 52 - flog x)"
  obtain u where u: "u = (2 :: rat) powi (flog x - 52)" by blast
  then have upos: "0 < u" by simp
  have "(2 :: rat) powi k = 2 ^ n * u"
    unfolding u using e by (subst power_int_of_nat [symmetric], subst power_int_add [symmetric])
      (auto simp: n_def)
  with x have xu: "of_int (m * 2 ^ n) * u = x" by simp
  then have "x / u = of_int (m * 2 ^ n)" using upos by (metis nonzero_mult_div_cancel_right less_numeral_extra(3))
  then have r: "rne (x / u) = m * 2 ^ n" by (metis rne_of_int)
  have "fl x = of_int (rne (x / u)) * u" using pos unfolding u by (simp add: fl_def Let_def)
  then show ?thesis unfolding r xu .
qed

lemma fl_exact:
  assumes "x = of_int m * 2 powi k" and "\<bar>m\<bar> \<le> 2 ^ 53"
  shows "fl x = x"
proof -
  consider "m = 0" | "0 < m" | "m < 0" by linarith
  then show ?thesis
  proof cases
    case 1
    then show ?thesis using assms by simp
  next
    case 2
    then show ?thesis using fl_exact_pos [OF assms(1)] assms(2) by simp
  next
    case 3
    then have "fl (- x) = - x" using assms by (intro fl_exact_pos [of _ "- m" k]) auto
    then show ?thesis by (simp add: fl_minus)
  qed
qed

lemma fl_of_int: "\<bar>m\<bar> \<le> 2 ^ 53 \<Longrightarrow> fl (of_int m) = of_int m"
  by (rule fl_exact [of _ m 0]) auto

lemma fl_numeral [simp]: "numeral n \<le> (2 ^ 53 :: int) \<Longrightarrow> fl (numeral n) = numeral n"
  using fl_of_int [of "numeral n"] by simp

lemma fl_neg_numeral [simp]: "numeral n \<le> (2 ^ 53 :: int) \<Longrightarrow> fl (- numeral n) = - numeral n"
  by (simp add: fl_minus)

lemma fl_1 [simp]: "fl 1 = 1"
  using fl_of_int [of 1] by simp

lemma fl_fl [simp]: "fl (fl x) = fl x"
proof (cases "x = 0")
  case False
  have pos: "fl (fl y) = fl y" if y: "0 < y" for y
  proof -
    obtain m where "fl y = of_int m * 2 powi (flog y - 52)" "2 ^ 52 \<le> m" "m \<le> 2 ^ 53"
      using fl_pos_form [OF y] by metis
    then show ?thesis by (intro fl_exact [of _ m "flog y - 52"]) auto
  qed
  show ?thesis using pos [of x] pos [of "- x"] False by (auto simp: fl_minus neq_iff)
qed simp


section \<open>The operators of the source\<close>

definition nadd :: "num \<Rightarrow> num \<Rightarrow> num" where "nadd a b = fl (a + b)"
definition nsub :: "num \<Rightarrow> num \<Rightarrow> num" where "nsub a b = fl (a - b)"
definition nmul :: "num \<Rightarrow> num \<Rightarrow> num" where "nmul a b = fl (a * b)"
definition ndiv :: "num \<Rightarrow> num \<Rightarrow> num" where "ndiv a b = fl (a / b)"

text \<open>\<open>Math.round\<close>: the nearest integer, halves upwards.\<close>

definition mathRound :: "num \<Rightarrow> int" where "mathRound x = \<lfloor>x + 1/2\<rfloor>"

text \<open>
  \<open>Math.round(n * 100) / 100\<close>, which the source repeats in several files under the name
  \<open>round2\<close> (and, with 1000, \<open>round3\<close>).
\<close>

definition round2 :: "num \<Rightarrow> num" where
  "round2 n = ndiv (of_int (mathRound (nmul n 100))) 100"

definition round3 :: "num \<Rightarrow> num" where
  "round3 n = ndiv (of_int (mathRound (nmul n 1000))) 1000"

text \<open>\<open>xs.reduce((s, x) => s + x, 0)\<close>.\<close>

definition nsum :: "num list \<Rightarrow> num" where
  "nsum xs = foldl nadd 0 xs"

lemmas num_ops = nadd_def nsub_def nmul_def ndiv_def

lemma nadd_nonneg: "0 \<le> a \<Longrightarrow> 0 \<le> b \<Longrightarrow> 0 \<le> nadd a b"
  by (simp add: nadd_def fl_nonneg)

lemma nsub_nonneg: "b \<le> a \<Longrightarrow> 0 \<le> nsub a b"
  by (simp add: nsub_def fl_nonneg)

lemma nsub_self [simp]: "nsub a a = 0"
  by (simp add: nsub_def)

lemma nmul_nonneg: "0 \<le> a \<Longrightarrow> 0 \<le> b \<Longrightarrow> 0 \<le> nmul a b"
  by (simp add: nmul_def fl_nonneg)

lemma ndiv_nonneg: "0 \<le> a \<Longrightarrow> 0 \<le> b \<Longrightarrow> 0 \<le> ndiv a b"
  by (simp add: ndiv_def fl_nonneg)

lemma nadd_0 [simp]: "nadd 0 x = fl x" "nadd x 0 = fl x"
  by (simp_all add: nadd_def)

lemma mathRound_mono: "a \<le> b \<Longrightarrow> mathRound a \<le> mathRound b"
  by (simp add: mathRound_def floor_mono)

lemma mathRound_of_int [simp]: "mathRound (of_int k) = k"
  unfolding mathRound_def by linarith

lemma mathRound_0 [simp]: "mathRound 0 = 0"
  using mathRound_of_int [of 0] by simp

lemma mathRound_near: "\<bar>x - of_int k\<bar> < 1/2 \<Longrightarrow> mathRound x = k"
  unfolding mathRound_def by linarith

lemma round2_mono: "a \<le> b \<Longrightarrow> round2 a \<le> round2 b"
  by (simp add: round2_def num_ops fl_mono mathRound_mono divide_right_mono)

lemma round2_0 [simp]: "round2 0 = 0"
  by (simp add: round2_def num_ops)

lemma round2_nonneg: "0 \<le> a \<Longrightarrow> 0 \<le> round2 a"
  using round2_mono [of 0 a] by simp

lemma fl_round2 [simp]: "fl (round2 x) = round2 x"
  by (simp add: round2_def ndiv_def)

section \<open>Whole hundredths\<close>

text \<open>
  \<open>cents k\<close> is the double nearest to \<open>k / 100\<close>: the value of every money column as the code
  reads it. The bound \<open>10 ^ 14\<close> on the number of hundredths is the range of \<open>Decimal(14, 2)\<close>.
\<close>

definition cents :: "int \<Rightarrow> num" where
  "cents k = fl (of_int k / 100)"

abbreviation dec14 :: "int \<Rightarrow> bool" where
  "dec14 k \<equiv> \<bar>k\<bar> \<le> 10 ^ 14"

lemma cents_0 [simp]: "cents 0 = 0"
  by (simp add: cents_def)

lemma cents_minus: "cents (- k) = - cents k"
  by (simp add: cents_def fl_minus)

lemma fl_cents [simp]: "fl (cents k) = cents k"
  by (simp add: cents_def)

lemma cents_whole: "\<bar>n\<bar> \<le> 2 ^ 53 \<Longrightarrow> cents (100 * n) = of_int n"
  by (simp add: cents_def fl_of_int)

lemma round2_cents_form: "round2 x = cents (mathRound (nmul x 100))"
  by (simp add: round2_def ndiv_def cents_def)

lemma dec14_rat: "dec14 k \<Longrightarrow> \<bar>of_int k :: rat\<bar> \<le> 10 ^ 14"
  by (metis of_int_abs of_int_le_iff of_int_numeral of_int_power)

lemma dec14_value: "dec14 k \<Longrightarrow> \<bar>of_int k / 100 :: rat\<bar> \<le> 1000000000000"
  using dec14_rat [of k] by simp

lemma cents_error: "dec14 k \<Longrightarrow> \<bar>cents k - of_int k / 100\<bar> \<le> 1 / 8000"
  using fl_error [of "of_int k / 100"] dec14_rat [of k] by (simp add: cents_def)

lemma cents_error_rel: "\<bar>cents k - of_int k / 100\<bar> \<le> \<bar>of_int k / 100\<bar> / 2 ^ 53"
  using fl_error [of "of_int k / 100"] by (simp add: cents_def)

lemma cents_mono: "k \<le> l \<Longrightarrow> cents k \<le> cents l"
  by (simp add: cents_def fl_mono divide_right_mono)

lemma cents_less: "dec14 k \<Longrightarrow> dec14 l \<Longrightarrow> k < l \<Longrightarrow> cents k < cents l"
proof -
  assume k: "dec14 k" and l: "dec14 l" and "k < l"
  then have "(of_int k :: rat) + 1 \<le> of_int l" by (metis of_int_1 of_int_add of_int_le_iff zless_imp_add1_zle)
  with cents_error [OF k] cents_error [OF l] show ?thesis unfolding abs_le_iff by linarith
qed

lemma cents_le_iff: "dec14 k \<Longrightarrow> dec14 l \<Longrightarrow> cents k \<le> cents l \<longleftrightarrow> k \<le> l"
  using cents_mono [of k l] cents_less [of l k] by linarith

lemma cents_less_iff: "dec14 k \<Longrightarrow> dec14 l \<Longrightarrow> cents k < cents l \<longleftrightarrow> k < l"
  using cents_le_iff [of l k] by linarith

lemma cents_eq_iff: "dec14 k \<Longrightarrow> dec14 l \<Longrightarrow> cents k = cents l \<longleftrightarrow> k = l"
  using cents_le_iff [of k l] cents_le_iff [of l k] by auto

lemma cents_pos_iff: "dec14 k \<Longrightarrow> 0 < cents k \<longleftrightarrow> 0 < k"
  using cents_less_iff [of 0 k] by simp

lemma cents_nonneg_iff [simp]: "0 \<le> cents k \<longleftrightarrow> 0 \<le> k"
  using cents_mono [of 0 k] fl_pos [of "of_int (- k) / 100"]
  by (cases "0 \<le> k") (auto simp: cents_def fl_minus)

text \<open>\<open>round2\<close> recovers the hundredths from any value within four tenths of one.\<close>

lemma round2_near:
  assumes near: "\<bar>x - of_int k / 100\<bar> \<le> 4 / 1000" and k: "dec14 k"
  shows "round2 x = cents k"
proof -
  have near': "\<bar>x * 100 - of_int k\<bar> \<le> 4 / 10" using near unfolding abs_le_iff by linarith
  have "\<bar>x * 100\<bar> \<le> 10 ^ 14 + 1" using near' dec14_rat [OF k] unfolding abs_le_iff by linarith
  then have "\<bar>nmul x 100 - x * 100\<bar> \<le> (10 ^ 14 + 1) / 2 ^ 53"
    unfolding nmul_def by (intro order_trans [OF fl_error] divide_right_mono) auto
  moreover have "(10 ^ 14 + 1 :: rat) / 2 ^ 53 < 9 / 100" by simp
  ultimately have "\<bar>nmul x 100 - of_int k\<bar> < 1/2"
    using near' unfolding abs_le_iff abs_less_iff by linarith
  then show ?thesis by (simp add: round2_cents_form mathRound_near)
qed

lemma round2_cents [simp]: "dec14 k \<Longrightarrow> round2 (cents k) = cents k"
  using cents_error [of k] by (intro round2_near) auto

lemma nadd_cents_error:
  assumes "dec14 a" "dec14 b" "dec14 (a + b)"
  shows "\<bar>nadd (cents a) (cents b) - of_int (a + b) / 100\<bar> \<le> 1 / 1000"
proof -
  have sum: "\<bar>cents a + cents b - of_int (a + b) / 100\<bar> \<le> 1 / 4000"
    using cents_error [OF assms(1)] cents_error [OF assms(2)]
    unfolding abs_le_iff of_int_add add_divide_distrib by linarith
  then have "\<bar>cents a + cents b\<bar> \<le> 1000000000001"
    using dec14_value [OF assms(3)] unfolding abs_le_iff by linarith
  then have "\<bar>nadd (cents a) (cents b) - (cents a + cents b)\<bar> \<le> 1000000000001 / 2 ^ 53"
    unfolding nadd_def by (intro order_trans [OF fl_error] divide_right_mono) auto
  moreover have "(1000000000001 :: rat) / 2 ^ 53 \<le> 1 / 8000" by simp
  ultimately show ?thesis using sum unfolding abs_le_iff by linarith
qed

lemma round2_add: "dec14 a \<Longrightarrow> dec14 b \<Longrightarrow> dec14 (a + b) \<Longrightarrow> round2 (nadd (cents a) (cents b)) = cents (a + b)"
  using nadd_cents_error [of a b] by (intro round2_near) linarith+

lemma round2_sub: "dec14 a \<Longrightarrow> dec14 b \<Longrightarrow> dec14 (a - b) \<Longrightarrow> round2 (nsub (cents a) (cents b)) = cents (a - b)"
  using round2_add [of a "- b"] by (simp add: nadd_def nsub_def cents_minus)

subsection \<open>Sums of columns\<close>

text \<open>
  A running sum of doubles accumulates one rounding error per term. As long as \<open>M\<close> bounds every
  partial sum, \<open>n\<close> terms are off by at most \<open>n * (M / 2 ^ 53)\<close>.
\<close>

lemma foldl_nadd_error:
  assumes "\<bar>a\<bar> + (\<Sum>x\<leftarrow>xs. \<bar>x\<bar>) + of_nat (length xs) * (M / 2 ^ 53) \<le> M" and "0 \<le> M"
  shows "\<bar>foldl nadd a xs - (a + sum_list xs)\<bar> \<le> of_nat (length xs) * (M / 2 ^ 53)"
  using assms(1)
proof (induction xs arbitrary: a)
  case Nil
  then show ?case by simp
next
  case (Cons x xs)
  define e S n where "e = M / 2 ^ 53" and "S = (\<Sum>x\<leftarrow>xs. \<bar>x\<bar>)" and "n = (of_nat (length xs) :: rat)"
  have "0 \<le> S" unfolding S_def by (rule sum_list_nonneg) auto
  then have nonneg: "0 \<le> e" "0 \<le> S" "0 \<le> n * e"
    using assms(2) by (auto simp: e_def n_def)
  have prem: "\<bar>a\<bar> + \<bar>x\<bar> + S + n * e + e \<le> M"
    using Cons.prems by (simp add: e_def S_def n_def algebra_simps add_divide_distrib)
  have "\<bar>nadd a x - (a + x)\<bar> \<le> \<bar>a + x\<bar> / 2 ^ 53" unfolding nadd_def by (rule fl_error)
  also have "\<dots> \<le> e" unfolding e_def
    using prem nonneg abs_triangle_ineq [of a x] by (intro divide_right_mono; (linarith | simp))
  finally have step: "\<bar>nadd a x - (a + x)\<bar> \<le> e" .
  then have "\<bar>nadd a x\<bar> + S + n * e \<le> M"
    using prem nonneg abs_triangle_ineq [of a x] abs_triangle_ineq2 [of "nadd a x" "a + x"]
    by linarith
  then have "\<bar>foldl nadd (nadd a x) xs - (nadd a x + sum_list xs)\<bar> \<le> n * e"
    unfolding e_def S_def n_def by (rule Cons.IH)
  then have "\<bar>foldl nadd a (x # xs) - (a + sum_list (x # xs))\<bar> \<le> e + n * e"
    using step by simp
  moreover have "of_nat (length (x # xs)) * (M / 2 ^ 53) = e + n * e"
    by (simp add: e_def n_def algebra_simps add_divide_distrib)
  ultimately show ?case by (simp only:)
qed

text \<open>
  Adding up money columns and rounding gives the exact total, as long as the number of terms
  times the total volume stays below \<open>10 ^ 15\<close> hundredths (ten thousand terms of a thousand
  million cedis altogether).
\<close>

definition smallSum :: "int list \<Rightarrow> bool" where
  "smallSum ks \<longleftrightarrow> (int (length ks) + 1) * (\<Sum>k\<leftarrow>ks. \<bar>k\<bar>) \<le> 10 ^ 15 \<and> (\<Sum>k\<leftarrow>ks. \<bar>k\<bar>) \<le> 10 ^ 14"


lemma sum_cents_error:
  "\<bar>(\<Sum>k\<leftarrow>ks. cents k) - of_int (sum_list ks) / 100\<bar> \<le> of_int (\<Sum>k\<leftarrow>ks. \<bar>k\<bar>) / 100 / 2 ^ 53"
proof (induction ks)
  case Nil
  then show ?case by simp
next
  case (Cons k ks)
  have "\<bar>cents k - of_int k / 100\<bar> \<le> of_int \<bar>k\<bar> / 100 / 2 ^ 53"
    using cents_error_rel [of k] by simp
  moreover have "(\<Sum>l\<leftarrow>k # ks. cents l) - of_int (sum_list (k # ks)) / 100
      = (cents k - of_int k / 100) + ((\<Sum>l\<leftarrow>ks. cents l) - of_int (sum_list ks) / 100)"
    by (simp add: add_divide_distrib)
  ultimately have "\<bar>(\<Sum>l\<leftarrow>k # ks. cents l) - of_int (sum_list (k # ks)) / 100\<bar>
      \<le> of_int \<bar>k\<bar> / 100 / 2 ^ 53 + of_int (\<Sum>k\<leftarrow>ks. \<bar>k\<bar>) / 100 / 2 ^ 53"
    using Cons by linarith
  then show ?case by (simp add: add_divide_distrib)
qed

lemma sum_abs_cents:
  "(\<Sum>k\<leftarrow>ks. \<bar>cents k\<bar>) \<le> of_int (\<Sum>k\<leftarrow>ks. \<bar>k\<bar>) / 100 * (1 + 1 / 2 ^ 53)"
proof (induction ks)
  case Nil
  then show ?case by simp
next
  case (Cons k ks)
  have "\<bar>cents k\<bar> \<le> of_int \<bar>k\<bar> / 100 * (1 + 1 / 2 ^ 53)"
    using cents_error_rel [of k] abs_triangle_ineq [of "cents k - of_int k / 100" "of_int k / 100"]
    by (simp add: algebra_simps)
  with Cons show ?case by (simp add: algebra_simps add_divide_distrib)
qed

lemma nsum_cents_error_within:
  assumes "(int (length ks) + 1) * (\<Sum>k\<leftarrow>ks. \<bar>k\<bar>) \<le> B" and "B \<le> 10 ^ 15"
  shows "\<bar>nsum (map cents ks) - of_int (sum_list ks) / 100\<bar> \<le> of_int B * (3 / 100) / 2 ^ 53"
proof -
  define V n where "V = (of_int (\<Sum>k\<leftarrow>ks. \<bar>k\<bar>) :: rat)" and "n = (of_nat (length ks) :: rat)"
  have "0 \<le> (\<Sum>k\<leftarrow>ks. \<bar>k\<bar>)" by (rule sum_list_nonneg) auto
  then have V0: "0 \<le> V" unfolding V_def by simp
  have n0: "0 \<le> n" by (simp add: n_def)
  have "(of_int ((int (length ks) + 1) * (\<Sum>k\<leftarrow>ks. \<bar>k\<bar>)) :: rat) \<le> of_int B"
    using assms(1) by (simp only: of_int_le_iff)
  then have nVB: "n * V + V \<le> of_int B" by (simp add: V_def n_def algebra_simps)
  have nV0: "0 \<le> n * V" using n0 V0 by simp
  have "(of_int B :: rat) \<le> of_int (10 ^ 15)" using assms(2) by (simp only: of_int_le_iff)
  then have nV: "n * V \<le> 10 ^ 15" using nVB V0 by simp
  have nVV: "n * V / 2 ^ 53 \<le> V / 4"
  proof (cases "V = 0")
    case False
    then have "1 \<le> V" using V0 unfolding V_def by simp
    then have "n \<le> 10 ^ 15" using nV n0 mult_left_mono [of 1 V n] by linarith
    then have "n * V \<le> 10 ^ 15 * V" using V0 by (rule mult_right_mono)
    also have "\<dots> \<le> 2251799813685248 * V" using V0 by simp
    finally show ?thesis by (simp add: mult.commute)
  qed simp
  have abs: "(\<Sum>x\<leftarrow>map cents ks. \<bar>x\<bar>) \<le> V / 100 * (1 + 1 / 2 ^ 53)"
    using sum_abs_cents [of ks] by (simp add: V_def o_def)
  have "\<bar>foldl nadd 0 (map cents ks) - (0 + sum_list (map cents ks))\<bar>
      \<le> of_nat (length (map cents ks)) * ((V / 50) / 2 ^ 53)"
  proof (rule foldl_nadd_error)
    show "\<bar>0\<bar> + (\<Sum>x\<leftarrow>map cents ks. \<bar>x\<bar>) + of_nat (length (map cents ks)) * (V / 50 / 2 ^ 53) \<le> V / 50"
      using abs nVV V0 by (simp add: n_def [symmetric] algebra_simps)
  qed (use V0 in simp)
  then have A: "\<bar>nsum (map cents ks) - sum_list (map cents ks)\<bar> \<le> n * V / 50 / 2 ^ 53"
    by (simp add: nsum_def n_def)
  have C: "\<bar>sum_list (map cents ks) - of_int (sum_list ks) / 100\<bar> \<le> V / 100 / 2 ^ 53"
    using sum_cents_error [of ks] by (simp add: V_def)
  have "n * V / 50 / 2 ^ 53 + V / 100 / 2 ^ 53 \<le> of_int B * (3 / 100) / 2 ^ 53"
    using nVB V0 nV0 by (simp add: mult.commute [of V n])
  then show ?thesis using A C unfolding abs_le_iff by linarith
qed

lemma nsum_cents_error:
  assumes "smallSum ks"
  shows "\<bar>nsum (map cents ks) - of_int (sum_list ks) / 100\<bar> \<le> 34 / 10000"
  using nsum_cents_error_within [of ks "10 ^ 15"] assms by (simp add: smallSum_def)

lemma nsum_cents_close:
  assumes "(int (length ks) + 1) * (\<Sum>k\<leftarrow>ks. \<bar>k\<bar>) \<le> 10 ^ 14"
  shows "\<bar>nsum (map cents ks) - of_int (sum_list ks) / 100\<bar> \<le> 4 / 10000"
  using nsum_cents_error_within [of ks "10 ^ 14"] assms by simp

lemma abs_sum_list_le: "\<bar>sum_list ks\<bar> \<le> (\<Sum>k\<leftarrow>ks. \<bar>k :: int\<bar>)"
  by (induction ks) auto

lemma round2_nsum_cents: "smallSum ks \<Longrightarrow> round2 (nsum (map cents ks)) = cents (sum_list ks)"
  using nsum_cents_error [of ks] abs_sum_list_le [of ks]
  by (intro round2_near) (auto simp: smallSum_def)

section \<open>Writing a number to a money column\<close>

text \<open>
  Prisma sends a number as its decimal representation, the shortest one that reads back as the
  same double (ECMAScript's \<open>Number::toString\<close>), and PostgreSQL rounds it to the two decimals
  of the column, halves away from zero. \<open>jsDec\<close> looks for the shortest representation with up
  to 25 decimals; below that size a number is rounded to zero hundredths anyway.
\<close>

definition decAt :: "nat \<Rightarrow> num \<Rightarrow> rat" where
  "decAt s x = of_int \<lfloor>x * 10 ^ s + 1/2\<rfloor> / 10 ^ s"

fun jsDecFrom :: "nat \<Rightarrow> nat \<Rightarrow> num \<Rightarrow> rat" where
  "jsDecFrom 0 s x = x"
| "jsDecFrom (Suc f) s x = (let d = decAt s x in if fl d = x then d else jsDecFrom f (Suc s) x)"

definition jsDec :: "num \<Rightarrow> rat" where
  "jsDec x = jsDecFrom 26 0 x"

definition pgRound2 :: "rat \<Rightarrow> int" where
  "pgRound2 d = (if 0 \<le> d then \<lfloor>d * 100 + 1/2\<rfloor> else - \<lfloor>- d * 100 + 1/2\<rfloor>)"

definition toDec2 :: "num \<Rightarrow> int" where
  "toDec2 x = pgRound2 (jsDec x)"

text \<open>\<open>{ increment: x }\<close>, \<open>{ decrement: x }\<close> and the guard \<open>{ gte: x }\<close> on a money column.\<close>

definition decAdd :: "int \<Rightarrow> num \<Rightarrow> int" where
  "decAdd k x = pgRound2 (of_int k / 100 + jsDec x)"

definition decSub :: "int \<Rightarrow> num \<Rightarrow> int" where
  "decSub k x = pgRound2 (of_int k / 100 - jsDec x)"

definition decGe :: "int \<Rightarrow> num \<Rightarrow> bool" where
  "decGe k x \<longleftrightarrow> jsDec x \<le> of_int k / 100"

definition decEq :: "int \<Rightarrow> num \<Rightarrow> bool" where
  "decEq k x \<longleftrightarrow> of_int k / 100 = jsDec x"

lemma fl_jsDec: "fl x = x \<Longrightarrow> fl (jsDec x) = x"
proof -
  assume x: "fl x = x"
  have "fl (jsDecFrom f s x) = x" for f s
    using x by (induction f s x rule: jsDecFrom.induct) (auto simp: Let_def)
  then show ?thesis by (simp add: jsDec_def)
qed

text \<open>A decimal with at most two places that reads back as \<open>cents k\<close> is \<open>k / 100\<close>.\<close>

lemma cents_decimal:
  assumes "dec14 k" and "fl (of_int j / 100) = cents k"
  shows "j = k"
proof (rule ccontr)
  assume "j \<noteq> k"
  then consider "j \<le> k - 1" | "k + 1 \<le> j" by linarith
  then show False
  proof cases
    case 1
    show False
  proof (cases "dec14 (k - 1)")
    case True
    then show False
      using cents_mono [OF 1] cents_less [of "k - 1" k] assms by (simp add: cents_def [of j])
  next
    case False
    then have k: "k = - (10 ^ 14)" using assms(1) by linarith
    have "cents j \<le> cents (- (10 ^ 14) - 1)" using cents_mono [OF 1] k by simp
    moreover have "cents (- (10 ^ 14) - 1) < cents (- (10 ^ 14))"
      using cents_error_rel [of "- (10 ^ 14) - 1"] cents_error_rel [of "- (10 ^ 14)"]
      unfolding abs_le_iff by simp
    ultimately show False using assms(2) k by (simp add: cents_def [of j])
  qed
  next
    case 2
    show False
  proof (cases "dec14 (k + 1)")
    case True
    then show False
      using cents_mono [OF 2] cents_less [of k "k + 1"] assms by (simp add: cents_def [of j])
  next
    case False
    then have k: "k = 10 ^ 14" using assms(1) by linarith
    have "cents (10 ^ 14 + 1) \<le> cents j" using cents_mono [OF 2] k by simp
    moreover have "cents (10 ^ 14) < cents (10 ^ 14 + 1)"
      using cents_error_rel [of "10 ^ 14 + 1"] cents_error_rel [of "10 ^ 14"]
      unfolding abs_le_iff by simp
    ultimately show False using assms(2) k by (simp add: cents_def [of j])
  qed
  qed
qed


lemma jsDecFrom_hit: "fl (decAt s x) = x \<Longrightarrow> jsDecFrom (Suc f) s x = decAt s x"
  by simp

lemma decAt_hundredths: "decAt 0 x = of_int (\<lfloor>x + 1/2\<rfloor> * 100) / 100"
  "decAt 1 x = of_int (\<lfloor>x * 10 + 1/2\<rfloor> * 10) / 100"
  "decAt 2 x = of_int \<lfloor>x * 100 + 1/2\<rfloor> / 100"
  by (simp_all add: decAt_def power2_eq_square)

lemma decAt_2_cents: "dec14 k \<Longrightarrow> decAt 2 (cents k) = of_int k / 100"
  using cents_error [of k] unfolding decAt_hundredths abs_le_iff
  by (auto intro!: floor_unique)

lemma jsDec_cents [simp]: "dec14 k \<Longrightarrow> jsDec (cents k) = of_int k / 100"
proof -
  assume k: "dec14 k"
  have fuel: "26 = Suc (Suc (Suc 23))" by simp
  have hit: "decAt s (cents k) = of_int k / 100" if "s \<in> {0, 1}" "fl (decAt s (cents k)) = cents k" for s
  proof -
    have "\<exists>j. decAt s (cents k) = of_int j / 100"
      using that(1) decAt_hundredths(1,2) [of "cents k"] by (elim insertE) (blast | simp)+
    then obtain j where j: "decAt s (cents k) = of_int j / 100" ..
    have "j = k" by (rule cents_decimal [OF k]) (use that(2) j in simp)
    then show ?thesis using j by simp
  qed
  have "decAt (Suc (Suc 0)) (cents k) = of_int k / 100"
    using decAt_2_cents [OF k] by (simp add: numeral_2_eq_2)
  moreover from this have "fl (decAt (Suc (Suc 0)) (cents k)) = cents k"
    by (simp only: cents_def [symmetric])
  ultimately have "jsDecFrom (Suc (Suc (Suc f))) 0 (cents k) = of_int k / 100" for f
    using hit [of 0] hit [of 1] by (simp add: Let_def cents_def [symmetric])
  then show ?thesis by (simp only: jsDec_def fuel)
qed

lemma pgRound2_hundredths [simp]: "pgRound2 (of_int k / 100) = k"
proof -
  have *: "\<lfloor>of_int j + 1/2 :: rat\<rfloor> = j" for j :: int by (rule floor_unique) auto
  show ?thesis using * [of k] * [of "- k"] by (simp add: pgRound2_def)
qed

lemma toDec2_cents [simp]: "dec14 k \<Longrightarrow> toDec2 (cents k) = k"
  by (simp add: toDec2_def)

lemma decAdd_cents [simp]: "dec14 j \<Longrightarrow> decAdd k (cents j) = k + j"
  using pgRound2_hundredths [of "k + j"] by (simp add: decAdd_def add_divide_distrib)

lemma decSub_cents [simp]: "dec14 j \<Longrightarrow> decSub k (cents j) = k - j"
  using pgRound2_hundredths [of "k - j"] by (simp add: decSub_def diff_divide_distrib)

lemma decGe_cents [simp]: "dec14 j \<Longrightarrow> decGe k (cents j) \<longleftrightarrow> j \<le> k"
  by (simp add: decGe_def divide_right_mono divide_le_cancel)

lemma decEq_cents [simp]: "dec14 j \<Longrightarrow> decEq k (cents j) \<longleftrightarrow> k = j"
  by (simp add: decEq_def)

end
