(* ===== verification/JS_String.thy ===== *)
theory JS_String
  imports Prelude "HOL-Library.Char_ord"
begin

text \<open>
  The string operations the program uses, on strings of Latin-1 characters: \<open>trim\<close>, \<open>toLowerCase\<close>,
  \<open>includes\<close>, the collapsing of white space, and the truth value of a nullable string.
\<close>

definition code :: "char \<Rightarrow> nat" where "code c = of_char c"

definition isSpace :: "char \<Rightarrow> bool" where
  "isSpace c = (let n = code c in 9 \<le> n \<and> n \<le> 13 \<or> n = 32 \<or> n = 160)"

definition lowerChar :: "char \<Rightarrow> char" where
  "lowerChar c = (let n = code c in
     if 65 \<le> n \<and> n \<le> 90 \<or> 192 \<le> n \<and> n \<le> 222 \<and> n \<noteq> 215 then char_of (n + 32) else c)"

definition toLower :: "string \<Rightarrow> string" where "toLower = map lowerChar"

definition trim :: "string \<Rightarrow> string" where
  "trim s = rev (dropWhile isSpace (rev (dropWhile isSpace s)))"

text \<open>\<open>s.replace(/\s+/g, " ")\<close>.\<close>

fun collapseSpaces :: "string \<Rightarrow> string" where
  "collapseSpaces [] = []"
| "collapseSpaces (c # s) =
     (if isSpace c
      then (case collapseSpaces s of
              d # r \<Rightarrow> if isSpace (hd s) then d # r else CHR '' '' # d # r
            | [] \<Rightarrow> [CHR '' ''])
      else c # collapseSpaces s)"

fun startsWith :: "string \<Rightarrow> string \<Rightarrow> bool" where
  "startsWith s [] = True"
| "startsWith [] (c # p) = False"
| "startsWith (d # s) (c # p) = (c = d \<and> startsWith s p)"

fun includesStr :: "string \<Rightarrow> string \<Rightarrow> bool" where
  "includesStr [] p = (p = [])"
| "includesStr (c # s) p = (startsWith (c # s) p \<or> includesStr s p)"

text \<open>A nullable string is false when it is null or empty.\<close>

definition truthy :: "string option \<Rightarrow> bool" where
  "truthy s = (case s of None \<Rightarrow> False | Some t \<Rightarrow> t \<noteq> [])"

lemma truthy_simps [simp]: "truthy None = False" "truthy (Some t) = (t \<noteq> [])"
  by (simp_all add: truthy_def)

text \<open>\<open>s.replaceAll(c, d)\<close> for single characters.\<close>

definition replaceChar :: "char \<Rightarrow> char \<Rightarrow> string \<Rightarrow> string" where
  "replaceChar c d = map (\<lambda>x. if x = c then d else x)"

text \<open>Decimal digits, as template literals print an integer; \<open>padStart(width, "0")\<close>.\<close>

definition digitChar :: "nat \<Rightarrow> char" where "digitChar n = char_of (n + 48)"

fun showNat :: "nat \<Rightarrow> string" where
  "showNat n = (if n < 10 then [digitChar n] else showNat (n div 10) @ [digitChar (n mod 10)])"

declare showNat.simps [simp del]

definition padStart :: "nat \<Rightarrow> string \<Rightarrow> string" where
  "padStart w s = replicate (w - length s) (CHR ''0'') @ s"

fun readNat :: "string \<Rightarrow> nat" where
  "readNat [] = 0"
| "readNat s = readNat (butlast s) * 10 + (of_char (last s) - 48)"

lemma digitChar_value: "n < 10 \<Longrightarrow> of_char (digitChar n) = n + 48"
  by (simp add: digitChar_def)

lemma readNat_snoc: "readNat (s @ [c]) = readNat s * 10 + (of_char c - 48)"
  by (cases s) auto

lemma readNat_showNat: "readNat (showNat n) = n"
proof (induction n rule: showNat.induct)
  case (1 n)
  then show ?case
    by (cases "n < 10") (simp_all add: showNat.simps [of n] readNat_snoc digitChar_value)
qed

lemma readNat_zeros: "readNat (replicate k (CHR ''0'') @ s) = readNat s"
proof (induction s rule: rev_induct)
  case Nil
  have "replicate (Suc k) z = replicate k z @ [z]" for k and z :: char
    by (metis replicate_Suc replicate_append_same)
  then have "readNat (replicate k (CHR ''0'')) = 0"
    by (induction k) (simp_all only: readNat_snoc, simp_all)
  then show ?case by simp
next
  case (snoc c s)
  then show ?case using readNat_snoc [of "replicate k (CHR ''0'') @ s" c] readNat_snoc [of s c] by simp
qed

text \<open>Padding loses nothing, so padded counters of different values differ.\<close>

lemma readNat_padStart: "readNat (padStart w (showNat n)) = n"
  by (simp add: padStart_def readNat_zeros readNat_showNat)

lemma padded_inject: "padStart w (showNat m) = padStart w (showNat n) \<longleftrightarrow> m = n"
  by (metis readNat_padStart)

end
