(* ===== verification/Scoring.thy ===== *)
theory Scoring
  imports JS_Number JS_String
begin

text \<open>
  The disclosed-weight scoring models: \<open>lib/creditAssessment.ts\<close>, \<open>lib/delinquencyRisk.ts\<close>,
  \<open>lib/collectorIntegrity.ts\<close> and \<open>lib/customerRiskScoring.ts\<close>. Each lists named factors with points
  and derives a score and a band from them. The contract they share, a score that is the capped sum
  of positive points, is the locale \<open>disclosed_score\<close>; each model interprets it.
\<close>

section \<open>Factors\<close>

type_synonym factor = "string \<times> int"

definition points :: "factor list \<Rightarrow> int" where
  "points fs = sum_list (map snd fs)"

lemma points_simps [simp]:
  "points [] = 0" "points (f # fs) = snd f + points fs" "points (fs @ gs) = points fs + points gs"
  by (simp_all add: points_def)

text \<open>
  A chain \<open>if (c) breakdown.push(f) else if (d) breakdown.push(g) ...\<close> contributes the first factor
  whose condition holds.
\<close>

fun firstF :: "(bool \<times> string \<times> int) list \<Rightarrow> factor list" where
  "firstF [] = []"
| "firstF ((c, f, p) # r) = (if c then [(f, p)] else firstF r)"

definition whenF :: "bool \<Rightarrow> string \<Rightarrow> int \<Rightarrow> factor list" where
  "whenF c f p = firstF [(c, f, p)]"

definition posF :: "factor list \<Rightarrow> bool" where
  "posF = list_all (\<lambda>f. 0 < snd f)"

lemma posF_intros:
  "posF []"
  "posF fs \<Longrightarrow> posF gs \<Longrightarrow> posF (fs @ gs)"
  "list_all (\<lambda>(c, f, p). 0 < p) r \<Longrightarrow> posF (firstF r)"
  "0 < p \<Longrightarrow> posF (whenF c f p)"
  "(c \<Longrightarrow> posF fs) \<Longrightarrow> (\<not> c \<Longrightarrow> posF gs) \<Longrightarrow> posF (if c then fs else gs)"
  unfolding posF_def whenF_def by (induction r rule: firstF.induct) auto

lemma points_whenF [simp]: "points (whenF c f p) = (if c then p else 0)"
  by (simp add: whenF_def)

lemma points_firstF_mono:
  "list_all2 (\<lambda>(c, f, p) (d, g, q). p = q \<and> (c \<longrightarrow> d)) r s \<Longrightarrow> sorted_wrt (\<lambda>(_, _, p) (_, _, q). q \<le> p) r
    \<Longrightarrow> list_all (\<lambda>(c, f, p). 0 \<le> p) r \<Longrightarrow> points (firstF r) \<le> points (firstF s)"
proof (induction r s rule: list_all2_induct)
  case (Cons x r y s)
  obtain c f p where x: "x = (c, f, p)" by (cases x) auto
  obtain d g where y: "y = (d, g, p)" "c \<longrightarrow> d" using Cons.hyps(1) x by (cases y) auto
  have bound: "points (firstF r) \<le> p" if "\<forall>z \<in> set r. snd (snd z) \<le> p" "0 \<le> p" for r :: "(bool \<times> string \<times> int) list" and p
    using that by (induction r rule: firstF.induct) auto
  have "points (firstF r) \<le> p" using Cons.prems x by (intro bound) auto
  then show ?case using Cons x y by auto
qed simp

datatype riskRating = LOW | MEDIUM | HIGH

instantiation riskRating :: linorder
begin

definition rank_riskRating :: "riskRating \<Rightarrow> nat" where
  "rank_riskRating r = (case r of LOW \<Rightarrow> 0 | MEDIUM \<Rightarrow> 1 | HIGH \<Rightarrow> 2)"

definition less_eq_riskRating :: "riskRating \<Rightarrow> riskRating \<Rightarrow> bool" where
  "less_eq_riskRating a b \<longleftrightarrow> rank_riskRating a \<le> rank_riskRating b"

definition less_riskRating :: "riskRating \<Rightarrow> riskRating \<Rightarrow> bool" where
  "less_riskRating a b \<longleftrightarrow> rank_riskRating a < rank_riskRating b"

instance
  by standard (auto simp: less_eq_riskRating_def less_riskRating_def rank_riskRating_def split: riskRating.splits)

end

lemmas riskRating_order = less_eq_riskRating_def less_riskRating_def rank_riskRating_def

section \<open>The contract\<close>

locale disclosed_score =
  fixes factors :: "'i \<Rightarrow> factor list" and score :: "'i \<Rightarrow> int"
  assumes positive: "posF (factors i)"
    and capped: "score i = min 100 (points (factors i))"
begin

lemma points_nonneg: "posF fs \<Longrightarrow> 0 \<le> points fs"
  unfolding posF_def by (induction fs) auto

lemma score_range: "0 \<le> score i \<and> score i \<le> 100"
  using points_nonneg [OF positive, of i] by (auto simp: capped)

lemma points_zero: "posF fs \<Longrightarrow> points fs = 0 \<Longrightarrow> fs = []"
proof (induction fs)
  case (Cons f fs)
  then have "0 < snd f" "0 \<le> points fs" using points_nonneg [of fs] by (auto simp: posF_def)
  then show ?case using Cons.prems(2) by simp
qed simp

text \<open>A score is zero exactly when nothing was found, and every point is explained.\<close>

lemma score_zero_iff: "score i = 0 \<longleftrightarrow> factors i = []"
  using points_zero [OF positive, of i] by (auto simp: capped min_def split: if_splits)

lemma explained: "score i < 100 \<Longrightarrow> score i = points (factors i)"
  by (simp add: capped)

lemma monotone: "points (factors i) \<le> points (factors j) \<Longrightarrow> score i \<le> score j"
  by (simp add: capped)

end

section \<open>Credit assessment\<close>

record creditInput =
  ci_monthlyIncome :: num
  ci_monthlyExpenses :: num
  ci_existingLoanObligations :: num
  ci_proposedInstallment :: num
  ci_customerRiskRating :: "riskRating option"
  ci_hasLoansInArrears :: bool

datatype recommendation = APPROVE | REVIEW | DECLINE

record creditResult =
  cr_debtToIncomeRatio :: num
  cr_repaymentCapacityRatio :: num
  cr_riskScore :: int
  cr_scoreBreakdown :: "factor list"
  cr_recommendation :: recommendation

definition debtToIncome :: "creditInput \<Rightarrow> num" where
  "debtToIncome i = (if 0 < ci_monthlyIncome i
     then round2 (nmul (ndiv (ci_existingLoanObligations i) (ci_monthlyIncome i)) 100) else 100)"

definition repaymentCapacity :: "creditInput \<Rightarrow> num" where
  "repaymentCapacity i = (if 0 < ci_monthlyIncome i
     then round2 (nmul (ndiv (nadd (ci_existingLoanObligations i) (ci_proposedInstallment i)) (ci_monthlyIncome i)) 100)
     else 100)"

definition creditFactors :: "creditInput \<Rightarrow> factor list" where
  "creditFactors i =
     firstF [(50 \<le> debtToIncome i, ''Debt-to-income ratio 50% or above'', - 30),
             (30 \<le> debtToIncome i, ''Debt-to-income ratio 30-49%'', - 15)]
     @ firstF [(60 \<le> repaymentCapacity i, ''Repayment capacity ratio 60% or above (new loan may not be affordable)'', - 35),
               (40 \<le> repaymentCapacity i, ''Repayment capacity ratio 40-59%'', - 15)]
     @ firstF [(ci_customerRiskRating i = Some HIGH, ''Customer risk rating: HIGH'', - 20),
               (ci_customerRiskRating i = Some MEDIUM, ''Customer risk rating: MEDIUM'', - 10)]
     @ whenF (ci_hasLoansInArrears i) ''Customer has another loan currently in arrears'' (- 25)"

definition assessCredit :: "creditInput \<Rightarrow> creditResult" where
  "assessCredit i =
     (let breakdown = (''Starting score'', 100) # creditFactors i;
          riskScore = max 0 (points breakdown);
          forcesReview = (ci_hasLoansInArrears i \<or> ci_customerRiskRating i = Some HIGH);
          rec = (if riskScore < 40 then DECLINE
                 else if 70 \<le> riskScore \<and> \<not> forcesReview then APPROVE else REVIEW)
      in \<lparr>cr_debtToIncomeRatio = debtToIncome i, cr_repaymentCapacityRatio = repaymentCapacity i,
          cr_riskScore = riskScore, cr_scoreBreakdown = breakdown, cr_recommendation = rec\<rparr>)"

text \<open>The deductions, as positive points.\<close>

definition negF :: "factor list \<Rightarrow> factor list" where
  "negF = map (\<lambda>(f, p). (f, - p))"

lemma negF_simps:
  "negF (fs @ gs) = negF fs @ negF gs" "negF (firstF r) = firstF (map (\<lambda>(c, f, p). (c, f, - p)) r)"
  "negF (whenF c f p) = whenF c f (- p)" "points (negF fs) = - points fs"
proof -
  show firstF: "negF (firstF r) = firstF (map (\<lambda>(c, f, p). (c, f, - p)) r)" for r
    by (induction r rule: firstF.induct) (auto simp: negF_def)
  show "negF (whenF c f p) = whenF c f (- p)" by (simp only: whenF_def firstF) simp
  show "points (negF fs) = - points fs" by (induction fs) (auto simp: negF_def)
qed (simp add: negF_def)

interpretation credit: disclosed_score "\<lambda>i. negF (creditFactors i)" "\<lambda>i. 100 - cr_riskScore (assessCredit i)"
proof
  show "posF (negF (creditFactors i))" for i
    unfolding creditFactors_def negF_simps by (intro posF_intros; simp)
  show "100 - cr_riskScore (assessCredit i) = min 100 (points (negF (creditFactors i)))" for i
    by (simp add: negF_simps assessCredit_def Let_def)
qed

section \<open>Delinquency prediction\<close>

record delinquencyInput =
  di_cumulativeDue :: num
  di_cumulativePaid :: num
  di_daysSinceLastRepayment :: "num option"
  di_typicalInstallmentIntervalDays :: num
  di_installmentsSoFar :: int
  di_customerRiskRating :: "riskRating option"
  di_hasOtherLoansInArrears :: bool

datatype riskBand = BLOW | WATCH | ELEVATED | BHIGH

record delinquencyResult =
  dr_bufferRatio :: num
  dr_riskScore :: int
  dr_riskBand :: riskBand
  dr_breakdown :: "factor list"
  dr_confidence :: riskRating

definition bufferRatio :: "delinquencyInput \<Rightarrow> num" where
  "bufferRatio i = (if 0 < di_cumulativeDue i
     then round2 (ndiv (nsub (di_cumulativePaid i) (di_cumulativeDue i)) (di_cumulativeDue i)) else 0)"

definition bufferFactor :: "num \<Rightarrow> factor list" where
  "bufferFactor b = firstF
     [(b < - fl (1/10), ''Cumulative payments more than 10% behind cumulative dues'', 35),
      (b < 0, ''Cumulative payments trailing cumulative dues'', 20),
      (b < fl (5/100), ''Payment buffer thin (within 5% of cumulative dues)'', 10)]"

definition gapFactor :: "delinquencyInput \<Rightarrow> factor list" where
  "gapFactor i = (case di_daysSinceLastRepayment i of
       None \<Rightarrow> whenF (0 < di_installmentsSoFar i) ''No repayment recorded yet despite installment(s) due'' 30
     | Some days \<Rightarrow>
         if 0 < di_typicalInstallmentIntervalDays i then
           (let ratio = ndiv days (di_typicalInstallmentIntervalDays i) in firstF
              [(3/2 \<le> ratio, ''Time since last repayment exceeds 1.5x the typical installment interval'', 25),
               (fl (11/10) \<le> ratio, ''Time since last repayment slightly exceeds the typical installment interval'', 10)])
         else [])"

definition delinquencyFactors :: "delinquencyInput \<Rightarrow> factor list" where
  "delinquencyFactors i =
     bufferFactor (bufferRatio i) @ gapFactor i
     @ firstF [(di_customerRiskRating i = Some HIGH, ''Customer risk rating: HIGH'', 15),
               (di_customerRiskRating i = Some MEDIUM, ''Customer risk rating: MEDIUM'', 5)]
     @ whenF (di_hasOtherLoansInArrears i) ''Customer has another loan currently in arrears'' 20"

definition assessDelinquencyRisk :: "delinquencyInput \<Rightarrow> delinquencyResult" where
  "assessDelinquencyRisk i =
     (let breakdown = delinquencyFactors i;
          score = min 100 (points breakdown);
          n = di_installmentsSoFar i
      in \<lparr>dr_bufferRatio = bufferRatio i, dr_riskScore = score,
          dr_riskBand = (if 60 \<le> score then BHIGH else if 35 \<le> score then ELEVATED
                         else if 15 \<le> score then WATCH else BLOW),
          dr_breakdown = breakdown,
          dr_confidence = (if 3 \<le> n then HIGH else if 1 \<le> n then MEDIUM else LOW)\<rparr>)"

interpretation delinquency: disclosed_score delinquencyFactors "\<lambda>i. dr_riskScore (assessDelinquencyRisk i)"
proof
  show "posF (delinquencyFactors i)" for i
    unfolding delinquencyFactors_def bufferFactor_def gapFactor_def Let_def
    by (cases "di_daysSinceLastRepayment i") (simp_all only: option.case, (intro posF_intros; simp)+)
  show "dr_riskScore (assessDelinquencyRisk i) = min 100 (points (delinquencyFactors i))" for i
    by (simp add: assessDelinquencyRisk_def Let_def)
qed

section \<open>Collector integrity\<close>

record collectorInput =
  co_collectorTransactionCount :: int
  co_collectorReversalCount :: int
  co_institutionalReversalRate :: num
  co_settlementCount :: int
  co_varianceSettlementCount :: int
  co_totalVarianceAmount :: num
  co_totalSettledAmount :: num
  co_complaintCount :: int

datatype integrityBand = NORMAL | IWATCH | INVESTIGATE

record collectorResult =
  ir_collectorReversalRate :: num
  ir_varianceRate :: num
  ir_score :: int
  ir_band :: integrityBand
  ir_breakdown :: "factor list"
  ir_confidence :: riskRating

definition collectorReversalRate :: "collectorInput \<Rightarrow> num" where
  "collectorReversalRate i = (if 0 < co_collectorTransactionCount i
     then round3 (ndiv (of_int (co_collectorReversalCount i)) (of_int (co_collectorTransactionCount i))) else 0)"

definition varianceRate :: "collectorInput \<Rightarrow> num" where
  "varianceRate i = (if 0 < co_totalSettledAmount i
     then round3 (ndiv (co_totalVarianceAmount i) (co_totalSettledAmount i)) else 0)"

definition collectorFactors :: "collectorInput \<Rightarrow> factor list" where
  "collectorFactors i =
     (if 0 < co_institutionalReversalRate i then
        (let ratio = ndiv (collectorReversalRate i) (co_institutionalReversalRate i) in firstF
           [(3 \<le> ratio, ''Reversal rate 3x or more above the institutional average'', 30),
            (2 \<le> ratio, ''Reversal rate 2-3x the institutional average'', 15)])
      else whenF (fl (1/10) < collectorReversalRate i)
        ''Reversal rate above 10% (no institutional baseline yet to compare against)'' 15)
     @ (if 0 < co_varianceSettlementCount i \<and> 0 < co_settlementCount i then
          (let ratio = ndiv (of_int (co_varianceSettlementCount i)) (of_int (co_settlementCount i)) in firstF
             [(1/2 \<le> ratio, ''Half or more of settlements in the period had a variance'', 25),
              (1/4 \<le> ratio, ''A quarter or more of settlements in the period had a variance'', 12)])
        else [])
     @ firstF [(fl (2/100) \<le> varianceRate i, ''Cumulative variance 2% or more of total settled amount'', 20),
               (fl (1/100) \<le> varianceRate i, ''Cumulative variance 1-2% of total settled amount'', 10)]
     @ firstF [(3 \<le> co_complaintCount i,
                ''3 or more complaints from customers on this collector'' @ CHR 0x27 # ''s routes in the period'', 25),
               (1 \<le> co_complaintCount i,
                ''1-2 complaints from customers on this collector'' @ CHR 0x27 # ''s routes in the period'', 10)]"

definition assessCollectorIntegrity :: "collectorInput \<Rightarrow> collectorResult" where
  "assessCollectorIntegrity i =
     (let breakdown = collectorFactors i;
          score = min 100 (points breakdown)
      in \<lparr>ir_collectorReversalRate = collectorReversalRate i, ir_varianceRate = varianceRate i,
          ir_score = score,
          ir_band = (if 50 \<le> score then INVESTIGATE else if 20 \<le> score then IWATCH else NORMAL),
          ir_breakdown = breakdown,
          ir_confidence = (if 20 \<le> co_collectorTransactionCount i \<and> 5 \<le> co_settlementCount i then HIGH
                           else if 5 \<le> co_collectorTransactionCount i then MEDIUM else LOW)\<rparr>)"

interpretation collector: disclosed_score collectorFactors "\<lambda>i. ir_score (assessCollectorIntegrity i)"
proof
  show "posF (collectorFactors i)" for i
    unfolding collectorFactors_def Let_def by (intro posF_intros; simp)
  show "ir_score (assessCollectorIntegrity i) = min 100 (points (collectorFactors i))" for i
    by (simp add: assessCollectorIntegrity_def Let_def)
qed

section \<open>Customer risk\<close>

datatype pepStatus = NOT_PEP | DOMESTIC_PEP | FOREIGN_PEP | PEP_ASSOCIATE
datatype kycStatus = KYC_PENDING | KYC_VERIFIED | KYC_REJECTED
datatype cddLevel = STANDARD | ENHANCED

record customerRiskFactors =
  rf_watchlistFlag :: bool
  rf_pepStatus :: pepStatus
  rf_kycStatus :: kycStatus
  rf_possibleDuplicate :: bool
  rf_cddLevel :: cddLevel

definition pepName :: "pepStatus \<Rightarrow> string" where
  "pepName p = (case p of NOT_PEP \<Rightarrow> ''NOT_PEP'' | DOMESTIC_PEP \<Rightarrow> ''DOMESTIC_PEP''
     | FOREIGN_PEP \<Rightarrow> ''FOREIGN_PEP'' | PEP_ASSOCIATE \<Rightarrow> ''PEP_ASSOCIATE'')"

definition customerFactors :: "customerRiskFactors \<Rightarrow> factor list" where
  "customerFactors f =
     whenF (rf_watchlistFlag f) ''Watchlist match'' 50
     @ whenF (rf_pepStatus f \<noteq> NOT_PEP)
         (''PEP status: '' @ replaceChar (CHR ''_'') (CHR '' '') (pepName (rf_pepStatus f))) 30
     @ whenF (rf_kycStatus f = KYC_REJECTED) ''KYC rejected'' 25
     @ whenF (rf_kycStatus f = KYC_PENDING) ''KYC pending'' 10
     @ whenF (rf_possibleDuplicate f) ''Flagged as possible duplicate'' 10
     @ whenF (rf_cddLevel f = ENHANCED) ''Enhanced due diligence required'' 15"

definition calculateCustomerRiskScore :: "customerRiskFactors \<Rightarrow> int \<times> riskRating \<times> factor list" where
  "calculateCustomerRiskScore f =
     (let breakdown = customerFactors f;
          score = min 100 (points breakdown);
          rating = (if 50 \<le> score then HIGH else if 25 \<le> score then MEDIUM else LOW)
      in (score, rating, breakdown))"

abbreviation riskScoreOf :: "customerRiskFactors \<Rightarrow> int" where
  "riskScoreOf f \<equiv> fst (calculateCustomerRiskScore f)"

abbreviation riskRatingOf :: "customerRiskFactors \<Rightarrow> riskRating" where
  "riskRatingOf f \<equiv> fst (snd (calculateCustomerRiskScore f))"

interpretation customer_risk: disclosed_score customerFactors riskScoreOf
proof
  show "posF (customerFactors f)" for f
    unfolding customerFactors_def by (intro posF_intros; simp)
  show "riskScoreOf f = min 100 (points (customerFactors f))" for f
    by (simp add: calculateCustomerRiskScore_def Let_def)
qed

text \<open>\<open>calculateCustomerSimilarity\<close>: how alike two customer records are.\<close>

record customerIdentity =
  cu_id :: string
  cu_fullName :: string
  cu_phone :: string
  cu_email :: "string option"
  cu_idNumber :: "string option"

definition normalizeName :: "string \<Rightarrow> string" where
  "normalizeName n = collapseSpaces (toLower (trim n))"

definition sameField :: "(string \<Rightarrow> string) \<Rightarrow> string option \<Rightarrow> string option \<Rightarrow> bool" where
  "sameField f a b \<longleftrightarrow> truthy a \<and> truthy b \<and> f (the a) = f (the b)"

definition similarityFactors :: "customerIdentity \<Rightarrow> customerIdentity \<Rightarrow> factor list" where
  "similarityFactors a b =
     (let nameA = normalizeName (cu_fullName a); nameB = normalizeName (cu_fullName b) in
     whenF (sameField trim (cu_idNumber a) (cu_idNumber b)) ''idNumber'' 50
     @ whenF (sameField trim (Some (cu_phone a)) (Some (cu_phone b))) ''phone'' 30
     @ whenF (sameField (\<lambda>s. toLower (trim s)) (cu_email a) (cu_email b)) ''email'' 20
     @ firstF [(nameA = nameB, ''fullName (exact)'', 20),
               (3 < length nameA \<and> 3 < length nameB \<and> (includesStr nameA nameB \<or> includesStr nameB nameA),
                ''fullName (partial)'', 10)])"

definition calculateCustomerSimilarity :: "customerIdentity \<Rightarrow> customerIdentity \<Rightarrow> int \<times> string list" where
  "calculateCustomerSimilarity a b =
     (let fs = similarityFactors a b in (min 100 (points fs), map fst fs))"

interpretation similarity: disclosed_score "\<lambda>(a, b). similarityFactors a b"
    "\<lambda>(a, b). fst (calculateCustomerSimilarity a b)"
proof
  show "posF (case p of (a, b) \<Rightarrow> similarityFactors a b)" for p
    unfolding similarityFactors_def Let_def by (cases p) (simp only: prod.case, intro posF_intros; simp)
  show "(case p of (a, b) \<Rightarrow> fst (calculateCustomerSimilarity a b))
      = min 100 (points (case p of (a, b) \<Rightarrow> similarityFactors a b))" for p
    by (cases p) (simp add: calculateCustomerSimilarity_def Let_def)
qed

section \<open>Properties\<close>

text \<open>
  The credit score is the starting hundred less the listed deductions, cut off at zero,
  and the recommendation follows from it: below 40 a decline; an approval takes 70 points and
  neither an existing loan in arrears nor a HIGH rating, which no score can outweigh.
\<close>

theorem credit_recommendation:
  "let r = assessCredit i in
     cr_riskScore r = max 0 (points (cr_scoreBreakdown r)) \<and> 0 \<le> cr_riskScore r \<and> cr_riskScore r \<le> 100
     \<and> (cr_recommendation r = DECLINE \<longleftrightarrow> cr_riskScore r < 40)
     \<and> (cr_recommendation r = APPROVE \<longleftrightarrow> 70 \<le> cr_riskScore r \<and> \<not> ci_hasLoansInArrears i
          \<and> ci_customerRiskRating i \<noteq> Some HIGH)"
  using credit.score_range [of i] by (auto simp: assessCredit_def Let_def)

lemma num_mono:
  "a \<le> b \<Longrightarrow> c \<le> d \<Longrightarrow> nadd a c \<le> nadd b d"
  "a \<le> b \<Longrightarrow> 0 \<le> c \<Longrightarrow> nmul a c \<le> nmul b c"
  "a \<le> b \<Longrightarrow> 0 < c \<Longrightarrow> ndiv a c \<le> ndiv b c"
  "a \<le> b \<Longrightarrow> nsub a c \<le> nsub b c"
  by (auto simp: num_ops intro!: fl_mono add_mono mult_right_mono divide_right_mono)

text \<open>
  More debt never improves a credit score: of two applications alike in income, rating and
  arrears, the one with the larger obligations and the larger installment scores no higher.
\<close>

theorem credit_score_monotone:
  assumes "0 < ci_monthlyIncome i" and "0 < ci_existingLoanObligations i"
    and "j = i\<lparr>ci_existingLoanObligations := obl, ci_proposedInstallment := inst\<rparr>"
    and "ci_existingLoanObligations i \<le> obl" and "ci_proposedInstallment i \<le> inst"
  shows "cr_riskScore (assessCredit j) \<le> cr_riskScore (assessCredit i)"
proof -
  have "debtToIncome i \<le> debtToIncome j" "repaymentCapacity i \<le> repaymentCapacity j"
    using assms unfolding debtToIncome_def repaymentCapacity_def
    by (auto intro!: round2_mono num_mono)
  then have "points (creditFactors j) \<le> points (creditFactors i)"
    using assms(3) unfolding creditFactors_def by (auto simp: firstF.simps)
  then show ?thesis by (simp add: assessCredit_def Let_def)
qed

theorem credit_score_monotone_witness:
  "cr_riskScore (assessCredit \<lparr>ci_monthlyIncome = 5000, ci_monthlyExpenses = 2000, ci_existingLoanObligations = 1500,
     ci_proposedInstallment = 900, ci_customerRiskRating = Some MEDIUM, ci_hasLoansInArrears = False\<rparr>)
   \<le> cr_riskScore (assessCredit \<lparr>ci_monthlyIncome = 5000, ci_monthlyExpenses = 2000, ci_existingLoanObligations = 500,
     ci_proposedInstallment = 400, ci_customerRiskRating = Some MEDIUM, ci_hasLoansInArrears = False\<rparr>)"
  by (rule credit_score_monotone [where obl = 1500 and inst = 900]) simp_all

text \<open>
  Paying more never raises the delinquency score, the score lies between 0 and 100, and it
  is zero exactly when no warning sign was found.
\<close>

theorem delinquency_monotone:
  assumes "di_cumulativePaid i \<le> paid" and "j = i\<lparr>di_cumulativePaid := paid\<rparr>"
  shows "dr_riskScore (assessDelinquencyRisk j) \<le> dr_riskScore (assessDelinquencyRisk i)
    \<and> 0 \<le> dr_riskScore (assessDelinquencyRisk j) \<and> dr_riskScore (assessDelinquencyRisk i) \<le> 100
    \<and> (dr_riskScore (assessDelinquencyRisk i) = 0 \<longleftrightarrow> dr_breakdown (assessDelinquencyRisk i) = [])"
proof -
  have b: "bufferRatio i \<le> bufferRatio j"
    using assms unfolding bufferRatio_def by (auto intro!: round2_mono num_mono)
  have "points (bufferFactor (bufferRatio j)) \<le> points (bufferFactor (bufferRatio i))"
    unfolding bufferFactor_def using b by (intro points_firstF_mono) auto
  moreover have "gapFactor j = gapFactor i" by (simp add: assms(2) gapFactor_def Let_def cong: option.case_cong if_cong)
  ultimately have "points (delinquencyFactors j) \<le> points (delinquencyFactors i)"
    by (simp add: delinquencyFactors_def assms(2))
  then show ?thesis
    using delinquency.monotone delinquency.score_range [of i] delinquency.score_range [of j]
      delinquency.score_zero_iff [of i]
    by (simp add: assessDelinquencyRisk_def Let_def)
qed

theorem delinquency_monotone_witness:
  "let i = \<lparr>di_cumulativeDue = 1000, di_cumulativePaid = 800, di_daysSinceLastRepayment = Some 40,
      di_typicalInstallmentIntervalDays = 30, di_installmentsSoFar = 4, di_customerRiskRating = None,
      di_hasOtherLoansInArrears = False\<rparr>
   in dr_riskScore (assessDelinquencyRisk (i\<lparr>di_cumulativePaid := 950\<rparr>)) \<le> dr_riskScore (assessDelinquencyRisk i)"
  unfolding Let_def by (rule delinquency_monotone [THEN conjunct1]) simp_all

text \<open>
  A watchlist match alone makes a customer HIGH risk, and adding a risk factor never lowers
  the score or the rating.
\<close>

theorem customer_risk_monotone:
  "(rf_watchlistFlag f \<longrightarrow> riskRatingOf f = HIGH)
   \<and> riskScoreOf f \<le> riskScoreOf (f\<lparr>rf_watchlistFlag := True\<rparr>)
   \<and> riskScoreOf f \<le> riskScoreOf (f\<lparr>rf_possibleDuplicate := True\<rparr>)
   \<and> riskScoreOf f \<le> riskScoreOf (f\<lparr>rf_cddLevel := ENHANCED\<rparr>)
   \<and> riskRatingOf f \<le> riskRatingOf (f\<lparr>rf_watchlistFlag := True\<rparr>)"
proof -
  have le: "riskScoreOf g \<le> riskScoreOf h" if "points (customerFactors g) \<le> points (customerFactors h)" for g h
    using that by (rule customer_risk.monotone)
  have rating: "riskRatingOf g \<le> riskRatingOf h" if "riskScoreOf g \<le> riskScoreOf h" for g h
    using that unfolding calculateCustomerRiskScore_def Let_def fst_conv snd_conv
    by (auto simp: riskRating_order split: if_splits)
  have watch: "riskScoreOf f \<le> riskScoreOf (f\<lparr>rf_watchlistFlag := True\<rparr>)"
    by (rule le) (simp add: customerFactors_def)
  define rest where "rest = tl (customerFactors f)"
  have "riskRatingOf f = HIGH" if "rf_watchlistFlag f"
  proof -
    have "customerFactors f = (''Watchlist match'', 50) # rest"
      using that by (simp add: customerFactors_def whenF_def rest_def)
    then show ?thesis
      using customer_risk.positive [of f] customer_risk.points_nonneg [of rest]
      by (simp add: calculateCustomerRiskScore_def posF_def)
  qed
  then show ?thesis using watch rating [OF watch] by (auto simp: customerFactors_def intro!: le)
qed

theorem customer_risk_monotone_witness:
  "riskRatingOf \<lparr>rf_watchlistFlag = True, rf_pepStatus = NOT_PEP, rf_kycStatus = KYC_VERIFIED,
     rf_possibleDuplicate = False, rf_cddLevel = STANDARD\<rparr> = HIGH"
  using customer_risk_monotone [of "\<lparr>rf_watchlistFlag = True, rf_pepStatus = NOT_PEP, rf_kycStatus = KYC_VERIFIED,
     rf_possibleDuplicate = False, rf_cddLevel = STANDARD\<rparr>"] by simp

text \<open>
  The similarity of two customers does not depend on the order in which they are compared,
  and a customer with an identity number is always at least seventy points similar to itself.
\<close>

theorem similarity_symmetric:
  "calculateCustomerSimilarity a b = calculateCustomerSimilarity b a
   \<and> 0 \<le> fst (calculateCustomerSimilarity a b) \<and> fst (calculateCustomerSimilarity a b) \<le> 100
   \<and> (truthy (cu_idNumber a) \<longrightarrow> 70 \<le> fst (calculateCustomerSimilarity a a))"
proof (intro conjI impI)
  have "sameField f x y = sameField f y x" for f x y by (auto simp: sameField_def)
  then have "similarityFactors a b = similarityFactors b a"
    unfolding similarityFactors_def Let_def
    by (simp only: eq_commute [of "normalizeName (cu_fullName a)"] conj_ac disj_ac)
  then show "calculateCustomerSimilarity a b = calculateCustomerSimilarity b a"
    by (simp add: calculateCustomerSimilarity_def)
  show "0 \<le> fst (calculateCustomerSimilarity a b)" "fst (calculateCustomerSimilarity a b) \<le> 100"
    using similarity.score_range [of "(a, b)"] by auto
  assume "truthy (cu_idNumber a)"
  then show "70 \<le> fst (calculateCustomerSimilarity a a)"
    by (simp add: calculateCustomerSimilarity_def similarityFactors_def sameField_def)
qed

theorem similarity_symmetric_witness:
  "70 \<le> fst (calculateCustomerSimilarity
     \<lparr>cu_id = ''c1'', cu_fullName = ''Ama Mensah'', cu_phone = ''0244000000'', cu_email = None, cu_idNumber = Some ''GHA-1''\<rparr>
     \<lparr>cu_id = ''c1'', cu_fullName = ''Ama Mensah'', cu_phone = ''0244000000'', cu_email = None, cu_idNumber = Some ''GHA-1''\<rparr>)"
  by (rule similarity_symmetric [THEN conjunct2, THEN conjunct2, THEN conjunct2, THEN mp]) (simp add: truthy_def)

end
