(* ===== verification/Portfolio_Risk.thy ===== *)
theory Portfolio_Risk
  imports JS_Number JS_Date
begin

text \<open>
  Measuring the loan book: \<open>lib/arrears.ts\<close> (days in arrears and their classification),
  \<open>lib/capitalAdequacy.ts\<close> (regulatory classification, provisions and risk weights) and the pure
  part of \<open>lib/portfolio.ts\<close> (outstanding balance and portfolio at risk).
\<close>

section \<open>Arrears\<close>

datatype arrearsClassification = CURRENT | ARREARS_1_30 | ARREARS_31_60 | ARREARS_61_90 | ARREARS_90_PLUS

instantiation arrearsClassification :: linorder
begin

definition rank_arrearsClassification :: "arrearsClassification \<Rightarrow> nat" where
  "rank_arrearsClassification c = (case c of CURRENT \<Rightarrow> 0 | ARREARS_1_30 \<Rightarrow> 1 | ARREARS_31_60 \<Rightarrow> 2
     | ARREARS_61_90 \<Rightarrow> 3 | ARREARS_90_PLUS \<Rightarrow> 4)"

definition less_eq_arrearsClassification :: "arrearsClassification \<Rightarrow> arrearsClassification \<Rightarrow> bool" where
  "less_eq_arrearsClassification a b \<longleftrightarrow> rank_arrearsClassification a \<le> rank_arrearsClassification b"

definition less_arrearsClassification :: "arrearsClassification \<Rightarrow> arrearsClassification \<Rightarrow> bool" where
  "less_arrearsClassification a b \<longleftrightarrow> rank_arrearsClassification a < rank_arrearsClassification b"

instance
  by standard (auto simp: less_eq_arrearsClassification_def less_arrearsClassification_def
      rank_arrearsClassification_def split: arrearsClassification.splits)

end

lemmas arrears_order = less_eq_arrearsClassification_def less_arrearsClassification_def
  rank_arrearsClassification_def

record arrearsInstallment =
  ai_dueDate :: time
  ai_totalDue :: num
  ai_principalPaid :: num
  ai_interestPaid :: num

record arrearsResult =
  ar_daysInArrears :: int
  ar_arrearsAmount :: num
  ar_classification :: arrearsClassification

definition classify :: "int \<Rightarrow> arrearsClassification" where
  "classify days = (if days \<le> 0 then CURRENT else if days \<le> 30 then ARREARS_1_30
     else if days \<le> 60 then ARREARS_31_60 else if days \<le> 90 then ARREARS_61_90 else ARREARS_90_PLUS)"

definition isOverdue :: "time \<Rightarrow> arrearsInstallment \<Rightarrow> bool" where
  "isOverdue asOf i \<longleftrightarrow> ai_dueDate i < asOf
     \<and> nadd (ai_principalPaid i) (ai_interestPaid i) < nsub (ai_totalDue i) (cents 1)"

definition installmentArrears :: "arrearsInstallment \<Rightarrow> num" where
  "installmentArrears i = max 0 (nsub (nsub (ai_totalDue i) (ai_principalPaid i)) (ai_interestPaid i))"

definition calculateArrears :: "arrearsInstallment list \<Rightarrow> time \<Rightarrow> arrearsResult" where
  "calculateArrears installments asOf =
     (case filter (isOverdue asOf) installments of
        [] \<Rightarrow> \<lparr>ar_daysInArrears = 0, ar_arrearsAmount = 0, ar_classification = CURRENT\<rparr>
      | i # is \<Rightarrow>
          (let oldestDue = foldl (\<lambda>m j. if ai_dueDate j < m then ai_dueDate j else m) (ai_dueDate i) (i # is);
               days = (asOf - oldestDue) div msPerDay;
               amount = nsum (map installmentArrears (i # is))
           in \<lparr>ar_daysInArrears = days, ar_arrearsAmount = round2 amount, ar_classification = classify days\<rparr>))"

section \<open>Capital adequacy\<close>

datatype regulatoryClassification = RCURRENT | OLEM | SUBSTANDARD | DOUBTFUL | LOSS

definition PAST_DUE_THRESHOLD_DAYS :: int where "PAST_DUE_THRESHOLD_DAYS = 90"
definition RETAIL_MAX_EXPOSURE :: num where "RETAIL_MAX_EXPOSURE = 500000"

definition classifyLoanForRegulatory :: "int \<Rightarrow> regulatoryClassification \<times> num" where
  "classifyLoanForRegulatory days =
     (if days \<le> 30 then (RCURRENT, fl (1/100))
      else if days \<le> PAST_DUE_THRESHOLD_DAYS then (OLEM, fl (10/100))
      else if days \<le> 180 then (SUBSTANDARD, 1/4)
      else if days \<le> 365 then (DOUBTFUL, 1/2)
      else (LOSS, 1))"

record loanForRiskWeight =
  rw_outstanding :: num
  rw_daysInArrears :: int
  rw_customerSegment :: string

definition loanRiskWeightPercent :: "loanForRiskWeight \<Rightarrow> num" where
  "loanRiskWeightPercent l =
     (if PAST_DUE_THRESHOLD_DAYS < rw_daysInArrears l then
        (let c = fst (classifyLoanForRegulatory (rw_daysInArrears l)) in
         if c = SUBSTANDARD then 150 else if c = DOUBTFUL then 100 else 0)
      else if rw_customerSegment l = ''INDIVIDUAL'' \<and> rw_outstanding l \<le> RETAIL_MAX_EXPOSURE then 75 else 100)"

section \<open>Portfolio at risk\<close>

text \<open>
  The balance the portfolio views report for a loan: its principal column less the sum of the
  principal paid on its installments, never negative.
\<close>

definition outstandingBalance :: "int \<Rightarrow> int list \<Rightarrow> num" where
  "outstandingBalance principalCol principalPaidCols =
     max 0 (round2 (nsub (cents principalCol) (nsum (map cents principalPaidCols))))"

record outstandingLoan =
  ol_daysInArrears :: int
  ol_outstanding :: num

definition parRatio :: "outstandingLoan list \<Rightarrow> int \<Rightarrow> num" where
  "parRatio loans thresholdDays =
     (let total = nsum (map ol_outstanding loans) in
      if total = 0 then 0
      else (let atRisk = nsum (map ol_outstanding (filter (\<lambda>l. thresholdDays < ol_daysInArrears l) loans))
            in round2 (nmul (ndiv atRisk total) 100)))"

section \<open>Lemmas\<close>

lemma classify_mono: "a \<le> b \<Longrightarrow> classify a \<le> classify b"
  by (auto simp: classify_def arrears_order)

lemma oldest_bounds:
  "foldl (\<lambda>m j. if ai_dueDate j < m then ai_dueDate j else m) m js \<le> m"
  "j \<in> set js \<Longrightarrow> foldl (\<lambda>m j. if ai_dueDate j < m then ai_dueDate j else m) m js \<le> ai_dueDate j"
  "(foldl (\<lambda>m j. if ai_dueDate j < m then ai_dueDate j else m) m js) \<in> insert m (ai_dueDate ` set js)"
proof (induction js arbitrary: m)
  case (Cons x js)
  { case 1 then show ?case using Cons(1) [of "if ai_dueDate x < m then ai_dueDate x else m"] by (auto split: if_splits) }
  { case 2 then show ?case using Cons(1,2) [of "if ai_dueDate x < m then ai_dueDate x else m"] by (auto split: if_splits) }
  { case 3 then show ?case using Cons(3) [of "if ai_dueDate x < m then ai_dueDate x else m"] by (auto split: if_splits) }
qed auto

lemma foldl_nadd_mono_sub:
  assumes "a \<le> b" "0 \<le> a" "\<And>x. x \<in> set xs \<Longrightarrow> 0 \<le> f x \<and> fl (f x) = f x" "fl a = a" "fl b = b"
  shows "foldl nadd a (map f (filter P xs)) \<le> foldl nadd b (map f xs)"
  using assms
proof (induction xs arbitrary: a b)
  case (Cons x xs)
  have x: "0 \<le> f x" using Cons.prems(3) by auto
  have grow: "b \<le> nadd b (f x)" using fl_mono [of b "b + f x"] Cons.prems(5) x by (simp add: nadd_def)
  have step: "nadd a (f x) \<le> nadd b (f x)" unfolding nadd_def by (rule fl_mono) (use Cons.prems in auto)
  show ?case
  proof (cases "P x")
    case True
    then show ?thesis
      using Cons.IH [of "nadd a (f x)" "nadd b (f x)"] Cons.prems step x nadd_nonneg [of a "f x"]
      by (auto simp: nadd_def)
  next
    case False
    then show ?thesis
      using Cons.IH [of a "nadd b (f x)"] Cons.prems grow by (auto simp: nadd_def)
  qed
qed simp

section \<open>Properties\<close>

text \<open>
  The arrears of a loan: nothing is reported exactly when no installment is overdue; else
  the days run from the oldest overdue due date and are not negative, and the classification is that
  of the days.
\<close>

theorem arrears_from_oldest:
  "(filter (isOverdue asOf) insts = [] \<longrightarrow>
       calculateArrears insts asOf = \<lparr>ar_daysInArrears = 0, ar_arrearsAmount = 0, ar_classification = CURRENT\<rparr>)
   \<and> (filter (isOverdue asOf) insts \<noteq> [] \<longrightarrow>
       (\<exists>i \<in> set insts. isOverdue asOf i
          \<and> (\<forall>j \<in> set insts. isOverdue asOf j \<longrightarrow> ai_dueDate i \<le> ai_dueDate j)
          \<and> ar_daysInArrears (calculateArrears insts asOf) = (asOf - ai_dueDate i) div msPerDay
          \<and> 0 \<le> ar_daysInArrears (calculateArrears insts asOf)))
   \<and> ar_classification (calculateArrears insts asOf) = classify (ar_daysInArrears (calculateArrears insts asOf))"
proof (cases "filter (isOverdue asOf) insts")
  case Nil
  then show ?thesis by (simp add: calculateArrears_def classify_def)
next
  case (Cons i js)
  define old where "old = foldl (\<lambda>m j. if ai_dueDate j < m then ai_dueDate j else m) (ai_dueDate i) (i # js)"
  have mem: "set (i # js) = {j \<in> set insts. isOverdue asOf j}" using Cons by (metis set_filter)
  have le: "\<forall>j \<in> set (i # js). old \<le> ai_dueDate j" unfolding old_def by (blast intro: oldest_bounds(2))
  have "old \<in> ai_dueDate ` set (i # js)" using oldest_bounds(3) [of "ai_dueDate i" "i # js"] by (auto simp: old_def)
  then obtain k where k: "k \<in> set (i # js)" "old = ai_dueDate k" by blast
  have "old < asOf" using k mem by (auto simp: isOverdue_def)
  then have "0 \<le> (asOf - old) div msPerDay" by (intro pos_imp_zdiv_nonneg_iff [THEN iffD2]) auto
  moreover have "ar_daysInArrears (calculateArrears insts asOf) = (asOf - old) div msPerDay"
    "ar_classification (calculateArrears insts asOf) = classify ((asOf - old) div msPerDay)"
    by (simp_all only: calculateArrears_def Cons list.case Let_def old_def [symmetric] arrearsResult.simps)
  moreover have "k \<in> set insts \<and> isOverdue asOf k
      \<and> (\<forall>j \<in> set insts. isOverdue asOf j \<longrightarrow> ai_dueDate k \<le> ai_dueDate j)"
    using k le mem by blast
  ultimately show ?thesis using k(2) Cons by auto
qed

theorem arrears_from_oldest_witness:
  "ar_daysInArrears (calculateArrears [\<lparr>ai_dueDate = 0, ai_totalDue = cents 10000,
     ai_principalPaid = 0, ai_interestPaid = 0\<rparr>] (45 * msPerDay)) = 45"
proof -
  have "cents 1 < cents 10000" by (rule cents_less) auto
  then have "isOverdue (45 * msPerDay) \<lparr>ai_dueDate = 0, ai_totalDue = cents 10000, ai_principalPaid = 0, ai_interestPaid = 0\<rparr>"
    by (simp add: isOverdue_def nadd_def nsub_def fl_pos)
  then show ?thesis
    using arrears_from_oldest [of "45 * msPerDay" "[\<lparr>ai_dueDate = 0, ai_totalDue = cents 10000, ai_principalPaid = 0, ai_interestPaid = 0\<rparr>]"]
    by simp
qed

text \<open>
  The regulatory treatment is graded: more days in arrears never mean a smaller provision,
  a full year and a day means a full provision, and a loan past due for more than ninety days never
  gets the retail weight.
\<close>

theorem regulatory_graded:
  "(a \<le> b \<longrightarrow> snd (classifyLoanForRegulatory a) \<le> snd (classifyLoanForRegulatory b))
   \<and> (fst (classifyLoanForRegulatory a) = LOSS \<longleftrightarrow> 365 < a)
   \<and> (snd (classifyLoanForRegulatory a) = 1 \<longleftrightarrow> 365 < a)
   \<and> (loanRiskWeightPercent l = 75 \<longleftrightarrow> rw_daysInArrears l \<le> 90 \<and> rw_customerSegment l = ''INDIVIDUAL''
        \<and> rw_outstanding l \<le> 500000)"
proof -
  have c: "fl (1/100) < 2/100" "fl (10/100) < 11/100" "9/100 < fl (10/100)"
    using fl_error [of "1/100"] fl_error [of "10/100"] unfolding abs_le_iff by auto
  then show ?thesis
    by (auto simp: classifyLoanForRegulatory_def PAST_DUE_THRESHOLD_DAYS_def RETAIL_MAX_EXPOSURE_def
        loanRiskWeightPercent_def Let_def)
qed

theorem regulatory_graded_witness: "snd (classifyLoanForRegulatory 45) \<le> snd (classifyLoanForRegulatory 400)"
  using regulatory_graded [of 45 400] by simp

text \<open>
  The balance reported for a loan is its principal less what has been repaid, to the
  pesewa, and never negative.
\<close>

theorem outstanding_balance_exact:
  assumes "dec14 p" and "smallSum paid" and "dec14 (p - sum_list paid)"
  shows "outstandingBalance p paid = cents (max 0 (p - sum_list paid))"
proof -
  have "\<bar>nsum (map cents paid) - of_int (sum_list paid) / 100\<bar> \<le> 34 / 10000"
    by (rule nsum_cents_error [OF assms(2)])
  moreover have "\<bar>cents p - of_int p / 100\<bar> \<le> 1 / 8000" by (rule cents_error [OF assms(1)])
  moreover have v: "\<bar>of_int (p - sum_list paid) / 100 :: rat\<bar> \<le> 1000000000000" by (rule dec14_value [OF assms(3)])
  ultimately have d: "\<bar>cents p - nsum (map cents paid) - of_int (p - sum_list paid) / 100\<bar> \<le> 36 / 10000"
    unfolding abs_le_iff of_int_diff diff_divide_distrib by linarith
  then have "\<bar>cents p - nsum (map cents paid)\<bar> \<le> 1000000000001"
    using v unfolding abs_le_iff by linarith
  then have "\<bar>nsub (cents p) (nsum (map cents paid)) - (cents p - nsum (map cents paid))\<bar> \<le> 1 / 8000"
    using fl_error [of "cents p - nsum (map cents paid)"] unfolding nsub_def by simp
  then have "\<bar>nsub (cents p) (nsum (map cents paid)) - of_int (p - sum_list paid) / 100\<bar> \<le> 4 / 1000"
    using d unfolding abs_le_iff by linarith
  then have "round2 (nsub (cents p) (nsum (map cents paid))) = cents (p - sum_list paid)"
    by (rule round2_near) (rule assms(3))
  then show ?thesis
    unfolding outstandingBalance_def by (auto simp: max_def)
qed

theorem outstanding_balance_exact_witness: "outstandingBalance 100000 [33333, 33333] = cents 33334"
  using outstanding_balance_exact [of 100000 "[33333, 33333]"] by (simp add: smallSum_def)

lemma nsum_filter_le:
  assumes "\<And>x. x \<in> set xs \<Longrightarrow> 0 \<le> f x \<and> fl (f x) = f x"
  shows "nsum (map f (filter P xs)) \<le> nsum (map f xs)" and "0 \<le> nsum (map f xs)"
proof -
  show "nsum (map f (filter P xs)) \<le> nsum (map f xs)"
    unfolding nsum_def using assms by (intro foldl_nadd_mono_sub) auto
  have "0 \<le> foldl nadd a (map f xs)" if "0 \<le> a" for a
    using assms that by (induction xs arbitrary: a) (auto simp: nadd_nonneg)
  then show "0 \<le> nsum (map f xs)" by (simp add: nsum_def)
qed

text \<open>
  Portfolio at risk is a percentage: without negative balances it lies between 0 and 100,
  and a higher day threshold never shows more risk.
\<close>

theorem par_percentage:
  assumes bal: "\<And>l. l \<in> set loans \<Longrightarrow> 0 \<le> ol_outstanding l \<and> fl (ol_outstanding l) = ol_outstanding l"
    and "d \<le> e"
  shows "0 \<le> parRatio loans d \<and> parRatio loans d \<le> 100 \<and> parRatio loans e \<le> parRatio loans d"
proof -
  define total where "total = nsum (map ol_outstanding loans)"
  define risk where "risk k = nsum (map ol_outstanding (filter (\<lambda>l. k < ol_daysInArrears l) loans))" for k
  have r: "0 \<le> risk k" "risk k \<le> total" for k
    unfolding risk_def total_def using bal by (auto intro!: nsum_filter_le)
  have "filter (\<lambda>l. e < ol_daysInArrears l) (filter (\<lambda>l. d < ol_daysInArrears l) loans)
      = filter (\<lambda>l. e < ol_daysInArrears l) loans"
    using assms(2) by (auto intro!: filter_cong)
  then have ed: "risk e \<le> risk d"
    using nsum_filter_le(1) [of "filter (\<lambda>l. d < ol_daysInArrears l) loans" ol_outstanding
        "\<lambda>l. e < ol_daysInArrears l"] bal
    by (simp add: risk_def)
  have par: "parRatio loans k = (if total = 0 then 0 else round2 (nmul (ndiv (risk k) total) 100))" for k
    by (simp add: parRatio_def total_def risk_def)
  show ?thesis
  proof (cases "total = 0")
    case False
    then have t: "0 < total" using r [of d] by linarith
    have "risk d / total \<le> 1" using r(2) [of d] t by simp
    then have one: "ndiv (risk d) total \<le> fl 1" unfolding ndiv_def by (rule fl_mono)
    then have "nmul (ndiv (risk d) total) 100 \<le> fl 100" unfolding nmul_def by (intro fl_mono) simp
    then have "round2 (nmul (ndiv (risk d) total) 100) \<le> round2 (cents 10000)"
      using cents_whole [of 100] by (intro round2_mono) simp
    then have "parRatio loans d \<le> 100" using False cents_whole [of 100] by (simp add: par)
    moreover have "0 \<le> parRatio loans d"
      using False r(1) [of d] t by (simp add: par round2_nonneg nmul_nonneg ndiv_nonneg)
    moreover have "parRatio loans e \<le> parRatio loans d"
      using False ed t r(1) [of e]
      by (simp add: par num_ops round2_mono fl_mono mult_right_mono divide_right_mono)
    ultimately show ?thesis by simp
  qed (simp add: par)
qed

text \<open>A loan in arrears and a current one.\<close>

abbreviation sampleLoans :: "outstandingLoan list" where
  "sampleLoans \<equiv> [\<lparr>ol_daysInArrears = 45, ol_outstanding = 5000\<rparr>, \<lparr>ol_daysInArrears = 0, ol_outstanding = 15000\<rparr>]"

theorem par_percentage_witness: "parRatio sampleLoans 90 \<le> parRatio sampleLoans 30"
  by (rule par_percentage [THEN conjunct2, THEN conjunct2]) auto

end
