(* ===== verification/Ledger.thy ===== *)
theory Ledger
  imports JS_Number "HOL-Library.Multiset"
begin

text \<open>
  Double-entry bookkeeping: \<open>lib/generalLedger.ts\<close>, \<open>lib/cashFlowStatement.ts\<close> and the arithmetic of
  the statements of \<open>routes/generalLedger.routes.ts\<close> (trial balance, balance sheet, income statement,
  dashboard, liquidity). Amounts read from the database are money columns; the exact reading of a
  line is its signed amount in pesewas (\<open>signed\<close>), and the lemmas relate the code's doubles to sums
  of those.
\<close>

section \<open>Journal lines\<close>

datatype glCategory = ASSET | LIABILITY | EQUITY | INCOME | EXPENSE

definition isDebitNormal :: "glCategory \<Rightarrow> bool" where
  "isDebitNormal c \<longleftrightarrow> c = ASSET \<or> c = EXPENSE"

text \<open>A debit and a credit amount, as the balance check and the builders of lines use them.\<close>

record entry =
  en_accountId :: string
  en_debit :: num
  en_credit :: num

definition entry :: "string \<Rightarrow> num \<Rightarrow> num \<Rightarrow> entry" where
  "entry a d c = \<lparr>en_accountId = a, en_debit = d, en_credit = c\<rparr>"

lemma entry_sel [simp]:
  "en_accountId (entry a d c) = a" "en_debit (entry a d c) = d" "en_credit (entry a d c) = c"
  by (simp_all add: entry_def)

definition isBalanced :: "entry list \<Rightarrow> bool" where
  "isBalanced ls = (let totalDebit = round2 (nsum (map en_debit ls)); totalCredit = round2 (nsum (map en_credit ls))
     in totalDebit = totalCredit \<and> 0 < totalDebit)"

definition balanceEffect :: "glCategory \<Rightarrow> num \<Rightarrow> num \<Rightarrow> num" where
  "balanceEffect c debit credit = (if isDebitNormal c then round2 (nsub debit credit) else round2 (nsub credit debit))"

record ledgerLine =
  ll_accountId :: string
  ll_category :: glCategory
  ll_debit :: num
  ll_credit :: num

type_synonym balances = "string \<rightharpoonup> num"

text \<open>\<open>result.get(id) || 0\<close>.\<close>

definition balOf :: "balances \<Rightarrow> string \<Rightarrow> num" where
  "balOf b a = (case b a of None \<Rightarrow> 0 | Some x \<Rightarrow> x)"

definition aggregateStep :: "balances \<Rightarrow> ledgerLine \<Rightarrow> balances" where
  "aggregateStep result l =
     result(ll_accountId l \<mapsto> round2 (nadd (balOf result (ll_accountId l))
       (balanceEffect (ll_category l) (ll_debit l) (ll_credit l))))"

definition aggregateBalancesAsOf :: "ledgerLine list \<Rightarrow> balances" where
  "aggregateBalancesAsOf ls = foldl aggregateStep Map.empty ls"

definition aggregateBalancesForPeriod :: "ledgerLine list \<Rightarrow> balances" where
  "aggregateBalancesForPeriod = aggregateBalancesAsOf"

text \<open>\<open>linearTrendForecast\<close>: least squares over the values, projected one step.\<close>

definition linearTrendForecast :: "num list \<Rightarrow> num \<times> num \<times> num" where
  "linearTrendForecast values =
     (let n = length values in
      if n < 2 then (let v = (case values of [] \<Rightarrow> 0 | v # _ \<Rightarrow> v) in (0, v, v))
      else
        (let xs = map of_nat [0..<n];
             sumX = nsum xs; sumY = nsum values;
             sumXY = nsum (map2 nmul xs values);
             sumXX = nsum (map (\<lambda>x. nmul x x) xs);
             m = of_nat n;
             denom = nsub (nmul m sumXX) (nmul sumX sumX);
             slope = (if denom = 0 then 0 else ndiv (nsub (nmul m sumXY) (nmul sumX sumY)) denom);
             intercept = ndiv (nsub sumY (nmul slope sumX)) m;
             nextValue = round2 (nadd (nmul slope m) intercept)
         in (round2 slope, round2 intercept, nextValue)))"

section \<open>Statements\<close>

text \<open>
  The accounts a set of posted lines involves, in order of first appearance (the \<open>Map\<close> keyed by
  account id), each with its category. The statements sort them by account code with
  \<open>localeCompare\<close>, whose order belongs to the runtime: it is the parameter \<open>byCode\<close>.
\<close>

fun accountsInvolved :: "ledgerLine list \<Rightarrow> (string \<times> glCategory) list" where
  "accountsInvolved [] = []"
| "accountsInvolved (l # ls) =
     (ll_accountId l, ll_category l) # filter (\<lambda>a. fst a \<noteq> ll_accountId l) (accountsInvolved ls)"

text \<open>\<open>GET /reports/trial-balance\<close>: the debit and the credit column of each account, and the totals.\<close>

definition trialRow :: "balances \<Rightarrow> string \<times> glCategory \<Rightarrow> num \<times> num" where
  "trialRow b a = (let bal = balOf b (fst a) in
     if isDebitNormal (snd a) then (if 0 \<le> bal then (bal, 0) else (0, - bal))
     else (if 0 \<le> bal then (0, bal) else (- bal, 0)))"

record trialBalance =
  tb_rows :: "(num \<times> num) list"
  tb_totalDebit :: num
  tb_totalCredit :: num
  tb_balanced :: bool

definition trialBalance ::
  "((string \<times> glCategory) list \<Rightarrow> (string \<times> glCategory) list) \<Rightarrow> ledgerLine list \<Rightarrow> trialBalance" where
  "trialBalance byCode ls =
     (let b = aggregateBalancesAsOf ls;
          rows = map (trialRow b) (byCode (accountsInvolved ls));
          totalDebit = nsum (map fst rows); totalCredit = nsum (map snd rows)
      in \<lparr>tb_rows = rows, tb_totalDebit = totalDebit, tb_totalCredit = totalCredit,
          tb_balanced = (\<bar>nsub totalDebit totalCredit\<bar> < cents 1)\<rparr>)"

text \<open>\<open>GET /reports/balance-sheet\<close>.\<close>

record balanceSheet =
  bs_totalAssets :: num
  bs_totalLiabilities :: num
  bs_totalEquity :: num
  bs_netIncomeSinceInception :: num
  bs_balanced :: bool

definition categoryTotal :: "balances \<Rightarrow> (string \<times> glCategory) list \<Rightarrow> glCategory \<Rightarrow> num" where
  "categoryTotal b accts c = nsum (map (\<lambda>a. balOf b (fst a)) (filter (\<lambda>a. snd a = c) accts))"

definition incomeExpenseSum :: "ledgerLine list \<Rightarrow> num" where
  "incomeExpenseSum ls =
     (let ie = filter (\<lambda>l. ll_category l = INCOME \<or> ll_category l = EXPENSE) ls;
          b = aggregateBalancesAsOf ie
      in nsum (map (\<lambda>a. balOf b (fst a)) (accountsInvolved ie)))"

definition balanceSheet ::
  "((string \<times> glCategory) list \<Rightarrow> (string \<times> glCategory) list) \<Rightarrow> ledgerLine list \<Rightarrow> balanceSheet" where
  "balanceSheet byCode ls =
     (let b = aggregateBalancesAsOf ls; accts = byCode (accountsInvolved ls);
          totalAssets = categoryTotal b accts ASSET;
          totalLiabilities = categoryTotal b accts LIABILITY;
          totalEquityExclIncome = categoryTotal b accts EQUITY;
          netIncome = incomeExpenseSum ls;
          totalEquity = nadd totalEquityExclIncome netIncome
      in \<lparr>bs_totalAssets = totalAssets, bs_totalLiabilities = totalLiabilities, bs_totalEquity = totalEquity,
          bs_netIncomeSinceInception = netIncome,
          bs_balanced = (\<bar>nsub totalAssets (nadd totalLiabilities totalEquity)\<bar> < cents 1)\<rparr>)"

text \<open>\<open>GET /reports/income-statement\<close>: total income, total expenses, net income.\<close>

definition incomeStatement ::
  "((string \<times> glCategory) list \<Rightarrow> (string \<times> glCategory) list) \<Rightarrow> ledgerLine list \<Rightarrow> num \<times> num \<times> num" where
  "incomeStatement byCode ls =
     (let ie = filter (\<lambda>l. ll_category l = INCOME \<or> ll_category l = EXPENSE) ls;
          b = aggregateBalancesForPeriod ie; accts = byCode (accountsInvolved ie);
          totalIncome = categoryTotal b accts INCOME; totalExpenses = categoryTotal b accts EXPENSE
      in (totalIncome, totalExpenses, nsub totalIncome totalExpenses))"

text \<open>\<open>GET /reports/changes-in-equity\<close>, from the lines before, in and up to the end of the period.\<close>

definition sumEquity :: "ledgerLine list \<Rightarrow> num" where
  "sumEquity ls = (let eq = filter (\<lambda>l. ll_category l = EQUITY) ls; b = aggregateBalancesAsOf eq
     in nsum (map (\<lambda>a. balOf b (fst a)) (accountsInvolved eq)))"

record changesInEquity =
  ce_openingEquity :: num
  ce_netIncomeForPeriod :: num
  ce_equityMovement :: num
  ce_closingEquity :: num
  ce_reconciles :: bool

definition changesInEquity :: "ledgerLine list \<Rightarrow> ledgerLine list \<Rightarrow> ledgerLine list \<Rightarrow> changesInEquity" where
  "changesInEquity atStart periodLines atEnd =
     (let opening = nadd (sumEquity atStart) (incomeExpenseSum atStart);
          movement = sumEquity periodLines;
          netIncome = incomeExpenseSum periodLines;
          closing = nadd (sumEquity atEnd) (incomeExpenseSum atEnd);
          expected = nadd (nadd opening movement) netIncome
      in \<lparr>ce_openingEquity = opening, ce_netIncomeForPeriod = netIncome, ce_equityMovement = movement,
          ce_closingEquity = closing, ce_reconciles = (\<bar>nsub closing expected\<bar> < cents 1)\<rparr>)"

text \<open>\<open>GET /reports/dashboard\<close>: totals by category, total equity with the net income folded in.\<close>

record dashboard =
  da_totalAssets :: num
  da_totalLiabilities :: num
  da_totalEquity :: num
  da_netIncomeSinceInception :: num

definition dashboard :: "ledgerLine list \<Rightarrow> dashboard" where
  "dashboard ls =
     (let b = aggregateBalancesAsOf ls; accts = accountsInvolved ls;
          total = categoryTotal b accts
      in \<lparr>da_totalAssets = round2 (total ASSET), da_totalLiabilities = round2 (total LIABILITY),
          da_totalEquity = round2 (nsub (nadd (total EQUITY) (total INCOME)) (total EXPENSE)),
          da_netIncomeSinceInception = round2 (nsub (total INCOME) (total EXPENSE))\<rparr>)"

section \<open>Cash flow\<close>

datatype cashFlowActivity = OPERATING | INVESTING | FINANCING

record cashFlowMovement =
  cf_category :: glCategory
  cf_activity :: "cashFlowActivity option"
  cf_isLiquidAsset :: bool
  cf_openingBalance :: num
  cf_closingBalance :: num

definition cashEffect :: "glCategory \<Rightarrow> num \<Rightarrow> num" where
  "cashEffect c change = (if isDebitNormal c then - change else change)"

record cashFlowStatement =
  cs_operating :: num
  cs_investing :: num
  cs_financing :: num
  cs_netChange :: num
  cs_cashOpening :: num
  cs_cashClosing :: num
  cs_reconciles :: bool

definition movementEffect :: "cashFlowMovement \<Rightarrow> num" where
  "movementEffect m = cashEffect (cf_category m) (round2 (nsub (cf_closingBalance m) (cf_openingBalance m)))"

text \<open>The loop over the accounts that are not cash, adding each effect to its activity.\<close>

definition cashFlowStep :: "num \<times> num \<times> num \<Rightarrow> cashFlowMovement \<Rightarrow> num \<times> num \<times> num" where
  "cashFlowStep acc m = (case acc of (operating, investing, financing) \<Rightarrow>
     if cf_activity m = Some INVESTING then (operating, nadd investing (movementEffect m), financing)
     else if cf_activity m = Some FINANCING then (operating, investing, nadd financing (movementEffect m))
     else (nadd operating (movementEffect m), investing, financing))"

definition buildCashFlowStatement :: "cashFlowMovement list \<Rightarrow> cashFlowStatement" where
  "buildCashFlowStatement ms =
     (case foldl cashFlowStep (0, 0, 0) (filter (\<lambda>m. \<not> cf_isLiquidAsset m) ms) of (operating, investing, financing) \<Rightarrow>
        let cash = filter cf_isLiquidAsset ms;
            cashOpening = round2 (nsum (map cf_openingBalance cash));
            cashClosing = round2 (nsum (map cf_closingBalance cash));
            netChange = round2 (nadd (nadd operating investing) financing)
        in \<lparr>cs_operating = round2 operating, cs_investing = round2 investing, cs_financing = round2 financing,
            cs_netChange = netChange, cs_cashOpening = cashOpening, cs_cashClosing = cashClosing,
            cs_reconciles = (\<bar>nsub (round2 (nsub cashClosing cashOpening)) netChange\<bar> < cents 2)\<rparr>)"

text \<open>\<open>GET /reports/liquidity-ratio\<close>; \<open>None\<close> is the null of no volatile liabilities.\<close>

definition liquidityRatio :: "(num \<times> bool \<times> bool) list \<Rightarrow> num \<times> num \<times> num option" where
  "liquidityRatio accts =
     (let liquid = nsum (map fst (filter (\<lambda>(_, l, _). l) accts));
          volatile = nsum (map (\<lambda>(b, _, _). \<bar>b\<bar>) (filter (\<lambda>(_, _, v). v) accts))
      in (round2 liquid, round2 volatile,
          if 0 < volatile then Some (round2 (nmul (ndiv liquid volatile) 100)) else None))"

section \<open>Exact readings\<close>

text \<open>
  A posted line in pesewas: account, category, debit, credit. \<open>volume\<close> bounds every sum that the
  statements form; a ledger is small when its volume times its number of lines stays within the
  precision of a double (ten thousand lines turning over a hundred million cedis are small).
\<close>

type_synonym xline = "string \<times> glCategory \<times> int \<times> int"

abbreviation xacct :: "xline \<Rightarrow> string" where "xacct x \<equiv> fst x"
abbreviation xcat :: "xline \<Rightarrow> glCategory" where "xcat x \<equiv> fst (snd x)"
abbreviation xdebit :: "xline \<Rightarrow> int" where "xdebit x \<equiv> fst (snd (snd x))"
abbreviation xcredit :: "xline \<Rightarrow> int" where "xcredit x \<equiv> snd (snd (snd x))"

definition toLine :: "xline \<Rightarrow> ledgerLine" where
  "toLine x = \<lparr>ll_accountId = xacct x, ll_category = xcat x, ll_debit = cents (xdebit x),
     ll_credit = cents (xcredit x)\<rparr>"

definition signed :: "xline \<Rightarrow> int" where
  "signed x = (if isDebitNormal (xcat x) then xdebit x - xcredit x else xcredit x - xdebit x)"

definition volume :: "xline list \<Rightarrow> int" where
  "volume xs = (\<Sum>x\<leftarrow>xs. \<bar>xdebit x\<bar> + \<bar>xcredit x\<bar>)"

definition smallLedger :: "xline list \<Rightarrow> bool" where
  "smallLedger xs \<longleftrightarrow> (int (length xs) + 1) * volume xs \<le> 10 ^ 14"

definition exactBal :: "xline list \<Rightarrow> string \<Rightarrow> int" where
  "exactBal xs a = (\<Sum>x\<leftarrow>filter (\<lambda>x. xacct x = a) xs. signed x)"

definition exactCat :: "xline list \<Rightarrow> glCategory \<Rightarrow> int" where
  "exactCat xs c = (\<Sum>x\<leftarrow>filter (\<lambda>x. xcat x = c) xs. signed x)"

text \<open>Every account has one category.\<close>

definition consistent :: "xline list \<Rightarrow> bool" where
  "consistent xs \<longleftrightarrow> (\<forall>x \<in> set xs. \<forall>y \<in> set xs. xacct x = xacct y \<longrightarrow> xcat x = xcat y)"

lemma volume_simps [simp]:
  "volume [] = 0" "volume (x # xs) = \<bar>xdebit x\<bar> + \<bar>xcredit x\<bar> + volume xs"
  "volume (xs @ ys) = volume xs + volume ys"
  by (simp_all add: volume_def)

lemma volume_nonneg: "0 \<le> volume xs"
  by (induction xs) auto

lemma abs_signed: "\<bar>signed x\<bar> \<le> \<bar>xdebit x\<bar> + \<bar>xcredit x\<bar>"
  by (auto simp: signed_def)

lemma sum_signed_le: "(\<Sum>x\<leftarrow>filter P xs. \<bar>signed x\<bar>) \<le> volume xs"
proof (induction xs)
  case (Cons x xs)
  then show ?case using abs_signed [of x] by auto
qed simp

lemma abs_sum_list_le': "\<bar>\<Sum>x\<leftarrow>xs. f x\<bar> \<le> (\<Sum>x\<leftarrow>xs. \<bar>f x :: int\<bar>)"
  by (induction xs) auto

lemma abs_exactBal: "\<bar>exactBal xs a\<bar> \<le> volume xs"
  using abs_sum_list_le' [of signed "filter (\<lambda>x. xacct x = a) xs"] sum_signed_le [of "\<lambda>x. xacct x = a" xs]
  by (simp add: exactBal_def)

lemma exactBal_snoc: "exactBal (xs @ [x]) a = exactBal xs a + (if xacct x = a then signed x else 0)"
  by (simp add: exactBal_def)

lemma balanceEffect_exact:
  "dec14 d \<Longrightarrow> dec14 c \<Longrightarrow> dec14 (d - c) \<Longrightarrow> balanceEffect k (cents d) (cents c) = cents (if isDebitNormal k then d - c else c - d)"
  using round2_sub [of d c] round2_sub [of c d] by (simp add: balanceEffect_def abs_minus_commute)

text \<open>The balances the code accumulates are the exact ones.\<close>

lemma aggregate_exact:
  assumes "volume xs \<le> 10 ^ 14"
  shows "aggregateBalancesAsOf (map toLine xs) =
    (\<lambda>a. if a \<in> xacct ` set xs then Some (cents (exactBal xs a)) else None)"
  using assms
proof (induction xs rule: rev_induct)
  case Nil
  then show ?case by (simp add: aggregateBalancesAsOf_def)
next
  case (snoc x xs)
  have v: "volume xs + \<bar>xdebit x\<bar> + \<bar>xcredit x\<bar> \<le> 10 ^ 14" "0 \<le> volume xs"
    using snoc.prems volume_nonneg by auto
  have IH: "aggregateBalancesAsOf (map toLine xs) =
      (\<lambda>a. if a \<in> xacct ` set xs then Some (cents (exactBal xs a)) else None)"
    using snoc v by simp
  have bal: "balOf (aggregateBalancesAsOf (map toLine xs)) a = cents (exactBal xs a)" for a
  proof (cases "a \<in> xacct ` set xs")
    case False
    then have "filter (\<lambda>x. xacct x = a) xs = []" by (auto simp: filter_empty_conv)
    then have "exactBal xs a = 0" by (simp add: exactBal_def)
    then show ?thesis using False by (simp add: balOf_def IH)
  qed (simp add: balOf_def IH)
  have eff: "balanceEffect (xcat x) (cents (xdebit x)) (cents (xcredit x)) = cents (signed x)"
    using v by (subst balanceEffect_exact) (auto simp: signed_def)
  have "round2 (nadd (cents (exactBal xs (xacct x))) (cents (signed x))) = cents (exactBal xs (xacct x) + signed x)"
    using v abs_exactBal [of xs "xacct x"] abs_signed [of x] by (intro round2_add) auto
  then have "aggregateBalancesAsOf (map toLine (xs @ [x]))
      = (aggregateBalancesAsOf (map toLine xs))(xacct x \<mapsto> cents (exactBal (xs @ [x]) (xacct x)))"
    using bal [of "xacct x"] eff
    by (simp add: aggregateBalancesAsOf_def aggregateStep_def toLine_def exactBal_snoc)
  then show ?case unfolding IH by (auto simp: exactBal_snoc fun_eq_iff)
qed

lemma accountsInvolved_set:
  "consistent xs \<Longrightarrow> set (accountsInvolved (map toLine xs)) = (\<lambda>x. (xacct x, xcat x)) ` set xs"
proof (induction xs)
  case (Cons x xs)
  have "consistent xs" using Cons.prems unfolding consistent_def by (meson list.set_intros(2))
  then have IH: "set (accountsInvolved (map toLine xs)) = (\<lambda>x. (xacct x, xcat x)) ` set xs" by (rule Cons.IH)
  have same: "\<forall>y \<in> set xs. xacct y = xacct x \<longrightarrow> xcat y = xcat x"
    using Cons.prems unfolding consistent_def by (metis list.set_intros(1,2))
  have "set (accountsInvolved (map toLine (x # xs)))
      = insert (xacct x, xcat x) {a \<in> (\<lambda>x. (xacct x, xcat x)) ` set xs. fst a \<noteq> xacct x}"
    using IH by (simp add: toLine_def [of x])
  also have "\<dots> = (\<lambda>x. (xacct x, xcat x)) ` set (x # xs)"
    using same by force
  finally show ?case .
qed simp

lemma accountsInvolved_distinct: "distinct (map fst (accountsInvolved ls))"
  by (induction ls rule: accountsInvolved.induct) (auto simp: distinct_map_filter)

lemma accountsInvolved_length: "length (accountsInvolved ls) \<le> length ls"
proof (induction ls rule: accountsInvolved.induct)
  case (2 l ls)
  then show ?case
    using le_trans [OF length_filter_le [of "\<lambda>a. fst a \<noteq> ll_accountId l" "accountsInvolved ls"]] by simp
qed simp

text \<open>Summing by account is summing over the lines.\<close>

lemma sum_by_account:
  fixes g :: "xline \<Rightarrow> int"
  assumes "distinct as"
  shows "(\<Sum>a\<leftarrow>as. \<Sum>x\<leftarrow>filter (\<lambda>x. xacct x = a) xs. g x) = (\<Sum>x\<leftarrow>filter (\<lambda>x. xacct x \<in> set as) xs. g x)"
proof (induction xs)
  case (Cons x xs)
  have "(\<Sum>a\<leftarrow>as. if xacct x = a then g x else 0) = (if xacct x \<in> set as then g x else 0)"
    using assms by (induction as) auto
  moreover have "(\<Sum>x\<leftarrow>filter P (x # xs). g x) = (if P x then g x else 0) + (\<Sum>x\<leftarrow>filter P xs. g x)" for P
    by simp
  ultimately show ?case using Cons by (simp only: sum_list_addf)
qed simp

text \<open>What a statement's total is close to: any column bounded by the account balances.\<close>

lemma abs_by_account:
  assumes "distinct as"
  shows "(\<Sum>a\<leftarrow>as. \<bar>exactBal xs a\<bar>) \<le> volume xs"
proof -
  have "(\<Sum>a\<leftarrow>as. \<bar>exactBal xs a\<bar>) \<le> (\<Sum>a\<leftarrow>as. \<Sum>x\<leftarrow>filter (\<lambda>x. xacct x = a) xs. \<bar>signed x\<bar>)"
    unfolding exactBal_def by (rule sum_list_mono) (rule abs_sum_list_le')
  also have "\<dots> = (\<Sum>x\<leftarrow>filter (\<lambda>x. xacct x \<in> set as) xs. \<bar>signed x\<bar>)" by (rule sum_by_account [OF assms])
  also have "\<dots> \<le> volume xs" by (rule sum_signed_le)
  finally show ?thesis .
qed

lemma column_close:
  assumes small: "smallLedger xs" and as: "distinct (map fst as)" "length as \<le> length xs"
    and bound: "\<And>a. a \<in> set as \<Longrightarrow> \<bar>f a\<bar> \<le> \<bar>exactBal xs (fst a)\<bar>"
  shows "\<bar>nsum (map (\<lambda>a. cents (f a)) as) - of_int (\<Sum>a\<leftarrow>as. f a) / 100\<bar> \<le> 4 / 10000"
    and "\<bar>\<Sum>a\<leftarrow>as. f a\<bar> \<le> volume xs"
proof -
  have "(\<Sum>a\<leftarrow>as. \<bar>f a\<bar>) \<le> (\<Sum>a\<leftarrow>as. \<bar>exactBal xs (fst a)\<bar>)" by (rule sum_list_mono) (rule bound)
  also have "\<dots> \<le> volume xs" using abs_by_account [OF as(1), of xs] by (simp add: o_def)
  finally have le: "(\<Sum>a\<leftarrow>as. \<bar>f a\<bar>) \<le> volume xs" .
  then show "\<bar>\<Sum>a\<leftarrow>as. f a\<bar> \<le> volume xs" using abs_sum_list_le' [of f as] by linarith
  have "(int (length as) + 1) * (\<Sum>a\<leftarrow>as. \<bar>f a\<bar>) \<le> (int (length xs) + 1) * volume xs"
    using as(2) le by (intro mult_mono sum_list_nonneg) auto
  then have "(int (length (map f as)) + 1) * (\<Sum>k\<leftarrow>map f as. \<bar>k\<bar>) \<le> 10 ^ 14"
    using small by (simp add: smallLedger_def o_def)
  from nsum_cents_close [OF this]
  show "\<bar>nsum (map (\<lambda>a. cents (f a)) as) - of_int (\<Sum>a\<leftarrow>as. f a) / 100\<bar> \<le> 4 / 10000"
    by (simp add: o_def)
qed

lemma small_volume: "smallLedger xs \<Longrightarrow> volume xs \<le> 10 ^ 14"
  using mult_right_mono [of 1 "int (length xs) + 1" "volume xs"] volume_nonneg [of xs]
  by (simp add: smallLedger_def)

lemma small_filter: "smallLedger xs \<Longrightarrow> smallLedger (filter P xs)"
proof -
  assume small: "smallLedger xs"
  have "volume (filter P xs) \<le> volume xs" by (induction xs) auto
  then have "(int (length (filter P xs)) + 1) * volume (filter P xs) \<le> (int (length xs) + 1) * volume xs"
    using length_filter_le [of P xs] volume_nonneg by (intro mult_mono) auto
  then show ?thesis using small by (simp add: smallLedger_def)
qed

lemma consistent_filter: "consistent xs \<Longrightarrow> consistent (filter P xs)"
  by (simp add: consistent_def)

text \<open>The sorted account list of a statement.\<close>

lemma sorted_accounts:
  assumes "mset bs = mset (accountsInvolved (map toLine xs))" and "consistent xs"
  shows "distinct (map fst bs)" "length bs \<le> length xs" "set bs = (\<lambda>x. (xacct x, xcat x)) ` set xs"
proof -
  have "mset (map fst bs) = mset (map fst (accountsInvolved (map toLine xs)))" using assms(1) by simp
  then show "distinct (map fst bs)" using accountsInvolved_distinct by (metis mset_eq_imp_distinct_iff)
  show "length bs \<le> length xs" using accountsInvolved_length [of "map toLine xs"] mset_eq_length [OF assms(1)] by simp
  show "set bs = (\<lambda>x. (xacct x, xcat x)) ` set xs"
    using accountsInvolved_set [OF assms(2)] mset_eq_setD [OF assms(1)] by simp
qed

lemma balOf_aggregate:
  assumes "volume xs \<le> 10 ^ 14"
  shows "balOf (aggregateBalancesAsOf (map toLine xs)) a = cents (exactBal xs a)"
proof (cases "a \<in> xacct ` set xs")
  case False
  then have "filter (\<lambda>x. xacct x = a) xs = []" by (auto simp: filter_empty_conv)
  then show ?thesis using False by (simp add: balOf_def aggregate_exact [OF assms] exactBal_def)
qed (simp add: balOf_def aggregate_exact [OF assms])

lemma categoryTotal_close:
  assumes small: "smallLedger xs" and con: "consistent xs"
    and bs: "mset bs = mset (accountsInvolved (map toLine xs))"
  shows "\<bar>categoryTotal (aggregateBalancesAsOf (map toLine xs)) bs c - of_int (exactCat xs c) / 100\<bar> \<le> 4 / 10000"
    and "\<bar>exactCat xs c\<bar> \<le> volume xs"
proof -
  note S = sorted_accounts [OF bs con]
  define F where "F = filter (\<lambda>a. snd a = c) bs"
  have F: "distinct (map fst F)" "length F \<le> length xs"
    using S(1,2) le_trans [OF length_filter_le [of "\<lambda>a. snd a = c" bs]] by (auto simp: F_def distinct_map_filter)
  have mem: "xacct x \<in> set (map fst F) \<longleftrightarrow> xcat x = c" if "x \<in> set xs" for x
  proof
    assume "xacct x \<in> set (map fst F)"
    then obtain y where "y \<in> set xs" "xacct y = xacct x" "xcat y = c" by (auto simp: F_def S(3))
    then show "xcat x = c" using con that unfolding consistent_def by metis
  next
    assume "xcat x = c"
    then have "(xacct x, c) \<in> set F" using that by (auto simp: F_def S(3))
    then show "xacct x \<in> set (map fst F)" by force
  qed
  have "(\<Sum>a\<leftarrow>F. exactBal xs (fst a)) = (\<Sum>a\<leftarrow>map fst F. exactBal xs a)" by (simp add: o_def)
  also have "\<dots> = (\<Sum>x\<leftarrow>filter (\<lambda>x. xacct x \<in> set (map fst F)) xs. signed x)"
    unfolding exactBal_def by (rule sum_by_account [OF F(1)])
  also have "filter (\<lambda>x. xacct x \<in> set (map fst F)) xs = filter (\<lambda>x. xcat x = c) xs"
    by (rule filter_cong) (use mem in auto)
  finally have sum: "(\<Sum>a\<leftarrow>F. exactBal xs (fst a)) = exactCat xs c" by (simp add: exactCat_def)
  have "categoryTotal (aggregateBalancesAsOf (map toLine xs)) bs c = nsum (map (\<lambda>a. cents (exactBal xs (fst a))) F)"
    by (simp add: categoryTotal_def F_def balOf_aggregate [OF small_volume [OF small]])
  then show "\<bar>categoryTotal (aggregateBalancesAsOf (map toLine xs)) bs c - of_int (exactCat xs c) / 100\<bar> \<le> 4 / 10000"
    "\<bar>exactCat xs c\<bar> \<le> volume xs"
    using column_close [OF small F, of "\<lambda>a. exactBal xs (fst a)"] by (simp_all add: sum)
qed

text \<open>Total debits less total credits, by category.\<close>

abbreviation posted :: "xline list \<Rightarrow> int" where
  "posted xs \<equiv> (\<Sum>x\<leftarrow>xs. xdebit x - xcredit x)"

lemma posted_by_category:
  "posted xs = exactCat xs ASSET + exactCat xs EXPENSE
     - exactCat xs LIABILITY - exactCat xs EQUITY - exactCat xs INCOME"
proof (induction xs)
  case (Cons x xs)
  then show ?case by (cases "xcat x") (simp_all add: exactCat_def signed_def isDebitNormal_def)
qed (simp add: exactCat_def)

lemma nsub_close: "\<bar>a\<bar> \<le> 5000000000000 \<Longrightarrow> \<bar>fl a - a\<bar> \<le> 6 / 10000"
  using fl_error [of a] by simp

lemma cent_bounds: "99 / 10000 < cents 1" "cents 1 < 101 / 10000"
  using cents_error_rel [of 1] unfolding abs_le_iff by auto

text \<open>\<open>incomeExpenseSum\<close> adds the expenses to the income.\<close>

lemma incomeExpenseSum_close:
  assumes small: "smallLedger xs" and con: "consistent xs"
  shows "\<bar>incomeExpenseSum (map toLine xs) - of_int (exactCat xs INCOME + exactCat xs EXPENSE) / 100\<bar> \<le> 4 / 10000"
proof -
  define ys where "ys = filter (\<lambda>x. xcat x = INCOME \<or> xcat x = EXPENSE) xs"
  have small': "smallLedger ys" and con': "consistent ys"
    using small_filter [OF small] consistent_filter [OF con] by (auto simp: ys_def)
  define as where "as = accountsInvolved (map toLine ys)"
  note S = sorted_accounts [OF refl con', folded as_def]
  have ie: "filter (\<lambda>l. ll_category l = INCOME \<or> ll_category l = EXPENSE) (map toLine xs) = map toLine ys"
    by (simp add: ys_def filter_map o_def toLine_def)
  have "incomeExpenseSum (map toLine xs) = nsum (map (\<lambda>a. cents (exactBal ys (fst a))) as)"
    unfolding incomeExpenseSum_def Let_def ie as_def [symmetric]
    by (simp add: balOf_aggregate [OF small_volume [OF small']])
  moreover have "(\<Sum>a\<leftarrow>as. exactBal ys (fst a)) = exactCat xs INCOME + exactCat xs EXPENSE"
  proof -
    have "(\<Sum>a\<leftarrow>as. exactBal ys (fst a)) = (\<Sum>a\<leftarrow>map fst as. exactBal ys a)" by (simp add: o_def)
    also have "\<dots> = (\<Sum>x\<leftarrow>filter (\<lambda>x. xacct x \<in> set (map fst as)) ys. signed x)"
      unfolding exactBal_def by (rule sum_by_account [OF S(1)])
    also have "filter (\<lambda>x. xacct x \<in> set (map fst as)) ys = ys"
      by (rule filter_True) (auto simp: S(3) image_image)
    also have "(\<Sum>x\<leftarrow>ys. signed x) = exactCat xs INCOME + exactCat xs EXPENSE"
      unfolding ys_def exactCat_def by (induction xs) auto
    finally show ?thesis .
  qed
  ultimately show ?thesis
    using column_close(1) [OF small' S(1,2), of "\<lambda>a. exactBal ys (fst a)"] by simp
qed

lemma rat_volume: "\<bar>k\<bar> \<le> 10 ^ 14 \<Longrightarrow> \<bar>of_int k / 100 :: rat\<bar> \<le> 1000000000000"
  by (rule dec14_value)

lemma isBalanced_cents:
  assumes "map en_debit ls = map cents ds" and "map en_credit ls = map cents cs"
    and "smallSum ds" and "smallSum cs"
  shows "isBalanced ls \<longleftrightarrow> sum_list ds = sum_list cs \<and> 0 < sum_list ds"
proof -
  have "dec14 (sum_list ds)" "dec14 (sum_list cs)"
    using assms abs_sum_list_le [of ds] abs_sum_list_le [of cs] unfolding smallSum_def by linarith+
  then show ?thesis
    using round2_nsum_cents [OF assms(3)] round2_nsum_cents [OF assms(4)]
    by (auto simp: isBalanced_def Let_def assms(1,2) cents_eq_iff cents_pos_iff)
qed

lemma exactCat_volume:
  "\<bar>exactCat xs ASSET\<bar> + \<bar>exactCat xs LIABILITY\<bar> + \<bar>exactCat xs EQUITY\<bar> + \<bar>exactCat xs INCOME\<bar>
    + \<bar>exactCat xs EXPENSE\<bar> \<le> volume xs"
proof (induction xs)
  case (Cons x xs)
  have "\<bar>exactCat (x # xs) c\<bar> \<le> \<bar>exactCat xs c\<bar> + (if xcat x = c then \<bar>signed x\<bar> else 0)" for c
    using abs_triangle_ineq [of "signed x" "exactCat xs c"] by (auto simp: exactCat_def)
  from this [of ASSET] this [of LIABILITY] this [of EQUITY] this [of INCOME] this [of EXPENSE]
  show ?case using Cons abs_signed [of x] by (cases "xcat x") simp_all
qed (simp add: exactCat_def)

lemma abs_add_le: "\<bar>x\<bar> \<le> a \<Longrightarrow> \<bar>y\<bar> \<le> b \<Longrightarrow> a + b \<le> c \<Longrightarrow> \<bar>x + y :: rat\<bar> \<le> c"
  by linarith

lemma near_abs: "\<bar>x - y :: rat\<bar> \<le> e \<Longrightarrow> \<bar>y\<bar> \<le> b \<Longrightarrow> \<bar>x\<bar> \<le> b + e"
  by linarith

section \<open>Properties\<close>

text \<open>
  Claim C4. The balance check that gates every journal is exact: for amounts that are money columns
  it accepts a list of lines exactly when the debits equal the credits to the pesewa and are not zero.
\<close>

theorem isBalanced_exact:
  assumes "map en_debit ls = map cents ds" and "map en_credit ls = map cents cs"
    and "smallSum ds" and "smallSum cs"
  shows "isBalanced ls \<longleftrightarrow> sum_list ds = sum_list cs \<and> 0 < sum_list ds"
  by (rule isBalanced_cents [OF assms])

theorem isBalanced_exact_witness:
  "isBalanced [entry ''1000'' (cents 10000) (cents 0), entry ''3000'' (cents 0) (cents 7500), entry ''4000'' (cents 0) (cents 2500)]"
  using isBalanced_exact [of _ "[10000, 0, 0]" "[0, 7500, 2500]"] by (simp add: smallSum_def)

text \<open>
  A ledger whose posted debits equal its posted credits always shows a balanced trial
  balance, whatever the signs of the account balances and the order the accounts are listed in.
\<close>

theorem trial_balance_balanced:
  assumes "smallLedger xs" and "consistent xs" and "posted xs = 0"
    and "mset (byCode (accountsInvolved (map toLine xs))) = mset (accountsInvolved (map toLine xs))"
  shows "tb_balanced (trialBalance byCode (map toLine xs))"
proof -
  let ?bs = "byCode (accountsInvolved (map toLine xs))"
  note S = sorted_accounts [OF assms(4,2)]
  define D where "D a = (let b = exactBal xs (fst a) in if isDebitNormal (snd a) then max 0 b else max 0 (- b))" for a
  define C where "C a = (let b = exactBal xs (fst a) in if isDebitNormal (snd a) then max 0 (- b) else max 0 b)" for a
  have row: "trialRow (aggregateBalancesAsOf (map toLine xs)) a = (cents (D a), cents (C a))" for a
    unfolding trialRow_def balOf_aggregate [OF small_volume [OF assms(1)]] D_def C_def Let_def
    by (auto simp: cents_minus max_def)
  have bounds: "\<bar>D a\<bar> \<le> \<bar>exactBal xs (fst a)\<bar>" "\<bar>C a\<bar> \<le> \<bar>exactBal xs (fst a)\<bar>" for a
    by (auto simp: D_def C_def Let_def)
  note cD = column_close [OF assms(1) S(1,2) bounds(1)] and cC = column_close [OF assms(1) S(1,2) bounds(2)]
  define tD tC where "tD = nsum (map (\<lambda>a. cents (D a)) ?bs)" and "tC = nsum (map (\<lambda>a. cents (C a)) ?bs)"
  have "(\<Sum>a\<leftarrow>?bs. D a) - (\<Sum>a\<leftarrow>?bs. C a)
      = (\<Sum>a\<leftarrow>?bs. if isDebitNormal (snd a) then exactBal xs (fst a) else - exactBal xs (fst a))"
    unfolding sum_list_subtractf [symmetric] by (rule arg_cong [of _ _ sum_list]) (auto simp: D_def C_def Let_def)
  also have "\<dots> = (\<Sum>a\<leftarrow>?bs. \<Sum>x\<leftarrow>filter (\<lambda>x. xacct x = fst a) xs. xdebit x - xcredit x)"
  proof (rule arg_cong [of _ _ sum_list], rule map_cong [OF refl])
    fix a assume "a \<in> set ?bs"
    then obtain y where y: "y \<in> set xs" "a = (xacct y, xcat y)" by (auto simp: S(3))
    have "xcat x = snd a" if "x \<in> set xs" "xacct x = fst a" for x
      using that y assms(2) unfolding consistent_def by (metis fst_conv snd_conv)
    then have "(\<Sum>x\<leftarrow>filter (\<lambda>x. xacct x = fst a) xs. signed x)
        = (\<Sum>x\<leftarrow>filter (\<lambda>x. xacct x = fst a) xs. if isDebitNormal (snd a) then xdebit x - xcredit x else - (xdebit x - xcredit x))"
      by (intro arg_cong [of _ _ sum_list] map_cong) (auto simp: signed_def)
    then show "(if isDebitNormal (snd a) then exactBal xs (fst a) else - exactBal xs (fst a))
        = (\<Sum>x\<leftarrow>filter (\<lambda>x. xacct x = fst a) xs. xdebit x - xcredit x)"
      unfolding exactBal_def by (cases "isDebitNormal (snd a)") (simp_all add: uminus_sum_list_map o_def)
  qed
  also have "\<dots> = (\<Sum>a\<leftarrow>map fst ?bs. \<Sum>x\<leftarrow>filter (\<lambda>x. xacct x = a) xs. xdebit x - xcredit x)"
    by (simp add: o_def)
  also have "\<dots> = (\<Sum>x\<leftarrow>filter (\<lambda>x. xacct x \<in> set (map fst ?bs)) xs. xdebit x - xcredit x)"
    by (rule sum_by_account [OF S(1)])
  also have "filter (\<lambda>x. xacct x \<in> set (map fst ?bs)) xs = xs"
    by (rule filter_True) (auto simp: S(3) image_image)
  also have "posted xs = 0" by (rule assms(3))
  finally have eq: "(\<Sum>a\<leftarrow>?bs. D a) = (\<Sum>a\<leftarrow>?bs. C a)" by simp
  then have diff: "\<bar>tD - tC\<bar> \<le> 8 / 10000"
    using cD(1) cC(1) unfolding tD_def tC_def abs_le_iff by linarith
  then have "\<bar>nsub tD tC - (tD - tC)\<bar> \<le> 6 / 10000"
    unfolding nsub_def by (intro nsub_close) linarith
  then have "\<bar>nsub tD tC\<bar> < cents 1"
    using diff cent_bounds unfolding abs_le_iff abs_less_iff by linarith
  then show ?thesis by (simp add: trialBalance_def Let_def row o_def tD_def tC_def)
qed

text \<open>A ledger of four lines: capital paid in as cash, and an expense paid from it.\<close>

definition sampleLedger :: "xline list" where
  "sampleLedger = [(''1000'', ASSET, 10000, 0), (''3000'', EQUITY, 0, 10000), (''5000'', EXPENSE, 500, 0), (''1000'', ASSET, 0, 500)]"

lemma sampleLedger_ok:
  "smallLedger sampleLedger" "consistent sampleLedger" "posted sampleLedger = 0"
  by (simp_all add: smallLedger_def consistent_def sampleLedger_def)

theorem trial_balance_balanced_witness: "tb_balanced (trialBalance rev (map toLine sampleLedger))"
  by (rule trial_balance_balanced [OF sampleLedger_ok]) simp

text \<open>
  Claim C27. The balance sheet adds the expenses to the net income instead of subtracting them: on a
  ledger whose debits equal its credits it reports balance exactly when no expense is outstanding.
\<close>

theorem balance_sheet_expenses:
  assumes "smallLedger xs" and "consistent xs" and "posted xs = 0"
    and "mset (byCode (accountsInvolved (map toLine xs))) = mset (accountsInvolved (map toLine xs))"
  shows "bs_balanced (balanceSheet byCode (map toLine xs)) \<longleftrightarrow> exactCat xs EXPENSE = 0"
proof -
  let ?b = "aggregateBalancesAsOf (map toLine xs)" and ?bs = "byCode (accountsInvolved (map toLine xs))"
  define A L Q I E where "A = exactCat xs ASSET" and "L = exactCat xs LIABILITY"
    and "Q = exactCat xs EQUITY" and "I = exactCat xs INCOME" and "E = exactCat xs EXPENSE"
  define a l q ie where "a = categoryTotal ?b ?bs ASSET" and "l = categoryTotal ?b ?bs LIABILITY"
    and "q = categoryTotal ?b ?bs EQUITY" and "ie = incomeExpenseSum (map toLine xs)"
  have close: "\<bar>a - of_int A / 100\<bar> \<le> 4 / 10000" "\<bar>l - of_int L / 100\<bar> \<le> 4 / 10000"
    "\<bar>q - of_int Q / 100\<bar> \<le> 4 / 10000" "\<bar>ie - (of_int I / 100 + of_int E / 100)\<bar> \<le> 4 / 10000"
    using categoryTotal_close(1) [OF assms(1,2,4)] incomeExpenseSum_close [OF assms(1,2)]
    by (simp_all add: A_def L_def Q_def I_def E_def a_def l_def q_def ie_def add_divide_distrib)
  have v: "\<bar>exactCat xs c\<bar> \<le> 10 ^ 14" for c
    using categoryTotal_close(2) [OF assms(1,2,4), of c] small_volume [OF assms(1)] by linarith
  have big: "\<bar>of_int A / 100 :: rat\<bar> \<le> 1000000000000" "\<bar>of_int L / 100 :: rat\<bar> \<le> 1000000000000"
    "\<bar>of_int Q / 100 :: rat\<bar> \<le> 1000000000000" "\<bar>of_int I / 100 :: rat\<bar> \<le> 1000000000000"
    "\<bar>of_int E / 100 :: rat\<bar> \<le> 1000000000000"
    unfolding A_def L_def Q_def I_def E_def by (rule rat_volume, rule v)+
  have id: "(of_int A / 100 :: rat) = of_int L / 100 + of_int Q / 100 + of_int I / 100 - of_int E / 100"
  proof -
    have "A = L + Q + I - E" using posted_by_category [of xs] assms(3) unfolding A_def L_def Q_def I_def E_def by linarith
    then show ?thesis by (simp add: add_divide_distrib diff_divide_distrib)
  qed
  define te tl d where "te = nadd q ie" and "tl = nadd l te" and "d = nsub a tl"
  have "\<bar>(of_int I / 100 + of_int E / 100) :: rat\<bar> \<le> 2000000000000"
    by (rule abs_add_le [OF big(4,5)]) simp
  from near_abs [OF close(4) this] near_abs [OF close(1) big(1)] near_abs [OF close(2) big(2)] near_abs [OF close(3) big(3)]
  have vals: "\<bar>ie\<bar> \<le> 2000000000001" "\<bar>a\<bar> \<le> 1000000000001" "\<bar>l\<bar> \<le> 1000000000001" "\<bar>q\<bar> \<le> 1000000000001"
    by simp_all
  have qie: "\<bar>q + ie\<bar> \<le> 3000000000002" by (rule abs_add_le [OF vals(4,1)]) simp
  then have te: "\<bar>te - (q + ie)\<bar> \<le> 6 / 10000" unfolding te_def nadd_def by (intro nsub_close) linarith
  have "\<bar>te\<bar> \<le> 3000000000003" using near_abs [OF te qie] by simp
  then have lte: "\<bar>l + te\<bar> \<le> 4000000000004" by (rule abs_add_le [OF vals(3)]) simp
  then have tl: "\<bar>tl - (l + te)\<bar> \<le> 6 / 10000" unfolding tl_def nadd_def by (intro nsub_close) linarith
  have "a - tl = (a - of_int A / 100) + (of_int L / 100 - l) + (of_int Q / 100 - q)
      + ((of_int I / 100 + of_int E / 100) - ie) - (tl - (l + te)) - (te - (q + ie)) - 2 * (of_int E / 100)"
    using id by (simp add: algebra_simps)
  moreover have "\<bar>2 * (of_int E / 100 :: rat)\<bar> \<le> 2000000000000" using big(5) by simp
  ultimately have "\<bar>(a - tl) + 2 * (of_int E / 100)\<bar> \<le> 4 / 1000" and "\<bar>2 * (of_int E / 100 :: rat)\<bar> \<le> 2000000000000"
    using close te tl unfolding abs_le_iff by (intro conjI; linarith)+
  then have atl: "\<bar>a - tl\<bar> \<le> 2000000000001" "\<bar>(a - tl) + 2 * (of_int E / 100)\<bar> \<le> 4 / 1000"
    using near_abs [of "a - tl" "- (2 * (of_int E / 100))" "4 / 1000" 2000000000000] by simp_all
  then have d: "\<bar>d - (a - tl)\<bar> \<le> 6 / 10000" unfolding d_def nsub_def by (intro nsub_close) linarith
  have d2: "\<bar>d + 2 * (of_int E / 100)\<bar> \<le> 5 / 1000"
    using d atl(2) by linarith
  have "bs_balanced (balanceSheet byCode (map toLine xs)) \<longleftrightarrow> \<bar>d\<bar> < cents 1"
    by (simp add: balanceSheet_def Let_def a_def l_def q_def ie_def te_def tl_def d_def)
  also have "\<dots> \<longleftrightarrow> E = 0"
  proof
    assume "E = 0"
    then show "\<bar>d\<bar> < cents 1" using d2 cent_bounds unfolding abs_le_iff abs_less_iff by simp
  next
    assume "\<bar>d\<bar> < cents 1"
    then have "(of_int E :: rat) / 100 < 1 / 100" "- (1 / 100) < (of_int E :: rat) / 100"
      using d2 cent_bounds unfolding abs_le_iff abs_less_iff by linarith+
    then have "(of_int E :: rat) < of_int 1" "of_int (- 1) < (of_int E :: rat)" by simp_all
    then show "E = 0" unfolding of_int_less_iff by linarith
  qed
  finally show ?thesis by (simp add: E_def)
qed

theorem balance_sheet_expenses_witness: "\<not> bs_balanced (balanceSheet rev (map toLine sampleLedger))"
  using balance_sheet_expenses [OF sampleLedger_ok, of rev]
  by (simp add: sampleLedger_def exactCat_def signed_def isDebitNormal_def)

text \<open>
  Claim C28. The executive dashboard satisfies the accounting equation: on a ledger whose debits equal
  its credits, total assets are total liabilities plus total equity to the pesewa, net income since
  inception (income less expenses) included.
\<close>

theorem dashboard_equation:
  assumes "smallLedger xs" and "consistent xs" and "posted xs = 0"
  shows "\<exists>a l q n. da_totalAssets (dashboard (map toLine xs)) = cents a
    \<and> da_totalLiabilities (dashboard (map toLine xs)) = cents l
    \<and> da_totalEquity (dashboard (map toLine xs)) = cents q
    \<and> da_netIncomeSinceInception (dashboard (map toLine xs)) = cents n
    \<and> a = l + q \<and> n = exactCat xs INCOME - exactCat xs EXPENSE"
proof -
  let ?b = "aggregateBalancesAsOf (map toLine xs)" and ?bs = "accountsInvolved (map toLine xs)"
  define tot where "tot c = categoryTotal ?b ?bs c" for c
  define ex where "ex c = (of_int (exactCat xs c) / 100 :: rat)" for c
  have close: "\<bar>tot c - ex c\<bar> \<le> 4 / 10000" for c
    unfolding tot_def ex_def by (rule categoryTotal_close(1) [OF assms(1,2) refl])
  have v: "\<bar>exactCat xs c\<bar> \<le> 10 ^ 14" for c
    using categoryTotal_close(2) [OF assms(1,2) refl, of c] small_volume [OF assms(1)] by linarith
  then have big: "\<bar>ex c\<bar> \<le> 1000000000000" for c unfolding ex_def by (rule rat_volume)
  have tot: "\<bar>tot c\<bar> \<le> 1000000000001" for c using near_abs [OF close big, of c] by simp
  have single: "round2 (tot c) = cents (exactCat xs c)" for c
    using close [of c] v [of c] unfolding ex_def by (intro round2_near) linarith+
  define ni where "ni = nsub (tot INCOME) (tot EXPENSE)"
  define qi where "qi = nadd (tot EQUITY) (tot INCOME)"
  define te where "te = nsub qi (tot EXPENSE)"
  have minus: "\<bar>- tot EXPENSE\<bar> \<le> 1000000000001" using tot [of EXPENSE] by simp
  have "\<bar>tot INCOME + - tot EXPENSE\<bar> \<le> 2000000000002" by (rule abs_add_le [OF tot minus]) simp
  then have "\<bar>ni - (tot INCOME - tot EXPENSE)\<bar> \<le> 6 / 10000"
    unfolding ni_def nsub_def by (intro nsub_close) simp
  then have "\<bar>ni - of_int (exactCat xs INCOME - exactCat xs EXPENSE) / 100\<bar> \<le> 4 / 1000"
    using close [of INCOME] close [of EXPENSE] unfolding ex_def of_int_diff diff_divide_distrib by linarith
  moreover have sum: "\<bar>exactCat xs ASSET\<bar> + \<bar>exactCat xs LIABILITY\<bar> + \<bar>exactCat xs EQUITY\<bar>
      + \<bar>exactCat xs INCOME\<bar> + \<bar>exactCat xs EXPENSE\<bar> \<le> 10 ^ 14"
    using exactCat_volume [of xs] small_volume [OF assms(1)] by linarith
  ultimately have n: "round2 ni = cents (exactCat xs INCOME - exactCat xs EXPENSE)"
    by (intro round2_near) linarith+
  have b1: "\<bar>tot EQUITY + tot INCOME\<bar> \<le> 2000000000002" by (rule abs_add_le [OF tot tot]) simp
  then have qi: "\<bar>qi - (tot EQUITY + tot INCOME)\<bar> \<le> 6 / 10000"
    unfolding qi_def nadd_def by (intro nsub_close) simp
  have "\<bar>qi\<bar> \<le> 2000000000003" using near_abs [OF qi b1] by simp
  then have "\<bar>qi + - tot EXPENSE\<bar> \<le> 3000000000004" by (rule abs_add_le [OF _ minus]) simp
  then have "\<bar>te - (qi - tot EXPENSE)\<bar> \<le> 6 / 10000"
    unfolding te_def nsub_def by (intro nsub_close) simp
  then have "\<bar>te - of_int (exactCat xs EQUITY + exactCat xs INCOME - exactCat xs EXPENSE) / 100\<bar> \<le> 4 / 1000"
    using qi close [of EQUITY] close [of INCOME] close [of EXPENSE]
    unfolding ex_def of_int_diff of_int_add diff_divide_distrib add_divide_distrib by linarith
  then have q: "round2 te = cents (exactCat xs EQUITY + exactCat xs INCOME - exactCat xs EXPENSE)"
    using sum by (intro round2_near) linarith+
  have "exactCat xs ASSET = exactCat xs LIABILITY + (exactCat xs EQUITY + exactCat xs INCOME - exactCat xs EXPENSE)"
    using posted_by_category [of xs] assms(3) by linarith
  moreover have "dashboard (map toLine xs) = \<lparr>da_totalAssets = round2 (tot ASSET),
      da_totalLiabilities = round2 (tot LIABILITY), da_totalEquity = round2 te, da_netIncomeSinceInception = round2 ni\<rparr>"
    by (simp add: dashboard_def Let_def tot_def te_def qi_def ni_def)
  ultimately show ?thesis using single n q by (intro exI) auto
qed

theorem dashboard_equation_witness:
  "\<exists>a l q. da_totalAssets (dashboard (map toLine sampleLedger)) = cents a
    \<and> da_totalLiabilities (dashboard (map toLine sampleLedger)) = cents l
    \<and> da_totalEquity (dashboard (map toLine sampleLedger)) = cents q
    \<and> da_netIncomeSinceInception (dashboard (map toLine sampleLedger)) = cents (- 500) \<and> a = l + q"
  using dashboard_equation [OF sampleLedger_ok]
  by (auto simp: sampleLedger_def exactCat_def signed_def isDebitNormal_def)

text \<open>A movement in pesewas: category, activity, whether it is cash, opening and closing balance.\<close>

type_synonym xmove = "glCategory \<times> cashFlowActivity option \<times> bool \<times> int \<times> int"

abbreviation xm_cat :: "xmove \<Rightarrow> glCategory" where "xm_cat m \<equiv> fst m"
abbreviation xm_act :: "xmove \<Rightarrow> cashFlowActivity option" where "xm_act m \<equiv> fst (snd m)"
abbreviation xm_liquid :: "xmove \<Rightarrow> bool" where "xm_liquid m \<equiv> fst (snd (snd m))"
abbreviation xm_open :: "xmove \<Rightarrow> int" where "xm_open m \<equiv> fst (snd (snd (snd m)))"
abbreviation xm_close :: "xmove \<Rightarrow> int" where "xm_close m \<equiv> snd (snd (snd (snd m)))"

definition toMovement :: "xmove \<Rightarrow> cashFlowMovement" where
  "toMovement m = \<lparr>cf_category = xm_cat m, cf_activity = xm_act m, cf_isLiquidAsset = xm_liquid m,
     cf_openingBalance = cents (xm_open m), cf_closingBalance = cents (xm_close m)\<rparr>"

definition moveEffect :: "xmove \<Rightarrow> int" where
  "moveEffect m = (if isDebitNormal (xm_cat m) then xm_open m - xm_close m else xm_close m - xm_open m)"

definition moveVolume :: "xmove list \<Rightarrow> int" where
  "moveVolume ms = (\<Sum>m\<leftarrow>ms. \<bar>xm_open m\<bar> + \<bar>xm_close m\<bar>)"

text \<open>Debit-normal balances less credit-normal balances, at the opening or the closing.\<close>

definition imbalance :: "(xmove \<Rightarrow> int) \<Rightarrow> xmove list \<Rightarrow> int" where
  "imbalance f ms = (\<Sum>m\<leftarrow>ms. if isDebitNormal (xm_cat m) then f m else - f m)"

lemma movementEffect_exact:
  "\<bar>xm_open m\<bar> + \<bar>xm_close m\<bar> \<le> 10 ^ 14 \<Longrightarrow> movementEffect (toMovement m) = cents (moveEffect m)"
  by (simp add: movementEffect_def toMovement_def cashEffect_def moveEffect_def round2_sub flip: cents_minus)

definition actOf :: "xmove \<Rightarrow> nat" where
  "actOf m = (if xm_act m = Some INVESTING then 1 else if xm_act m = Some FINANCING then 2 else 0)"

lemma cashFlow_fold:
  "foldl cashFlowStep (a, b, c) (map toMovement ms) =
     (foldl nadd a (map (\<lambda>m. movementEffect (toMovement m)) (filter (\<lambda>m. actOf m = 0) ms)),
      foldl nadd b (map (\<lambda>m. movementEffect (toMovement m)) (filter (\<lambda>m. actOf m = 1) ms)),
      foldl nadd c (map (\<lambda>m. movementEffect (toMovement m)) (filter (\<lambda>m. actOf m = 2) ms)))"
proof (induction ms arbitrary: a b c)
  case (Cons m ms)
  then show ?case by (simp add: cashFlowStep_def actOf_def toMovement_def [of m] Let_def)
qed simp

lemma moveVolume_simps [simp]:
  "moveVolume [] = 0" "moveVolume (m # ms) = \<bar>xm_open m\<bar> + \<bar>xm_close m\<bar> + moveVolume ms"
  by (simp_all add: moveVolume_def)

lemma moveVolume_nonneg: "0 \<le> moveVolume ms"
  by (induction ms) auto

lemma part_close:
  assumes "(int (length ms) + 1) * moveVolume ms \<le> 10 ^ 14" and "\<And>m. \<bar>f m\<bar> \<le> \<bar>xm_open m\<bar> + \<bar>xm_close m\<bar>"
  shows "\<bar>nsum (map (\<lambda>m. cents (f m)) (filter P ms)) - of_int (\<Sum>m\<leftarrow>filter P ms. f m) / 100\<bar> \<le> 4 / 10000"
    and "\<bar>\<Sum>m\<leftarrow>filter P ms. f m\<bar> \<le> moveVolume ms"
proof -
  have le: "(\<Sum>m\<leftarrow>filter P ms. \<bar>f m\<bar>) \<le> moveVolume ms"
  proof (induction ms)
    case (Cons m ms)
    then show ?case using assms(2) [of m] by auto
  qed simp
  then show "\<bar>\<Sum>m\<leftarrow>filter P ms. f m\<bar> \<le> moveVolume ms"
    using abs_sum_list_le' [of f "filter P ms"] by linarith
  have "(int (length (filter P ms)) + 1) * (\<Sum>m\<leftarrow>filter P ms. \<bar>f m\<bar>) \<le> (int (length ms) + 1) * moveVolume ms"
    using le length_filter_le [of P ms] by (intro mult_mono sum_list_nonneg) auto
  then have "(int (length (map f (filter P ms))) + 1) * (\<Sum>k\<leftarrow>map f (filter P ms). \<bar>k\<bar>) \<le> 10 ^ 14"
    using assms(1) by (simp add: o_def)
  from nsum_cents_close [OF this]
  show "\<bar>nsum (map (\<lambda>m. cents (f m)) (filter P ms)) - of_int (\<Sum>m\<leftarrow>filter P ms. f m) / 100\<bar> \<le> 4 / 10000"
    by (simp add: o_def)
qed

text \<open>
  The cash flow statement reconciles: when the balances satisfy the accounting equation at
  both ends of the period and every cash account is an asset, the three activities together are
  exactly the change in cash, and the statement says so.
\<close>

theorem cash_flow_reconciles:
  assumes small: "(int (length ms) + 1) * moveVolume ms \<le> 10 ^ 14"
    and liquid: "\<And>m. m \<in> set ms \<Longrightarrow> xm_liquid m \<Longrightarrow> xm_cat m = ASSET"
    and eq: "imbalance xm_open ms = 0" "imbalance xm_close ms = 0"
  shows "cs_reconciles (buildCashFlowStatement (map toMovement ms))
    \<and> cs_netChange (buildCashFlowStatement (map toMovement ms))
        = cents (\<Sum>m\<leftarrow>filter xm_liquid ms. xm_close m - xm_open m)"
proof -
  have vol: "moveVolume ms \<le> 10 ^ 14"
    using small mult_right_mono [of 1 "int (length ms) + 1" "moveVolume ms"] moveVolume_nonneg [of ms] by simp
  have one: "\<bar>xm_open m\<bar> + \<bar>xm_close m\<bar> \<le> 10 ^ 14" if "m \<in> set ms" for m
  proof -
    have "\<bar>xm_open m\<bar> + \<bar>xm_close m\<bar> \<le> moveVolume ms"
      using that by (induction ms) (auto simp: moveVolume_nonneg)
    then show ?thesis using vol by linarith
  qed
  have effect_le: "\<bar>moveEffect m\<bar> \<le> \<bar>xm_open m\<bar> + \<bar>xm_close m\<bar>" for m
    by (auto simp: moveEffect_def)
  define N where "N k = (\<Sum>m\<leftarrow>filter (\<lambda>m. \<not> xm_liquid m \<and> actOf m = k) ms. moveEffect m)" for k
  define act where "act k = nsum (map (\<lambda>m. movementEffect (toMovement m)) (filter (\<lambda>m. actOf m = k) (filter (\<lambda>m. \<not> xm_liquid m) ms)))" for k
  have act: "\<bar>act k - of_int (N k) / 100\<bar> \<le> 4 / 10000" "\<bar>N k\<bar> \<le> 10 ^ 14" for k
  proof -
    have "act k = nsum (map (\<lambda>m. cents (moveEffect m)) (filter (\<lambda>m. \<not> xm_liquid m \<and> actOf m = k) ms))"
      unfolding act_def filter_filter
      by (intro arg_cong [of _ _ nsum] map_cong refl movementEffect_exact one) auto
    then show "\<bar>act k - of_int (N k) / 100\<bar> \<le> 4 / 10000" "\<bar>N k\<bar> \<le> 10 ^ 14"
      using part_close [OF small effect_le] vol unfolding N_def by (auto intro: order_trans)
  qed
  define Op C where "Op = (\<Sum>m\<leftarrow>filter xm_liquid ms. xm_open m)" and "C = (\<Sum>m\<leftarrow>filter xm_liquid ms. xm_close m)"
  have total: "N 0 + N 1 + N 2 = C - Op"
  proof -
    have parts: "N 0 + N 1 + N 2 = (\<Sum>m\<leftarrow>filter (\<lambda>m. \<not> xm_liquid m) ms. moveEffect m)"
      unfolding N_def by (induction ms) (auto simp: actOf_def)
    have "(\<Sum>m\<leftarrow>filter (\<lambda>m. \<not> xm_liquid m) ms. moveEffect m) = imbalance xm_open ms - imbalance xm_close ms + C - Op"
      unfolding Op_def C_def using liquid
      by (induction ms) (auto simp: imbalance_def moveEffect_def isDebitNormal_def)
    then show ?thesis using parts eq by simp
  qed
  have col: "round2 (nsum (map (\<lambda>m. cents (f m)) (filter xm_liquid ms))) = cents (\<Sum>m\<leftarrow>filter xm_liquid ms. f m)"
    if "\<And>m. \<bar>f m\<bar> \<le> \<bar>xm_open m\<bar> + \<bar>xm_close m\<bar>" for f
    using part_close [OF small that, of xm_liquid] vol by (intro round2_near) linarith+
  have OC: "\<bar>C\<bar> + \<bar>Op\<bar> \<le> 10 ^ 14"
  proof -
    have "\<bar>C\<bar> + \<bar>Op\<bar> \<le> moveVolume ms" unfolding Op_def C_def by (induction ms) auto
    then show ?thesis using vol by linarith
  qed
  have nb: "\<bar>of_int (N k) / 100 :: rat\<bar> \<le> 1000000000000" for k by (rule rat_volume) (rule act(2))
  define s1 s2 where "s1 = nadd (act 0) (act 1)" and "s2 = nadd s1 (act 2)"
  have a: "\<bar>act k\<bar> \<le> 1000000000001" for k using near_abs [OF act(1) nb, of k] by simp
  have b1: "\<bar>act 0 + act 1\<bar> \<le> 2000000000002" by (rule abs_add_le [OF a a]) simp
  then have s1: "\<bar>s1 - (act 0 + act 1)\<bar> \<le> 6 / 10000" unfolding s1_def nadd_def by (intro nsub_close) simp
  have "\<bar>s1\<bar> \<le> 2000000000003" using near_abs [OF s1 b1] by simp
  then have "\<bar>s1 + act 2\<bar> \<le> 3000000000004" by (rule abs_add_le [OF _ a]) simp
  then have s2: "\<bar>s2 - (s1 + act 2)\<bar> \<le> 6 / 10000" unfolding s2_def nadd_def by (intro nsub_close) simp
  have "(of_int (C - Op) :: rat) / 100 = of_int (N 0) / 100 + of_int (N 1) / 100 + of_int (N 2) / 100"
    unfolding total [symmetric] by (simp add: add_divide_distrib)
  then have "\<bar>s2 - of_int (C - Op) / 100\<bar> \<le> 4 / 1000"
    using s1 s2 act(1) [of 0] act(1) [of 1] act(1) [of 2] by linarith
  then have net: "round2 s2 = cents (C - Op)" using OC by (intro round2_near) linarith+
  have split: "filter (\<lambda>m. \<not> cf_isLiquidAsset m) (map toMovement ms) = map toMovement (filter (\<lambda>m. \<not> xm_liquid m) ms)"
    "filter cf_isLiquidAsset (map toMovement ms) = map toMovement (filter xm_liquid ms)"
    by (simp_all add: filter_map o_def toMovement_def)
  have stmt: "cs_netChange (buildCashFlowStatement (map toMovement ms)) = cents (C - Op)"
    "cs_reconciles (buildCashFlowStatement (map toMovement ms))
      \<longleftrightarrow> \<bar>nsub (round2 (nsub (cents C) (cents Op))) (cents (C - Op))\<bar> < cents 2"
    unfolding buildCashFlowStatement_def split cashFlow_fold nsum_def [symmetric] act_def [symmetric]
    using net col [of xm_open] col [of xm_close]
    by (simp_all add: Let_def s1_def s2_def toMovement_def o_def Op_def C_def)
  have "round2 (nsub (cents C) (cents Op)) = cents (C - Op)" using OC by (intro round2_sub) linarith+
  moreover have "0 < cents 2" using cents_pos_iff [of 2] by simp
  moreover have "C - Op = (\<Sum>m\<leftarrow>filter xm_liquid ms. xm_close m - xm_open m)"
    unfolding Op_def C_def by (simp add: sum_list_subtractf)
  ultimately show ?thesis by (simp add: stmt)
qed

theorem cash_flow_reconciles_witness:
  "cs_netChange (buildCashFlowStatement (map toMovement
     [(ASSET, None, True, 10000, 25000), (ASSET, Some INVESTING, False, 20000, 10000),
      (EQUITY, Some FINANCING, False, 30000, 35000)])) = cents 15000"
  using cash_flow_reconciles [of "[(ASSET, None, True, 10000, 25000), (ASSET, Some INVESTING, False, 20000, 10000),
      (EQUITY, Some FINANCING, False, 30000, 35000)]"]
  by (auto simp: imbalance_def isDebitNormal_def)

end
