(* ===== verification/Payroll_Assets.thy ===== *)
theory Payroll_Assets
  imports Ledger
begin

text \<open>
  Payroll and fixed assets: \<open>lib/payrollCalc.ts\<close> (PAYE and statutory contributions),
  \<open>lib/payrollAccounting.ts\<close>, \<open>lib/assetDepreciation.ts\<close> and \<open>lib/assetAccounting.ts\<close>. The lemmas
  show that the journal lines these builders make always balance (for the balance check of
  \<open>Ledger\<close>), and that depreciation stops exactly at the residual value.
\<close>

section \<open>Payroll\<close>

record taxBand =
  tx_lowerBound :: num
  tx_upperBound :: "num option"
  tx_rate :: num

definition bandTax :: "num \<Rightarrow> num \<Rightarrow> taxBand \<Rightarrow> num" where
  "bandTax chargeableIncome tax band =
     (if chargeableIncome \<le> tx_lowerBound band then tax
      else (let upper = (case tx_upperBound band of None \<Rightarrow> chargeableIncome | Some u \<Rightarrow> min chargeableIncome u);
                taxableInBand = max 0 (nsub upper (tx_lowerBound band))
            in nadd tax (nmul taxableInBand (ndiv (tx_rate band) 100))))"

definition calculatePAYE :: "num \<Rightarrow> taxBand list \<Rightarrow> num" where
  "calculatePAYE chargeableIncome bands =
     (if chargeableIncome \<le> 0 then 0 else round2 (foldl (bandTax chargeableIncome) 0 bands))"

definition contributionBase :: "num \<Rightarrow> num option \<Rightarrow> num option \<Rightarrow> num" where
  "contributionBase basicSalary earningsCeiling minimum =
     (let base = (case minimum of None \<Rightarrow> basicSalary | Some m \<Rightarrow> if basicSalary < m then m else basicSalary)
      in (case earningsCeiling of None \<Rightarrow> base | Some c \<Rightarrow> if c < base then c else base))"

definition calculateStatutoryContribution :: "num \<Rightarrow> num \<Rightarrow> num option \<Rightarrow> num option \<Rightarrow> num" where
  "calculateStatutoryContribution basicSalary rate earningsCeiling minimum =
     round2 (nmul (contributionBase basicSalary earningsCeiling minimum) (ndiv rate 100))"

record payrollAccrualInputs =
  pa_totalGross :: num
  pa_totalPaye :: num
  pa_totalSsnitEmployee :: num
  pa_totalSsnitEmployerTier1 :: num
  pa_totalTier2Employer :: num
  pa_totalOtherDeductions :: num
  pa_totalNet :: num

text \<open>\<open>REQUIRED_ACCRUAL_PURPOSES\<close>, \<open>REQUIRED_SETTLEMENT_PURPOSES\<close>, \<open>ALL_PAYROLL_GL_PURPOSES\<close>.\<close>

definition REQUIRED_ACCRUAL_PURPOSES :: "string list" where
  "REQUIRED_ACCRUAL_PURPOSES =
     [''Salary Expense'', ''Employer SSNIT Expense'', ''Employer Tier 2 Expense'',
      ''PAYE Payable'', ''SSNIT Payable'', ''Tier 2 Payable'', ''Other Deductions Payable'', ''Salaries Payable'']"

definition REQUIRED_SETTLEMENT_PURPOSES :: "string list" where
  "REQUIRED_SETTLEMENT_PURPOSES = [''Salaries Payable'', ''Cash/Bank Disbursement'']"

definition ALL_PAYROLL_GL_PURPOSES :: "string list" where
  "ALL_PAYROLL_GL_PURPOSES = REQUIRED_ACCRUAL_PURPOSES @ [''Cash/Bank Disbursement'']"

definition hasAmount :: "entry \<Rightarrow> bool" where
  "hasAmount l \<longleftrightarrow> 0 < en_debit l \<or> 0 < en_credit l"

definition buildPayrollAccrualLines :: "payrollAccrualInputs \<Rightarrow> (string \<Rightarrow> string) \<Rightarrow> entry list" where
  "buildPayrollAccrualLines i acc =
     (let totalSsnitPayable = round2 (nadd (pa_totalSsnitEmployee i) (pa_totalSsnitEmployerTier1 i)) in
      filter hasAmount
        [entry (acc ''Salary Expense'') (pa_totalGross i) 0,
         entry (acc ''Employer SSNIT Expense'') (pa_totalSsnitEmployerTier1 i) 0,
         entry (acc ''Employer Tier 2 Expense'') (pa_totalTier2Employer i) 0,
         entry (acc ''PAYE Payable'') 0 (pa_totalPaye i),
         entry (acc ''SSNIT Payable'') 0 totalSsnitPayable,
         entry (acc ''Tier 2 Payable'') 0 (pa_totalTier2Employer i),
         entry (acc ''Other Deductions Payable'') 0 (pa_totalOtherDeductions i),
         entry (acc ''Salaries Payable'') 0 (pa_totalNet i)])"

definition buildPayrollSettlementLines :: "num \<Rightarrow> string \<Rightarrow> string \<Rightarrow> entry list" where
  "buildPayrollSettlementLines totalNet salariesPayable cash = [entry salariesPayable totalNet 0, entry cash 0 totalNet]"

section \<open>Assets\<close>

datatype depreciationMethod = STRAIGHT_LINE | REDUCING_BALANCE

record depreciationInput =
  dp_acquisitionCost :: num
  dp_residualValue :: num
  dp_usefulLifeMonths :: int
  dp_method :: depreciationMethod
  dp_annualRate :: "num option"
  dp_accumulatedDepreciationSoFar :: num
  dp_monthsElapsed :: int

definition calculateMonthlyDepreciation :: "depreciationInput \<Rightarrow> num" where
  "calculateMonthlyDepreciation i =
     (let depreciableBase = nsub (dp_acquisitionCost i) (dp_residualValue i);
          currentNetBookValue = nsub (dp_acquisitionCost i) (dp_accumulatedDepreciationSoFar i);
          remainingDepreciable = nsub currentNetBookValue (dp_residualValue i)
      in if remainingDepreciable \<le> 0 then 0
         else if dp_usefulLifeMonths i \<le> dp_monthsElapsed i + 1 then round2 remainingDepreciable
         else
           (let amount = (case dp_method i of
                STRAIGHT_LINE \<Rightarrow> ndiv depreciableBase (of_int (dp_usefulLifeMonths i))
              | REDUCING_BALANCE \<Rightarrow>
                  nmul currentNetBookValue
                    (ndiv (ndiv (case dp_annualRate i of None \<Rightarrow> 0 | Some r \<Rightarrow> r) 100) 12))
            in round2 (min amount remainingDepreciable)))"

definition buildAssetAcquisitionLines :: "num \<Rightarrow> string \<Rightarrow> string \<Rightarrow> entry list" where
  "buildAssetAcquisitionLines cost fixedAsset cash = [entry fixedAsset cost 0, entry cash 0 cost]"

definition buildAssetDepreciationLines :: "num \<Rightarrow> string \<Rightarrow> string \<Rightarrow> entry list" where
  "buildAssetDepreciationLines amount expense accumulated = [entry expense amount 0, entry accumulated 0 amount]"

definition buildAssetDisposalLines :: "num \<Rightarrow> num \<Rightarrow> num \<Rightarrow> (string \<Rightarrow> string) \<Rightarrow> entry list" where
  "buildAssetDisposalLines acquisitionCost accumulatedDepreciation saleProceeds acc =
     (let netBookValue = round2 (nsub acquisitionCost accumulatedDepreciation);
          gainLoss = round2 (nsub saleProceeds netBookValue)
      in filter hasAmount
        ([entry (acc ''Accumulated Depreciation'') accumulatedDepreciation 0,
          entry (acc ''Fixed Asset'') 0 acquisitionCost]
         @ (if 0 < saleProceeds then [entry (acc ''Cash/Bank (Disposal Proceeds)'') saleProceeds 0] else [])
         @ (if 0 < gainLoss then [entry (acc ''Gain on Disposal'') 0 gainLoss]
            else if gainLoss < 0 then [entry (acc ''Loss on Disposal'') (- gainLoss) 0] else [])))"

section \<open>Lines in pesewas\<close>

text \<open>Lines made from pairs of pesewa amounts, with the zero lines dropped.\<close>

definition xentry :: "string \<Rightarrow> int \<Rightarrow> int \<Rightarrow> entry" where
  "xentry a d c = entry a (cents d) (cents c)"

definition xlines :: "(string \<times> int \<times> int) list \<Rightarrow> entry list" where
  "xlines ps = map (\<lambda>(a, d, c). xentry a d c) ps"

definition nonzero :: "(string \<times> int \<times> int) list \<Rightarrow> (string \<times> int \<times> int) list" where
  "nonzero = filter (\<lambda>(a, d, c). 0 < d \<or> 0 < c)"

abbreviation debits :: "(string \<times> int \<times> int) list \<Rightarrow> int list" where "debits \<equiv> map (\<lambda>(a, d, c). d)"
abbreviation credits :: "(string \<times> int \<times> int) list \<Rightarrow> int list" where "credits \<equiv> map (\<lambda>(a, d, c). c)"

definition modest :: "(string \<times> int \<times> int) list \<Rightarrow> bool" where
  "modest ps \<longleftrightarrow> (\<forall>(a, d, c) \<in> set ps. 0 \<le> d \<and> d \<le> 10 ^ 12 \<and> 0 \<le> c \<and> c \<le> 10 ^ 12) \<and> length ps \<le> 10"

lemma xlines_nonzero:
  assumes "modest ps" shows "filter hasAmount (xlines ps) = xlines (nonzero ps)"
proof -
  have "hasAmount (xentry a d c) \<longleftrightarrow> 0 < d \<or> 0 < c" if "(a, d, c) \<in> set ps" for a d c
  proof -
    have "dec14 d" "dec14 c" using assms that by (fastforce simp: modest_def)+
    then show ?thesis by (simp add: hasAmount_def xentry_def cents_pos_iff)
  qed
  then show ?thesis unfolding xlines_def nonzero_def by (induction ps) auto
qed

lemma modest_smallSum:
  assumes "list_all (\<lambda>k. 0 \<le> k \<and> k \<le> 10 ^ 12) ks" "length ks \<le> 10"
  shows "smallSum ks"
proof -
  have le: "(\<Sum>k\<leftarrow>ks. \<bar>k\<bar>) \<le> int (length ks) * 10 ^ 12"
    using assms(1) by (induction ks) (auto simp: algebra_simps)
  then have "(\<Sum>k\<leftarrow>ks. \<bar>k\<bar>) \<le> 10 ^ 13" using assms(2) by simp
  moreover have "0 \<le> (\<Sum>k\<leftarrow>ks. \<bar>k\<bar>)" by (rule sum_list_nonneg) auto
  ultimately have "(int (length ks) + 1) * (\<Sum>k\<leftarrow>ks. \<bar>k\<bar>) \<le> 11 * 10 ^ 13"
    using assms(2) by (intro mult_mono) auto
  then show ?thesis using \<open>(\<Sum>k\<leftarrow>ks. \<bar>k\<bar>) \<le> 10 ^ 13\<close> by (simp add: smallSum_def)
qed

text \<open>Dropping the zero lines does not change what is balanced.\<close>

lemma isBalanced_xlines:
  assumes "modest ps"
  shows "isBalanced (filter hasAmount (xlines ps)) \<longleftrightarrow> sum_list (debits ps) = sum_list (credits ps) \<and> 0 < sum_list (debits ps)"
proof -
  define qs where "qs = nonzero ps"
  have qs: "modest qs"
    using assms le_trans [OF length_filter_le] unfolding modest_def qs_def nonzero_def by fastforce
  have "sum_list (debits qs) = sum_list (debits ps) \<and> sum_list (credits qs) = sum_list (credits ps)"
  proof -
    have "\<forall>(a, d, c) \<in> set ps. 0 \<le> d \<and> 0 \<le> c" using assms by (auto simp: modest_def)
    then show ?thesis unfolding qs_def nonzero_def by (induction ps) auto
  qed
  moreover have "isBalanced (xlines qs) \<longleftrightarrow> sum_list (debits qs) = sum_list (credits qs) \<and> 0 < sum_list (debits qs)"
  proof (rule isBalanced_cents)
    show "map en_debit (xlines qs) = map cents (debits qs)" "map en_credit (xlines qs) = map cents (credits qs)"
      by (auto simp: xlines_def xentry_def)
    show "smallSum (debits qs)" "smallSum (credits qs)"
      using qs by (intro modest_smallSum; fastforce simp: modest_def list_all_iff)+
  qed
  ultimately show ?thesis using xlines_nonzero [OF assms] by (simp add: qs_def)
qed

section \<open>Properties\<close>

text \<open>
  The payroll accrual journal always balances: whenever net pay is gross pay less PAYE,
  employee SSNIT and other deductions, the lines balance as soon as anything is paid at all.
\<close>

theorem payroll_accrual_balances:
  assumes "net = gross - paye - ssnit - other"
    and "0 \<le> paye" "0 \<le> ssnit" "0 \<le> tier1" "0 \<le> tier2" "0 \<le> other" "0 \<le> net"
    and "gross \<le> 10 ^ 11" "tier1 \<le> 10 ^ 11" "tier2 \<le> 10 ^ 11"
  shows "isBalanced (buildPayrollAccrualLines
      \<lparr>pa_totalGross = cents gross, pa_totalPaye = cents paye, pa_totalSsnitEmployee = cents ssnit,
       pa_totalSsnitEmployerTier1 = cents tier1, pa_totalTier2Employer = cents tier2,
       pa_totalOtherDeductions = cents other, pa_totalNet = cents net\<rparr> acc)
    \<longleftrightarrow> 0 < gross + tier1 + tier2"
proof -
  have bounds: "0 \<le> gross" "paye \<le> 10 ^ 11" "ssnit \<le> 10 ^ 11" "other \<le> 10 ^ 11" "net \<le> 10 ^ 11"
    using assms by linarith+
  define ps where "ps =
    [(acc ''Salary Expense'', gross, 0), (acc ''Employer SSNIT Expense'', tier1, 0),
     (acc ''Employer Tier 2 Expense'', tier2, 0), (acc ''PAYE Payable'', 0, paye),
     (acc ''SSNIT Payable'', 0, ssnit + tier1), (acc ''Tier 2 Payable'', 0, tier2),
     (acc ''Other Deductions Payable'', 0, other), (acc ''Salaries Payable'', 0, net)]"
  have "modest ps" using assms bounds by (simp add: modest_def ps_def)
  then have "isBalanced (filter hasAmount (xlines ps)) \<longleftrightarrow> sum_list (debits ps) = sum_list (credits ps) \<and> 0 < sum_list (debits ps)"
    by (rule isBalanced_xlines)
  moreover have "round2 (nadd (cents ssnit) (cents tier1)) = cents (ssnit + tier1)"
    by (rule round2_add) (use assms bounds in auto)
  moreover have "sum_list (debits ps) = gross + tier1 + tier2" "sum_list (credits ps) = gross + tier1 + tier2"
    using assms(1) by (simp_all add: ps_def)
  ultimately show ?thesis
    by (simp add: buildPayrollAccrualLines_def Let_def xlines_def ps_def xentry_def add.assoc)
qed

theorem payroll_accrual_balances_witness:
  "isBalanced (buildPayrollAccrualLines
      \<lparr>pa_totalGross = cents 500000, pa_totalPaye = cents 60000, pa_totalSsnitEmployee = cents 27500,
       pa_totalSsnitEmployerTier1 = cents 65000, pa_totalTier2Employer = cents 25000,
       pa_totalOtherDeductions = cents 10000, pa_totalNet = cents 402500\<rparr> (\<lambda>purpose. purpose))"
  using payroll_accrual_balances [of 402500 500000 60000 27500 10000 65000 25000 "\<lambda>p. p"] by simp

text \<open>
  The disposal journal of an asset balances whatever the sale brings: at a gain, at a loss,
  or with no proceeds at all, as long as the asset had a cost.
\<close>

theorem disposal_balances:
  assumes "0 < cost" "cost \<le> 10 ^ 11" "0 \<le> accum" "accum \<le> cost" "0 \<le> proceeds" "proceeds \<le> 10 ^ 11"
  shows "isBalanced (buildAssetDisposalLines (cents cost) (cents accum) (cents proceeds) acc)"
proof -
  define g where "g = proceeds - (cost - accum)"
  define ps where "ps = [(acc ''Accumulated Depreciation'', accum, 0), (acc ''Fixed Asset'', 0, cost)]
     @ (if 0 < proceeds then [(acc ''Cash/Bank (Disposal Proceeds)'', proceeds, 0)] else [])
     @ (if 0 < g then [(acc ''Gain on Disposal'', 0, g)] else if g < 0 then [(acc ''Loss on Disposal'', - g, 0)] else [])"
  have modest: "modest ps" using assms by (auto simp: modest_def ps_def g_def)
  have nbv: "round2 (nsub (cents cost) (cents accum)) = cents (cost - accum)"
    and gl: "round2 (nsub (cents proceeds) (cents (cost - accum))) = cents g"
    unfolding g_def using assms by (intro round2_sub; simp)+
  have sign: "0 < cents proceeds \<longleftrightarrow> 0 < proceeds" "0 < cents g \<longleftrightarrow> 0 < g" "cents g < 0 \<longleftrightarrow> g < 0"
  proof -
    have "dec14 proceeds" "dec14 g" using assms by (auto simp: g_def)
    then show "0 < cents proceeds \<longleftrightarrow> 0 < proceeds" "0 < cents g \<longleftrightarrow> 0 < g" by (simp_all only: cents_pos_iff)
    show "cents g < 0 \<longleftrightarrow> g < 0" by (simp only: not_le [symmetric] cents_nonneg_iff)
  qed
  have "buildAssetDisposalLines (cents cost) (cents accum) (cents proceeds) acc = filter hasAmount (xlines ps)"
    unfolding buildAssetDisposalLines_def Let_def nbv gl sign
    by (simp add: xlines_def ps_def xentry_def cents_minus)
  moreover have "sum_list (debits ps) = sum_list (credits ps) \<and> 0 < sum_list (debits ps)"
    using assms by (auto simp: ps_def g_def)
  ultimately show ?thesis using isBalanced_xlines [OF modest] by simp
qed

theorem disposal_balances_witness:
  "isBalanced (buildAssetDisposalLines (cents 120000) (cents 30000) (cents 75000) (\<lambda>purpose. purpose))"
  using disposal_balances [of 120000 30000 75000] by simp

lemma rat_int: "k \<le> 10 ^ 11 \<Longrightarrow> (of_int k :: rat) / 100 \<le> 1000000000"
proof -
  assume "k \<le> 10 ^ 11"
  then have "(of_int k :: rat) \<le> of_int (10 ^ 11)" by (simp only: of_int_le_iff)
  then show ?thesis by simp
qed

lemma round2_int:
  assumes "\<bar>x\<bar> \<le> 10000000000"
  shows "\<exists>k. round2 x = cents k \<and> dec14 k"
proof (intro exI conjI)
  show "round2 x = cents (mathRound (nmul x 100))" by (rule round2_cents_form)
  have b: "\<bar>x * 100\<bar> \<le> 1000000000000" using assms by (simp add: abs_mult)
  then have "\<bar>nmul x 100 - x * 100\<bar> \<le> 1" using fl_error [of "x * 100"] unfolding nmul_def by simp
  from near_abs [OF this b] have "\<bar>nmul x 100\<bar> \<le> 1000000000001" by simp
  then have "mathRound (nmul x 100) \<le> mathRound (of_int 1000000000001)"
    "mathRound (of_int (- 1000000000001)) \<le> mathRound (nmul x 100)"
    unfolding abs_le_iff by (intro mathRound_mono; simp)+
  then show "dec14 (mathRound (nmul x 100))" unfolding mathRound_of_int by simp
qed

text \<open>
  A month's depreciation never takes an asset below its residual value, and the last month
  of its useful life takes it exactly there, under both methods.
\<close>

theorem depreciation_stops_at_residual:
  assumes "0 \<le> resid" "0 \<le> accum" "accum + resid \<le> cost" "cost \<le> 10 ^ 11"
    and "1 \<le> life" and "\<And>r. rate = Some r \<Longrightarrow> 0 \<le> r"
  shows "\<exists>d. calculateMonthlyDepreciation
      \<lparr>dp_acquisitionCost = cents cost, dp_residualValue = cents resid, dp_usefulLifeMonths = life, dp_method = m,
       dp_annualRate = rate, dp_accumulatedDepreciationSoFar = cents accum, dp_monthsElapsed = k\<rparr> = cents d
    \<and> 0 \<le> d \<and> accum + d + resid \<le> cost \<and> (life \<le> k + 1 \<longrightarrow> accum + d + resid = cost)"
  (is "\<exists>d. calculateMonthlyDepreciation ?i = cents d \<and> _")
proof -
  define nbv rem where "nbv = nsub (cents cost) (cents accum)" and "rem = nsub nbv (cents resid)"
  define R where "R = cost - accum - resid"
  have R: "0 \<le> R" "R \<le> 10 ^ 11" using assms by (simp_all add: R_def)
  have c: "\<bar>cents x - of_int x / 100\<bar> \<le> 2 / 10000000" "\<bar>cents x\<bar> \<le> 1000000001"
    if "0 \<le> x" "x \<le> 10 ^ 11" for x
  proof -
    have "(of_int x :: rat) \<le> of_int (10 ^ 11)" using that(2) by (simp only: of_int_le_iff)
    then show "\<bar>cents x - of_int x / 100\<bar> \<le> 2 / 10000000" "\<bar>cents x\<bar> \<le> 1000000001"
      using cents_error_rel [of x] that(1) unfolding abs_le_iff by auto
  qed
  have acc: "0 \<le> accum" "accum \<le> 10 ^ 11" and res: "0 \<le> resid" "resid \<le> 10 ^ 11" and cst: "0 \<le> cost"
    using assms by auto
  note cc = c [OF cst assms(4)] and ca = c [OF acc] and cr = c [OF res]
  have flx: "\<bar>fl x - x\<bar> \<le> 1 / 1000000" if "\<bar>x\<bar> \<le> 4000000000" for x :: rat
    using fl_error [of x] that by simp
  have "\<bar>cents cost - cents accum\<bar> \<le> 3000000000" using cc(2) ca(2) by linarith
  then have nbv: "\<bar>nbv - (cents cost - cents accum)\<bar> \<le> 1 / 1000000"
    unfolding nbv_def nsub_def by (intro flx) linarith
  then have "\<bar>nbv\<bar> \<le> 2000000003" using cc(2) ca(2) by linarith
  then have "\<bar>nbv - cents resid\<bar> \<le> 3500000000" using cr(2) by linarith
  then have "\<bar>rem - (nbv - cents resid)\<bar> \<le> 1 / 1000000"
    unfolding rem_def nsub_def by (intro flx) linarith
  then have rem: "\<bar>rem - of_int R / 100\<bar> \<le> 4 / 1000"
    using nbv cc(1) ca(1) cr(1) unfolding R_def of_int_diff diff_divide_distrib by linarith
  have rem2: "round2 rem = cents R" by (rule round2_near [OF rem]) (use R in auto)
  show ?thesis
  proof (cases "rem \<le> 0")
    case True
    then have "(of_int R :: rat) / 100 < 1 / 100" using rem by linarith
    then have "(of_int R :: rat) < of_int 1" by simp
    then have "R = 0" using R(1) unfolding of_int_less_iff by simp
    moreover have "calculateMonthlyDepreciation ?i = cents 0"
      using True by (simp add: calculateMonthlyDepreciation_def Let_def nbv_def rem_def)
    ultimately show ?thesis using R_def by (intro exI [of _ 0]) auto
  next
    case False
    show ?thesis
    proof (cases "life \<le> k + 1")
      case True
      then have "calculateMonthlyDepreciation ?i = cents R"
        using False rem2 by (simp add: calculateMonthlyDepreciation_def Let_def nbv_def rem_def)
      then show ?thesis using R by (intro exI [of _ R]) (auto simp: R_def)
    next
      case later: False
      define amt where "amt = (case m of
          STRAIGHT_LINE \<Rightarrow> ndiv (nsub (cents cost) (cents resid)) (of_int life)
        | REDUCING_BALANCE \<Rightarrow> nmul nbv (ndiv (ndiv (case rate of None \<Rightarrow> 0 | Some r \<Rightarrow> r) 100) 12))"
      have "0 \<le> nbv" using cents_mono [of accum cost] assms by (simp add: nbv_def nsub_nonneg)
      then have "0 \<le> amt"
        unfolding amt_def using cents_mono [of resid cost] assms
        by (auto split: depreciationMethod.split option.split intro!: ndiv_nonneg nmul_nonneg nsub_nonneg)
      then have "0 \<le> round2 (min amt rem)" using False by (intro round2_nonneg) auto
      moreover have "round2 (min amt rem) \<le> cents R" unfolding rem2 [symmetric] by (rule round2_mono) simp
      moreover have "rem \<le> 1000000001" using rem rat_int [OF R(2)] unfolding abs_le_iff by linarith
      then have "\<bar>min amt rem\<bar> \<le> 10000000000" using \<open>0 \<le> amt\<close> False by (simp add: abs_if min_def)
      then obtain d where d: "round2 (min amt rem) = cents d" "dec14 d" using round2_int by blast
      ultimately have "0 \<le> d" "d \<le> R" using R cents_le_iff [OF d(2), of R] by auto
      moreover have "calculateMonthlyDepreciation ?i = cents d"
        using False later d(1)
        by (cases m) (simp_all add: calculateMonthlyDepreciation_def Let_def nbv_def rem_def amt_def)
      ultimately show ?thesis using later by (intro exI [of _ d]) (auto simp: R_def)
    qed
  qed
qed

theorem depreciation_stops_at_residual_witness:
  "\<exists>d. calculateMonthlyDepreciation
      \<lparr>dp_acquisitionCost = cents 120000, dp_residualValue = cents 20000, dp_usefulLifeMonths = 36,
       dp_method = REDUCING_BALANCE, dp_annualRate = Some 20, dp_accumulatedDepreciationSoFar = cents 95000,
       dp_monthsElapsed = 35\<rparr> = cents d \<and> 95000 + d + 20000 = 120000"
  using depreciation_stops_at_residual [of 20000 95000 120000 36 "Some 20" REDUCING_BALANCE 35] by auto

lemma bandTax_mono:
  assumes "x \<le> y" "a \<le> b" "fl a = a" "fl b = b" "0 \<le> tx_rate band"
  shows "bandTax x a band \<le> bandTax y b band" and "fl (bandTax x a band) = bandTax x a band"
proof -
  have r: "0 \<le> ndiv (tx_rate band) 100" using assms(5) by (simp add: ndiv_nonneg)
  define part where "part z = nmul (max 0 (nsub (case tx_upperBound band of None \<Rightarrow> z | Some u \<Rightarrow> min z u) (tx_lowerBound band)))
      (ndiv (tx_rate band) 100)" for z
  have band: "bandTax z c band = (if z \<le> tx_lowerBound band then c else nadd c (part z))" for z c
    by (simp add: bandTax_def part_def Let_def)
  have part0: "0 \<le> part z" for z unfolding part_def using r by (intro nmul_nonneg) auto
  have "(case tx_upperBound band of None \<Rightarrow> x | Some u \<Rightarrow> min x u) \<le> (case tx_upperBound band of None \<Rightarrow> y | Some u \<Rightarrow> min y u)"
    using assms(1) by (cases "tx_upperBound band") auto
  then have "nsub (case tx_upperBound band of None \<Rightarrow> x | Some u \<Rightarrow> min x u) (tx_lowerBound band)
      \<le> nsub (case tx_upperBound band of None \<Rightarrow> y | Some u \<Rightarrow> min y u) (tx_lowerBound band)"
    unfolding nsub_def by (intro fl_mono) simp
  then have partm: "part x \<le> part y"
    unfolding part_def nmul_def by (intro fl_mono mult_right_mono max.mono r) auto
  have "b \<le> nadd b (part y)" using fl_mono [of b "b + part y"] part0 [of y] assms(4) by (simp add: nadd_def)
  moreover have "nadd a (part x) \<le> nadd b (part y)" unfolding nadd_def by (intro fl_mono add_mono assms partm)
  ultimately show "bandTax x a band \<le> bandTax y b band" using assms(1,2) by (auto simp: band)
  show "fl (bandTax x a band) = bandTax x a band" using assms(3) by (simp add: band nadd_def)
qed

lemma bands_mono:
  assumes "x \<le> y" "a \<le> b" "fl a = a" "fl b = b" "\<And>band. band \<in> set bands \<Longrightarrow> 0 \<le> tx_rate band"
  shows "foldl (bandTax x) a bands \<le> foldl (bandTax y) b bands"
  using assms
proof (induction bands arbitrary: a b)
  case (Cons band bands)
  have r: "0 \<le> tx_rate band" using Cons.prems(5) by simp
  show ?case
    using Cons.IH [of "bandTax x a band" "bandTax y b band"] Cons.prems
      bandTax_mono [OF Cons.prems(1-4) r] bandTax_mono(2) [OF order_refl order_refl Cons.prems(4,4) r]
    by simp
qed simp

text \<open>
  Earning more never lowers the PAYE due, whatever the bands, and no tax is ever negative or
  due on nothing.
\<close>

theorem paye_monotone:
  assumes "x \<le> y" and "\<And>band. band \<in> set bands \<Longrightarrow> 0 \<le> tx_rate band"
  shows "0 \<le> calculatePAYE x bands \<and> calculatePAYE x bands \<le> calculatePAYE y bands \<and> calculatePAYE 0 bands = 0"
proof -
  have nonneg: "0 \<le> foldl (bandTax z) 0 bands" for z
  proof -
    have "0 \<le> foldl (bandTax z) a bands" if "0 \<le> a" "\<forall>b \<in> set bands. 0 \<le> tx_rate b" for a
      using that
    proof (induction bands arbitrary: a)
      case (Cons band bands)
      have "0 \<le> bandTax z a band"
        using Cons.prems by (simp add: bandTax_def Let_def nadd_nonneg nmul_nonneg ndiv_nonneg)
      then show ?case using Cons by simp
    qed simp
    then show ?thesis using assms(2) by simp
  qed
  have "foldl (bandTax x) 0 bands \<le> foldl (bandTax y) 0 bands" by (rule bands_mono) (use assms in auto)
  then show ?thesis
    using assms(1) nonneg by (auto simp: calculatePAYE_def round2_nonneg round2_mono)
qed

text \<open>Two tax bands.\<close>

abbreviation sampleBands :: "taxBand list" where
  "sampleBands \<equiv> [\<lparr>tx_lowerBound = 0, tx_upperBound = Some 490, tx_rate = 0\<rparr>,
     \<lparr>tx_lowerBound = 490, tx_upperBound = None, tx_rate = 5\<rparr>]"

theorem paye_monotone_witness: "calculatePAYE 400 sampleBands \<le> calculatePAYE 900 sampleBands"
  by (rule paye_monotone [THEN conjunct2, THEN conjunct1]) auto

text \<open>
  A statutory contribution is the rate applied to the salary kept between the minimum and
  the ceiling of insurable earnings, so it never leaves the range those two set.
\<close>

theorem contribution_clamped:
  assumes "lo \<le> hi" and "0 \<le> rate"
  shows "calculateStatutoryContribution s rate (Some hi) (Some lo) = round2 (nmul (max lo (min hi s)) (ndiv rate 100))
    \<and> calculateStatutoryContribution lo rate (Some hi) (Some lo) \<le> calculateStatutoryContribution s rate (Some hi) (Some lo)
    \<and> calculateStatutoryContribution s rate (Some hi) (Some lo) \<le> calculateStatutoryContribution hi rate (Some hi) (Some lo)"
proof -
  have base: "contributionBase z (Some hi) (Some lo) = max lo (min hi z)" for z
    using assms(1) by (auto simp: contributionBase_def Let_def max_def min_def)
  have r: "0 \<le> ndiv rate 100" using assms(2) by (simp add: ndiv_nonneg)
  have mono: "round2 (nmul a (ndiv rate 100)) \<le> round2 (nmul b (ndiv rate 100))" if "a \<le> b" for a b
    unfolding nmul_def by (intro round2_mono fl_mono mult_right_mono that r)
  show ?thesis
    unfolding calculateStatutoryContribution_def base using assms(1) by (auto intro!: mono)
qed

theorem contribution_clamped_witness:
  "calculateStatutoryContribution 90000 13 (Some 61000) (Some 500) \<le> calculateStatutoryContribution 61000 13 (Some 61000) (Some 500)"
  using contribution_clamped [of 500 61000 13 90000] by simp

end
