(* ===== verification/Server.thy ===== *)
theory Server
  imports JS_Number JS_Date JS_String
begin

text \<open>
  What every route handler of the API shares: the request (who asks, when, and the sources of
  fresh identifiers and randomness), the answer, exceptions and transactions, and the two tables
  that every module writes to, the audit log and the approval requests. A handler is a function
  of the request and the database that returns the answer and the database it leaves. Handlers
  run one after another here; the metadata of audit rows is not kept.
\<close>

section \<open>Requests and answers\<close>

text \<open>
  \<open>e_userId\<close> and \<open>e_institutionId\<close> are those of the access token (\<open>req.auth\<close>). The identifiers
  \<open>uuid()\<close> draws, \<open>Math.random\<close> and \<open>Date.parse\<close> are parameters: the \<open>n\<close>-th row created gets
  \<open>e_uuid n\<close>, and \<open>e_rand n\<close> is the random number drawn for it.
\<close>

record env =
  e_now :: time
  e_userId :: string
  e_institutionId :: string
  e_uuid :: "nat \<Rightarrow> string"
  e_rand :: "nat \<Rightarrow> num"
  e_parseDate :: "string \<Rightarrow> time option"

text \<open>\<open>Flatten\<close> is the list of schema violations that zod produces for a malformed body.\<close>

datatype errBody = Msg string | Flatten

datatype 'a resp = RErr nat errBody | ROk nat 'a

fun okResp :: "'a resp \<Rightarrow> bool" where
  "okResp (RErr c e) = False"
| "okResp (ROk c x) = True"

definition fail :: "nat \<Rightarrow> string \<Rightarrow> 'd \<Rightarrow> 'a resp \<times> 'd" where
  "fail c m d = (RErr c (Msg m), d)"

text \<open>
  \<open>schema.safeParse(req.body)\<close>: the body is \<open>None\<close> when it does not have the fields and types of the
  schema, and \<open>p\<close> is what the schema demands of the values.
\<close>

definition safeParse :: "('b \<Rightarrow> bool) \<Rightarrow> 'b option \<Rightarrow> 'b option" where
  "safeParse p b = (case b of None \<Rightarrow> None | Some x \<Rightarrow> if p x then Some x else None)"

lemma safeParse_Some [simp]: "safeParse p b = Some x \<longleftrightarrow> b = Some x \<and> p x"
  by (auto simp: safeParse_def split: option.splits)

section \<open>Exceptions and transactions\<close>

text \<open>
  The ways a handler ends early: an answer with an error status and message (returned, or thrown
  with an \<open>httpStatus\<close> out of a transaction), a malformed body, or any other exception, which the
  error handler of the application answers with 500.
\<close>

datatype terr = Http nat string | Malformed | Thrown

fun answerError :: "terr \<Rightarrow> 'd \<Rightarrow> 'a resp \<times> 'd" where
  "answerError (Http c m) d = fail c m d"
| "answerError Malformed d = (RErr 400 Flatten, d)"
| "answerError Thrown d = fail 500 ''Internal server error'' d"

text \<open>\<open>prisma.$transaction\<close>: an exception leaves the database as it was.\<close>

definition transact :: "('d \<Rightarrow> terr + 'a \<times> 'd) \<Rightarrow> 'd \<Rightarrow> ('a \<Rightarrow> 'd \<Rightarrow> 'b resp \<times> 'd) \<Rightarrow> 'b resp \<times> 'd" where
  "transact body d k = (case body d of Inl e \<Rightarrow> answerError e d | Inr r \<Rightarrow> k (fst r) (snd r))"

text \<open>
  A handler whose checks all come before its first write: it either ends early and writes nothing,
  or answers \<open>c\<close> with the value and the database it computed.
\<close>

definition answer :: "nat \<Rightarrow> 'd \<Rightarrow> terr + 'a \<times> 'd \<Rightarrow> 'a resp \<times> 'd" where
  "answer c d m = (case m of Inl e \<Rightarrow> answerError e d | Inr r \<Rightarrow> (ROk c (fst r), snd r))"

definition require :: "bool \<Rightarrow> nat \<Rightarrow> string \<Rightarrow> terr + unit" where
  "require b c m = (if b then Inr () else Inl (Http c m))"

definition parseBody :: "('b \<Rightarrow> bool) \<Rightarrow> 'b option \<Rightarrow> terr + 'b" where
  "parseBody p b = orThrow Malformed (safeParse p b)"

lemma answerError_db [simp]: "snd (answerError e d) = d" "\<not> okResp (fst (answerError e d))"
  by (cases e; simp add: fail_def)+

lemma fail_simps [simp]: "snd (fail c m d) = d" "okResp (fst (fail c m d)) = False"
  by (simp_all add: fail_def)

lemma require_Inr [simp]: "require b c m = Inr u \<longleftrightarrow> b"
  by (simp add: require_def)

lemma parseBody_Inr [simp]: "parseBody p b = Inr x \<longleftrightarrow> b = Some x \<and> p x"
  by (simp add: parseBody_def)

text \<open>Either the handler refused and the database is unchanged, or the computation succeeded.\<close>

lemma answer_cases:
  assumes "answer c d m = (r, d')"
  obtains (refused) "\<not> okResp r" and "d' = d" | (finished) x where "m = Inr (x, d')" and "r = ROk c x"
proof (cases m)
  case (Inl e)
  then show ?thesis using assms refused by (cases e) (auto simp: answer_def fail_def)
next
  case (Inr q)
  then show ?thesis using assms finished [of "fst q"] by (auto simp: answer_def)
qed

lemma answer_ok: "answer c d m = (ROk k x, d') \<longleftrightarrow> k = c \<and> m = Inr (x, d')"
  by (cases m rule: sum.exhaust; (cases "projl m")?) (auto simp: answer_def fail_def)

text \<open>What holds of the database before holds after, if it holds of every outcome.\<close>

lemma answer_db:
  assumes "\<And>x. m = Inr x \<Longrightarrow> Q (snd x)" and "Q d"
  shows "Q (snd (answer c d m))"
proof (cases m)
  case (Inl e)
  then show ?thesis using assms(2) by (cases e) (simp_all add: answer_def fail_def)
qed (use assms(1) in \<open>simp add: answer_def\<close>)

section \<open>The audit log and the approval requests\<close>

text \<open>The values of a JSON column, and of the contexts that business rules are evaluated in.\<close>

datatype jsValue = JNull | JBool bool | JNum num | JStr string | JObj "(string \<times> jsValue) list"

record auditRow =
  al_institutionId :: string
  al_userId :: "string option"
  al_action :: string
  al_resource :: string
  al_resourceId :: string
  al_createdAt :: time

datatype approvalType =
    CUSTOMER_STATUS_CHANGE | CUSTOMER_PROFILE_UPDATE | ACCOUNT_HOLDER_ADD | PRODUCT_ACTIVATION
  | BUSINESS_RULE_ACTIVATION | BUSINESS_RULE_TRIGGERED | LOAN_RESTRUCTURE | LOAN_RESCHEDULE | LOAN_WRITE_OFF
  | COLLECTION_VARIANCE_ADJUSTMENT | COMMISSION_PAYMENT | CASH_TRANSFER | CASH_BALANCING_VARIANCE
  | JOURNAL_POSTING | FINANCIAL_PERIOD_REOPEN | RECURRING_JOURNAL_ACTIVATION | INTER_BRANCH_TRANSFER
  | SALARY_STRUCTURE_CHANGE | PAYROLL_RUN_APPROVAL | ATTENDANCE_CORRECTION | AUDIT_ENGAGEMENT_APPROVAL
  | ASSET_TRANSFER | ASSET_DISPOSAL | CUSTOMER_MERGE | SAVINGS_RESTRICTION_CREATE | SAVINGS_RESTRICTION_REMOVE
  | AML_ADJUDICATION

datatype approvalStatus = AP_PENDING | AP_APPROVED | AP_REJECTED

record approvalRow =
  ap_id :: string
  ap_institutionId :: string
  ap_type :: approvalType
  ap_status :: approvalStatus
  ap_targetType :: string
  ap_targetId :: string
  ap_payload :: "(string \<times> jsValue) list"
  ap_reason :: string
  ap_requestedById :: string
  ap_resolvedById :: "string option"
  ap_resolvedAt :: "time option"
  ap_resolutionNote :: "string option"

record core_db =
  db_next :: nat
  db_audit :: "auditRow list"
  db_approvals :: "approvalRow list"

definition newId :: "env \<Rightarrow> 'a core_db_scheme \<Rightarrow> string" where
  "newId env db = e_uuid env (db_next db)"

text \<open>\<open>prisma.auditLog.create\<close>.\<close>

definition audit :: "env \<Rightarrow> string \<Rightarrow> string \<Rightarrow> string \<Rightarrow> 'a core_db_scheme \<Rightarrow> 'a core_db_scheme" where
  "audit env action resource rid db = db\<lparr>db_audit := db_audit db @
     [\<lparr>al_institutionId = e_institutionId env, al_userId = Some (e_userId env), al_action = action,
       al_resource = resource, al_resourceId = rid, al_createdAt = e_now env\<rparr>]\<rparr>"

text \<open>\<open>prisma.approvalRequest.create\<close>: a new request is pending.\<close>

definition requestApproval ::
  "env \<Rightarrow> approvalType \<Rightarrow> string \<Rightarrow> string \<Rightarrow> (string \<times> jsValue) list \<Rightarrow> string
    \<Rightarrow> 'a core_db_scheme \<Rightarrow> 'a core_db_scheme" where
  "requestApproval env ty targetType targetId payload reason db = db\<lparr>db_next := Suc (db_next db),
     db_approvals := db_approvals db @
      [\<lparr>ap_id = newId env db, ap_institutionId = e_institutionId env, ap_type = ty, ap_status = AP_PENDING,
        ap_targetType = targetType, ap_targetId = targetId, ap_payload = payload, ap_reason = reason,
        ap_requestedById = e_userId env, ap_resolvedById = None, ap_resolvedAt = None,
        ap_resolutionNote = None\<rparr>]\<rparr>"

text \<open>What the two leave alone.\<close>

lemma audit_frame [frame]:
  "db_next (audit env a r i db) = db_next db" "db_approvals (audit env a r i db) = db_approvals db"
  "core_db.more (audit env a r i db) = core_db.more db"
  by (simp_all add: audit_def)

lemma requestApproval_frame [frame]:
  "db_audit (requestApproval env ty tt ti p r db) = db_audit db"
  "core_db.more (requestApproval env ty tt ti p r db) = core_db.more db"
  by (simp_all add: requestApproval_def)

end
