(* ===== verification/GL_Routes.thy ===== *)
theory GL_Routes
  imports Server Ledger
begin

text \<open>
  The general ledger module (\<open>routes/generalLedger.routes.ts\<close>, the database half of
  \<open>lib/generalLedger.ts\<close>): chart of accounts, manual journals, financial periods and recurring
  journals, and the posting of automatic journals that the money-moving modules share. Money
  columns hold pesewas as integers; the numbers of the code are written to them by rounding. The
  dash in the messages is written as a hyphen.
\<close>

section \<open>Tables\<close>

datatype accountStatus = GA_ACTIVE | GA_INACTIVE

record glAccount =
  ga_id :: string
  ga_institutionId :: string
  ga_code :: string
  ga_name :: string
  ga_category :: glCategory
  ga_parentId :: "string option"
  ga_branchId :: "string option"
  ga_status :: accountStatus
  ga_balance :: int
  ga_cashFlowActivity :: "cashFlowActivity option"
  ga_isLiquidAsset :: bool
  ga_isVolatileLiability :: bool
  ga_capitalTier :: "string option"
  ga_baselRiskWeightPercent :: "int option"

record journalLine =
  jl_accountId :: string
  jl_debit :: int
  jl_credit :: int

datatype journalType = MANUAL | AUTOMATIC | RECURRING | REVERSING | ADJUSTMENT
datatype journalStatus = J_DRAFT | J_PENDING_APPROVAL | J_POSTED | J_REJECTED

fun showJournalStatus :: "journalStatus \<Rightarrow> string" where
  "showJournalStatus J_DRAFT = ''DRAFT''"
| "showJournalStatus J_PENDING_APPROVAL = ''PENDING_APPROVAL''"
| "showJournalStatus J_POSTED = ''POSTED''"
| "showJournalStatus J_REJECTED = ''REJECTED''"

record journal =
  jo_id :: string
  jo_institutionId :: string
  jo_journalNumber :: string
  jo_type :: journalType
  jo_description :: string
  jo_status :: journalStatus
  jo_postingDate :: time
  jo_postedById :: "string option"
  jo_postedAt :: "time option"
  jo_rejectionReason :: "string option"
  jo_createdById :: string
  jo_lines :: "journalLine list"

record fiscalYear =
  fy_id :: string
  fy_institutionId :: string
  fy_name :: string
  fy_startDate :: time
  fy_endDate :: time

datatype periodStatus = FP_OPEN | FP_CLOSED | FP_LOCKED

fun showPeriodStatus :: "periodStatus \<Rightarrow> string" where
  "showPeriodStatus FP_OPEN = ''OPEN''"
| "showPeriodStatus FP_CLOSED = ''CLOSED''"
| "showPeriodStatus FP_LOCKED = ''LOCKED''"

record financialPeriod =
  fp_id :: string
  fp_institutionId :: string
  fp_fiscalYearId :: string
  fp_name :: string
  fp_startDate :: time
  fp_endDate :: time
  fp_status :: periodStatus
  fp_closedById :: "string option"
  fp_closedAt :: "time option"
  fp_reopenedById :: "string option"
  fp_reopenedAt :: "time option"
  fp_lockedById :: "string option"
  fp_lockedAt :: "time option"

datatype frequency = DAILY | WEEKLY | FORTNIGHTLY | MONTHLY | QUARTERLY | HALF_YEARLY | ANNUALLY | CUSTOM_INTERVAL
datatype recurringStatus = RJ_DRAFT | RJ_PENDING_APPROVAL | RJ_ACTIVE | RJ_SUSPENDED

fun showRecurringStatus :: "recurringStatus \<Rightarrow> string" where
  "showRecurringStatus RJ_DRAFT = ''DRAFT''"
| "showRecurringStatus RJ_PENDING_APPROVAL = ''PENDING_APPROVAL''"
| "showRecurringStatus RJ_ACTIVE = ''ACTIVE''"
| "showRecurringStatus RJ_SUSPENDED = ''SUSPENDED''"

record recurringJournal =
  rj_id :: string
  rj_institutionId :: string
  rj_description :: string
  rj_lineTemplate :: "entry list"
  rj_frequency :: frequency
  rj_customIntervalDays :: "int option"
  rj_nextExecutionDate :: time
  rj_status :: recurringStatus
  rj_maxRetries :: int
  rj_consecutiveFailures :: int
  rj_createdById :: string

record gl_db = core_db +
  db_glAccounts :: "glAccount list"
  db_journals :: "journal list"
  db_fiscalYears :: "fiscalYear list"
  db_periods :: "financialPeriod list"
  db_recurring :: "recurringJournal list"

section \<open>Creating and posting journals\<close>

text \<open>\<open>"JN" + Date.now().toString().slice(-10) + rand\<close>, \<open>rand\<close> three random digits.\<close>

definition generateJournalNumber :: "time \<Rightarrow> num \<Rightarrow> string" where
  "generateJournalNumber now r = (let s = showNat (nat now) in
     ''JN'' @ drop (length s - 10) s @ padStart 3 (showNat (nat \<lfloor>nmul r 1000\<rfloor>)))"

definition findPostablePeriod :: "string \<Rightarrow> time \<Rightarrow> 'a gl_db_scheme \<Rightarrow> financialPeriod option" where
  "findPostablePeriod inst date db =
     find (\<lambda>p. fp_institutionId p = inst \<and> fp_startDate p \<le> date \<and> date \<le> fp_endDate p) (db_periods db)"

definition accountById :: "string \<Rightarrow> 'a gl_db_scheme \<Rightarrow> glAccount option" where
  "accountById i db = find (\<lambda>a. ga_id a = i) (db_glAccounts db)"

definition lineRow :: "entry \<Rightarrow> journalLine" where
  "lineRow l = \<lparr>jl_accountId = en_accountId l, jl_debit = toDec2 (en_debit l), jl_credit = toDec2 (en_credit l)\<rparr>"

text \<open>
  \<open>prisma.journal.create\<close> with its lines: fails when the journal number is taken (it is unique) or
  a line names no account (its foreign key).
\<close>

definition createJournal ::
  "env \<Rightarrow> string \<Rightarrow> journalType \<Rightarrow> string \<Rightarrow> journalStatus \<Rightarrow> time \<Rightarrow> string option \<Rightarrow> string
    \<Rightarrow> entry list \<Rightarrow> 'a gl_db_scheme \<Rightarrow> terr + journal \<times> 'a gl_db_scheme" where
  "createJournal env inst ty descr st date postedBy createdBy ls db =
     (let n = generateJournalNumber (e_now env) (e_rand env (db_next db));
          j = \<lparr>jo_id = newId env db, jo_institutionId = inst, jo_journalNumber = n, jo_type = ty,
               jo_description = descr, jo_status = st, jo_postingDate = date, jo_postedById = postedBy,
               jo_postedAt = map_option (\<lambda>_. e_now env) postedBy, jo_rejectionReason = None,
               jo_createdById = createdBy, jo_lines = map lineRow ls\<rparr>
      in if find (\<lambda>k. jo_journalNumber k = n) (db_journals db) \<noteq> None
            \<or> list_ex (\<lambda>l. accountById (en_accountId l) db = None) ls
         then Inl Thrown
         else Inr (j, db\<lparr>db_next := Suc (db_next db), db_journals := db_journals db @ [j]\<rparr>))"

text \<open>One round of the loop that moves the account balances by \<open>{ increment: effect }\<close>.\<close>

definition postLine :: "glCategory \<times> entry \<Rightarrow> 'a gl_db_scheme \<Rightarrow> terr + 'a gl_db_scheme" where
  "postLine cl db = (case cl of (c, l) \<Rightarrow>
     if accountById (en_accountId l) db = None then Inl Thrown
     else Inr (db\<lparr>db_glAccounts := updWhere (\<lambda>a. ga_id a = en_accountId l)
       (\<lambda>a. a\<lparr>ga_balance := decAdd (ga_balance a) (balanceEffect c (en_debit l) (en_credit l))\<rparr>)
       (db_glAccounts db)\<rparr>))"

text \<open>
  The two steps that every automatic posting performs in its transaction: create the journal as
  POSTED, then move the balances of the accounts its lines name.
\<close>

definition postJournal ::
  "env \<Rightarrow> string \<Rightarrow> journalType \<Rightarrow> string \<Rightarrow> time \<Rightarrow> string \<Rightarrow> string \<Rightarrow> (glCategory \<times> entry) list
    \<Rightarrow> 'a gl_db_scheme \<Rightarrow> terr + journal \<times> 'a gl_db_scheme" where
  "postJournal env inst ty descr date postedBy createdBy cls db =
     bindE (createJournal env inst ty descr J_POSTED date (Some postedBy) createdBy (map snd cls) db) (\<lambda>r.
     bindE (foldE postLine cls (snd r)) (\<lambda>db'. Inr (fst r, db')))"

section \<open>Chart of accounts\<close>

record createAccountBody =
  ca_code :: string
  ca_name :: string
  ca_category :: glCategory
  ca_parentId :: "string option"
  ca_branchId :: "string option"

definition createAccount :: "env \<Rightarrow> createAccountBody option \<Rightarrow> 'a gl_db_scheme \<Rightarrow> glAccount resp \<times> 'a gl_db_scheme" where
  "createAccount env body db =
     (case safeParse (\<lambda>b. ca_code b \<noteq> [] \<and> ca_name b \<noteq> []) body of
        None \<Rightarrow> (RErr 400 Flatten, db)
      | Some b \<Rightarrow>
          if find (\<lambda>a. ga_institutionId a = e_institutionId env \<and> ga_code a = ca_code b) (db_glAccounts db) \<noteq> None
          then fail 400 (''Account code '' @ ca_code b @ '' is already in use'') db
          else if ca_parentId b \<noteq> None \<and> accountById (the (ca_parentId b)) db = None then answerError Thrown db
          else
            (let a = \<lparr>ga_id = newId env db, ga_institutionId = e_institutionId env, ga_code = ca_code b,
                ga_name = ca_name b, ga_category = ca_category b, ga_parentId = ca_parentId b,
                ga_branchId = ca_branchId b, ga_status = GA_ACTIVE, ga_balance = 0, ga_cashFlowActivity = None,
                ga_isLiquidAsset = False, ga_isVolatileLiability = False, ga_capitalTier = None,
                ga_baselRiskWeightPercent = None\<rparr>
             in (ROk 201 a, audit env ''gl_account.create'' ''gl_account'' (ga_id a)
                  (db\<lparr>db_next := Suc (db_next db), db_glAccounts := db_glAccounts db @ [a]\<rparr>))))"

text \<open>\<open>PATCH /accounts/:id/status\<close>; the body's status is \<open>None\<close> when it is missing or anything else.\<close>

definition setAccountStatus :: "env \<Rightarrow> string \<Rightarrow> accountStatus option \<Rightarrow> 'a gl_db_scheme \<Rightarrow> unit resp \<times> 'a gl_db_scheme" where
  "setAccountStatus env i status db =
     (case status of
        None \<Rightarrow> fail 400 ''status must be ACTIVE or INACTIVE'' db
      | Some st \<Rightarrow>
          (let P = (\<lambda>a. ga_id a = i \<and> ga_institutionId a = e_institutionId env) in
           if countWhere P (db_glAccounts db) = 0 then fail 404 ''Account not found'' db
           else (ROk 200 (), audit env ''gl_account.status_change'' ''gl_account'' i
                  (db\<lparr>db_glAccounts := updWhere P (\<lambda>a. a\<lparr>ga_status := st\<rparr>) (db_glAccounts db)\<rparr>))))"

text \<open>\<open>POST /accounts/:id/classify\<close>: a field the body does not give stays as it is.\<close>

definition orKeep :: "'a option \<Rightarrow> 'a \<Rightarrow> 'a" where
  "orKeep new old = (case new of None \<Rightarrow> old | Some x \<Rightarrow> x)"

record classifyBody =
  cb_cashFlowActivity :: "cashFlowActivity option"
  cb_isLiquidAsset :: "bool option"
  cb_isVolatileLiability :: "bool option"
  cb_capitalTier :: "string option"
  cb_baselRiskWeightPercent :: "int option"

definition classifyRow :: "classifyBody \<Rightarrow> glAccount \<Rightarrow> glAccount" where
  "classifyRow b a = a\<lparr>
     ga_cashFlowActivity := orKeep (map_option Some (cb_cashFlowActivity b)) (ga_cashFlowActivity a),
     ga_isLiquidAsset := orKeep (cb_isLiquidAsset b) (ga_isLiquidAsset a),
     ga_isVolatileLiability := orKeep (cb_isVolatileLiability b) (ga_isVolatileLiability a),
     ga_capitalTier := orKeep (map_option Some (cb_capitalTier b)) (ga_capitalTier a),
     ga_baselRiskWeightPercent := orKeep (map_option Some (cb_baselRiskWeightPercent b)) (ga_baselRiskWeightPercent a)\<rparr>"

definition classifyAccount :: "env \<Rightarrow> string \<Rightarrow> classifyBody \<Rightarrow> 'a gl_db_scheme \<Rightarrow> glAccount resp \<times> 'a gl_db_scheme" where
  "classifyAccount env i b db =
     (case find (\<lambda>a. ga_id a = i \<and> ga_institutionId a = e_institutionId env) (db_glAccounts db) of
        None \<Rightarrow> fail 404 ''Account not found'' db
      | Some a \<Rightarrow> (ROk 200 (classifyRow b a),
          db\<lparr>db_glAccounts := updWhere (\<lambda>x. ga_id x = ga_id a) (classifyRow b) (db_glAccounts db)\<rparr>))"

section \<open>Manual journals\<close>

record createJournalBody =
  jb_description :: string
  jb_postingDate :: "string option"
  jb_lines :: "entry list"

definition journalSchema :: "createJournalBody \<Rightarrow> bool" where
  "journalSchema b \<longleftrightarrow> 2 \<le> length (jb_description b) \<and> 2 \<le> length (jb_lines b)
     \<and> list_all (\<lambda>l. 0 \<le> en_debit l \<and> 0 \<le> en_credit l) (jb_lines b)"

text \<open>\<open>new Date(s)\<close> for an optional field, with a default.\<close>

definition dateOr :: "env \<Rightarrow> time \<Rightarrow> string option \<Rightarrow> time option" where
  "dateOr env d s = (if truthy s then e_parseDate env (the s) else Some d)"

text \<open>The check of every line in turn, stopping at the first that is wrong.\<close>

fun lineError :: "entry list \<Rightarrow> string option" where
  "lineError [] = None"
| "lineError (l # ls) =
     (if 0 < en_debit l \<and> 0 < en_credit l then Some ''A single journal line cannot have both a debit and a credit''
      else if en_debit l = 0 \<and> en_credit l = 0 then Some ''Every journal line must have either a debit or a credit''
      else lineError ls)"

definition noError :: "string option \<Rightarrow> terr + unit" where
  "noError m = (case m of None \<Rightarrow> Inr () | Some t \<Rightarrow> Inl (Http 400 t))"

lemma noError_Inr [simp]: "noError m = Inr u \<longleftrightarrow> m = None"
  by (simp add: noError_def split: option.split)

definition createManualJournal ::
  "env \<Rightarrow> createJournalBody option \<Rightarrow> 'a gl_db_scheme \<Rightarrow> journal resp \<times> 'a gl_db_scheme" where
  "createManualJournal env body db = answer 201 db (
     bindE (parseBody journalSchema body) (\<lambda>b.
     bindE (noError (lineError (jb_lines b))) (\<lambda>_.
     bindE (require (isBalanced (jb_lines b)) 400 ''Total debits must equal total credits'') (\<lambda>_.
     bindE (orThrow Thrown (dateOr env (e_now env) (jb_postingDate b))) (\<lambda>postingDate.
     bindE (orThrow (Http 400 ''No financial period covers this posting date - create one first'')
       (findPostablePeriod (e_institutionId env) postingDate db)) (\<lambda>period.
     bindE (require (fp_status period = FP_OPEN) 400 (''The financial period covering this date is ''
       @ showPeriodStatus (fp_status period) @ '' - cannot create a journal against it'')) (\<lambda>_.
     bindE (createJournal env (e_institutionId env) MANUAL (jb_description b) J_DRAFT postingDate None
       (e_userId env) (jb_lines b) db) (\<lambda>(j, db').
     Inr (j, audit env ''journal.create'' ''journal'' (jo_id j) db')))))))))"

text \<open>Two statements in sequence; each is committed on its own.\<close>

definition requestPosting :: "env \<Rightarrow> string \<Rightarrow> 'a gl_db_scheme \<Rightarrow> unit resp \<times> 'a gl_db_scheme" where
  "requestPosting env i db =
     (case find (\<lambda>j. jo_id j = i \<and> jo_institutionId j = e_institutionId env) (db_journals db) of
        None \<Rightarrow> fail 404 ''Journal not found'' db
      | Some j \<Rightarrow>
          if jo_status j \<noteq> J_DRAFT then fail 400 (''Only a DRAFT journal can request posting (currently ''
            @ showJournalStatus (jo_status j) @ '')'') db
          else
            (let db' = requestApproval env JOURNAL_POSTING ''Journal'' (jo_id j) []
                   (''Post journal '' @ jo_journalNumber j @ '': '' @ jo_description j) db
             in (ROk 202 (), db'\<lparr>db_journals := updWhere (\<lambda>k. jo_id k = jo_id j)
                  (\<lambda>k. k\<lparr>jo_status := J_PENDING_APPROVAL\<rparr>) (db_journals db')\<rparr>)))"

section \<open>Financial periods\<close>

record periodBody =
  pb_fiscalYearId :: string
  pb_name :: string
  pb_startDate :: string
  pb_endDate :: string

text \<open>\<open>POST /fiscal-years\<close>: the names of an institution's fiscal years are unique.\<close>

definition createFiscalYear :: "env \<Rightarrow> (string \<times> string \<times> string) option \<Rightarrow> 'a gl_db_scheme \<Rightarrow> fiscalYear resp \<times> 'a gl_db_scheme" where
  "createFiscalYear env body db =
     (case safeParse (\<lambda>(n, _, _). n \<noteq> []) body of
        None \<Rightarrow> (RErr 400 Flatten, db)
      | Some (n, s, e) \<Rightarrow>
          (case (e_parseDate env s, e_parseDate env e) of
             (Some sd, Some ed) \<Rightarrow>
               if find (\<lambda>y. fy_institutionId y = e_institutionId env \<and> fy_name y = n) (db_fiscalYears db) \<noteq> None
               then answerError Thrown db
               else
                 (let y = \<lparr>fy_id = newId env db, fy_institutionId = e_institutionId env, fy_name = n,
                      fy_startDate = sd, fy_endDate = ed\<rparr>
                  in (ROk 201 y, audit env ''fiscal_year.create'' ''fiscal_year'' (fy_id y)
                       (db\<lparr>db_next := Suc (db_next db), db_fiscalYears := db_fiscalYears db @ [y]\<rparr>)))
           | _ \<Rightarrow> answerError Thrown db))"

definition overlapping :: "env \<Rightarrow> time \<Rightarrow> time \<Rightarrow> financialPeriod \<Rightarrow> bool" where
  "overlapping env startDate endDate p \<longleftrightarrow> fp_institutionId p = e_institutionId env
     \<and> fp_startDate p \<le> endDate \<and> startDate \<le> fp_endDate p"

definition createPeriod :: "env \<Rightarrow> periodBody option \<Rightarrow> 'a gl_db_scheme \<Rightarrow> financialPeriod resp \<times> 'a gl_db_scheme" where
  "createPeriod env body db =
     (case safeParse (\<lambda>b. pb_name b \<noteq> []) body of
        None \<Rightarrow> (RErr 400 Flatten, db)
      | Some b \<Rightarrow>
          (case (e_parseDate env (pb_startDate b), e_parseDate env (pb_endDate b)) of
             (Some sd, Some ed) \<Rightarrow>
               (case find (overlapping env sd ed) (db_periods db) of
                  Some p \<Rightarrow> fail 400 (''This date range overlaps an existing period ('' @ fp_name p @ '')'') db
                | None \<Rightarrow>
                    if find (\<lambda>y. fy_id y = pb_fiscalYearId b) (db_fiscalYears db) = None then answerError Thrown db
                    else
                      (let p = \<lparr>fp_id = newId env db, fp_institutionId = e_institutionId env,
                           fp_fiscalYearId = pb_fiscalYearId b, fp_name = pb_name b, fp_startDate = sd, fp_endDate = ed,
                           fp_status = FP_OPEN, fp_closedById = None, fp_closedAt = None, fp_reopenedById = None,
                           fp_reopenedAt = None, fp_lockedById = None, fp_lockedAt = None\<rparr>
                       in (ROk 201 p, audit env ''financial_period.create'' ''financial_period'' (fp_id p)
                            (db\<lparr>db_next := Suc (db_next db), db_periods := db_periods db @ [p]\<rparr>))))
           | _ \<Rightarrow> answerError Thrown db))"

definition updPeriod :: "string \<Rightarrow> (financialPeriod \<Rightarrow> financialPeriod) \<Rightarrow> 'a gl_db_scheme \<Rightarrow> 'a gl_db_scheme" where
  "updPeriod i f db = db\<lparr>db_periods := updWhere (\<lambda>p. fp_id p = i) f (db_periods db)\<rparr>"

definition ownPeriod :: "env \<Rightarrow> string \<Rightarrow> 'a gl_db_scheme \<Rightarrow> financialPeriod option" where
  "ownPeriod env i db = find (\<lambda>p. fp_id p = i \<and> fp_institutionId p = e_institutionId env) (db_periods db)"

definition closePeriod :: "env \<Rightarrow> string \<Rightarrow> 'a gl_db_scheme \<Rightarrow> unit resp \<times> 'a gl_db_scheme" where
  "closePeriod env i db =
     (case ownPeriod env i db of
        None \<Rightarrow> fail 404 ''Period not found'' db
      | Some p \<Rightarrow>
          if fp_status p \<noteq> FP_OPEN
          then fail 400 (''Only an OPEN period can be closed (currently '' @ showPeriodStatus (fp_status p) @ '')'') db
          else (ROk 200 (), audit env ''financial_period.close'' ''financial_period'' (fp_id p)
            (updPeriod (fp_id p) (\<lambda>p. p\<lparr>fp_status := FP_CLOSED, fp_closedById := Some (e_userId env),
               fp_closedAt := Some (e_now env)\<rparr>) db)))"

definition requestReopen :: "env \<Rightarrow> string \<Rightarrow> string option \<Rightarrow> 'a gl_db_scheme \<Rightarrow> unit resp \<times> 'a gl_db_scheme" where
  "requestReopen env i reason db =
     (if \<not> truthy reason then fail 400 ''A reason is required to reopen a closed period'' db
      else (case ownPeriod env i db of
          None \<Rightarrow> fail 404 ''Period not found'' db
        | Some p \<Rightarrow>
            if fp_status p = FP_OPEN then fail 400 ''This period is already open'' db
            else if fp_status p = FP_LOCKED then fail 400 ''A LOCKED period cannot be reopened'' db
            else (ROk 202 (), requestApproval env FINANCIAL_PERIOD_REOPEN ''FinancialPeriod'' (fp_id p) [] (the reason) db)))"

definition lockPeriod :: "env \<Rightarrow> string \<Rightarrow> 'a gl_db_scheme \<Rightarrow> unit resp \<times> 'a gl_db_scheme" where
  "lockPeriod env i db =
     (case ownPeriod env i db of
        None \<Rightarrow> fail 404 ''Period not found'' db
      | Some p \<Rightarrow>
          if fp_status p \<noteq> FP_CLOSED then fail 400 ''Only a CLOSED period can be locked'' db
          else (ROk 200 (), audit env ''financial_period.lock'' ''financial_period'' (fp_id p)
            (updPeriod (fp_id p) (\<lambda>p. p\<lparr>fp_status := FP_LOCKED, fp_lockedById := Some (e_userId env),
               fp_lockedAt := Some (e_now env)\<rparr>) db)))"

section \<open>Recurring journals\<close>

record recurringBody =
  rb_description :: string
  rb_lines :: "entry list"
  rb_frequency :: frequency
  rb_customIntervalDays :: "int option"
  rb_startDate :: string

definition recurringSchema :: "recurringBody \<Rightarrow> bool" where
  "recurringSchema b \<longleftrightarrow> 2 \<le> length (rb_description b) \<and> 2 \<le> length (rb_lines b)
     \<and> list_all (\<lambda>l. 0 \<le> en_debit l \<and> 0 \<le> en_credit l) (rb_lines b)
     \<and> (case rb_customIntervalDays b of None \<Rightarrow> True | Some d \<Rightarrow> 0 < d)"

definition createRecurring :: "env \<Rightarrow> recurringBody option \<Rightarrow> 'a gl_db_scheme \<Rightarrow> recurringJournal resp \<times> 'a gl_db_scheme" where
  "createRecurring env body db =
     (case safeParse recurringSchema body of
        None \<Rightarrow> (RErr 400 Flatten, db)
      | Some b \<Rightarrow>
          if \<not> isBalanced (rb_lines b) then fail 400 ''Total debits must equal total credits'' db
          else (case e_parseDate env (rb_startDate b) of
              None \<Rightarrow> answerError Thrown db
            | Some d \<Rightarrow>
                (let r = \<lparr>rj_id = newId env db, rj_institutionId = e_institutionId env,
                     rj_description = rb_description b, rj_lineTemplate = rb_lines b, rj_frequency = rb_frequency b,
                     rj_customIntervalDays = rb_customIntervalDays b, rj_nextExecutionDate = d, rj_status = RJ_DRAFT,
                     rj_maxRetries = 3, rj_consecutiveFailures = 0, rj_createdById = e_userId env\<rparr>
                 in (ROk 201 r, audit env ''recurring_journal.create'' ''recurring_journal'' (rj_id r)
                      (db\<lparr>db_next := Suc (db_next db), db_recurring := db_recurring db @ [r]\<rparr>)))))"

definition updRecurring :: "(recurringJournal \<Rightarrow> bool) \<Rightarrow> (recurringJournal \<Rightarrow> recurringJournal) \<Rightarrow> 'a gl_db_scheme \<Rightarrow> 'a gl_db_scheme" where
  "updRecurring P f db = db\<lparr>db_recurring := updWhere P f (db_recurring db)\<rparr>"

definition ownRecurring :: "env \<Rightarrow> string \<Rightarrow> recurringJournal \<Rightarrow> bool" where
  "ownRecurring env i r \<longleftrightarrow> rj_id r = i \<and> rj_institutionId r = e_institutionId env"

definition requestActivation :: "env \<Rightarrow> string \<Rightarrow> 'a gl_db_scheme \<Rightarrow> unit resp \<times> 'a gl_db_scheme" where
  "requestActivation env i db =
     (case find (ownRecurring env i) (db_recurring db) of
        None \<Rightarrow> fail 404 ''Recurring journal not found'' db
      | Some r \<Rightarrow>
          if rj_status r \<noteq> RJ_DRAFT then fail 400 (''Only a DRAFT template can request activation (currently ''
            @ showRecurringStatus (rj_status r) @ '')'') db
          else (ROk 202 (), updRecurring (\<lambda>q. rj_id q = rj_id r) (\<lambda>q. q\<lparr>rj_status := RJ_PENDING_APPROVAL\<rparr>)
                 (requestApproval env RECURRING_JOURNAL_ACTIVATION ''RecurringJournal'' (rj_id r) []
                   (''Activate recurring journal: '' @ rj_description r) db)))"

definition suspendRecurring :: "env \<Rightarrow> string \<Rightarrow> 'a gl_db_scheme \<Rightarrow> unit resp \<times> 'a gl_db_scheme" where
  "suspendRecurring env i db =
     (if countWhere (ownRecurring env i) (db_recurring db) = 0 then fail 404 ''Not found'' db
      else (ROk 200 (), updRecurring (ownRecurring env i) (\<lambda>q. q\<lparr>rj_status := RJ_SUSPENDED\<rparr>) db))"

definition reactivateRecurring :: "env \<Rightarrow> string \<Rightarrow> 'a gl_db_scheme \<Rightarrow> unit resp \<times> 'a gl_db_scheme" where
  "reactivateRecurring env i db =
     (case find (ownRecurring env i) (db_recurring db) of
        None \<Rightarrow> fail 404 ''Not found'' db
      | Some r \<Rightarrow>
          if rj_status r \<noteq> RJ_SUSPENDED then fail 400 ''Only a SUSPENDED template can be reactivated'' db
          else (ROk 200 (), updRecurring (\<lambda>q. rj_id q = rj_id r)
            (\<lambda>q. q\<lparr>rj_status := RJ_ACTIVE, rj_consecutiveFailures := 0, rj_nextExecutionDate := e_now env\<rparr>) db))"

section \<open>Account mappings\<close>

text \<open>
  Savings, loans and the vaults each map named purposes to ledger accounts, in tables of the same
  shape. \<open>Object.fromEntries\<close> keeps the last entry of a purpose.
\<close>

record glMapping =
  gm_id :: string
  gm_institutionId :: string
  gm_purpose :: string
  gm_glAccountId :: string

definition accountIdByPurpose :: "string \<Rightarrow> glMapping list \<Rightarrow> string \<Rightarrow> string option" where
  "accountIdByPurpose inst ms = map_of (rev (map (\<lambda>m. (gm_purpose m, gm_glAccountId m))
     (filter (\<lambda>m. gm_institutionId m = inst) ms)))"

text \<open>\<open>POST /gl-mappings\<close> of the three modules: an upsert on the institution and the purpose.\<close>

definition upsertMapping :: "env \<Rightarrow> string \<Rightarrow> string \<Rightarrow> string \<Rightarrow> glMapping list \<Rightarrow> glMapping \<times> glMapping list" where
  "upsertMapping env newid purpose acct ms =
     (let P = (\<lambda>m. gm_institutionId m = e_institutionId env \<and> gm_purpose m = purpose) in
      case find P ms of
        Some m \<Rightarrow> (m\<lparr>gm_glAccountId := acct\<rparr>, updWhere P (\<lambda>m. m\<lparr>gm_glAccountId := acct\<rparr>) ms)
      | None \<Rightarrow>
          (let m = \<lparr>gm_id = newid, gm_institutionId = e_institutionId env, gm_purpose = purpose, gm_glAccountId = acct\<rparr>
           in (m, ms @ [m])))"

text \<open>The checks before the upsert.\<close>

definition mappingGuard :: "env \<Rightarrow> string option \<Rightarrow> string option \<Rightarrow> 'a gl_db_scheme \<Rightarrow> terr + string \<times> string" where
  "mappingGuard env purpose acct db =
     (if \<not> truthy purpose \<or> \<not> truthy acct then Inl (Http 400 ''purpose and glAccountId are required'')
      else if find (\<lambda>a. ga_id a = the acct \<and> ga_institutionId a = e_institutionId env) (db_glAccounts db) = None
      then Inl (Http 404 ''GL account not found'')
      else Inr (the purpose, the acct))"

text \<open>
  The checks that every movement of money makes before it starts: both purposes are mapped, the
  period covering today is open, and the mapped accounts exist.
\<close>

definition postingAccounts ::
  "env \<Rightarrow> glMapping list \<Rightarrow> string \<Rightarrow> string \<Rightarrow> string \<Rightarrow> 'a gl_db_scheme \<Rightarrow> terr + glAccount \<times> glAccount" where
  "postingAccounts env ms p q notConfigured db =
     (let ids = accountIdByPurpose (e_institutionId env) ms in
      if \<not> truthy (ids p) \<or> \<not> truthy (ids q) then Inl (Http 400 notConfigured)
      else (case findPostablePeriod (e_institutionId env) (e_now env) db of
          None \<Rightarrow> Inl (Http 400 (''No financial period covers today'' @ CHR 0x27 # ''s date''))
        | Some period \<Rightarrow>
            if fp_status period \<noteq> FP_OPEN
            then Inl (Http 400 (''The financial period covering today is '' @ showPeriodStatus (fp_status period) @ '', not open''))
            else (case (accountById (the (ids p)) db, accountById (the (ids q)) db) of
                (Some a, Some b) \<Rightarrow> Inr (a, b)
              | _ \<Rightarrow> Inl Thrown)))"

lemma postingAccounts_Inr:
  assumes "postingAccounts env ms p q m db = Inr (a, b)"
  obtains i k where "accountById i db = Some a" and "accountById k db = Some b"
    and "accountIdByPurpose (e_institutionId env) ms p = Some i"
    and "accountIdByPurpose (e_institutionId env) ms q = Some k"
    and "\<exists>fp. findPostablePeriod (e_institutionId env) (e_now env) db = Some fp \<and> fp_status fp = FP_OPEN"
  using assms by (auto simp: postingAccounts_def Let_def truthy_def split: option.splits if_splits)

end
