(* ===== verification/GL_Books.thy ===== *)
theory GL_Books
  imports GL_Routes
begin

text \<open>
  The books are kept: an invariant of the database that ties the stored balance of every account to
  the posted journals, and the lemma that posting a journal preserves it. The modules that move
  money build on it.
\<close>

definition lineEffect :: "glCategory \<Rightarrow> journalLine \<Rightarrow> int" where
  "lineEffect c l = (if isDebitNormal c then jl_debit l - jl_credit l else jl_credit l - jl_debit l)"

definition postedLines :: "'a gl_db_scheme \<Rightarrow> journalLine list" where
  "postedLines db = concat (map jo_lines (filter (\<lambda>j. jo_status j = J_POSTED) (db_journals db)))"

definition accountEffect :: "journalLine list \<Rightarrow> glAccount \<Rightarrow> int" where
  "accountEffect ls a = (\<Sum>l\<leftarrow>filter (\<lambda>l. jl_accountId l = ga_id a) ls. lineEffect (ga_category a) l)"

definition balancedLines :: "journalLine list \<Rightarrow> bool" where
  "balancedLines ls \<longleftrightarrow> (\<Sum>l\<leftarrow>ls. jl_debit l) = (\<Sum>l\<leftarrow>ls. jl_credit l)"

definition books_ok :: "'a gl_db_scheme \<Rightarrow> bool" where
  "books_ok db \<longleftrightarrow> uniqueBy ga_id (db_glAccounts db)
     \<and> (\<forall>a \<in> set (db_glAccounts db). ga_balance a = accountEffect (postedLines db) a)
     \<and> (\<forall>j \<in> set (db_journals db). jo_status j = J_POSTED \<longrightarrow> balancedLines (jo_lines j))
     \<and> (\<forall>j \<in> set (db_journals db). \<forall>l \<in> set (jo_lines j). jl_accountId l \<in> ga_id ` set (db_glAccounts db))"

text \<open>The tables the invariant reads.\<close>

lemma books_cong:
  "db_glAccounts db' = db_glAccounts db \<Longrightarrow> db_journals db' = db_journals db \<Longrightarrow> books_ok db' = books_ok db"
  by (simp add: books_ok_def postedLines_def)

lemma audit_gl [simp]:
  "db_glAccounts (audit env a r i db) = db_glAccounts db"
  "db_journals (audit env a r i db) = db_journals db"
  "db_periods (audit env a r i db) = db_periods db"
  "books_ok (audit env a r i db) = books_ok db"
  by (simp_all add: audit_def books_ok_def postedLines_def)

lemma requestApproval_gl [simp]:
  "db_glAccounts (requestApproval env ty tt ti p r db) = db_glAccounts db"
  "db_journals (requestApproval env ty tt ti p r db) = db_journals db"
  "db_periods (requestApproval env ty tt ti p r db) = db_periods db"
  "books_ok (requestApproval env ty tt ti p r db) = books_ok db"
  by (simp_all add: requestApproval_def books_ok_def postedLines_def)

text \<open>The stored balances add up: debit-normal accounts against credit-normal ones.\<close>

definition signedBalance :: "glAccount \<Rightarrow> int" where
  "signedBalance a = (if isDebitNormal (ga_category a) then ga_balance a else - ga_balance a)"

lemma sum_accounts_lines:
  assumes "distinct (map ga_id as)" and "\<And>l. l \<in> set ls \<Longrightarrow> jl_accountId l \<in> ga_id ` set as"
  shows "(\<Sum>a\<leftarrow>as. \<Sum>l\<leftarrow>filter (\<lambda>l. jl_accountId l = ga_id a) ls. f l) = (\<Sum>l\<leftarrow>ls. f l :: int)"
  using assms(2)
proof (induction ls)
  case Nil
  then show ?case by (induction as) auto
next
  case (Cons l ls)
  have one: "(\<Sum>a\<leftarrow>as. if jl_accountId l = ga_id a then f l else 0) = f l"
    using assms(1) Cons.prems [of l]
  proof (induction as)
    case Nil
    then show ?case by simp
  next
    case (Cons a as)
    show ?case
    proof (cases "jl_accountId l = ga_id a")
      case True
      then have "\<And>b. b \<in> set as \<Longrightarrow> jl_accountId l \<noteq> ga_id b" using Cons.prems(1) by (auto simp: image_iff)
      then have "(\<Sum>a\<leftarrow>as. if jl_accountId l = ga_id a then f l else 0) = (\<Sum>a\<leftarrow>as. 0)"
        by (intro arg_cong [of _ _ sum_list] map_cong) auto
      then show ?thesis using True by simp
    next
      case False
      then show ?thesis using Cons by auto
    qed
  qed
  have "(\<Sum>a\<leftarrow>as. \<Sum>k\<leftarrow>filter (\<lambda>k. jl_accountId k = ga_id a) (l # ls). f k)
      = (\<Sum>a\<leftarrow>as. (if jl_accountId l = ga_id a then f l else 0) + (\<Sum>k\<leftarrow>filter (\<lambda>k. jl_accountId k = ga_id a) ls. f k))"
    by (intro arg_cong [of _ _ sum_list] map_cong) auto
  also have "\<dots> = f l + (\<Sum>k\<leftarrow>ls. f k)" using one Cons by (simp add: sum_list_addf)
  finally show ?case by simp
qed

lemma balanced_concat:
  "(\<And>ls. ls \<in> set lss \<Longrightarrow> balancedLines ls) \<Longrightarrow> balancedLines (concat lss)"
  by (induction lss) (auto simp: balancedLines_def)

lemma books_add_up:
  assumes "books_ok db"
  shows "(\<Sum>a\<leftarrow>db_glAccounts db. signedBalance a) = 0"
proof -
  have "signedBalance a = (\<Sum>l\<leftarrow>filter (\<lambda>l. jl_accountId l = ga_id a) (postedLines db). jl_debit l - jl_credit l)"
    if "a \<in> set (db_glAccounts db)" for a
  proof -
    have "ga_balance a = accountEffect (postedLines db) a" using assms that by (simp add: books_ok_def)
    then show ?thesis
      by (simp add: signedBalance_def accountEffect_def lineEffect_def sum_list_subtractf)
  qed
  then have "(\<Sum>a\<leftarrow>db_glAccounts db. signedBalance a)
      = (\<Sum>a\<leftarrow>db_glAccounts db. \<Sum>l\<leftarrow>filter (\<lambda>l. jl_accountId l = ga_id a) (postedLines db). jl_debit l - jl_credit l)"
    by (intro arg_cong [of _ _ sum_list] map_cong) auto
  also have "\<dots> = (\<Sum>l\<leftarrow>postedLines db. jl_debit l - jl_credit l)"
    using assms by (intro sum_accounts_lines) (auto simp: books_ok_def uniqueBy_def postedLines_def)
  also have "balancedLines (postedLines db)"
    unfolding postedLines_def using assms by (intro balanced_concat) (auto simp: books_ok_def)
  then have "(\<Sum>l\<leftarrow>postedLines db. jl_debit l - jl_credit l) = 0"
    by (simp add: balancedLines_def sum_list_subtractf)
  finally show ?thesis .
qed

section \<open>Posting keeps the books\<close>

text \<open>Amounts of at most two decimals, the ones a money column stores exactly.\<close>

definition centsEntry :: "entry \<Rightarrow> bool" where
  "centsEntry l \<longleftrightarrow> en_debit l = cents (toDec2 (en_debit l)) \<and> en_credit l = cents (toDec2 (en_credit l))
     \<and> \<bar>toDec2 (en_debit l)\<bar> \<le> 10 ^ 13 \<and> \<bar>toDec2 (en_credit l)\<bar> \<le> 10 ^ 13"

lemma centsEntryI:
  "en_debit l = cents d \<Longrightarrow> en_credit l = cents c \<Longrightarrow> \<bar>d\<bar> \<le> 10 ^ 13 \<Longrightarrow> \<bar>c\<bar> \<le> 10 ^ 13 \<Longrightarrow> centsEntry l"
  by (simp add: centsEntry_def)

definition goodLines :: "'a gl_db_scheme \<Rightarrow> (glCategory \<times> entry) list \<Rightarrow> bool" where
  "goodLines db cls \<longleftrightarrow> (\<forall>(c, l) \<in> set cls. centsEntry l
     \<and> (\<exists>a. accountById (en_accountId l) db = Some a \<and> ga_category a = c))"

lemma effect_exact:
  assumes "centsEntry l"
  shows "decAdd b (balanceEffect c (en_debit l) (en_credit l)) = b + lineEffect c (lineRow l)"
proof -
  define d e where "d = toDec2 (en_debit l)" and "e = toDec2 (en_credit l)"
  have dl: "en_debit l = cents d" "en_credit l = cents e" "\<bar>d\<bar> \<le> 10 ^ 13" "\<bar>e\<bar> \<le> 10 ^ 13"
    using assms by (simp_all add: centsEntry_def d_def e_def)
  have "round2 (nsub (cents d) (cents e)) = cents (d - e)" "round2 (nsub (cents e) (cents d)) = cents (e - d)"
    using dl(3,4) by (intro round2_sub; simp)+
  moreover have "dec14 (d - e)" "dec14 (e - d)" using dl(3,4) by auto
  ultimately show ?thesis
    using dl by (simp add: balanceEffect_def lineEffect_def lineRow_def d_def [symmetric] e_def [symmetric])
qed

definition addEffects :: "(glCategory \<times> entry) list \<Rightarrow> glAccount \<Rightarrow> glAccount" where
  "addEffects cls a = a\<lparr>ga_balance := ga_balance a + accountEffect (map (lineRow \<circ> snd) cls) a\<rparr>"

lemma addEffects_sel [simp]:
  "ga_id (addEffects cls a) = ga_id a" "ga_category (addEffects cls a) = ga_category a"
  "ga_status (addEffects cls a) = ga_status a"
  by (simp_all add: addEffects_def)

lemma lineRow_account [simp]: "jl_accountId (lineRow l) = en_accountId l"
  by (simp add: lineRow_def)

lemma find_map: "(\<And>x. P (f x) = P x) \<Longrightarrow> find P (map f xs) = map_option f (find P xs)"
  by (induction xs) auto

lemma foldE_postLine:
  assumes "uniqueBy ga_id (db_glAccounts db)" and "goodLines db cls"
  shows "foldE postLine cls db = Inr (db\<lparr>db_glAccounts := map (addEffects cls) (db_glAccounts db)\<rparr>)"
  using assms
proof (induction cls arbitrary: db)
  case Nil
  then show ?case by (simp add: addEffects_def accountEffect_def)
next
  case (Cons cl cls)
  obtain c l where cl: "cl = (c, l)" by fastforce
  obtain a where a: "accountById (en_accountId l) db = Some a" "ga_category a = c" and l: "centsEntry l"
    using Cons.prems(2) by (auto simp: goodLines_def cl)
  then have mem: "a \<in> set (db_glAccounts db)" "ga_id a = en_accountId l"
    using find_SomeD [of _ "db_glAccounts db"] by (auto simp: accountById_def)
  have cat: "ga_category b = c" if "b \<in> set (db_glAccounts db)" "ga_id b = en_accountId l" for b
    using uniqueBy_eq [OF Cons.prems(1) that(1) mem(1)] that(2) mem(2) a(2) by simp
  define db1 where "db1 = db\<lparr>db_glAccounts := map (addEffects [cl]) (db_glAccounts db)\<rparr>"
  have step: "postLine cl db = Inr db1"
    using a(1) cat l
    by (auto simp: postLine_def cl db1_def updWhere_def addEffects_def accountEffect_def effect_exact)
  have "uniqueBy ga_id (db_glAccounts db1)"
    using Cons.prems(1) by (simp add: db1_def uniqueBy_def o_def)
  moreover have "goodLines db1 cls"
    using Cons.prems(2)
    by (fastforce simp: goodLines_def db1_def accountById_def cl find_map)
  ultimately have "foldE postLine cls db1 = Inr (db1\<lparr>db_glAccounts := map (addEffects cls) (db_glAccounts db1)\<rparr>)"
    by (rule Cons.IH)
  moreover have "addEffects cls (addEffects [cl] b) = addEffects (cl # cls) b" for b
    by (simp add: addEffects_def accountEffect_def)
  ultimately show ?case using step by (simp add: db1_def o_def)
qed

lemma goodLines_cong:
  "db_glAccounts db' = db_glAccounts db \<Longrightarrow> goodLines db' cls = goodLines db cls"
  by (simp add: goodLines_def accountById_def)

text \<open>What a successful posting leaves: the journal at the end of the table, the balances moved.\<close>

lemma postJournal_result:
  assumes "uniqueBy ga_id (db_glAccounts db)" and "goodLines db cls"
    and "postJournal env inst ty descr date pb cb cls db = Inr (j, db')"
  shows "jo_lines j = map (lineRow \<circ> snd) cls \<and> jo_status j = J_POSTED \<and> jo_institutionId j = inst
    \<and> db' = db\<lparr>db_next := Suc (db_next db), db_journals := db_journals db @ [j],
                db_glAccounts := map (addEffects cls) (db_glAccounts db)\<rparr>"
proof -
  obtain db1 where c: "createJournal env inst ty descr J_POSTED date (Some pb) cb (map snd cls) db = Inr (j, db1)"
    and f: "foldE postLine cls db1 = Inr db'"
    using assms(3) by (auto simp: postJournal_def bindE_Inr_iff)
  then have db1: "db1 = db\<lparr>db_next := Suc (db_next db), db_journals := db_journals db @ [j]\<rparr>"
    and j: "jo_lines j = map (lineRow \<circ> snd) cls \<and> jo_status j = J_POSTED \<and> jo_institutionId j = inst"
    by (auto simp: createJournal_def Let_def split: if_splits)
  have "foldE postLine cls db1 = Inr (db1\<lparr>db_glAccounts := map (addEffects cls) (db_glAccounts db1)\<rparr>)"
    using assms(1,2) goodLines_cong [of db1 db] by (intro foldE_postLine) (simp_all add: db1)
  then show ?thesis using f db1 j by simp
qed

lemma accountEffect_append: "accountEffect (ls @ ms) a = accountEffect ls a + accountEffect ms a"
  by (simp add: accountEffect_def)

lemma addEffects_account: "accountEffect ls (addEffects cls a) = accountEffect ls a"
  by (simp add: accountEffect_def)

lemma postJournal_books:
  assumes ok: "books_ok db" and good: "goodLines db cls" and bal: "balancedLines (map (lineRow \<circ> snd) cls)"
    and post: "postJournal env inst ty descr date pb cb cls db = Inr (j, db')"
  shows "books_ok db'"
proof -
  have u: "uniqueBy ga_id (db_glAccounts db)" using ok by (simp add: books_ok_def)
  note R = postJournal_result [OF u good post]
  have ids: "ga_id ` set (db_glAccounts db') = ga_id ` set (db_glAccounts db)"
    using R by (auto simp: image_image)
  have "postedLines db' = postedLines db @ map (lineRow \<circ> snd) cls"
    using R by (simp add: postedLines_def)
  then have "ga_balance a = accountEffect (postedLines db') a" if "a \<in> set (db_glAccounts db')" for a
    using that R ok
    by (auto simp: books_ok_def accountEffect_append addEffects_account) (simp add: addEffects_def)
  moreover have "uniqueBy ga_id (db_glAccounts db')" using u R by (simp add: uniqueBy_def o_def)
  moreover have "balancedLines (jo_lines k)" if "k \<in> set (db_journals db')" "jo_status k = J_POSTED" for k
    using that R ok bal by (auto simp: books_ok_def)
  moreover have "jl_accountId l \<in> ga_id ` set (db_glAccounts db')" if k: "k \<in> set (db_journals db')" and l: "l \<in> set (jo_lines k)" for k l
  proof (cases "k = j")
    case True
    then obtain c e where e: "(c, e) \<in> set cls" "l = lineRow e" using l R by auto
    then obtain a where "accountById (en_accountId e) db = Some a" using good by (auto simp: goodLines_def)
    then have "a \<in> set (db_glAccounts db)" "ga_id a = en_accountId e"
      using find_SomeD [of _ "db_glAccounts db"] by (auto simp: accountById_def)
    then show ?thesis using e(2) ids by force
  next
    case False
    then have "k \<in> set (db_journals db)" using k R by auto
    then show ?thesis using l ok ids by (auto simp: books_ok_def)
  qed
  ultimately show ?thesis by (auto simp: books_ok_def)
qed

text \<open>The two lines of a movement of money between two accounts.\<close>

definition transferLines :: "glAccount \<Rightarrow> glAccount \<Rightarrow> num \<Rightarrow> (glCategory \<times> entry) list" where
  "transferLines a b amount =
     [(ga_category a, entry (ga_id a) amount 0), (ga_category b, entry (ga_id b) 0 amount)]"

lemma transferLines_balanced: "balancedLines (map (lineRow \<circ> snd) (transferLines a b amount))"
  by (simp add: balancedLines_def transferLines_def lineRow_def)

lemma accountById_id: "accountById i db = Some a \<Longrightarrow> ga_id a = i \<and> a \<in> set (db_glAccounts db)"
  by (auto simp: accountById_def dest!: find_SomeD)

lemma transferLines_good:
  assumes "accountById i db = Some a" and "accountById k db = Some b" and "amount = cents n" and "\<bar>n\<bar> \<le> 10 ^ 13"
  shows "goodLines db (transferLines a b amount)"
proof -
  have "centsEntry (entry x amount 0)" "centsEntry (entry x 0 amount)" for x
    using assms(3,4) by (auto intro: centsEntryI [of _ n 0] centsEntryI [of _ 0 n])
  then show ?thesis
    using assms(1,2) accountById_id [OF assms(1)] accountById_id [OF assms(2)]
    by (auto simp: goodLines_def transferLines_def)
qed

lemma balanced_transfer:
  assumes "amount = cents n" and "\<bar>n\<bar> \<le> 10 ^ 13"
  shows "isBalanced (map snd (transferLines a b amount)) \<longleftrightarrow> 0 < n"
  using isBalanced_cents [of "map snd (transferLines a b amount)" "[n, 0]" "[0, n]"] assms
  by (simp add: transferLines_def smallSum_def)

section \<open>A sample ledger\<close>

text \<open>An institution with a cash, a bank and a deposits account and one open period.\<close>

definition sampleEnv :: env where
  "sampleEnv = \<lparr>e_now = 1700000000000, e_userId = ''u1'', e_institutionId = ''i1'',
     e_uuid = (\<lambda>n. replicate n CHR ''x''), e_rand = (\<lambda>_. 0), e_parseDate = (\<lambda>_. Some 1700000000000)\<rparr>"

definition sampleAccount :: "string \<Rightarrow> glCategory \<Rightarrow> glAccount" where
  "sampleAccount i c = \<lparr>ga_id = i, ga_institutionId = ''i1'', ga_code = i, ga_name = i, ga_category = c,
     ga_parentId = None, ga_branchId = None, ga_status = GA_ACTIVE, ga_balance = 0, ga_cashFlowActivity = None,
     ga_isLiquidAsset = False, ga_isVolatileLiability = False, ga_capitalTier = None, ga_baselRiskWeightPercent = None\<rparr>"

definition samplePeriod :: "periodStatus \<Rightarrow> financialPeriod" where
  "samplePeriod st = \<lparr>fp_id = ''p1'', fp_institutionId = ''i1'', fp_fiscalYearId = ''y1'', fp_name = ''2023'',
     fp_startDate = 1600000000000, fp_endDate = 1800000000000, fp_status = st, fp_closedById = None,
     fp_closedAt = None, fp_reopenedById = None, fp_reopenedAt = None, fp_lockedById = None, fp_lockedAt = None\<rparr>"

definition sampleLedgerDb :: "'a \<Rightarrow> 'a gl_db_scheme" where
  "sampleLedgerDb rest = \<lparr>db_next = 0, db_audit = [], db_approvals = [],
     db_glAccounts = [sampleAccount ''cash'' ASSET, sampleAccount ''bank'' ASSET, sampleAccount ''dep'' LIABILITY],
     db_journals = [], db_fiscalYears = [], db_periods = [samplePeriod FP_OPEN], db_recurring = [], \<dots> = rest\<rparr>"

lemmas sample_defs = sampleEnv_def sampleAccount_def samplePeriod_def sampleLedgerDb_def

lemma sample_books: "books_ok (sampleLedgerDb rest)"
  by (simp add: books_ok_def sample_defs uniqueBy_def postedLines_def accountEffect_def)

end
