(* ===== verification/GL_System.thy ===== *)
theory GL_System
  imports GL_Books
begin

text \<open>
  The ledger module as a state machine: every request of \<open>generalLedger.routes.ts\<close> that writes is a
  step, and the invariants of the chart of accounts, the journals and the financial periods hold in
  every state it can reach.
\<close>

section \<open>Identifiers and books\<close>

text \<open>
  Rows are named by the identifiers drawn so far. With distinct identifiers a new row is new, so the
  books survive the creation of accounts and journals.
\<close>

definition gl_inv :: "(nat \<Rightarrow> string) \<Rightarrow> 'a gl_db_scheme \<Rightarrow> bool" where
  "gl_inv uuid db \<longleftrightarrow> books_ok db \<and> named uuid (db_next db) ga_id (db_glAccounts db)
     \<and> named uuid (db_next db) jo_id (db_journals db)"

lemma gl_inv_frame:
  assumes "gl_inv uuid db" and "db_glAccounts db' = db_glAccounts db" and "db_journals db' = db_journals db"
    and "db_next db \<le> db_next db'"
  shows "gl_inv uuid db'"
  using assms books_cong [of db' db] by (auto simp: gl_inv_def intro: named_mono)

text \<open>Changing what the books do not look at: any column of an account but its key, category and balance.\<close>

lemma gl_inv_accounts:
  assumes "gl_inv uuid db" and "db_journals db' = db_journals db" and "db_next db \<le> db_next db'"
    and acc: "db_glAccounts db' = map f (db_glAccounts db)"
    and f: "\<And>a. ga_id (f a) = ga_id a \<and> ga_category (f a) = ga_category a \<and> ga_balance (f a) = ga_balance a"
  shows "gl_inv uuid db'"
proof -
  have eff: "accountEffect ls (f a) = accountEffect ls a" for ls a using f [of a] by (simp add: accountEffect_def)
  have "postedLines db' = postedLines db" using assms(2) by (simp add: postedLines_def)
  then have "books_ok db'"
    using assms(1,2) acc f eff by (auto simp: gl_inv_def books_ok_def uniqueBy_def o_def image_image)
  then show ?thesis
    using assms(1-3) acc named_map [of ga_id f] f by (auto simp: gl_inv_def intro: named_mono)
qed

text \<open>Changing the status of journals among those that are not posted.\<close>

lemma books_journals:
  assumes "books_ok db" and "db_glAccounts db' = db_glAccounts db" and jou: "db_journals db' = updWhere P f (db_journals db)"
    and f: "\<And>j. jo_lines (f j) = jo_lines j \<and> jo_status (f j) \<noteq> J_POSTED"
    and P: "\<And>j. j \<in> set (db_journals db) \<Longrightarrow> P j \<Longrightarrow> jo_status j \<noteq> J_POSTED"
  shows "books_ok db'"
proof -
  have "concat (map jo_lines (filter (\<lambda>j. jo_status j = J_POSTED) (updWhere P f js)))
      = concat (map jo_lines (filter (\<lambda>j. jo_status j = J_POSTED) js))"
    if "\<And>j. j \<in> set js \<Longrightarrow> P j \<Longrightarrow> jo_status j \<noteq> J_POSTED" for js
    using that f by (induction js) auto
  then have "postedLines db' = postedLines db" using jou P by (simp add: postedLines_def)
  then show ?thesis using assms(1,2) jou f unfolding books_ok_def set_updWhere by (auto simp: set_updWhere)
qed

lemma gl_inv_journals:
  assumes "gl_inv uuid db" and "db_glAccounts db' = db_glAccounts db" and "db_next db \<le> db_next db'"
    and jou: "db_journals db' = updWhere P f (db_journals db)"
    and f: "\<And>j. jo_id (f j) = jo_id j \<and> jo_lines (f j) = jo_lines j \<and> jo_status (f j) \<noteq> J_POSTED"
    and P: "\<And>j. j \<in> set (db_journals db) \<Longrightarrow> P j \<Longrightarrow> jo_status j \<noteq> J_POSTED"
  shows "gl_inv uuid db'"
proof -
  have "books_ok db'" using assms(1) f P by (intro books_journals [OF _ assms(2) jou]) (auto simp: gl_inv_def)
  then show ?thesis
    using assms(1-3) jou named_updWhere [of jo_id f] f by (auto simp: gl_inv_def intro: named_mono)
qed

lemma createJournal_result:
  assumes "createJournal env inst ty descr st date pb cb ls db = Inr (j, db')"
  shows "jo_id j = newId env db \<and> jo_status j = st \<and> jo_lines j = map lineRow ls
    \<and> db' = db\<lparr>db_next := Suc (db_next db), db_journals := db_journals db @ [j]\<rparr>
    \<and> list_all (\<lambda>l. accountById (en_accountId l) db \<noteq> None) ls"
  using assms by (auto simp: createJournal_def Let_def list_ex_iff list_all_iff split: if_splits)

lemma gl_inv_draft:
  assumes "gl_inv uuid db" and "inj uuid" and "e_uuid env = uuid" and "st \<noteq> J_POSTED"
    and "createJournal env inst ty descr st date pb cb ls db = Inr (j, db')"
  shows "gl_inv uuid db'"
proof -
  note R = createJournal_result [OF assms(5)]
  have fk: "en_accountId l \<in> ga_id ` set (db_glAccounts db)" if l: "l \<in> set ls" for l
  proof -
    obtain a where "accountById (en_accountId l) db = Some a" using R l by (auto simp: list_all_iff)
    then show ?thesis using accountById_id by (metis imageI)
  qed
  have "postedLines db' = postedLines db" using R assms(4) by (simp add: postedLines_def)
  then have "books_ok db'"
    using assms(1,4) R fk by (auto simp: gl_inv_def books_ok_def)
  then show ?thesis
    using assms(1-3) R named_snoc [OF assms(2), of "db_next db" jo_id "db_journals db" j]
    by (auto simp: gl_inv_def newId_def intro: named_mono)
qed

lemma gl_inv_post:
  assumes "gl_inv uuid db" and "inj uuid" and "e_uuid env = uuid"
    and "goodLines db cls" and "balancedLines (map (lineRow \<circ> snd) cls)"
    and "postJournal env inst ty descr date pb cb cls db = Inr (j, db')"
  shows "gl_inv uuid db'"
proof -
  have books: "books_ok db" using assms(1) by (simp add: gl_inv_def)
  then have "uniqueBy ga_id (db_glAccounts db)" by (simp add: books_ok_def)
  note R = postJournal_result [OF this assms(4,6)]
  have "jo_id j = uuid (db_next db)"
    using assms(3,6) by (auto simp: postJournal_def bindE_Inr_iff newId_def dest!: createJournal_result)
  then show ?thesis
    using postJournal_books [OF books assms(4-6)] assms(1) R
      named_snoc [OF assms(2), of "db_next db" jo_id "db_journals db" j]
      named_map [of ga_id "addEffects cls"]
    by (auto simp: gl_inv_def intro: named_mono)
qed

lemma gl_inv_account:
  assumes "gl_inv uuid db" and "inj uuid" and "ga_id a = uuid (db_next db)" and "ga_balance a = 0"
    and "db_next db' = Suc (db_next db)" and "db_journals db' = db_journals db"
    and "db_glAccounts db' = db_glAccounts db @ [a]"
  shows "gl_inv uuid db'"
proof -
  have new: "ga_id a \<notin> ga_id ` set (db_glAccounts db)"
    using assms(1,3) named_fresh [OF assms(2), of "db_next db" ga_id "db_glAccounts db"] by (simp add: gl_inv_def)
  have fk: "jl_accountId l \<in> ga_id ` set (db_glAccounts db)" if "l \<in> set (postedLines db)" for l
    using assms(1) that by (auto simp: gl_inv_def books_ok_def postedLines_def)
  have none: "jl_accountId l \<noteq> ga_id a" if "l \<in> set (postedLines db)" for l
    using fk [OF that] new by metis
  then have "accountEffect (postedLines db) a = 0"
    using filter_False [of "postedLines db" "\<lambda>l. jl_accountId l = ga_id a"] by (simp add: accountEffect_def)
  moreover have "postedLines db' = postedLines db" using assms(6) by (simp add: postedLines_def)
  moreover have n: "named uuid (db_next db') ga_id (db_glAccounts db')"
    using assms named_snoc [OF assms(2), of "db_next db" ga_id "db_glAccounts db" a] by (simp add: gl_inv_def)
  ultimately have "books_ok db'"
    using assms(1,4,6,7) by (auto simp: gl_inv_def books_ok_def named_def)
  then show ?thesis using assms(1,5,6) n by (auto simp: gl_inv_def intro: named_mono)
qed

section \<open>The module as a state machine\<close>

text \<open>
  One step is one request that may write, by any user of any institution, at any time. The
  identifiers of all requests come from one source.
\<close>

inductive gl_step :: "(nat \<Rightarrow> string) \<Rightarrow> gl_db \<Rightarrow> gl_db \<Rightarrow> bool" for uuid where
  Create_Account: "e_uuid env = uuid \<Longrightarrow> gl_step uuid db (snd (createAccount env body db))"
| Account_Status: "gl_step uuid db (snd (setAccountStatus env i st db))"
| Classify: "gl_step uuid db (snd (classifyAccount env i cb db))"
| Create_Journal: "e_uuid env = uuid \<Longrightarrow> gl_step uuid db (snd (createManualJournal env jb db))"
| Request_Posting: "gl_step uuid db (snd (requestPosting env i db))"
| Create_Fiscal_Year: "gl_step uuid db (snd (createFiscalYear env fb db))"
| Create_Period: "e_uuid env = uuid \<Longrightarrow> gl_step uuid db (snd (createPeriod env pb db))"
| Close_Period: "gl_step uuid db (snd (closePeriod env i db))"
| Request_Reopen: "gl_step uuid db (snd (requestReopen env i reason db))"
| Lock_Period: "gl_step uuid db (snd (lockPeriod env i db))"
| Create_Recurring: "gl_step uuid db (snd (createRecurring env rb db))"
| Request_Activation: "gl_step uuid db (snd (requestActivation env i db))"
| Suspend_Recurring: "gl_step uuid db (snd (suspendRecurring env i db))"
| Reactivate_Recurring: "gl_step uuid db (snd (reactivateRecurring env i db))"

inductive_cases gl_stepE: "gl_step uuid db db'"

subsection \<open>What each request does to the tables\<close>

lemmas gl_handlers = createAccount_def setAccountStatus_def classifyAccount_def requestPosting_def
  createFiscalYear_def createPeriod_def closePeriod_def requestReopen_def lockPeriod_def createRecurring_def
  requestActivation_def suspendRecurring_def reactivateRecurring_def createManualJournal_def

text \<open>The requests that leave accounts and journals alone.\<close>

lemma gl_frames:
  "db_glAccounts (snd (createFiscalYear env fb db)) = db_glAccounts db \<and> db_journals (snd (createFiscalYear env fb db)) = db_journals db
    \<and> db_next db \<le> db_next (snd (createFiscalYear env fb db)) \<and> db_periods (snd (createFiscalYear env fb db)) = db_periods db"
  "db_glAccounts (snd (createPeriod env pb db)) = db_glAccounts db \<and> db_journals (snd (createPeriod env pb db)) = db_journals db
    \<and> db_next db \<le> db_next (snd (createPeriod env pb db))"
  "db_glAccounts (snd (closePeriod env i db)) = db_glAccounts db \<and> db_journals (snd (closePeriod env i db)) = db_journals db
    \<and> db_next db \<le> db_next (snd (closePeriod env i db))"
  "db_glAccounts (snd (lockPeriod env i db)) = db_glAccounts db \<and> db_journals (snd (lockPeriod env i db)) = db_journals db
    \<and> db_next db \<le> db_next (snd (lockPeriod env i db))"
  "db_glAccounts (snd (requestReopen env i r db)) = db_glAccounts db \<and> db_journals (snd (requestReopen env i r db)) = db_journals db
    \<and> db_next db \<le> db_next (snd (requestReopen env i r db)) \<and> db_periods (snd (requestReopen env i r db)) = db_periods db"
  "db_glAccounts (snd (createRecurring env rb db)) = db_glAccounts db \<and> db_journals (snd (createRecurring env rb db)) = db_journals db
    \<and> db_next db \<le> db_next (snd (createRecurring env rb db)) \<and> db_periods (snd (createRecurring env rb db)) = db_periods db"
  "db_glAccounts (snd (requestActivation env i db)) = db_glAccounts db \<and> db_journals (snd (requestActivation env i db)) = db_journals db
    \<and> db_next db \<le> db_next (snd (requestActivation env i db)) \<and> db_periods (snd (requestActivation env i db)) = db_periods db"
  "db_glAccounts (snd (suspendRecurring env i db)) = db_glAccounts db \<and> db_journals (snd (suspendRecurring env i db)) = db_journals db
    \<and> db_next db \<le> db_next (snd (suspendRecurring env i db)) \<and> db_periods (snd (suspendRecurring env i db)) = db_periods db"
  "db_glAccounts (snd (reactivateRecurring env i db)) = db_glAccounts db \<and> db_journals (snd (reactivateRecurring env i db)) = db_journals db
    \<and> db_next db \<le> db_next (snd (reactivateRecurring env i db)) \<and> db_periods (snd (reactivateRecurring env i db)) = db_periods db"
  by (auto simp: gl_handlers updPeriod_def updRecurring_def audit_def requestApproval_def Let_def fail_def
      split: option.splits prod.splits)

text \<open>The requests on accounts and journals leave the periods alone.\<close>

lemma gl_period_frames:
  "db_periods (snd (createAccount env ab db)) = db_periods db"
  "db_periods (snd (setAccountStatus env i st db)) = db_periods db"
  "db_periods (snd (classifyAccount env i cb db)) = db_periods db"
  "db_periods (snd (requestPosting env i db)) = db_periods db"
  by (auto simp: gl_handlers Let_def fail_def requestApproval_def split: option.splits)

lemma createManualJournal_cases:
  assumes "createManualJournal env body db = (r, db')"
  obtains (refused) "\<not> okResp r" and "db' = db"
  | (created) b date p j db1 where "r = ROk 201 j" and "body = Some b" and "isBalanced (jb_lines b)"
      and "dateOr env (e_now env) (jb_postingDate b) = Some date"
      and "findPostablePeriod (e_institutionId env) date db = Some p" and "fp_status p = FP_OPEN"
      and "createJournal env (e_institutionId env) MANUAL (jb_description b) J_DRAFT date None (e_userId env)
             (jb_lines b) db = Inr (j, db1)"
      and "db' = audit env ''journal.create'' ''journal'' (jo_id j) db1"
  using assms unfolding createManualJournal_def
proof (cases rule: answer_cases)
  case (finished x)
  then show ?thesis using created by (auto simp: bindE_Inr_iff)
qed (rule refused)

lemma createManualJournal_periods: "db_periods (snd (createManualJournal env b db)) = db_periods db"
proof -
  have "db_periods db' = db_periods db" if "createManualJournal env b db = (r, db')" for r db'
    using that by (cases rule: createManualJournal_cases) (auto dest!: createJournal_result)
  then show ?thesis by (metis prod.collapse)
qed

lemma gl_step_next: "gl_step uuid db db' \<Longrightarrow> db_next db \<le> db_next db'"
proof (erule gl_stepE)
  fix env body assume "db' = snd (createManualJournal env body db)"
  then show "db_next db \<le> db_next db'"
    by (cases "createManualJournal env body db" rule: prod.exhaust)
      (auto elim!: createManualJournal_cases dest!: createJournal_result simp: audit_frame)
qed (auto simp: gl_frames createAccount_def setAccountStatus_def classifyAccount_def requestPosting_def fail_def
    requestApproval_def audit_def Let_def split: option.splits)

subsection \<open>The books are kept\<close>

lemma requestPosting_inv:
  assumes "gl_inv uuid db"
  shows "gl_inv uuid (snd (requestPosting env i db))"
proof (cases "\<exists>j. find (\<lambda>j. jo_id j = i \<and> jo_institutionId j = e_institutionId env) (db_journals db) = Some j \<and> jo_status j = J_DRAFT")
  case False
  then have "snd (requestPosting env i db) = db"
    by (auto simp: requestPosting_def fail_def split: option.splits)
  then show ?thesis using assms by simp
next
  case True
  then obtain j where j: "find (\<lambda>j. jo_id j = i \<and> jo_institutionId j = e_institutionId env) (db_journals db) = Some j"
    "jo_status j = J_DRAFT" by blast
  then have mem: "j \<in> set (db_journals db)" by (auto dest!: find_SomeD)
  have "uniqueBy jo_id (db_journals db)" using assms by (simp add: gl_inv_def named_def)
  then have draft: "jo_status k \<noteq> J_POSTED" if "k \<in> set (db_journals db)" "jo_id k = jo_id j" for k
    using uniqueBy_eq [OF _ that(1) mem that(2)] j(2) by simp
  show ?thesis
    by (rule gl_inv_journals [OF assms, where f = "\<lambda>k. k\<lparr>jo_status := J_PENDING_APPROVAL\<rparr>" and P = "\<lambda>k. jo_id k = jo_id j"])
      (use j draft in \<open>auto simp: requestPosting_def Let_def requestApproval_def\<close>)
qed

lemma gl_inv_updAccounts:
  assumes "gl_inv uuid db" and "db_glAccounts db' = updWhere P f (db_glAccounts db)"
    and "db_journals db' = db_journals db" and "db_next db \<le> db_next db'"
    and "\<And>a. ga_id (f a) = ga_id a \<and> ga_category (f a) = ga_category a \<and> ga_balance (f a) = ga_balance a"
  shows "gl_inv uuid db'"
  by (rule gl_inv_accounts [OF assms(1,3,4), of "\<lambda>a. if P a then f a else a"]) (use assms(2,5) in \<open>auto simp: updWhere_def\<close>)

lemma accountStatus_inv:
  assumes "gl_inv uuid db"
  shows "gl_inv uuid (snd (setAccountStatus env i st db))" and "gl_inv uuid (snd (classifyAccount env i cb db))"
proof -
  show "gl_inv uuid (snd (setAccountStatus env i st db))"
  proof (cases "snd (setAccountStatus env i st db) = db")
    case False
    then obtain s where R: "db_glAccounts (snd (setAccountStatus env i st db))
        = updWhere (\<lambda>a. ga_id a = i \<and> ga_institutionId a = e_institutionId env) (\<lambda>a. a\<lparr>ga_status := s\<rparr>) (db_glAccounts db)"
      "db_journals (snd (setAccountStatus env i st db)) = db_journals db"
      "db_next (snd (setAccountStatus env i st db)) = db_next db"
      by (auto simp: setAccountStatus_def fail_def Let_def audit_def split: option.splits if_splits)
    show ?thesis by (rule gl_inv_updAccounts [OF assms R(1,2)]) (simp_all add: R(3))
  qed (use assms in simp)
  show "gl_inv uuid (snd (classifyAccount env i cb db))"
  proof (cases "snd (classifyAccount env i cb db) = db")
    case False
    then obtain k where R: "db_glAccounts (snd (classifyAccount env i cb db))
        = updWhere (\<lambda>a. ga_id a = k) (classifyRow cb) (db_glAccounts db)"
      "db_journals (snd (classifyAccount env i cb db)) = db_journals db"
      "db_next (snd (classifyAccount env i cb db)) = db_next db"
      by (auto simp: classifyAccount_def fail_def split: option.splits)
    show ?thesis by (rule gl_inv_updAccounts [OF assms R(1,2)]) (simp_all add: R(3) classifyRow_def)
  qed (use assms in simp)
qed

lemma createAccount_result:
  obtains "snd (createAccount env body db) = db"
  | a where "ga_id a = e_uuid env (db_next db)" and "ga_balance a = 0"
    and "db_glAccounts (snd (createAccount env body db)) = db_glAccounts db @ [a]"
    and "db_next (snd (createAccount env body db)) = Suc (db_next db)"
    and "db_journals (snd (createAccount env body db)) = db_journals db"
proof -
  let ?d = "snd (createAccount env body db)"
  have "?d = db \<or> (\<exists>a. ga_id a = e_uuid env (db_next db) \<and> ga_balance a = 0 \<and> db_glAccounts ?d = db_glAccounts db @ [a]
      \<and> db_next ?d = Suc (db_next db) \<and> db_journals ?d = db_journals db)"
    by (auto simp: createAccount_def fail_def Let_def newId_def audit_def split: option.split)
  then show thesis using that by blast
qed

lemma createAccount_inv:
  assumes "gl_inv uuid db" and "inj uuid" and "e_uuid env = uuid"
  shows "gl_inv uuid (snd (createAccount env body db))"
proof (cases rule: createAccount_result [of env body db])
  case (2 a)
  then show ?thesis using gl_inv_account [OF assms(1,2), of a] assms(3) by simp
qed (use assms in simp)

lemma createManualJournal_inv:
  assumes "gl_inv uuid db" and "inj uuid" and "e_uuid env = uuid"
  shows "gl_inv uuid (snd (createManualJournal env body db))"
proof -
  have "gl_inv uuid db'" if "createManualJournal env body db = (r, db')" for r db'
    using that
  proof (cases rule: createManualJournal_cases)
    case (created b date p j db1)
    have "gl_inv uuid db1" by (rule gl_inv_draft [OF assms _ created(7)]) simp
    then show ?thesis using created(8) by (auto intro: gl_inv_frame simp: audit_frame)
  qed (use assms in auto)
  then show ?thesis by (metis prod.collapse)
qed

lemma gl_step_inv:
  assumes "gl_step uuid db db'" and "inj uuid" and "gl_inv uuid db"
  shows "gl_inv uuid db'"
  using assms(1)
  by (cases rule: gl_stepE)
    (use assms(2,3) in \<open>auto intro: createAccount_inv accountStatus_inv createManualJournal_inv requestPosting_inv
      gl_inv_frame simp: gl_frames\<close>)

subsection \<open>Financial periods\<close>

definition covers :: "financialPeriod \<Rightarrow> time \<Rightarrow> bool" where
  "covers p d \<longleftrightarrow> fp_startDate p \<le> d \<and> d \<le> fp_endDate p"

definition apart :: "financialPeriod \<Rightarrow> financialPeriod \<Rightarrow> bool" where
  "apart p q \<longleftrightarrow> fp_institutionId p = fp_institutionId q \<longrightarrow> (\<forall>d. \<not> (covers p d \<and> covers q d))"

definition periods_ok :: "'a gl_db_scheme \<Rightarrow> bool" where
  "periods_ok db \<longleftrightarrow> sorted_wrt apart (db_periods db)"

lemma sorted_wrt_map_same:
  "(\<And>x y. R (f x) (f y) = R x y) \<Longrightarrow> sorted_wrt R (map f xs) = sorted_wrt R xs"
  by (simp add: sorted_wrt_map)

lemma periods_ok_upd:
  assumes "\<And>p. fp_institutionId (f p) = fp_institutionId p \<and> fp_startDate (f p) = fp_startDate p \<and> fp_endDate (f p) = fp_endDate p"
  shows "sorted_wrt apart (updWhere P f ps) = sorted_wrt apart ps"
  unfolding updWhere_def using assms by (intro sorted_wrt_map_same) (auto simp: apart_def covers_def)

lemma closePeriod_periods:
  "periods_ok (snd (closePeriod env i db)) = periods_ok db" "periods_ok (snd (lockPeriod env i db)) = periods_ok db"
  by (auto simp: periods_ok_def closePeriod_def lockPeriod_def fail_def updPeriod_def periods_ok_upd split: option.split)

lemma createPeriod_periods:
  assumes "periods_ok db"
  shows "periods_ok (snd (createPeriod env body db))"
proof -
  have apart: "apart p \<lparr>fp_id = i, fp_institutionId = e_institutionId env, fp_fiscalYearId = y, fp_name = n,
      fp_startDate = sd, fp_endDate = ed, fp_status = st, fp_closedById = c1, fp_closedAt = c2,
      fp_reopenedById = c3, fp_reopenedAt = c4, fp_lockedById = c5, fp_lockedAt = c6\<rparr>"
    if "\<not> overlapping env sd ed p" for p i y n sd ed st c1 c2 c3 c4 c5 c6
    using that by (auto simp: apart_def overlapping_def covers_def)
  show ?thesis
    using assms apart
    by (auto simp: createPeriod_def periods_ok_def fail_def Let_def sorted_wrt_append find_None_iff split: option.splits)
qed

lemma periods_ok_frame: "periods_ok db \<Longrightarrow> db_periods db' = db_periods db \<Longrightarrow> periods_ok db'"
  by (simp add: periods_ok_def)

lemma gl_step_periods:
  assumes "gl_step uuid db db'" and "periods_ok db"
  shows "periods_ok db'"
  using assms(1)
  by (cases rule: gl_stepE)
    (use assms(2) in \<open>auto simp: closePeriod_periods gl_frames gl_period_frames createManualJournal_periods
      intro: createPeriod_periods periods_ok_frame [OF assms(2)]\<close>)

text \<open>A locked period is the end of the line for every request of this module.\<close>

lemma locked_updPeriod:
  assumes "p \<in> set (db_periods db)" and "fp_status p = FP_LOCKED"
    and "\<And>q. q \<in> set (db_periods db) \<Longrightarrow> fp_id q = i \<Longrightarrow> fp_status q \<noteq> FP_LOCKED"
  shows "p \<in> set (db_periods (updPeriod i f db))"
  using assms by (auto simp: updPeriod_def set_updWhere)

lemma gl_step_locked:
  assumes "gl_step uuid db db'" and "uniqueBy fp_id (db_periods db)"
    and "p \<in> set (db_periods db)" and "fp_status p = FP_LOCKED"
  shows "p \<in> set (db_periods db')"
proof -
  have same: "fp_status q \<noteq> FP_LOCKED" if "ownPeriod env i db = Some r" "fp_status r \<noteq> FP_LOCKED"
    "q \<in> set (db_periods db)" "fp_id q = fp_id r" for env i q r
    using that uniqueBy_eq [OF assms(2) that(3), of r] find_SomeD by (fastforce simp: ownPeriod_def)
  have "p \<in> set (db_periods (snd (closePeriod env i db)))" for env i
    using assms(3,4) same by (auto simp: closePeriod_def fail_def audit_def split: option.split intro!: locked_updPeriod)
  moreover have "p \<in> set (db_periods (snd (lockPeriod env i db)))" for env i
    using assms(3,4) same by (auto simp: lockPeriod_def fail_def audit_def split: option.split intro!: locked_updPeriod)
  moreover have "p \<in> set (db_periods (snd (createPeriod env b db)))" for env b
    using assms(3) by (auto simp: createPeriod_def fail_def Let_def split: option.split)
  ultimately show ?thesis using assms(1,3)
    by (cases rule: gl_stepE) (auto simp: gl_frames gl_period_frames createManualJournal_periods)
qed

lemma gl_step_names:
  assumes "gl_step uuid db db'" and "inj uuid" and "named uuid (db_next db) fp_id (db_periods db)"
  shows "named uuid (db_next db') fp_id (db_periods db')"
proof -
  have upd: "named uuid (db_next db) fp_id (db_periods (updPeriod i f db))"
    if "\<And>p. fp_id (f p) = fp_id p" for i f
    using that assms(3) named_updWhere [of fp_id f] by (simp add: updPeriod_def)
  have "named uuid (db_next (snd (closePeriod env i db))) fp_id (db_periods (snd (closePeriod env i db)))" for env i
    using assms(3) upd by (auto simp: closePeriod_def fail_def updPeriod_def audit_def split: option.split)
  moreover have "named uuid (db_next (snd (lockPeriod env i db))) fp_id (db_periods (snd (lockPeriod env i db)))" for env i
    using assms(3) upd by (auto simp: lockPeriod_def fail_def updPeriod_def audit_def split: option.split)
  moreover have "named uuid (db_next (snd (createPeriod env b db))) fp_id (db_periods (snd (createPeriod env b db)))"
    if "e_uuid env = uuid" for env b
    using assms(2,3) that
    by (auto simp: createPeriod_def fail_def Let_def newId_def audit_def split: option.split intro!: named_snoc)
  ultimately show ?thesis using assms(1,3) gl_step_next [OF assms(1)]
    by (cases rule: gl_stepE) (auto simp: gl_frames gl_period_frames createManualJournal_periods intro: named_mono)
qed

subsection \<open>Every reachable state\<close>

definition gl_safe :: "(nat \<Rightarrow> string) \<Rightarrow> 'a gl_db_scheme \<Rightarrow> bool" where
  "gl_safe uuid db \<longleftrightarrow> gl_inv uuid db \<and> periods_ok db \<and> named uuid (db_next db) fp_id (db_periods db)"

lemma gl_step_safe: "gl_step uuid db db' \<Longrightarrow> inj uuid \<Longrightarrow> gl_safe uuid db \<Longrightarrow> gl_safe uuid db'"
  using gl_step_inv gl_step_periods gl_step_names by (simp add: gl_safe_def)

lemma gl_reach_safe: "(gl_step uuid)\<^sup>*\<^sup>* db db' \<Longrightarrow> inj uuid \<Longrightarrow> gl_safe uuid db \<Longrightarrow> gl_safe uuid db'"
  by (induction rule: rtranclp_induct) (auto intro: gl_step_safe)

lemma gl_reach_locked:
  assumes "(gl_step uuid)\<^sup>*\<^sup>* db db'" and "inj uuid" and "gl_safe uuid db"
    and "p \<in> set (db_periods db)" and "fp_status p = FP_LOCKED"
  shows "p \<in> set (db_periods db')"
  using assms
proof (induction rule: rtranclp_induct)
  case (step y z)
  have "gl_safe uuid y" using gl_reach_safe step.hyps(1) step.prems(1,2) by blast
  then show ?case using gl_step_locked [OF step.hyps(2)] step by (simp add: gl_safe_def named_def)
qed simp

lemma one_period_per_date:
  assumes "periods_ok db" and "p \<in> set (db_periods db)" and "q \<in> set (db_periods db)"
    and "fp_institutionId p = fp_institutionId q" and "covers p d" and "covers q d"
  shows "p = q"
proof (rule ccontr)
  assume "p \<noteq> q"
  obtain m n where "m < length (db_periods db)" "n < length (db_periods db)" "db_periods db ! m = p" "db_periods db ! n = q"
    using assms(2,3) by (auto simp: in_set_conv_nth)
  moreover from this \<open>p \<noteq> q\<close> have "m < n \<or> n < m" by (metis nat_neq_iff)
  ultimately have "apart p q \<or> apart q p"
    using assms(1) by (auto simp: periods_ok_def sorted_wrt_iff_nth_less)
  then show False using assms(4-6) by (auto simp: apart_def)
qed


text \<open>
  Claim C21. The financial periods of an institution never overlap, so a date is covered by one
  period at most and the period that governs a posting is determined; and a locked period stays as
  it is: no sequence of requests to the module reopens or changes it.
\<close>

theorem ledger_periods_safe:
  assumes "inj uuid" and "gl_safe uuid db" and "(gl_step uuid)\<^sup>*\<^sup>* db db'"
  shows "(\<forall>p \<in> set (db_periods db'). \<forall>q \<in> set (db_periods db').
      fp_institutionId p = fp_institutionId q \<longrightarrow> covers p d \<longrightarrow> covers q d \<longrightarrow> p = q)
    \<and> (\<forall>p \<in> set (db_periods db). fp_status p = FP_LOCKED \<longrightarrow> p \<in> set (db_periods db'))"
  using gl_reach_safe [OF assms(3,1,2)] gl_reach_locked [OF assms(3,1,2)] one_period_per_date
  unfolding gl_safe_def by blast

text \<open>An institution that starts with nothing opens a fiscal year, a period and an account.\<close>

definition emptyLedger :: gl_db where
  "emptyLedger = \<lparr>db_next = 0, db_audit = [], db_approvals = [], db_glAccounts = [], db_journals = [],
     db_fiscalYears = [], db_periods = [], db_recurring = []\<rparr>"

lemma emptyLedger_safe: "gl_safe uuid emptyLedger"
  by (simp add: gl_safe_def gl_inv_def books_ok_def periods_ok_def named_def uniqueBy_def emptyLedger_def postedLines_def)

lemma replicate_inj: "inj (\<lambda>n. replicate n c)"
  by (rule injI) (metis length_replicate)

definition startedLedger :: gl_db where
  "startedLedger = snd (createAccount sampleEnv
      (Some \<lparr>ca_code = ''1000'', ca_name = ''Cash'', ca_category = ASSET, ca_parentId = None, ca_branchId = None\<rparr>)
     (snd (createPeriod sampleEnv
      (Some \<lparr>pb_fiscalYearId = [], pb_name = ''November'', pb_startDate = ''a'', pb_endDate = ''b''\<rparr>)
     (snd (createFiscalYear sampleEnv (Some (''2023'', ''a'', ''b'')) emptyLedger)))))"

lemma startedLedger_reach: "(gl_step (e_uuid sampleEnv))\<^sup>*\<^sup>* emptyLedger startedLedger"
  unfolding startedLedger_def
  by (meson Create_Account Create_Fiscal_Year Create_Period rtranclp.rtrancl_into_rtrancl rtranclp.rtrancl_refl)


definition lockedLedger :: gl_db where
  "lockedLedger = snd (lockPeriod sampleEnv ''x'' (snd (closePeriod sampleEnv ''x'' startedLedger)))"

lemma lockedLedger_reach:
  "(gl_step (e_uuid sampleEnv))\<^sup>*\<^sup>* emptyLedger lockedLedger"
  "(gl_step (e_uuid sampleEnv))\<^sup>*\<^sup>* lockedLedger (snd (closePeriod sampleEnv ''x'' lockedLedger))"
  using startedLedger_reach unfolding lockedLedger_def
  by (meson Close_Period Lock_Period rtranclp.rtrancl_into_rtrancl rtranclp.rtrancl_refl)+

lemma lockedLedger_periods: "\<exists>p. db_periods lockedLedger = [p] \<and> fp_status p = FP_LOCKED"
  by (simp add: lockedLedger_def lockPeriod_def closePeriod_def ownPeriod_def updPeriod_def startedLedger_def
      createAccount_def createPeriod_def createFiscalYear_def safeParse_def audit_def emptyLedger_def sampleEnv_def
      newId_def Let_def)

theorem ledger_periods_safe_witness:
  "hd (db_periods lockedLedger) \<in> set (db_periods (snd (closePeriod sampleEnv ''x'' lockedLedger)))"
proof -
  have inj: "inj (e_uuid sampleEnv)" using replicate_inj [of "CHR ''x''"] by (simp add: sampleEnv_def)
  show ?thesis
    using ledger_periods_safe [OF inj gl_reach_safe [OF lockedLedger_reach(1) inj emptyLedger_safe] lockedLedger_reach(2)]
      lockedLedger_periods by auto
qed

end
