(* ===== verification/Guarded_Balance.thy ===== *)
theory Guarded_Balance
  imports Server
begin

text \<open>
  The atomic balance updates that vaults and savings accounts share: a decrement guarded by
  \<open>{ balance: { gte: amount } }\<close> in the same statement, and an unguarded increment.
\<close>

definition guardedDecrement ::
  "('r \<Rightarrow> string) \<Rightarrow> ('r \<Rightarrow> int) \<Rightarrow> ((int \<Rightarrow> int) \<Rightarrow> 'r \<Rightarrow> 'r) \<Rightarrow> string \<Rightarrow> num \<Rightarrow> 'r list \<Rightarrow> 'r list option" where
  "guardedDecrement key bal upd i amount t =
     (let P = (\<lambda>r. key r = i \<and> decGe (bal r) amount) in
      if countWhere P t = 0 then None else Some (updWhere P (upd (\<lambda>b. decSub b amount)) t))"

definition increment ::
  "('r \<Rightarrow> string) \<Rightarrow> ((int \<Rightarrow> int) \<Rightarrow> 'r \<Rightarrow> 'r) \<Rightarrow> string \<Rightarrow> num \<Rightarrow> 'r list \<Rightarrow> 'r list option" where
  "increment key upd i amount t =
     (if find (\<lambda>r. key r = i) t = None then None
      else Some (updWhere (\<lambda>r. key r = i) (upd (\<lambda>b. decAdd b amount)) t))"

text \<open>A movement either way; a withdrawal is guarded.\<close>

definition moveBalance ::
  "('r \<Rightarrow> string) \<Rightarrow> ('r \<Rightarrow> int) \<Rightarrow> ((int \<Rightarrow> int) \<Rightarrow> 'r \<Rightarrow> 'r) \<Rightarrow> bool \<Rightarrow> string \<Rightarrow> num \<Rightarrow> 'r list \<Rightarrow> 'r list option" where
  "moveBalance key bal upd out i amount t =
     (if out then guardedDecrement key bal upd i amount t else increment key upd i amount t)"

lemma moveBalance_updWhere:
  "moveBalance key bal upd out i amount t = Some t' \<Longrightarrow> \<exists>P f. t' = updWhere P (upd f) t"
  by (auto simp: moveBalance_def guardedDecrement_def increment_def Let_def split: if_splits)

lemma updWhere_cong: "(\<And>r. r \<in> set t \<Longrightarrow> P r = Q r) \<Longrightarrow> updWhere P f t = updWhere Q f t"
  by (simp add: updWhere_def)

locale balance_table =
  fixes key :: "'r \<Rightarrow> string" and bal :: "'r \<Rightarrow> int" and upd :: "(int \<Rightarrow> int) \<Rightarrow> 'r \<Rightarrow> 'r"
  assumes key_upd [simp]: "key (upd f r) = key r"
    and bal_upd [simp]: "bal (upd f r) = f (bal r)"
begin

text \<open>A decrement succeeds exactly when the row exists with enough in it.\<close>

lemma decrement_iff:
  assumes "\<bar>n\<bar> \<le> 10 ^ 14"
  shows "(\<exists>t'. guardedDecrement key bal upd i (cents n) t = Some t') \<longleftrightarrow> (\<exists>r \<in> set t. key r = i \<and> n \<le> bal r)"
  using assms by (auto simp: guardedDecrement_def Let_def)

lemma decrement_nonneg:
  assumes "guardedDecrement key bal upd i (cents n) t = Some t'" and "\<bar>n\<bar> \<le> 10 ^ 14"
    and "\<And>r. r \<in> set t \<Longrightarrow> 0 \<le> bal r" and "r \<in> set t'"
  shows "0 \<le> bal r"
  using assms by (auto simp: guardedDecrement_def Let_def set_updWhere split: if_splits)

lemma decrement_row:
  assumes "guardedDecrement key bal upd i (cents n) t = Some t'" and "\<bar>n\<bar> \<le> 10 ^ 14" and "uniqueBy key t"
  obtains r where "r \<in> set t" and "key r = i" and "n \<le> bal r"
    and "find (\<lambda>r. key r = i) t' = Some (upd (\<lambda>b. decSub b (cents n)) r)"
    and "sum_list (map bal t') = sum_list (map bal t) - n"
    and "map key t' = map key t"
proof -
  obtain r where r: "r \<in> set t" "key r = i" "n \<le> bal r"
    using assms(1,2) decrement_iff [of n i t] by auto
  have only: "q = r" if "q \<in> set t" "key q = i" for q
    using uniqueBy_eq [OF assms(3) that(1) r(1)] that(2) r(2) by simp
  have t': "t' = updWhere (\<lambda>q. key q = key r) (upd (\<lambda>b. decSub b (cents n))) t"
  proof -
    have "t' = updWhere (\<lambda>q. key q = i \<and> decGe (bal q) (cents n)) (upd (\<lambda>b. decSub b (cents n))) t"
      using assms(1) by (simp add: guardedDecrement_def Let_def split: if_splits)
    also have "\<dots> = updWhere (\<lambda>q. key q = key r) (upd (\<lambda>b. decSub b (cents n))) t"
    proof (rule updWhere_cong)
      fix q assume "q \<in> set t"
      then show "(key q = i \<and> decGe (bal q) (cents n)) = (key q = key r)"
        using only [of q] r(2,3) decGe_cents [OF assms(2)] by metis
    qed
    finally show ?thesis .
  qed
  have "find (\<lambda>q. key q = key r) t' = Some (upd (\<lambda>b. decSub b (cents n)) r)"
    using find_uniqueBy [OF assms(3) r(1)] by (simp add: t' find_updWhere_same)
  moreover have "sum_list (map bal t') = sum_list (map bal t) - n"
    using sum_updWhere_unique [OF assms(3) r(1), of bal] assms(2) by (simp add: t')
  moreover have "map key t' = map key t" by (simp add: t' map_updWhere)
  ultimately show ?thesis using that r by simp
qed

lemma increment_row:
  assumes "increment key upd i (cents n) t = Some t'" and "\<bar>n\<bar> \<le> 10 ^ 14" and "uniqueBy key t"
  obtains r where "r \<in> set t" and "key r = i"
    and "find (\<lambda>r. key r = i) t' = Some (upd (\<lambda>b. decAdd b (cents n)) r)"
    and "sum_list (map bal t') = sum_list (map bal t) + n"
    and "map key t' = map key t"
proof -
  obtain r where r: "r \<in> set t" "key r = i"
    using assms(1) find_SomeD [of "\<lambda>r. key r = i" t] by (auto simp: increment_def split: if_splits)
  have t': "t' = updWhere (\<lambda>q. key q = key r) (upd (\<lambda>b. decAdd b (cents n))) t"
    using assms(1) r by (auto simp: increment_def split: if_splits)
  have "find (\<lambda>q. key q = key r) t' = Some (upd (\<lambda>b. decAdd b (cents n)) r)"
    using find_uniqueBy [OF assms(3) r(1)] by (simp add: t' find_updWhere_same)
  moreover have "sum_list (map bal t') = sum_list (map bal t) + n"
    using sum_updWhere_unique [OF assms(3) r(1), of bal] assms(2) by (simp add: t')
  moreover have "map key t' = map key t" by (simp add: t' map_updWhere)
  ultimately show ?thesis using that r by simp
qed

lemma increment_nonneg:
  assumes "increment key upd i (cents n) t = Some t'" and "0 \<le> n" and "n \<le> 10 ^ 14"
    and "\<And>r. r \<in> set t \<Longrightarrow> 0 \<le> bal r" and "r \<in> set t'"
  shows "0 \<le> bal r"
  using assms by (auto simp: increment_def set_updWhere split: if_splits)

lemma move_row:
  assumes "moveBalance key bal upd out i (cents n) t = Some t'" and "\<bar>n\<bar> \<le> 10 ^ 14" and "uniqueBy key t"
  obtains r f where "r \<in> set t" and "key r = i" and "find (\<lambda>r. key r = i) t' = Some (upd f r)"
    and "bal (upd f r) = bal r + (if out then - n else n)"
    and "sum_list (map bal t') = sum_list (map bal t) + (if out then - n else n)"
    and "map key t' = map key t"
proof (cases out)
  case True
  then have "guardedDecrement key bal upd i (cents n) t = Some t'" using assms(1) by (simp add: moveBalance_def)
  then show ?thesis
    by (rule decrement_row [OF _ assms(2,3)]) (use that True assms(2) in simp)
next
  case False
  then have "increment key upd i (cents n) t = Some t'" using assms(1) by (simp add: moveBalance_def)
  then show ?thesis
    by (rule increment_row [OF _ assms(2,3)]) (use that False assms(2) in simp)
qed

lemma move_nonneg:
  assumes "moveBalance key bal upd out i (cents n) t = Some t'" and "0 \<le> n" and "n \<le> 10 ^ 14"
    and "\<And>r. r \<in> set t \<Longrightarrow> 0 \<le> bal r" and "r \<in> set t'"
  shows "0 \<le> bal r"
  using assms decrement_nonneg [of i n t t' r] increment_nonneg [of i n t t' r]
  by (cases out) (auto simp: moveBalance_def)

end

end
