(* ===== verification/Cash_Vault.thy ===== *)
theory Cash_Vault
  imports GL_Books Guarded_Balance
begin

text \<open>
  The cash and vault module (\<open>routes/cashVault.routes.ts\<close>): vaults and their opening and closing,
  cash receipts and withdrawals with their ledger posting, tellers, requests to transfer cash, and
  daily balancing.
\<close>

section \<open>Tables\<close>

datatype vaultStatus = V_OPEN | V_CLOSED
datatype holderType = VAULT | TELLER
datatype cashEntryType = RECEIPT | WITHDRAWAL | TRANSFER_IN | TRANSFER_OUT
datatype tellerStatus = T_ACTIVE | T_SUSPENDED
datatype cashTransferStatus = CT_PENDING_APPROVAL | CT_COMPLETED | CT_REJECTED
datatype balancingStatus = RECONCILED | VARIANCE_PENDING_APPROVAL

record vault =
  va_id :: string
  va_institutionId :: string
  va_branchId :: string
  va_name :: string
  va_balance :: int
  va_status :: vaultStatus
  va_openedById :: "string option"
  va_openedAt :: "time option"
  va_closedById :: "string option"
  va_closedAt :: "time option"

record cashLedgerEntry =
  ce_id :: string
  ce_institutionId :: string
  ce_holderType :: holderType
  ce_holderId :: string
  ce_type :: cashEntryType
  ce_amount :: int
  ce_balanceAfter :: int
  ce_notes :: "string option"
  ce_recordedById :: string

record teller =
  te_id :: string
  te_institutionId :: string
  te_employeeId :: string
  te_vaultId :: "string option"
  te_cashLimit :: int
  te_currentHolding :: int
  te_status :: tellerStatus
  te_suspendedById :: "string option"
  te_suspendedAt :: "time option"
  te_suspendedReason :: "string option"

record cashTransfer =
  ct_id :: string
  ct_institutionId :: string
  ct_fromType :: holderType
  ct_fromId :: string
  ct_toType :: holderType
  ct_toId :: string
  ct_amount :: int
  ct_isEmergency :: bool
  ct_reason :: string
  ct_status :: cashTransferStatus
  ct_requestedById :: string
  ct_approvedById :: "string option"
  ct_completedAt :: "time option"

record cashBalancing =
  cb_id :: string
  cb_institutionId :: string
  cb_holderType :: holderType
  cb_holderId :: string
  cb_balancingDate :: time
  cb_expectedAmount :: int
  cb_countedAmount :: int
  cb_variance :: int
  cb_status :: balancingStatus
  cb_investigationNotes :: "string option"
  cb_reconciledById :: "string option"
  cb_reconciledAt :: "time option"

text \<open>Of an employee the modules modelled here read these columns.\<close>

record employee =
  em_id :: string
  em_institutionId :: string
  em_branchId :: "string option"
  em_fullName :: string
  em_employeeNumber :: "string option"
  em_departmentId :: "string option"
  em_positionId :: "string option"
  em_bankName :: "string option"
  em_bankAccountNumber :: "string option"
  em_bankAccountName :: "string option"
  em_userId :: "string option"

record cash_db = gl_db +
  db_cashMappings :: "glMapping list"
  db_vaults :: "vault list"
  db_cashEntries :: "cashLedgerEntry list"
  db_employees :: "employee list"
  db_tellers :: "teller list"
  db_cashTransfers :: "cashTransfer list"
  db_balancings :: "cashBalancing list"

definition updVaultBalance :: "(int \<Rightarrow> int) \<Rightarrow> vault \<Rightarrow> vault" where
  "updVaultBalance f v = v\<lparr>va_balance := f (va_balance v)\<rparr>"

definition updHolding :: "(int \<Rightarrow> int) \<Rightarrow> teller \<Rightarrow> teller" where
  "updHolding f t = t\<lparr>te_currentHolding := f (te_currentHolding t)\<rparr>"

interpretation vaults: balance_table va_id va_balance updVaultBalance
  by unfold_locales (simp_all add: updVaultBalance_def)

interpretation tellers: balance_table te_id te_currentHolding updHolding
  by unfold_locales (simp_all add: updHolding_def)

section \<open>Vaults\<close>

definition setCashMapping :: "env \<Rightarrow> string option \<Rightarrow> string option \<Rightarrow> 'a cash_db_scheme \<Rightarrow> glMapping resp \<times> 'a cash_db_scheme" where
  "setCashMapping env purpose acct db =
     (case mappingGuard env purpose acct db of
        Inl e \<Rightarrow> answerError e db
      | Inr (p, a) \<Rightarrow>
          (case upsertMapping env (newId env db) p a (db_cashMappings db) of
             (m, ms) \<Rightarrow> (ROk 201 m, audit env ''cash_vault_gl_mapping.set'' ''cash_vault_gl_account_mapping'' (gm_id m)
               (db\<lparr>db_next := Suc (db_next db), db_cashMappings := ms\<rparr>))))"

text \<open>A branch has no two vaults of one name; the database refuses the second.\<close>

definition createVault :: "env \<Rightarrow> (string \<times> string) option \<Rightarrow> 'a cash_db_scheme \<Rightarrow> vault resp \<times> 'a cash_db_scheme" where
  "createVault env body db =
     (case safeParse (\<lambda>(_, name). name \<noteq> []) body of
        None \<Rightarrow> (RErr 400 Flatten, db)
      | Some (branch, name) \<Rightarrow>
          if find (\<lambda>v. va_institutionId v = e_institutionId env \<and> va_branchId v = branch \<and> va_name v = name)
               (db_vaults db) \<noteq> None
          then answerError Thrown db
          else
            (let v = \<lparr>va_id = newId env db, va_institutionId = e_institutionId env, va_branchId = branch,
                va_name = name, va_balance = 0, va_status = V_CLOSED, va_openedById = None, va_openedAt = None,
                va_closedById = None, va_closedAt = None\<rparr>
             in (ROk 201 v, audit env ''vault.create'' ''vault'' (va_id v)
                  (db\<lparr>db_next := Suc (db_next db), db_vaults := db_vaults db @ [v]\<rparr>))))"

definition ownVault :: "env \<Rightarrow> string \<Rightarrow> 'a cash_db_scheme \<Rightarrow> vault option" where
  "ownVault env i db = find (\<lambda>v. va_id v = i \<and> va_institutionId v = e_institutionId env) (db_vaults db)"

definition updVault :: "string \<Rightarrow> (vault \<Rightarrow> vault) \<Rightarrow> 'a cash_db_scheme \<Rightarrow> 'a cash_db_scheme" where
  "updVault i f db = db\<lparr>db_vaults := updWhere (\<lambda>v. va_id v = i) f (db_vaults db)\<rparr>"

definition openVault :: "env \<Rightarrow> string \<Rightarrow> 'a cash_db_scheme \<Rightarrow> unit resp \<times> 'a cash_db_scheme" where
  "openVault env i db =
     (case ownVault env i db of
        None \<Rightarrow> fail 404 ''Vault not found'' db
      | Some v \<Rightarrow>
          if va_status v = V_OPEN then fail 400 ''Vault is already open'' db
          else (ROk 200 (), audit env ''vault.open'' ''vault'' (va_id v)
            (updVault (va_id v) (\<lambda>v. v\<lparr>va_status := V_OPEN, va_openedById := Some (e_userId env),
               va_openedAt := Some (e_now env)\<rparr>) db)))"

definition balancedToday :: "env \<Rightarrow> string \<Rightarrow> 'a cash_db_scheme \<Rightarrow> bool" where
  "balancedToday env i db \<longleftrightarrow> find (\<lambda>b. cb_holderType b = VAULT \<and> cb_holderId b = i
     \<and> cb_balancingDate b = startOfDay (e_now env) \<and> cb_status b = RECONCILED) (db_balancings db) \<noteq> None"

definition closeVault :: "env \<Rightarrow> string \<Rightarrow> 'a cash_db_scheme \<Rightarrow> unit resp \<times> 'a cash_db_scheme" where
  "closeVault env i db =
     (case ownVault env i db of
        None \<Rightarrow> fail 404 ''Vault not found'' db
      | Some v \<Rightarrow>
          if va_status v = V_CLOSED then fail 400 ''Vault is already closed'' db
          else if \<not> balancedToday env (va_id v) db
          then fail 400 ''This vault must be balanced (and any variance approved) for today before it can be closed'' db
          else (ROk 200 (), audit env ''vault.close'' ''vault'' (va_id v)
            (updVault (va_id v) (\<lambda>v. v\<lparr>va_status := V_CLOSED, va_closedById := Some (e_userId env),
               va_closedAt := Some (e_now env)\<rparr>) db)))"

section \<open>Cash receipts and withdrawals\<close>

record cashEntryBody =
  eb_withdrawal :: bool
  eb_amount :: num
  eb_notes :: "string option"

text \<open>The updated balance of the vault, by the guarded decrement or the increment.\<close>

definition moveVaultBalance :: "vault \<Rightarrow> cashEntryBody \<Rightarrow> 'a cash_db_scheme \<Rightarrow> terr + 'a cash_db_scheme" where
  "moveVaultBalance v b db =
     (case moveBalance va_id va_balance updVaultBalance (eb_withdrawal b) (va_id v) (eb_amount b) (db_vaults db) of
        None \<Rightarrow> Inl (if eb_withdrawal b then Http 400 ''Insufficient vault balance'' else Thrown)
      | Some vs \<Rightarrow> Inr (db\<lparr>db_vaults := vs\<rparr>))"

definition recordCash ::
  "env \<Rightarrow> string \<Rightarrow> holderType \<Rightarrow> string \<Rightarrow> cashEntryType \<Rightarrow> num \<Rightarrow> int \<Rightarrow> string option \<Rightarrow> string
    \<Rightarrow> 'a cash_db_scheme \<Rightarrow> cashLedgerEntry \<times> 'a cash_db_scheme" where
  "recordCash env inst ht hid ty amount after notes by db =
     (let e = \<lparr>ce_id = newId env db, ce_institutionId = inst, ce_holderType = ht, ce_holderId = hid, ce_type = ty,
          ce_amount = toDec2 amount, ce_balanceAfter = after, ce_notes = notes, ce_recordedById = by\<rparr>
      in (e, db\<lparr>db_next := Suc (db_next db), db_cashEntries := db_cashEntries db @ [e]\<rparr>))"

definition vaultEntryText :: "vault \<Rightarrow> cashEntryBody \<Rightarrow> string" where
  "vaultEntryText v b = ''Vault '' @ (if eb_withdrawal b then ''withdrawal'' else ''receipt'') @ '' - '' @ va_name v"

definition vaultEntryTx ::
  "env \<Rightarrow> vault \<Rightarrow> cashEntryBody \<Rightarrow> (glCategory \<times> entry) list \<Rightarrow> 'a cash_db_scheme
    \<Rightarrow> terr + cashLedgerEntry \<times> 'a cash_db_scheme" where
  "vaultEntryTx env v b cls db =
     bindE (moveVaultBalance v b db) (\<lambda>db1.
     bindE (orThrow Thrown (find (\<lambda>w. va_id w = va_id v) (db_vaults db1))) (\<lambda>w.
     let r = recordCash env (e_institutionId env) VAULT (va_id v) (if eb_withdrawal b then WITHDRAWAL else RECEIPT)
        (eb_amount b) (va_balance w) (eb_notes b) (e_userId env) db1 in
     bindE (postJournal env (e_institutionId env) AUTOMATIC (vaultEntryText v b) (e_now env) (e_userId env)
        (e_userId env) cls (snd r))
       (\<lambda>q. Inr (fst r, snd q))))"

definition vaultLines :: "cashEntryBody \<Rightarrow> glAccount \<Rightarrow> glAccount \<Rightarrow> (glCategory \<times> entry) list" where
  "vaultLines b vaultCash bank =
     (if eb_withdrawal b then transferLines bank vaultCash (eb_amount b)
      else transferLines vaultCash bank (eb_amount b))"

definition cashMappingMissing :: string where
  "cashMappingMissing = ''Cash & Vault GL account mapping is not configured (\"Vault Cash\" and \"Bank Account (External)\" both required) - configure this before recording vault cash movements, real cash cannot move without a real accounting effect.''"

definition recordVaultEntry ::
  "env \<Rightarrow> string \<Rightarrow> cashEntryBody option \<Rightarrow> 'a cash_db_scheme \<Rightarrow> cashLedgerEntry resp \<times> 'a cash_db_scheme" where
  "recordVaultEntry env i body db = answer 201 db (
     bindE (parseBody (\<lambda>b. 0 < eb_amount b) body) (\<lambda>b.
     bindE (orThrow (Http 404 ''Vault not found'') (ownVault env i db)) (\<lambda>v.
     bindE (require (va_status v = V_OPEN) 400 ''Vault must be OPEN to record cash movements'') (\<lambda>_.
     bindE (postingAccounts env (db_cashMappings db) ''Vault Cash'' ''Bank Account (External)'' cashMappingMissing db)
       (\<lambda>(vaultCash, bank).
     bindE (require (isBalanced (map snd (vaultLines b vaultCash bank))) 400
       ''Cash movement journal would not balance - check the amount'') (\<lambda>_.
     bindE (vaultEntryTx env v b (vaultLines b vaultCash bank) db) (\<lambda>(e, db').
     Inr (e, audit env ''vault.cash_entry'' ''vault'' (va_id v) db'))))))))"

section \<open>Tellers\<close>

text \<open>\<open>schema\<close>: employee, vault, limit.\<close>

definition registerTeller :: "env \<Rightarrow> (string \<times> string option \<times> num) option \<Rightarrow> 'a cash_db_scheme \<Rightarrow> teller resp \<times> 'a cash_db_scheme" where
  "registerTeller env body db =
     (case safeParse (\<lambda>(_, _, limit). 0 < limit) body of
        None \<Rightarrow> (RErr 400 Flatten, db)
      | Some (emp, vault, limit) \<Rightarrow>
          if find (\<lambda>e. em_id e = emp \<and> em_institutionId e = e_institutionId env) (db_employees db) = None
          then fail 404 ''Employee not found'' db
          else if find (\<lambda>t. te_employeeId t = emp) (db_tellers db) \<noteq> None
          then fail 400 ''This employee is already registered as a teller'' db
          else if vault \<noteq> None \<and> find (\<lambda>v. va_id v = the vault) (db_vaults db) = None then answerError Thrown db
          else
            (let t = \<lparr>te_id = newId env db, te_institutionId = e_institutionId env, te_employeeId = emp,
                te_vaultId = vault, te_cashLimit = toDec2 limit, te_currentHolding = 0, te_status = T_ACTIVE,
                te_suspendedById = None, te_suspendedAt = None, te_suspendedReason = None\<rparr>
             in (ROk 201 t, audit env ''teller.register'' ''teller'' (te_id t)
                  (db\<lparr>db_next := Suc (db_next db), db_tellers := db_tellers db @ [t]\<rparr>))))"

definition ownTeller :: "env \<Rightarrow> string \<Rightarrow> teller \<Rightarrow> bool" where
  "ownTeller env i t \<longleftrightarrow> te_id t = i \<and> te_institutionId t = e_institutionId env"

text \<open>\<open>!cashLimit\<close> is also true of zero and of a missing limit.\<close>

definition setTellerLimit :: "env \<Rightarrow> string \<Rightarrow> num option \<Rightarrow> 'a cash_db_scheme \<Rightarrow> unit resp \<times> 'a cash_db_scheme" where
  "setTellerLimit env i limit db =
     (case limit of
        None \<Rightarrow> fail 400 ''cashLimit must be positive'' db
      | Some l \<Rightarrow>
          if l \<le> 0 then fail 400 ''cashLimit must be positive'' db
          else if countWhere (ownTeller env i) (db_tellers db) = 0 then fail 404 ''Teller not found'' db
          else (ROk 200 (), db\<lparr>db_tellers := updWhere (ownTeller env i) (\<lambda>t. t\<lparr>te_cashLimit := toDec2 l\<rparr>) (db_tellers db)\<rparr>))"

definition suspendTeller :: "env \<Rightarrow> string \<Rightarrow> string option \<Rightarrow> 'a cash_db_scheme \<Rightarrow> unit resp \<times> 'a cash_db_scheme" where
  "suspendTeller env i reason db =
     (case find (ownTeller env i) (db_tellers db) of
        None \<Rightarrow> fail 404 ''Teller not found'' db
      | Some t \<Rightarrow> (ROk 200 (), audit env ''teller.suspend'' ''teller'' (te_id t)
          (db\<lparr>db_tellers := updWhere (\<lambda>u. te_id u = te_id t) (\<lambda>u. u\<lparr>te_status := T_SUSPENDED,
             te_suspendedById := Some (e_userId env), te_suspendedAt := Some (e_now env),
             te_suspendedReason := (case reason of None \<Rightarrow> te_suspendedReason u | Some r \<Rightarrow> Some r)\<rparr>) (db_tellers db)\<rparr>)))"

definition reinstateTeller :: "env \<Rightarrow> string \<Rightarrow> 'a cash_db_scheme \<Rightarrow> unit resp \<times> 'a cash_db_scheme" where
  "reinstateTeller env i db =
     (case find (ownTeller env i) (db_tellers db) of
        None \<Rightarrow> fail 404 ''Teller not found'' db
      | Some t \<Rightarrow> (ROk 200 (), db\<lparr>db_tellers := updWhere (\<lambda>u. te_id u = te_id t) (\<lambda>u. u\<lparr>te_status := T_ACTIVE,
             te_suspendedById := None, te_suspendedAt := None, te_suspendedReason := None\<rparr>) (db_tellers db)\<rparr>))"

section \<open>Transfers\<close>

text \<open>The balance of any vault or teller, of whatever institution.\<close>

definition getHolderBalance :: "holderType \<Rightarrow> string \<Rightarrow> 'a cash_db_scheme \<Rightarrow> num option" where
  "getHolderBalance ty i db =
     (case ty of
        VAULT \<Rightarrow> map_option (\<lambda>v. cents (va_balance v)) (find (\<lambda>v. va_id v = i) (db_vaults db))
      | TELLER \<Rightarrow> map_option (\<lambda>t. cents (te_currentHolding t)) (find (\<lambda>t. te_id t = i) (db_tellers db)))"

record transferBody =
  tb_fromType :: holderType
  tb_fromId :: string
  tb_toType :: holderType
  tb_toId :: string
  tb_amount :: num
  tb_isEmergency :: bool
  tb_reason :: string

definition requestTransfer :: "env \<Rightarrow> transferBody option \<Rightarrow> 'a cash_db_scheme \<Rightarrow> cashTransfer resp \<times> 'a cash_db_scheme" where
  "requestTransfer env body db =
     (case safeParse (\<lambda>b. 0 < tb_amount b \<and> 2 \<le> length (tb_reason b)) body of
        None \<Rightarrow> (RErr 400 Flatten, db)
      | Some b \<Rightarrow>
          if tb_fromType b = tb_toType b \<and> tb_fromId b = tb_toId b
          then fail 400 ''Source and destination cannot be the same'' db
          else (case getHolderBalance (tb_fromType b) (tb_fromId b) db of
              None \<Rightarrow> fail 404 ''Source not found'' db
            | Some source \<Rightarrow>
                if source < tb_amount b then fail 400 ''Insufficient balance at source'' db
                else if getHolderBalance (tb_toType b) (tb_toId b) db = None
                then fail 404 ''Destination not found'' db
                else
                  (let t = \<lparr>ct_id = newId env db, ct_institutionId = e_institutionId env,
                       ct_fromType = tb_fromType b, ct_fromId = tb_fromId b, ct_toType = tb_toType b,
                       ct_toId = tb_toId b, ct_amount = toDec2 (tb_amount b), ct_isEmergency = tb_isEmergency b,
                       ct_reason = tb_reason b, ct_status = CT_PENDING_APPROVAL, ct_requestedById = e_userId env,
                       ct_approvedById = None, ct_completedAt = None\<rparr>
                   in (ROk 202 t, audit env ''cash_transfer.requested'' ''cash_transfer'' (ct_id t)
                        (requestApproval env CASH_TRANSFER ''CashTransfer'' (ct_id t) [] (tb_reason b)
                          (db\<lparr>db_next := Suc (db_next db), db_cashTransfers := db_cashTransfers db @ [t]\<rparr>))))))"

section \<open>Daily balancing\<close>

record balancingBody =
  bb_holderType :: holderType
  bb_holderId :: string
  bb_balancingDate :: string
  bb_countedAmount :: num
  bb_investigationNotes :: "string option"

text \<open>\<open>show\<close> prints the variance in the reason of the request.\<close>

definition recordBalancing ::
  "(num \<Rightarrow> string) \<Rightarrow> env \<Rightarrow> balancingBody option \<Rightarrow> 'a cash_db_scheme \<Rightarrow> cashBalancing resp \<times> 'a cash_db_scheme" where
  "recordBalancing show env body db =
     (case safeParse (\<lambda>b. 0 \<le> bb_countedAmount b) body of
        None \<Rightarrow> (RErr 400 Flatten, db)
      | Some b \<Rightarrow>
          (case getHolderBalance (bb_holderType b) (bb_holderId b) db of
             None \<Rightarrow> fail 404 ''Holder not found'' db
           | Some expected \<Rightarrow>
               (case e_parseDate env (bb_balancingDate b) of
                  None \<Rightarrow> answerError Thrown db
                | Some d \<Rightarrow>
                    if find (\<lambda>c. cb_holderType c = bb_holderType b \<and> cb_holderId c = bb_holderId b
                         \<and> cb_balancingDate c = startOfDay d) (db_balancings db) \<noteq> None
                    then fail 400 ''A balancing record already exists for this holder and date'' db
                    else
                      (let variance = round2 (nsub (bb_countedAmount b) expected); off = (cents 1 \<le> \<bar>variance\<bar>) in
                       if off \<and> \<not> truthy (bb_investigationNotes b)
                       then fail 400 ''A variance was detected - investigation notes are required'' db
                       else
                         (let r = \<lparr>cb_id = newId env db, cb_institutionId = e_institutionId env,
                              cb_holderType = bb_holderType b, cb_holderId = bb_holderId b,
                              cb_balancingDate = startOfDay d, cb_expectedAmount = toDec2 expected,
                              cb_countedAmount = toDec2 (bb_countedAmount b), cb_variance = toDec2 variance,
                              cb_status = (if off then VARIANCE_PENDING_APPROVAL else RECONCILED),
                              cb_investigationNotes = bb_investigationNotes b,
                              cb_reconciledById = (if off then None else Some (e_userId env)),
                              cb_reconciledAt = (if off then None else Some (e_now env))\<rparr>;
                              db1 = db\<lparr>db_next := Suc (db_next db), db_balancings := db_balancings db @ [r]\<rparr>;
                              db2 = (if off then requestApproval env CASH_BALANCING_VARIANCE ''CashBalancing'' (cb_id r) []
                                  (''Cash balancing variance of GHS '' @ show variance @ '' on '' @ bb_balancingDate b
                                    @ '': '' @ the (bb_investigationNotes b)) db1 else db1)
                          in (ROk 201 r, audit env ''cash_balancing.recorded'' ''cash_balancing'' (cb_id r) db2))))))"

section \<open>Properties\<close>

lemma audit_cash [simp]:
  "db_vaults (audit env a r i db) = db_vaults db" "db_balancings (audit env a r i db) = db_balancings db"
  "db_tellers (audit env a r i db) = db_tellers db" "db_cashTransfers (audit env a r i db) = db_cashTransfers db"
  by (simp_all add: audit_def)

lemma moveVaultBalance_frame [frame]:
  assumes "moveVaultBalance v b db = Inr db1"
  shows "db_glAccounts db1 = db_glAccounts db" and "db_journals db1 = db_journals db"
  using assms by (auto simp: moveVaultBalance_def split: if_splits option.splits)

lemma recordCash_frame [frame]:
  "db_glAccounts (snd (recordCash env inst ht hid ty am af no by db)) = db_glAccounts db"
  "db_journals (snd (recordCash env inst ht hid ty am af no by db)) = db_journals db"
  "db_vaults (snd (recordCash env inst ht hid ty am af no by db)) = db_vaults db"
  "ce_balanceAfter (fst (recordCash env inst ht hid ty am af no by db)) = af"
  "ce_amount (fst (recordCash env inst ht hid ty am af no by db)) = toDec2 am"
  by (simp_all add: recordCash_def Let_def)

lemma moveVaultBalance_moved:
  "moveVaultBalance v b db = Inr db1 \<Longrightarrow>
    moveBalance va_id va_balance updVaultBalance (eb_withdrawal b) (va_id v) (eb_amount b) (db_vaults db) = Some (db_vaults db1)"
  by (auto simp: moveVaultBalance_def split: option.splits)

lemma moveVaultBalance_row:
  assumes "moveVaultBalance v b db = Inr db1" and "uniqueBy va_id (db_vaults db)"
    and "eb_amount b = cents n" and "\<bar>n\<bar> \<le> 10 ^ 13"
  shows "sum_list (map va_balance (db_vaults db1)) = sum_list (map va_balance (db_vaults db)) + (if eb_withdrawal b then - n else n)"
  by (rule vaults.move_row [OF moveVaultBalance_moved [OF assms(1), unfolded assms(3)] _ assms(2)]) (use assms(4) in auto)

lemma moveVaultBalance_nonneg:
  assumes "moveVaultBalance v b db = Inr db1" and "eb_amount b = cents n" and "0 \<le> n" and "n \<le> 10 ^ 13"
    and "\<And>w. w \<in> set (db_vaults db) \<Longrightarrow> 0 \<le> va_balance w" and "w \<in> set (db_vaults db1)"
  shows "0 \<le> va_balance w"
  by (rule vaults.move_nonneg [OF moveVaultBalance_moved [OF assms(1), unfolded assms(2)]]) (use assms(3-6) in auto)

lemma vaultLines_good:
  assumes "postingAccounts env ms p q m db = Inr (a, c)" and "eb_amount b = cents n" and "\<bar>n\<bar> \<le> 10 ^ 13"
  shows "goodLines db (vaultLines b a c)" and "balancedLines (map (lineRow \<circ> snd) (vaultLines b a c))"
proof -
  obtain i k where "accountById i db = Some a" "accountById k db = Some c"
    using assms(1) by (rule postingAccounts_Inr)
  then show "goodLines db (vaultLines b a c)"
    using assms(2,3) by (simp add: vaultLines_def transferLines_good)
  show "balancedLines (map (lineRow \<circ> snd) (vaultLines b a c))"
    unfolding vaultLines_def by (cases "eb_withdrawal b") (simp_all only: transferLines_balanced if_True if_False)
qed

text \<open>A cash movement that goes through: what it leaves in every table it touches.\<close>

lemma vaultEntryTx_effect:
  assumes tx: "vaultEntryTx env v b cls db = Inr (e, db')"
    and books: "books_ok db" and uniq: "uniqueBy va_id (db_vaults db)"
    and n: "eb_amount b = cents n" "\<bar>n\<bar> \<le> 10 ^ 13"
    and good: "goodLines db cls" and bal: "balancedLines (map (lineRow \<circ> snd) cls)"
  shows "books_ok db'"
    and "sum_list (map va_balance (db_vaults db')) = sum_list (map va_balance (db_vaults db)) + (if eb_withdrawal b then - n else n)"
    and "find (\<lambda>w. va_id w = va_id v) (db_vaults db') = Some w \<Longrightarrow> ce_balanceAfter e = va_balance w"
    and "ce_amount e = n"
    and "\<exists>db1. moveVaultBalance v b db = Inr db1 \<and> db_vaults db' = db_vaults db1"
proof -
  obtain db1 w' db2 j where m: "moveVaultBalance v b db = Inr db1"
    and w': "find (\<lambda>w. va_id w = va_id v) (db_vaults db1) = Some w'"
    and r: "recordCash env (e_institutionId env) VAULT (va_id v) (if eb_withdrawal b then WITHDRAWAL else RECEIPT)
        (eb_amount b) (va_balance w') (eb_notes b) (e_userId env) db1 = (e, db2)"
    and post: "postJournal env (e_institutionId env) AUTOMATIC (vaultEntryText v b)
        (e_now env) (e_userId env) (e_userId env) cls db2 = Inr (j, db')"
    using tx unfolding vaultEntryTx_def bindE_Inr_iff orThrow_Inr_iff Let_def
    by (metis (no_types, lifting) prod.collapse Inr_inject prod.inject)
  note R = recordCash_frame [of env "e_institutionId env" VAULT "va_id v" "if eb_withdrawal b then WITHDRAWAL else RECEIPT"
      "eb_amount b" "va_balance w'" "eb_notes b" "e_userId env" db1, unfolded r snd_conv fst_conv]
  have db2: "db_glAccounts db2 = db_glAccounts db" "db_journals db2 = db_journals db" "db_vaults db2 = db_vaults db1"
    using moveVaultBalance_frame [OF m] R by simp_all
  have books2: "books_ok db2" and good2: "goodLines db2 cls"
    using books_cong [OF db2(1,2)] goodLines_cong [OF db2(1)] books good by simp_all
  show "books_ok db'" by (rule postJournal_books [OF books2 good2 bal post])
  have "uniqueBy ga_id (db_glAccounts db2)" using books2 by (simp add: books_ok_def)
  from postJournal_result [OF this good2 post] have v': "db_vaults db' = db_vaults db1" using db2(3) by simp
  have s: "sum_list (map va_balance (db_vaults db1)) = sum_list (map va_balance (db_vaults db)) + (if eb_withdrawal b then - n else n)"
    using moveVaultBalance_row [OF m uniq n] .
  show "sum_list (map va_balance (db_vaults db')) = sum_list (map va_balance (db_vaults db)) + (if eb_withdrawal b then - n else n)"
    using s v' by simp
  show "ce_balanceAfter e = va_balance w" if "find (\<lambda>w. va_id w = va_id v) (db_vaults db') = Some w"
    using that w' v' R(4) by simp
  show "ce_amount e = n" using R(5) n by simp
  show "\<exists>db1. moveVaultBalance v b db = Inr db1 \<and> db_vaults db' = db_vaults db1" using m v' by auto
qed

lemma recordVaultEntry_cases:
  assumes "recordVaultEntry env i (Some b) db = (r, db')"
  obtains (refused) "\<not> okResp r" and "db' = db"
  | (recorded) v a c e db1 where "r = ROk 201 e" and "ownVault env i db = Some v" and "va_status v = V_OPEN"
      and "0 < eb_amount b" and "isBalanced (map snd (vaultLines b a c))"
      and "postingAccounts env (db_cashMappings db) ''Vault Cash'' ''Bank Account (External)'' cashMappingMissing db = Inr (a, c)"
      and "vaultEntryTx env v b (vaultLines b a c) db = Inr (e, db1)"
      and "db' = audit env ''vault.cash_entry'' ''vault'' (va_id v) db1"
  using assms unfolding recordVaultEntry_def
proof (cases rule: answer_cases)
  case (finished x)
  then show ?thesis using recorded by (auto simp: bindE_Inr_iff)
qed (rule refused)


text \<open>An open vault holding 100 cedis, with its accounts mapped.\<close>

definition sampleMapping :: "string \<Rightarrow> string \<Rightarrow> glMapping" where
  "sampleMapping p a = \<lparr>gm_id = p, gm_institutionId = ''i1'', gm_purpose = p, gm_glAccountId = a\<rparr>"

definition sampleVault :: vault where
  "sampleVault = \<lparr>va_id = ''v1'', va_institutionId = ''i1'', va_branchId = ''b1'', va_name = ''Main'', va_balance = 10000,
     va_status = V_OPEN, va_openedById = None, va_openedAt = None, va_closedById = None, va_closedAt = None\<rparr>"

definition sampleBalancing :: cashBalancing where
  "sampleBalancing = \<lparr>cb_id = ''b1'', cb_institutionId = ''i1'', cb_holderType = VAULT, cb_holderId = ''v1'',
     cb_balancingDate = startOfDay 1700000000000, cb_expectedAmount = 10000, cb_countedAmount = 10000,
     cb_variance = 0, cb_status = RECONCILED, cb_investigationNotes = None, cb_reconciledById = None,
     cb_reconciledAt = None\<rparr>"

definition sampleCashDb :: cash_db where
  "sampleCashDb = sampleLedgerDb (cash_db.fields
     [sampleMapping ''Vault Cash'' ''cash'', sampleMapping ''Bank Account (External)'' ''bank'']
     [sampleVault] [] [] [] [] [sampleBalancing])"

lemmas sample_cash_defs = sample_defs sampleCashDb_def sampleMapping_def sampleVault_def sampleBalancing_def cash_db.defs

definition sampleCashEntry :: "cashLedgerEntry resp \<times> cash_db" where
  "sampleCashEntry = recordVaultEntry sampleEnv ''v1''
     (Some \<lparr>eb_withdrawal = True, eb_amount = cents 4000, eb_notes = None\<rparr>) sampleCashDb"

lemma sampleCashEntry_ok: "okResp (fst sampleCashEntry)"
proof -
  have pa: "postingAccounts sampleEnv (db_cashMappings sampleCashDb) ''Vault Cash'' ''Bank Account (External)'' m sampleCashDb
      = Inr (sampleAccount ''cash'' ASSET, sampleAccount ''bank'' ASSET)" for m
    by (simp add: postingAccounts_def accountIdByPurpose_def findPostablePeriod_def accountById_def sample_cash_defs)
  have v: "ownVault sampleEnv ''v1'' sampleCashDb = Some sampleVault"
    by (simp add: ownVault_def sample_cash_defs)
  have "guardedDecrement va_id va_balance updVaultBalance ''v1'' (cents 4000) [sampleVault] = Some [sampleVault\<lparr>va_balance := 6000\<rparr>]"
    by (simp add: guardedDecrement_def sampleVault_def updVaultBalance_def)
  then have tx: "\<exists>e db'. vaultEntryTx sampleEnv sampleVault \<lparr>eb_withdrawal = True, eb_amount = cents 4000, eb_notes = None\<rparr> cls sampleCashDb
       = Inr (e, db')" if "cls = transferLines (sampleAccount ''bank'' ASSET) (sampleAccount ''cash'' ASSET) (cents 4000)" for cls
    using that
    by (simp add: vaultEntryTx_def moveVaultBalance_def moveBalance_def postJournal_def createJournal_def recordCash_def Let_def
        transferLines_def accountById_def postLine_def sample_cash_defs)
  let ?cls = "transferLines (sampleAccount ''bank'' ASSET) (sampleAccount ''cash'' ASSET) (cents 4000)"
  obtain e db' where "vaultEntryTx sampleEnv sampleVault \<lparr>eb_withdrawal = True, eb_amount = cents 4000, eb_notes = None\<rparr> ?cls sampleCashDb
       = Inr (e, db')" using tx [OF refl] by blast
  moreover have "isBalanced (map snd ?cls)" "0 < cents 4000" "va_status sampleVault = V_OPEN"
    by (simp_all add: balanced_transfer cents_pos_iff sampleVault_def)
  ultimately show ?thesis
    by (simp add: sampleCashEntry_def recordVaultEntry_def v pa answer_def parseBody_def safeParse_def vaultLines_def require_def)
qed

lemma sampleCashDb_ok:
  "books_ok sampleCashDb" "db_vaults sampleCashDb = [sampleVault]" "db_balancings sampleCashDb = [sampleBalancing]"
  using sample_books by (simp_all add: sampleCashDb_def) (simp_all add: sampleLedgerDb_def cash_db.defs)


text \<open>
  A vault closes only after it was balanced, without a variance or with the variance
  approved, on the very day of closing, and closing touches nothing but the vault and the audit log.
\<close>

theorem vault_close_balanced:
  assumes "closeVault env i db = (ROk c (), db')"
  shows "(\<exists>b \<in> set (db_balancings db). cb_holderType b = VAULT \<and> cb_holderId b = i
            \<and> cb_balancingDate b = startOfDay (e_now env) \<and> cb_status b = RECONCILED)
    \<and> (\<forall>v \<in> set (db_vaults db'). va_id v = i \<longrightarrow> va_status v = V_CLOSED)
    \<and> map va_balance (db_vaults db') = map va_balance (db_vaults db)
    \<and> db_journals db' = db_journals db \<and> db_glAccounts db' = db_glAccounts db"
proof -
  obtain v where v: "ownVault env i db = Some v" "balancedToday env (va_id v) db"
    and db': "db' = audit env ''vault.close'' ''vault'' (va_id v)
            (updVault (va_id v) (\<lambda>v. v\<lparr>va_status := V_CLOSED, va_closedById := Some (e_userId env),
               va_closedAt := Some (e_now env)\<rparr>) db)"
    using assms by (auto simp: closeVault_def fail_def split: option.splits if_splits)
  have "va_id v = i" using v(1) find_SomeD by (fastforce simp: ownVault_def)
  moreover obtain b where "b \<in> set (db_balancings db)" "cb_holderType b = VAULT" "cb_holderId b = va_id v"
    "cb_balancingDate b = startOfDay (e_now env)" "cb_status b = RECONCILED"
    using v(2) by (auto simp: balancedToday_def dest!: find_SomeD)
  ultimately show ?thesis
    using db' by (auto simp: audit_def updVault_def set_updWhere map_updWhere)
qed

theorem vault_close_balanced_witness:
  "map va_balance (db_vaults (snd (closeVault sampleEnv ''v1'' sampleCashDb))) = [10000]"
proof -
  have "fst (closeVault sampleEnv ''v1'' sampleCashDb) = ROk 200 ()"
    by (simp add: closeVault_def ownVault_def balancedToday_def sampleCashDb_ok sampleVault_def sampleBalancing_def sampleEnv_def)
  then have "closeVault sampleEnv ''v1'' sampleCashDb = (ROk 200 (), snd (closeVault sampleEnv ''v1'' sampleCashDb))"
    by (metis prod.collapse)
  from vault_close_balanced [OF this] show ?thesis by (simp add: sampleCashDb_ok sampleVault_def)
qed

text \<open>
  The expected amount of a balancing is the balance the holder really has, a holder is
  balanced at most once a day, and a count that is off by a pesewa or more is never reconciled
  without an approval request.
\<close>

theorem balancing_honest:
  assumes "recordBalancing show env (Some b) db = (ROk c r, db')"
    and "bb_holderType b = VAULT" and "find (\<lambda>v. va_id v = bb_holderId b) (db_vaults db) = Some v"
    and "bb_countedAmount b = cents k" and "\<bar>k\<bar> \<le> 10 ^ 13" and "\<bar>va_balance v\<bar> \<le> 10 ^ 13"
  shows "cb_expectedAmount r = va_balance v \<and> cb_countedAmount r = k \<and> cb_variance r = k - va_balance v
    \<and> (cb_status r = RECONCILED \<longleftrightarrow> k = va_balance v)
    \<and> (k \<noteq> va_balance v \<longrightarrow> truthy (cb_investigationNotes r)
         \<and> (\<exists>q \<in> set (db_approvals db'). ap_type q = CASH_BALANCING_VARIANCE \<and> ap_status q = AP_PENDING
              \<and> ap_targetId q = cb_id r))
    \<and> (\<forall>q \<in> set (db_balancings db). \<not> (cb_holderType q = VAULT \<and> cb_holderId q = bb_holderId b
         \<and> cb_balancingDate q = cb_balancingDate r))"
proof -
  have var: "round2 (nsub (cents k) (cents (va_balance v))) = cents (k - va_balance v)"
    by (rule round2_sub) (use assms(5,6) in auto)
  have off: "cents 1 \<le> \<bar>cents (k - va_balance v)\<bar> \<longleftrightarrow> k \<noteq> va_balance v"
  proof -
    have "\<bar>cents (k - va_balance v)\<bar> = cents \<bar>k - va_balance v\<bar>"
      using cents_minus [of "va_balance v - k"] cents_nonneg_iff [of "k - va_balance v"]
        cents_nonneg_iff [of "va_balance v - k"]
      by (cases "0 \<le> k - va_balance v") auto
    moreover have "cents 1 \<le> cents \<bar>k - va_balance v\<bar> \<longleftrightarrow> 1 \<le> \<bar>k - va_balance v\<bar>"
      by (rule cents_le_iff) (use assms(5,6) in auto)
    ultimately show ?thesis by auto
  qed
  have "getHolderBalance (bb_holderType b) (bb_holderId b) db = Some (cents (va_balance v))"
    using assms(2,3) by (simp add: getHolderBalance_def)
  moreover have "toDec2 (bb_countedAmount b) = k" "toDec2 (cents (va_balance v)) = va_balance v"
    "toDec2 (cents (k - va_balance v)) = k - va_balance v"
    using assms(4-6) by auto
  moreover have "round2 (nsub (bb_countedAmount b) (cents (va_balance v))) = cents (k - va_balance v)"
    using var assms(4) by simp
  ultimately show ?thesis
    using assms(1,2) off unfolding recordBalancing_def safeParse_def Let_def
    by (auto simp: fail_def audit_def requestApproval_def find_None_iff split: option.splits if_splits)
qed

definition sampleCount :: "cashBalancing resp \<times> cash_db" where
  "sampleCount = recordBalancing (\<lambda>_. ''-5'') sampleEnv (Some \<lparr>bb_holderType = VAULT, bb_holderId = ''v1'',
     bb_balancingDate = ''2023-11-14'', bb_countedAmount = cents 9500, bb_investigationNotes = Some ''short''\<rparr>)
     (sampleCashDb\<lparr>db_balancings := []\<rparr>)"

theorem balancing_honest_witness:
  "\<exists>c r. fst sampleCount = ROk c r \<and> cb_variance r = - 500 \<and> cb_status r = VARIANCE_PENDING_APPROVAL"
proof -
  have f: "find (\<lambda>v. va_id v = ''v1'') (db_vaults (sampleCashDb\<lparr>db_balancings := []\<rparr>)) = Some sampleVault"
    by (simp add: sampleCashDb_ok sampleVault_def)
  have "okResp (fst sampleCount)"
    using f by (simp add: sampleCount_def recordBalancing_def safeParse_def getHolderBalance_def sampleEnv_def Let_def)
  then obtain c r where cr: "sampleCount = (ROk c r, snd sampleCount)"
    by (metis okResp.elims(2) prod.collapse)
  have "cb_variance r = 9500 - va_balance sampleVault \<and> (cb_status r = RECONCILED \<longleftrightarrow> 9500 = va_balance sampleVault)"
    using balancing_honest [OF cr [unfolded sampleCount_def] _ _ , of sampleVault 9500] f
    by (simp add: sampleVault_def)
  moreover have "cb_status r = VARIANCE_PENDING_APPROVAL \<or> cb_status r = RECONCILED"
    by (cases "cb_status r") auto
  ultimately show ?thesis using cr by (auto simp: sampleVault_def) (metis fst_conv)
qed

end
