(* ===== verification/Access.thy ===== *)
theory Access
  imports Server
begin

text \<open>
  What stands between a request and its handler: the access token (\<open>middleware/auth.ts\<close>), the
  permission check (\<open>middleware/rbac.ts\<close>), idempotency keys (\<open>middleware/idempotency.ts\<close>), request
  ids, and what stands between a handler and the database: the stamping of every write
  (\<open>lib/prisma.ts\<close>) and the version check (\<open>lib/optimisticLock.ts\<close>).
\<close>

section \<open>Authentication and permissions\<close>

datatype userCategory = INTERNAL | EXTERNAL

record accessTokenPayload =
  tk_userId :: string
  tk_institutionId :: string
  tk_category :: userCategory

record role =
  ro_id :: string
  ro_institutionId :: "string option"
  ro_name :: string
  ro_category :: string
  ro_requireMfa :: bool
  ro_permissions :: "string list"

record userRole =
  ur_id :: string
  ur_userId :: string
  ur_roleId :: string
  ur_branchId :: "string option"
  ur_startsAt :: time
  ur_expiresAt :: "time option"

text \<open>\<open>verify\<close> is \<open>verifyAccessToken\<close>, \<open>None\<close> when it throws.\<close>

definition requireAuth :: "(string \<Rightarrow> accessTokenPayload option) \<Rightarrow> string option \<Rightarrow> terr + accessTokenPayload" where
  "requireAuth verify header =
     (case header of
        None \<Rightarrow> Inl (Http 401 ''Missing or malformed Authorization header'')
      | Some h \<Rightarrow>
          if \<not> startsWith h ''Bearer '' then Inl (Http 401 ''Missing or malformed Authorization header'')
          else orThrow (Http 401 ''Invalid or expired access token'') (verify (drop 7 h)))"

text \<open>\<open>expiresAt\<close> is null or in the future.\<close>

definition notExpired :: "time \<Rightarrow> userRole \<Rightarrow> bool" where
  "notExpired now ur = (case ur_expiresAt ur of None \<Rightarrow> True | Some e \<Rightarrow> now < e)"

definition inForce :: "time \<Rightarrow> string option \<Rightarrow> userRole \<Rightarrow> bool" where
  "inForce now branchId ur \<longleftrightarrow> ur_startsAt ur \<le> now \<and> notExpired now ur
     \<and> (truthy branchId \<longrightarrow> ur_branchId ur = branchId \<or> ur_branchId ur = None)"

definition roleOf :: "role list \<Rightarrow> userRole \<Rightarrow> role option" where
  "roleOf roles ur = find (\<lambda>r. ro_id r = ur_roleId ur) roles"

definition grants :: "role list \<Rightarrow> string \<Rightarrow> userRole \<Rightarrow> bool" where
  "grants roles perm ur = (case roleOf roles ur of None \<Rightarrow> False | Some r \<Rightarrow> perm \<in> set (ro_permissions r))"

definition requirePermission ::
  "string \<Rightarrow> time \<Rightarrow> string option \<Rightarrow> string option \<Rightarrow> role list \<Rightarrow> userRole list \<Rightarrow> accessTokenPayload \<Rightarrow> terr + unit" where
  "requirePermission perm now paramBranch bodyBranch roles urs auth =
     (let branchId = (if truthy paramBranch then paramBranch else bodyBranch);
          userRoles = filter (\<lambda>ur. ur_userId ur = tk_userId auth \<and> inForce now branchId ur) urs
      in require (list_ex (grants roles perm) userRoles) 403 (''Missing permission: '' @ perm))"

text \<open>A route: the two checks, then the handler.\<close>

definition protected ::
  "(string \<Rightarrow> accessTokenPayload option) \<Rightarrow> string option \<Rightarrow> string \<Rightarrow> time \<Rightarrow> string option \<Rightarrow> string option
    \<Rightarrow> role list \<Rightarrow> userRole list \<Rightarrow> (accessTokenPayload \<Rightarrow> 'd \<Rightarrow> 'a resp \<times> 'd) \<Rightarrow> 'd \<Rightarrow> 'a resp \<times> 'd" where
  "protected verify header perm now paramBranch bodyBranch roles urs handler d =
     (case bindE (requireAuth verify header) (\<lambda>auth.
        bindE (requirePermission perm now paramBranch bodyBranch roles urs auth) (\<lambda>_. Inr auth)) of
        Inl e \<Rightarrow> answerError e d
      | Inr auth \<Rightarrow> handler auth d)"

lemma answerError_refuses: "answerError e d = (r, d') \<Longrightarrow> \<not> okResp r \<and> d' = d"
  using answerError_db [of e d] by (metis fst_conv snd_conv)

text \<open>
  Claim C31. A route has an effect, or answers anything but an error, only for a bearer of a valid
  token whose user holds a role assignment that grants the permission, has started, has not
  expired, and is not scoped to another branch than the one the request names.
\<close>

theorem route_protected:
  assumes "protected verify header perm now pb bb roles urs handler d = (r, d')" and "okResp r \<or> d' \<noteq> d"
  shows "\<exists>h auth ur ro. header = Some h \<and> startsWith h ''Bearer '' \<and> verify (drop 7 h) = Some auth
    \<and> ur \<in> set urs \<and> ur_userId ur = tk_userId auth \<and> ur_startsAt ur \<le> now
    \<and> (case ur_expiresAt ur of None \<Rightarrow> True | Some e \<Rightarrow> now < e)
    \<and> (truthy pb \<longrightarrow> ur_branchId ur \<in> {None, pb})
    \<and> ro \<in> set roles \<and> ro_id ro = ur_roleId ur \<and> perm \<in> set (ro_permissions ro)"
proof -
  let ?b = "if truthy pb then pb else bb"
  obtain auth where a: "requireAuth verify header = Inr auth"
    and p: "requirePermission perm now pb bb roles urs auth = Inr ()"
    using assms by (cases "bindE (requireAuth verify header) (\<lambda>auth.
        bindE (requirePermission perm now pb bb roles urs auth) (\<lambda>_. Inr auth))")
      (auto simp: protected_def bindE_Inr_iff dest: answerError_refuses)
  obtain h where h: "header = Some h" "startsWith h ''Bearer ''" "verify (drop 7 h) = Some auth"
    using a by (auto simp: requireAuth_def split: option.splits if_splits)
  obtain ur where ur: "ur \<in> set urs" "ur_userId ur = tk_userId auth" "inForce now ?b ur" "grants roles perm ur"
    using p by (auto simp: requirePermission_def Let_def list_ex_iff)
  obtain ro where ro: "ro \<in> set roles" "ro_id ro = ur_roleId ur" "perm \<in> set (ro_permissions ro)"
    using ur(4) by (auto simp: grants_def roleOf_def split: option.splits dest!: find_SomeD)
  have "truthy pb \<longrightarrow> ur_branchId ur \<in> {None, pb}" using ur(3) by (auto simp: inForce_def)
  then show ?thesis using h ur ro by (auto simp: inForce_def notExpired_def)
qed

section \<open>Idempotency keys\<close>

text \<open>
  \<open>iq_key\<close> is the header \<open>Idempotency-Key\<close> when it is a string, \<open>iq_body\<close> the serialised body, and
  \<open>hash\<close> is SHA-256. A row with no response belongs to a request still running, or to one whose
  process died: a handler gives \<open>None\<close> when it never answers.
\<close>

record idemRequest =
  iq_institutionId :: string
  iq_userId :: string
  iq_endpoint :: string
  iq_key :: "string option"
  iq_body :: string

record 'a idemRow =
  ik_claim :: "string \<times> string \<times> string \<times> string"
  ik_requestHash :: string
  ik_response :: "'a resp option"

definition claimOf :: "idemRequest \<Rightarrow> string \<times> string \<times> string \<times> string" where
  "claimOf q = (iq_institutionId q, iq_userId q, iq_endpoint q, the (iq_key q))"

definition idempotent ::
  "(string \<Rightarrow> string) \<Rightarrow> idemRequest \<Rightarrow> ('d \<Rightarrow> 'a resp option \<times> 'd) \<Rightarrow> 'a idemRow list \<times> 'd
    \<Rightarrow> 'a resp option \<times> ('a idemRow list \<times> 'd)" where
  "idempotent hash q handler s = (case s of (rows, d) \<Rightarrow>
     if \<not> truthy (iq_key q) then (let (r, d') = handler d in (r, (rows, d')))
     else (let c = claimOf q; requestHash = hash (iq_body q) in
       case find (\<lambda>k. ik_claim k = c) rows of
         Some k \<Rightarrow>
           if ik_requestHash k \<noteq> requestHash
           then (Some (RErr 409 (Msg ''This idempotency key was already used for a request with a different body - use a new key for a genuinely different request.'')), s)
           else (case ik_response k of
               None \<Rightarrow> (Some (RErr 409 (Msg ''A request with this idempotency key is already in progress.'')), s)
             | Some r \<Rightarrow> (Some r, s))
       | None \<Rightarrow>
           (let rows' = rows @ [\<lparr>ik_claim = c, ik_requestHash = requestHash, ik_response = None\<rparr>];
                (r, d') = handler d
            in (r, (updWhere (\<lambda>k. ik_claim k = c) (\<lambda>k. k\<lparr>ik_response := r\<rparr>) rows', d')))))"

text \<open>Serving a sequence of requests, each with its handler.\<close>

fun serve :: "(string \<Rightarrow> string) \<Rightarrow> (idemRequest \<times> ('d \<Rightarrow> 'a resp option \<times> 'd)) list \<Rightarrow> 'a idemRow list \<times> 'd
    \<Rightarrow> 'a idemRow list \<times> 'd" where
  "serve hash [] s = s"
| "serve hash ((q, h) # qs) s = serve hash qs (snd (idempotent hash q h s))"

definition answered :: "string \<times> string \<times> string \<times> string \<Rightarrow> string \<Rightarrow> 'a resp \<Rightarrow> 'a idemRow list \<Rightarrow> bool" where
  "answered c h r rows \<longleftrightarrow> find (\<lambda>k. ik_claim k = c) rows = Some \<lparr>ik_claim = c, ik_requestHash = h, ik_response = Some r\<rparr>"

lemma idempotent_keeps:
  fixes s :: "'a idemRow list \<times> 'd"
  assumes "answered c h r (fst s)"
  shows "answered c h r (fst (snd (idempotent hash q handler s)))"
proof (cases "truthy (iq_key q) \<and> find (\<lambda>k. ik_claim k = claimOf q) (fst s) = None")
  case True
  then have ne: "claimOf q \<noteq> c" using assms by (auto simp: answered_def)
  have "find (\<lambda>k. ik_claim k = c) (updWhere (\<lambda>k. ik_claim k = claimOf q) (\<lambda>k. k\<lparr>ik_response := z\<rparr>) t)
      = find (\<lambda>k. ik_claim k = c) t" for z and t :: "'a idemRow list"
    by (rule find_updWhere_other) (use ne in auto)
  then show ?thesis using assms True ne
    by (cases s) (auto simp: idempotent_def answered_def split_beta Let_def find_append split: option.splits)
next
  case False
  then show ?thesis using assms
    by (cases s) (auto simp: idempotent_def Let_def split_beta split: option.split)
qed

lemma serve_keeps: "answered c h r (fst s) \<Longrightarrow> answered c h r (fst (serve hash qs s))"
  by (induction hash qs s rule: serve.induct) (simp_all add: idempotent_keeps)

lemma idempotent_answers:
  assumes "idempotent hash q handler s = (Some r, s1)" and "truthy (iq_key q)"
    and "find (\<lambda>k. ik_claim k = claimOf q) (fst s) = None"
  shows "answered (claimOf q) (hash (iq_body q)) r (fst s1)"
  using assms
  by (cases s) (auto simp: idempotent_def answered_def Let_def split_beta find_append find_updWhere_same
      split: option.splits)

text \<open>
  Claim C30. Once a request with a fresh idempotency key has been answered, then whatever other
  requests follow, sending it again gives the same answer and changes nothing, whatever the handler
  would do now; and the same key with another body is refused and changes nothing.
\<close>

theorem idempotent_replay:
  assumes "idempotent hash q handler s = (Some r, s1)" and "truthy (iq_key q)"
    and "find (\<lambda>k. ik_claim k = claimOf q) (fst s) = None"
  shows "idempotent hash q handler' (serve hash qs s1) = (Some r, serve hash qs s1)
    \<and> (hash body \<noteq> hash (iq_body q) \<longrightarrow>
        (\<exists>m. idempotent hash (q\<lparr>iq_body := body\<rparr>) handler' (serve hash qs s1) = (Some (RErr 409 m), serve hash qs s1)))"
proof -
  obtain rows d where s2: "serve hash qs s1 = (rows, d)" by force
  have "answered (claimOf q) (hash (iq_body q)) r rows"
    using serve_keeps [OF idempotent_answers [OF assms], of hash qs] by (simp add: s2)
  moreover have "claimOf (q\<lparr>iq_body := body\<rparr>) = claimOf q" by (simp add: claimOf_def)
  ultimately show ?thesis using assms(2) by (simp add: s2 idempotent_def answered_def Let_def)
qed

section \<open>Request ids\<close>

definition requestCorrelation :: "string option \<Rightarrow> string \<Rightarrow> string" where
  "requestCorrelation incoming fresh = (case incoming of
      Some i \<Rightarrow> if 0 < length i \<and> length i < 200 then i else fresh
    | None \<Rightarrow> fresh)"

section \<open>Stamped writes and the version check\<close>

text \<open>
  The audit columns of a table that has them, and the data of a write: \<open>None\<close> is a field the write
  does not mention, and a nullable field can be set to null.
\<close>

datatype recordStatus = RS_ACTIVE | RS_ARCHIVED | RS_DELETED

record auditColumns =
  ac_createdById :: "string option"
  ac_updatedById :: "string option"
  ac_deletedAt :: "time option"
  ac_deletedById :: "string option"
  ac_versionNo :: int
  ac_recordStatus :: recordStatus
  ac_archived :: bool

record writeData =
  wd_createdById :: "string option"
  wd_updatedById :: "string option"
  wd_deletedAt :: "time option option"
  wd_deletedById :: "string option option"
  wd_versionIncrement :: "int option"
  wd_recordStatus :: "recordStatus option"
  wd_archived :: "bool option"

datatype prismaCall =
    PCreate writeData
  | PUpdate writeData
  | PUpsert writeData writeData
  | POther

definition stampCreate :: "string option \<Rightarrow> writeData \<Rightarrow> writeData" where
  "stampCreate user d = (if truthy user then d\<lparr>wd_createdById := user, wd_updatedById := user\<rparr> else d)"

definition stampUpdate :: "string option \<Rightarrow> writeData \<Rightarrow> writeData" where
  "stampUpdate user d =
     (let d1 = d\<lparr>wd_versionIncrement := Some 1\<rparr>;
          d2 = (if truthy user then d1\<lparr>wd_updatedById := user\<rparr> else d1);
          d3 = (if wd_archived d2 = Some True then d2\<lparr>wd_recordStatus := Some RS_ARCHIVED\<rparr> else d2)
      in case wd_deletedAt d3 of
           Some (Some t) \<Rightarrow>
             (let d4 = d3\<lparr>wd_recordStatus := Some RS_DELETED\<rparr> in
              if truthy user \<and> \<not> truthy (case wd_deletedById d4 of None \<Rightarrow> None | Some i \<Rightarrow> i)
              then d4\<lparr>wd_deletedById := Some user\<rparr> else d4)
         | _ \<Rightarrow> d3)"

fun stampCall :: "string option \<Rightarrow> prismaCall \<Rightarrow> prismaCall" where
  "stampCall user (PCreate d) = PCreate (stampCreate user d)"
| "stampCall user (PUpdate d) = PUpdate (stampUpdate user d)"
| "stampCall user (PUpsert c u) = (if truthy user
     then PUpsert (c\<lparr>wd_createdById := user, wd_updatedById := user\<rparr>) (u\<lparr>wd_updatedById := user, wd_versionIncrement := Some 1\<rparr>)
     else PUpsert c u)"
| "stampCall user POther = POther"

text \<open>What the database makes of an update.\<close>

definition setOr :: "'a option \<Rightarrow> 'a \<Rightarrow> 'a" where
  "setOr new old = (case new of None \<Rightarrow> old | Some x \<Rightarrow> x)"

definition applyData :: "writeData \<Rightarrow> auditColumns \<Rightarrow> auditColumns" where
  "applyData d r = r\<lparr>
     ac_createdById := (if wd_createdById d = None then ac_createdById r else wd_createdById d),
     ac_updatedById := (if wd_updatedById d = None then ac_updatedById r else wd_updatedById d),
     ac_deletedAt := setOr (wd_deletedAt d) (ac_deletedAt r),
     ac_deletedById := setOr (wd_deletedById d) (ac_deletedById r),
     ac_versionNo := ac_versionNo r + setOr (wd_versionIncrement d) 0,
     ac_recordStatus := setOr (wd_recordStatus d) (ac_recordStatus r),
     ac_archived := setOr (wd_archived d) (ac_archived r)\<rparr>"

fun runUpdate :: "string option \<Rightarrow> writeData \<Rightarrow> auditColumns \<Rightarrow> auditColumns" where
  "runUpdate user d r = (case stampCall user (PUpdate d) of PUpdate d' \<Rightarrow> applyData d' r | _ \<Rightarrow> r)"

text \<open>\<open>Inl v\<close> is the \<open>VersionConflictError\<close> with the current version.\<close>

definition checkVersion :: "auditColumns option \<Rightarrow> int option \<Rightarrow> int + unit" where
  "checkVersion current expectedVersion =
     (case (expectedVersion, current) of
        (Some v, Some r) \<Rightarrow> if ac_versionNo r \<noteq> v then Inl (ac_versionNo r) else Inr ()
      | _ \<Rightarrow> Inr ())"

lemma stampUpdate_version: "wd_versionIncrement (stampUpdate user d) = Some 1"
  by (auto simp: stampUpdate_def Let_def split: option.splits)

lemma runUpdate_version: "ac_versionNo (runUpdate user d r) = ac_versionNo r + 1"
  by (simp add: applyData_def setOr_def stampUpdate_version)

lemma runUpdates_version:
  "ac_versionNo (foldl (\<lambda>r (user, d). runUpdate user d r) r us) = ac_versionNo r + int (length us)"
  by (induction us arbitrary: r) (auto simp: runUpdate_version simp del: runUpdate.simps)

text \<open>
  No update is lost silently: an edit that carries the version its author loaded passes
  the check when nobody changed the record since, and is refused with the current version when the
  record was updated once or more in between, whatever those updates wrote.
\<close>

theorem optimistic_lock_detects:
  "checkVersion (Some (foldl (\<lambda>r (user, d). runUpdate user d r) loaded updates)) (Some (ac_versionNo loaded))
    = (if updates = [] then Inr () else Inl (ac_versionNo loaded + int (length updates)))"
  using runUpdates_version [of loaded updates] by (simp add: checkVersion_def)

text \<open>Deleting a record softly marks it so and signs it, whoever else is named.\<close>

lemma soft_delete_signed:
  assumes "wd_deletedAt d = Some (Some t)" and "wd_deletedById d = None" and "u \<noteq> []"
  shows "ac_recordStatus (runUpdate (Some u) d r) = RS_DELETED \<and> ac_deletedById (runUpdate (Some u) d r) = Some u
    \<and> ac_deletedAt (runUpdate (Some u) d r) = Some t"
  using assms by (auto simp: stampUpdate_def Let_def applyData_def setOr_def)

section \<open>Samples\<close>

definition sampleAuth :: accessTokenPayload where
  "sampleAuth = \<lparr>tk_userId = ''u1'', tk_institutionId = ''i1'', tk_category = INTERNAL\<rparr>"

definition sampleRole :: role where
  "sampleRole = \<lparr>ro_id = ''r1'', ro_institutionId = Some ''i1'', ro_name = ''Teller'', ro_category = ''OPERATIONAL'', ro_requireMfa = False,
     ro_permissions = [''reports.view'']\<rparr>"

definition sampleUserRole :: userRole where
  "sampleUserRole = \<lparr>ur_id = ''x1'', ur_userId = ''u1'', ur_roleId = ''r1'', ur_branchId = None, ur_startsAt = 0,
     ur_expiresAt = Some 100\<rparr>"

theorem route_protected_witness:
  "protected (\<lambda>t. Some sampleAuth) (Some ''Bearer t'') ''reports.view'' 99 None None [sampleRole] [sampleUserRole]
      (\<lambda>a d. (ROk 200 (), Suc d)) 0 = (ROk 200 (), 1)
    \<and> (\<exists>ur. ur_userId ur = ''u1'' \<and> ur \<in> {sampleUserRole})"
proof
  show run: "protected (\<lambda>t. Some sampleAuth) (Some ''Bearer t'') ''reports.view'' 99 None None [sampleRole] [sampleUserRole]
      (\<lambda>a d. (ROk 200 (), Suc d)) 0 = (ROk 200 (), 1)"
    by (simp add: protected_def requireAuth_def requirePermission_def require_def inForce_def notExpired_def grants_def
        roleOf_def sampleAuth_def sampleRole_def sampleUserRole_def)
  show "\<exists>ur. ur_userId ur = ''u1'' \<and> ur \<in> {sampleUserRole}"
    using route_protected [OF run] by (auto simp: sampleUserRole_def sampleAuth_def)
qed

definition sampleIdem :: "idemRequest" where
  "sampleIdem = \<lparr>iq_institutionId = ''i1'', iq_userId = ''u1'', iq_endpoint = ''/pay'', iq_key = Some ''k'', iq_body = ''b''\<rparr>"

theorem idempotent_replay_witness:
  "idempotent id sampleIdem (\<lambda>d. (Some (ROk 201 ()), Suc d)) (snd (idempotent id sampleIdem (\<lambda>d. (Some (ROk 201 ()), Suc d)) ([], 5)))
    = (Some (ROk 201 ()), snd (idempotent id sampleIdem (\<lambda>d. (Some (ROk 201 ()), Suc d)) ([], 5)))"
proof -
  define s1 where "s1 = snd (idempotent id sampleIdem (\<lambda>d. (Some (ROk 201 ()), Suc d)) ([], 5))"
  have "idempotent id sampleIdem (\<lambda>d. (Some (ROk 201 ()), Suc d)) ([], 5) = (Some (ROk 201 ()), s1)"
    by (simp add: s1_def idempotent_def sampleIdem_def Let_def)
  from idempotent_replay [OF this, where qs = "[]" and handler' = "\<lambda>d. (Some (ROk 201 ()), Suc d)"]
  show ?thesis by (simp add: s1_def [symmetric]) (simp add: sampleIdem_def)
qed

end
