(* ===== verification/Security.thy ===== *)
theory Security
  imports Server
begin

text \<open>
  Secrets: the helpers of \<open>lib/security.ts\<close> (expiry dates, password policy, backup codes, encryption
  of the MFA secret at rest) and the boot check of \<open>lib/startupSecrets.ts\<close>. The cryptographic
  functions of Node and bcrypt are parameters. Buffers are strings of bytes, and a string is taken
  with its UTF-8 bytes.
\<close>

section \<open>Policy constants and dates\<close>

definition PASSWORD_MIN_LENGTH :: nat where "PASSWORD_MIN_LENGTH = 12"
definition PASSWORD_MAX_LENGTH :: nat where "PASSWORD_MAX_LENGTH = 128"
definition PASSWORD_HISTORY_DEPTH :: nat where "PASSWORD_HISTORY_DEPTH = 5"
definition PASSWORD_EXPIRY_DAYS :: int where "PASSWORD_EXPIRY_DAYS = 90"
definition FAILED_ATTEMPT_THRESHOLD :: int where "FAILED_ATTEMPT_THRESHOLD = 5"
definition LOCKOUT_DURATION_MINUTES :: int where "LOCKOUT_DURATION_MINUTES = 30"
definition DEVICE_TRUST_DURATION_DAYS :: int where "DEVICE_TRUST_DURATION_DAYS = 30"

definition passwordExpiryDate :: "time \<Rightarrow> time" where
  "passwordExpiryDate from = from + PASSWORD_EXPIRY_DAYS * 24 * 60 * 60 * 1000"

definition lockoutExpiryDate :: "time \<Rightarrow> time" where
  "lockoutExpiryDate from = from + LOCKOUT_DURATION_MINUTES * 60 * 1000"

definition deviceTrustExpiryDate :: "time \<Rightarrow> time" where
  "deviceTrustExpiryDate from = from + DEVICE_TRUST_DURATION_DAYS * 24 * 60 * 60 * 1000"

text \<open>The error message, if the length is wrong.\<close>

definition validatePasswordLength :: "string \<Rightarrow> string option" where
  "validatePasswordLength p =
     (if length p < PASSWORD_MIN_LENGTH then Some (''Password must be at least '' @ showNat PASSWORD_MIN_LENGTH @ '' characters.'')
      else if PASSWORD_MAX_LENGTH < length p then Some (''Password must be at most '' @ showNat PASSWORD_MAX_LENGTH @ '' characters.'')
      else None)"

text \<open>\<open>compare p h\<close> is \<open>bcrypt.compare\<close>.\<close>

definition isPasswordReused :: "(string \<Rightarrow> string \<Rightarrow> bool) \<Rightarrow> string \<Rightarrow> string list \<Rightarrow> bool" where
  "isPasswordReused compare newPassword historyHashes = list_ex (compare newPassword) historyHashes"

section \<open>Hexadecimal\<close>

definition hexDigit :: "nat \<Rightarrow> char" where
  "hexDigit n = (if n < 10 then char_of (48 + n) else char_of (87 + n))"

definition hexVal :: "char \<Rightarrow> nat option" where
  "hexVal c = (let n = code c in
     if 48 \<le> n \<and> n \<le> 57 then Some (n - 48)
     else if 97 \<le> n \<and> n \<le> 102 then Some (n - 87)
     else if 65 \<le> n \<and> n \<le> 70 then Some (n - 55)
     else None)"

definition toHex :: "string \<Rightarrow> string" where
  "toHex b = concat (map (\<lambda>c. [hexDigit (code c div 16), hexDigit (code c mod 16)]) b)"

text \<open>\<open>Buffer.from(s, "hex")\<close> stops at the first pair that is not hexadecimal.\<close>

fun fromHex :: "string \<Rightarrow> string" where
  "fromHex (a # b # s) = (case (hexVal a, hexVal b) of
      (Some x, Some y) \<Rightarrow> char_of (16 * x + y) # fromHex s
    | _ \<Rightarrow> [])"
| "fromHex s = []"

lemma code_bound: "code c < 256"
  unfolding code_def by (cases c) (simp add: of_char_def horner_sum_simps)

lemma hexVal_hexDigit: "n < 16 \<Longrightarrow> hexVal (hexDigit n) = Some n"
  by (auto simp: hexVal_def hexDigit_def code_def Let_def of_char_of)

lemma fromHex_toHex: "fromHex (toHex b) = b"
proof (induction b)
  case (Cons c b)
  have "code c div 16 < 16" using code_bound [of c] by simp
  moreover have "char_of (16 * (code c div 16) + code c mod 16) = c" by (simp add: code_def)
  ultimately show ?case using Cons by (simp add: toHex_def hexVal_hexDigit)
qed (simp add: toHex_def)

lemma hexDigit_colon: "n < 16 \<Longrightarrow> hexDigit n \<noteq> CHR '':''"
proof -
  assume "n < 16"
  then have "code (hexDigit n) \<noteq> 58" by (auto simp: hexDigit_def code_def of_char_of)
  then show ?thesis by (auto simp: code_def)
qed

lemma toHex_colon: "CHR '':'' \<notin> set (toHex b)"
proof -
  have "CHR '':'' \<noteq> hexDigit (code c div 16)" "CHR '':'' \<noteq> hexDigit (code c mod 16)" for c
    using hexDigit_colon [of "code c div 16"] hexDigit_colon [of "code c mod 16"] code_bound [of c] less_mult_imp_div_less [of "code c" 16 16]
    by simp_all
  then show ?thesis by (auto simp: toHex_def)
qed

lemma toHex_Nil [simp]: "toHex b = [] \<longleftrightarrow> b = []"
  by (cases b) (simp_all add: toHex_def)

lemma fromHex_length:
  assumes "list_all (\<lambda>c. hexVal c \<noteq> None) s"
  shows "length (fromHex s) = length s div 2"
  using assms by (induction s rule: fromHex.induct) auto

section \<open>The MFA secret at rest\<close>

text \<open>
  AES-256-GCM: \<open>gcm_enc key iv plaintext\<close> is the ciphertext with its authentication tag, and
  \<open>gcm_dec key iv tag ciphertext\<close> is \<open>None\<close> when Node throws.
\<close>

record gcm =
  gcm_enc :: "string \<Rightarrow> string \<Rightarrow> string \<Rightarrow> string \<times> string"
  gcm_dec :: "string \<Rightarrow> string \<Rightarrow> string \<Rightarrow> string \<Rightarrow> string option"

text \<open>\<open>rawKey\<close> is \<open>process.env.MFA_ENCRYPTION_KEY || ""\<close>. Errors are exceptions here.\<close>

definition getKey :: "string \<Rightarrow> terr + string" where
  "getKey rawKey =
     (if rawKey = [] then Inl Thrown
      else (let key = fromHex rawKey in if length key \<noteq> 32 then Inl Thrown else Inr key))"

text \<open>\<open>iv\<close> is what \<open>crypto.randomBytes(12)\<close> returned.\<close>

definition encryptSecret :: "gcm \<Rightarrow> string \<Rightarrow> string \<Rightarrow> string \<Rightarrow> terr + string" where
  "encryptSecret g rawKey iv plaintext =
     bindE (getKey rawKey) (\<lambda>key.
       let (encrypted, authTag) = gcm_enc g key iv plaintext
       in Inr (toHex iv @ '':'' @ toHex authTag @ '':'' @ toHex encrypted))"

fun splitOn :: "char \<Rightarrow> string \<Rightarrow> string list" where
  "splitOn d [] = [[]]"
| "splitOn d (c # s) = (if c = d then [] # splitOn d s
     else (case splitOn d s of [] \<Rightarrow> [[c]] | p # ps \<Rightarrow> (c # p) # ps))"

definition decryptSecret :: "gcm \<Rightarrow> string \<Rightarrow> string \<Rightarrow> terr + string" where
  "decryptSecret g rawKey stored =
     (case splitOn (CHR '':'') stored of
        ivHex # authTagHex # dataHex # _ \<Rightarrow>
          if ivHex = [] \<or> authTagHex = [] \<or> dataHex = [] then Inl Thrown
          else bindE (getKey rawKey) (\<lambda>key.
            orThrow Thrown (gcm_dec g key (fromHex ivHex) (fromHex authTagHex) (fromHex dataHex)))
      | _ \<Rightarrow> Inl Thrown)"

lemma splitOn_append: "d \<notin> set s \<Longrightarrow> splitOn d (s @ d # t) = s # splitOn d t"
  by (induction s) auto

lemma splitOn_none: "d \<notin> set s \<Longrightarrow> splitOn d s = [s]"
  by (induction s) auto

text \<open>What the cipher promises: decrypting undoes encrypting, and it keeps lengths.\<close>

definition gcm_ok :: "gcm \<Rightarrow> bool" where
  "gcm_ok g \<longleftrightarrow> (\<forall>k iv p. gcm_dec g k iv (snd (gcm_enc g k iv p)) (fst (gcm_enc g k iv p)) = Some p
     \<and> length (fst (gcm_enc g k iv p)) = length p \<and> length (snd (gcm_enc g k iv p)) = 16)"

text \<open>
  Claim C34. A stored secret decrypts to what was encrypted, under any key of the right format and
  any initialisation vector, except that an empty secret cannot be read back.
\<close>

theorem mfa_secret_roundtrip:
  assumes "gcm_ok g" and "encryptSecret g rawKey iv p = Inr stored" and "iv \<noteq> []"
  shows "decryptSecret g rawKey stored = (if p = [] then Inl Thrown else Inr p)"
proof -
  obtain k where k: "getKey rawKey = Inr k" using assms(2) by (auto simp: encryptSecret_def bindE_Inr_iff)
  obtain c t where ct: "gcm_enc g k iv p = (c, t)" by force
  have ok: "gcm_dec g k iv t c = Some p" "length c = length p" "length t = 16"
    using assms(1) ct by (auto simp: gcm_ok_def dest: spec [of _ k] spec [of _ iv] spec [of _ p])
      (metis fst_conv snd_conv)+
  have s: "stored = toHex iv @ CHR '':'' # toHex t @ CHR '':'' # toHex c"
    using assms(2) k ct by (simp add: encryptSecret_def)
  have "splitOn (CHR '':'') stored = [toHex iv, toHex t, toHex c]"
    by (simp add: s splitOn_append splitOn_none toHex_colon)
  moreover have "t \<noteq> []" "c = [] \<longleftrightarrow> p = []" using ok by auto
  ultimately show ?thesis using k ok assms(3) by (simp add: decryptSecret_def fromHex_toHex)
qed

definition sampleGcm :: gcm where
  "sampleGcm = \<lparr>gcm_enc = (\<lambda>k iv p. (p, replicate 16 CHR ''t'')), gcm_dec = (\<lambda>k iv t c. Some c)\<rparr>"

definition sampleKey :: string where
  "sampleKey = replicate 64 CHR ''0''"

lemma sampleKey_get: "getKey sampleKey = Inr (replicate 32 (char_of (0::nat)))"
  by (simp add: getKey_def sampleKey_def numeral_eq_Suc hexVal_def code_def Let_def of_char_def)

theorem mfa_secret_roundtrip_witness:
  "bindE (encryptSecret sampleGcm sampleKey (replicate 12 CHR ''v'') ''JBSWY3DP'') (decryptSecret sampleGcm sampleKey) = Inr ''JBSWY3DP''"
proof -
  have ok: "gcm_ok sampleGcm" by (simp add: gcm_ok_def sampleGcm_def)
  obtain st where st: "encryptSecret sampleGcm sampleKey (replicate 12 CHR ''v'') ''JBSWY3DP'' = Inr st"
    by (simp add: encryptSecret_def sampleKey_get split_beta)
  show ?thesis using mfa_secret_roundtrip [OF ok st] by (simp add: st)
qed

section \<open>Backup codes\<close>

definition upperChar :: "char \<Rightarrow> char" where
  "upperChar c = (let n = code c in
     if 97 \<le> n \<and> n \<le> 122 \<or> 224 \<le> n \<and> n \<le> 254 \<and> n \<noteq> 247 then char_of (n - 32) else c)"

definition toUpper :: "string \<Rightarrow> string" where "toUpper = map upperChar"

text \<open>\<open>s.match(/.{1,5}/g)\<close>.\<close>

fun chunks5 :: "string \<Rightarrow> string list" where
  "chunks5 [] = []"
| "chunks5 s = take 5 s # chunks5 (drop 5 s)"

fun joinWith :: "string \<Rightarrow> string list \<Rightarrow> string" where
  "joinWith sep [] = []"
| "joinWith sep [s] = s"
| "joinWith sep (s # t # r) = s @ sep @ joinWith sep (t # r)"

text \<open>The random bytes, five for each code, are an argument.\<close>

definition generateBackupCodes :: "string list \<Rightarrow> string list" where
  "generateBackupCodes random = map (\<lambda>b. joinWith ''-'' (chunks5 (toUpper (toHex b)))) random"

definition hashBackupCodes :: "(string \<Rightarrow> string) \<Rightarrow> string list \<Rightarrow> string list" where
  "hashBackupCodes hash codes = map hash codes"

fun consumeFirst :: "(string \<Rightarrow> bool) \<Rightarrow> string list \<Rightarrow> bool \<times> string list" where
  "consumeFirst ok [] = (False, [])"
| "consumeFirst ok (h # hs) = (if ok h then (True, hs)
     else (let (m, r) = consumeFirst ok hs in (m, h # r)))"

definition matchAndConsumeBackupCode :: "(string \<Rightarrow> string \<Rightarrow> bool) \<Rightarrow> string \<Rightarrow> string list \<Rightarrow> bool \<times> string list" where
  "matchAndConsumeBackupCode compare suppliedCode hashedCodes =
     consumeFirst (compare (toUpper (trim suppliedCode))) hashedCodes"

lemma consumeFirst_miss: "\<not> fst (consumeFirst ok hs) \<Longrightarrow> snd (consumeFirst ok hs) = hs \<and> countWhere ok hs = 0"
  by (induction hs) (auto simp: split_beta split: if_splits)

lemma consumeFirst_hit:
  "fst (consumeFirst ok hs) \<Longrightarrow> Suc (countWhere ok (snd (consumeFirst ok hs))) = countWhere ok hs
    \<and> Suc (length (snd (consumeFirst ok hs))) = length hs"
  by (induction hs) (auto simp: split_beta split: if_splits)

text \<open>How many of a sequence of attempts with one code succeed.\<close>

fun acceptances :: "(string \<Rightarrow> string \<Rightarrow> bool) \<Rightarrow> string \<Rightarrow> nat \<Rightarrow> string list \<Rightarrow> nat" where
  "acceptances compare c 0 hs = 0"
| "acceptances compare c (Suc n) hs = (let (m, r) = matchAndConsumeBackupCode compare c hs
     in (if m then 1 else 0) + acceptances compare c n r)"

text \<open>
  A backup code is single use: however often it is tried, it is accepted at most as many
  times as there are stored hashes it matches, so once when only one hash matches it.
\<close>

theorem backup_code_single_use:
  "acceptances compare c n hs = min n (countWhere (compare (toUpper (trim c))) hs)"
proof (induction n arbitrary: hs)
  case (Suc n)
  show ?case
  proof (cases "fst (matchAndConsumeBackupCode compare c hs)")
    case True
    then show ?thesis
      using Suc consumeFirst_hit [of "compare (toUpper (trim c))" hs]
      by (auto simp: split_beta matchAndConsumeBackupCode_def)
  next
    case False
    then show ?thesis
      using Suc consumeFirst_miss [of "compare (toUpper (trim c))" hs]
      by (auto simp: split_beta matchAndConsumeBackupCode_def simp del: countWhere_eq_0_iff)
  qed
qed simp

section \<open>The boot check\<close>

definition DEV_FALLBACKS :: "string list" where
  "DEV_FALLBACKS = [''dev-access-secret'', ''dev-refresh-secret'', ''dev-demo-link-secret'', ''dev-mfa-pending-secret'']"

definition MIN_SECRET_LENGTH :: nat where "MIN_SECRET_LENGTH = 32"

record requiredSecret =
  rs_envVar :: string
  rs_purpose :: string
  rs_validate :: "(string \<Rightarrow> string option) option"

text \<open>\<open>/^[0-9a-f]{64}$/i.test(value)\<close>.\<close>

definition hex64 :: "string \<Rightarrow> bool" where
  "hex64 v \<longleftrightarrow> length v = 64 \<and> list_all (\<lambda>c. hexVal c \<noteq> None) v"

definition generateHint :: string where
  "generateHint = ''Generate one with: node -e '' @ CHR 0x22 # ''console.log(require('' @ CHR 0x27 # ''crypto'' @ CHR 0x27
     # '').randomBytes(32).toString('' @ CHR 0x27 # ''hex'' @ CHR 0x27 # ''))'' @ [CHR 0x22]"

definition validateMfaKey :: "string \<Rightarrow> string option" where
  "validateMfaKey v = (if hex64 v then None
     else Some (''must be exactly 64 hex characters (32 bytes), got '' @ showNat (length v) @ '' character(s). '' @ generateHint))"

definition REQUIRED_SECRETS :: "requiredSecret list" where
  "REQUIRED_SECRETS =
     [\<lparr>rs_envVar = ''JWT_ACCESS_SECRET'', rs_purpose = ''access token signing'', rs_validate = None\<rparr>,
      \<lparr>rs_envVar = ''JWT_REFRESH_SECRET'', rs_purpose = ''refresh token signing'', rs_validate = None\<rparr>,
      \<lparr>rs_envVar = ''MFA_PENDING_SECRET'', rs_purpose = ''MFA-pending token signing'', rs_validate = None\<rparr>,
      \<lparr>rs_envVar = ''MFA_ENCRYPTION_KEY'', rs_purpose = ''MFA secret encryption'', rs_validate = Some validateMfaKey\<rparr>]"

text \<open>One round of the loop: the problem with this secret, if there is one.\<close>

definition secretProblem :: "(string \<Rightarrow> string option) \<Rightarrow> requiredSecret \<Rightarrow> string option" where
  "secretProblem environ s =
     (if \<not> truthy (environ (rs_envVar s)) then Some (rs_envVar s @ '' is not set (needed for '' @ rs_purpose s @ '').'')
      else (let v = the (environ (rs_envVar s)) in
        if v \<in> set DEV_FALLBACKS
        then Some (rs_envVar s @ '' is set to a known development placeholder value - this must never run in production.'')
        else (case rs_validate s of
            Some f \<Rightarrow> map_option (\<lambda>p. rs_envVar s @ '' '' @ p) (f v)
          | None \<Rightarrow>
              if length v < MIN_SECRET_LENGTH
              then Some (rs_envVar s @ '' is only '' @ showNat (length v) @ '' characters - needs to be at least ''
                @ showNat MIN_SECRET_LENGTH @ '' for adequate entropy. '' @ generateHint)
              else None)))"

text \<open>The value is the exception's message, or \<open>None\<close> when the process may start.\<close>

definition validateProductionSecrets :: "string option \<Rightarrow> (string \<Rightarrow> string option) \<Rightarrow> string option" where
  "validateProductionSecrets nodeEnv environ =
     (if nodeEnv \<noteq> Some ''production'' then None
      else (case List.map_filter (secretProblem environ) REQUIRED_SECRETS of
          [] \<Rightarrow> None
        | problems \<Rightarrow> Some (''Refusing to start in production with insecure secrets:'' @ CHR 0x0A
            # joinWith [CHR 0x0A] (map (\<lambda>p. ''  - '' @ p) problems))))"

definition signingSecret :: "string option \<Rightarrow> bool" where
  "signingSecret v \<longleftrightarrow> (\<exists>s. v = Some s \<and> MIN_SECRET_LENGTH \<le> length s \<and> s \<notin> set DEV_FALLBACKS)"

lemma map_filter_Nil: "List.map_filter f xs = [] \<longleftrightarrow> (\<forall>x \<in> set xs. f x = None)"
  by (auto simp: List.map_filter_def filter_empty_conv)

lemma validateProductionSecrets_None:
  "validateProductionSecrets (Some ''production'') environ = None \<longleftrightarrow> (\<forall>s \<in> set REQUIRED_SECRETS. secretProblem environ s = None)"
  unfolding validateProductionSecrets_def using map_filter_Nil [of "secretProblem environ" REQUIRED_SECRETS]
  by (cases "List.map_filter (secretProblem environ) REQUIRED_SECRETS") auto

lemma secretProblem_signing:
  "secretProblem environ \<lparr>rs_envVar = e, rs_purpose = p, rs_validate = None\<rparr> = None \<longleftrightarrow> signingSecret (environ e)"
  by (cases "environ e") (auto simp: secretProblem_def signingSecret_def MIN_SECRET_LENGTH_def truthy_def Let_def)

lemma hex64_no_fallback: "hex64 v \<Longrightarrow> v \<noteq> [] \<and> v \<notin> set DEV_FALLBACKS"
  by (auto simp: hex64_def DEV_FALLBACKS_def)

lemma secretProblem_mfa:
  "secretProblem environ \<lparr>rs_envVar = e, rs_purpose = p, rs_validate = Some validateMfaKey\<rparr> = None
    \<longleftrightarrow> (\<exists>v. environ e = Some v \<and> hex64 v)"
  using hex64_no_fallback
  by (cases "environ e") (auto simp: secretProblem_def validateMfaKey_def truthy_def Let_def split: if_splits)

text \<open>
  A production process starts exactly when the three signing secrets are set, are not
  development placeholders and have at least 32 characters, and the MFA key is 64 hexadecimal
  digits; and when it starts, the key that the encryption of MFA secrets asks for later is there
  with its 32 bytes, so no request fails for want of it.
\<close>

theorem startup_secrets_guard:
  "(validateProductionSecrets (Some ''production'') environ = None \<longleftrightarrow>
      signingSecret (environ ''JWT_ACCESS_SECRET'') \<and> signingSecret (environ ''JWT_REFRESH_SECRET'')
      \<and> signingSecret (environ ''MFA_PENDING_SECRET'') \<and> (\<exists>v. environ ''MFA_ENCRYPTION_KEY'' = Some v \<and> hex64 v))
   \<and> (validateProductionSecrets (Some ''production'') environ = None \<longrightarrow>
      (\<exists>k. getKey (the (environ ''MFA_ENCRYPTION_KEY'')) = Inr k \<and> length k = 32))"
proof -
  have key: "\<exists>k. getKey v = Inr k \<and> length k = 32" if "hex64 v" for v
    using that fromHex_length [of v] by (auto simp: getKey_def hex64_def Let_def)
  show ?thesis
    unfolding validateProductionSecrets_None REQUIRED_SECRETS_def
    using key by (auto simp: secretProblem_signing secretProblem_mfa)
qed

definition sampleSecrets :: "string \<Rightarrow> string option" where
  "sampleSecrets e = (if e = ''MFA_ENCRYPTION_KEY'' then Some sampleKey else Some (replicate 40 CHR ''s''))"

theorem startup_secrets_guard_witness:
  "\<exists>k. getKey (the (sampleSecrets ''MFA_ENCRYPTION_KEY'')) = Inr k \<and> length k = 32"
proof -
  have "signingSecret (Some (replicate 40 CHR ''s''))"
    by (simp add: signingSecret_def MIN_SECRET_LENGTH_def DEV_FALLBACKS_def numeral_eq_Suc)
  moreover have "hex64 sampleKey"
    by (simp add: hex64_def sampleKey_def list_all_iff hexVal_def code_def Let_def)
  ultimately have "validateProductionSecrets (Some ''production'') sampleSecrets = None"
    using startup_secrets_guard [of sampleSecrets] by (simp add: sampleSecrets_def)
  then show ?thesis using startup_secrets_guard [of sampleSecrets] by blast
qed

end
