(* ===== verification/Auth.thy ===== *)
theory Auth
  imports Access Security
begin

text \<open>
  Signing in (\<open>routes/auth.routes.ts\<close>): passwords with lockout, the MFA step with backup codes and
  trusted devices, refresh tokens that rotate within families, invitations, password changes,
  enrolment and demo links. The addresses and user agents of clients are not kept. What Node,
  bcrypt, jsonwebtoken and otplib compute is the record \<open>crypt\<close>: the \<open>n\<close>-th random draw is
  \<open>cr_random n\<close>, and \<open>cr_verifyMfa now\<close> gives the user a pending token names, if it is valid.
\<close>

section \<open>Tables\<close>

datatype userStatus = U_INVITED | U_ACTIVE | U_SUSPENDED | U_DEACTIVATED

fun lowerUserStatus :: "userStatus \<Rightarrow> string" where
  "lowerUserStatus U_INVITED = ''invited''"
| "lowerUserStatus U_ACTIVE = ''active''"
| "lowerUserStatus U_SUSPENDED = ''suspended''"
| "lowerUserStatus U_DEACTIVATED = ''deactivated''"

record user =
  us_id :: string
  us_institutionId :: string
  us_fullName :: string
  us_email :: string
  us_passwordHash :: string
  us_category :: userCategory
  us_status :: userStatus
  us_mfaEnabled :: bool
  us_failedLoginCount :: int
  us_lastFailedLoginAt :: "time option"
  us_lockedUntil :: "time option"
  us_passwordChangedAt :: "time option"
  us_passwordExpiresAt :: "time option"
  us_mustChangePassword :: bool
  us_inviteToken :: "string option"
  us_inviteTokenExpiresAt :: "time option"

record userMfa =
  um_userId :: string
  um_secretEncrypted :: string
  um_backupCodesHashed :: "string list"
  um_verifiedAt :: "time option"

record userDevice =
  ud_id :: string
  ud_userId :: string
  ud_fingerprint :: string
  ud_trusted :: bool
  ud_trustedUntil :: "time option"
  ud_mfaVerifiedAt :: "time option"
  ud_lastSeenAt :: time

datatype loginResult = LR_SUCCESS | LR_FAILED_PASSWORD | LR_FAILED_MFA | LR_LOCKED_OUT | LR_FAILED_OTHER

record loginHistoryRow =
  lh_userId :: string
  lh_result :: loginResult
  lh_createdAt :: time

record refreshToken =
  rt_id :: string
  rt_userId :: string
  rt_tokenHash :: string
  rt_familyId :: string
  rt_expiresAt :: time
  rt_revokedAt :: "time option"
  rt_replacedByTokenId :: "string option"

record passwordHistoryRow =
  ph_userId :: string
  ph_passwordHash :: string
  ph_createdAt :: time

record demoLinkToken =
  dl_id :: string
  dl_institutionId :: string
  dl_userId :: string
  dl_tokenHash :: string
  dl_passwordEncrypted :: string
  dl_createdById :: string
  dl_expiresAt :: time
  dl_revokedAt :: "time option"
  dl_lastUsedAt :: "time option"

record auth_db = core_db +
  db_users :: "user list"
  db_userMfa :: "userMfa list"
  db_devices :: "userDevice list"
  db_loginHistory :: "loginHistoryRow list"
  db_refreshTokens :: "refreshToken list"
  db_passwordHistory :: "passwordHistoryRow list"
  db_demoLinks :: "demoLinkToken list"
  db_roles :: "role list"
  db_userRoles :: "userRole list"
  db_demoInstitutions :: "string list"

record crypt =
  cr_compare :: "string \<Rightarrow> string \<Rightarrow> bool"
  cr_hash :: "nat \<Rightarrow> string \<Rightarrow> string"
  cr_sha256 :: "string \<Rightarrow> string"
  cr_random :: "nat \<Rightarrow> string"
  cr_signAccess :: "time \<Rightarrow> accessTokenPayload \<Rightarrow> string"
  cr_signMfa :: "time \<Rightarrow> string \<Rightarrow> string"
  cr_verifyMfa :: "time \<Rightarrow> string \<Rightarrow> string option"
  cr_totp :: "time \<Rightarrow> string \<Rightarrow> string \<Rightarrow> bool"
  cr_totpSecret :: "nat \<Rightarrow> string"
  cr_gcm :: gcm
  cr_mfaKey :: string
  cr_refreshTtlDays :: int
  cr_email :: "string \<Rightarrow> bool"

section \<open>Lookups and small updates\<close>

definition userById :: "string \<Rightarrow> 'a auth_db_scheme \<Rightarrow> user option" where
  "userById i db = find (\<lambda>u. us_id u = i) (db_users db)"

definition mfaOf :: "string \<Rightarrow> 'a auth_db_scheme \<Rightarrow> userMfa option" where
  "mfaOf i db = find (\<lambda>m. um_userId m = i) (db_userMfa db)"

definition updUser :: "string \<Rightarrow> (user \<Rightarrow> user) \<Rightarrow> 'a auth_db_scheme \<Rightarrow> 'a auth_db_scheme" where
  "updUser i f db = db\<lparr>db_users := updWhere (\<lambda>u. us_id u = i) f (db_users db)\<rparr>"

definition updMfa :: "string \<Rightarrow> (userMfa \<Rightarrow> userMfa) \<Rightarrow> 'a auth_db_scheme \<Rightarrow> 'a auth_db_scheme" where
  "updMfa i f db = db\<lparr>db_userMfa := updWhere (\<lambda>m. um_userId m = i) f (db_userMfa db)\<rparr>"

definition updTokens :: "(refreshToken \<Rightarrow> bool) \<Rightarrow> (refreshToken \<Rightarrow> refreshToken) \<Rightarrow> 'a auth_db_scheme \<Rightarrow> 'a auth_db_scheme" where
  "updTokens P f db = db\<lparr>db_refreshTokens := updWhere P f (db_refreshTokens db)\<rparr>"

text \<open>Rows of the audit log written in the name of the user who signs in.\<close>

definition actAs :: "env \<Rightarrow> user \<Rightarrow> env" where
  "actAs env u = env\<lparr>e_userId := us_id u, e_institutionId := us_institutionId u\<rparr>"

definition isLocked :: "time \<Rightarrow> user \<Rightarrow> bool" where
  "isLocked now u = (case us_lockedUntil u of None \<Rightarrow> False | Some t \<Rightarrow> now < t)"

section \<open>Helpers of the login flow\<close>

definition userHasRoleRequiringMfa :: "env \<Rightarrow> string \<Rightarrow> 'a auth_db_scheme \<Rightarrow> bool" where
  "userHasRoleRequiringMfa env i db = list_ex (\<lambda>ur. ur_userId ur = i \<and> notExpired (e_now env) ur
     \<and> (case roleOf (db_roles db) ur of None \<Rightarrow> False | Some r \<Rightarrow> ro_requireMfa r)) (db_userRoles db)"

definition isDeviceTrusted :: "env \<Rightarrow> string \<Rightarrow> string option \<Rightarrow> 'a auth_db_scheme \<Rightarrow> bool" where
  "isDeviceTrusted env i fingerprint db =
     (if \<not> truthy fingerprint then False
      else (case find (\<lambda>d. ud_userId d = i \<and> ud_fingerprint d = the fingerprint) (db_devices db) of
          None \<Rightarrow> False
        | Some d \<Rightarrow>
            if \<not> ud_trusted d then False
            else (case ud_trustedUntil d of
                None \<Rightarrow> False
              | Some t \<Rightarrow>
                  if t \<le> e_now env then False
                  else if userHasRoleRequiringMfa env i db \<and> ud_mfaVerifiedAt d = None then False
                  else True)))"

definition recordLoginAttempt :: "env \<Rightarrow> string \<Rightarrow> loginResult \<Rightarrow> 'a auth_db_scheme \<Rightarrow> 'a auth_db_scheme" where
  "recordLoginAttempt env i r db = db\<lparr>db_loginHistory := db_loginHistory db
     @ [\<lparr>lh_userId = i, lh_result = r, lh_createdAt = e_now env\<rparr>]\<rparr>"

text \<open>The counters are written from the row that was read at the start of the request.\<close>

definition registerFailedPassword :: "env \<Rightarrow> user \<Rightarrow> 'a auth_db_scheme \<Rightarrow> bool \<times> 'a auth_db_scheme" where
  "registerFailedPassword env u db =
     (let nextCount = us_failedLoginCount u + 1;
          willLock = FAILED_ATTEMPT_THRESHOLD \<le> nextCount
      in (willLock, recordLoginAttempt env (us_id u) (if willLock then LR_LOCKED_OUT else LR_FAILED_PASSWORD)
           (updUser (us_id u) (\<lambda>x. x\<lparr>us_failedLoginCount := (if willLock then 0 else nextCount),
              us_lastFailedLoginAt := Some (e_now env),
              us_lockedUntil := (if willLock then Some (lockoutExpiryDate (e_now env)) else us_lockedUntil u)\<rparr>) db)))"

record session =
  se_accessToken :: string
  se_refreshToken :: string
  se_userId :: string
  se_mustChangePassword :: bool

text \<open>\<open>refreshToken.create\<close>: the hash is unique. Gives the row.\<close>

definition createToken :: "env \<Rightarrow> crypt \<Rightarrow> string \<Rightarrow> string \<Rightarrow> time \<Rightarrow> string \<Rightarrow> 'a auth_db_scheme
    \<Rightarrow> terr + refreshToken \<times> 'a auth_db_scheme" where
  "createToken env cr userId familyId expiresAt raw db =
     (let t = \<lparr>rt_id = newId env db, rt_userId = userId, rt_tokenHash = cr_sha256 cr raw, rt_familyId = familyId,
          rt_expiresAt = expiresAt, rt_revokedAt = None, rt_replacedByTokenId = None\<rparr>
      in if find (\<lambda>x. rt_tokenHash x = rt_tokenHash t) (db_refreshTokens db) \<noteq> None then Inl Thrown
         else Inr (t, db\<lparr>db_next := Suc (Suc (db_next db)), db_refreshTokens := db_refreshTokens db @ [t]\<rparr>))"

definition rawToken :: "crypt \<Rightarrow> 'a auth_db_scheme \<Rightarrow> string" where
  "rawToken cr db = toHex (cr_random cr (db_next db))"

text \<open>A session starts a family of its own, named by a second identifier.\<close>

definition rememberDevice :: "env \<Rightarrow> user \<Rightarrow> string option \<Rightarrow> bool \<Rightarrow> bool \<Rightarrow> 'a auth_db_scheme \<Rightarrow> 'a auth_db_scheme" where
  "rememberDevice env u fingerprint trustDevice mfaWasVerified db =
     (if \<not> truthy fingerprint then db
      else (let P = (\<lambda>d. ud_userId d = us_id u \<and> ud_fingerprint d = the fingerprint);
                trust = (\<lambda>d. if trustDevice then d\<lparr>ud_trusted := True, ud_trustedUntil := Some (deviceTrustExpiryDate (e_now env))\<rparr> else d);
                verified = (\<lambda>d. if mfaWasVerified then d\<lparr>ud_mfaVerifiedAt := Some (e_now env)\<rparr> else d);
                new = \<lparr>ud_id = newId env db, ud_userId = us_id u, ud_fingerprint = the fingerprint, ud_trusted = False,
                  ud_trustedUntil = None, ud_mfaVerifiedAt = None, ud_lastSeenAt = e_now env\<rparr>
            in if find P (db_devices db) = None
               then db\<lparr>db_next := Suc (db_next db), db_devices := db_devices db @ [verified (trust new)]\<rparr>
               else db\<lparr>db_devices := updWhere P (\<lambda>d. verified (trust (d\<lparr>ud_lastSeenAt := e_now env\<rparr>))) (db_devices db)\<rparr>))"

definition completeSuccessfulLogin ::
  "env \<Rightarrow> crypt \<Rightarrow> user \<Rightarrow> string option \<Rightarrow> bool \<Rightarrow> bool \<Rightarrow> 'a auth_db_scheme \<Rightarrow> terr + session \<times> 'a auth_db_scheme" where
  "completeSuccessfulLogin env cr u fingerprint trustDevice mfaWasVerified db =
     (let raw = rawToken cr db in
      bindE (createToken env cr (us_id u) (e_uuid env (Suc (db_next db)))
          (e_now env + cr_refreshTtlDays cr * 24 * 60 * 60 * 1000) raw db) (\<lambda>(t, db1).
      let db2 = updUser (us_id u) (\<lambda>x. x\<lparr>us_failedLoginCount := 0, us_lastFailedLoginAt := None, us_lockedUntil := None\<rparr>) db1;
          db3 = rememberDevice env u fingerprint trustDevice mfaWasVerified db2;
          db4 = audit (actAs env u) ''auth.login'' '''' '''' db3;
          db5 = recordLoginAttempt env (us_id u) LR_SUCCESS db4;
          mustChange = us_mustChangePassword u
            \<or> (case us_passwordExpiresAt u of None \<Rightarrow> False | Some e \<Rightarrow> e < e_now env)
      in Inr (\<lparr>se_accessToken = cr_signAccess cr (e_now env) \<lparr>tk_userId = us_id u, tk_institutionId = us_institutionId u,
                 tk_category = us_category u\<rparr>,
               se_refreshToken = raw, se_userId = us_id u, se_mustChangePassword = mustChange\<rparr>, db5)))"

section \<open>Signing in\<close>

datatype loginAnswer = Session session | MfaRequired string | MfaSetupRequired string

record loginBody =
  lo_institutionId :: "string option"
  lo_email :: string
  lo_password :: string
  lo_deviceFingerprint :: "string option"
  lo_trustDevice :: bool

definition finishLogin ::
  "env \<Rightarrow> crypt \<Rightarrow> user \<Rightarrow> string option \<Rightarrow> bool \<Rightarrow> bool \<Rightarrow> 'a auth_db_scheme \<Rightarrow> loginAnswer resp \<times> 'a auth_db_scheme" where
  "finishLogin env cr u fingerprint trustDevice mfaWasVerified db =
     (case completeSuccessfulLogin env cr u fingerprint trustDevice mfaWasVerified db of
        Inl e \<Rightarrow> answerError e db
      | Inr (s, db') \<Rightarrow> (ROk 200 (Session s), db'))"

definition minutesLeft :: "time \<Rightarrow> time \<Rightarrow> nat" where
  "minutesLeft now until = nat \<lceil>rat_of_int (until - now) / 60000\<rceil>"

definition lookupLogin :: "loginBody \<Rightarrow> 'a auth_db_scheme \<Rightarrow> user option" where
  "lookupLogin b db = find (\<lambda>u. us_email u = lo_email b
     \<and> (truthy (lo_institutionId b) \<longrightarrow> us_institutionId u = the (lo_institutionId b))) (db_users db)"

definition lockedNowText :: string where
  "lockedNowText = ''Invalid credentials. Too many failed attempts - account is now locked for 30 minutes.''"

definition login :: "env \<Rightarrow> crypt \<Rightarrow> loginBody option \<Rightarrow> 'a auth_db_scheme \<Rightarrow> loginAnswer resp \<times> 'a auth_db_scheme" where
  "login env cr body db =
     (case safeParse (\<lambda>b. cr_email cr (lo_email b)) body of
        None \<Rightarrow> (RErr 400 Flatten, db)
      | Some b \<Rightarrow>
     (case lookupLogin b db of
        None \<Rightarrow> fail 401 ''Invalid credentials'' db
      | Some u \<Rightarrow>
          if isLocked (e_now env) u
          then fail 423 (''Account is locked. Try again in '' @ showNat (minutesLeft (e_now env) (the (us_lockedUntil u))) @ '' minute(s).'')
                 (recordLoginAttempt env (us_id u) LR_LOCKED_OUT db)
          else if \<not> cr_compare cr (lo_password b) (us_passwordHash u)
          then (let (lockedNow, db') = registerFailedPassword env u db
                in fail 401 (if lockedNow then lockedNowText else ''Invalid credentials'') db')
          else if us_status u \<noteq> U_ACTIVE then fail 403 (''Account is '' @ lowerUserStatus (us_status u)) db
          else if \<not> isDeviceTrusted env (us_id u) (lo_deviceFingerprint b) db \<and> us_mfaEnabled u
          then (ROk 200 (MfaRequired (cr_signMfa cr (e_now env) (us_id u))), db)
          else if \<not> isDeviceTrusted env (us_id u) (lo_deviceFingerprint b) db \<and> userHasRoleRequiringMfa env (us_id u) db
          then (ROk 200 (MfaSetupRequired (cr_signMfa cr (e_now env) (us_id u))), db)
          else finishLogin env cr u (lo_deviceFingerprint b) (lo_trustDevice b) False db))"

record loginMfaBody =
  lm_mfaPendingToken :: string
  lm_code :: string
  lm_deviceFingerprint :: "string option"
  lm_trustDevice :: bool

definition isDigitChar :: "char \<Rightarrow> bool" where
  "isDigitChar c \<longleftrightarrow> 48 \<le> code c \<and> code c \<le> 57"

text \<open>
  The second factor: a six-digit code against the decrypted secret, or a backup code, which is
  consumed. \<open>Inl\<close> when the secret cannot be decrypted.
\<close>

definition checkSecondFactor :: "env \<Rightarrow> crypt \<Rightarrow> userMfa \<Rightarrow> string \<Rightarrow> 'a auth_db_scheme \<Rightarrow> terr + bool \<times> 'a auth_db_scheme" where
  "checkSecondFactor env cr m c db =
     (if length c = 6 \<and> list_all isDigitChar c
      then bindE (decryptSecret (cr_gcm cr) (cr_mfaKey cr) (um_secretEncrypted m)) (\<lambda>secret.
             Inr (cr_totp cr (e_now env) c secret, db))
      else (let (matched, remaining) = matchAndConsumeBackupCode (cr_compare cr) c (um_backupCodesHashed m)
            in Inr (matched, if matched then updMfa (um_userId m) (\<lambda>x. x\<lparr>um_backupCodesHashed := remaining\<rparr>) db else db)))"

definition incorrectCodeLocked :: string where
  "incorrectCodeLocked = ''Incorrect code. Too many failed attempts - account is now locked for 30 minutes.''"

definition loginMfa :: "env \<Rightarrow> crypt \<Rightarrow> loginMfaBody option \<Rightarrow> 'a auth_db_scheme \<Rightarrow> loginAnswer resp \<times> 'a auth_db_scheme" where
  "loginMfa env cr body db =
     (case safeParse (\<lambda>b. 6 \<le> length (lm_code b)) body of
        None \<Rightarrow> (RErr 400 Flatten, db)
      | Some b \<Rightarrow>
     (case cr_verifyMfa cr (e_now env) (lm_mfaPendingToken b) of
        None \<Rightarrow> fail 401 ''MFA challenge expired or invalid. Please log in again.'' db
      | Some i \<Rightarrow>
     (case (userById i db, mfaOf i db) of
        (Some u, Some m) \<Rightarrow>
          if um_verifiedAt m = None then fail 400 ''MFA is not properly configured on this account.'' db
          else if isLocked (e_now env) u then fail 423 ''Account is locked.'' db
          else (case checkSecondFactor env cr m (lm_code b) db of
              Inl e \<Rightarrow> answerError e db
            | Inr (mfaValid, db1) \<Rightarrow>
                if \<not> mfaValid
                then (let (lockedNow, db2) = registerFailedPassword env u db1
                      in fail 401 (if lockedNow then incorrectCodeLocked else ''Incorrect code'')
                           (recordLoginAttempt env (us_id u) LR_FAILED_MFA db2))
                else finishLogin env cr u (lm_deviceFingerprint b) (lm_trustDevice b) True db1)
      | _ \<Rightarrow> fail 400 ''MFA is not properly configured on this account.'' db)))"

section \<open>Enrolment\<close>

text \<open>\<open>userMfa.upsert\<close> with a new secret, unverified.\<close>

definition startEnrolment :: "env \<Rightarrow> crypt \<Rightarrow> user \<Rightarrow> 'a auth_db_scheme \<Rightarrow> string resp \<times> 'a auth_db_scheme" where
  "startEnrolment env cr u db =
     (let secret = cr_totpSecret cr (db_next db) in
      case encryptSecret (cr_gcm cr) (cr_mfaKey cr) (cr_random cr (db_next db)) secret of
        Inl e \<Rightarrow> answerError e db
      | Inr enc \<Rightarrow> (ROk 200 secret,
          if mfaOf (us_id u) db = None
          then db\<lparr>db_next := Suc (db_next db), db_userMfa := db_userMfa db
                 @ [\<lparr>um_userId = us_id u, um_secretEncrypted = enc, um_backupCodesHashed = [], um_verifiedAt = None\<rparr>]\<rparr>
          else updMfa (us_id u) (\<lambda>m. m\<lparr>um_secretEncrypted := enc, um_backupCodesHashed := [], um_verifiedAt := None\<rparr>)
                 (db\<lparr>db_next := Suc (db_next db)\<rparr>)))"

definition mfaVerified :: "string \<Rightarrow> 'a auth_db_scheme \<Rightarrow> bool" where
  "mfaVerified i db = (case mfaOf i db of None \<Rightarrow> False | Some m \<Rightarrow> um_verifiedAt m \<noteq> None)"

definition mfaSetupRequired :: "env \<Rightarrow> crypt \<Rightarrow> string option \<Rightarrow> 'a auth_db_scheme \<Rightarrow> string resp \<times> 'a auth_db_scheme" where
  "mfaSetupRequired env cr token db =
     (if \<not> truthy token then fail 400 ''mfaPendingToken required'' db
      else (case cr_verifyMfa cr (e_now env) (the token) of
          None \<Rightarrow> fail 401 ''This challenge has expired. Please log in again.'' db
        | Some i \<Rightarrow>
            (case userById i db of
               None \<Rightarrow> fail 404 ''User not found'' db
             | Some u \<Rightarrow>
                 if mfaVerified i db then fail 409 ''MFA is already enrolled on this account.'' db
                 else startEnrolment env cr u db)))"

text \<open>The codes are the hashes stored; the random bytes are ten draws.\<close>

definition freshBackupCodes :: "crypt \<Rightarrow> 'a auth_db_scheme \<Rightarrow> string list" where
  "freshBackupCodes cr db = generateBackupCodes (map (\<lambda>k. take 5 (cr_random cr (db_next db + k))) [0..<10])"

text \<open>The transaction that completes an enrolment, and its audit row.\<close>

definition completeEnrolment :: "env \<Rightarrow> crypt \<Rightarrow> user \<Rightarrow> string list \<Rightarrow> 'a auth_db_scheme \<Rightarrow> 'a auth_db_scheme" where
  "completeEnrolment env cr u codes db =
     audit (actAs env u) ''auth.mfa_enrolled'' '''' ''''
       (updUser (us_id u) (\<lambda>x. x\<lparr>us_mfaEnabled := True\<rparr>)
         (updMfa (us_id u) (\<lambda>m. m\<lparr>um_verifiedAt := Some (e_now env),
            um_backupCodesHashed := hashBackupCodes (cr_hash cr (db_next db)) codes\<rparr>) (db\<lparr>db_next := db_next db + 10\<rparr>)))"

record verifyRequiredBody =
  vr_mfaPendingToken :: string
  vr_code :: string
  vr_deviceFingerprint :: "string option"

definition mfaVerifyRequired ::
  "env \<Rightarrow> crypt \<Rightarrow> verifyRequiredBody option \<Rightarrow> 'a auth_db_scheme \<Rightarrow> loginAnswer resp \<times> 'a auth_db_scheme" where
  "mfaVerifyRequired env cr body db =
     (case safeParse (\<lambda>b. length (vr_code b) = 6) body of
        None \<Rightarrow> (RErr 400 Flatten, db)
      | Some b \<Rightarrow>
     (case cr_verifyMfa cr (e_now env) (vr_mfaPendingToken b) of
        None \<Rightarrow> fail 401 ''This challenge has expired. Please log in again.'' db
      | Some i \<Rightarrow>
     (case (userById i db, mfaOf i db) of
        (Some u, Some m) \<Rightarrow>
          if um_verifiedAt m \<noteq> None then fail 409 ''MFA is already verified on this account.'' db
          else (case decryptSecret (cr_gcm cr) (cr_mfaKey cr) (um_secretEncrypted m) of
              Inl e \<Rightarrow> answerError e db
            | Inr secret \<Rightarrow>
                if \<not> cr_totp cr (e_now env) (vr_code b) secret then fail 401 ''Incorrect code'' db
                else finishLogin env cr (u\<lparr>us_mfaEnabled := True\<rparr>) (vr_deviceFingerprint b) False True
                       (completeEnrolment env cr u (freshBackupCodes cr db) db))
      | _ \<Rightarrow> fail 400 ''Call POST /auth/mfa/setup-required first.'' db)))"

definition mfaSetup :: "env \<Rightarrow> crypt \<Rightarrow> 'a auth_db_scheme \<Rightarrow> string resp \<times> 'a auth_db_scheme" where
  "mfaSetup env cr db =
     (case userById (e_userId env) db of
        None \<Rightarrow> fail 404 ''User not found'' db
      | Some u \<Rightarrow>
          if mfaVerified (e_userId env) db
          then fail 409 ''MFA is already enrolled on this account. Disable it before setting up again.'' db
          else startEnrolment env cr u db)"

definition mfaVerify :: "env \<Rightarrow> crypt \<Rightarrow> string option \<Rightarrow> 'a auth_db_scheme \<Rightarrow> string list resp \<times> 'a auth_db_scheme" where
  "mfaVerify env cr body db =
     (case safeParse (\<lambda>c. length c = 6) body of
        None \<Rightarrow> (RErr 400 Flatten, db)
      | Some c \<Rightarrow>
     (case (userById (e_userId env) db, mfaOf (e_userId env) db) of
        (Some u, Some m) \<Rightarrow>
          if um_verifiedAt m \<noteq> None then fail 409 ''MFA is already verified on this account.'' db
          else (case decryptSecret (cr_gcm cr) (cr_mfaKey cr) (um_secretEncrypted m) of
              Inl e \<Rightarrow> answerError e db
            | Inr secret \<Rightarrow>
                if \<not> cr_totp cr (e_now env) c secret then fail 401 ''Incorrect code'' db
                else (ROk 200 (freshBackupCodes cr db), completeEnrolment env cr u (freshBackupCodes cr db) db))
      | _ \<Rightarrow> fail 400 ''Call POST /auth/mfa/setup first.'' db))"

definition mfaDisable :: "env \<Rightarrow> crypt \<Rightarrow> string option \<Rightarrow> 'a auth_db_scheme \<Rightarrow> unit resp \<times> 'a auth_db_scheme" where
  "mfaDisable env cr body db =
     (case body of
        None \<Rightarrow> (RErr 400 Flatten, db)
      | Some password \<Rightarrow>
     (case userById (e_userId env) db of
        None \<Rightarrow> fail 404 ''User not found'' db
      | Some u \<Rightarrow>
          if \<not> cr_compare cr password (us_passwordHash u) then fail 401 ''Incorrect password'' db
          else (ROk 204 (), audit (actAs env u) ''auth.mfa_disabled'' '''' ''''
                 (updUser (us_id u) (\<lambda>x. x\<lparr>us_mfaEnabled := False\<rparr>)
                   (db\<lparr>db_userMfa := filter (\<lambda>m. um_userId m \<noteq> us_id u) (db_userMfa db)\<rparr>)))))"

section \<open>Demo links\<close>

definition demoLinkCreate :: "env \<Rightarrow> crypt \<Rightarrow> (string \<times> string) option \<Rightarrow> 'a auth_db_scheme \<Rightarrow> string resp \<times> 'a auth_db_scheme" where
  "demoLinkCreate env cr body db =
     (case safeParse (\<lambda>(email, _). cr_email cr email) body of
        None \<Rightarrow> (RErr 400 Flatten, db)
      | Some (email, password) \<Rightarrow>
     (case find (\<lambda>u. us_email u = email \<and> us_institutionId u = e_institutionId env) (db_users db) of
        None \<Rightarrow> fail 404 ''No user with that email in your institution'' db
      | Some u \<Rightarrow>
          if us_institutionId u \<notin> set (db_demoInstitutions db)
          then fail 403 (''This institution isn'' @ CHR 0x27 # ''t flagged as a demo institution - demo links can'' @ CHR 0x27 # ''t be created for it'') db
          else if \<not> cr_compare cr password (us_passwordHash u)
          then fail 401 (''That isn'' @ CHR 0x27 # ''t this user'' @ CHR 0x27 # ''s current password'') db
          else (case encryptSecret (cr_gcm cr) (cr_mfaKey cr) (cr_random cr (Suc (db_next db))) password of
              Inl e \<Rightarrow> answerError e db
            | Inr enc \<Rightarrow>
                (let raw = rawToken cr db;
                     t = \<lparr>dl_id = newId env db, dl_institutionId = e_institutionId env, dl_userId = us_id u,
                       dl_tokenHash = cr_sha256 cr raw, dl_passwordEncrypted = enc, dl_createdById = e_userId env,
                       dl_expiresAt = e_now env + 30 * 24 * 60 * 60 * 1000, dl_revokedAt = None, dl_lastUsedAt = None\<rparr>
                 in if find (\<lambda>x. dl_tokenHash x = dl_tokenHash t) (db_demoLinks db) \<noteq> None then answerError Thrown db
                    else (ROk 200 raw, db\<lparr>db_next := Suc (Suc (db_next db)), db_demoLinks := db_demoLinks db @ [t]\<rparr>)))))"

definition demoLinkResolve :: "env \<Rightarrow> crypt \<Rightarrow> string \<Rightarrow> 'a auth_db_scheme \<Rightarrow> (string \<times> string) resp \<times> 'a auth_db_scheme" where
  "demoLinkResolve env cr token db =
     (case find (\<lambda>l. dl_tokenHash l = cr_sha256 cr token) (db_demoLinks db) of
        None \<Rightarrow> fail 410 ''This demo link is invalid or has expired'' db
      | Some l \<Rightarrow>
          if dl_revokedAt l \<noteq> None \<or> dl_expiresAt l < e_now env then fail 410 ''This demo link is invalid or has expired'' db
          else (let db' = db\<lparr>db_demoLinks := updWhere (\<lambda>x. dl_id x = dl_id l) (\<lambda>x. x\<lparr>dl_lastUsedAt := Some (e_now env)\<rparr>)
                      (db_demoLinks db)\<rparr>
            in case (userById (dl_userId l) db, decryptSecret (cr_gcm cr) (cr_mfaKey cr) (dl_passwordEncrypted l)) of
                 (Some u, Inr password) \<Rightarrow> (ROk 200 (us_email u, password), db')
               | _ \<Rightarrow> answerError Thrown db'))"

definition demoLinkRevoke :: "env \<Rightarrow> string \<Rightarrow> 'a auth_db_scheme \<Rightarrow> unit resp \<times> 'a auth_db_scheme" where
  "demoLinkRevoke env i db =
     (case find (\<lambda>l. dl_id l = i \<and> dl_institutionId l = e_institutionId env) (db_demoLinks db) of
        None \<Rightarrow> fail 404 ''Demo link not found'' db
      | Some l \<Rightarrow> (ROk 204 (), db\<lparr>db_demoLinks := updWhere (\<lambda>x. dl_id x = dl_id l)
          (\<lambda>x. x\<lparr>dl_revokedAt := Some (e_now env)\<rparr>) (db_demoLinks db)\<rparr>))"

section \<open>Refresh tokens\<close>

abbreviation badToken :: string where "badToken \<equiv> ''Refresh token invalid or expired''"

text \<open>The answer is the new access token and the new refresh token.\<close>

definition refresh :: "env \<Rightarrow> crypt \<Rightarrow> string option \<Rightarrow> 'a auth_db_scheme \<Rightarrow> (string \<times> string) resp \<times> 'a auth_db_scheme" where
  "refresh env cr token db =
     (if \<not> truthy token then fail 400 ''refreshToken required'' db
      else (case find (\<lambda>t. rt_tokenHash t = cr_sha256 cr (the token)) (db_refreshTokens db) of
          None \<Rightarrow> fail 401 badToken db
        | Some stored \<Rightarrow>
          (case userById (rt_userId stored) db of
             None \<Rightarrow> fail 401 badToken db
           | Some u \<Rightarrow>
              if rt_replacedByTokenId stored \<noteq> None
              then fail 401 badToken (audit (actAs env u) ''auth.refresh_token_reuse_detected'' ''refresh_token'' (rt_id stored)
                     (updTokens (\<lambda>t. rt_familyId t = rt_familyId stored \<and> rt_revokedAt t = None)
                        (\<lambda>t. t\<lparr>rt_revokedAt := Some (e_now env)\<rparr>) db))
              else if rt_revokedAt stored \<noteq> None \<or> rt_expiresAt stored < e_now env then fail 401 badToken db
              else if us_status u \<noteq> U_ACTIVE then fail 401 badToken db
              else if isLocked (e_now env) u then fail 401 badToken db
              else if us_mustChangePassword u then fail 401 ''Password change required - please sign in again'' db
              else (let raw = rawToken cr db in
                case createToken env cr (us_id u) (rt_familyId stored) (rt_expiresAt stored) raw db of
                  Inl e \<Rightarrow> answerError e db
                | Inr (new, db1) \<Rightarrow>
                    (ROk 200 (cr_signAccess cr (e_now env) \<lparr>tk_userId = us_id u, tk_institutionId = us_institutionId u,
                        tk_category = us_category u\<rparr>, raw),
                     updTokens (\<lambda>t. rt_id t = rt_id stored)
                       (\<lambda>t. t\<lparr>rt_revokedAt := Some (e_now env), rt_replacedByTokenId := Some (rt_id new)\<rparr>) db1)))))"

definition logout :: "env \<Rightarrow> crypt \<Rightarrow> string option \<Rightarrow> 'a auth_db_scheme \<Rightarrow> unit resp \<times> 'a auth_db_scheme" where
  "logout env cr token db = (ROk 204 (), if truthy token
     then updTokens (\<lambda>t. rt_tokenHash t = cr_sha256 cr (the token)) (\<lambda>t. t\<lparr>rt_revokedAt := Some (e_now env)\<rparr>) db
     else db)"

section \<open>Passwords, invitations and devices\<close>

definition acceptInvite :: "env \<Rightarrow> crypt \<Rightarrow> (string \<times> string) option \<Rightarrow> 'a auth_db_scheme \<Rightarrow> unit resp \<times> 'a auth_db_scheme" where
  "acceptInvite env cr body db =
     (case safeParse (\<lambda>(token, password). 10 \<le> length token \<and> PASSWORD_MIN_LENGTH \<le> length password) body of
        None \<Rightarrow> (RErr 400 Flatten, db)
      | Some (token, password) \<Rightarrow>
     (case validatePasswordLength password of
        Some e \<Rightarrow> fail 400 e db
      | None \<Rightarrow>
     (case find (\<lambda>u. us_inviteToken u = Some token \<and> us_status u = U_INVITED) (db_users db) of
        None \<Rightarrow> fail 404 ''This invite link is invalid or has already been used'' db
      | Some u \<Rightarrow>
          if (case us_inviteTokenExpiresAt u of None \<Rightarrow> True | Some t \<Rightarrow> t < e_now env)
          then fail 410 ''This invite link has expired. Ask an administrator to grant access again.'' db
          else (ROk 204 (), audit (actAs env u) ''auth.accept_invite'' '''' ''''
                 (updUser (us_id u) (\<lambda>x. x\<lparr>us_passwordHash := cr_hash cr (db_next db) password, us_status := U_ACTIVE,
                    us_inviteToken := None, us_inviteTokenExpiresAt := None, us_passwordChangedAt := Some (e_now env),
                    us_passwordExpiresAt := Some (passwordExpiryDate (e_now env)), us_mustChangePassword := False\<rparr>)
                  (db\<lparr>db_next := Suc (db_next db)\<rparr>))))))"

text \<open>\<open>orderBy createdAt desc, take n\<close>; the history is in insertion order.\<close>

definition recentHistory :: "string \<Rightarrow> nat \<Rightarrow> 'a auth_db_scheme \<Rightarrow> string list" where
  "recentHistory i n db = map ph_passwordHash (take n (rev (filter (\<lambda>h. ph_userId h = i) (db_passwordHistory db))))"

definition changePassword :: "env \<Rightarrow> crypt \<Rightarrow> (string \<times> string) option \<Rightarrow> 'a auth_db_scheme \<Rightarrow> unit resp \<times> 'a auth_db_scheme" where
  "changePassword env cr body db =
     (case safeParse (\<lambda>(_, new). PASSWORD_MIN_LENGTH \<le> length new) body of
        None \<Rightarrow> (RErr 400 Flatten, db)
      | Some (current, new) \<Rightarrow>
     (case validatePasswordLength new of
        Some e \<Rightarrow> fail 400 e db
      | None \<Rightarrow>
     (case userById (e_userId env) db of
        None \<Rightarrow> fail 404 ''User not found'' db
      | Some u \<Rightarrow>
          if \<not> cr_compare cr current (us_passwordHash u) then fail 401 ''Current password is incorrect'' db
          else if cr_compare cr new (us_passwordHash u)
              \<or> isPasswordReused (cr_compare cr) new (recentHistory (us_id u) PASSWORD_HISTORY_DEPTH db)
          then fail 400 (''New password can'' @ CHR 0x27 # ''t match your current password or your last ''
                 @ showNat PASSWORD_HISTORY_DEPTH @ '' passwords.'') db
          else (ROk 204 (), audit (actAs env u) ''auth.change_password'' '''' ''''
                 (updUser (us_id u) (\<lambda>x. x\<lparr>us_passwordHash := cr_hash cr (db_next db) new,
                    us_passwordChangedAt := Some (e_now env),
                    us_passwordExpiresAt := Some (passwordExpiryDate (e_now env)), us_mustChangePassword := False\<rparr>)
                  (db\<lparr>db_next := Suc (db_next db), db_passwordHistory := db_passwordHistory db
                    @ [\<lparr>ph_userId = us_id u, ph_passwordHash = us_passwordHash u, ph_createdAt = e_now env\<rparr>]\<rparr>))))))"

definition revokeDevice :: "env \<Rightarrow> string \<Rightarrow> 'a auth_db_scheme \<Rightarrow> unit resp \<times> 'a auth_db_scheme" where
  "revokeDevice env i db =
     (case find (\<lambda>d. ud_id d = i \<and> ud_userId d = e_userId env) (db_devices db) of
        None \<Rightarrow> fail 404 ''Device not found'' db
      | Some d \<Rightarrow> (ROk 204 (), audit env ''auth.device_revoke'' ''user_device'' (ud_id d)
          (db\<lparr>db_devices := filter (\<lambda>x. ud_id x \<noteq> ud_id d) (db_devices db)\<rparr>)))"

text \<open>\<open>GET /auth/me\<close>: the permissions and role categories, each once, in the order they are met.\<close>

definition insertNew :: "string list \<Rightarrow> string \<Rightarrow> string list" where
  "insertNew xs x = (if x \<in> set xs then xs else xs @ [x])"

definition me :: "env \<Rightarrow> 'a auth_db_scheme \<Rightarrow> (user \<times> string list \<times> string list) resp" where
  "me env db =
     (case userById (e_userId env) db of
        None \<Rightarrow> RErr 404 (Msg ''User not found'')
      | Some u \<Rightarrow>
          (let roles = List.map_filter (roleOf (db_roles db))
                 (filter (\<lambda>ur. ur_userId ur = us_id u \<and> notExpired (e_now env) ur) (db_userRoles db))
           in ROk 200 (u, foldl insertNew [] (concat (map ro_permissions roles)), foldl insertNew [] (map ro_category roles))))"

end
