(* ===== verification/Auth_Safety.thy ===== *)
theory Auth_Safety
  imports Auth
begin

text \<open>
  What signing in guarantees: failed attempts lock an account, no session is issued without every
  factor the policy demands, and a family of refresh tokens never has two live members.
\<close>

section \<open>Lockout\<close>

lemma lookupLogin_upd:
  assumes "\<And>x. us_email (f x) = us_email x \<and> us_institutionId (f x) = us_institutionId x"
  shows "lookupLogin b (recordLoginAttempt e i r (updUser k f db))
    = map_option (\<lambda>x. if us_id x = k then f x else x) (lookupLogin b db)"
  unfolding lookupLogin_def recordLoginAttempt_def updUser_def
  by (simp add: assms find_updWhere_keep)

definition tryPasswords :: "crypt \<Rightarrow> loginBody \<Rightarrow> (env \<times> string) list \<Rightarrow> 'a auth_db_scheme \<Rightarrow> 'a auth_db_scheme" where
  "tryPasswords cr b tries db = foldl (\<lambda>d (env, pw). snd (login env cr (Some (b\<lparr>lo_password := pw\<rparr>)) d)) db tries"

lemma login_wrong:
  assumes "cr_email cr (lo_email b)" and "lookupLogin b db = Some u" and "us_lockedUntil u = None"
    and "\<not> cr_compare cr pw (us_passwordHash u)"
  shows "snd (login env cr (Some (b\<lparr>lo_password := pw\<rparr>)) db) = snd (registerFailedPassword env u db)"
proof -
  have "lookupLogin (b\<lparr>lo_password := pw\<rparr>) db = Some u" using assms(2) by (simp add: lookupLogin_def)
  then show ?thesis using assms by (simp add: login_def safeParse_def isLocked_def split_beta)
qed

definition failedRow :: "env \<Rightarrow> user \<Rightarrow> user" where
  "failedRow e u = (let n = us_failedLoginCount u + 1; l = FAILED_ATTEMPT_THRESHOLD \<le> n in
     u\<lparr>us_failedLoginCount := (if l then 0 else n), us_lastFailedLoginAt := Some (e_now e),
       us_lockedUntil := (if l then Some (lockoutExpiryDate (e_now e)) else us_lockedUntil u)\<rparr>)"

text \<open>What the failures leave: the count below the threshold, and the lock at it.\<close>

lemma wrong_attempts:
  assumes "cr_email cr (lo_email b)" and "lookupLogin b db = Some u" and "us_lockedUntil u = None"
    and "us_failedLoginCount u = 0" and "length tries \<le> 5"
    and "\<forall>(e, pw) \<in> set tries. \<not> cr_compare cr pw (us_passwordHash u)"
  shows "\<exists>v. lookupLogin b (tryPasswords cr b tries db) = Some v \<and> us_passwordHash v = us_passwordHash u
    \<and> us_id v = us_id u
    \<and> (if length tries < 5 then us_lockedUntil v = None \<and> us_failedLoginCount v = int (length tries)
       else us_lockedUntil v = Some (lockoutExpiryDate (e_now (fst (last tries)))))
    \<and> db_refreshTokens (tryPasswords cr b tries db) = db_refreshTokens db"
  using assms(5,6)
proof (induction tries rule: rev_induct)
  case Nil
  then show ?case using assms by (simp add: tryPasswords_def)
next
  case (snoc t tries)
  obtain e pw where t: "t = (e, pw)" by force
  let ?d = "tryPasswords cr b tries db"
  obtain v where v: "lookupLogin b ?d = Some v" "us_passwordHash v = us_passwordHash u" "us_id v = us_id u"
    "us_lockedUntil v = None" "us_failedLoginCount v = int (length tries)" "db_refreshTokens ?d = db_refreshTokens db"
    using snoc by auto
  have "tryPasswords cr b (tries @ [t]) db = snd (login e cr (Some (b\<lparr>lo_password := pw\<rparr>)) ?d)"
    by (simp add: tryPasswords_def t)
  also have "\<dots> = snd (registerFailedPassword e v ?d)"
    using login_wrong [OF assms(1) v(1,4)] snoc.prems(2) v(2) t by simp
  finally have step: "tryPasswords cr b (tries @ [t]) db = snd (registerFailedPassword e v ?d)" .
  have look: "lookupLogin b (snd (registerFailedPassword e v ?d)) = Some (failedRow e v)"
    by (simp add: registerFailedPassword_def Let_def lookupLogin_upd v(1) failedRow_def split_beta)
  have tok: "db_refreshTokens (snd (registerFailedPassword e v ?d)) = db_refreshTokens db"
    by (simp add: registerFailedPassword_def Let_def recordLoginAttempt_def updUser_def v(6))
  show ?case
    unfolding step look tok using v snoc.prems(1)
    by (cases "length tries < 4") (auto simp: failedRow_def Let_def FAILED_ATTEMPT_THRESHOLD_def t)
qed

text \<open>
  Claim C29. Five wrong passwords lock the account: for the thirty minutes after the fifth, every
  attempt to sign in is answered 423, the right password included, and no token is issued; fewer
  than five do not lock it.
\<close>

theorem lockout_after_five:
  assumes "cr_email cr (lo_email b)" and "lookupLogin b db = Some u" and "us_lockedUntil u = None"
    and "us_failedLoginCount u = 0" and "length tries \<le> 5"
    and "\<forall>(e, pw) \<in> set tries. \<not> cr_compare cr pw (us_passwordHash u)"
    and "e_now env < e_now (fst (last tries)) + 30 * 60 * 1000"
  shows "if length tries = 5
    then (\<exists>m d. login env cr (Some (b\<lparr>lo_password := any\<rparr>)) (tryPasswords cr b tries db) = (RErr 423 m, d)
          \<and> db_refreshTokens d = db_refreshTokens db)
    else (\<exists>v. lookupLogin b (tryPasswords cr b tries db) = Some v \<and> \<not> isLocked (e_now env) v)"
proof -
  let ?d = "tryPasswords cr b tries db"
  obtain v where v: "lookupLogin b ?d = Some v" "db_refreshTokens ?d = db_refreshTokens db"
    and n: "if length tries < 5 then us_lockedUntil v = None
      else us_lockedUntil v = Some (lockoutExpiryDate (e_now (fst (last tries))))"
    using wrong_attempts [OF assms(1-6)] by (auto split: if_splits)
  have look: "lookupLogin (b\<lparr>lo_password := any\<rparr>) ?d = Some v" using v(1) by (simp add: lookupLogin_def)
  show ?thesis
  proof (cases "length tries = 5")
    case True
    then have "isLocked (e_now env) v"
      using n assms(7) by (simp add: isLocked_def lockoutExpiryDate_def LOCKOUT_DURATION_MINUTES_def)
    then show ?thesis
      using True look assms(1) v(2) by (simp add: login_def safeParse_def fail_def recordLoginAttempt_def)
  next
    case False
    then show ?thesis using v(1) n assms(5) by (simp add: isLocked_def)
  qed
qed

section \<open>No session without its factors\<close>

lemma finishLogin_db: "finishLogin env cr u f t m db = (ROk c x, db') \<Longrightarrow> c = 200 \<and> (\<exists>s. x = Session s \<and> se_userId s = us_id u)"
  by (auto simp: finishLogin_def completeSuccessfulLogin_def bindE_Inr_iff Let_def split: sum.splits prod.splits
      elim!: answerError.elims simp: fail_def)


section \<open>Families of refresh tokens\<close>

definition live :: "refreshToken \<Rightarrow> bool" where
  "live t \<longleftrightarrow> rt_revokedAt t = None"

definition oneLive :: "refreshToken list \<Rightarrow> bool" where
  "oneLive ts \<longleftrightarrow> (\<forall>t \<in> set ts. \<forall>t' \<in> set ts. live t \<longrightarrow> live t' \<longrightarrow> rt_familyId t = rt_familyId t' \<longrightarrow> t = t')"

definition families_ok :: "(nat \<Rightarrow> string) \<Rightarrow> 'a auth_db_scheme \<Rightarrow> bool" where
  "families_ok uuid db \<longleftrightarrow> named uuid (db_next db) rt_id (db_refreshTokens db)
     \<and> (\<forall>t \<in> set (db_refreshTokens db). rt_familyId t \<in> uuid ` {..<db_next db})
     \<and> oneLive (db_refreshTokens db)"

text \<open>The ways a request changes the table of tokens.\<close>

inductive token_step :: "(nat \<Rightarrow> string) \<Rightarrow> 'a auth_db_scheme \<Rightarrow> 'a auth_db_scheme \<Rightarrow> bool" for uuid where
  Untouched: "db_refreshTokens db' = db_refreshTokens db \<Longrightarrow> db_next db \<le> db_next db' \<Longrightarrow> token_step uuid db db'"
| Revoke: "db_refreshTokens db' = updWhere P (\<lambda>t. t\<lparr>rt_revokedAt := Some now\<rparr>) (db_refreshTokens db) \<Longrightarrow>
    db_next db \<le> db_next db' \<Longrightarrow> token_step uuid db db'"
| Issue: "db_refreshTokens db' = db_refreshTokens db @ [t] \<Longrightarrow> db_next db \<le> n \<Longrightarrow> rt_id t = uuid n \<Longrightarrow>
    rt_familyId t = uuid (Suc n) \<Longrightarrow> Suc n < db_next db' \<Longrightarrow> token_step uuid db db'"
| Rotate: "stored \<in> set (db_refreshTokens db) \<Longrightarrow> live stored \<Longrightarrow>
    db_refreshTokens db' = updWhere (\<lambda>t. rt_id t = rt_id stored)
      (\<lambda>t. t\<lparr>rt_revokedAt := Some now, rt_replacedByTokenId := Some (rt_id new)\<rparr>) (db_refreshTokens db @ [new]) \<Longrightarrow>
    rt_id new = uuid (db_next db) \<Longrightarrow> rt_familyId new = rt_familyId stored \<Longrightarrow> db_next db < db_next db' \<Longrightarrow>
    token_step uuid db db'"

lemma live_revoke: "x \<in> set (updWhere P (\<lambda>t. t\<lparr>rt_revokedAt := Some now\<rparr>) ts) \<Longrightarrow> live x \<Longrightarrow> x \<in> set ts \<and> \<not> P x"
  by (auto simp: set_updWhere live_def)

lemma oneLive_revoke: "oneLive ts \<Longrightarrow> oneLive (updWhere P (\<lambda>t. t\<lparr>rt_revokedAt := Some now\<rparr>) ts)"
  using live_revoke [of _ P now ts] unfolding oneLive_def by meson

lemma families_mono: "(\<forall>t \<in> S. rt_familyId t \<in> uuid ` {..<n}) \<Longrightarrow> n \<le> m \<Longrightarrow> \<forall>t \<in> S. rt_familyId t \<in> uuid ` {..<(m::nat)}"
  by fastforce

lemma token_step_families:
  assumes "token_step uuid db db'" and "inj uuid" and "families_ok uuid db"
  shows "families_ok uuid db'"
  using assms(1)
proof cases
  case Untouched
  note ok = assms(3) [unfolded families_ok_def]
  show ?thesis
    unfolding families_ok_def Untouched(1)
    using ok named_mono [OF _ Untouched(2)] families_mono [OF _ Untouched(2)] by blast
next
  case (Revoke P now)
  note ok = assms(3) [unfolded families_ok_def]
  have keys: "named uuid (db_next db) rt_id (db_refreshTokens db')"
    using ok by (simp add: Revoke(1) named_updWhere)
  have fams: "\<forall>t \<in> set (db_refreshTokens db'). rt_familyId t \<in> uuid ` {..<db_next db}"
    using ok Revoke(1) by (auto simp: set_updWhere)
  have "oneLive (db_refreshTokens db')" using ok oneLive_revoke Revoke(1) by simp
  then show ?thesis
    unfolding families_ok_def using named_mono [OF keys Revoke(2)] families_mono [OF fams Revoke(2)] by blast
next
  case (Issue t n)
  have nm: "named uuid n rt_id (db_refreshTokens db)" using assms(3) Issue(2) by (auto simp: families_ok_def intro: named_mono)
  have "named uuid (db_next db') rt_id (db_refreshTokens db')"
    using named_mono [OF named_snoc [OF assms(2) nm Issue(3)], of "db_next db'"] Issue(1,5) by simp
  moreover have "rt_familyId x \<noteq> rt_familyId t" if x: "x \<in> set (db_refreshTokens db)" for x
  proof
    assume "rt_familyId x = rt_familyId t"
    moreover obtain k where "k < db_next db" "rt_familyId x = uuid k"
      using assms(3) x by (force simp: families_ok_def)
    ultimately have "k = Suc n" using Issue(4) assms(2) by (metis injD)
    then show False using \<open>k < db_next db\<close> Issue(2) by simp
  qed
  then have "oneLive (db_refreshTokens db')"
    using assms(3) Issue(1) by (fastforce simp: families_ok_def oneLive_def)
  moreover have "rt_familyId x \<in> uuid ` {..<db_next db'}" if "x \<in> set (db_refreshTokens db')" for x
  proof (cases "x = t")
    case True
    then show ?thesis using Issue(4,5) by blast
  next
    case False
    then have "x \<in> set (db_refreshTokens db)" using that Issue(1) by auto
    moreover have "db_next db \<le> db_next db'" using Issue(2,5) by simp
    ultimately show ?thesis
      using assms(3) families_mono [of "set (db_refreshTokens db)" uuid "db_next db" "db_next db'"]
      by (simp add: families_ok_def)
  qed
  ultimately show ?thesis by (simp add: families_ok_def)
next
  case (Rotate stored new now)
  have nm: "named uuid (db_next db) rt_id (db_refreshTokens db)" using assms(3) by (simp add: families_ok_def)
  have "named uuid (db_next db') rt_id (db_refreshTokens db @ [new])"
    using named_mono [OF named_snoc [OF assms(2) nm Rotate(4)], of "db_next db'"] Rotate(6) by simp
  then have "named uuid (db_next db') rt_id (db_refreshTokens db')"
    by (simp add: Rotate(3) named_updWhere del: updWhere_simps)
  moreover have "rt_familyId x \<in> uuid ` {..<db_next db'}" if "x \<in> set (db_refreshTokens db')" for x
  proof -
    have "\<forall>t \<in> set (db_refreshTokens db). rt_familyId t \<in> uuid ` {..<db_next db'}"
      using assms(3) Rotate(6) families_mono [of "set (db_refreshTokens db)" uuid "db_next db" "db_next db'"]
      by (simp add: families_ok_def)
    then show ?thesis using that Rotate(1,3,5) by (auto simp: set_updWhere)
  qed
  moreover have "oneLive (db_refreshTokens db')"
  proof -
    have ne: "rt_id new \<noteq> rt_id stored"
      using named_fresh [OF assms(2) nm] Rotate(1,4) by (metis imageI)
    have old: "x = new \<or> x \<in> set (db_refreshTokens db) \<and> rt_id x \<noteq> rt_id stored"
      if "x \<in> set (db_refreshTokens db')" "live x" for x
      using that Rotate(3) ne by (auto simp: set_updWhere live_def)
    have "rt_familyId x \<noteq> rt_familyId stored"
      if "x \<in> set (db_refreshTokens db)" "rt_id x \<noteq> rt_id stored" "live x" for x
      using that assms(3) Rotate(1,2) by (auto simp: families_ok_def oneLive_def)
    then show ?thesis
      unfolding oneLive_def using old Rotate(5) assms(3)
      by (auto simp: families_ok_def oneLive_def) metis+
  qed
  ultimately show ?thesis by (simp add: families_ok_def)
qed

subsection \<open>The requests\<close>

text \<open>Which requests leave the tokens alone.\<close>

definition keepsTokens :: "'a auth_db_scheme \<Rightarrow> 'a auth_db_scheme \<Rightarrow> bool" where
  "keepsTokens db db' \<longleftrightarrow> db_refreshTokens db' = db_refreshTokens db \<and> db_next db \<le> db_next db'"

lemma keepsTokens_refl [simp]: "keepsTokens db db"
  by (simp add: keepsTokens_def)

lemma keepsTokens_step: "keepsTokens db db' \<Longrightarrow> token_step uuid db db'"
  by (simp add: keepsTokens_def token_step.Untouched)

lemma keepsTokens_trans: "keepsTokens a b \<Longrightarrow> keepsTokens b c \<Longrightarrow> keepsTokens a c"
  by (simp add: keepsTokens_def)

lemma keepsTokens_updates [simp]:
  "keepsTokens db (updUser i f d) = keepsTokens db d"
  "keepsTokens db (updMfa i g d) = keepsTokens db d"
  "keepsTokens db (recordLoginAttempt e i r d) = keepsTokens db d"
  "keepsTokens db (audit e a b c d) = keepsTokens db d"
  by (simp_all add: keepsTokens_def updUser_def updMfa_def recordLoginAttempt_def audit_def)

lemma keepsTokens_helpers [simp]:
  "keepsTokens db (snd (registerFailedPassword env u d)) = keepsTokens db d"
  "keepsTokens db d \<Longrightarrow> keepsTokens db (rememberDevice env u f t m d)"
  "keepsTokens db d \<Longrightarrow> keepsTokens db (snd (startEnrolment env cr u d))"
  "keepsTokens db d \<Longrightarrow> keepsTokens db (completeEnrolment env cr u cs d)"
  by (auto simp: registerFailedPassword_def rememberDevice_def startEnrolment_def completeEnrolment_def Let_def split_beta
      split: sum.splits) (auto simp: keepsTokens_def updMfa_def)

lemma checkSecondFactor_keeps: "checkSecondFactor env cr m c d = Inr (ok, d1) \<Longrightarrow> keepsTokens d d1"
  by (auto simp: checkSecondFactor_def bindE_Inr_iff split_beta split: if_splits)

lemma createToken_result:
  assumes "createToken env cr i fam ex raw db = Inr (t, db1)"
  shows "db_refreshTokens db1 = db_refreshTokens db @ [t] \<and> rt_id t = e_uuid env (db_next db) \<and> rt_familyId t = fam
    \<and> live t \<and> db_next db1 = Suc (Suc (db_next db))"
  using assms by (auto simp: createToken_def Let_def newId_def live_def split: if_splits)

lemma finishLogin_tokens:
  assumes "keepsTokens db db1" and "e_uuid env = uuid"
  shows "token_step uuid db (snd (finishLogin env cr u f t m db1))"
proof (cases "completeSuccessfulLogin env cr u f t m db1")
  case (Inl e)
  then show ?thesis using assms(1) by (simp add: finishLogin_def keepsTokens_step)
next
  case (Inr r)
  then obtain tk db2 where c: "createToken env cr (us_id u) (e_uuid env (Suc (db_next db1)))
      (e_now env + cr_refreshTtlDays cr * 24 * 60 * 60 * 1000) (rawToken cr db1) db1 = Inr (tk, db2)"
    and k: "keepsTokens db2 (snd r)"
    by (auto simp: completeSuccessfulLogin_def Let_def bindE_Inr_iff)
  show ?thesis
    using createToken_result [OF c] k assms Inr
    by (auto simp: finishLogin_def split_beta keepsTokens_def intro!: token_step.Issue [where t = tk and n = "db_next db1"])
qed

lemma login_tokens: "e_uuid env = uuid \<Longrightarrow> token_step uuid db (snd (login env cr body db))"
  by (auto simp: login_def fail_def split_beta finishLogin_tokens keepsTokens_step split: option.split)

lemma loginMfa_tokens: "e_uuid env = uuid \<Longrightarrow> token_step uuid db (snd (loginMfa env cr body db))"
  by (auto simp: loginMfa_def fail_def split_beta finishLogin_tokens keepsTokens_step split: option.split sum.split
      dest!: checkSecondFactor_keeps)

lemma mfaVerifyRequired_tokens: "e_uuid env = uuid \<Longrightarrow> token_step uuid db (snd (mfaVerifyRequired env cr body db))"
  by (auto simp: mfaVerifyRequired_def fail_def finishLogin_tokens keepsTokens_step split: option.split sum.split)

lemma quiet_requests:
  "keepsTokens db (snd (mfaSetupRequired env cr tok db))"
  "keepsTokens db (snd (mfaSetup env cr db))"
  "keepsTokens db (snd (mfaVerify env cr vb db))"
  "keepsTokens db (snd (mfaDisable env cr pw db))"
  "keepsTokens db (snd (demoLinkCreate env cr lb db))"
  "keepsTokens db (snd (demoLinkResolve env cr raw db))"
  "keepsTokens db (snd (demoLinkRevoke env i db))"
  "keepsTokens db (snd (acceptInvite env cr ib db))"
  "keepsTokens db (snd (changePassword env cr cb db))"
  "keepsTokens db (snd (revokeDevice env i db))"
  by (auto simp: mfaSetupRequired_def mfaSetup_def mfaVerify_def mfaDisable_def demoLinkCreate_def demoLinkResolve_def
      demoLinkRevoke_def acceptInvite_def changePassword_def revokeDevice_def fail_def Let_def
      split: option.split sum.split prod.split)
    (auto simp: keepsTokens_def)

lemma refresh_ok:
  assumes "refresh env cr tok db = (ROk c x, db')"
  obtains stored i new db1 where "stored \<in> set (db_refreshTokens db)" and "live stored"
    and "createToken env cr i (rt_familyId stored) (rt_expiresAt stored) (rawToken cr db) db = Inr (new, db1)"
    and "db' = updTokens (\<lambda>t. rt_id t = rt_id stored)
        (\<lambda>t. t\<lparr>rt_revokedAt := Some (e_now env), rt_replacedByTokenId := Some (rt_id new)\<rparr>) db1"
  using assms find_SomeD [of "\<lambda>t. rt_tokenHash t = cr_sha256 cr (the tok)" "db_refreshTokens db"]
  by (auto simp: refresh_def Let_def fail_def live_def split: option.splits if_splits sum.splits prod.splits
      dest: answerError_refuses intro!: that)

lemma revoke_step:
  "token_step uuid db (updTokens P (\<lambda>t. t\<lparr>rt_revokedAt := Some now\<rparr>) db)"
  "token_step uuid db (audit e a b i (updTokens P (\<lambda>t. t\<lparr>rt_revokedAt := Some now\<rparr>) db))"
  by (rule token_step.Revoke [where P = P and now = now]; simp add: updTokens_def audit_def)+

lemma refresh_tokens:
  assumes "e_uuid env = uuid"
  shows "token_step uuid db (snd (refresh env cr tok db))"
proof (cases "refresh env cr tok db")
  case (Pair r db')
  show ?thesis
  proof (cases r)
    case (ROk c x)
    then obtain stored i new db1 where s: "stored \<in> set (db_refreshTokens db)" "live stored"
      and c: "createToken env cr i (rt_familyId stored) (rt_expiresAt stored) (rawToken cr db) db = Inr (new, db1)"
      and d: "db' = updTokens (\<lambda>t. rt_id t = rt_id stored)
        (\<lambda>t. t\<lparr>rt_revokedAt := Some (e_now env), rt_replacedByTokenId := Some (rt_id new)\<rparr>) db1"
      using Pair refresh_ok by blast
    show ?thesis
      using createToken_result [OF c] assms Pair
      by (intro token_step.Rotate [where new = new and now = "e_now env", OF s]) (simp_all add: d updTokens_def)
  next
    case (RErr c e)
    then show ?thesis
      using Pair by (auto simp: refresh_def Let_def fail_def keepsTokens_step revoke_step
          split: option.splits if_splits sum.splits prod.splits dest!: answerError_refuses)
  qed
qed

lemma logout_tokens: "token_step uuid db (snd (logout env cr tok db))"
  by (simp add: logout_def revoke_step keepsTokens_step)

inductive auth_step :: "crypt \<Rightarrow> (nat \<Rightarrow> string) \<Rightarrow> 'a auth_db_scheme \<Rightarrow> 'a auth_db_scheme \<Rightarrow> bool" for cr uuid where
  Login: "e_uuid env = uuid \<Longrightarrow> auth_step cr uuid db (snd (login env cr body db))"
| Login_Mfa: "e_uuid env = uuid \<Longrightarrow> auth_step cr uuid db (snd (loginMfa env cr mb db))"
| Setup_Required: "auth_step cr uuid db (snd (mfaSetupRequired env cr tok db))"
| Verify_Required: "e_uuid env = uuid \<Longrightarrow> auth_step cr uuid db (snd (mfaVerifyRequired env cr rb db))"
| Setup: "auth_step cr uuid db (snd (mfaSetup env cr db))"
| Verify: "auth_step cr uuid db (snd (mfaVerify env cr vb db))"
| Disable: "auth_step cr uuid db (snd (mfaDisable env cr pw db))"
| Link_Create: "auth_step cr uuid db (snd (demoLinkCreate env cr lb db))"
| Link_Resolve: "auth_step cr uuid db (snd (demoLinkResolve env cr raw db))"
| Link_Revoke: "auth_step cr uuid db (snd (demoLinkRevoke env i db))"
| Refresh: "e_uuid env = uuid \<Longrightarrow> auth_step cr uuid db (snd (refresh env cr tok db))"
| Logout: "auth_step cr uuid db (snd (logout env cr tok db))"
| Accept_Invite: "auth_step cr uuid db (snd (acceptInvite env cr ib db))"
| Change_Password: "auth_step cr uuid db (snd (changePassword env cr cb db))"
| Revoke_Device: "auth_step cr uuid db (snd (revokeDevice env i db))"

lemma auth_step_tokens: "auth_step cr uuid db db' \<Longrightarrow> token_step uuid db db'"
  by (erule auth_step.cases)
    (simp_all add: login_tokens loginMfa_tokens mfaVerifyRequired_tokens refresh_tokens logout_tokens
      keepsTokens_step quiet_requests)

lemma auth_reach_families:
  "(auth_step cr uuid)\<^sup>*\<^sup>* db db' \<Longrightarrow> inj uuid \<Longrightarrow> families_ok uuid db \<Longrightarrow> families_ok uuid db'"
  by (induction rule: rtranclp_induct) (auto dest: auth_step_tokens token_step_families)

text \<open>
  Claim C3. Refresh tokens rotate safely: after any sequence of requests to the module a family has
  at most one live token, and presenting a token that was already rotated away is refused and
  leaves no live token in its family.
\<close>

theorem refresh_rotation_safe:
  assumes "inj uuid" and "families_ok uuid db" and "(auth_step cr uuid)\<^sup>*\<^sup>* db db'"
  shows "oneLive (db_refreshTokens db')
    \<and> (find (\<lambda>t. rt_tokenHash t = cr_sha256 cr token) (db_refreshTokens db') = Some old \<longrightarrow>
       rt_replacedByTokenId old \<noteq> None \<longrightarrow> userById (rt_userId old) db' \<noteq> None \<longrightarrow> token \<noteq> [] \<longrightarrow>
         \<not> okResp (fst (refresh env cr (Some token) db'))
         \<and> (\<forall>t \<in> set (db_refreshTokens (snd (refresh env cr (Some token) db'))). rt_familyId t = rt_familyId old \<longrightarrow> \<not> live t))"
proof
  show "oneLive (db_refreshTokens db')"
    using auth_reach_families [OF assms(3,1,2)] by (simp add: families_ok_def)
  show "find (\<lambda>t. rt_tokenHash t = cr_sha256 cr token) (db_refreshTokens db') = Some old \<longrightarrow>
       rt_replacedByTokenId old \<noteq> None \<longrightarrow> userById (rt_userId old) db' \<noteq> None \<longrightarrow> token \<noteq> [] \<longrightarrow>
         \<not> okResp (fst (refresh env cr (Some token) db'))
         \<and> (\<forall>t \<in> set (db_refreshTokens (snd (refresh env cr (Some token) db'))). rt_familyId t = rt_familyId old \<longrightarrow> \<not> live t)"
    by (auto simp: refresh_def fail_def live_def updTokens_def audit_def set_updWhere split: option.split)
qed

section \<open>A sample institution\<close>

definition authEnv :: "time \<Rightarrow> env" where
  "authEnv now = \<lparr>e_now = now, e_userId = ''u1'', e_institutionId = ''i1'', e_uuid = (\<lambda>n. replicate n CHR ''x''),
     e_rand = (\<lambda>_. 0), e_parseDate = (\<lambda>_. None)\<rparr>"

definition plainCrypt :: crypt where
  "plainCrypt = \<lparr>cr_compare = (=), cr_hash = (\<lambda>_ p. p), cr_sha256 = id, cr_random = (\<lambda>n. replicate (Suc n) CHR ''0''),
     cr_signAccess = (\<lambda>_ p. tk_userId p), cr_signMfa = (\<lambda>_ i. i), cr_verifyMfa = (\<lambda>_ t. Some t),
     cr_totp = (\<lambda>_ c s. c = s), cr_totpSecret = (\<lambda>_. ''123456''), cr_gcm = sampleGcm, cr_mfaKey = sampleKey,
     cr_refreshTtlDays = 30, cr_email = (\<lambda>_. True)\<rparr>"

definition sampleUser :: user where
  "sampleUser = \<lparr>us_id = ''u1'', us_institutionId = ''i1'', us_fullName = ''Ama'', us_email = ''a@b.c'',
     us_passwordHash = ''secret password'', us_category = INTERNAL, us_status = U_ACTIVE, us_mfaEnabled = False,
     us_failedLoginCount = 0, us_lastFailedLoginAt = None, us_lockedUntil = None, us_passwordChangedAt = None,
     us_passwordExpiresAt = None, us_mustChangePassword = False, us_inviteToken = None, us_inviteTokenExpiresAt = None\<rparr>"

definition sampleAuthDb :: auth_db where
  "sampleAuthDb = \<lparr>db_next = 0, db_audit = [], db_approvals = [], db_users = [sampleUser], db_userMfa = [], db_devices = [],
     db_loginHistory = [], db_refreshTokens = [], db_passwordHistory = [], db_demoLinks = [], db_roles = [],
     db_userRoles = [], db_demoInstitutions = []\<rparr>"

definition sampleLogin :: loginBody where
  "sampleLogin = \<lparr>lo_institutionId = None, lo_email = ''a@b.c'', lo_password = ''secret password'',
     lo_deviceFingerprint = None, lo_trustDevice = False\<rparr>"

lemmas auth_sample_defs = authEnv_def plainCrypt_def sampleUser_def sampleAuthDb_def sampleLogin_def

definition fiveGuesses :: "(env \<times> string) list" where
  "fiveGuesses = map (\<lambda>n. (authEnv n, ''guess'')) [0, 1, 2, 3, 4]"

theorem lockout_after_five_witness:
  "\<exists>m d. login (authEnv 1000) plainCrypt (Some sampleLogin) (tryPasswords plainCrypt sampleLogin fiveGuesses sampleAuthDb) = (RErr 423 m, d)"
proof -
  have b: "sampleLogin\<lparr>lo_password := ''secret password''\<rparr> = sampleLogin" by (simp add: sampleLogin_def)
  have "if length fiveGuesses = 5
    then (\<exists>m d. login (authEnv 1000) plainCrypt (Some (sampleLogin\<lparr>lo_password := ''secret password''\<rparr>))
        (tryPasswords plainCrypt sampleLogin fiveGuesses sampleAuthDb) = (RErr 423 m, d)
          \<and> db_refreshTokens d = db_refreshTokens sampleAuthDb)
    else (\<exists>v. lookupLogin sampleLogin (tryPasswords plainCrypt sampleLogin fiveGuesses sampleAuthDb) = Some v
        \<and> \<not> isLocked (e_now (authEnv 1000)) v)"
    by (rule lockout_after_five [where u = sampleUser])
      (simp_all add: lookupLogin_def fiveGuesses_def auth_sample_defs)
  then show ?thesis unfolding b by (auto simp: fiveGuesses_def)
qed

definition firstSession :: "loginAnswer resp \<times> auth_db" where
  "firstSession = login (authEnv 1000) plainCrypt (Some sampleLogin) sampleAuthDb"

definition firstToken :: string where
  "firstToken = toHex ''0''"

lemma firstSession_run:
  "\<exists>s. firstSession = (ROk 200 (Session s), snd firstSession) \<and> se_refreshToken s = firstToken"
  by (simp add: firstSession_def login_def safeParse_def lookupLogin_def isLocked_def isDeviceTrusted_def
      userHasRoleRequiringMfa_def finishLogin_def completeSuccessfulLogin_def createToken_def rawToken_def firstToken_def
      auth_sample_defs Let_def)


definition rotatedDb :: auth_db where
  "rotatedDb = snd (refresh (authEnv 2000) plainCrypt (Some firstToken) (snd firstSession))"

lemma rotatedDb_old:
  "\<exists>old. find (\<lambda>t. rt_tokenHash t = cr_sha256 plainCrypt firstToken) (db_refreshTokens rotatedDb) = Some old
    \<and> rt_replacedByTokenId old \<noteq> None \<and> userById (rt_userId old) rotatedDb \<noteq> None"
  by (simp add: rotatedDb_def firstSession_def login_def safeParse_def lookupLogin_def isLocked_def isDeviceTrusted_def
      userHasRoleRequiringMfa_def finishLogin_def completeSuccessfulLogin_def createToken_def rawToken_def firstToken_def
      refresh_def userById_def updTokens_def updUser_def rememberDevice_def audit_def recordLoginAttempt_def newId_def
      toHex_def hexDigit_def code_def auth_sample_defs Let_def)

theorem refresh_rotation_safe_witness:
  "\<not> okResp (fst (refresh (authEnv 3000) plainCrypt (Some firstToken) rotatedDb))"
proof -
  have inj: "inj (\<lambda>n::nat. replicate n CHR ''x'')" by (rule injI) (metis length_replicate)
  have u: "e_uuid (authEnv t) = (\<lambda>n. replicate n CHR ''x'')" for t by (simp add: authEnv_def)
  have ok: "families_ok (\<lambda>n. replicate n CHR ''x'') sampleAuthDb"
    by (simp add: families_ok_def named_def uniqueBy_def oneLive_def sampleAuthDb_def)
  have reach: "(auth_step plainCrypt (\<lambda>n. replicate n CHR ''x''))\<^sup>*\<^sup>* sampleAuthDb rotatedDb"
    unfolding rotatedDb_def firstSession_def
    using auth_step.Login [OF u] auth_step.Refresh [OF u] by (rule converse_rtranclp_into_rtranclp [OF _ r_into_rtranclp])
  show ?thesis
    using refresh_rotation_safe [OF inj ok reach, of firstToken] rotatedDb_old by (auto simp: firstToken_def)
qed

text \<open>
  Trust granted while no MFA was enrolled outlives a later voluntary enrolment: until it runs out,
  a password alone signs the user in from that device.
\<close>

lemma trusted_before_enrolment:
  "\<exists>s. fst (login (authEnv 5000) plainCrypt (Some (sampleLogin\<lparr>lo_deviceFingerprint := Some ''dev''\<rparr>))
      (sampleAuthDb\<lparr>db_users := [sampleUser\<lparr>us_mfaEnabled := True\<rparr>],
        db_devices := [\<lparr>ud_id = ''d1'', ud_userId = ''u1'', ud_fingerprint = ''dev'', ud_trusted = True,
          ud_trustedUntil = Some 9000, ud_mfaVerifiedAt = None, ud_lastSeenAt = 0\<rparr>]\<rparr>)) = ROk 200 (Session s)"
  by (simp add: login_def safeParse_def lookupLogin_def isLocked_def isDeviceTrusted_def
      userHasRoleRequiringMfa_def finishLogin_def completeSuccessfulLogin_def createToken_def rawToken_def
      auth_sample_defs Let_def)

end
