(* ===== verification/Business_Rules.thy ===== *)
theory Business_Rules
  imports Server
begin

text \<open>
  The business rules engine (\<open>lib/businessRules.ts\<close>): conditions evaluated against a context of
  JSON values, the rules active at a trigger point, and their actions. \<open>Number(s)\<close> of a string
  and \<open>String(n)\<close> of a number are parameters. Decimals appear in a context as numbers; the members
  that JavaScript gives strings and numbers are not modelled.
\<close>

section \<open>Values and conditions\<close>

datatype conditionOperator =
    EQUALS | NOT_EQUALS | GREATER_THAN | GREATER_THAN_OR_EQUAL | LESS_THAN | LESS_THAN_OR_EQUAL | CONTAINS

record ruleCondition =
  rc_field :: string
  rc_operator :: conditionOperator
  rc_value :: jsValue

datatype actionType = FLAG | REQUIRE_ADDITIONAL_APPROVAL | REJECT

record ruleAction =
  ra_type :: actionType
  ra_message :: "string option"

datatype triggerPoint = LOAN_INITIATION | LOAN_APPROVAL | LOAN_DISBURSEMENT | SAVINGS_ACCOUNT_OPENING
  | CUSTOMER_CREATION | EMPLOYEE_ONBOARDING

datatype ruleStatus = BR_DRAFT | BR_PENDING_APPROVAL | BR_ACTIVE | BR_RETIRED

record businessRule =
  br_id :: string
  br_institutionId :: string
  br_ruleCode :: string
  br_name :: string
  br_triggerPoint :: triggerPoint
  br_conditions :: "ruleCondition list"
  br_conditionLogic :: string
  br_actions :: "ruleAction list"
  br_priority :: int
  br_effectiveDate :: "time option"
  br_expiryDate :: "time option"
  br_status :: ruleStatus

record conversions =
  cv_parse :: "string \<Rightarrow> num option"
  cv_show :: "num \<Rightarrow> string"

text \<open>\<open>value[part]\<close> for each part of the path; \<open>None\<close> is \<open>undefined\<close>.\<close>

fun memberOf :: "jsValue \<Rightarrow> string \<Rightarrow> jsValue option" where
  "memberOf (JObj fs) p = map_of fs p"
| "memberOf _ p = None"

fun splitDots :: "string \<Rightarrow> string list" where
  "splitDots [] = [[]]"
| "splitDots (c # s) = (if c = CHR ''.'' then [] # splitDots s
     else (case splitDots s of [] \<Rightarrow> [[c]] | p # ps \<Rightarrow> (c # p) # ps))"

fun walkPath :: "jsValue option \<Rightarrow> string list \<Rightarrow> jsValue option" where
  "walkPath v [] = v"
| "walkPath None (p # ps) = None"
| "walkPath (Some JNull) (p # ps) = None"
| "walkPath (Some v) (p # ps) = walkPath (memberOf v p) ps"

definition getField :: "(string \<times> jsValue) list \<Rightarrow> string \<Rightarrow> jsValue option" where
  "getField context field = walkPath (Some (JObj context)) (splitDots field)"

text \<open>\<open>Number(v)\<close>, with \<open>None\<close> for NaN, and \<open>String(v)\<close>.\<close>

fun jsNumber :: "conversions \<Rightarrow> jsValue \<Rightarrow> num option" where
  "jsNumber cv JNull = Some 0"
| "jsNumber cv (JBool b) = Some (if b then 1 else 0)"
| "jsNumber cv (JNum n) = Some n"
| "jsNumber cv (JStr s) = cv_parse cv s"
| "jsNumber cv (JObj fs) = None"

fun jsString :: "conversions \<Rightarrow> jsValue \<Rightarrow> string" where
  "jsString cv JNull = ''null''"
| "jsString cv (JBool b) = (if b then ''true'' else ''false'')"
| "jsString cv (JNum n) = cv_show cv n"
| "jsString cv (JStr s) = s"
| "jsString cv (JObj fs) = ''[object Object]''"

definition evaluateCondition :: "conversions \<Rightarrow> (string \<times> jsValue) list \<Rightarrow> ruleCondition \<Rightarrow> bool" where
  "evaluateCondition cv context condition =
     (case getField context (rc_field condition) of
        None \<Rightarrow> False
      | Some actual \<Rightarrow>
          (let expected = rc_value condition;
               compare = (\<lambda>r. case (jsNumber cv actual, jsNumber cv expected) of
                   (Some a, Some e) \<Rightarrow> r a e | _ \<Rightarrow> False);
               bothNumeric = (jsNumber cv actual \<noteq> None \<and> jsNumber cv expected \<noteq> None)
           in case rc_operator condition of
                EQUALS \<Rightarrow> if bothNumeric then compare (=) else jsString cv actual = jsString cv expected
              | NOT_EQUALS \<Rightarrow> if bothNumeric then compare (\<noteq>) else jsString cv actual \<noteq> jsString cv expected
              | GREATER_THAN \<Rightarrow> compare (>)
              | GREATER_THAN_OR_EQUAL \<Rightarrow> compare (\<ge>)
              | LESS_THAN \<Rightarrow> compare (<)
              | LESS_THAN_OR_EQUAL \<Rightarrow> compare (\<le>)
              | CONTAINS \<Rightarrow> includesStr (toLower (jsString cv actual)) (toLower (jsString cv expected))))"

definition ruleMatches :: "conversions \<Rightarrow> (string \<times> jsValue) list \<Rightarrow> ruleCondition list \<Rightarrow> string \<Rightarrow> bool" where
  "ruleMatches cv context conditions logic =
     (if conditions = [] then False
      else if logic = ''ANY'' then list_ex (evaluateCondition cv context) conditions
      else list_all (evaluateCondition cv context) conditions)"

section \<open>Matching and executing rules\<close>

text \<open>The active rules of a trigger point within their dates, by priority.\<close>

definition activeRule :: "env \<Rightarrow> string \<Rightarrow> triggerPoint \<Rightarrow> businessRule \<Rightarrow> bool" where
  "activeRule env inst tp r \<longleftrightarrow> br_institutionId r = inst \<and> br_status r = BR_ACTIVE \<and> br_triggerPoint r = tp
     \<and> (case br_effectiveDate r of None \<Rightarrow> True | Some d \<Rightarrow> d \<le> e_now env)
     \<and> (case br_expiryDate r of None \<Rightarrow> True | Some d \<Rightarrow> e_now env \<le> d)"

definition hasReject :: "businessRule \<Rightarrow> bool" where
  "hasReject r = list_ex (\<lambda>a. ra_type a = REJECT) (br_actions r)"

definition matchRules ::
  "conversions \<Rightarrow> env \<Rightarrow> string \<Rightarrow> triggerPoint \<Rightarrow> (string \<times> jsValue) list \<Rightarrow> businessRule list \<Rightarrow> businessRule list" where
  "matchRules cv env inst tp context rules =
     filter (\<lambda>r. ruleMatches cv context (br_conditions r) (br_conditionLogic r))
       (sort_key br_priority (filter (activeRule env inst tp) rules))"

definition orMessage :: "string option \<Rightarrow> string \<Rightarrow> string" where
  "orMessage m d = (if truthy m then the m else d)"

definition executeAction :: "env \<Rightarrow> string \<Rightarrow> string \<Rightarrow> businessRule \<Rightarrow> ruleAction \<Rightarrow> 'a core_db_scheme \<Rightarrow> 'a core_db_scheme" where
  "executeAction env targetType targetId r a db =
     (case ra_type a of
        FLAG \<Rightarrow> audit env ''business_rule.flagged'' targetType targetId db
      | REQUIRE_ADDITIONAL_APPROVAL \<Rightarrow>
          requestApproval env BUSINESS_RULE_TRIGGERED targetType targetId [(''ruleId'', JStr (br_id r))]
            (orMessage (ra_message a) (''Business rule '' @ br_ruleCode r @ '' ('' @ br_name r @ '') requires additional approval'')) db
      | REJECT \<Rightarrow> db)"

text \<open>The warnings are the codes of the rules with the actions taken.\<close>

definition executeRule :: "env \<Rightarrow> string \<Rightarrow> string \<Rightarrow> businessRule \<Rightarrow> 'a core_db_scheme \<Rightarrow> 'a core_db_scheme" where
  "executeRule env targetType targetId r db =
     audit env ''business_rule.triggered'' targetType targetId
       (foldl (\<lambda>d a. executeAction env targetType targetId r a d) db (br_actions r))"

definition executeMatchedRules ::
  "env \<Rightarrow> string \<Rightarrow> string \<Rightarrow> businessRule list \<Rightarrow> 'a core_db_scheme
    \<Rightarrow> (string \<times> string \<times> actionType list) list \<times> 'a core_db_scheme" where
  "executeMatchedRules env targetType targetId matched db =
     (map (\<lambda>r. (br_ruleCode r, br_name r, map ra_type (br_actions r))) matched,
      foldl (\<lambda>d r. executeRule env targetType targetId r d) db matched)"

section \<open>What the engine leaves alone, and what it adds\<close>

lemma executeAction_more [frame]: "core_db.more (executeAction env tt ti r a db) = core_db.more db"
  by (cases "ra_type a") (simp_all add: executeAction_def audit_frame requestApproval_frame)

lemma executeRule_more [frame]: "core_db.more (executeRule env tt ti r db) = core_db.more db"
proof -
  have "core_db.more (foldl (\<lambda>d a. executeAction env tt ti r a d) db as) = core_db.more db" for as
    by (induction as arbitrary: db) (simp_all add: executeAction_more)
  then show ?thesis by (simp add: executeRule_def audit_frame)
qed

lemma executeMatchedRules_more [frame]: "core_db.more (snd (executeMatchedRules env tt ti ms db)) = core_db.more db"
proof -
  have "core_db.more (foldl (\<lambda>d r. executeRule env tt ti r d) db ms) = core_db.more db"
    by (induction ms arbitrary: db) (simp_all add: executeRule_more)
  then show ?thesis by (simp add: executeMatchedRules_def)
qed

text \<open>The approval requests that a rule demands, in order.\<close>

definition demandedApprovals :: "businessRule \<Rightarrow> nat" where
  "demandedApprovals r = countWhere (\<lambda>a. ra_type a = REQUIRE_ADDITIONAL_APPROVAL) (br_actions r)"

lemma executeRule_approvals:
  "length (db_approvals (executeRule env tt ti r db)) = length (db_approvals db) + demandedApprovals r"
proof -
  have "length (db_approvals (foldl (\<lambda>d a. executeAction env tt ti r a d) db as))
      = length (db_approvals db) + countWhere (\<lambda>a. ra_type a = REQUIRE_ADDITIONAL_APPROVAL) as" for as
  proof (induction as arbitrary: db)
    case (Cons a as)
    then show ?case by (cases "ra_type a") (simp_all add: executeAction_def audit_frame requestApproval_def)
  qed simp
  then show ?thesis by (simp add: executeRule_def audit_frame demandedApprovals_def)
qed

lemma executeMatchedRules_approvals:
  "length (db_approvals (snd (executeMatchedRules env tt ti ms db)))
    = length (db_approvals db) + (\<Sum>r\<leftarrow>ms. demandedApprovals r)"
proof -
  have "length (db_approvals (foldl (\<lambda>d r. executeRule env tt ti r d) db ms))
      = length (db_approvals db) + (\<Sum>r\<leftarrow>ms. demandedApprovals r)"
    by (induction ms arbitrary: db) (simp_all add: executeRule_approvals)
  then show ?thesis by (simp add: executeMatchedRules_def)
qed

text \<open>A field that is null counts as the number 0, one that is missing matches nothing.\<close>

lemma null_is_zero:
  "getField ctx (rc_field c) = Some JNull \<Longrightarrow> rc_operator c = EQUALS \<Longrightarrow> rc_value c = JNum 0 \<Longrightarrow> evaluateCondition cv ctx c"
  "getField ctx (rc_field c) = None \<Longrightarrow> \<not> evaluateCondition cv ctx c"
  by (simp_all add: evaluateCondition_def)

text \<open>On a field that is there, the operators come in complementary pairs when both sides are numbers.\<close>

lemma complementary_conditions:
  assumes "getField ctx f = Some v" and "jsNumber cv v = Some a" and "jsNumber cv e = Some b"
  shows "evaluateCondition cv ctx \<lparr>rc_field = f, rc_operator = EQUALS, rc_value = e\<rparr>
      = (\<not> evaluateCondition cv ctx \<lparr>rc_field = f, rc_operator = NOT_EQUALS, rc_value = e\<rparr>)"
    and "evaluateCondition cv ctx \<lparr>rc_field = f, rc_operator = GREATER_THAN, rc_value = e\<rparr>
      = (\<not> evaluateCondition cv ctx \<lparr>rc_field = f, rc_operator = LESS_THAN_OR_EQUAL, rc_value = e\<rparr>)"
  using assms by (auto simp: evaluateCondition_def Let_def)

end
