(* ===== verification/Savings.thy ===== *)
theory Savings
  imports Cash_Vault Business_Rules
begin

text \<open>
  Savings accounts (\<open>routes/savings.routes.ts\<close>): opening under the business rules, deposits and
  withdrawals with their journals, fees, restrictions, standing instructions and statements, and
  the account numbers (\<open>lib/accountNumber.ts\<close>). The dashes in messages are written as hyphens.
  The PDF of a statement is its rendering and is not modelled.
\<close>

section \<open>Tables\<close>

datatype customerStatus = CS_REGISTERED | CS_PENDING_VERIFICATION | CS_PENDING_APPROVAL | CS_VERIFIED | CS_ACTIVE
  | CS_DORMANT | CS_RESTRICTED | CS_SUSPENDED | CS_BLACKLISTED | CS_CLOSED | CS_ARCHIVED

fun showCustomerStatus :: "customerStatus \<Rightarrow> string" where
  "showCustomerStatus CS_REGISTERED = ''REGISTERED''"
| "showCustomerStatus CS_PENDING_VERIFICATION = ''PENDING_VERIFICATION''"
| "showCustomerStatus CS_PENDING_APPROVAL = ''PENDING_APPROVAL''"
| "showCustomerStatus CS_VERIFIED = ''VERIFIED''"
| "showCustomerStatus CS_ACTIVE = ''ACTIVE''"
| "showCustomerStatus CS_DORMANT = ''DORMANT''"
| "showCustomerStatus CS_RESTRICTED = ''RESTRICTED''"
| "showCustomerStatus CS_SUSPENDED = ''SUSPENDED''"
| "showCustomerStatus CS_BLACKLISTED = ''BLACKLISTED''"
| "showCustomerStatus CS_CLOSED = ''CLOSED''"
| "showCustomerStatus CS_ARCHIVED = ''ARCHIVED''"

text \<open>The columns that business rules see are kept as the JSON object the engine is given.\<close>

record customer =
  cu_id :: string
  cu_institutionId :: string
  cu_status :: customerStatus
  cu_merged :: bool
  cu_mergedIntoCustomerId :: "string option"
  cu_columns :: "(string \<times> jsValue) list"

datatype productType = PT_SAVINGS | PT_LOAN
datatype productStatus = PS_DRAFT | PS_PENDING_APPROVAL | PS_ACTIVE | PS_WITHDRAWN | PS_ARCHIVED

record product =
  pr_id :: string
  pr_institutionId :: string
  pr_code :: string
  pr_type :: productType
  pr_status :: productStatus

record productVersion =
  pv_id :: string
  pv_productId :: string
  pv_interestMethod :: string
  pv_interestRate :: num
  pv_interestRateType :: string
  pv_promoInterestRate :: "num option"
  pv_promoDurationDays :: "int option"
  pv_minLoanAmount :: "int option"
  pv_maxLoanAmount :: "int option"
  pv_minTenureMonths :: "int option"
  pv_maxTenureMonths :: "int option"

datatype savingsStatus = SA_ACTIVE | SA_DORMANT | SA_CLOSED

record savingsAccount =
  sa_id :: string
  sa_institutionId :: string
  sa_customerId :: string
  sa_branchId :: "string option"
  sa_productVersionId :: "string option"
  sa_accountNumber :: string
  sa_balance :: int
  sa_ledgerBalance :: int
  sa_status :: savingsStatus
  sa_promoInterestRate :: "num option"
  sa_promoExpiresAt :: "time option"
  sa_interestSuspended :: bool
  sa_interestSuspendedReason :: "string option"
  sa_interestSuspendedAt :: "time option"
  sa_lastAccrualDate :: "time option"

datatype savingsTxnType = ST_DEPOSIT | ST_WITHDRAWAL | ST_INTEREST | ST_MIGRATION_OPENING_BALANCE | ST_FEE | ST_FEE_REVERSAL

record savingsTransaction =
  st_id :: string
  st_accountId :: string
  st_type :: savingsTxnType
  st_amount :: int
  st_balanceAfter :: int
  st_recordedById :: "string option"
  st_createdAt :: time

datatype holderRole = JOINT | AUTHORISED_SIGNATORY | GUARDIAN | NOMINEE | POWER_OF_ATTORNEY | CORPORATE_REPRESENTATIVE

fun showHolderRole :: "holderRole \<Rightarrow> string" where
  "showHolderRole JOINT = ''JOINT''"
| "showHolderRole AUTHORISED_SIGNATORY = ''AUTHORISED_SIGNATORY''"
| "showHolderRole GUARDIAN = ''GUARDIAN''"
| "showHolderRole NOMINEE = ''NOMINEE''"
| "showHolderRole POWER_OF_ATTORNEY = ''POWER_OF_ATTORNEY''"
| "showHolderRole CORPORATE_REPRESENTATIVE = ''CORPORATE_REPRESENTATIVE''"

record accountHolder =
  ah_id :: string
  ah_institutionId :: string
  ah_customerId :: string
  ah_role :: string
  ah_loanId :: "string option"
  ah_savingsAccountId :: "string option"
  ah_addedById :: "string option"
  ah_deletedAt :: "time option"

record savingsFeeType =
  ft_id :: string
  ft_institutionId :: string
  ft_name :: string
  ft_percentage :: bool
  ft_amount :: int
  ft_active :: bool

datatype chargeStatus = FC_APPLIED | FC_WAIVED | FC_REVERSED

fun showChargeStatus :: "chargeStatus \<Rightarrow> string" where
  "showChargeStatus FC_APPLIED = ''APPLIED''"
| "showChargeStatus FC_WAIVED = ''WAIVED''"
| "showChargeStatus FC_REVERSED = ''REVERSED''"

record savingsFeeCharge =
  fc_id :: string
  fc_institutionId :: string
  fc_accountId :: string
  fc_feeTypeId :: string
  fc_amount :: int
  fc_status :: chargeStatus
  fc_appliedById :: "string option"
  fc_waivedById :: "string option"
  fc_waivedAt :: "time option"
  fc_waivedReason :: "string option"

datatype restrictionType = DEBIT_RESTRICTION | CREDIT_RESTRICTION | FULL_FREEZE | COURT_ORDER | COMPLIANCE
  | FRAUD_INVESTIGATION | DORMANCY | CUSTOMER_REQUESTED | PRODUCT_RESTRICTION | INSTITUTION_DEFINED

datatype restrictionStatus = SR_PENDING_APPROVAL | SR_ACTIVE | SR_REMOVED | SR_EXPIRED

fun showRestrictionStatus :: "restrictionStatus \<Rightarrow> string" where
  "showRestrictionStatus SR_PENDING_APPROVAL = ''PENDING_APPROVAL''"
| "showRestrictionStatus SR_ACTIVE = ''ACTIVE''"
| "showRestrictionStatus SR_REMOVED = ''REMOVED''"
| "showRestrictionStatus SR_EXPIRED = ''EXPIRED''"

record savingsRestriction =
  sr_id :: string
  sr_institutionId :: string
  sr_accountId :: string
  sr_type :: restrictionType
  sr_reason :: string
  sr_status :: restrictionStatus
  sr_requestedById :: string
  sr_approvedById :: "string option"
  sr_activatedAt :: "time option"
  sr_expiresAt :: "time option"
  sr_removalRequestedById :: "string option"
  sr_removedById :: "string option"
  sr_removedAt :: "time option"
  sr_removalReason :: "string option"

datatype instructionType = INTERNAL_TRANSFER | LOAN_REPAYMENT | SCHEDULED_WITHDRAWAL
datatype instructionStatus = SI_ACTIVE | SI_SUSPENDED | SI_CANCELLED

record standingInstruction =
  si_id :: string
  si_institutionId :: string
  si_type :: instructionType
  si_sourceAccountId :: string
  si_destinationAccountId :: "string option"
  si_destinationLoanId :: "string option"
  si_amount :: int
  si_frequency :: frequency
  si_customIntervalDays :: "int option"
  si_nextExecutionDate :: time
  si_status :: instructionStatus
  si_maxRetries :: int
  si_consecutiveFailures :: int
  si_createdById :: string

record instructionRun =
  ir_instructionId :: string
  ir_success :: bool
  ir_amount :: int
  ir_failureReason :: "string option"

record savingsStatement =
  ss_id :: string
  ss_institutionId :: string
  ss_accountId :: string
  ss_periodStart :: time
  ss_periodEnd :: time
  ss_openingBalance :: int
  ss_closingBalance :: int
  ss_totalInterest :: int
  ss_totalFees :: int
  ss_transactions :: "(time \<times> savingsTxnType \<times> num \<times> num) list"
  ss_generatedById :: string

record savings_db = cash_db +
  db_customers :: "customer list"
  db_branches :: "(string \<times> string) list"
  db_products :: "product list"
  db_productVersions :: "productVersion list"
  db_businessRules :: "businessRule list"
  db_savings :: "savingsAccount list"
  db_savingsTxns :: "savingsTransaction list"
  db_holders :: "accountHolder list"
  db_savingsMappings :: "glMapping list"
  db_feeTypes :: "savingsFeeType list"
  db_feeCharges :: "savingsFeeCharge list"
  db_restrictions :: "savingsRestriction list"
  db_instructions :: "standingInstruction list"
  db_instructionRuns :: "instructionRun list"
  db_statements :: "savingsStatement list"

definition updSavingsBalance :: "(int \<Rightarrow> int) \<Rightarrow> savingsAccount \<Rightarrow> savingsAccount" where
  "updSavingsBalance f a = a\<lparr>sa_balance := f (sa_balance a), sa_ledgerBalance := f (sa_ledgerBalance a)\<rparr>"

interpretation savings: balance_table sa_id sa_balance updSavingsBalance
  by unfold_locales (simp_all add: updSavingsBalance_def)

definition ownSavings :: "env \<Rightarrow> string \<Rightarrow> 'a savings_db_scheme \<Rightarrow> savingsAccount option" where
  "ownSavings env i db = find (\<lambda>a. sa_id a = i \<and> sa_institutionId a = e_institutionId env) (db_savings db)"

definition updSavings :: "string \<Rightarrow> (savingsAccount \<Rightarrow> savingsAccount) \<Rightarrow> 'a savings_db_scheme \<Rightarrow> 'a savings_db_scheme" where
  "updSavings i f db = db\<lparr>db_savings := updWhere (\<lambda>a. sa_id a = i) f (db_savings db)\<rparr>"

definition ownCustomer :: "env \<Rightarrow> string \<Rightarrow> 'a savings_db_scheme \<Rightarrow> customer option" where
  "ownCustomer env i db = find (\<lambda>c. cu_id c = i \<and> cu_institutionId c = e_institutionId env) (db_customers db)"

section \<open>Configuration, holders and status\<close>

definition setSavingsMapping :: "env \<Rightarrow> string option \<Rightarrow> string option \<Rightarrow> 'a savings_db_scheme \<Rightarrow> glMapping resp \<times> 'a savings_db_scheme" where
  "setSavingsMapping env purpose acct db =
     (case mappingGuard env purpose acct db of
        Inl e \<Rightarrow> answerError e db
      | Inr (p, a) \<Rightarrow>
          (case upsertMapping env (newId env db) p a (db_savingsMappings db) of
             (m, ms) \<Rightarrow> (ROk 201 m, audit env ''savings_gl_mapping.set'' ''savings_gl_account_mapping'' (gm_id m)
               (db\<lparr>db_next := Suc (db_next db), db_savingsMappings := ms\<rparr>))))"

definition addHolder :: "env \<Rightarrow> string \<Rightarrow> (string \<times> holderRole) option \<Rightarrow> 'a savings_db_scheme \<Rightarrow> unit resp \<times> 'a savings_db_scheme" where
  "addHolder env i body db =
     (case body of
        None \<Rightarrow> (RErr 400 Flatten, db)
      | Some (cid, role) \<Rightarrow>
     (case ownSavings env i db of
        None \<Rightarrow> fail 404 ''Account not found'' db
      | Some a \<Rightarrow>
          if cid = sa_customerId a then fail 400 ''This customer is already the primary holder'' db
          else if ownCustomer env cid db = None then fail 404 ''Customer not found'' db
          else (ROk 202 (), audit env ''savings.holder_add_requested'' ''savings_account'' (sa_id a)
            (requestApproval env ACCOUNT_HOLDER_ADD ''SavingsAccount'' (sa_id a)
              [(''customerId'', JStr cid), (''role'', JStr (showHolderRole role)), (''savingsAccountId'', JStr (sa_id a))]
              (''Add '' @ showHolderRole role @ '' holder to savings account'') db))))"

definition removeHolder :: "env \<Rightarrow> string \<Rightarrow> string \<Rightarrow> 'a savings_db_scheme \<Rightarrow> unit resp \<times> 'a savings_db_scheme" where
  "removeHolder env i holderId db =
     (case ownSavings env i db of
        None \<Rightarrow> fail 404 ''Account not found'' db
      | Some a \<Rightarrow> (ROk 204 (), audit env ''savings.holder_remove'' ''savings_account'' (sa_id a)
          (db\<lparr>db_holders := updWhere (\<lambda>h. ah_id h = holderId \<and> ah_savingsAccountId h = Some (sa_id a))
             (\<lambda>h. h\<lparr>ah_deletedAt := Some (e_now env)\<rparr>) (db_holders db)\<rparr>)))"

definition closeSavings :: "env \<Rightarrow> string \<Rightarrow> 'a savings_db_scheme \<Rightarrow> unit resp \<times> 'a savings_db_scheme" where
  "closeSavings env i db =
     (case ownSavings env i db of
        None \<Rightarrow> fail 404 ''Account not found'' db
      | Some a \<Rightarrow>
          if cents (sa_balance a) \<noteq> 0 then fail 400 ''Account balance must be zero before closing'' db
          else (ROk 200 (), audit env ''savings.close'' ''savings_account'' (sa_id a)
            (updSavings (sa_id a) (\<lambda>a. a\<lparr>sa_status := SA_CLOSED\<rparr>) db)))"

definition reactivateSavings :: "env \<Rightarrow> string \<Rightarrow> 'a savings_db_scheme \<Rightarrow> unit resp \<times> 'a savings_db_scheme" where
  "reactivateSavings env i db =
     (let P = (\<lambda>a. sa_id a = i \<and> sa_institutionId a = e_institutionId env) in
      if countWhere P (db_savings db) = 0 then fail 404 ''Account not found'' db
      else (ROk 200 (), audit env ''savings.reactivate'' ''savings_account'' i
        (db\<lparr>db_savings := updWhere P (\<lambda>a. a\<lparr>sa_status := SA_ACTIVE\<rparr>) (db_savings db)\<rparr>)))"

section \<open>Opening an account\<close>

definition generateAccountNumber :: "time \<Rightarrow> num \<Rightarrow> string" where
  "generateAccountNumber now r = (let s = showNat (nat now) in
     ''SA'' @ drop (length s - 10) s @ padStart 3 (showNat (nat \<lfloor>nmul r 1000\<rfloor>)))"

definition savingsProduct :: "env \<Rightarrow> string \<Rightarrow> 'a savings_db_scheme \<Rightarrow> terr + productVersion \<times> product" where
  "savingsProduct env pvId db =
     (case find (\<lambda>v. pv_id v = pvId) (db_productVersions db) of
        None \<Rightarrow> Inl (Http 404 ''Savings product not found'')
      | Some v \<Rightarrow>
     (case find (\<lambda>p. pr_id p = pv_productId v) (db_products db) of
        None \<Rightarrow> Inl Thrown
      | Some p \<Rightarrow>
          if pr_institutionId p \<noteq> e_institutionId env \<or> pr_type p \<noteq> PT_SAVINGS then Inl (Http 404 ''Savings product not found'')
          else if pr_status p \<noteq> PS_ACTIVE then Inl (Http 400 ''This savings product is not currently active'')
          else Inr (v, p)))"

text \<open>The rate and end of a promotion, when the product version runs one.\<close>

definition promoFields :: "env \<Rightarrow> productVersion \<Rightarrow> num option \<times> time option" where
  "promoFields env v =
     (case (pv_promoInterestRate v, pv_promoDurationDays v) of
        (Some r, Some d) \<Rightarrow>
          if pv_interestRateType v = ''PROMOTIONAL'' \<and> d \<noteq> 0
          then (Some r, Some (e_now env + d * 24 * 60 * 60 * 1000)) else (None, None)
      | _ \<Rightarrow> (None, None))"

record openBody =
  ob_customerId :: string
  ob_productVersionId :: string
  ob_branchId :: "string option"

definition createSavings ::
  "env \<Rightarrow> openBody \<Rightarrow> productVersion \<Rightarrow> 'a savings_db_scheme \<Rightarrow> terr + savingsAccount \<times> 'a savings_db_scheme" where
  "createSavings env b v db =
     (let (rate, expires) = promoFields env v;
          a = \<lparr>sa_id = newId env db, sa_institutionId = e_institutionId env, sa_customerId = ob_customerId b,
            sa_branchId = ob_branchId b, sa_productVersionId = Some (pv_id v),
            sa_accountNumber = generateAccountNumber (e_now env) (e_rand env (db_next db)), sa_balance = 0,
            sa_ledgerBalance = 0, sa_status = SA_ACTIVE, sa_promoInterestRate = rate, sa_promoExpiresAt = expires,
            sa_interestSuspended = False, sa_interestSuspendedReason = None, sa_interestSuspendedAt = None,
            sa_lastAccrualDate = None\<rparr>
      in if find (\<lambda>x. sa_accountNumber x = sa_accountNumber a) (db_savings db) \<noteq> None
            \<or> (ob_branchId b \<noteq> None \<and> find (\<lambda>(i, _). Some i = ob_branchId b) (db_branches db) = None)
         then Inl Thrown
         else Inr (a, db\<lparr>db_next := Suc (db_next db), db_savings := db_savings db @ [a]\<rparr>))"

definition openSavings ::
  "conversions \<Rightarrow> env \<Rightarrow> openBody option \<Rightarrow> 'a savings_db_scheme
    \<Rightarrow> (savingsAccount \<times> (string \<times> string \<times> actionType list) list) resp \<times> 'a savings_db_scheme" where
  "openSavings cv env body db = answer 201 db (
     bindE (parseBody (\<lambda>b. True) body) (\<lambda>b.
     bindE (orThrow (Http 404 ''Customer not found'') (ownCustomer env (ob_customerId b) db)) (\<lambda>c.
     bindE (require (cu_status c = CS_ACTIVE) 400 (''Customer must be ACTIVE to open a savings account (currently ''
       @ showCustomerStatus (cu_status c) @ '')'')) (\<lambda>_.
     bindE (savingsProduct env (ob_productVersionId b) db) (\<lambda>(v, p).
     let matched = matchRules cv env (e_institutionId env) SAVINGS_ACCOUNT_OPENING
           [(''productCode'', JStr (pr_code p)), (''customer'', JObj (cu_columns c))] (db_businessRules db) in
     bindE (case find hasReject matched of
         Some r \<Rightarrow> Inl (Http 400 (''Account opening blocked by business rule '' @ br_ruleCode r @ '': '' @ br_name r))
       | None \<Rightarrow> Inr ()) (\<lambda>_.
     bindE (createSavings env b v db) (\<lambda>(a, db1).
     let (warnings, db2) = executeMatchedRules env ''SavingsAccount'' (sa_id a) matched
           (audit env ''savings.open_account'' ''savings_account'' (sa_id a) db1) in
     Inr ((a, warnings), db2))))))))"

section \<open>Deposits and withdrawals\<close>

text \<open>\<open>debit\<close> is the direction; the first active restriction that applies gives the message.\<close>

fun restrictionError :: "bool \<Rightarrow> savingsRestriction list \<Rightarrow> string option" where
  "restrictionError debit [] = None"
| "restrictionError debit (r # rs) =
     (if sr_type r = FULL_FREEZE then Some (''Account is fully frozen: '' @ sr_reason r)
      else if debit \<and> sr_type r = DEBIT_RESTRICTION then Some (''Withdrawals are restricted: '' @ sr_reason r)
      else if \<not> debit \<and> sr_type r = CREDIT_RESTRICTION then Some (''Deposits are restricted: '' @ sr_reason r)
      else restrictionError debit rs)"

definition checkRestriction :: "string \<Rightarrow> bool \<Rightarrow> 'a savings_db_scheme \<Rightarrow> string option" where
  "checkRestriction i debit db =
     restrictionError debit (filter (\<lambda>r. sr_accountId r = i \<and> sr_status r = SR_ACTIVE) (db_restrictions db))"

definition recordTxn ::
  "env \<Rightarrow> string \<Rightarrow> savingsTxnType \<Rightarrow> num \<Rightarrow> int \<Rightarrow> string option \<Rightarrow> 'a savings_db_scheme \<Rightarrow> savingsTransaction \<times> 'a savings_db_scheme" where
  "recordTxn env i ty amount after by db =
     (let t = \<lparr>st_id = newId env db, st_accountId = i, st_type = ty, st_amount = toDec2 amount, st_balanceAfter = after,
          st_recordedById = by, st_createdAt = e_now env\<rparr>
      in (t, db\<lparr>db_next := Suc (db_next db), db_savingsTxns := db_savingsTxns db @ [t]\<rparr>))"

definition savingsUnconfigured :: "bool \<Rightarrow> string" where
  "savingsUnconfigured withdraw = ''Savings GL account mapping is not configured (\"Cash/Bank (Savings)\" and \"Customer Deposits Liability\" both required) - configure this before recording ''
     @ (if withdraw then ''withdrawals'' else ''deposits'') @ '', real cash cannot move without a real accounting effect.''"

definition savingsLines :: "bool \<Rightarrow> glAccount \<Rightarrow> glAccount \<Rightarrow> num \<Rightarrow> (glCategory \<times> entry) list" where
  "savingsLines withdraw cash deposits amount =
     (if withdraw then transferLines deposits cash amount else transferLines cash deposits amount)"

definition savingsTxText :: "bool \<Rightarrow> savingsAccount \<Rightarrow> string" where
  "savingsTxText withdraw a = ''Savings '' @ (if withdraw then ''withdrawal'' else ''deposit'') @ '' - account '' @ sa_accountNumber a"

text \<open>The transaction: the guarded or plain update, the row read back, its record, and the journal.\<close>

definition moneyTx ::
  "env \<Rightarrow> bool \<Rightarrow> savingsAccount \<Rightarrow> num \<Rightarrow> string \<Rightarrow> (glCategory \<times> entry) list \<Rightarrow> 'a savings_db_scheme
    \<Rightarrow> terr + (savingsAccount \<times> savingsTransaction) \<times> 'a savings_db_scheme" where
  "moneyTx env withdraw a amount descr cls db =
     bindE (orThrow (if withdraw then Http 400 ''Insufficient balance'' else Thrown)
       (moveBalance sa_id sa_balance updSavingsBalance withdraw (sa_id a) amount (db_savings db))) (\<lambda>t1.
     let db1 = db\<lparr>db_savings := t1\<rparr> in
     bindE (orThrow Thrown (find (\<lambda>x. sa_id x = sa_id a) t1)) (\<lambda>acct.
     let r = recordTxn env (sa_id a) (if withdraw then ST_WITHDRAWAL else ST_DEPOSIT) amount (sa_balance acct) (Some (e_userId env)) db1 in
     bindE (postJournal env (e_institutionId env) AUTOMATIC descr (e_now env) (e_userId env)
       (e_userId env) cls (snd r)) (\<lambda>q.
     Inr ((acct, fst r), snd q))))"

definition savingsTx ::
  "env \<Rightarrow> bool \<Rightarrow> savingsAccount \<Rightarrow> num \<Rightarrow> (glCategory \<times> entry) list \<Rightarrow> 'a savings_db_scheme
    \<Rightarrow> terr + (savingsAccount \<times> savingsTransaction) \<times> 'a savings_db_scheme" where
  "savingsTx env withdraw a amount cls db = moneyTx env withdraw a amount (savingsTxText withdraw a) cls db"

definition moveSavings ::
  "bool \<Rightarrow> env \<Rightarrow> string \<Rightarrow> num option \<Rightarrow> 'a savings_db_scheme
    \<Rightarrow> (savingsAccount \<times> savingsTransaction) resp \<times> 'a savings_db_scheme" where
  "moveSavings withdraw env i body db = answer 201 db (
     bindE (parseBody (\<lambda>x. 0 < x) body) (\<lambda>amount.
     bindE (orThrow (Http 404 ''Account not found'') (ownSavings env i db)) (\<lambda>a.
     bindE (noError (checkRestriction (sa_id a) withdraw db)) (\<lambda>_.
     bindE (postingAccounts env (db_savingsMappings db) ''Cash/Bank (Savings)'' ''Customer Deposits Liability''
       (savingsUnconfigured withdraw) db) (\<lambda>(cash, deposits).
     bindE (require (isBalanced (map snd (savingsLines withdraw cash deposits amount))) 400
       (if withdraw then ''Withdrawal journal would not balance - check the withdrawal amount''
        else ''Deposit journal would not balance - check the deposit amount'')) (\<lambda>_.
     bindE (savingsTx env withdraw a amount (savingsLines withdraw cash deposits amount) db) (\<lambda>(x, db').
     Inr (x, audit env (if withdraw then ''savings.withdraw'' else ''savings.deposit'') ''savings_account'' (sa_id a) db'))))))))"

definition deposit where "deposit = moveSavings False"

definition withdraw where "withdraw = moveSavings True"

end
