(* ===== verification/Savings_Services.thy ===== *)
theory Savings_Services
  imports Savings
begin

text \<open>
  The rest of \<open>routes/savings.routes.ts\<close>: fees and waivers, restrictions, standing instructions and
  statements.
\<close>

section \<open>Fees\<close>

record feeTypeBody =
  fb_name :: string
  fb_percentage :: bool
  fb_amount :: num

definition createFeeType :: "env \<Rightarrow> feeTypeBody option \<Rightarrow> 'a savings_db_scheme \<Rightarrow> savingsFeeType resp \<times> 'a savings_db_scheme" where
  "createFeeType env body db =
     (case safeParse (\<lambda>b. fb_name b \<noteq> [] \<and> 0 < fb_amount b) body of
        None \<Rightarrow> (RErr 400 Flatten, db)
      | Some b \<Rightarrow>
          (let f = \<lparr>ft_id = newId env db, ft_institutionId = e_institutionId env, ft_name = fb_name b,
               ft_percentage = fb_percentage b, ft_amount = toDec2 (fb_amount b), ft_active = True\<rparr>
           in (ROk 201 f, db\<lparr>db_next := Suc (db_next db), db_feeTypes := db_feeTypes db @ [f]\<rparr>)))"

text \<open>A fixed amount, or a percentage of the present balance rounded to the pesewa.\<close>

definition feeAmount :: "savingsFeeType \<Rightarrow> savingsAccount \<Rightarrow> num" where
  "feeAmount f a = (if ft_percentage f
     then ndiv (of_int (mathRound (nmul (nmul (cents (sa_balance a)) (ndiv (cents (ft_amount f)) 100)) 100))) 100
     else cents (ft_amount f))"

text \<open>The balance that was read, minus or plus an amount, is written back to both balances.\<close>

definition setBalance :: "num \<Rightarrow> savingsAccount \<Rightarrow> savingsAccount" where
  "setBalance x a = a\<lparr>sa_balance := toDec2 x, sa_ledgerBalance := toDec2 x\<rparr>"

definition applyFee :: "env \<Rightarrow> string \<Rightarrow> string option \<Rightarrow> 'a savings_db_scheme \<Rightarrow> savingsFeeCharge resp \<times> 'a savings_db_scheme" where
  "applyFee env i body db =
     (case body of
        None \<Rightarrow> (RErr 400 Flatten, db)
      | Some feeTypeId \<Rightarrow>
     (case ownSavings env i db of
        None \<Rightarrow> fail 404 ''Account not found'' db
      | Some a \<Rightarrow>
     (case find (\<lambda>f. ft_id f = feeTypeId \<and> ft_institutionId f = e_institutionId env \<and> ft_active f) (db_feeTypes db) of
        None \<Rightarrow> fail 404 ''Active fee type not found'' db
      | Some f \<Rightarrow>
          (let amount = feeAmount f a;
               newBalance = nsub (cents (sa_balance a)) amount;
               c = \<lparr>fc_id = newId env db, fc_institutionId = e_institutionId env, fc_accountId = sa_id a, fc_feeTypeId = ft_id f,
                 fc_amount = toDec2 amount, fc_status = FC_APPLIED, fc_appliedById = Some (e_userId env), fc_waivedById = None,
                 fc_waivedAt = None, fc_waivedReason = None\<rparr>;
               db1 = (updSavings (sa_id a) (setBalance newBalance) db)\<lparr>db_next := Suc (db_next db), db_feeCharges := db_feeCharges db @ [c]\<rparr>;
               db2 = snd (recordTxn env (sa_id a) ST_FEE amount (toDec2 newBalance) (Some (e_userId env)) db1)
           in (ROk 201 c, audit env ''savings.fee_charged'' ''savings_account'' (sa_id a) db2)))))"

definition waiveFee :: "env \<Rightarrow> string \<Rightarrow> string option \<Rightarrow> 'a savings_db_scheme \<Rightarrow> unit resp \<times> 'a savings_db_scheme" where
  "waiveFee env chargeId reason db =
     (case find (\<lambda>c. fc_id c = chargeId \<and> fc_institutionId c = e_institutionId env) (db_feeCharges db) of
        None \<Rightarrow> fail 404 ''Charge not found'' db
      | Some c \<Rightarrow>
          if fc_status c \<noteq> FC_APPLIED
          then fail 400 (''Only an APPLIED charge can be waived (currently '' @ showChargeStatus (fc_status c) @ '')'') db
          else
            (let db1 = (case find (\<lambda>a. sa_id a = fc_accountId c) (db_savings db) of
                   None \<Rightarrow> db
                 | Some a \<Rightarrow>
                     (let newBalance = nadd (cents (sa_balance a)) (cents (fc_amount c))
                      in snd (recordTxn env (sa_id a) ST_FEE_REVERSAL (cents (fc_amount c)) (toDec2 newBalance) (Some (e_userId env))
                           (updSavings (sa_id a) (setBalance newBalance) db))));
                 db2 = db1\<lparr>db_feeCharges := updWhere (\<lambda>x. fc_id x = fc_id c) (\<lambda>x. x\<lparr>fc_status := FC_WAIVED,
                     fc_waivedById := Some (e_userId env), fc_waivedAt := Some (e_now env), fc_waivedReason := reason\<rparr>) (db_feeCharges db1)\<rparr>
             in (ROk 200 (), audit env ''savings.fee_waived'' ''savings_account'' (fc_accountId c) db2)))"

section \<open>Restrictions\<close>

record restrictionBody =
  xb_type :: "restrictionType option"
  xb_reason :: string
  xb_expiresAt :: "string option"

text \<open>The schema takes any text as the type; the database refuses one it does not know.\<close>

definition createRestriction :: "env \<Rightarrow> string \<Rightarrow> restrictionBody option \<Rightarrow> 'a savings_db_scheme \<Rightarrow> savingsRestriction resp \<times> 'a savings_db_scheme" where
  "createRestriction env i body db =
     (case safeParse (\<lambda>b. 2 \<le> length (xb_reason b)) body of
        None \<Rightarrow> (RErr 400 Flatten, db)
      | Some b \<Rightarrow>
     (case ownSavings env i db of
        None \<Rightarrow> fail 404 ''Account not found'' db
      | Some a \<Rightarrow>
     (case (xb_type b, if truthy (xb_expiresAt b) then map_option Some (e_parseDate env (the (xb_expiresAt b))) else Some None) of
        (Some ty, Some ex) \<Rightarrow>
          (let r = \<lparr>sr_id = newId env db, sr_institutionId = e_institutionId env, sr_accountId = sa_id a, sr_type = ty,
               sr_reason = xb_reason b, sr_status = SR_PENDING_APPROVAL, sr_requestedById = e_userId env, sr_approvedById = None,
               sr_activatedAt = None, sr_expiresAt = ex, sr_removalRequestedById = None, sr_removedById = None, sr_removedAt = None, sr_removalReason = None\<rparr>
           in (ROk 202 r, requestApproval env SAVINGS_RESTRICTION_CREATE ''SavingsRestriction'' (sr_id r) [] (xb_reason b)
                (db\<lparr>db_next := Suc (db_next db), db_restrictions := db_restrictions db @ [r]\<rparr>)))
      | _ \<Rightarrow> answerError Thrown db)))"

definition updRestriction :: "string \<Rightarrow> (savingsRestriction \<Rightarrow> savingsRestriction) \<Rightarrow> 'a savings_db_scheme \<Rightarrow> 'a savings_db_scheme" where
  "updRestriction i f db = db\<lparr>db_restrictions := updWhere (\<lambda>r. sr_id r = i) f (db_restrictions db)\<rparr>"

definition requestRemoval :: "env \<Rightarrow> string \<Rightarrow> string option \<Rightarrow> 'a savings_db_scheme \<Rightarrow> unit resp \<times> 'a savings_db_scheme" where
  "requestRemoval env i reason db =
     (case find (\<lambda>r. sr_id r = i \<and> sr_institutionId r = e_institutionId env) (db_restrictions db) of
        None \<Rightarrow> fail 404 ''Restriction not found'' db
      | Some r \<Rightarrow>
          if sr_status r \<noteq> SR_ACTIVE
          then fail 400 (''Only an ACTIVE restriction can be removed (currently '' @ showRestrictionStatus (sr_status r) @ '')'') db
          else (ROk 202 (), requestApproval env SAVINGS_RESTRICTION_REMOVE ''SavingsRestriction'' (sr_id r) []
                 (orMessage reason ''Restriction removal requested'')
                 (updRestriction (sr_id r) (\<lambda>r. r\<lparr>sr_removalRequestedById := Some (e_userId env)\<rparr>) db)))"

section \<open>Standing instructions\<close>

record instructionBody =
  nb_type :: instructionType
  nb_sourceAccountId :: string
  nb_destinationAccountId :: "string option"
  nb_destinationLoanId :: "string option"
  nb_amount :: num
  nb_frequency :: frequency
  nb_customIntervalDays :: "int option"
  nb_startDate :: string

definition instructionSchema :: "instructionBody \<Rightarrow> bool" where
  "instructionSchema b \<longleftrightarrow> 0 < nb_amount b \<and> (case nb_customIntervalDays b of None \<Rightarrow> True | Some d \<Rightarrow> 0 < d)"

definition createInstruction :: "env \<Rightarrow> instructionBody option \<Rightarrow> 'a savings_db_scheme \<Rightarrow> standingInstruction resp \<times> 'a savings_db_scheme" where
  "createInstruction env body db =
     (case safeParse instructionSchema body of
        None \<Rightarrow> (RErr 400 Flatten, db)
      | Some b \<Rightarrow>
          if nb_type b = INTERNAL_TRANSFER \<and> \<not> truthy (nb_destinationAccountId b)
          then fail 400 ''destinationAccountId is required for INTERNAL_TRANSFER'' db
          else if nb_type b = LOAN_REPAYMENT \<and> \<not> truthy (nb_destinationLoanId b)
          then fail 400 ''destinationLoanId is required for LOAN_REPAYMENT'' db
          else if find (\<lambda>a. sa_id a = nb_sourceAccountId b \<and> sa_institutionId a = e_institutionId env \<and> sa_status a = SA_ACTIVE)
              (db_savings db) = None
          then fail 404 (''Source account not found or not ACTIVE - doc '' @ CHR 0xA7 # ''58.5 '' @ CHR 0x27 # ''execute only on active accounts''
                 @ CHR 0x27 # '' applies at creation too'') db
          else (case e_parseDate env (nb_startDate b) of
              None \<Rightarrow> answerError Thrown db
            | Some d \<Rightarrow>
                (let s = \<lparr>si_id = newId env db, si_institutionId = e_institutionId env, si_type = nb_type b,
                     si_sourceAccountId = nb_sourceAccountId b, si_destinationAccountId = nb_destinationAccountId b,
                     si_destinationLoanId = nb_destinationLoanId b, si_amount = toDec2 (nb_amount b),
                     si_frequency = nb_frequency b, si_customIntervalDays = nb_customIntervalDays b,
                     si_nextExecutionDate = d, si_status = SI_ACTIVE, si_maxRetries = 3, si_consecutiveFailures = 0,
                     si_createdById = e_userId env\<rparr>
                 in (ROk 201 s, audit env ''savings.standing_instruction_created'' ''standing_instruction'' (si_id s)
                      (db\<lparr>db_next := Suc (db_next db), db_instructions := db_instructions db @ [s]\<rparr>)))))"

definition ownInstruction :: "env \<Rightarrow> string \<Rightarrow> standingInstruction \<Rightarrow> bool" where
  "ownInstruction env i s \<longleftrightarrow> si_id s = i \<and> si_institutionId s = e_institutionId env"

definition updInstructions :: "(standingInstruction \<Rightarrow> bool) \<Rightarrow> (standingInstruction \<Rightarrow> standingInstruction) \<Rightarrow> 'a savings_db_scheme \<Rightarrow> 'a savings_db_scheme" where
  "updInstructions P f db = db\<lparr>db_instructions := updWhere P f (db_instructions db)\<rparr>"

definition suspendInstruction :: "env \<Rightarrow> string \<Rightarrow> 'a savings_db_scheme \<Rightarrow> unit resp \<times> 'a savings_db_scheme" where
  "suspendInstruction env i db =
     (if countWhere (ownInstruction env i) (db_instructions db) = 0 then fail 404 ''Not found'' db
      else (ROk 200 (), updInstructions (ownInstruction env i) (\<lambda>s. s\<lparr>si_status := SI_SUSPENDED\<rparr>) db))"

definition reactivateInstruction :: "env \<Rightarrow> string \<Rightarrow> 'a savings_db_scheme \<Rightarrow> unit resp \<times> 'a savings_db_scheme" where
  "reactivateInstruction env i db =
     (case find (ownInstruction env i) (db_instructions db) of
        None \<Rightarrow> fail 404 ''Not found'' db
      | Some s \<Rightarrow> (ROk 200 (), updInstructions (\<lambda>x. si_id x = si_id s)
          (\<lambda>x. x\<lparr>si_status := SI_ACTIVE, si_consecutiveFailures := 0, si_nextExecutionDate := e_now env\<rparr>) db))"

definition cancelInstruction :: "env \<Rightarrow> string \<Rightarrow> 'a savings_db_scheme \<Rightarrow> unit resp \<times> 'a savings_db_scheme" where
  "cancelInstruction env i db =
     (if countWhere (ownInstruction env i) (db_instructions db) = 0 then fail 404 ''Not found'' db
      else (ROk 200 (), updInstructions (ownInstruction env i) (\<lambda>s. s\<lparr>si_status := SI_CANCELLED\<rparr>) db))"

section \<open>Statements\<close>

text \<open>The transactions of an account in order of time; the last before a moment, and those of a period.\<close>

definition txnsInOrder :: "string \<Rightarrow> savingsTransaction list \<Rightarrow> savingsTransaction list" where
  "txnsInOrder i ts = sort_key st_createdAt (filter (\<lambda>t. st_accountId t = i) ts)"

definition balanceBefore :: "string \<Rightarrow> time \<Rightarrow> savingsTransaction list \<Rightarrow> num" where
  "balanceBefore i d ts = (case rev (filter (\<lambda>t. st_createdAt t < d) (txnsInOrder i ts)) of
     [] \<Rightarrow> 0 | t # _ \<Rightarrow> cents (st_balanceAfter t))"

definition periodTxns :: "string \<Rightarrow> time \<Rightarrow> time \<Rightarrow> savingsTransaction list \<Rightarrow> savingsTransaction list" where
  "periodTxns i from to ts = filter (\<lambda>t. from \<le> st_createdAt t \<and> st_createdAt t \<le> to) (txnsInOrder i ts)"

definition totalOf :: "savingsTxnType \<Rightarrow> savingsTransaction list \<Rightarrow> num" where
  "totalOf ty ts = nsum (map (\<lambda>t. cents (st_amount t)) (filter (\<lambda>t. st_type t = ty) ts))"

definition closingBalance :: "num \<Rightarrow> savingsTransaction list \<Rightarrow> num" where
  "closingBalance opening ts = (if ts = [] then opening else cents (st_balanceAfter (last ts)))"

definition generateStatement :: "env \<Rightarrow> string \<Rightarrow> (string \<times> string) option \<Rightarrow> 'a savings_db_scheme \<Rightarrow> savingsStatement resp \<times> 'a savings_db_scheme" where
  "generateStatement env i body db =
     (case body of
        None \<Rightarrow> (RErr 400 Flatten, db)
      | Some (from, to) \<Rightarrow>
     (case ownSavings env i db of
        None \<Rightarrow> fail 404 ''Account not found'' db
      | Some a \<Rightarrow>
     (case (e_parseDate env from, e_parseDate env to) of
        (Some ps, Some pe0) \<Rightarrow>
          (let pe = endOfDay pe0;
               opening = balanceBefore (sa_id a) ps (db_savingsTxns db);
               ts = periodTxns (sa_id a) ps pe (db_savingsTxns db);
               s = \<lparr>ss_id = newId env db, ss_institutionId = e_institutionId env, ss_accountId = sa_id a, ss_periodStart = ps,
                 ss_periodEnd = pe, ss_openingBalance = toDec2 opening, ss_closingBalance = toDec2 (closingBalance opening ts),
                 ss_totalInterest = toDec2 (totalOf ST_INTEREST ts), ss_totalFees = toDec2 (totalOf ST_FEE ts),
                 ss_transactions = map (\<lambda>t. (st_createdAt t, st_type t, cents (st_amount t), cents (st_balanceAfter t))) ts,
                 ss_generatedById = e_userId env\<rparr>
           in (ROk 200 s, audit env ''savings.statement_generated'' ''savings_account'' (sa_id a)
                (db\<lparr>db_next := Suc (db_next db), db_statements := db_statements db @ [s]\<rparr>)))
      | _ \<Rightarrow> answerError Thrown db)))"

lemma sort_key_filter_split:
  "sorted (map k ts) \<Longrightarrow> filter (\<lambda>t. k t < (e::int)) ts = filter (\<lambda>t. k t < d) ts @ filter (\<lambda>t. d \<le> k t \<and> k t < e) ts" if "d \<le> e"
proof (induction ts)
  case (Cons t ts)
  show ?case
  proof (cases "k t < d")
    case True
    then show ?thesis using Cons that by auto
  next
    case False
    then have "filter (\<lambda>t. k t < d) ts = []" using Cons.prems by (auto simp: filter_empty_conv)
    then show ?thesis using Cons False by auto
  qed
qed simp

text \<open>
  The closing balance of a period is the balance before the moment after it, so it is the opening
  balance of the period that follows.
\<close>

lemma closing_is_next_opening:
  assumes "from \<le> to"
  shows "closingBalance (balanceBefore i from ts) (periodTxns i from to ts) = balanceBefore i (to + 1) ts"
proof -
  let ?o = "txnsInOrder i ts"
  have "sorted (map st_createdAt ?o)" by (simp add: txnsInOrder_def)
  then have "filter (\<lambda>t. st_createdAt t < to + 1) ?o
      = filter (\<lambda>t. st_createdAt t < from) ?o @ filter (\<lambda>t. from \<le> st_createdAt t \<and> st_createdAt t < to + 1) ?o"
    using assms by (intro sort_key_filter_split) auto
  then have split: "filter (\<lambda>t. st_createdAt t < to + 1) ?o = filter (\<lambda>t. st_createdAt t < from) ?o @ periodTxns i from to ts"
    by (simp add: periodTxns_def)
  show ?thesis
  proof (cases "periodTxns i from to ts" rule: rev_cases)
    case Nil
    then show ?thesis using split by (simp add: closingBalance_def balanceBefore_def)
  next
    case (snoc us t)
    then show ?thesis using split by (simp add: closingBalance_def balanceBefore_def)
  qed
qed

end
