(* ===== verification/Savings_Safety.thy ===== *)
theory Savings_Safety
  imports Savings_Services
begin

text \<open>
  What savings accounts guarantee: deposits and withdrawals are exact, atomic and never overdraw;
  accounts open only under the rules; and statements follow on from each other.
\<close>

section \<open>Deposits and withdrawals\<close>

definition savings_ok :: "'a savings_db_scheme \<Rightarrow> bool" where
  "savings_ok db \<longleftrightarrow> uniqueBy sa_id (db_savings db)
     \<and> (\<forall>a \<in> set (db_savings db). 0 \<le> sa_balance a \<and> sa_ledgerBalance a = sa_balance a)"

lemma recordTxn_frame [frame]:
  "db_glAccounts (snd (recordTxn env i ty am af by db)) = db_glAccounts db"
  "db_journals (snd (recordTxn env i ty am af by db)) = db_journals db"
  "db_savings (snd (recordTxn env i ty am af by db)) = db_savings db"
  "st_balanceAfter (fst (recordTxn env i ty am af by db)) = af"
  "st_amount (fst (recordTxn env i ty am af by db)) = toDec2 am"
  by (simp_all add: recordTxn_def Let_def)

lemma savingsLines_good:
  assumes "postingAccounts env ms p q m db = Inr (a, c)" and "amount = cents n" and "\<bar>n\<bar> \<le> 10 ^ 13"
  shows "goodLines db (savingsLines w a c amount)" and "balancedLines (map (lineRow \<circ> snd) (savingsLines w a c amount))"
proof -
  obtain i k where "accountById i db = Some a" "accountById k db = Some c"
    using assms(1) by (rule postingAccounts_Inr)
  then show "goodLines db (savingsLines w a c amount)"
    using assms(2,3) by (simp add: savingsLines_def transferLines_good)
  show "balancedLines (map (lineRow \<circ> snd) (savingsLines w a c amount))"
    unfolding savingsLines_def by (cases w) (simp_all only: transferLines_balanced if_True if_False)
qed

lemma savings_moved_ok:
  assumes "moveBalance sa_id sa_balance updSavingsBalance w i (cents n) (db_savings db) = Some t"
    and "savings_ok db" and "0 \<le> n" and "n \<le> 10 ^ 13"
  shows "uniqueBy sa_id t \<and> (\<forall>a \<in> set t. 0 \<le> sa_balance a \<and> sa_ledgerBalance a = sa_balance a)"
proof -
  obtain P f where t: "t = updWhere P (updSavingsBalance f) (db_savings db)" using moveBalance_updWhere [OF assms(1)] by blast
  have "uniqueBy sa_id t"
    using assms(2) by (simp add: t savings_ok_def uniqueBy_updWhere updSavingsBalance_def)
  moreover have "sa_ledgerBalance a = sa_balance a" if "a \<in> set t" for a
    using that assms(2) by (auto simp: t savings_ok_def set_updWhere updSavingsBalance_def)
  moreover have "0 \<le> sa_balance a" if "a \<in> set t" for a
    by (rule savings.move_nonneg [OF assms(1) assms(3) _ _ that]) (use assms(2,4) in \<open>auto simp: savings_ok_def\<close>)
  ultimately show ?thesis by blast
qed

lemma moneyTx_effect:
  assumes tx: "moneyTx env w a (cents n) descr cls db = Inr ((x, t), db')"
    and books: "books_ok db" and ok: "savings_ok db" and n: "0 \<le> n" "n \<le> 10 ^ 13"
    and good: "goodLines db cls" and bal: "balancedLines (map (lineRow \<circ> snd) cls)"
  shows "books_ok db'" and "savings_ok db'" and "st_amount t = n" and "st_balanceAfter t = sa_balance x"
    and "find (\<lambda>y. sa_id y = sa_id a) (db_savings db') = Some x"
    and "sum_list (map sa_balance (db_savings db')) = sum_list (map sa_balance (db_savings db)) + (if w then - n else n)"
proof -
  obtain t1 j where m: "moveBalance sa_id sa_balance updSavingsBalance w (sa_id a) (cents n) (db_savings db) = Some t1"
    and x: "find (\<lambda>y. sa_id y = sa_id a) t1 = Some x"
    and t: "t = fst (recordTxn env (sa_id a) (if w then ST_WITHDRAWAL else ST_DEPOSIT) (cents n) (sa_balance x) (Some (e_userId env)) (db\<lparr>db_savings := t1\<rparr>))"
    and post: "postJournal env (e_institutionId env) AUTOMATIC descr (e_now env) (e_userId env)
       (e_userId env) cls (snd (recordTxn env (sa_id a) (if w then ST_WITHDRAWAL else ST_DEPOSIT) (cents n) (sa_balance x) (Some (e_userId env)) (db\<lparr>db_savings := t1\<rparr>))) = Inr (j, db')"
    using tx unfolding moneyTx_def bindE_Inr_iff orThrow_Inr_iff Let_def
    by (metis (no_types, lifting) prod.collapse Inr_inject prod.inject)
  define db2 where "db2 = snd (recordTxn env (sa_id a) (if w then ST_WITHDRAWAL else ST_DEPOSIT) (cents n) (sa_balance x) (Some (e_userId env)) (db\<lparr>db_savings := t1\<rparr>))"
  have db2: "db_glAccounts db2 = db_glAccounts db" "db_journals db2 = db_journals db" "db_savings db2 = t1"
    by (simp_all add: db2_def recordTxn_frame)
  have books2: "books_ok db2" and good2: "goodLines db2 cls"
    using books_cong [OF db2(1,2)] goodLines_cong [OF db2(1)] books good by simp_all
  note post2 = post [folded db2_def]
  show "books_ok db'" by (rule postJournal_books [OF books2 good2 bal post2])
  have "uniqueBy ga_id (db_glAccounts db2)" using books2 by (simp add: books_ok_def)
  from postJournal_result [OF this good2 post2] have s': "db_savings db' = t1" using db2(3) by simp
  show "savings_ok db'" using savings_moved_ok [OF m ok n] by (simp add: savings_ok_def s')
  show "st_amount t = n" "st_balanceAfter t = sa_balance x" using n by (simp_all add: t recordTxn_frame)
  show "find (\<lambda>y. sa_id y = sa_id a) (db_savings db') = Some x" using x s' by simp
  have u: "uniqueBy sa_id (db_savings db)" using ok by (simp add: savings_ok_def)
  show "sum_list (map sa_balance (db_savings db')) = sum_list (map sa_balance (db_savings db)) + (if w then - n else n)"
    unfolding s' by (rule savings.move_row [OF m _ u]) (use n in auto)
qed

lemmas savingsTx_effect = moneyTx_effect [of env w a n "savingsTxText w a" for env w a n, folded savingsTx_def]

lemma moveSavings_cases:
  assumes "moveSavings w env i (Some amount) db = (r, db')"
  obtains (refused) "\<not> okResp r" and "db' = db"
  | (moved) a cash dep x t db1 where "r = ROk 201 (x, t)" and "0 < amount" and "ownSavings env i db = Some a"
      and "checkRestriction (sa_id a) w db = None"
      and "postingAccounts env (db_savingsMappings db) ''Cash/Bank (Savings)'' ''Customer Deposits Liability'' (savingsUnconfigured w) db = Inr (cash, dep)"
      and "savingsTx env w a amount (savingsLines w cash dep amount) db = Inr ((x, t), db1)"
      and "db' = audit env (if w then ''savings.withdraw'' else ''savings.deposit'') ''savings_account'' (sa_id a) db1"
  using assms unfolding moveSavings_def
proof (cases rule: answer_cases)
  case (finished x)
  then obtain a cash dep y db1 where "0 < amount" "ownSavings env i db = Some a" "checkRestriction (sa_id a) w db = None"
    "postingAccounts env (db_savingsMappings db) ''Cash/Bank (Savings)'' ''Customer Deposits Liability'' (savingsUnconfigured w) db = Inr (cash, dep)"
    "savingsTx env w a amount (savingsLines w cash dep amount) db = Inr (y, db1)"
    "x = y" "db' = audit env (if w then ''savings.withdraw'' else ''savings.deposit'') ''savings_account'' (sa_id a) db1"
    by (auto simp: bindE_Inr_iff)
  then show ?thesis using moved [of "fst x" "snd x" a cash dep db1] finished(2) by simp
qed (rule refused)


section \<open>Opening\<close>

lemma more_savings: "core_db.more (db :: 'a savings_db_scheme) = core_db.more db' \<Longrightarrow> db_savings db = db_savings db'"
  by (cases db; cases db') simp

lemma createSavings_result:
  assumes "createSavings env b v db = Inr (a, db1)"
  shows "db_savings db1 = db_savings db @ [a]" and "sa_balance a = 0" and "sa_customerId a = ob_customerId b"
    and "db_approvals db1 = db_approvals db"
  using assms by (auto simp: createSavings_def Let_def split_beta split: if_splits)

text \<open>
  A savings account opens only for an active customer and an active savings product of
  the institution, and only if no active business rule that matches the customer rejects it; it
  opens empty, and every additional approval that a matching rule demands has been requested.
  Otherwise nothing changes.
\<close>

theorem savings_opening_guarded:
  assumes "openSavings cv env (Some b) db = (r, db')"
  shows "case r of
      RErr _ _ \<Rightarrow> db' = db
    | ROk _ (a, warnings) \<Rightarrow> (\<exists>c v p. ownCustomer env (ob_customerId b) db = Some c \<and> cu_status c = CS_ACTIVE
        \<and> v \<in> set (db_productVersions db) \<and> p \<in> set (db_products db) \<and> pr_id p = pv_productId v \<and> pr_institutionId p = e_institutionId env
        \<and> pr_type p = PT_SAVINGS \<and> pr_status p = PS_ACTIVE \<and> pv_id v = ob_productVersionId b
        \<and> (let matched = matchRules cv env (e_institutionId env) SAVINGS_ACCOUNT_OPENING
             [(''productCode'', JStr (pr_code p)), (''customer'', JObj (cu_columns c))] (db_businessRules db)
           in (\<forall>m \<in> set matched. \<not> hasReject m)
             \<and> length (db_approvals db') = length (db_approvals db) + (\<Sum>m\<leftarrow>matched. demandedApprovals m))
        \<and> db_savings db' = db_savings db @ [a] \<and> sa_balance a = 0 \<and> sa_customerId a = ob_customerId b)"
  using assms unfolding openSavings_def
proof (cases rule: answer_cases)
  case refused
  then show ?thesis by (cases r) auto
next
  case (finished x)
  define matched where "matched p c = matchRules cv env (e_institutionId env) SAVINGS_ACCOUNT_OPENING
      [(''productCode'', JStr (pr_code p)), (''customer'', JObj (cu_columns c))] (db_businessRules db)" for p :: product and c :: customer
  obtain c v p a db1 where c: "ownCustomer env (ob_customerId b) db = Some c" "cu_status c = CS_ACTIVE"
    and prod: "savingsProduct env (ob_productVersionId b) db = Inr (v, p)"
    and none: "find hasReject (matched p c) = None"
    and new: "createSavings env b v db = Inr (a, db1)"
    and x: "fst x = a"
    and db': "db' = snd (executeMatchedRules env ''SavingsAccount'' (sa_id a) (matched p c)
           (audit env ''savings.open_account'' ''savings_account'' (sa_id a) db1))"
    using finished(1) by (auto simp: bindE_Inr_iff Let_def matched_def split_beta split: option.splits)
  have p: "v \<in> set (db_productVersions db)" "p \<in> set (db_products db)" "pr_id p = pv_productId v" "pr_institutionId p = e_institutionId env"
    "pr_type p = PT_SAVINGS" "pr_status p = PS_ACTIVE" "pv_id v = ob_productVersionId b"
    using prod by (auto simp: savingsProduct_def split: option.splits if_splits dest!: find_SomeD)
  have "core_db.more db' = core_db.more db1" by (simp add: db' executeMatchedRules_more audit_frame)
  then have s: "db_savings db' = db_savings db @ [a]" using more_savings createSavings_result(1) [OF new] by metis
  have ap: "length (db_approvals db') = length (db_approvals db) + (\<Sum>m\<leftarrow>matched p c. demandedApprovals m)"
    by (simp add: db' executeMatchedRules_approvals audit_frame createSavings_result(4) [OF new])
  have "\<forall>m \<in> set (matched p c). \<not> hasReject m" using none by (auto simp: find_None_iff)
  then show ?thesis
    unfolding finished(2) resp.case split_beta x Let_def matched_def [symmetric]
    by (intro exI [of _ c] exI [of _ v] exI [of _ p]) (use c p s ap createSavings_result(2,3) [OF new] in simp)
qed

section \<open>Statements\<close>

lemma generateStatement_result:
  assumes "generateStatement env i (Some (from, to)) db = (ROk k s, db')"
  shows "ss_openingBalance s = toDec2 (balanceBefore i (ss_periodStart s) (db_savingsTxns db))"
    and "ss_closingBalance s = toDec2 (closingBalance (balanceBefore i (ss_periodStart s) (db_savingsTxns db))
           (periodTxns i (ss_periodStart s) (ss_periodEnd s) (db_savingsTxns db)))"
  using assms by (auto simp: generateStatement_def fail_def ownSavings_def Let_def split: option.splits
      elim!: answerError.elims dest!: find_SomeD)

lemma balanceBefore_later:
  assumes "\<And>t. t \<in> set later \<Longrightarrow> d \<le> st_createdAt t"
  shows "balanceBefore i d (ts @ later) = balanceBefore i d ts"
proof -
  have "filter (\<lambda>t. st_createdAt t < d) (txnsInOrder i (ts @ later)) = filter (\<lambda>t. st_createdAt t < d) (txnsInOrder i ts)"
  proof -
    have "filter (\<lambda>x. st_accountId x = i \<and> st_createdAt x < d) later = []" using assms by (force simp: filter_empty_conv)
    then show ?thesis by (simp add: txnsInOrder_def filter_sort)
  qed
  then show ?thesis by (simp add: balanceBefore_def)
qed

text \<open>
  Statements follow on from each other: the opening balance of a period is the closing
  balance of the period before it, whatever transactions were recorded after that period in the
  meantime.
\<close>

theorem statements_continue:
  assumes "generateStatement env1 i (Some p1) db = (ROk k1 s1, db1)"
    and "db_savingsTxns db2 = db_savingsTxns db @ later"
    and "\<forall>t \<in> set later. ss_periodEnd s1 < st_createdAt t"
    and "generateStatement env2 i (Some p2) db2 = (ROk k2 s2, db3)"
    and "ss_periodStart s1 \<le> ss_periodEnd s1" and "ss_periodStart s2 = ss_periodEnd s1 + 1"
  shows "ss_openingBalance s2 = ss_closingBalance s1"
proof -
  have "ss_closingBalance s1 = toDec2 (balanceBefore i (ss_periodEnd s1 + 1) (db_savingsTxns db))"
    using generateStatement_result(2) [of env1 i "fst p1" "snd p1" db] assms(1) closing_is_next_opening [OF assms(5)] by simp
  also have "\<dots> = toDec2 (balanceBefore i (ss_periodStart s2) (db_savingsTxns db2))"
    using balanceBefore_later [of later "ss_periodStart s2" i "db_savingsTxns db"] assms(2,3,6) by force
  also have "\<dots> = ss_openingBalance s2"
    using generateStatement_result(1) [of env2 i "fst p2" "snd p2" db2] assms(4) by simp
  finally show ?thesis by simp
qed

section \<open>A sample institution\<close>

definition sampleSavings :: savingsAccount where
  "sampleSavings = \<lparr>sa_id = ''s1'', sa_institutionId = ''i1'', sa_customerId = ''c1'', sa_branchId = None,
     sa_productVersionId = None, sa_accountNumber = ''SA1'', sa_balance = 5000, sa_ledgerBalance = 5000,
     sa_status = SA_ACTIVE, sa_promoInterestRate = None, sa_promoExpiresAt = None, sa_interestSuspended = False,
     sa_interestSuspendedReason = None, sa_interestSuspendedAt = None, sa_lastAccrualDate = None\<rparr>"

definition sampleCustomer :: customer where
  "sampleCustomer = \<lparr>cu_id = ''c1'', cu_institutionId = ''i1'', cu_status = CS_ACTIVE, cu_merged = False,
     cu_mergedIntoCustomerId = None, cu_columns = [(''riskRating'', JStr ''LOW'')]\<rparr>"

definition sampleTxn :: "time \<Rightarrow> int \<Rightarrow> savingsTransaction" where
  "sampleTxn tm after = \<lparr>st_id = ''t'', st_accountId = ''s1'', st_type = ST_DEPOSIT, st_amount = 100, st_balanceAfter = after,
     st_recordedById = Some ''u1'', st_createdAt = tm\<rparr>"

definition sampleSavingsDb :: savings_db where
  "sampleSavingsDb = \<lparr>db_next = 0, db_audit = [], db_approvals = [],
     db_glAccounts = [sampleAccount ''cash'' ASSET, sampleAccount ''bank'' ASSET, sampleAccount ''dep'' LIABILITY],
     db_journals = [], db_fiscalYears = [], db_periods = [samplePeriod FP_OPEN], db_recurring = [],
     db_cashMappings = [], db_vaults = [], db_cashEntries = [], db_employees = [], db_tellers = [], db_cashTransfers = [],
     db_balancings = [], db_customers = [sampleCustomer], db_branches = [],
     db_products = [\<lparr>pr_id = ''p1'', pr_institutionId = ''i1'', pr_code = ''SUSU'', pr_type = PT_SAVINGS, pr_status = PS_ACTIVE\<rparr>],
     db_productVersions = [\<lparr>pv_id = ''v1'', pv_productId = ''p1'', pv_interestMethod = ''DAILY_BALANCE'', pv_interestRate = 5,
       pv_interestRateType = ''FIXED'', pv_promoInterestRate = None,
       pv_promoDurationDays = None, pv_minLoanAmount = None, pv_maxLoanAmount = None, pv_minTenureMonths = None, pv_maxTenureMonths = None\<rparr>],
     db_businessRules = [], db_savings = [sampleSavings], db_savingsTxns = [sampleTxn 1000 5000], db_holders = [],
     db_savingsMappings = [sampleMapping ''Cash/Bank (Savings)'' ''cash'', sampleMapping ''Customer Deposits Liability'' ''dep''],
     db_feeTypes = [], db_feeCharges = [], db_restrictions = [], db_instructions = [], db_instructionRuns = [],
     db_statements = []\<rparr>"

lemmas sample_savings_defs = sampleSavingsDb_def sampleSavings_def sampleCustomer_def sampleTxn_def sampleMapping_def sample_defs

definition sampleWithdrawal :: "(savingsAccount \<times> savingsTransaction) resp \<times> savings_db" where
  "sampleWithdrawal = moveSavings True sampleEnv ''s1'' (Some (cents 4000)) sampleSavingsDb"

lemma sampleSavingsDb_ok: "books_ok sampleSavingsDb" "savings_ok sampleSavingsDb"
  by (simp_all add: books_ok_def savings_ok_def uniqueBy_def postedLines_def accountEffect_def sample_savings_defs)

lemma sampleWithdrawal_ok: "okResp (fst sampleWithdrawal)"
proof -
  have pa: "postingAccounts sampleEnv (db_savingsMappings sampleSavingsDb) ''Cash/Bank (Savings)'' ''Customer Deposits Liability'' m sampleSavingsDb
      = Inr (sampleAccount ''cash'' ASSET, sampleAccount ''dep'' LIABILITY)" for m
    by (simp add: postingAccounts_def accountIdByPurpose_def findPostablePeriod_def accountById_def sample_savings_defs)
  have a: "ownSavings sampleEnv ''s1'' sampleSavingsDb = Some sampleSavings" "sa_id sampleSavings = ''s1''"
    by (simp_all add: ownSavings_def sample_savings_defs)
  have c: "checkRestriction ''s1'' True sampleSavingsDb = None" by (simp add: checkRestriction_def sample_savings_defs)
  let ?cls = "transferLines (sampleAccount ''dep'' LIABILITY) (sampleAccount ''cash'' ASSET) (cents 4000)"
  have mv: "moveBalance sa_id sa_balance updSavingsBalance True ''s1'' (cents 4000) [sampleSavings]
      = Some [sampleSavings\<lparr>sa_balance := 1000, sa_ledgerBalance := 1000\<rparr>]"
    by (simp add: moveBalance_def guardedDecrement_def sampleSavings_def updSavingsBalance_def)
  have "\<exists>q. savingsTx sampleEnv True sampleSavings (cents 4000) cls sampleSavingsDb = Inr q" if "cls = ?cls" for cls
    using that mv
    by (simp add: savingsTx_def moneyTx_def postJournal_def createJournal_def recordTxn_def Let_def
        transferLines_def accountById_def postLine_def sample_savings_defs)
  then obtain q where "savingsTx sampleEnv True sampleSavings (cents 4000) ?cls sampleSavingsDb = Inr q" by blast
  moreover have "isBalanced (map snd ?cls)" "0 < cents 4000" by (simp_all add: balanced_transfer cents_pos_iff)
  ultimately show ?thesis
    by (simp add: sampleWithdrawal_def moveSavings_def pa a c answer_def parseBody_def safeParse_def savingsLines_def require_def
        noError_def split_beta)
qed


definition sampleOpening where
  "sampleOpening = openSavings \<lparr>cv_parse = (\<lambda>_. None), cv_show = (\<lambda>_. [])\<rparr> sampleEnv
     (Some \<lparr>ob_customerId = ''c1'', ob_productVersionId = ''v1'', ob_branchId = None\<rparr>) sampleSavingsDb"

lemma sampleOpening_ok: "\<exists>a w. sampleOpening = (ROk 201 (a, w), snd sampleOpening)"
proof -
  have "startsWith (generateAccountNumber t r) ''SA''" for t r by (simp add: generateAccountNumber_def Let_def)
  have num: "generateAccountNumber 1700000000000 0 \<noteq> ''SA1''"
    by (simp add: generateAccountNumber_def Let_def showNat.simps digitChar_def padStart_def nmul_def)
  show ?thesis
    using num
    by (simp add: sampleOpening_def openSavings_def answer_def parseBody_def safeParse_def ownCustomer_def require_def
        savingsProduct_def matchRules_def createSavings_def promoFields_def Let_def executeMatchedRules_def sample_savings_defs)
qed

theorem savings_opening_guarded_witness:
  "\<exists>a. db_savings (snd sampleOpening) = [sampleSavings, a] \<and> sa_customerId a = ''c1''"
proof -
  obtain a w where "sampleOpening = (ROk 201 (a, w), snd sampleOpening)" using sampleOpening_ok by blast
  from savings_opening_guarded [OF this [unfolded sampleOpening_def]]
  have "db_savings (snd sampleOpening) = db_savings sampleSavingsDb @ [a] \<and> sa_customerId a = ''c1''"
    by (auto simp: sampleOpening_def)
  then show ?thesis by (simp add: sampleSavingsDb_def)
qed

definition statementEnv :: "time \<Rightarrow> time \<Rightarrow> env" where
  "statementEnv from to = sampleEnv\<lparr>e_parseDate := (\<lambda>s. Some (if s = ''from'' then from else to))\<rparr>"

definition firstStatement where
  "firstStatement = generateStatement (statementEnv 0 2000) ''s1'' (Some (''from'', ''to'')) sampleSavingsDb"

definition secondStatement where
  "secondStatement = generateStatement (statementEnv 86400000 90000000) ''s1'' (Some (''from'', ''to'')) (snd firstStatement)"

lemma sampleStatements:
  "\<exists>s. firstStatement = (ROk 200 s, snd firstStatement) \<and> ss_periodStart s = 0 \<and> ss_periodEnd s = 86399999
    \<and> ss_closingBalance s = 5000"
  "\<exists>s. secondStatement = (ROk 200 s, snd secondStatement) \<and> ss_periodStart s = 86400000"
  "db_savingsTxns (snd firstStatement) = db_savingsTxns sampleSavingsDb"
  by (simp_all add: firstStatement_def secondStatement_def generateStatement_def ownSavings_def Let_def statementEnv_def
      endOfDay_def dayOf_def closingBalance_def balanceBefore_def periodTxns_def txnsInOrder_def sample_savings_defs
      audit_def)

theorem statements_continue_witness:
  "\<exists>s. fst secondStatement = ROk 200 s \<and> ss_openingBalance s = 5000"
proof -
  obtain s where s: "firstStatement = (ROk 200 s, snd firstStatement)" "ss_periodStart s = 0" "ss_periodEnd s = 86399999"
    "ss_closingBalance s = 5000" using sampleStatements(1) by blast
  obtain s2 where s2: "secondStatement = (ROk 200 s2, snd secondStatement)" "ss_periodStart s2 = 86400000"
    using sampleStatements(2) by blast
  have same: "db_savingsTxns (snd firstStatement) = db_savingsTxns sampleSavingsDb @ []" by (simp add: sampleStatements(3))
  have "\<forall>t \<in> set []. ss_periodEnd s < st_createdAt t" by simp
  moreover have "ss_periodStart s \<le> ss_periodEnd s" "ss_periodStart s2 = ss_periodEnd s + 1" using s s2 by simp_all
  ultimately have "ss_openingBalance s2 = ss_closingBalance s"
    by (rule statements_continue [OF s(1) [unfolded firstStatement_def] same [unfolded firstStatement_def] _
          s2(1) [unfolded secondStatement_def firstStatement_def]])
  then show ?thesis using s(4) s2(1) by (metis fst_conv)
qed

end
