(* ===== verification/Savings_Interest.thy ===== *)
theory Savings_Interest
  imports Savings_Services "HOL-Library.While_Combinator"
begin

text \<open>
  Interest on savings (\<open>routes/savings-interest.routes.ts\<close>): the daily and monthly accrual of
  interest, its posting to the account, the reversal of a posting, and suspension. Rates are kept as
  the numbers their columns read back.
\<close>

section \<open>Tables\<close>

record interestTier =
  it_productVersionId :: string
  it_minBalance :: int
  it_maxBalance :: "int option"
  it_interestRate :: num
  it_deletedAt :: "time option"

record interestAccrual =
  ac_id :: string
  ac_institutionId :: string
  ac_accountId :: string
  ac_accrualDate :: time
  ac_balanceUsed :: int
  ac_rateApplied :: num
  ac_method :: string
  ac_amountAccrued :: int
  ac_posted :: bool
  ac_postingId :: "string option"

record interestPosting =
  ip_id :: string
  ip_institutionId :: string
  ip_accountId :: string
  ip_periodStart :: time
  ip_periodEnd :: time
  ip_totalAmount :: int
  ip_transactionId :: string
  ip_batchId :: "string option"
  ip_postedById :: "string option"
  ip_reversedAt :: "time option"
  ip_reversedById :: "string option"
  ip_reversalReason :: "string option"
  ip_createdAt :: time

record interest_db = savings_db +
  db_institutionIds :: "string list"
  db_tiers :: "interestTier list"
  db_accruals :: "interestAccrual list"
  db_interestPostings :: "interestPosting list"

fun showSavingsStatus :: "savingsStatus \<Rightarrow> string" where
  "showSavingsStatus SA_ACTIVE = ''ACTIVE''"
| "showSavingsStatus SA_DORMANT = ''DORMANT''"
| "showSavingsStatus SA_CLOSED = ''CLOSED''"

section \<open>Dates\<close>

definition startOfMonth :: "time \<Rightarrow> time" where
  "startOfMonth t = newDate (yearOf (dayOf t)) (monthOf (dayOf t)) 1"

definition endOfMonth :: "time \<Rightarrow> time" where
  "endOfMonth t = newDate (yearOf (dayOf t)) (monthOf (dayOf t) + 1) 0 + (msPerDay - 1)"

definition daysInMonth :: "time \<Rightarrow> int" where
  "daysInMonth t = dateOf (dayOf (newDate (yearOf (dayOf t)) (monthOf (dayOf t) + 1) 0))"

text \<open>\<open>for (let d = from; d <= to; d.setDate(d.getDate() + 1)) body(d)\<close>, on the state the body changes.\<close>

definition forDays :: "time \<Rightarrow> time \<Rightarrow> (time \<Rightarrow> 's \<Rightarrow> 's) \<Rightarrow> 's \<Rightarrow> 's" where
  "forDays from to body s =
     snd (while (\<lambda>(d, s). d \<le> to) (\<lambda>(d, s). (plusDays d 1, body d s)) (from, s))"

section \<open>Accrual\<close>

definition getBalanceAsOf :: "string \<Rightarrow> time \<Rightarrow> savingsTransaction list \<Rightarrow> num" where
  "getBalanceAsOf i d ts = (case rev (filter (\<lambda>t. st_createdAt t \<le> d) (txnsInOrder i ts)) of
     [] \<Rightarrow> 0 | t # _ \<Rightarrow> cents (st_balanceAfter t))"

definition tierApplies :: "num \<Rightarrow> interestTier \<Rightarrow> bool" where
  "tierApplies b t \<longleftrightarrow> cents (it_minBalance t) \<le> b
     \<and> (case it_maxBalance t of None \<Rightarrow> True | Some m \<Rightarrow> b \<le> cents m)"

definition resolveEffectiveRate :: "env \<Rightarrow> interestTier list \<Rightarrow> savingsAccount \<Rightarrow> productVersion \<Rightarrow> num \<Rightarrow> num" where
  "resolveEffectiveRate env tiers a v balanceUsed =
     (let tier = (if pv_interestRateType v = ''TIERED''
            then find (tierApplies balanceUsed) (sort_key it_minBalance
                   (filter (\<lambda>t. it_productVersionId t = pv_id v \<and> it_deletedAt t = None) tiers))
            else None);
          productRate = (case tier of Some t \<Rightarrow> it_interestRate t | None \<Rightarrow> pv_interestRate v)
      in case (sa_promoInterestRate a, sa_promoExpiresAt a) of
           (Some r, Some t) \<Rightarrow> if e_now env < t then r else productRate
         | _ \<Rightarrow> productRate)"

definition loadAccountWithProduct ::
  "string \<Rightarrow> string \<Rightarrow> 'a savings_db_scheme \<Rightarrow> (savingsAccount \<times> productVersion option) option" where
  "loadAccountWithProduct i inst db =
     map_option (\<lambda>a. (a, case sa_productVersionId a of None \<Rightarrow> None
         | Some v \<Rightarrow> find (\<lambda>p. pv_id p = v) (db_productVersions db)))
       (find (\<lambda>a. sa_id a = i \<and> sa_institutionId a = inst) (db_savings db))"

definition accrualOn :: "string \<Rightarrow> time \<Rightarrow> interestAccrual \<Rightarrow> bool" where
  "accrualOn i d r \<longleftrightarrow> ac_accountId r = i \<and> ac_accrualDate r = d"

text \<open>\<open>savingsInterestAccrual.upsert\<close> on the account and the date.\<close>

definition upsertAccrual ::
  "env \<Rightarrow> string \<Rightarrow> string \<Rightarrow> time \<Rightarrow> num \<Rightarrow> num \<Rightarrow> string \<Rightarrow> num \<Rightarrow> 'a interest_db_scheme
    \<Rightarrow> interestAccrual \<times> 'a interest_db_scheme" where
  "upsertAccrual env inst i d balanceUsed rate method amountAccrued db =
     (let upd = (\<lambda>r. r\<lparr>ac_balanceUsed := toDec2 balanceUsed, ac_rateApplied := rate, ac_amountAccrued := toDec2 amountAccrued\<rparr>)
      in case find (accrualOn i d) (db_accruals db) of
           Some r \<Rightarrow> (upd r, db\<lparr>db_accruals := updWhere (accrualOn i d) upd (db_accruals db)\<rparr>)
         | None \<Rightarrow>
             (let r = \<lparr>ac_id = newId env db, ac_institutionId = inst, ac_accountId = i, ac_accrualDate = d,
                  ac_balanceUsed = toDec2 balanceUsed, ac_rateApplied = rate, ac_method = method,
                  ac_amountAccrued = toDec2 amountAccrued, ac_posted = False, ac_postingId = None\<rparr>
              in (r, db\<lparr>db_next := Suc (db_next db), db_accruals := db_accruals db @ [r]\<rparr>)))"

definition isPosted :: "string \<Rightarrow> time \<Rightarrow> 'a interest_db_scheme \<Rightarrow> bool" where
  "isPosted i d db \<longleftrightarrow> (case find (accrualOn i d) (db_accruals db) of None \<Rightarrow> False | Some r \<Rightarrow> ac_posted r)"

text \<open>The two monthly methods: one row for the month, from the balances at the start of its days.\<close>

definition monthlyMethod :: "string \<Rightarrow> bool" where
  "monthlyMethod m \<longleftrightarrow> m = ''AVERAGE_DAILY_BALANCE'' \<or> m = ''MINIMUM_MONTHLY_BALANCE''"

definition monthlyAccrual ::
  "env \<Rightarrow> string \<Rightarrow> savingsAccount \<Rightarrow> productVersion \<Rightarrow> time \<Rightarrow> 'a interest_db_scheme
    \<Rightarrow> (string + interestAccrual list) \<times> 'a interest_db_scheme" where
  "monthlyAccrual env inst a v through db =
     (let periodStart = startOfMonth through;
          periodEnd = (if through < endOfMonth through then through else endOfMonth through) in
      if isPosted (sa_id a) periodStart db
      then (Inl ''this period is already posted - use reversal to adjust'', db)
      else
        (let dayBalances = forDays periodStart periodEnd
               (\<lambda>d bs. bs @ [getBalanceAsOf (sa_id a) (startOfDay d) (db_savingsTxns db)]) [];
             balanceUsed = (if pv_interestMethod v = ''AVERAGE_DAILY_BALANCE''
               then ndiv (nsum dayBalances) (of_nat (length dayBalances)) else Min (set dayBalances));
             rate = resolveEffectiveRate env (db_tiers db) a v balanceUsed;
             amount = round2 (nmul (nmul balanceUsed (ndiv rate 100)) (ndiv (of_int (daysInMonth through)) 365));
             (r, db1) = upsertAccrual env inst (sa_id a) periodStart (round2 balanceUsed) rate (pv_interestMethod v) amount db
         in (Inr [r], db1)))"

text \<open>The daily method: one row per day from the last accrual on; a posted day is left alone.\<close>

definition accrueDay ::
  "env \<Rightarrow> string \<Rightarrow> savingsAccount \<Rightarrow> productVersion \<Rightarrow> time
    \<Rightarrow> interestAccrual list \<times> 'a interest_db_scheme \<Rightarrow> interestAccrual list \<times> 'a interest_db_scheme" where
  "accrueDay env inst a v d s =
     (case s of (rs, db) \<Rightarrow>
        if isPosted (sa_id a) (startOfDay d) db then (rs, db)
        else
          (let balanceUsed = getBalanceAsOf (sa_id a) (endOfDay (startOfDay d)) (db_savingsTxns db);
               rate = resolveEffectiveRate env (db_tiers db) a v balanceUsed;
               amount = round2 (ndiv (nmul balanceUsed (ndiv rate 100)) 365);
               (r, db1) = upsertAccrual env inst (sa_id a) (startOfDay d) balanceUsed rate (pv_interestMethod v) amount db
           in (rs @ [r], db1)))"

definition dailyAccrual ::
  "env \<Rightarrow> string \<Rightarrow> savingsAccount \<Rightarrow> productVersion \<Rightarrow> time \<Rightarrow> 'a interest_db_scheme
    \<Rightarrow> interestAccrual list \<times> 'a interest_db_scheme" where
  "dailyAccrual env inst a v through db =
     (let fromDate = (case sa_lastAccrualDate a of Some d \<Rightarrow> d | None \<Rightarrow> startOfDay through)
      in forDays (startOfDay fromDate) (startOfDay through) (accrueDay env inst a v) ([], db))"

text \<open>
  The accrual of one account; \<open>Inl\<close> is the reason it was skipped. An invalid date (\<open>None\<close>) makes the
  database client throw before anything is written.
\<close>

definition runAccrualForAccount ::
  "env \<Rightarrow> string \<Rightarrow> string \<Rightarrow> time option \<Rightarrow> 'a interest_db_scheme
    \<Rightarrow> terr + (string + interestAccrual list) \<times> 'a interest_db_scheme" where
  "runAccrualForAccount env i inst throughDate db =
     (case loadAccountWithProduct i inst db of
        Some (a, Some v) \<Rightarrow>
          if sa_interestSuspended a then Inr (Inl ''interest suspended'', db)
          else if sa_status a \<noteq> SA_ACTIVE then Inr (Inl (''account status is '' @ showSavingsStatus (sa_status a)), db)
          else (case throughDate of
              None \<Rightarrow> Inl Thrown
            | Some through \<Rightarrow>
                (case (if monthlyMethod (pv_interestMethod v) then monthlyAccrual env inst a v through db
                       else apfst Inr (dailyAccrual env inst a v through db)) of
                   (Inl skipped, db1) \<Rightarrow> Inr (Inl skipped, db1)
                 | (Inr rs, db1) \<Rightarrow>
                     Inr (Inr rs, updSavings (sa_id a) (\<lambda>x. x\<lparr>sa_lastAccrualDate := Some through\<rparr>) db1)))
      | _ \<Rightarrow> Inr (Inl ''no product configured'', db))"

text \<open>The body of the request is \<open>None\<close> when its \<open>date\<close> is not a text, and the date is optional.\<close>

definition accrue ::
  "env \<Rightarrow> string \<Rightarrow> string option option \<Rightarrow> 'a interest_db_scheme
    \<Rightarrow> (string + interestAccrual list) resp \<times> 'a interest_db_scheme" where
  "accrue env i body db = answer 200 db (
     bindE (parseBody (\<lambda>_. True) body) (\<lambda>date.
     bindE (runAccrualForAccount env i (e_institutionId env) (dateOr env (e_now env) date) db) (\<lambda>(r, db1).
     Inr (r, audit env ''savings.interest_accrue'' ''savings_account'' i db1))))"

text \<open>The loop over accounts, counting those accrued and their rows.\<close>

definition accrueAccount ::
  "env \<Rightarrow> time option \<Rightarrow> string \<times> string \<Rightarrow> (nat \<times> nat) \<times> 'a interest_db_scheme
    \<Rightarrow> terr + (nat \<times> nat) \<times> 'a interest_db_scheme" where
  "accrueAccount env through acc s =
     bindE (runAccrualForAccount env (fst acc) (snd acc) through (snd s)) (\<lambda>(r, db1).
     Inr (case r of Inl _ \<Rightarrow> fst s | Inr rs \<Rightarrow> (fst (fst s) + 1, snd (fst s) + length rs), db1))"

definition accrualAccounts :: "(savingsAccount \<Rightarrow> bool) \<Rightarrow> 'a savings_db_scheme \<Rightarrow> (string \<times> string) list" where
  "accrualAccounts P db = map (\<lambda>a. (sa_id a, sa_institutionId a))
     (filter (\<lambda>a. P a \<and> sa_status a = SA_ACTIVE \<and> \<not> sa_interestSuspended a) (db_savings db))"

definition accrueAll ::
  "env \<Rightarrow> string option option \<Rightarrow> 'a interest_db_scheme \<Rightarrow> (nat \<times> nat) resp \<times> 'a interest_db_scheme" where
  "accrueAll env body db = answer 200 db (
     bindE (parseBody (\<lambda>_. True) body) (\<lambda>date.
     bindE (foldE (accrueAccount env (dateOr env (e_now env) date))
       (accrualAccounts (\<lambda>a. sa_institutionId a = e_institutionId env) db) ((0, 0), db)) (\<lambda>(n, db1).
     Inr (n, audit env ''savings.interest_accrue_all'' ''savings_account'' ''batch'' db1))))"

definition runSavingsInterestAccrualAllInstitutions ::
  "env \<Rightarrow> 'a interest_db_scheme \<Rightarrow> terr + (nat \<times> nat) \<times> 'a interest_db_scheme" where
  "runSavingsInterestAccrualAllInstitutions env db =
     foldE (accrueAccount env (Some (e_now env))) (accrualAccounts (\<lambda>a. True) db) ((0, 0), db)"

section \<open>Posting\<close>

definition unposted :: "string \<Rightarrow> string \<Rightarrow> interestAccrual list \<Rightarrow> interestAccrual list" where
  "unposted i inst rs = sort_key ac_accrualDate
     (filter (\<lambda>r. ac_accountId r = i \<and> ac_institutionId r = inst \<and> \<not> ac_posted r) rs)"

definition accruedTotal :: "interestAccrual list \<Rightarrow> num" where
  "accruedTotal rs = round2 (nsum (map (\<lambda>r. cents (ac_amountAccrued r)) rs))"

definition postInterestForAccount ::
  "env \<Rightarrow> string \<Rightarrow> string \<Rightarrow> string option \<Rightarrow> string option \<Rightarrow> 'a interest_db_scheme
    \<Rightarrow> terr + (interestPosting \<times> savingsTransaction) option \<times> 'a interest_db_scheme" where
  "postInterestForAccount env i inst by batch db =
     (let un = unposted i inst (db_accruals db); total = accruedTotal un in
      if un = [] \<or> total \<le> 0 then Inr (None, db)
      else bindE (orThrow Thrown (find (\<lambda>a. sa_id a = i) (db_savings db))) (\<lambda>a.
        let newBalance = round2 (nadd (cents (sa_balance a)) total);
            (t, db1) = recordTxn env i ST_INTEREST total (toDec2 newBalance) by db;
            db2 = updSavings i (setBalance newBalance) db1;
            p = \<lparr>ip_id = newId env db2, ip_institutionId = inst, ip_accountId = i, ip_periodStart = ac_accrualDate (hd un),
              ip_periodEnd = ac_accrualDate (last un), ip_totalAmount = toDec2 total, ip_transactionId = st_id t,
              ip_batchId = batch, ip_postedById = by, ip_reversedAt = None, ip_reversedById = None,
              ip_reversalReason = None, ip_createdAt = e_now env\<rparr>
        in Inr (Some (p, t), db2\<lparr>db_next := Suc (db_next db2), db_interestPostings := db_interestPostings db2 @ [p],
             db_accruals := updWhere (\<lambda>r. ac_id r \<in> ac_id ` set un)
               (\<lambda>r. r\<lparr>ac_posted := True, ac_postingId := Some (ip_id p)\<rparr>) (db_accruals db2)\<rparr>)))"

text \<open>\<open>distinct\<close> keeps the first row of each account.\<close>

definition distinctInOrder :: "'k list \<Rightarrow> 'k list" where
  "distinctInOrder xs = rev (remdups (rev xs))"

definition postAccount ::
  "env \<Rightarrow> string \<Rightarrow> string option \<Rightarrow> string option \<Rightarrow> string \<Rightarrow> (nat \<times> num) \<times> 'a interest_db_scheme
    \<Rightarrow> terr + (nat \<times> num) \<times> 'a interest_db_scheme" where
  "postAccount env inst by batch i s =
     bindE (postInterestForAccount env i inst by batch (snd s)) (\<lambda>(r, db1).
     Inr (case r of None \<Rightarrow> fst s
       | Some (p, _) \<Rightarrow> (fst (fst s) + 1, round2 (nadd (snd (fst s)) (cents (ip_totalAmount p)))), db1))"

definition postAllForInstitution ::
  "env \<Rightarrow> string \<Rightarrow> string option \<Rightarrow> string option \<Rightarrow> 'a interest_db_scheme
    \<Rightarrow> terr + (nat \<times> num) \<times> 'a interest_db_scheme" where
  "postAllForInstitution env inst by batch db =
     foldE (postAccount env inst by batch) (distinctInOrder (map ac_accountId
       (filter (\<lambda>r. ac_institutionId r = inst \<and> \<not> ac_posted r) (db_accruals db)))) ((0, 0), db)"

text \<open>The batch identifier is drawn like the identifier of a row.\<close>

definition drawBatch :: "env \<Rightarrow> 'a core_db_scheme \<Rightarrow> string \<times> 'a core_db_scheme" where
  "drawBatch env db = (newId env db, db\<lparr>db_next := Suc (db_next db)\<rparr>)"

definition postInstitution ::
  "env \<Rightarrow> string \<Rightarrow> string \<Rightarrow> (nat \<times> num) \<times> 'a interest_db_scheme
    \<Rightarrow> terr + (nat \<times> num) \<times> 'a interest_db_scheme" where
  "postInstitution env batch inst s =
     bindE (postAllForInstitution env inst None (Some batch) (snd s)) (\<lambda>((n, x), db1).
     Inr ((fst (fst s) + n, round2 (nadd (snd (fst s)) x)), db1))"

definition runSavingsInterestPostingAllInstitutions ::
  "env \<Rightarrow> 'a interest_db_scheme \<Rightarrow> terr + (string \<times> nat \<times> num) \<times> 'a interest_db_scheme" where
  "runSavingsInterestPostingAllInstitutions env db =
     (let (batch, db0) = drawBatch env db in
      bindE (foldE (postInstitution env batch) (db_institutionIds db0) ((0, 0), db0)) (\<lambda>((n, x), db1).
      Inr ((batch, n, x), db1)))"

definition postInterest ::
  "env \<Rightarrow> string \<Rightarrow> 'a interest_db_scheme \<Rightarrow> (interestPosting \<times> savingsTransaction) resp \<times> 'a interest_db_scheme" where
  "postInterest env i db = answer 201 db (
     bindE (postInterestForAccount env i (e_institutionId env) (Some (e_userId env)) None db) (\<lambda>(r, db1).
     bindE (orThrow (Http 400 ''No unposted accrued interest for this account'') r) (\<lambda>pt.
     Inr (pt, audit env ''savings.interest_post'' ''savings_account'' i db1))))"

definition postAllInterest ::
  "env \<Rightarrow> 'a interest_db_scheme \<Rightarrow> (string \<times> nat \<times> num) resp \<times> 'a interest_db_scheme" where
  "postAllInterest env db = answer 201 db (
     let (batch, db0) = drawBatch env db in
     bindE (postAllForInstitution env (e_institutionId env) (Some (e_userId env)) (Some batch) db0) (\<lambda>((n, x), db1).
     Inr ((batch, n, x), audit env ''savings.interest_post_all'' ''savings_account'' ''batch'' db1)))"

section \<open>Reversal and suspension\<close>

definition reverseInterest ::
  "env \<Rightarrow> string \<Rightarrow> string option \<Rightarrow> 'a interest_db_scheme \<Rightarrow> unit resp \<times> 'a interest_db_scheme" where
  "reverseInterest env i body db = answer 200 db (
     bindE (parseBody (\<lambda>r. r \<noteq> []) body) (\<lambda>reason.
     bindE (orThrow (Http 404 ''Posting not found'')
       (find (\<lambda>p. ip_id p = i \<and> ip_institutionId p = e_institutionId env) (db_interestPostings db))) (\<lambda>p.
     bindE (require (ip_reversedAt p = None) 400 ''This posting has already been reversed'') (\<lambda>_.
     bindE (orThrow Thrown (find (\<lambda>a. sa_id a = ip_accountId p) (db_savings db))) (\<lambda>a.
     let newBalance = round2 (nsub (cents (sa_balance a)) (cents (ip_totalAmount p)));
         db1 = snd (recordTxn env (ip_accountId p) ST_INTEREST (- cents (ip_totalAmount p)) (toDec2 newBalance)
                 (Some (e_userId env)) db);
         db2 = updSavings (ip_accountId p) (setBalance newBalance) db1;
         db3 = db2\<lparr>db_interestPostings := updWhere (\<lambda>q. ip_id q = ip_id p)
                 (\<lambda>q. q\<lparr>ip_reversedAt := Some (e_now env), ip_reversedById := Some (e_userId env),
                    ip_reversalReason := Some reason\<rparr>) (db_interestPostings db2),
               db_accruals := updWhere (\<lambda>r. ac_postingId r = Some (ip_id p))
                 (\<lambda>r. r\<lparr>ac_posted := False, ac_postingId := None\<rparr>) (db_accruals db2)\<rparr> in
     Inr ((), audit env ''savings.interest_reverse'' ''savings_interest_posting'' (ip_id p) db3))))))"

definition suspendInterest ::
  "env \<Rightarrow> string \<Rightarrow> string option option \<Rightarrow> 'a interest_db_scheme \<Rightarrow> unit resp \<times> 'a interest_db_scheme" where
  "suspendInterest env i body db =
     (case body of
        None \<Rightarrow> (RErr 400 Flatten, db)
      | Some reason \<Rightarrow>
          (let P = (\<lambda>a. sa_id a = i \<and> sa_institutionId a = e_institutionId env) in
           if countWhere P (db_savings db) = 0 then fail 404 ''Account not found'' db
           else (ROk 200 (), audit env ''savings.interest_suspend'' ''savings_account'' i
             (db\<lparr>db_savings := updWhere P (\<lambda>a. a\<lparr>sa_interestSuspended := True,
                sa_interestSuspendedReason := (case reason of None \<Rightarrow> sa_interestSuspendedReason a | Some r \<Rightarrow> Some r),
                sa_interestSuspendedAt := Some (e_now env)\<rparr>) (db_savings db)\<rparr>))))"

definition resumeInterest :: "env \<Rightarrow> string \<Rightarrow> 'a interest_db_scheme \<Rightarrow> unit resp \<times> 'a interest_db_scheme" where
  "resumeInterest env i db =
     (let P = (\<lambda>a. sa_id a = i \<and> sa_institutionId a = e_institutionId env) in
      if countWhere P (db_savings db) = 0 then fail 404 ''Account not found'' db
      else (ROk 200 (), audit env ''savings.interest_resume'' ''savings_account'' i
        (db\<lparr>db_savings := updWhere P (\<lambda>a. a\<lparr>sa_interestSuspended := False, sa_interestSuspendedReason := None,
           sa_interestSuspendedAt := None\<rparr>) (db_savings db)\<rparr>)))"

section \<open>Reports\<close>

definition accountAccruals ::
  "env \<Rightarrow> string \<Rightarrow> 'a interest_db_scheme \<Rightarrow> (interestAccrual list \<times> interestPosting list) resp" where
  "accountAccruals env i db =
     (if ownSavings env i db = None then RErr 404 (Msg ''Account not found'')
      else ROk 200 (rev (sort_key ac_accrualDate (rev (filter (\<lambda>r. ac_accountId r = i) (db_accruals db)))),
        rev (sort_key ip_createdAt (rev (filter (\<lambda>p. ip_accountId p = i) (db_interestPostings db))))))"

text \<open>The dates of a query, when they are given and valid.\<close>

definition queryDate :: "env \<Rightarrow> string option \<Rightarrow> terr + time option" where
  "queryDate env s = (if truthy s then bindE (orThrow Thrown (e_parseDate env (the s))) (\<lambda>d. Inr (Some d)) else Inr None)"

definition inRange :: "time option \<Rightarrow> time option \<Rightarrow> time \<Rightarrow> bool" where
  "inRange from to d \<longleftrightarrow> (case from of None \<Rightarrow> True | Some f \<Rightarrow> f \<le> d) \<and> (case to of None \<Rightarrow> True | Some t \<Rightarrow> d \<le> t)"

definition postingTotal :: "interestPosting list \<Rightarrow> num" where
  "postingTotal ps = round2 (nsum (map (\<lambda>p. cents (ip_totalAmount p)) ps))"

definition totalByMethod :: "interestAccrual list \<Rightarrow> (string \<times> num) list" where
  "totalByMethod rs = map (\<lambda>m. (m, foldl (\<lambda>x r. round2 (nadd x (cents (ac_amountAccrued r)))) 0
     (filter (\<lambda>r. ac_method r = m) rs))) (distinctInOrder (map ac_method rs))"

record interestReport =
  rp_totalAccrued :: num
  rp_totalPosted :: num
  rp_totalReversed :: num
  rp_byMethod :: "(string \<times> num) list"
  rp_topPostings :: "interestPosting list"
  rp_postingCount :: nat

definition interestReport ::
  "env \<Rightarrow> string option \<Rightarrow> string option \<Rightarrow> 'a interest_db_scheme \<Rightarrow> terr + interestReport" where
  "interestReport env from to db =
     bindE (queryDate env from) (\<lambda>f.
     bindE (queryDate env to) (\<lambda>t.
     let own = (\<lambda>r. ac_institutionId r = e_institutionId env \<and> inRange f t (ac_accrualDate r));
         rs = filter own (db_accruals db);
         ps = filter (\<lambda>p. ip_institutionId p = e_institutionId env \<and> inRange f t (ip_createdAt p)) (db_interestPostings db);
         live = filter (\<lambda>p. ip_reversedAt p = None) ps
     in Inr \<lparr>rp_totalAccrued = accruedTotal rs, rp_totalPosted = postingTotal live,
          rp_totalReversed = postingTotal (filter (\<lambda>p. ip_reversedAt p \<noteq> None) ps), rp_byMethod = totalByMethod rs,
          rp_topPostings = take 10 (sort_key (\<lambda>p. - ip_totalAmount p) live), rp_postingCount = length ps\<rparr>))"

end
