(* ===== verification/Interest_Safety.thy ===== *)
theory Interest_Safety
  imports Savings_Interest Savings_Safety
begin

text \<open>
  What holds of interest on savings: the daily loop ends and leaves exactly one row per day with the
  interest of that day, a posting pays every open accrual exactly once, and reversing a posting
  restores the account and its accruals.
\<close>

section \<open>The loop over days\<close>

lemma forDays_rec:
  "forDays from to body s = (if from \<le> to then forDays (from + msPerDay) to body (body from s) else s)"
  unfolding forDays_def by (subst while_unfold) (simp add: plusDays_eq)

lemma forDays_foldl:
  "forDays a b body s = foldl (\<lambda>s i. body (a + i * msPerDay) s) s [0..(b - a) div msPerDay]"
proof (induction "nat ((b - a) div msPerDay + 1)" arbitrary: a s)
  case 0
  then have "(b - a) div msPerDay < 0" by simp
  moreover from this have "b < a" by (simp add: neg_imp_zdiv_neg_iff)
  ultimately show ?case by (simp add: forDays_rec [of a])
next
  case (Suc n)
  then have pos: "0 \<le> (b - a) div msPerDay" by simp
  then have le: "a \<le> b" by (simp add: pos_imp_zdiv_nonneg_iff)
  have d: "(b - (a + msPerDay)) div msPerDay = (b - a) div msPerDay - 1"
    using div_mult_self4 [of msPerDay "b - a" "-1"] by (simp add: algebra_simps)
  have "n = nat ((b - (a + msPerDay)) div msPerDay + 1)" using Suc.hyps(2) d by simp
  from Suc.hyps(1) [OF this] d
  have IH: "forDays (a + msPerDay) b body (body a s)
      = foldl (\<lambda>s i. body (a + msPerDay + i * msPerDay) s) (body a s) [0..(b - a) div msPerDay - 1]" by simp
  have "[1..(b - a) div msPerDay] = map (\<lambda>i. i + 1) [0..(b - a) div msPerDay - 1]"
    using pos by (intro nth_equalityI) auto
  then have "[0..(b - a) div msPerDay] = 0 # map (\<lambda>i. i + 1) [0..(b - a) div msPerDay - 1]"
    using pos by (simp add: upto_rec1)
  then show ?case using le IH by (subst forDays_rec) (simp add: foldl_map algebra_simps)
qed

text \<open>The loop ends: the moment it looks at passes \<open>b\<close> after finitely many days.\<close>

lemma forDays_terminates:
  "\<exists>d. while_option (\<lambda>(d, s). d \<le> b) (\<lambda>(d, s). (plusDays d 1, body d s)) (a, s) = Some (d, forDays a b body s)"
proof -
  let ?w = "while_option (\<lambda>(d, s). d \<le> b) (\<lambda>(d, s). (plusDays d 1, body d s)) (a, s)"
  have "\<exists>t. ?w = Some t"
    by (rule measure_while_option_Some [where P = "\<lambda>_. True" and f = "\<lambda>(d, _). nat (b + 1 - d)"]) (auto simp: plusDays_eq)
  then obtain t where t: "?w = Some t" by blast
  then have "snd t = forDays a b body s" by (simp add: forDays_def while_def)
  then show ?thesis using t by (cases t) auto
qed

section \<open>Daily accrual\<close>

definition accrualKey :: "interestAccrual \<Rightarrow> string \<times> time" where
  "accrualKey r = (ac_accountId r, ac_accrualDate r)"

text \<open>The interest of one day: a 365th of the yearly interest on the balance at its end.\<close>

definition dayInterest ::
  "env \<Rightarrow> interestTier list \<Rightarrow> savingsTransaction list \<Rightarrow> savingsAccount \<Rightarrow> productVersion \<Rightarrow> time \<Rightarrow> int" where
  "dayInterest env tiers ts a v d =
     (let b = getBalanceAsOf (sa_id a) (endOfDay d) ts
      in toDec2 (round2 (ndiv (nmul b (ndiv (resolveEffectiveRate env tiers a v b) 100)) 365)))"

definition dayDone :: "env \<Rightarrow> savingsAccount \<Rightarrow> productVersion \<Rightarrow> time \<Rightarrow> 'a interest_db_scheme \<Rightarrow> bool" where
  "dayDone env a v d db \<longleftrightarrow> (\<exists>r. find (accrualOn (sa_id a) d) (db_accruals db) = Some r
     \<and> (ac_posted r \<or> ac_amountAccrued r = dayInterest env (db_tiers db) (db_savingsTxns db) a v d))"

lemma accrualOn_key: "accrualOn i d r \<longleftrightarrow> accrualKey r = (i, d)"
  by (auto simp: accrualOn_def accrualKey_def)

lemma upsertAccrual_effect:
  assumes "upsertAccrual env inst i d b rate m amount db = (r, db')"
  shows "db_savings db' = db_savings db" "db_savingsTxns db' = db_savingsTxns db" "db_tiers db' = db_tiers db"
    and "db_productVersions db' = db_productVersions db" "db_institutionIds db' = db_institutionIds db"
    and "find (accrualOn i d) (db_accruals db') = Some r" "ac_amountAccrued r = toDec2 amount"
    and "e \<noteq> d \<Longrightarrow> find (accrualOn i e) (db_accruals db') = find (accrualOn i e) (db_accruals db)"
    and "uniqueBy accrualKey (db_accruals db) \<Longrightarrow> uniqueBy accrualKey (db_accruals db')"
    and "q \<in> set (db_accruals db) \<Longrightarrow> \<not> accrualOn i d q \<Longrightarrow> q \<in> set (db_accruals db')"
proof -
  let ?u = "\<lambda>r :: interestAccrual. r\<lparr>ac_balanceUsed := toDec2 b, ac_rateApplied := rate, ac_amountAccrued := toDec2 amount\<rparr>"
  have k: "accrualKey (?u x) = accrualKey x" "accrualOn i e (?u x) = accrualOn i e x" for x e
    by (simp_all add: accrualKey_def accrualOn_def)
  have same: "find (accrualOn i d) (updWhere (accrualOn i d) ?u t) = map_option ?u (find (accrualOn i d) t)" for t
    by (rule find_updWhere_same) (simp add: k)
  have uniq: "uniqueBy accrualKey (updWhere (accrualOn i d) ?u t) = uniqueBy accrualKey t" for t
    by (rule uniqueBy_updWhere) (simp add: k)
  show "db_savings db' = db_savings db" "db_savingsTxns db' = db_savingsTxns db" "db_tiers db' = db_tiers db"
    "db_productVersions db' = db_productVersions db" "db_institutionIds db' = db_institutionIds db"
    "ac_amountAccrued r = toDec2 amount"
    using assms by (auto simp: upsertAccrual_def Let_def split: option.splits)
  show "find (accrualOn i d) (db_accruals db') = Some r"
    using assms by (cases "find (accrualOn i d) (db_accruals db)")
      (auto simp: upsertAccrual_def Let_def find_append same, auto simp: accrualOn_def)
  show "find (accrualOn i e) (db_accruals db') = find (accrualOn i e) (db_accruals db)" if "e \<noteq> d"
  proof -
    have "find (accrualOn i e) (updWhere (accrualOn i d) ?u (db_accruals db)) = find (accrualOn i e) (db_accruals db)"
      by (rule find_updWhere_other) (use that in \<open>auto simp: k accrualOn_def\<close>)
    then show ?thesis
      using assms that by (auto simp: upsertAccrual_def Let_def find_append accrualOn_def split: option.splits)
  qed
  show "uniqueBy accrualKey (db_accruals db')" if "uniqueBy accrualKey (db_accruals db)"
  proof (cases "find (accrualOn i d) (db_accruals db)")
    case None
    then have "(i, d) \<notin> accrualKey ` set (db_accruals db)" by (auto simp: find_None_iff accrualOn_key)
    then show ?thesis using assms that None by (auto simp: upsertAccrual_def Let_def uniqueBy_def accrualKey_def)
  next
    case (Some x)
    then have "db_accruals db' = updWhere (accrualOn i d) ?u (db_accruals db)"
      using assms by (auto simp: upsertAccrual_def Let_def)
    then show ?thesis using that by (simp only: uniq)
  qed
  show "q \<in> set (db_accruals db')" if "q \<in> set (db_accruals db)" "\<not> accrualOn i d q"
    using assms that by (auto simp: upsertAccrual_def Let_def set_updWhere split: option.splits)
qed

lemma startOfDay_idem [simp]: "startOfDay (startOfDay d + i * msPerDay) = startOfDay d + i * msPerDay"
proof -
  have "dayOf d * msPerDay + i * msPerDay = (dayOf d + i) * msPerDay" by algebra
  then show ?thesis by (simp only: startOfDay_def dayOf_of_day(1))
qed

lemma accrueDay_effect:
  assumes "accrueDay env inst a v d (rs, db) = (rs', db')" and "startOfDay d = d"
    and "uniqueBy accrualKey (db_accruals db)"
  shows "db_savings db' = db_savings db" "db_savingsTxns db' = db_savingsTxns db" "db_tiers db' = db_tiers db"
    and "uniqueBy accrualKey (db_accruals db')"
    and "dayDone env a v d db'"
    and "dayDone env a v e db \<Longrightarrow> dayDone env a v e db'"
    and "q \<in> set (db_accruals db) \<Longrightarrow> ac_posted q \<or> ac_accountId q \<noteq> sa_id a \<Longrightarrow> q \<in> set (db_accruals db')"
proof -
  note up = upsertAccrual_effect
  consider (kept) "isPosted (sa_id a) d db" "db' = db"
    | (accrued) r where "\<not> isPosted (sa_id a) d db" "upsertAccrual env inst (sa_id a) d (getBalanceAsOf (sa_id a) (endOfDay d) (db_savingsTxns db))
        (resolveEffectiveRate env (db_tiers db) a v (getBalanceAsOf (sa_id a) (endOfDay d) (db_savingsTxns db))) (pv_interestMethod v)
        (round2 (ndiv (nmul (getBalanceAsOf (sa_id a) (endOfDay d) (db_savingsTxns db))
          (ndiv (resolveEffectiveRate env (db_tiers db) a v (getBalanceAsOf (sa_id a) (endOfDay d) (db_savingsTxns db))) 100)) 365)) db = (r, db')"
    using assms(1,2) by (auto simp: accrueDay_def Let_def split: if_splits prod.splits)
  then have "db_savings db' = db_savings db \<and> db_savingsTxns db' = db_savingsTxns db \<and> db_tiers db' = db_tiers db
      \<and> uniqueBy accrualKey (db_accruals db') \<and> dayDone env a v d db' \<and> (dayDone env a v e db \<longrightarrow> dayDone env a v e db')
      \<and> (q \<in> set (db_accruals db) \<longrightarrow> ac_posted q \<or> ac_accountId q \<noteq> sa_id a \<longrightarrow> q \<in> set (db_accruals db'))"
  proof cases
    case kept
    then show ?thesis using assms(3) by (auto simp: isPosted_def dayDone_def split: option.splits)
  next
    case accrued
    note fr = up(1-3) [OF accrued(2)]
    have today: "dayDone env a v d db'"
      using up(6,7) [OF accrued(2)] by (simp add: dayDone_def dayInterest_def Let_def fr)
    moreover have "dayDone env a v e db'" if "dayDone env a v e db"
      using that today up(8) [OF accrued(2), of e] by (cases "e = d") (simp_all add: dayDone_def fr)
    moreover have "q \<in> set (db_accruals db')" if q: "q \<in> set (db_accruals db)" "ac_posted q \<or> ac_accountId q \<noteq> sa_id a"
    proof (rule up(10) [OF accrued(2) q(1)])
      show "\<not> accrualOn (sa_id a) d q"
      proof
        assume on: "accrualOn (sa_id a) d q"
        then have "find (accrualOn (sa_id a) d) (db_accruals db) = Some q"
          using find_uniqueBy [OF assms(3) q(1)] by (simp add: accrualOn_key [abs_def])
        then show False using accrued(1) q(2) on by (auto simp: isPosted_def accrualOn_def)
      qed
    qed
    ultimately show ?thesis using fr up(9) [OF accrued(2) assms(3)] by blast
  qed
  then show "db_savings db' = db_savings db" "db_savingsTxns db' = db_savingsTxns db" "db_tiers db' = db_tiers db"
    "uniqueBy accrualKey (db_accruals db')" "dayDone env a v d db'" "dayDone env a v e db \<Longrightarrow> dayDone env a v e db'"
    "q \<in> set (db_accruals db) \<Longrightarrow> ac_posted q \<or> ac_accountId q \<noteq> sa_id a \<Longrightarrow> q \<in> set (db_accruals db')"
    by blast+
qed

text \<open>The whole loop, over its list of days.\<close>

lemma accrueDays_effect:
  assumes "foldl (\<lambda>s i. accrueDay env inst a v (startOfDay f + i * msPerDay) s) (rs, db) is = (rs', db')"
    and "uniqueBy accrualKey (db_accruals db)"
  shows "db_savings db' = db_savings db \<and> uniqueBy accrualKey (db_accruals db')
    \<and> (\<forall>i \<in> set is. dayDone env a v (startOfDay f + i * msPerDay) db')
    \<and> (\<forall>e. dayDone env a v e db \<longrightarrow> dayDone env a v e db')
    \<and> (\<forall>q \<in> set (db_accruals db). ac_posted q \<or> ac_accountId q \<noteq> sa_id a \<longrightarrow> q \<in> set (db_accruals db'))"
  using assms
proof (induction "is" arbitrary: rs db)
  case Nil
  then show ?case by simp
next
  case (Cons i "is")
  let ?d = "startOfDay f + i * msPerDay"
  obtain rs1 db1 where s: "accrueDay env inst a v ?d (rs, db) = (rs1, db1)" by fastforce
  note e = accrueDay_effect [OF s startOfDay_idem Cons.prems(2)]
  have IH: "db_savings db' = db_savings db1 \<and> uniqueBy accrualKey (db_accruals db')
    \<and> (\<forall>i \<in> set is. dayDone env a v (startOfDay f + i * msPerDay) db')
    \<and> (\<forall>e. dayDone env a v e db1 \<longrightarrow> dayDone env a v e db')
    \<and> (\<forall>q \<in> set (db_accruals db1). ac_posted q \<or> ac_accountId q \<noteq> sa_id a \<longrightarrow> q \<in> set (db_accruals db'))"
    by (rule Cons.IH [OF _ e(4)]) (use Cons.prems(1) s in simp)
  show ?case
  proof (intro conjI ballI allI impI)
    show "db_savings db' = db_savings db" using IH e(1) by simp
    show "uniqueBy accrualKey (db_accruals db')" using IH by simp
    show "dayDone env a v (startOfDay f + j * msPerDay) db'" if "j \<in> set (i # is)" for j
      using that IH e(5) by auto
    show "dayDone env a v d db'" if "dayDone env a v d db" for d using IH e(6) that by blast
    show "q \<in> set (db_accruals db')" if "q \<in> set (db_accruals db)" "ac_posted q \<or> ac_accountId q \<noteq> sa_id a" for q
      using IH e(7) that by blast
  qed
qed

text \<open>
  Claim C33. Daily accrual ends, and afterwards every day from the last accrual to the given date has
  its row: either one already posted, or one with the interest of that day on the closing balance.
  Posted rows and those of other accounts are kept, no account gets two rows for a day, and no
  balance moves.
\<close>

theorem daily_accrual_complete:
  assumes "uniqueBy accrualKey (db_accruals db)"
    and "from = startOfDay (case sa_lastAccrualDate a of Some d \<Rightarrow> d | None \<Rightarrow> startOfDay through)"
    and "dailyAccrual env inst a v through db = (rs, db')"
  shows "(\<exists>d. while_option (\<lambda>(d, s). d \<le> startOfDay through) (\<lambda>(d, s). (plusDays d 1, accrueDay env inst a v d s)) (from, ([], db))
        = Some (d, (rs, db')))
    \<and> (\<forall>k. 0 \<le> k \<longrightarrow> from + k * msPerDay \<le> startOfDay through \<longrightarrow> dayDone env a v (from + k * msPerDay) db')
    \<and> (\<forall>q \<in> set (db_accruals db). ac_posted q \<or> ac_accountId q \<noteq> sa_id a \<longrightarrow> q \<in> set (db_accruals db'))
    \<and> uniqueBy accrualKey (db_accruals db') \<and> db_savings db' = db_savings db"
proof -
  obtain f where f: "from = startOfDay f" using assms(2) by blast
  let ?b = "startOfDay through"
  have run: "forDays from ?b (accrueDay env inst a v) ([], db) = (rs, db')"
    using assms(2,3) by (simp add: dailyAccrual_def Let_def)
  have all: "foldl (\<lambda>s i. accrueDay env inst a v (startOfDay f + i * msPerDay) s) ([], db) [0..(?b - from) div msPerDay] = (rs, db')"
    using run by (simp add: forDays_foldl f)
  note eff = accrueDays_effect [OF all assms(1)]
  have "dayDone env a v (from + k * msPerDay) db'" if k: "0 \<le> k" "from + k * msPerDay \<le> ?b" for k
  proof -
    have "k * msPerDay \<le> ?b - from" using k(2) by simp
    then have "k \<le> (?b - from) div msPerDay" using zdiv_mono1 [of "k * msPerDay" "?b - from" msPerDay] by simp
    then show ?thesis using k(1) eff by (simp add: f)
  qed
  moreover have "\<exists>d. while_option (\<lambda>(d, s). d \<le> ?b) (\<lambda>(d, s). (plusDays d 1, accrueDay env inst a v d s)) (from, ([], db))
        = Some (d, (rs, db'))"
    using forDays_terminates [of ?b "accrueDay env inst a v" "from" "([], db)"] run by simp
  ultimately show ?thesis using eff by blast
qed

section \<open>Posting and reversal\<close>

text \<open>
  The tables as the module keeps them: identifiers are unique, the ledger balance of an account is
  its balance, and only posted accruals belong to a posting, one that exists.
\<close>

definition interest_ok :: "'a interest_db_scheme \<Rightarrow> bool" where
  "interest_ok db \<longleftrightarrow> uniqueBy sa_id (db_savings db) \<and> uniqueBy ac_id (db_accruals db) \<and> uniqueBy ip_id (db_interestPostings db)
     \<and> (\<forall>a \<in> set (db_savings db). sa_ledgerBalance a = sa_balance a)
     \<and> (\<forall>r \<in> set (db_accruals db). case ac_postingId r of None \<Rightarrow> \<not> ac_posted r
          | Some i \<Rightarrow> ac_posted r \<and> i \<in> ip_id ` set (db_interestPostings db))"

lemma unposted_set: "set (unposted i inst rs) = {r \<in> set rs. ac_accountId r = i \<and> ac_institutionId r = inst \<and> \<not> ac_posted r}"
  by (auto simp: unposted_def)

lemma unposted_by_id:
  "uniqueBy ac_id rs \<Longrightarrow> r \<in> set rs \<Longrightarrow> ac_id r \<in> ac_id ` set (unposted i inst rs) \<longleftrightarrow> r \<in> set (unposted i inst rs)"
  using uniqueBy_eq [of ac_id rs r] by (auto simp: unposted_set)

definition accruedCents :: "interestAccrual list \<Rightarrow> int" where
  "accruedCents rs = (\<Sum>r\<leftarrow>rs. ac_amountAccrued r)"

lemma accruedTotal_cents:
  "smallSum (map ac_amountAccrued rs) \<Longrightarrow> accruedTotal rs = cents (accruedCents rs)"
  using round2_nsum_cents [of "map ac_amountAccrued rs"] by (simp add: accruedTotal_def accruedCents_def o_def)

text \<open>Everything a posting does, in one place.\<close>

lemma postInterest_effect:
  assumes "postInterestForAccount env i inst by batch db = Inr (Some (p, t), db')"
    and "smallSum (map ac_amountAccrued (unposted i inst (db_accruals db)))"
    and "\<forall>a \<in> set (db_savings db). \<bar>sa_balance a\<bar> \<le> 9 * 10 ^ 13"
    and "accruedCents (unposted i inst (db_accruals db)) \<le> 10 ^ 13"
  obtains a where "find (\<lambda>a. sa_id a = i) (db_savings db) = Some a"
    and "0 < accruedCents (unposted i inst (db_accruals db))"
    and "db_savings db' = updWhere (\<lambda>a. sa_id a = i)
           (\<lambda>x. x\<lparr>sa_balance := sa_balance a + accruedCents (unposted i inst (db_accruals db)),
              sa_ledgerBalance := sa_balance a + accruedCents (unposted i inst (db_accruals db))\<rparr>) (db_savings db)"
    and "db_accruals db' = updWhere (\<lambda>r. ac_id r \<in> ac_id ` set (unposted i inst (db_accruals db)))
           (\<lambda>r. r\<lparr>ac_posted := True, ac_postingId := Some (ip_id p)\<rparr>) (db_accruals db)"
    and "db_interestPostings db' = db_interestPostings db @ [p]"
    and "ip_accountId p = i" "ip_institutionId p = inst" "ip_reversedAt p = None"
    and "ip_totalAmount p = accruedCents (unposted i inst (db_accruals db))"
    and "db_savingsTxns db' = db_savingsTxns db @ [t]" "st_accountId t = i" "st_type t = ST_INTEREST"
    and "st_amount t = accruedCents (unposted i inst (db_accruals db))"
    and "st_balanceAfter t = sa_balance a + accruedCents (unposted i inst (db_accruals db))"
    and "ip_id p = e_uuid env (Suc (db_next db))"
proof -
  let ?un = "unposted i inst (db_accruals db)"
  let ?n = "accruedCents ?un"
  have tot: "accruedTotal ?un = cents ?n" by (rule accruedTotal_cents [OF assms(2)])
  have "?un \<noteq> []" and pos0: "0 < cents ?n"
    using assms(1) by (auto simp: postInterestForAccount_def Let_def tot split: if_splits)
  obtain a where a: "find (\<lambda>a. sa_id a = i) (db_savings db) = Some a"
    using assms(1) by (auto simp: postInterestForAccount_def Let_def split: if_splits)
  have n: "\<bar>?n\<bar> \<le> 10 ^ 14" using abs_sum_list_le [of "map ac_amountAccrued ?un"] assms(2)
    by (auto simp: smallSum_def accruedCents_def)
  then have pos: "0 < ?n" using pos0 cents_pos_iff by blast
  have b: "\<bar>sa_balance a\<bar> \<le> 9 * 10 ^ 13" using assms(3) find_SomeD [OF a] by blast
  then have sum: "round2 (nadd (cents (sa_balance a)) (cents ?n)) = cents (sa_balance a + ?n)" "\<bar>sa_balance a + ?n\<bar> \<le> 10 ^ 14"
    using n pos assms(4) by (auto intro!: round2_add)
  show ?thesis
    by (rule that [OF a pos])
      (use assms(1) a n sum in \<open>auto simp: postInterestForAccount_def Let_def tot recordTxn_def updSavings_def
        setBalance_def [abs_def] newId_def split: if_splits\<close>)
qed

definition moneyBounds :: "string \<Rightarrow> string \<Rightarrow> 'a interest_db_scheme \<Rightarrow> bool" where
  "moneyBounds i inst db \<longleftrightarrow> smallSum (map ac_amountAccrued (unposted i inst (db_accruals db)))
     \<and> (\<forall>a \<in> set (db_savings db). \<bar>sa_balance a\<bar> \<le> 9 * 10 ^ 13)
     \<and> accruedCents (unposted i inst (db_accruals db)) \<le> 10 ^ 13"

lemma unposted_after:
  assumes "uniqueBy ac_id rs"
  shows "unposted i inst (updWhere (\<lambda>r. ac_id r \<in> ac_id ` set (unposted i inst rs))
           (\<lambda>r. r\<lparr>ac_posted := True, ac_postingId := Some k\<rparr>) rs) = []"
proof -
  let ?rs = "updWhere (\<lambda>r. ac_id r \<in> ac_id ` set (unposted i inst rs)) (\<lambda>r. r\<lparr>ac_posted := True, ac_postingId := Some k\<rparr>) rs"
  have "r \<notin> set (unposted i inst ?rs)" for r
  proof
    assume "r \<in> set (unposted i inst ?rs)"
    then have r: "r \<in> set ?rs" "ac_accountId r = i" "ac_institutionId r = inst" "\<not> ac_posted r"
      by (auto simp: unposted_set)
    from r(1) show False
    proof (cases rule: in_updWhereE)
      case (1 q)
      then show False using r(4) by simp
    next
      case 2
      then show False using r unposted_by_id [OF assms, of r i inst] by (simp add: unposted_set)
    qed
  qed
  then show ?thesis by (metis list.set_intros(1) neq_Nil_conv)
qed

text \<open>
  Claim C32. Posting interest pays every open accrual of the account exactly once: the balance grows by
  their exact sum, the transaction records it, no accrual stays open, and posting again right away
  changes nothing.
\<close>

theorem interest_posted_once:
  assumes "interest_ok db" and "moneyBounds i inst db"
    and "postInterestForAccount env i inst by batch db = Inr (Some (p, t), db')"
  shows "unposted i inst (db_accruals db') = []
    \<and> postInterestForAccount env' i inst by' batch' db' = Inr (None, db')
    \<and> ip_totalAmount p = accruedCents (unposted i inst (db_accruals db)) \<and> st_amount t = ip_totalAmount p
    \<and> sum_list (map sa_balance (db_savings db')) = sum_list (map sa_balance (db_savings db)) + ip_totalAmount p
    \<and> find (\<lambda>a. sa_id a = i) (db_savings db') = map_option (\<lambda>a. a\<lparr>sa_balance := sa_balance a + ip_totalAmount p,
         sa_ledgerBalance := sa_balance a + ip_totalAmount p\<rparr>) (find (\<lambda>a. sa_id a = i) (db_savings db))"
proof -
  have ok: "uniqueBy sa_id (db_savings db)" "uniqueBy ac_id (db_accruals db)" using assms(1) by (simp_all add: interest_ok_def)
  let ?n = "accruedCents (unposted i inst (db_accruals db))"
  have mb: "smallSum (map ac_amountAccrued (unposted i inst (db_accruals db)))"
    "\<forall>a \<in> set (db_savings db). \<bar>sa_balance a\<bar> \<le> 9 * 10 ^ 13" "?n \<le> 10 ^ 13"
    using assms(2) by (simp_all add: moneyBounds_def)
  obtain a where a: "find (\<lambda>a. sa_id a = i) (db_savings db) = Some a"
    and sav: "db_savings db' = updWhere (\<lambda>a. sa_id a = i)
           (\<lambda>x. x\<lparr>sa_balance := sa_balance a + ?n, sa_ledgerBalance := sa_balance a + ?n\<rparr>) (db_savings db)"
    and acc: "db_accruals db' = updWhere (\<lambda>r. ac_id r \<in> ac_id ` set (unposted i inst (db_accruals db)))
           (\<lambda>r. r\<lparr>ac_posted := True, ac_postingId := Some (ip_id p)\<rparr>) (db_accruals db)"
    and tot: "ip_totalAmount p = ?n" "st_amount t = ?n"
    by (rule postInterest_effect [OF assms(3) mb]) blast
  have none: "unposted i inst (db_accruals db') = []" by (simp add: acc unposted_after [OF ok(2)])
  have a': "a \<in> set (db_savings db)" "sa_id a = i" using find_SomeD [OF a] by auto
  have "sum_list (map sa_balance (db_savings db')) = sum_list (map sa_balance (db_savings db)) + ?n"
    using sum_updWhere_unique [OF ok(1) a'(1), of sa_balance] a'(2) by (simp add: sav)
  moreover have "find (\<lambda>a. sa_id a = i) (db_savings db')
      = Some (a\<lparr>sa_balance := sa_balance a + ?n, sa_ledgerBalance := sa_balance a + ?n\<rparr>)"
    unfolding sav by (subst find_updWhere_same) (simp_all add: a)
  ultimately show ?thesis using none a tot by (simp add: postInterestForAccount_def)
qed

lemma updWhere_updWhere_id:
  assumes "\<And>r. r \<in> set t \<Longrightarrow> P r \<Longrightarrow> Q (f r) \<and> g (f r) = r" and "\<And>r. r \<in> set t \<Longrightarrow> \<not> P r \<Longrightarrow> \<not> Q r"
  shows "updWhere Q g (updWhere P f t) = t"
  using assms by (induction t) auto

text \<open>
  Claim C20. Reversing a posting undoes it: the accounts and the accruals are exactly as they were
  before the interest was posted, so it can be posted again.
\<close>

theorem interest_reversal_restores:
  assumes "interest_ok db" and "moneyBounds i (e_institutionId env) db"
    and "e_uuid env (Suc (db_next db)) \<notin> ip_id ` set (db_interestPostings db)"
    and "postInterestForAccount env i (e_institutionId env) by batch db = Inr (Some (p, t), db1)"
    and "reverseInterest env' (ip_id p) (Some reason) db1 = (r, db2)"
    and "reason \<noteq> []" and "e_institutionId env' = e_institutionId env"
  shows "r = ROk 200 () \<and> db_savings db2 = db_savings db \<and> db_accruals db2 = db_accruals db"
proof -
  have ok: "uniqueBy sa_id (db_savings db)" "\<forall>a \<in> set (db_savings db). sa_ledgerBalance a = sa_balance a"
    "\<forall>r \<in> set (db_accruals db). case ac_postingId r of None \<Rightarrow> \<not> ac_posted r
          | Some i \<Rightarrow> ac_posted r \<and> i \<in> ip_id ` set (db_interestPostings db)"
    "uniqueBy ac_id (db_accruals db)"
    using assms(1) by (simp_all add: interest_ok_def)
  let ?un = "unposted i (e_institutionId env) (db_accruals db)"
  let ?n = "accruedCents ?un"
  let ?P = "\<lambda>r. ac_id r \<in> ac_id ` set ?un"
  have mb: "smallSum (map ac_amountAccrued ?un)" "\<forall>a \<in> set (db_savings db). \<bar>sa_balance a\<bar> \<le> 9 * 10 ^ 13" "?n \<le> 10 ^ 13"
    using assms(2) by (simp_all add: moneyBounds_def)
  obtain a where a: "find (\<lambda>a. sa_id a = i) (db_savings db) = Some a" and pos: "0 < ?n"
    and sav: "db_savings db1 = updWhere (\<lambda>a. sa_id a = i)
           (\<lambda>x. x\<lparr>sa_balance := sa_balance a + ?n, sa_ledgerBalance := sa_balance a + ?n\<rparr>) (db_savings db)"
    and acc: "db_accruals db1 = updWhere ?P (\<lambda>r. r\<lparr>ac_posted := True, ac_postingId := Some (ip_id p)\<rparr>) (db_accruals db)"
    and post: "db_interestPostings db1 = db_interestPostings db @ [p]" "ip_accountId p = i"
      "ip_institutionId p = e_institutionId env" "ip_reversedAt p = None" "ip_totalAmount p = ?n"
      "ip_id p = e_uuid env (Suc (db_next db))"
    by (rule postInterest_effect [OF assms(4) mb]) blast
  have fresh: "ip_id p \<notin> ip_id ` set (db_interestPostings db)" using assms(3) post(6) by simp
  have found: "find (\<lambda>q. ip_id q = ip_id p \<and> ip_institutionId q = e_institutionId env') (db_interestPostings db1) = Some p"
  proof -
    have "find (\<lambda>q. ip_id q = ip_id p \<and> ip_institutionId q = e_institutionId env') (db_interestPostings db) = None"
      unfolding find_None_iff using fresh by (metis imageI)
    then show ?thesis using post(3) assms(7) by (simp add: post(1) find_append)
  qed
  have acct: "find (\<lambda>a. sa_id a = i) (db_savings db1) = Some (a\<lparr>sa_balance := sa_balance a + ?n, sa_ledgerBalance := sa_balance a + ?n\<rparr>)"
    unfolding sav by (subst find_updWhere_same) (simp_all add: a)
  have b: "\<bar>sa_balance a\<bar> \<le> 9 * 10 ^ 13" using mb(2) find_SomeD [OF a] by blast
  have undo: "round2 (nsub (cents (sa_balance a + ?n)) (cents ?n)) = cents (sa_balance a)"
    using round2_sub [of "sa_balance a + ?n" ?n] b pos mb(3) by simp
  have res: "r = ROk 200 ()"
    "db_savings db2 = updWhere (\<lambda>a. sa_id a = i) (setBalance (cents (sa_balance a))) (db_savings db1)"
    "db_accruals db2 = updWhere (\<lambda>r. ac_postingId r = Some (ip_id p)) (\<lambda>r. r\<lparr>ac_posted := False, ac_postingId := None\<rparr>) (db_accruals db1)"
    using assms(5,6) found acct undo post(2,4,5)
    by (auto simp: reverseInterest_def answer_def parseBody_def safeParse_def require_def Let_def recordTxn_def updSavings_def audit_def)
  have "db_savings db2 = db_savings db"
    unfolding res(2) sav
  proof (rule updWhere_updWhere_id)
    fix x assume x: "x \<in> set (db_savings db)" "sa_id x = i"
    have "a \<in> set (db_savings db)" "sa_id a = i" using find_SomeD [OF a] by blast+
    then have "x = a" using uniqueBy_eq [OF ok(1) x(1)] x(2) by metis
    then show "sa_id (x\<lparr>sa_balance := sa_balance a + ?n, sa_ledgerBalance := sa_balance a + ?n\<rparr>) = i
      \<and> setBalance (cents (sa_balance a)) (x\<lparr>sa_balance := sa_balance a + ?n, sa_ledgerBalance := sa_balance a + ?n\<rparr>) = x"
      using x ok(2) b by (simp add: setBalance_def)
  qed simp
  moreover have "db_accruals db2 = db_accruals db"
    unfolding res(3) acc
  proof (rule updWhere_updWhere_id)
    fix x assume x: "x \<in> set (db_accruals db)" "?P x"
    then have "x \<in> set ?un" using unposted_by_id [OF ok(4)] by blast
    then have "ac_posted x = False" "ac_postingId x = None" using ok(3) by (auto simp: unposted_set split: option.splits)
    then show "ac_postingId (x\<lparr>ac_posted := True, ac_postingId := Some (ip_id p)\<rparr>) = Some (ip_id p)
      \<and> x\<lparr>ac_posted := True, ac_postingId := Some (ip_id p)\<rparr>\<lparr>ac_posted := False, ac_postingId := None\<rparr> = x" by simp
  next
    fix x assume x: "x \<in> set (db_accruals db)" "\<not> ?P x"
    then show "\<not> ac_postingId x = Some (ip_id p)" using ok(3) fresh by (auto split: option.splits)
  qed
  ultimately show ?thesis using res(1) by blast
qed

section \<open>A sample institution\<close>

definition sampleVersion :: productVersion where
  "sampleVersion = \<lparr>pv_id = ''v1'', pv_productId = ''p1'', pv_interestMethod = ''DAILY_BALANCE'', pv_interestRate = 5,
     pv_interestRateType = ''FIXED'', pv_promoInterestRate = None, pv_promoDurationDays = None, pv_minLoanAmount = None, pv_maxLoanAmount = None, pv_minTenureMonths = None, pv_maxTenureMonths = None\<rparr>"

definition sampleAccrual :: interestAccrual where
  "sampleAccrual = \<lparr>ac_id = ''a1'', ac_institutionId = ''i1'', ac_accountId = ''s1'', ac_accrualDate = 0, ac_balanceUsed = 5000,
     ac_rateApplied = 5, ac_method = ''DAILY_BALANCE'', ac_amountAccrued = 68, ac_posted = False, ac_postingId = None\<rparr>"

definition sampleInterestDb :: interest_db where
  "sampleInterestDb = savings_db.extend sampleSavingsDb
     \<lparr>db_institutionIds = [''i1''], db_tiers = [], db_accruals = [sampleAccrual], db_interestPostings = []\<rparr>"

lemma sampleInterestDb_simps [simp]:
  "db_accruals sampleInterestDb = [sampleAccrual]" "db_interestPostings sampleInterestDb = []" "db_next sampleInterestDb = 0"
  "db_savings sampleInterestDb = [sampleSavings]" "db_savingsTxns sampleInterestDb = [sampleTxn 1000 5000]"
  by (simp_all add: sampleInterestDb_def savings_db.defs cash_db.defs gl_db.defs core_db.defs sampleSavingsDb_def)

theorem daily_accrual_complete_witness:
  "dayDone sampleEnv sampleSavings sampleVersion msPerDay
     (snd (dailyAccrual sampleEnv ''i1'' sampleSavings sampleVersion msPerDay sampleInterestDb))"
proof -
  let ?r = "dailyAccrual sampleEnv ''i1'' sampleSavings sampleVersion msPerDay sampleInterestDb"
  have "uniqueBy accrualKey (db_accruals sampleInterestDb)" by (simp add: uniqueBy_def)
  moreover have "msPerDay = startOfDay (case sa_lastAccrualDate sampleSavings of Some d \<Rightarrow> d | None \<Rightarrow> startOfDay msPerDay)"
    by (simp add: sampleSavings_def startOfDay_def dayOf_def)
  moreover have "?r = (fst ?r, snd ?r)" by simp
  ultimately have "\<forall>k. 0 \<le> k \<longrightarrow> msPerDay + k * msPerDay \<le> startOfDay msPerDay
      \<longrightarrow> dayDone sampleEnv sampleSavings sampleVersion (msPerDay + k * msPerDay) (snd ?r)"
    by (rule daily_accrual_complete [THEN conjunct2, THEN conjunct1])
  then have "dayDone sampleEnv sampleSavings sampleVersion (msPerDay + 0 * msPerDay) (snd ?r)"
    by (rule allE [of _ 0]) (simp add: startOfDay_def dayOf_def)
  then show ?thesis by simp
qed

definition samplePostingRun where
  "samplePostingRun = postInterestForAccount sampleEnv ''s1'' ''i1'' (Some ''u1'') None sampleInterestDb"

lemma sampleInterest_ok: "interest_ok sampleInterestDb" "moneyBounds ''s1'' ''i1'' sampleInterestDb"
  by (simp_all add: interest_ok_def uniqueBy_def moneyBounds_def unposted_def smallSum_def accruedCents_def sampleAccrual_def
      sampleSavings_def)

lemma sampleUnposted: "unposted ''s1'' ''i1'' [sampleAccrual] = [sampleAccrual]"
  by (simp add: unposted_def sampleAccrual_def)

lemma samplePostingRun_some: "\<exists>p t db'. samplePostingRun = Inr (Some (p, t), db')"
proof -
  have tot: "accruedTotal [sampleAccrual] = cents 68"
    using accruedTotal_cents [of "[sampleAccrual]"] by (simp add: accruedCents_def sampleAccrual_def smallSum_def)
  have "0 < cents 68" by (simp add: cents_pos_iff)
  moreover have "find (\<lambda>a. sa_id a = ''s1'') (db_savings sampleInterestDb) = Some sampleSavings" by (simp add: sampleSavings_def)
  ultimately show ?thesis by (simp add: samplePostingRun_def postInterestForAccount_def sampleUnposted tot Let_def split_beta)
qed

theorem interest_posted_once_witness:
  "\<exists>p t db'. samplePostingRun = Inr (Some (p, t), db') \<and> sum_list (map sa_balance (db_savings db')) = 5068"
proof -
  obtain p t db' where r: "samplePostingRun = Inr (Some (p, t), db')" using samplePostingRun_some by blast
  have "accruedCents [sampleAccrual] = 68" "sa_balance sampleSavings = 5000"
    by (simp_all add: accruedCents_def sampleAccrual_def sampleSavings_def)
  with interest_posted_once [OF sampleInterest_ok r [unfolded samplePostingRun_def]]
  have "sum_list (map sa_balance (db_savings db')) = 5068" by (simp add: sampleUnposted)
  then show ?thesis using r by blast
qed

theorem interest_reversal_restores_witness:
  "\<exists>p t db1. samplePostingRun = Inr (Some (p, t), db1)
     \<and> db_savings (snd (reverseInterest sampleEnv (ip_id p) (Some ''error'') db1)) = [sampleSavings]"
proof -
  obtain p t db1 where r: "samplePostingRun = Inr (Some (p, t), db1)" using samplePostingRun_some by blast
  have inst: "e_institutionId sampleEnv = ''i1''" by (simp add: sample_defs)
  let ?r = "reverseInterest sampleEnv (ip_id p) (Some ''error'') db1"
  have "?r = (fst ?r, snd ?r)" by simp
  from interest_reversal_restores [OF sampleInterest_ok(1) _ _ _ this, of "''s1''" sampleEnv "Some ''u1''" None t]
  have "db_savings (snd ?r) = db_savings sampleInterestDb"
    using sampleInterest_ok(2) r by (simp add: inst samplePostingRun_def)
  then have "db_savings (snd ?r) = [sampleSavings]" by simp
  then show ?thesis using r by blast
qed

end
