(* ===== verification/Loan_Schedule.thy ===== *)
theory Loan_Schedule
  imports JS_Number JS_Date
begin

text \<open>
  \<open>lib/loanSchedule.ts\<close>: the amortization schedule of a new loan, the schedule of a migrated
  balance, and the allocation of a repayment over the installments, oldest first and interest
  before principal. Amounts are the numbers of \<open>JS_Number\<close>; the lemmas show that on money columns
  the allocation is the exact waterfall over hundredths (\<open>waterfall\<close>), whatever the rounding of
  the intermediate sums, and that a migrated schedule adds up to the balance it was made from.
  \<open>Math.pow\<close>, whose value the language leaves to the implementation, is the parameter \<open>pow\<close>.
\<close>

section \<open>Schedules\<close>

record scheduleRow =
  sr_installmentNumber :: int
  sr_dueDate :: time
  sr_principalDue :: num
  sr_interestDue :: num

definition scheduleRow :: "int \<Rightarrow> time \<Rightarrow> num \<Rightarrow> num \<Rightarrow> scheduleRow" where
  "scheduleRow i d p n = \<lparr>sr_installmentNumber = i, sr_dueDate = d, sr_principalDue = p, sr_interestDue = n\<rparr>"

lemma scheduleRow_sel [simp]:
  "sr_installmentNumber (scheduleRow i d p n) = i" "sr_dueDate (scheduleRow i d p n) = d"
  "sr_principalDue (scheduleRow i d p n) = p" "sr_interestDue (scheduleRow i d p n) = n"
  by (simp_all add: scheduleRow_def)

text \<open>The loop of the reducing-balance branch, from installment \<open>i\<close> on with \<open>left\<close> of them to go.\<close>

fun reducingRows :: "num \<Rightarrow> num \<Rightarrow> int \<Rightarrow> time \<Rightarrow> num \<Rightarrow> int \<Rightarrow> nat \<Rightarrow> scheduleRow list" where
  "reducingRows payment monthlyRate termMonths start balance i 0 = []"
| "reducingRows payment monthlyRate termMonths start balance i (Suc left) =
     (let interestDue = (if monthlyRate = 0 then 0 else nmul balance monthlyRate);
          principalDue = (if i = termMonths then balance else nsub payment interestDue);
          balance' = nsub balance principalDue
      in scheduleRow i (plusMonths start i) (round2 principalDue) (round2 interestDue)
         # reducingRows payment monthlyRate termMonths start balance' (i + 1) left)"

definition generateSchedule ::
  "(num \<Rightarrow> num \<Rightarrow> num) \<Rightarrow> num \<Rightarrow> num \<Rightarrow> int \<Rightarrow> string \<Rightarrow> time \<Rightarrow> scheduleRow list" where
  "generateSchedule pow amount annualRatePct termMonths method startDate =
     (if method = ''REDUCING_BALANCE'' then
        (let monthlyRate = ndiv (ndiv annualRatePct 100) 12;
             growth = pow (nadd 1 monthlyRate) (of_int termMonths);
             payment = (if monthlyRate = 0 then ndiv amount (of_int termMonths)
                        else ndiv (nmul (nmul amount monthlyRate) growth) (nsub growth 1))
         in reducingRows payment monthlyRate termMonths startDate amount 1 (nat termMonths))
      else
        (let totalInterest = nmul (nmul amount (ndiv annualRatePct 100)) (ndiv (of_int termMonths) 12);
             principalPerInstallment = ndiv amount (of_int termMonths);
             interestPerInstallment = ndiv totalInterest (of_int termMonths)
         in map (\<lambda>i. scheduleRow i (plusMonths startDate i) (round2 principalPerInstallment)
                       (round2 interestPerInstallment)) [1..termMonths]))"

text \<open>
  The schedule of a migrated loan. The last row is written by index, so with no installments left
  the function throws.
\<close>

definition generateRemainingSchedule ::
  "num \<Rightarrow> num \<Rightarrow> int \<Rightarrow> time \<Rightarrow> string + scheduleRow list" where
  "generateRemainingSchedule outstandingPrincipal outstandingInterest remainingInstallments nextDueDate =
     (let principalPer = round2 (ndiv outstandingPrincipal (of_int remainingInstallments));
          interestPer = round2 (ndiv outstandingInterest (of_int remainingInstallments));
          rows = map (\<lambda>i. scheduleRow i (plusMonths nextDueDate (i - 1)) principalPer interestPer)
                   [1..remainingInstallments];
          principalSoFar = round2 (nmul principalPer (of_int (remainingInstallments - 1)));
          interestSoFar = round2 (nmul interestPer (of_int (remainingInstallments - 1)))
      in if rows = [] then Inl ''TypeError''
         else Inr (butlast rows @
           [(last rows)\<lparr>sr_principalDue := round2 (nsub outstandingPrincipal principalSoFar),
                        sr_interestDue := round2 (nsub outstandingInterest interestSoFar)\<rparr>]))"

section \<open>Allocating a repayment\<close>

datatype installmentStatus = I_PENDING | I_PARTIALLY_PAID | I_PAID | I_OVERDUE

record installmentState =
  is_id :: string
  is_interestDue :: num
  is_principalDue :: num
  is_interestPaid :: num
  is_principalPaid :: num
  is_status :: installmentStatus

record allocationUpdate =
  au_id :: string
  au_newInterestPaid :: num
  au_newPrincipalPaid :: num
  au_newStatus :: installmentStatus

text \<open>
  One round of the loop body: the installment after it, what remains of the amount, and the update
  it pushes. The comparisons against 0.005 and 0.01 use the doubles nearest to them.
\<close>

definition halfCent :: num where "halfCent = fl (5 / 1000)"

definition allocateOne ::
  "installmentState \<Rightarrow> num \<Rightarrow> installmentState \<times> num \<times> allocationUpdate option" where
  "allocateOne inst remaining =
     (let interestOutstanding = nsub (is_interestDue inst) (is_interestPaid inst);
          principalOutstanding = nsub (is_principalDue inst) (is_principalPaid inst)
      in if interestOutstanding \<le> halfCent \<and> principalOutstanding \<le> halfCent then (inst, remaining, None)
         else
          (let interestPaidNow = (if halfCent < interestOutstanding then min remaining interestOutstanding else 0);
               remaining1 = (if halfCent < interestOutstanding then nsub remaining interestPaidNow else remaining);
               principalPaidNow = (if 0 < remaining1 \<and> halfCent < principalOutstanding
                                   then min remaining1 principalOutstanding else 0);
               remaining2 = (if 0 < remaining1 \<and> halfCent < principalOutstanding
                             then nsub remaining1 principalPaidNow else remaining1)
           in if 0 < interestPaidNow \<or> 0 < principalPaidNow then
                (let newInterestPaid = round2 (nadd (is_interestPaid inst) interestPaidNow);
                     newPrincipalPaid = round2 (nadd (is_principalPaid inst) principalPaidNow);
                     fullyPaid = (nsub (is_interestDue inst) (cents 1) \<le> newInterestPaid
                                  \<and> nsub (is_principalDue inst) (cents 1) \<le> newPrincipalPaid);
                     newStatus = (if fullyPaid then I_PAID else I_PARTIALLY_PAID)
                 in (inst\<lparr>is_interestPaid := newInterestPaid, is_principalPaid := newPrincipalPaid,
                          is_status := newStatus\<rparr>,
                     remaining2,
                     Some \<lparr>au_id = is_id inst, au_newInterestPaid = newInterestPaid,
                           au_newPrincipalPaid = newPrincipalPaid, au_newStatus = newStatus\<rparr>))
              else (inst, remaining2, None)))"

text \<open>The loop: the installments as it leaves them, and the updates for the caller to persist.\<close>

fun allocateRepayment :: "installmentState list \<Rightarrow> num \<Rightarrow> installmentState list \<times> allocationUpdate list" where
  "allocateRepayment [] remaining = ([], [])"
| "allocateRepayment (inst # insts) remaining =
     (if remaining \<le> 0 then (inst # insts, [])
      else (case allocateOne inst remaining of (inst', remaining', u) \<Rightarrow>
        (case allocateRepayment insts remaining' of (insts', us) \<Rightarrow>
          (inst' # insts', (case u of None \<Rightarrow> us | Some x \<Rightarrow> x # us)))))"

section \<open>The exact waterfall\<close>

text \<open>
  An installment in hundredths: interest due, principal due, interest paid, principal paid. The
  waterfall pays the interest still due, then the principal still due, then goes on.
\<close>

type_synonym instCents = "int \<times> int \<times> int \<times> int"

fun payInst :: "instCents \<Rightarrow> int \<Rightarrow> instCents \<times> int" where
  "payInst (di, dp, qi, qp) R =
     (let a = min R (di - qi); b = min (R - a) (dp - qp) in ((di, dp, qi + a, qp + b), R - a - b))"

fun waterfall :: "instCents list \<Rightarrow> int \<Rightarrow> instCents list" where
  "waterfall [] R = []"
| "waterfall (x # xs) R = (case payInst x R of (y, R') \<Rightarrow> y # waterfall xs R')"

text \<open>The columns a loan row may hold: nothing overpaid, at most a thousand million cedis each.\<close>

fun wfInst :: "instCents \<Rightarrow> bool" where
  "wfInst (di, dp, qi, qp) \<longleftrightarrow> 0 \<le> qi \<and> qi \<le> di \<and> di \<le> 10 ^ 11 \<and> 0 \<le> qp \<and> qp \<le> dp \<and> dp \<le> 10 ^ 11"

fun outstanding :: "instCents \<Rightarrow> int" where
  "outstanding (di, dp, qi, qp) = (di - qi) + (dp - qp)"

fun paidOf :: "instCents \<Rightarrow> int" where
  "paidOf (di, dp, qi, qp) = qi + qp"

fun holds :: "installmentState \<Rightarrow> instCents \<Rightarrow> bool" where
  "holds s (di, dp, qi, qp) \<longleftrightarrow> is_interestDue s = cents di \<and> is_principalDue s = cents dp
     \<and> is_interestPaid s = cents qi \<and> is_principalPaid s = cents qp"

lemma outstanding_nonneg: "wfInst x \<Longrightarrow> 0 \<le> outstanding x"
  by (cases x) auto

lemma payInst_facts:
  assumes "wfInst x" "0 \<le> R" "payInst x R = (y, R')"
  shows "wfInst y" "0 \<le> R'" "R' \<le> R" "paidOf y - paidOf x = R - R'" "R - R' = min R (outstanding x)"
  using assms by (cases x; auto simp: Let_def)+

lemma payInst_0: "wfInst x \<Longrightarrow> payInst x 0 = (x, 0)"
  by (cases x) (auto simp: Let_def)

lemma waterfall_0: "list_all wfInst xs \<Longrightarrow> waterfall xs 0 = xs"
  by (induction xs) (auto simp: payInst_0)

lemma waterfall_conserves:
  assumes "list_all wfInst xs" "0 \<le> R"
  shows "list_all wfInst (waterfall xs R)"
    and "sum_list (map paidOf (waterfall xs R)) - sum_list (map paidOf xs) = min R (sum_list (map outstanding xs))"
  using assms
proof (induction xs arbitrary: R)
  case Nil
  { case 1 then show ?case by simp }
  { case 2 then show ?case by simp }
next
  case (Cons x xs)
  {
    case 1
    obtain y R' where y: "payInst x R = (y, R')" by (cases "payInst x R") auto
    show ?case using 1 Cons.IH(1) [of R'] payInst_facts [OF _ _ y] y by simp
  next
    case 2
    obtain y R' where y: "payInst x R = (y, R')" by (cases "payInst x R") auto
    have "0 \<le> sum_list (map outstanding xs)"
      by (rule sum_list_nonneg) (use 2 in \<open>auto simp: list_all_iff intro: outstanding_nonneg\<close>)
    then show ?case using 2 Cons.IH(2) [of R'] payInst_facts [OF _ _ y] y by auto
  }
qed

section \<open>The allocation computes the waterfall\<close>

lemma halfCent_bounds: "4 / 1000 < halfCent" "halfCent < 6 / 1000"
  using fl_error [of "5 / 1000"] unfolding halfCent_def abs_le_iff by auto

lemma cents_close:
  assumes "0 \<le> k" "k \<le> 10 ^ 11" shows "\<bar>cents k - of_int k / 100\<bar> \<le> 2 / 10000000"
proof -
  have "(of_int k :: rat) \<le> 10 ^ 11" using assms(2) by (metis of_int_le_iff of_int_numeral of_int_power)
  then show ?thesis using cents_error_rel [of k] assms(1) unfolding abs_le_iff by simp
qed

lemma fl_close: "\<bar>x\<bar> \<le> 2000000000 \<Longrightarrow> \<bar>fl x - x\<bar> \<le> 3 / 10000000"
  using fl_error [of x] by simp

lemma rat_int_le: "k \<le> 10 ^ 11 \<Longrightarrow> (of_int k :: rat) / 100 \<le> 1000000000"
proof -
  assume "k \<le> 10 ^ 11"
  then have "(of_int k :: rat) \<le> of_int (10 ^ 11)" by (simp only: of_int_le_iff)
  then show ?thesis by simp
qed

text \<open>Paying one of the two parts of an installment that is still due.\<close>

lemma pay_part:
  assumes p: "0 \<le> p" "p < d" "d \<le> 10 ^ 11" and R: "0 \<le> R" "R \<le> 10 ^ 11"
    and rem: "\<bar>rem - of_int R / 100\<bar> \<le> e" and e: "e \<le> 3 / 1000"
  defines "io \<equiv> nsub (cents d) (cents p)" and "a \<equiv> min R (d - p)"
  shows "halfCent < io"
    and "\<bar>nsub rem (min rem io) - of_int (R - a) / 100\<bar> \<le> e + 1 / 1000000"
    and "round2 (nadd (cents p) (min rem io)) = cents (p + a)"
proof -
  have D: "0 \<le> d" "p \<le> 10 ^ 11" using p by simp_all
  have cd: "\<bar>cents d - of_int d / 100\<bar> \<le> 2 / 10000000" and cp: "\<bar>cents p - of_int p / 100\<bar> \<le> 2 / 10000000"
    using cents_close p D by auto
  have rat: "(of_int d :: rat) / 100 \<le> 1000000000" "(of_int R :: rat) / 100 \<le> 1000000000"
    "0 \<le> (of_int p :: rat) / 100" "0 \<le> (of_int R :: rat) / 100" "(of_int p :: rat) / 100 + 1 / 100 \<le> of_int d / 100"
    using rat_int_le [of d] rat_int_le [of R] p R by (simp_all add: field_simps flip: of_int_add)
  have "\<bar>cents d - cents p\<bar> \<le> 2000000000" using cd cp rat unfolding abs_le_iff by simp
  then have io_fl: "\<bar>io - (cents d - cents p)\<bar> \<le> 3 / 10000000"
    unfolding io_def nsub_def by (rule fl_close)
  then have io: "\<bar>io - of_int (d - p) / 100\<bar> \<le> 7 / 10000000"
    using cd cp unfolding abs_le_iff by (simp add: diff_divide_distrib)
  show "halfCent < io"
    using halfCent_bounds(2) io rat unfolding abs_le_iff by (simp add: diff_divide_distrib)
  have m: "\<bar>min rem io - of_int a / 100\<bar> \<le> e + 7 / 10000000
      \<and> \<bar>nsub rem (min rem io) - of_int (R - a) / 100\<bar> \<le> e + 1 / 1000000"
  proof (cases "rem \<le> io")
    case True
    have "(of_int R :: rat) / 100 - of_int (d - p) / 100 < 1 / 100"
      using True rem io e unfolding abs_le_iff of_int_diff diff_divide_distrib by linarith
    then have "(of_int (R - (d - p)) :: rat) < of_int 1" by (simp add: field_simps)
    then have "a = R" unfolding of_int_less_iff a_def by simp
    then show ?thesis using True rem unfolding abs_le_iff by simp
  next
    case False
    have "(of_int (d - p) :: rat) / 100 - of_int R / 100 < 1 / 100"
      using False rem io e unfolding abs_le_iff of_int_diff diff_divide_distrib by linarith
    then have "(of_int ((d - p) - R) :: rat) < of_int 1" by (simp add: field_simps)
    then have a: "a = d - p" unfolding of_int_less_iff a_def by simp
    have "\<bar>rem - io\<bar> \<le> 2000000000"
      using rem e rat io unfolding abs_le_iff by (simp add: diff_divide_distrib)
    then have "\<bar>nsub rem io - (rem - io)\<bar> \<le> 3 / 10000000" unfolding nsub_def by (rule fl_close)
    then show ?thesis
      using False io rem unfolding a abs_le_iff by (simp add: diff_divide_distrib)
  qed
  then show "\<bar>nsub rem (min rem io) - of_int (R - a) / 100\<bar> \<le> e + 1 / 1000000" ..
  have a_range: "0 \<le> a" "p + a \<le> d" using p R by (simp_all add: a_def)
  then have "0 \<le> (of_int a :: rat) / 100" "(of_int p :: rat) / 100 + of_int a / 100 \<le> of_int d / 100"
    by (simp_all add: field_simps flip: of_int_add)
  then have "\<bar>cents p + min rem io\<bar> \<le> 2000000000"
    using m cp rat e unfolding abs_le_iff by simp
  then have "\<bar>nadd (cents p) (min rem io) - (cents p + min rem io)\<bar> \<le> 3 / 10000000"
    unfolding nadd_def by (rule fl_close)
  then have "\<bar>nadd (cents p) (min rem io) - of_int (p + a) / 100\<bar> \<le> 4 / 1000"
    using m cp e unfolding abs_le_iff by (simp add: add_divide_distrib)
  then show "round2 (nadd (cents p) (min rem io)) = cents (p + a)"
    by (rule round2_near) (use a_range p in auto)
qed

lemma not_due: "nsub (cents d) (cents d) \<le> halfCent" "\<not> halfCent < nsub (cents d) (cents d)"
  using halfCent_bounds by auto

text \<open>One round of the loop, on an amount that is known up to \<open>e\<close>.\<close>

lemma allocateOne_waterfall:
  assumes inst: "holds s x" and wf: "wfInst x" and R: "0 \<le> R" "R \<le> 10 ^ 11"
    and rem: "\<bar>rem - of_int R / 100\<bar> \<le> e" "0 < rem" and e: "e \<le> 299 / 100000"
    and res: "allocateOne s rem = (s', rem', u)" and pay: "payInst x R = (y, R')"
  shows "holds s' y \<and> is_id s' = is_id s \<and> \<bar>rem' - of_int R' / 100\<bar> \<le> e + 2 / 1000000"
proof -
  obtain di dp qi qp where x: "x = (di, dp, qi, qp)" by (cases x) auto
  have s: "is_interestDue s = cents di" "is_principalDue s = cents dp"
    "is_interestPaid s = cents qi" "is_principalPaid s = cents qp"
    using inst by (simp_all add: x)
  have w: "0 \<le> qi" "qi \<le> di" "di \<le> 10 ^ 11" "0 \<le> qp" "qp \<le> dp" "dp \<le> 10 ^ 11"
    using wf by (simp_all add: x)
  define a b where "a = min R (di - qi)" and "b = min (R - a) (dp - qp)"
  have y: "y = (di, dp, qi + a, qp + b)" and R': "R' = R - a - b"
    using pay by (auto simp: x a_def b_def Let_def)
  have a: "0 \<le> a" "a \<le> R" using R w by (simp_all add: a_def)
  define io po where "io = nsub (cents di) (cents qi)" and "po = nsub (cents dp) (cents qp)"
  define ipn r1 where "ipn = (if halfCent < io then min rem io else 0)"
    and "r1 = (if halfCent < io then nsub rem ipn else rem)"
  define ppn r2 where "ppn = (if 0 < r1 \<and> halfCent < po then min r1 po else 0)"
    and "r2 = (if 0 < r1 \<and> halfCent < po then nsub r1 ppn else r1)"
  have interest: "round2 (nadd (cents qi) ipn) = cents (qi + a) \<and> \<bar>r1 - of_int (R - a) / 100\<bar> \<le> e + 1 / 1000000
      \<and> (qi < di \<longrightarrow> 0 < ipn) \<and> (qi = di \<longrightarrow> r1 = rem \<and> \<not> halfCent < io)"
  proof (cases "qi = di")
    case True
    then show ?thesis
      using rem(1) a not_due(2) w R by (simp add: ipn_def r1_def io_def a_def)
  next
    case False
    then have "qi < di" "e \<le> 3 / 1000" using w e by simp_all
    note part = pay_part [OF w(1) \<open>qi < di\<close> w(3) R rem(1) this(2), folded io_def a_def]
    then show ?thesis using rem(2) halfCent_bounds False by (simp add: ipn_def r1_def)
  qed
  have principal: "round2 (nadd (cents qp) ppn) = cents (qp + b) \<and> \<bar>r2 - of_int R' / 100\<bar> \<le> e + 2 / 1000000
      \<and> (qi = di \<and> qp < dp \<longrightarrow> 0 < ppn) \<and> (qp = dp \<longrightarrow> \<not> halfCent < po)"
  proof (cases "qp < dp \<and> 0 < r1")
    case True
    then have "e + 1 / 1000000 \<le> 3 / 1000" "0 \<le> R - a" "R - a \<le> 10 ^ 11" using e a R by simp_all
    note part = pay_part [OF w(4) _ w(6) this(2,3) _ this(1), of r1, folded po_def b_def]
    then show ?thesis using interest True halfCent_bounds rem(2) by (simp add: ppn_def r2_def R' diff_diff_eq)
  next
    case False
    have "b = 0"
    proof (cases "qp = dp")
      case True
      then show ?thesis using a by (simp add: b_def)
    next
      case False
      then have "r1 \<le> 0" using \<open>\<not> (qp < dp \<and> 0 < r1)\<close> w by simp
      then have "(of_int (R - a) :: rat) / 100 < 1 / 100" using interest e unfolding abs_le_iff by linarith
      then have "(of_int (R - a) :: rat) < of_int 1" by simp
      then have "R - a = 0" using a unfolding of_int_less_iff by simp
      then show ?thesis using w by (simp add: b_def)
    qed
    moreover have "ppn = 0 \<and> r2 = r1"
      using False not_due(2) [of dp] w by (auto simp: ppn_def r2_def po_def)
    moreover have "qi = di \<Longrightarrow> \<not> qp < dp" using interest False rem(2) by auto
    ultimately show ?thesis using interest w not_due(2) [of dp] by (auto simp: R' po_def)
  qed
  show ?thesis
  proof (cases "qi = di \<and> qp = dp")
    case True
    then have "allocateOne s rem = (s, rem, None)"
      using not_due by (simp add: allocateOne_def s)
    moreover have "a = 0" "b = 0" using True R a by (simp_all add: a_def b_def)
    ultimately show ?thesis using res inst rem(1) by (simp add: x y R')
  next
    case False
    then have "\<not> (io \<le> halfCent \<and> po \<le> halfCent)" "0 < ipn \<or> 0 < ppn"
      using interest principal w by (auto simp: ipn_def ppn_def split: if_splits)
    moreover define st where "st = (if nsub (cents di) (cents 1) \<le> round2 (nadd (cents qi) ipn)
        \<and> nsub (cents dp) (cents 1) \<le> round2 (nadd (cents qp) ppn) then I_PAID else I_PARTIALLY_PAID)"
    moreover have "allocateOne s rem =
        (if io \<le> halfCent \<and> po \<le> halfCent then (s, rem, None)
         else if 0 < ipn \<or> 0 < ppn then
           (s\<lparr>is_interestPaid := round2 (nadd (cents qi) ipn),
              is_principalPaid := round2 (nadd (cents qp) ppn), is_status := st\<rparr>, r2,
            Some \<lparr>au_id = is_id s, au_newInterestPaid = round2 (nadd (cents qi) ipn),
              au_newPrincipalPaid = round2 (nadd (cents qp) ppn), au_newStatus = st\<rparr>)
         else (s, r2, None))"
      by (simp only: allocateOne_def Let_def s io_def po_def ipn_def r1_def ppn_def r2_def st_def)
    ultimately have "s' = s\<lparr>is_interestPaid := round2 (nadd (cents qi) ipn),
        is_principalPaid := round2 (nadd (cents qp) ppn), is_status := st\<rparr>" "rem' = r2"
      using res by (simp_all only: if_False if_True simp_thms prod.inject)
    then show ?thesis using interest principal s by (simp add: y)
  qed
qed

lemma allocate_loop:
  assumes "list_all2 holds insts xs" "list_all wfInst xs" "0 \<le> R" "R \<le> 10 ^ 11"
    and "\<bar>rem - of_int R / 100\<bar> \<le> e" "e + 2 / 1000000 * of_nat (length insts) \<le> 299 / 100000"
  shows "list_all2 holds (fst (allocateRepayment insts rem)) (waterfall xs R)"
    and "map is_id (fst (allocateRepayment insts rem)) = map is_id insts"
  using assms
proof (induction insts arbitrary: xs rem R e)
  case Nil
  { case 1 then show ?case by simp }
  { case 2 then show ?case by simp }
next
  case (Cons s insts)
  have main: "list_all2 holds (fst (allocateRepayment (s # insts) rem)) (waterfall xs R)
      \<and> map is_id (fst (allocateRepayment (s # insts) rem)) = map is_id (s # insts)"
    if h: "list_all2 holds (s # insts) xs" "list_all wfInst xs" "0 \<le> R" "R \<le> 10 ^ 11"
      "\<bar>rem - of_int R / 100\<bar> \<le> e" "e + 2 / 1000000 * of_nat (length (s # insts)) \<le> 299 / 100000"
    for xs rem R e
  proof (cases "rem \<le> 0")
    case True
    have "0 \<le> (2 :: rat) / 1000000 * of_nat (length (s # insts))" by simp
    then have "(of_int R :: rat) / 100 < 1 / 100" using True h(5,6) unfolding abs_le_iff by linarith
    then have "(of_int R :: rat) < of_int 1" by simp
    then have "R = 0" using h(3) unfolding of_int_less_iff by simp
    then show ?thesis using True h(1,2) by (simp add: waterfall_0)
  next
    case False
    obtain x xs' where xs: "xs = x # xs'" using h(1) by (cases xs) auto
    obtain s' rem' u where one: "allocateOne s rem = (s', rem', u)" by (cases "allocateOne s rem") auto
    obtain y R' where pay: "payInst x R = (y, R')" by (cases "payInst x R") auto
    have len: "0 \<le> (2 :: rat) / 1000000 * of_nat (length insts)" by simp
    have bound: "e + 2 / 1000000 + 2 / 1000000 * of_nat (length insts) \<le> 299 / 100000"
      using h(6) by (simp add: add_divide_distrib)
    have step: "holds s' y \<and> is_id s' = is_id s \<and> \<bar>rem' - of_int R' / 100\<bar> \<le> e + 2 / 1000000"
      by (rule allocateOne_waterfall [OF _ _ h(3,4,5) _ _ one pay])
        (use h False bound len in \<open>auto simp: xs\<close>)
    have R': "0 \<le> R'" "R' \<le> 10 ^ 11" using payInst_facts [OF _ h(3) pay] h(2,4) by (auto simp: xs)
    have "list_all2 holds (fst (allocateRepayment insts rem')) (waterfall xs' R')
        \<and> map is_id (fst (allocateRepayment insts rem')) = map is_id insts"
      using Cons.IH [of xs' R' rem' "e + 2 / 1000000"] h(1,2) R' step bound by (simp add: xs)
    then show ?thesis using False step by (simp add: xs one pay case_prod_unfold)
  qed
  { case 1 then show ?case using main by blast }
  { case 2 then show ?case using main by blast }
qed

lemma allocate_waterfall:
  assumes "list_all2 holds insts xs" "list_all wfInst xs" "0 \<le> R" "R \<le> 10 ^ 11" "length insts \<le> 1000"
  shows "list_all2 holds (fst (allocateRepayment insts (cents R))) (waterfall xs R)"
    and "map is_id (fst (allocateRepayment insts (cents R))) = map is_id insts"
proof -
  have "\<bar>cents R - of_int R / 100\<bar> \<le> 2 / 10000000" by (rule cents_close) (use assms in auto)
  moreover have "(2 :: rat) / 10000000 + 2 / 1000000 * of_nat (length insts) \<le> 299 / 100000"
    using assms(5) by simp
  ultimately show "list_all2 holds (fst (allocateRepayment insts (cents R))) (waterfall xs R)"
    "map is_id (fst (allocateRepayment insts (cents R))) = map is_id insts"
    using allocate_loop [OF assms(1-4)] by blast+
qed

section \<open>The updates the caller persists\<close>

definition applyUpdate :: "allocationUpdate \<Rightarrow> installmentState \<Rightarrow> installmentState" where
  "applyUpdate u s = (if is_id s = au_id u
     then s\<lparr>is_interestPaid := au_newInterestPaid u, is_principalPaid := au_newPrincipalPaid u,
            is_status := au_newStatus u\<rparr>
     else s)"

lemma allocateOne_update:
  assumes "allocateOne s rem = (s', rem', u)"
  shows "case u of None \<Rightarrow> s' = s | Some v \<Rightarrow> au_id v = is_id s \<and> s' = applyUpdate v s"
  using assms by (auto simp: allocateOne_def Let_def applyUpdate_def split: if_splits)

lemma allocate_ids: "au_id ` set (snd (allocateRepayment insts rem)) \<subseteq> is_id ` set insts"
proof (induction insts rem rule: allocateRepayment.induct)
  case (2 s insts rem)
  then show ?case
    using allocateOne_update [of s rem]
    by (cases "allocateOne s rem"; cases "snd (snd (allocateOne s rem))")
      (auto simp: case_prod_unfold)
qed simp

lemma fold_updates_Cons:
  "is_id s \<notin> au_id ` set us \<Longrightarrow>
    fold (\<lambda>u. map (applyUpdate u)) us (s # insts) = s # fold (\<lambda>u. map (applyUpdate u)) us insts"
  by (induction us arbitrary: insts) (auto simp: applyUpdate_def)

lemma map_applyUpdate_other: "au_id u \<notin> is_id ` set insts \<Longrightarrow> map (applyUpdate u) insts = insts"
  by (induction insts) (auto simp: applyUpdate_def)

lemma applyUpdate_id [simp]: "is_id (applyUpdate u s) = is_id s"
  by (simp add: applyUpdate_def)

text \<open>Writing the updates one by one leaves the installments as the loop left them.\<close>

lemma updates_reproduce:
  assumes "distinct (map is_id insts)"
  shows "fold (\<lambda>u. map (applyUpdate u)) (snd (allocateRepayment insts rem)) insts
    = fst (allocateRepayment insts rem)"
  using assms
proof (induction insts rem rule: allocateRepayment.induct)
  case (2 s insts rem)
  show ?case
  proof (cases "rem \<le> 0")
    case False
    obtain s' rem' u where one: "allocateOne s rem = (s', rem', u)" by (cases "allocateOne s rem") auto
    obtain insts' us where rest: "allocateRepayment insts rem' = (insts', us)"
      by (cases "allocateRepayment insts rem'") auto
    have IH: "fold (\<lambda>u. map (applyUpdate u)) us insts = insts'"
      using 2 False one rest by simp
    have ids: "is_id s \<notin> au_id ` set us" "is_id s \<notin> is_id ` set insts"
      using allocate_ids [of insts rem'] rest 2(2) by auto
    show ?thesis
      using allocateOne_update [OF one] False ids IH
      by (cases u) (auto simp: one rest fold_updates_Cons map_applyUpdate_other)
  qed simp
qed simp

section \<open>Shape of the schedules\<close>

lemma reducingRows_shape:
  "length (reducingRows p r n st b i k) = k"
  "map sr_installmentNumber (reducingRows p r n st b i k) = map (\<lambda>j. i + int j) [0..<k]"
  "map sr_dueDate (reducingRows p r n st b i k) = map (\<lambda>j. plusMonths st (i + int j)) [0..<k]"
proof (induction k arbitrary: b i)
  case (Suc k)
  { case 1 then show ?case using Suc by (simp add: Let_def) }
  { case 2 then show ?case using Suc by (simp add: Let_def upt_conv_Cons map_Suc_upt [symmetric] del: upt_Suc) }
  { case 3 then show ?case using Suc by (simp add: Let_def add.assoc upt_conv_Cons map_Suc_upt [symmetric] del: upt_Suc) }
qed auto

lemma upto_map: "[1..n] = map (\<lambda>j. 1 + int j) [0..<nat n]"
proof (rule nth_equalityI)
  show "[1..n] ! k = map (\<lambda>j. 1 + int j) [0..<nat n] ! k" if "k < length [1..n]" for k
    using that by simp
qed simp

lemma generateSchedule_numbers: "map sr_installmentNumber (generateSchedule pow a r n m st) = [1..n]"
  by (simp add: generateSchedule_def Let_def reducingRows_shape upto_map o_def)

lemma generateSchedule_dates:
  "map sr_dueDate (generateSchedule pow a r n m st) = map (plusMonths st) [1..n]"
  by (simp add: generateSchedule_def Let_def reducingRows_shape upto_map o_def)

lemma dates_increasing: "sorted_wrt (<) (map (plusMonths st) [a..b])"
  by (simp add: sorted_wrt_map plusMonths_less sorted_wrt_mono_rel [OF _ sorted_wrt_upto])

section \<open>Splitting an amount over installments\<close>

definition perInstallment :: "int \<Rightarrow> int \<Rightarrow> int" where
  "perInstallment p n = mathRound (nmul (ndiv (cents p) (of_int n)) 100)"

lemma round2_ndiv: "round2 (ndiv (cents p) (of_int n)) = cents (perInstallment p n)"
  by (simp add: perInstallment_def round2_cents_form)

lemma cents_max: "cents (10 ^ 11) = 1000000000"
  using cents_whole [of 1000000000] by simp

lemma perInstallment_range:
  assumes "0 \<le> p" "p \<le> 10 ^ 11" "1 \<le> n"
  shows "0 \<le> perInstallment p n" "perInstallment p n \<le> 10 ^ 11"
proof -
  have c: "0 \<le> cents p" "cents p \<le> 1000000000"
    using cents_mono [OF assms(2)] assms(1) cents_max by simp_all
  have n: "1 \<le> (of_int n :: rat)" using assms(3) by simp
  have d: "0 \<le> ndiv (cents p) (of_int n)" using c n by (intro ndiv_nonneg) auto
  then have "0 \<le> nmul (ndiv (cents p) (of_int n)) 100" by (intro nmul_nonneg) auto
  then show "0 \<le> perInstallment p n"
    using mathRound_mono [of 0] by (simp add: perInstallment_def)
  have "cents p / of_int n \<le> 1000000000"
    using c n mult_mono [of 1 "of_int n :: rat" "1000000000" 1000000000] by (simp add: divide_le_eq)
  then have "ndiv (cents p) (of_int n) \<le> fl 1000000000" unfolding ndiv_def by (rule fl_mono)
  then have "nmul (ndiv (cents p) (of_int n)) 100 \<le> fl 100000000000"
    unfolding nmul_def by (intro fl_mono) simp
  then have "mathRound (nmul (ndiv (cents p) (of_int n)) 100) \<le> mathRound (of_int (10 ^ 11))"
    by (intro mathRound_mono) simp
  then show "perInstallment p n \<le> 10 ^ 11" unfolding perInstallment_def mathRound_of_int .
qed

lemma perInstallment_close:
  assumes "0 \<le> p" "p \<le> 10 ^ 11" "1 \<le> n"
  shows "1000 * \<bar>n * perInstallment p n - p\<bar> \<le> 501 * n"
proof -
  define r where "r = (of_int n :: rat)"
  have r: "1 \<le> r" using assms(3) by (simp add: r_def)
  have pr: "0 \<le> (of_int p :: rat) / 100" "(of_int p :: rat) / 100 \<le> 1000000000"
    using rat_int_le [OF assms(2)] assms(1) by simp_all
  have c: "\<bar>cents p - of_int p / 100\<bar> \<le> 2 / 10000000" by (rule cents_close) (use assms in auto)
  have small: "x / r \<le> x" if "0 \<le> x" for x :: rat
    using that r mult_left_mono [of 1 r x] by (simp add: divide_le_eq)
  have q: "\<bar>cents p / r - of_int p / 100 / r\<bar> \<le> 2 / 10000000"
  proof -
    have "\<bar>cents p / r - of_int p / 100 / r\<bar> = \<bar>cents p - of_int p / 100\<bar> / r"
      using r unfolding diff_divide_distrib [symmetric] abs_divide by simp
    then show ?thesis using small [of "\<bar>cents p - of_int p / 100\<bar>"] c by linarith
  qed
  have "0 \<le> of_int p / 100 / r" "of_int p / 100 / r \<le> 1000000000"
    using small [OF pr(1)] pr r by auto
  moreover from this have "\<bar>ndiv (cents p) r - cents p / r\<bar> \<le> 3 / 10000000"
    unfolding ndiv_def using q unfolding abs_le_iff by (intro fl_close [unfolded abs_le_iff]) linarith
  ultimately have d: "\<bar>ndiv (cents p) r - of_int p / 100 / r\<bar> \<le> 5 / 10000000"
      "\<bar>ndiv (cents p) r * 100\<bar> \<le> 100000000100"
    using q unfolding abs_le_iff by linarith+
  then have "\<bar>nmul (ndiv (cents p) r) 100 - ndiv (cents p) r * 100\<bar> \<le> 1 / 50000"
    using fl_error [of "ndiv (cents p) r * 100"] unfolding nmul_def by simp
  then have m: "\<bar>nmul (ndiv (cents p) r) 100 - of_int p / r\<bar> \<le> 1 / 1000"
    using d(1) unfolding abs_le_iff by simp
  have "\<bar>of_int (mathRound x) - x\<bar> \<le> 1 / 2" for x
    unfolding mathRound_def abs_le_iff by linarith
  from this [of "nmul (ndiv (cents p) r) 100"] m
  have "\<bar>of_int (perInstallment p n) - of_int p / r\<bar> \<le> 501 / 1000"
    unfolding perInstallment_def r_def [symmetric] abs_le_iff by linarith
  then have "r * \<bar>of_int (perInstallment p n) - of_int p / r\<bar> \<le> r * (501 / 1000)"
    using r by (intro mult_left_mono) auto
  moreover have "r * \<bar>of_int (perInstallment p n) - of_int p / r\<bar> = \<bar>r * of_int (perInstallment p n) - of_int p\<bar>"
    using r abs_mult [of r "of_int (perInstallment p n) - of_int p / r"] by (simp add: algebra_simps)
  ultimately have "\<bar>r * of_int (perInstallment p n) - of_int p\<bar> \<le> r * (501 / 1000)" by (simp only:)
  then have "1000 * \<bar>r * of_int (perInstallment p n) - of_int p\<bar> \<le> 501 * r" by simp
  then have "(of_int (1000 * \<bar>n * perInstallment p n - p\<bar>) :: rat) \<le> of_int (501 * n)"
    by (simp add: r_def)
  then show ?thesis by (simp only: of_int_le_iff)
qed

lemma dec14_small: "0 \<le> p \<Longrightarrow> p \<le> 10 ^ 11 \<Longrightarrow> dec14 p"
  by simp

lemma dec14_diff: "0 \<le> p \<Longrightarrow> p \<le> 10 ^ 11 \<Longrightarrow> 0 \<le> x \<Longrightarrow> dec14 x \<Longrightarrow> dec14 (p - x)"
  by (simp add: abs_if split: if_splits)

lemma soFar_exact:
  assumes "0 \<le> q" "q \<le> 10 ^ 11" "0 \<le> k" "k < 1000"
  shows "round2 (nmul (cents q) (of_int k)) = cents (q * k)" and "dec14 (q * k)"
proof -
  have qk: "0 \<le> q * k" "q * k \<le> 10 ^ 11 * 1000"
    using assms mult_mono [of q "10 ^ 11" k 1000] by simp_all
  then show d: "dec14 (q * k)" by simp
  have kr: "0 \<le> (of_int k :: rat)" "(of_int k :: rat) \<le> 1000" using assms(3,4) by simp_all
  have "\<bar>cents q - of_int q / 100\<bar> \<le> 2 / 10000000" using assms by (intro cents_close) auto
  then have "\<bar>cents q - of_int q / 100\<bar> * of_int k \<le> 2 / 10000000 * 1000"
    using kr by (intro mult_mono) auto
  then have a: "\<bar>cents q * of_int k - of_int (q * k) / 100\<bar> \<le> 2 / 10000"
    using kr abs_mult [of "cents q - of_int q / 100" "of_int k"] by (simp add: algebra_simps)
  then have "\<bar>cents q * of_int k\<bar> \<le> 1000000000001"
    using dec14_value [OF d] unfolding abs_le_iff by linarith
  then have "\<bar>nmul (cents q) (of_int k) - cents q * of_int k\<bar> \<le> 2 / 10000"
    using fl_error [of "cents q * of_int k"] unfolding nmul_def by simp
  then have "\<bar>nmul (cents q) (of_int k) - of_int (q * k) / 100\<bar> \<le> 4 / 1000"
    using a unfolding abs_le_iff by linarith
  then show "round2 (nmul (cents q) (of_int k)) = cents (q * k)" by (rule round2_near [OF _ d])
qed

section \<open>Properties\<close>

text \<open>
  Claim C1. A repayment of a whole number of pesewas is allocated exactly as the integer waterfall
  prescribes, oldest installment first and interest before principal, although the loop computes
  with binary fractions: the paid columns it leaves are those of the waterfall, nothing is overpaid,
  and together they grow by the amount paid, or by everything outstanding if that is less.
\<close>

theorem repayment_allocation_exact:
  assumes "list_all2 holds insts xs" and "list_all wfInst xs"
    and "0 \<le> R" and "R \<le> 10 ^ 11" and "length insts \<le> 1000"
  shows "list_all2 holds (fst (allocateRepayment insts (cents R))) (waterfall xs R)
    \<and> list_all wfInst (waterfall xs R)
    \<and> sum_list (map paidOf (waterfall xs R)) - sum_list (map paidOf xs)
        = min R (sum_list (map outstanding xs))"
  using allocate_waterfall(1) [OF assms] waterfall_conserves [OF assms(2,3)] by simp

text \<open>A partly paid installment and a pending one.\<close>

abbreviation sampleInstallments :: "installmentState list" where
  "sampleInstallments \<equiv>
     [\<lparr>is_id = ''i1'', is_interestDue = cents 1500, is_principalDue = cents 10000, is_interestPaid = cents 1500,
       is_principalPaid = cents 2500, is_status = I_PARTIALLY_PAID\<rparr>,
      \<lparr>is_id = ''i2'', is_interestDue = cents 1500, is_principalDue = cents 10000, is_interestPaid = cents 0,
       is_principalPaid = cents 0, is_status = I_PENDING\<rparr>]"

theorem repayment_allocation_exact_witness:
  "list_all2 holds (fst (allocateRepayment sampleInstallments (cents 8250)))
     [(1500, 10000, 1500, 10000), (1500, 10000, 750, 0)]"
  using repayment_allocation_exact [of sampleInstallments "[(1500, 10000, 1500, 2500), (1500, 10000, 0, 0)]" 8250]
  by simp

text \<open>
  A schedule has one installment for each month of the term, numbered from 1, due that
  many months after the start date, on strictly increasing dates, for every interest method.
\<close>

theorem schedule_shape:
  "map sr_installmentNumber (generateSchedule pow amount rate n m start) = [1..n]
   \<and> map sr_dueDate (generateSchedule pow amount rate n m start) = map (plusMonths start) [1..n]
   \<and> sorted_wrt (<) (map sr_dueDate (generateSchedule pow amount rate n m start))"
  by (simp only: generateSchedule_numbers generateSchedule_dates dates_increasing simp_thms)

text \<open>
  Under the flat method every installment repays the same number of pesewas, and the
  schedule as a whole misses the principal by no more than about half a pesewa per installment.
\<close>

theorem flat_schedule_drift:
  assumes "0 \<le> p" and "p \<le> 10 ^ 11" and "1 \<le> n" and "m \<noteq> ''REDUCING_BALANCE''"
  shows "\<exists>q. map sr_principalDue (generateSchedule pow (cents p) rate n m start) = replicate (nat n) (cents q)
           \<and> 1000 * \<bar>n * q - p\<bar> \<le> 501 * n"
proof (intro exI conjI)
  show "map sr_principalDue (generateSchedule pow (cents p) rate n m start)
      = replicate (nat n) (cents (perInstallment p n))"
    using assms(4) by (simp add: generateSchedule_def round2_ndiv o_def map_replicate_const)
  show "1000 * \<bar>n * perInstallment p n - p\<bar> \<le> 501 * n"
    by (rule perInstallment_close [OF assms(1-3)])
qed

theorem flat_schedule_drift_witness:
  "\<exists>q. map sr_principalDue (generateSchedule (\<lambda>x n. x) (cents 100000) 24 3 ''FLAT'' 0) = replicate 3 (cents q)
      \<and> 1000 * \<bar>3 * q - 100000\<bar> \<le> 1503"
  using flat_schedule_drift [of 100000 3 "''FLAT''" "\<lambda>x n. x" 24 0] by simp

text \<open>
  The schedule of a migrated loan adds up, principal and interest, to exactly the balances
  it was made from: the last installment takes the rounding remainder.
\<close>

theorem migrated_schedule_exact:
  assumes "0 \<le> p" and "p \<le> 10 ^ 11" and "0 \<le> q" and "q \<le> 10 ^ 11" and "1 \<le> n" and "n \<le> 1000"
  shows "\<exists>rows ps qs. generateRemainingSchedule (cents p) (cents q) n due = Inr rows
     \<and> length rows = nat n
     \<and> map sr_principalDue rows = map cents ps \<and> sum_list ps = p
     \<and> map sr_interestDue rows = map cents qs \<and> sum_list qs = q"
proof -
  define P Q where "P = perInstallment p n" and "Q = perInstallment q n"
  have P: "0 \<le> P" "P \<le> 10 ^ 11" and Q: "0 \<le> Q" "Q \<le> 10 ^ 11"
    using perInstallment_range assms by (simp_all add: P_def Q_def)
  have n: "0 \<le> n - 1" "n - 1 < 1000" using assms by auto
  note sP = soFar_exact [OF P n] and sQ = soFar_exact [OF Q n]
  define row where "row i = scheduleRow i (plusMonths due (i - 1)) (cents P) (cents Q)" for i
  have upto: "[1..n] = [1..n - 1] @ [n]" using assms(5) by (rule upto_rec2)
  have last_due: "round2 (nsub (cents p) (cents (P * (n - 1)))) = cents (p - P * (n - 1))"
    "round2 (nsub (cents q) (cents (Q * (n - 1)))) = cents (q - Q * (n - 1))"
    by (intro round2_sub dec14_diff sP(2) sQ(2) assms mult_nonneg_nonneg P Q n dec14_small)+
  define rows where "rows = map row [1..n - 1] @ [(row n)\<lparr>sr_principalDue := cents (p - P * (n - 1)),
      sr_interestDue := cents (q - Q * (n - 1))\<rparr>]"
  have "generateRemainingSchedule (cents p) (cents q) n due = Inr rows"
    using assms(5) unfolding generateRemainingSchedule_def Let_def round2_ndiv P_def [symmetric] Q_def [symmetric]
      sP(1) sQ(1) last_due
    by (simp add: upto rows_def row_def)
  moreover have "map sr_principalDue rows = map cents (replicate (nat (n - 1)) P @ [p - P * (n - 1)])"
    "map sr_interestDue rows = map cents (replicate (nat (n - 1)) Q @ [q - Q * (n - 1)])"
    by (simp_all add: rows_def row_def o_def map_replicate_const)
  moreover have "sum_list (replicate (nat (n - 1)) P @ [p - P * (n - 1)]) = p"
    "sum_list (replicate (nat (n - 1)) Q @ [q - Q * (n - 1)]) = q"
    using assms(5) by (simp_all add: sum_list_replicate)
  moreover have "length rows = nat n" using assms(5) by (simp add: rows_def)
  ultimately show ?thesis by blast
qed

theorem migrated_schedule_exact_witness:
  "\<exists>rows ps. generateRemainingSchedule (cents 100000) (cents 1000) 3 0 = Inr rows
     \<and> map sr_principalDue rows = map cents ps \<and> sum_list ps = 100000"
  using migrated_schedule_exact [of 100000 1000 3 0] by auto

end
