(* ===== verification/Loans.thy ===== *)
theory Loans
  imports Savings_Interest Loan_Schedule Portfolio_Risk Scoring
begin

text \<open>
  The life of a loan (\<open>routes/loan.routes.ts\<close>, \<open>lib/loanRepayment.ts\<close>): application under the
  business rules, approval, rejection, disbursement from a vault with its journal and schedule, and
  repayment with its allocation over the installments. Requests run one after another, so the
  answer for a serialization conflict never occurs. Amounts in messages go through \<open>toLocaleString\<close>,
  a parameter.
\<close>

section \<open>Tables\<close>

datatype loanStatus = LN_PENDING | LN_APPROVED | LN_REJECTED | LN_DISBURSED | LN_ACTIVE | LN_CLOSED | LN_DEFAULTED | LN_WRITTEN_OFF

record loan =
  ln_id :: string
  ln_institutionId :: string
  ln_customerId :: string
  ln_branchId :: "string option"
  ln_productVersionId :: "string option"
  ln_principal :: int
  ln_interestRate :: num
  ln_interestMethod :: string
  ln_termMonths :: int
  ln_status :: loanStatus
  ln_initiatedById :: "string option"
  ln_approvedById :: "string option"
  ln_disbursedAt :: "time option"
  ln_arrearsClassification :: arrearsClassification
  ln_daysInArrears :: int
  ln_arrearsAmount :: int
  ln_lastArrearsCheckAt :: "time option"
  ln_createdAt :: time

record loanInstallment =
  li_id :: string
  li_loanId :: string
  li_installmentNumber :: int
  li_dueDate :: time
  li_principalDue :: int
  li_interestDue :: int
  li_totalDue :: int
  li_principalPaid :: int
  li_interestPaid :: int
  li_status :: installmentStatus
  li_deletedAt :: "time option"

record loanRepayment =
  lr_id :: string
  lr_loanId :: string
  lr_amount :: int
  lr_paidAt :: time
  lr_recordedById :: "string option"

datatype promiseStatus = PP_PENDING | PP_KEPT | PP_BROKEN

record promiseToPay =
  pp_id :: string
  pp_institutionId :: string
  pp_loanId :: string
  pp_promisedAmount :: int
  pp_promisedDate :: time
  pp_status :: promiseStatus
  pp_notes :: "string option"
  pp_recordedById :: "string option"

datatype penaltyStatus = PE_APPLIED | PE_WAIVED | PE_REVERSED

record loanPenalty =
  pe_id :: string
  pe_institutionId :: string
  pe_loanId :: string
  pe_installmentId :: "string option"
  pe_percentage :: bool
  pe_rateOrAmount :: int
  pe_amount :: int
  pe_status :: penaltyStatus
  pe_waivedById :: "string option"
  pe_waivedAt :: "time option"
  pe_waivedReason :: "string option"

record creditAssessment =
  as_id :: string
  as_institutionId :: string
  as_loanId :: string
  as_monthlyIncome :: int
  as_monthlyExpenses :: int
  as_existingLoanObligations :: int
  as_proposedInstallment :: int
  as_debtToIncomeRatio :: int
  as_repaymentCapacityRatio :: int
  as_riskScore :: int
  as_scoreBreakdown :: "factor list"
  as_recommendation :: recommendation
  as_creditBureauChecked :: bool
  as_creditBureauNotes :: "string option"
  as_overridden :: bool
  as_overriddenById :: "string option"
  as_overriddenAt :: "time option"
  as_overrideReason :: "string option"
  as_assessedById :: string

datatype guarantorStatus = GR_PENDING | GR_APPROVED | GR_RELEASED

record guarantor =
  gr_id :: string
  gr_institutionId :: string
  gr_loanId :: string
  gr_fullName :: string
  gr_phone :: string
  gr_idType :: "string option"
  gr_idNumber :: "string option"
  gr_relationship :: string
  gr_monthlyIncome :: "int option"
  gr_guaranteeLimit :: int
  gr_status :: guarantorStatus
  gr_approvedById :: "string option"
  gr_approvedAt :: "time option"
  gr_releasedById :: "string option"
  gr_releasedAt :: "time option"
  gr_releaseReason :: "string option"

datatype collateralType = LAND | BUILDING | VEHICLE | EQUIPMENT | INVENTORY | OTHER_COLLATERAL
datatype collateralStatus = CL_PLEDGED | CL_RELEASED | CL_REALISED

record collateral =
  cl_id :: string
  cl_institutionId :: string
  cl_loanId :: string
  cl_type :: collateralType
  cl_description :: string
  cl_ownerName :: string
  cl_ownershipVerified :: bool
  cl_estimatedValue :: int
  cl_valuationDate :: time
  cl_valuedById :: "string option"
  cl_insuranceRequired :: bool
  cl_insurancePolicyNo :: "string option"
  cl_insuranceExpiryDate :: "time option"
  cl_status :: collateralStatus
  cl_releasedById :: "string option"
  cl_releasedAt :: "time option"
  cl_releaseReason :: "string option"
  cl_realisedAt :: "time option"
  cl_realisedAmount :: "int option"

record loanRestructure =
  rs_id :: string
  rs_loanId :: string
  rs_originalPrincipal :: int
  rs_originalRate :: num
  rs_originalTermMonths :: int
  rs_newPrincipal :: int
  rs_newRate :: num
  rs_newTermMonths :: int
  rs_reason :: string
  rs_requestedById :: string
  rs_appliedAt :: "time option"

record loanReschedule =
  rd_id :: string
  rd_loanId :: string
  rd_shiftDays :: int
  rd_reason :: string
  rd_requestedById :: string
  rd_appliedAt :: "time option"

record loanWriteOff =
  wo_id :: string
  wo_loanId :: string
  wo_amount :: int
  wo_reason :: string
  wo_recoveredAmount :: int
  wo_requestedById :: string
  wo_appliedAt :: "time option"

record loan_db = interest_db +
  db_loans :: "loan list"
  db_installments :: "loanInstallment list"
  db_repayments :: "loanRepayment list"
  db_loanMappings :: "glMapping list"
  db_promises :: "promiseToPay list"
  db_penalties :: "loanPenalty list"
  db_assessments :: "creditAssessment list"
  db_guarantors :: "guarantor list"
  db_collateral :: "collateral list"
  db_restructures :: "loanRestructure list"
  db_reschedules :: "loanReschedule list"
  db_writeOffs :: "loanWriteOff list"

definition ownLoan :: "env \<Rightarrow> string \<Rightarrow> 'a loan_db_scheme \<Rightarrow> loan option" where
  "ownLoan env i db = find (\<lambda>l. ln_id l = i \<and> ln_institutionId l = e_institutionId env) (db_loans db)"

definition updLoan :: "string \<Rightarrow> (loan \<Rightarrow> loan) \<Rightarrow> 'a loan_db_scheme \<Rightarrow> 'a loan_db_scheme" where
  "updLoan i f db = db\<lparr>db_loans := updWhere (\<lambda>l. ln_id l = i) f (db_loans db)\<rparr>"

definition setLoanMapping :: "env \<Rightarrow> string option \<Rightarrow> string option \<Rightarrow> 'a loan_db_scheme \<Rightarrow> glMapping resp \<times> 'a loan_db_scheme" where
  "setLoanMapping env purpose acct db =
     (case mappingGuard env purpose acct db of
        Inl e \<Rightarrow> answerError e db
      | Inr (p, a) \<Rightarrow>
          (case upsertMapping env (newId env db) p a (db_loanMappings db) of
             (m, ms) \<Rightarrow> (ROk 201 m, audit env ''loan_gl_mapping.set'' ''loan_gl_account_mapping'' (gm_id m)
               (db\<lparr>db_next := Suc (db_next db), db_loanMappings := ms\<rparr>))))"

section \<open>Applying for a loan\<close>

record loanBody =
  lb_customerId :: string
  lb_productVersionId :: string
  lb_principal :: num
  lb_termMonths :: int
  lb_branchId :: "string option"

definition showInt :: "int \<Rightarrow> string" where
  "showInt n = (if n < 0 then CHR ''-'' # showNat (nat (- n)) else showNat (nat n))"

definition loanProduct :: "env \<Rightarrow> string \<Rightarrow> 'a savings_db_scheme \<Rightarrow> terr + productVersion" where
  "loanProduct env pvId db =
     (case find (\<lambda>v. pv_id v = pvId) (db_productVersions db) of
        None \<Rightarrow> Inl (Http 404 ''Loan product not found'')
      | Some v \<Rightarrow>
     (case find (\<lambda>p. pr_id p = pv_productId v) (db_products db) of
        None \<Rightarrow> Inl Thrown
      | Some p \<Rightarrow>
          if pr_institutionId p \<noteq> e_institutionId env \<or> pr_type p \<noteq> PT_LOAN then Inl (Http 404 ''Loan product not found'')
          else if pr_status p \<noteq> PS_ACTIVE then Inl (Http 400 ''This loan product is not currently active'')
          else Inr v))"

definition notBelow :: "'n :: linorder option \<Rightarrow> 'n \<Rightarrow> bool" where
  "notBelow m x \<longleftrightarrow> (case m of None \<Rightarrow> True | Some b \<Rightarrow> b \<le> x)"

definition notAbove :: "'n :: linorder option \<Rightarrow> 'n \<Rightarrow> bool" where
  "notAbove m x \<longleftrightarrow> (case m of None \<Rightarrow> True | Some b \<Rightarrow> x \<le> b)"

text \<open>The limits of the product; the first that is broken gives the message.\<close>

definition loanLimits :: "(num \<Rightarrow> string) \<Rightarrow> productVersion \<Rightarrow> loanBody \<Rightarrow> string option" where
  "loanLimits toLocale v b =
     (if \<not> notBelow (map_option cents (pv_minLoanAmount v)) (lb_principal b)
      then Some (''Principal must be at least GHS '' @ toLocale (cents (the (pv_minLoanAmount v))) @ '' for this product'')
      else if \<not> notAbove (map_option cents (pv_maxLoanAmount v)) (lb_principal b)
      then Some (''Principal cannot exceed GHS '' @ toLocale (cents (the (pv_maxLoanAmount v))) @ '' for this product'')
      else if \<not> notBelow (pv_minTenureMonths v) (lb_termMonths b)
      then Some (''Term must be at least '' @ showInt (the (pv_minTenureMonths v)) @ '' months for this product'')
      else if \<not> notAbove (pv_maxTenureMonths v) (lb_termMonths b)
      then Some (''Term cannot exceed '' @ showInt (the (pv_maxTenureMonths v)) @ '' months for this product'')
      else None)"

definition createLoan ::
  "env \<Rightarrow> loanBody \<Rightarrow> productVersion \<Rightarrow> 'a loan_db_scheme \<Rightarrow> terr + loan \<times> 'a loan_db_scheme" where
  "createLoan env b v db =
     (let l = \<lparr>ln_id = newId env db, ln_institutionId = e_institutionId env, ln_customerId = lb_customerId b,
          ln_branchId = lb_branchId b, ln_productVersionId = Some (pv_id v), ln_principal = toDec2 (lb_principal b),
          ln_interestRate = pv_interestRate v, ln_interestMethod = pv_interestMethod v, ln_termMonths = lb_termMonths b,
          ln_status = LN_PENDING, ln_initiatedById = Some (e_userId env), ln_approvedById = None, ln_disbursedAt = None,
          ln_arrearsClassification = CURRENT, ln_daysInArrears = 0, ln_arrearsAmount = 0, ln_lastArrearsCheckAt = None,
          ln_createdAt = e_now env\<rparr>
      in if lb_branchId b \<noteq> None \<and> find (\<lambda>(i, _). Some i = lb_branchId b) (db_branches db) = None then Inl Thrown
         else Inr (l, db\<lparr>db_next := Suc (db_next db), db_loans := db_loans db @ [l]\<rparr>))"

text \<open>What the rules see of a loan; a missing customer is \<open>null\<close>.\<close>

definition ruleContext :: "loan \<Rightarrow> customer option \<Rightarrow> (string \<times> jsValue) list" where
  "ruleContext l c = [(''principal'', JNum (cents (ln_principal l))), (''termMonths'', JNum (of_int (ln_termMonths l))),
     (''interestRate'', JNum (ln_interestRate l)),
     (''customer'', case c of None \<Rightarrow> JNull | Some c \<Rightarrow> JObj (cu_columns c))]"

type_synonym ruleWarnings = "(string \<times> string \<times> actionType list) list"

definition initiateLoan ::
  "conversions \<Rightarrow> (num \<Rightarrow> string) \<Rightarrow> env \<Rightarrow> loanBody option \<Rightarrow> 'a loan_db_scheme
    \<Rightarrow> (loan \<times> ruleWarnings) resp \<times> 'a loan_db_scheme" where
  "initiateLoan cv toLocale env body db = answer 201 db (
     bindE (parseBody (\<lambda>b. 0 < lb_principal b \<and> 0 < lb_termMonths b) body) (\<lambda>b.
     bindE (orThrow (Http 404 ''Customer not found'') (ownCustomer env (lb_customerId b) db)) (\<lambda>c.
     bindE (require (cu_status c = CS_ACTIVE) 400 (''Customer must be ACTIVE to receive a loan (currently ''
       @ showCustomerStatus (cu_status c) @ '')'')) (\<lambda>_.
     bindE (loanProduct env (lb_productVersionId b) db) (\<lambda>v.
     bindE (noError (loanLimits toLocale v b)) (\<lambda>_.
     bindE (createLoan env b v db) (\<lambda>(l, db1).
     let db2 = audit env ''loan.initiate'' ''loan'' (ln_id l) db1;
         matched = matchRules cv env (e_institutionId env) LOAN_INITIATION (ruleContext l (Some c)) (db_businessRules db);
         rejected = list_ex hasReject matched;
         l' = (if rejected then l\<lparr>ln_status := LN_REJECTED\<rparr> else l);
         db3 = (if rejected then updLoan (ln_id l) (\<lambda>x. x\<lparr>ln_status := LN_REJECTED\<rparr>) db2 else db2);
         (warnings, db4) = executeMatchedRules env ''Loan'' (ln_id l) matched db3
     in Inr ((l', warnings), db4))))))))"

section \<open>Deciding\<close>

definition loanCustomer :: "loan \<Rightarrow> 'a savings_db_scheme \<Rightarrow> customer option" where
  "loanCustomer l db = find (\<lambda>c. customer.cu_id c = ln_customerId l) (db_customers db)"

definition noReject :: "string \<Rightarrow> businessRule list \<Rightarrow> terr + unit" where
  "noReject act matched = (case find hasReject matched of
       Some r \<Rightarrow> Inl (Http 400 (act @ '' blocked by business rule '' @ br_ruleCode r @ '': '' @ br_name r))
     | None \<Rightarrow> Inr ())"

lemma noReject_Inr [simp]: "noReject a ms = Inr u \<longleftrightarrow> (\<forall>m \<in> set ms. \<not> hasReject m)"
  by (auto simp: noReject_def find_None_iff dest: find_SomeD split: option.splits)

definition approveLoan ::
  "conversions \<Rightarrow> env \<Rightarrow> string \<Rightarrow> 'a loan_db_scheme \<Rightarrow> (loan \<times> ruleWarnings) resp \<times> 'a loan_db_scheme" where
  "approveLoan cv env i db = answer 200 db (
     bindE (orThrow (Http 404 ''Loan not found'') (ownLoan env i db)) (\<lambda>l.
     bindE (require (ln_initiatedById l \<noteq> Some (e_userId env)) 403
       ''Segregation of duties: cannot approve a loan you initiated'') (\<lambda>_.
     let matched = matchRules cv env (e_institutionId env) LOAN_APPROVAL (ruleContext l (loanCustomer l db)) (db_businessRules db);
         approve = (\<lambda>x. x\<lparr>ln_status := LN_APPROVED, ln_approvedById := Some (e_userId env)\<rparr>) in
     bindE (noReject ''Approval'' matched) (\<lambda>_.
     let (warnings, db1) = executeMatchedRules env ''Loan'' (ln_id l) matched
           (audit env ''loan.approve'' ''loan'' (ln_id l) (updLoan (ln_id l) approve db))
     in Inr ((approve l, warnings), db1)))))"

definition rejectLoan :: "env \<Rightarrow> string \<Rightarrow> 'a loan_db_scheme \<Rightarrow> unit resp \<times> 'a loan_db_scheme" where
  "rejectLoan env i db =
     (let P = (\<lambda>l. ln_id l = i \<and> ln_institutionId l = e_institutionId env) in
      if countWhere P (db_loans db) = 0 then fail 404 ''Loan not found'' db
      else (ROk 200 (), audit env ''loan.reject'' ''loan'' i
        (db\<lparr>db_loans := updWhere P (\<lambda>l. l\<lparr>ln_status := LN_REJECTED\<rparr>) (db_loans db)\<rparr>)))"

section \<open>Disbursement\<close>

definition loanUnconfigured :: "string \<Rightarrow> string" where
  "loanUnconfigured rest = ''Loan disbursement GL account mapping is not configured (\"Loan Receivable\" and \"Cash/Bank (Disbursement)\" both required) - configure this before ''
     @ rest @ '', real cash cannot move without a real accounting effect.''"

text \<open>The rows of a schedule; a loan has no two installments of one number.\<close>

definition installmentRow :: "env \<Rightarrow> string \<Rightarrow> scheduleRow \<Rightarrow> nat \<Rightarrow> loanInstallment" where
  "installmentRow env loanId s n =
     \<lparr>li_id = e_uuid env n, li_loanId = loanId, li_installmentNumber = sr_installmentNumber s, li_dueDate = sr_dueDate s,
      li_principalDue = toDec2 (sr_principalDue s), li_interestDue = toDec2 (sr_interestDue s),
      li_totalDue = toDec2 (round2 (nadd (sr_principalDue s) (sr_interestDue s))), li_principalPaid = 0, li_interestPaid = 0,
      li_status = I_PENDING, li_deletedAt = None\<rparr>"

fun installmentRows :: "env \<Rightarrow> string \<Rightarrow> scheduleRow list \<Rightarrow> nat \<Rightarrow> loanInstallment list" where
  "installmentRows env loanId [] n = []"
| "installmentRows env loanId (s # ss) n = installmentRow env loanId s n # installmentRows env loanId ss (Suc n)"

definition createInstallments ::
  "env \<Rightarrow> string \<Rightarrow> scheduleRow list \<Rightarrow> 'a loan_db_scheme \<Rightarrow> terr + 'a loan_db_scheme" where
  "createInstallments env loanId ss db =
     (let taken = (\<lambda>k. list_ex (\<lambda>r. li_loanId r = loanId \<and> li_installmentNumber r = k) (db_installments db)) in
      if list_ex (\<lambda>s. taken (sr_installmentNumber s)) ss \<or> \<not> distinct (map sr_installmentNumber ss) then Inl Thrown
      else Inr (db\<lparr>db_next := db_next db + length ss,
        db_installments := db_installments db @ installmentRows env loanId ss (db_next db)\<rparr>))"

definition disburseTx ::
  "env \<Rightarrow> string \<Rightarrow> loan \<Rightarrow> (glCategory \<times> entry) list \<Rightarrow> scheduleRow list \<Rightarrow> 'a loan_db_scheme
    \<Rightarrow> terr + loan \<times> 'a loan_db_scheme" where
  "disburseTx env vaultId l cls ss db =
     (let principal = cents (ln_principal l) in
      bindE (orThrow (Http 400 ''Vault has insufficient balance for this disbursement'')
        (guardedDecrement va_id va_balance updVaultBalance vaultId principal (db_vaults db))) (\<lambda>vs.
      let db1 = db\<lparr>db_vaults := vs\<rparr> in
      bindE (orThrow Thrown (find (\<lambda>v. va_id v = vaultId) vs)) (\<lambda>v.
      let r = recordCash env (e_institutionId env) VAULT vaultId TRANSFER_OUT principal (va_balance v)
            (Some (''Loan disbursement - '' @ ln_id l)) (e_userId env) db1 in
      bindE (postJournal env (e_institutionId env) AUTOMATIC (''Loan disbursement - loan '' @ ln_id l) (e_now env)
        (e_userId env) (e_userId env) cls (snd r)) (\<lambda>q.
      let disburse = (\<lambda>x. x\<lparr>ln_status := LN_DISBURSED, ln_disbursedAt := Some (e_now env)\<rparr>) in
      bindE (createInstallments env (ln_id l) ss (updLoan (ln_id l) disburse (snd q))) (\<lambda>db4.
      Inr (disburse l, db4))))))"

definition pendingRuleApproval :: "string \<Rightarrow> 'a core_db_scheme \<Rightarrow> approvalRow option" where
  "pendingRuleApproval i db = find (\<lambda>a. ap_targetType a = ''Loan'' \<and> ap_targetId a = i
     \<and> ap_type a = BUSINESS_RULE_TRIGGERED \<and> ap_status a = AP_PENDING) (db_approvals db)"

definition noPendingRule :: "approvalRow option \<Rightarrow> terr + unit" where
  "noPendingRule p = (case p of None \<Rightarrow> Inr ()
     | Some a \<Rightarrow> Inl (Http 400 (''Disbursement blocked: \"'' @ ap_reason a @ ''\" is still pending approval'')))"

lemma noPendingRule_Inr [simp]: "noPendingRule p = Inr u \<longleftrightarrow> p = None"
  by (simp add: noPendingRule_def split: option.split)

definition disburseLoan ::
  "(num \<Rightarrow> num \<Rightarrow> num) \<Rightarrow> conversions \<Rightarrow> env \<Rightarrow> string \<Rightarrow> string option \<Rightarrow> 'a loan_db_scheme
    \<Rightarrow> (loan \<times> ruleWarnings) resp \<times> 'a loan_db_scheme" where
  "disburseLoan pow cv env i vaultId db = answer 200 db (
     bindE (require (truthy vaultId) 400
       ''vaultId is required - disbursement must draw from a real, identified cash source'') (\<lambda>_.
     bindE (orThrow (Http 404 ''Loan not found'') (ownLoan env i db)) (\<lambda>l.
     bindE (require (ln_status l = LN_APPROVED) 400 ''Loan must be APPROVED before disbursement'') (\<lambda>_.
     bindE (orThrow (Http 404 ''Vault not found'') (ownVault env (the vaultId) db)) (\<lambda>v.
     bindE (require (va_status v = V_OPEN) 400 ''Vault must be open to disburse cash from it'') (\<lambda>_.
     bindE (noPendingRule (pendingRuleApproval (ln_id l) db)) (\<lambda>_.
     let matched = matchRules cv env (e_institutionId env) LOAN_DISBURSEMENT (ruleContext l (loanCustomer l db)) (db_businessRules db) in
     bindE (noReject ''Disbursement'' matched) (\<lambda>_.
     bindE (postingAccounts env (db_loanMappings db) ''Loan Receivable'' ''Cash/Bank (Disbursement)''
       (loanUnconfigured ''disbursing'') db) (\<lambda>(receivable, cash).
     let cls = transferLines receivable cash (cents (ln_principal l));
         ss = generateSchedule pow (cents (ln_principal l)) (ln_interestRate l) (ln_termMonths l) (ln_interestMethod l) (e_now env) in
     bindE (require (isBalanced (map snd cls)) 400 ''Disbursement journal would not balance - check the loan principal'') (\<lambda>_.
     bindE (disburseTx env (the vaultId) l cls ss db) (\<lambda>(l', db1).
     let (warnings, db2) = executeMatchedRules env ''Loan'' (ln_id l) matched (audit env ''loan.disburse'' ''loan'' (ln_id l) db1)
     in Inr ((l', warnings), db2))))))))))))"

section \<open>Repayment\<close>

definition stateOf :: "loanInstallment \<Rightarrow> installmentState" where
  "stateOf r = \<lparr>is_id = li_id r, is_interestDue = cents (li_interestDue r), is_principalDue = cents (li_principalDue r),
     is_interestPaid = cents (li_interestPaid r), is_principalPaid = cents (li_principalPaid r), is_status = li_status r\<rparr>"

definition loanInstallments :: "string \<Rightarrow> loanInstallment list \<Rightarrow> loanInstallment list" where
  "loanInstallments i rs = sort_key li_installmentNumber (filter (\<lambda>r. li_loanId r = i) rs)"

definition payRow :: "allocationUpdate \<Rightarrow> loanInstallment \<Rightarrow> loanInstallment" where
  "payRow u r = r\<lparr>li_interestPaid := toDec2 (au_newInterestPaid u), li_principalPaid := toDec2 (au_newPrincipalPaid u),
     li_status := au_newStatus u\<rparr>"

definition persistUpdates :: "allocationUpdate list \<Rightarrow> loanInstallment list \<Rightarrow> loanInstallment list" where
  "persistUpdates us rs = foldl (\<lambda>t u. updWhere (\<lambda>r. li_id r = au_id u) (payRow u) t) rs us"

definition fullyRepaid :: "string \<Rightarrow> loanInstallment list \<Rightarrow> bool" where
  "fullyRepaid i rs \<longleftrightarrow> filter (\<lambda>r. li_loanId r = i) rs \<noteq> [] \<and> list_all (\<lambda>r. li_loanId r = i \<longrightarrow> li_status r = I_PAID) rs"

definition applyLoanRepaymentInTx ::
  "env \<Rightarrow> string \<Rightarrow> num \<Rightarrow> string \<Rightarrow> 'a loan_db_scheme \<Rightarrow> terr + (loanRepayment \<times> bool) \<times> 'a loan_db_scheme" where
  "applyLoanRepaymentInTx env loanId amount by db =
     bindE (orThrow Thrown (find (\<lambda>l. ln_id l = loanId) (db_loans db))) (\<lambda>l.
     let r = \<lparr>lr_id = newId env db, lr_loanId = ln_id l, lr_amount = toDec2 amount, lr_paidAt = e_now env,
           lr_recordedById = Some by\<rparr>;
         us = snd (allocateRepayment (map stateOf (loanInstallments loanId (db_installments db))) amount);
         rows = persistUpdates us (db_installments db);
         loanClosed = fullyRepaid (ln_id l) rows;
         db1 = db\<lparr>db_next := Suc (db_next db), db_repayments := db_repayments db @ [r], db_installments := rows\<rparr>;
         db2 = (if loanClosed then updLoan (ln_id l) (\<lambda>x. x\<lparr>ln_status := LN_CLOSED\<rparr>) db1
                else if ln_status l = LN_DISBURSED then updLoan (ln_id l) (\<lambda>x. x\<lparr>ln_status := LN_ACTIVE\<rparr>) db1 else db1)
     in Inr ((r, loanClosed), db2))"

definition repayLoan ::
  "env \<Rightarrow> string \<Rightarrow> num option \<Rightarrow> 'a loan_db_scheme \<Rightarrow> (loanRepayment \<times> bool) resp \<times> 'a loan_db_scheme" where
  "repayLoan env i body db = answer 201 db (
     bindE (parseBody (\<lambda>x. 0 < x) body) (\<lambda>amount.
     bindE (orThrow (Http 404 ''Loan not found'') (ownLoan env i db)) (\<lambda>l.
     bindE (postingAccounts env (db_loanMappings db) ''Loan Receivable'' ''Cash/Bank (Disbursement)''
       (loanUnconfigured ''recording repayments'') db) (\<lambda>(receivable, cash).
     let cls = transferLines cash receivable amount in
     bindE (require (isBalanced (map snd cls)) 400 ''Repayment journal would not balance - check the repayment amount'') (\<lambda>_.
     bindE (applyLoanRepaymentInTx env (ln_id l) amount (e_userId env) db) (\<lambda>(x, db1).
     bindE (postJournal env (e_institutionId env) AUTOMATIC (''Loan repayment - loan '' @ ln_id l) (e_now env)
        (e_userId env) (e_userId env) cls db1) (\<lambda>(j, db2).
     Inr (x, audit env ''loan.repayment_recorded'' ''loan'' (ln_id l) db2))))))))"

end
