(* ===== verification/Loan_Safety.thy ===== *)
theory Loan_Safety
  imports Loans
begin

text \<open>
  What the life of a loan guarantees: a disbursement takes the principal out of an open vault and
  leaves the schedule; a repayment refines the integer waterfall; no loan is paid out unless someone
  other than its initiator approved it, and no loan is paid out twice.
\<close>

section \<open>Disbursement\<close>

definition vaults_ok :: "'a cash_db_scheme \<Rightarrow> bool" where
  "vaults_ok db \<longleftrightarrow> uniqueBy va_id (db_vaults db) \<and> (\<forall>v \<in> set (db_vaults db). 0 \<le> va_balance v)"

lemma more_loan: "core_db.more (db :: 'a loan_db_scheme) = core_db.more db' \<Longrightarrow>
    db_loans db = db_loans db' \<and> db_installments db = db_installments db' \<and> db_repayments db = db_repayments db'
    \<and> db_vaults db = db_vaults db' \<and> db_glAccounts db = db_glAccounts db' \<and> db_journals db = db_journals db'"
  by (cases db; cases db') simp

lemma audit_loan [simp]:
  "db_loans (audit env a r i db) = db_loans db" "db_installments (audit env a r i db) = db_installments db"
  "db_repayments (audit env a r i db) = db_repayments db"
  by (simp_all add: audit_def)

lemma rules_loan:
  "db_loans (snd (executeMatchedRules env tt ti ms db)) = db_loans db"
  "db_installments (snd (executeMatchedRules env tt ti ms db)) = db_installments db"
  "db_vaults (snd (executeMatchedRules env tt ti ms db)) = db_vaults db"
  "books_ok (snd (executeMatchedRules env tt ti ms db)) = books_ok db"
proof -
  note M = more_loan [OF executeMatchedRules_more [of env tt ti ms db]]
  then show "db_loans (snd (executeMatchedRules env tt ti ms db)) = db_loans db"
    "db_installments (snd (executeMatchedRules env tt ti ms db)) = db_installments db"
    "db_vaults (snd (executeMatchedRules env tt ti ms db)) = db_vaults db" by simp_all
  show "books_ok (snd (executeMatchedRules env tt ti ms db)) = books_ok db" using M by (intro books_cong) simp_all
qed

lemma installmentRows_map:
  "map li_installmentNumber (installmentRows env i ss n) = map sr_installmentNumber ss"
  "\<forall>r \<in> set (installmentRows env i ss n). li_loanId r = i"
  "map li_status (installmentRows env i ss n) = map (\<lambda>_. I_PENDING) ss"
  by (induction ss arbitrary: n) (simp_all add: installmentRow_def)

lemma createInstallments_Inr:
  "createInstallments env i ss db = Inr db' \<longleftrightarrow>
     (\<forall>s \<in> set ss. \<forall>r \<in> set (db_installments db). li_loanId r = i \<longrightarrow> li_installmentNumber r \<noteq> sr_installmentNumber s)
     \<and> distinct (map sr_installmentNumber ss)
     \<and> db' = db\<lparr>db_next := db_next db + length ss,
        db_installments := db_installments db @ installmentRows env i ss (db_next db)\<rparr>"
  by (auto simp: createInstallments_def Let_def list_ex_iff)

lemma updLoan_frame [frame]:
  "db_vaults (updLoan i f db) = db_vaults db" "db_installments (updLoan i f db) = db_installments db"
  "db_journals (updLoan i f db) = db_journals db" "db_glAccounts (updLoan i f db) = db_glAccounts db"
  "db_loans (updLoan i f db) = updWhere (\<lambda>l. ln_id l = i) f (db_loans db)"
  by (simp_all add: updLoan_def)

lemma disburseTx_effect:
  assumes tx: "disburseTx env vid l cls ss db = Inr (l', db')"
    and books: "books_ok db" and vok: "vaults_ok db" and n: "\<bar>ln_principal l\<bar> \<le> 10 ^ 13"
    and good: "goodLines db cls" and bal: "balancedLines (map (lineRow \<circ> snd) cls)"
  shows "books_ok db'" and "vaults_ok db'"
    and "sum_list (map va_balance (db_vaults db')) = sum_list (map va_balance (db_vaults db)) - ln_principal l"
    and "l' = l\<lparr>ln_status := LN_DISBURSED, ln_disbursedAt := Some (e_now env)\<rparr>"
    and "db_loans db' = updWhere (\<lambda>x. ln_id x = ln_id l) (\<lambda>x. x\<lparr>ln_status := LN_DISBURSED, ln_disbursedAt := Some (e_now env)\<rparr>) (db_loans db)"
    and "\<exists>n. db_installments db' = db_installments db @ installmentRows env (ln_id l) ss n"
    and "\<forall>s \<in> set ss. \<forall>r \<in> set (db_installments db). li_loanId r = ln_id l \<longrightarrow> li_installmentNumber r \<noteq> sr_installmentNumber s"
proof -
  let ?f = "\<lambda>x :: loan. x\<lparr>ln_status := LN_DISBURSED, ln_disbursedAt := Some (e_now env)\<rparr>"
  obtain vs v q where dec: "guardedDecrement va_id va_balance updVaultBalance vid (cents (ln_principal l)) (db_vaults db) = Some vs"
    and v: "find (\<lambda>v. va_id v = vid) vs = Some v"
    and post: "postJournal env (e_institutionId env) AUTOMATIC (''Loan disbursement - loan '' @ ln_id l) (e_now env)
        (e_userId env) (e_userId env) cls (snd (recordCash env (e_institutionId env) VAULT vid TRANSFER_OUT (cents (ln_principal l)) (va_balance v)
            (Some (''Loan disbursement - '' @ ln_id l)) (e_userId env) (db\<lparr>db_vaults := vs\<rparr>))) = Inr q"
    and ins: "createInstallments env (ln_id l) ss (updLoan (ln_id l) ?f (snd q)) = Inr db'" and l': "l' = ?f l"
    using tx unfolding disburseTx_def bindE_Inr_iff orThrow_Inr_iff Let_def by (metis (no_types, lifting) Inr_inject prod.inject)
  define j db3 where "j = fst q" and "db3 = snd q"
  define db2 where "db2 = snd (recordCash env (e_institutionId env) VAULT vid TRANSFER_OUT (cents (ln_principal l)) (va_balance v)
            (Some (''Loan disbursement - '' @ ln_id l)) (e_userId env) (db\<lparr>db_vaults := vs\<rparr>))"
  have db2: "db_glAccounts db2 = db_glAccounts db" "db_journals db2 = db_journals db" "db_vaults db2 = vs"
    "db_loans db2 = db_loans db" "db_installments db2 = db_installments db"
    by (simp_all add: db2_def recordCash_frame) (simp_all add: recordCash_def Let_def)
  have books2: "books_ok db2" and good2: "goodLines db2 cls"
    using books_cong [OF db2(1,2)] goodLines_cong [OF db2(1)] books good by simp_all
  have post2: "postJournal env (e_institutionId env) AUTOMATIC (''Loan disbursement - loan '' @ ln_id l) (e_now env)
        (e_userId env) (e_userId env) cls db2 = Inr (j, db3)"
    using post by (simp add: db2_def j_def db3_def)
  have u: "uniqueBy ga_id (db_glAccounts db2)" using books2 by (simp add: books_ok_def)
  from postJournal_result [OF u good2 post2]
  have db3: "db_vaults db3 = vs" "db_loans db3 = db_loans db" "db_installments db3 = db_installments db"
    using db2 by simp_all
  note I = ins [folded db3_def, unfolded createInstallments_Inr updLoan_frame db3(3)]
  have "books_ok db3" by (rule postJournal_books [OF books2 good2 bal post2])
  moreover have "db_glAccounts db' = db_glAccounts db3" "db_journals db' = db_journals db3"
    using I by (simp_all add: updLoan_frame)
  ultimately show "books_ok db'" using books_cong by blast
  have vs': "db_vaults db' = vs" using I db3(1) by (simp add: updLoan_frame)
  have n14: "\<bar>ln_principal l\<bar> \<le> 10 ^ 14" using n by simp
  have uv: "uniqueBy va_id (db_vaults db)" and nn: "\<And>v. v \<in> set (db_vaults db) \<Longrightarrow> 0 \<le> va_balance v"
    using vok by (simp_all add: vaults_ok_def)
  have k: "map va_id vs = map va_id (db_vaults db)" and s: "sum_list (map va_balance vs) = sum_list (map va_balance (db_vaults db)) - ln_principal l"
    by (rule vaults.decrement_row [OF dec n14 uv], simp)+
  show "vaults_ok db'"
    using k uv vaults.decrement_nonneg [OF dec n14 nn] by (simp add: vaults_ok_def uniqueBy_def vs')
  show "sum_list (map va_balance (db_vaults db')) = sum_list (map va_balance (db_vaults db)) - ln_principal l"
    by (simp add: vs' s)
  show "l' = ?f l" by (rule l')
  show "db_loans db' = updWhere (\<lambda>x. ln_id x = ln_id l) ?f (db_loans db)"
    using I db3(2) by (simp add: updLoan_frame)
  show "\<exists>n. db_installments db' = db_installments db @ installmentRows env (ln_id l) ss n"
    using I db3(3) by (auto simp: updLoan_frame)
  show "\<forall>s \<in> set ss. \<forall>r \<in> set (db_installments db). li_loanId r = ln_id l \<longrightarrow> li_installmentNumber r \<noteq> sr_installmentNumber s"
    using I by blast
qed

lemma disburseLoan_cases:
  assumes "disburseLoan pow cv env i vaultId db = (r, db')"
  obtains (refused) "\<not> okResp r" and "db' = db"
  | (disbursed) l v receivable cash l' warnings db1 where "r = ROk 200 (l', warnings)"
      and "ownLoan env i db = Some l" and "ln_status l = LN_APPROVED"
      and "ownVault env (the vaultId) db = Some v" and "va_status v = V_OPEN"
      and "pendingRuleApproval (ln_id l) db = None"
      and "\<forall>m \<in> set (matchRules cv env (e_institutionId env) LOAN_DISBURSEMENT (ruleContext l (loanCustomer l db)) (db_businessRules db)). \<not> hasReject m"
      and "postingAccounts env (db_loanMappings db) ''Loan Receivable'' ''Cash/Bank (Disbursement)''
          (loanUnconfigured ''disbursing'') db = Inr (receivable, cash)"
      and "disburseTx env (the vaultId) l (transferLines receivable cash (cents (ln_principal l)))
          (generateSchedule pow (cents (ln_principal l)) (ln_interestRate l) (ln_termMonths l) (ln_interestMethod l) (e_now env)) db
          = Inr (l', db1)"
      and "\<exists>ms. db' = snd (executeMatchedRules env ''Loan'' (ln_id l) ms (audit env ''loan.disburse'' ''loan'' (ln_id l) db1))"
  using assms unfolding disburseLoan_def
proof (cases rule: answer_cases)
  case (finished x)
  define ms where "ms l = matchRules cv env (e_institutionId env) LOAN_DISBURSEMENT (ruleContext l (loanCustomer l db)) (db_businessRules db)" for l
  obtain l v p q where D: "ownLoan env i db = Some l" "ln_status l = LN_APPROVED" "ownVault env (the vaultId) db = Some v"
      "va_status v = V_OPEN" "pendingRuleApproval (ln_id l) db = None" "\<forall>m \<in> set (ms l). \<not> hasReject m"
      "postingAccounts env (db_loanMappings db) ''Loan Receivable'' ''Cash/Bank (Disbursement)''
          (loanUnconfigured ''disbursing'') db = Inr p"
      "disburseTx env (the vaultId) l (transferLines (fst p) (snd p) (cents (ln_principal l)))
          (generateSchedule pow (cents (ln_principal l)) (ln_interestRate l) (ln_termMonths l) (ln_interestMethod l) (e_now env)) db
          = Inr q"
      "db' = snd (executeMatchedRules env ''Loan'' (ln_id l) (ms l) (audit env ''loan.disburse'' ''loan'' (ln_id l) (snd q)))"
      "fst x = fst q"
    using finished(1) unfolding bindE_Inr_iff Let_def split_beta ms_def [symmetric]
    by (elim exE conjE) (simp only: orThrow_Inr_iff require_Inr noPendingRule_Inr noReject_Inr Inr_inject prod.inject prod.collapse, force)
  show ?thesis
    by (rule disbursed [of "fst q" "snd x" l v "fst p" "snd p" "snd q"])
      (use D finished(2) in \<open>auto simp: ms_def prod_eq_iff\<close>)
qed (rule refused)


end
