(* ===== verification/Loan_Repayment.thy ===== *)
theory Loan_Repayment
  imports Loan_Safety
begin

text \<open>
  A repayment refines the integer waterfall: read in pesewas, the installments that the rows of the
  database hold after \<open>repayLoan\<close> are those of the specification, although the code reads decimals,
  computes with binary fractions and writes the rows back one at a time.
\<close>

section \<open>The abstraction\<close>

definition instCents :: "loanInstallment \<Rightarrow> int \<times> int \<times> int \<times> int" where
  "instCents r = (li_interestDue r, li_principalDue r, li_interestPaid r, li_principalPaid r)"

definition installments_ok :: "'a loan_db_scheme \<Rightarrow> bool" where
  "installments_ok db \<longleftrightarrow> uniqueBy li_id (db_installments db)
     \<and> (\<forall>r \<in> set (db_installments db). wfInst (instCents r)
          \<and> (li_status r = I_PAID \<longrightarrow> li_interestDue r - li_interestPaid r \<le> 1 \<and> li_principalDue r - li_principalPaid r \<le> 1))"

lemma holds_stateOf: "holds (stateOf r) (instCents r)"
  by (simp add: stateOf_def instCents_def)

lemma stateOf_id [simp]: "is_id (stateOf r) = li_id r"
  by (simp add: stateOf_def)

text \<open>The columns are determined by the numbers read from them.\<close>

lemma cents_determined:
  assumes "cents c = cents d" and "0 \<le> d" and "d \<le> 10 ^ 11"
  shows "c = d"
proof (cases "dec14 c")
  case True
  then show ?thesis using assms by (simp add: cents_eq_iff)
next
  case False
  then consider "10 ^ 14 \<le> c" | "c \<le> - (10 ^ 14)" by linarith
  then show ?thesis
  proof cases
    case 1
    then have "cents (10 ^ 14) \<le> cents d" using cents_mono [of "10 ^ 14" c] assms(1) by simp
    moreover have "cents d < cents (10 ^ 14)" using assms(2,3) by (intro cents_less) simp_all
    ultimately show ?thesis by simp
  next
    case 2
    then have "cents d \<le> cents (- (10 ^ 14))" using cents_mono [of c "- (10 ^ 14)"] assms(1) by simp
    moreover have "cents (- (10 ^ 14)) < cents d" using assms(2,3) by (intro cents_less) simp_all
    ultimately show ?thesis by simp
  qed
qed

lemma instCents_stateOf:
  assumes "holds (stateOf r) x" and "wfInst x"
  shows "instCents r = x"
proof -
  obtain di dp qi qp where x: "x = (di, dp, qi, qp)" by (cases x)
  have "li_interestDue r = di" "li_principalDue r = dp" "li_interestPaid r = qi" "li_principalPaid r = qp"
    by (rule cents_determined; use assms x in \<open>simp add: stateOf_def\<close>)+
  then show ?thesis by (simp add: x instCents_def)
qed

section \<open>Writing the updates back\<close>

lemma allocate_values:
  assumes "u \<in> set (snd (allocateRepayment insts rem))"
  shows "\<exists>s \<in> set (fst (allocateRepayment insts rem)). is_id s = au_id u
    \<and> is_interestPaid s = au_newInterestPaid u \<and> is_principalPaid s = au_newPrincipalPaid u"
  using assms
proof (induction insts rem rule: allocateRepayment.induct)
  case (2 s insts rem)
  show ?case
  proof (cases "rem \<le> 0")
    case False
    obtain s' rem' v where one: "allocateOne s rem = (s', rem', v)" by (cases "allocateOne s rem") auto
    obtain insts' us where rest: "allocateRepayment insts rem' = (insts', us)" by (cases "allocateRepayment insts rem'") auto
    have run: "allocateRepayment (s # insts) rem = (s' # insts', case v of None \<Rightarrow> us | Some x \<Rightarrow> x # us)"
      using False by (simp add: one rest)
    show ?thesis
    proof (cases "u \<in> set us")
      case True
      then show ?thesis using "2.IH" [OF False one [symmetric] refl] unfolding run rest fst_conv snd_conv by auto
    next
      case False
      then have v: "v = Some u" using "2.prems" unfolding run snd_conv by (auto split: option.splits)
      then show ?thesis using allocateOne_update [OF one] unfolding run fst_conv by (simp add: applyUpdate_def)
    qed
  qed (use 2 in simp)
qed simp

lemma persistUpdates_simps:
  "persistUpdates [] rs = rs"
  "persistUpdates (u # us) rs = persistUpdates us (updWhere (\<lambda>r. li_id r = au_id u) (payRow u) rs)"
  by (simp_all add: persistUpdates_def)

lemma payRow_sel [simp]:
  "li_id (payRow u r) = li_id r" "li_loanId (payRow u r) = li_loanId r"
  "li_installmentNumber (payRow u r) = li_installmentNumber r"
  by (simp_all add: payRow_def)

lemma persist_keys:
  "map li_id (persistUpdates us rs) = map li_id rs"
  "map li_loanId (persistUpdates us rs) = map li_loanId rs"
proof (induction us arbitrary: rs)
  case (Cons u us)
  { case 1 then show ?case using Cons(1) by (simp add: persistUpdates_simps map_updWhere) }
  { case 2 then show ?case using Cons(2) by (simp add: persistUpdates_simps map_updWhere) }
qed (simp_all add: persistUpdates_simps)

lemma sort_key_map: "(\<And>x. k (f x) = k x) \<Longrightarrow> sort_key k (map f xs) = map f (sort_key k xs)"
proof (induction xs)
  case (Cons x xs)
  have "insort_key k (f a) (map f ys) = map f (insort_key k a ys)" for a ys
    by (induction ys) (simp_all add: Cons.prems)
  then show ?case using Cons by simp
qed simp

lemma filter_updWhere: "(\<And>r. Q (f r) = Q r) \<Longrightarrow> filter Q (updWhere P f t) = updWhere P f (filter Q t)"
  by (induction t) auto

lemma loanInstallments_updWhere:
  "loanInstallments i (updWhere P (payRow u) rs) = updWhere P (payRow u) (loanInstallments i rs)"
proof -
  have "filter (\<lambda>r. li_loanId r = i) (updWhere P (payRow u) rs) = updWhere P (payRow u) (filter (\<lambda>r. li_loanId r = i) rs)"
    by (rule filter_updWhere) simp
  then show ?thesis by (simp add: loanInstallments_def updWhere_def sort_key_map)
qed

lemma loanInstallments_persist:
  "loanInstallments i (persistUpdates us rs) = persistUpdates us (loanInstallments i rs)"
  by (induction us arbitrary: rs) (simp_all add: persistUpdates_simps loanInstallments_updWhere)

definition exactUpdate :: "allocationUpdate \<Rightarrow> bool" where
  "exactUpdate u \<longleftrightarrow> cents (toDec2 (au_newInterestPaid u)) = au_newInterestPaid u
     \<and> cents (toDec2 (au_newPrincipalPaid u)) = au_newPrincipalPaid u"

lemma stateOf_persist:
  assumes "\<forall>u \<in> set us. exactUpdate u"
  shows "map stateOf (persistUpdates us rs) = fold (\<lambda>u. map (applyUpdate u)) us (map stateOf rs)"
  using assms
proof (induction us arbitrary: rs)
  case (Cons u us)
  have "stateOf (if li_id r = au_id u then payRow u r else r) = applyUpdate u (stateOf r)" for r
    using Cons.prems by (auto simp: stateOf_def payRow_def applyUpdate_def exactUpdate_def)
  then have "map stateOf (updWhere (\<lambda>r. li_id r = au_id u) (payRow u) rs) = map (applyUpdate u) (map stateOf rs)"
    by (simp add: updWhere_def)
  then show ?case using Cons by (simp add: persistUpdates_simps)
qed (simp add: persistUpdates_simps)

lemma persist_others:
  assumes "\<forall>u \<in> set us. \<forall>r \<in> set rs. li_id r = au_id u \<longrightarrow> li_loanId r = i"
  shows "filter (\<lambda>r. li_loanId r \<noteq> i) (persistUpdates us rs) = filter (\<lambda>r. li_loanId r \<noteq> i) rs"
  using assms
proof (induction us arbitrary: rs)
  case (Cons u us)
  have "filter (\<lambda>r. li_loanId r \<noteq> i) (updWhere (\<lambda>r. li_id r = au_id u) (payRow u) rs)
      = updWhere (\<lambda>r. li_id r = au_id u) (payRow u) (filter (\<lambda>r. li_loanId r \<noteq> i) rs)"
    by (rule filter_updWhere) simp
  also have "\<dots> = filter (\<lambda>r. li_loanId r \<noteq> i) rs" using Cons.prems by (intro updWhere_none) auto
  finally have "filter (\<lambda>r. li_loanId r \<noteq> i) (updWhere (\<lambda>r. li_id r = au_id u) (payRow u) rs) = filter (\<lambda>r. li_loanId r \<noteq> i) rs" .
  moreover have "\<forall>v \<in> set us. \<forall>r \<in> set (updWhere (\<lambda>r. li_id r = au_id u) (payRow u) rs). li_id r = au_id v \<longrightarrow> li_loanId r = i"
  proof (intro ballI impI)
    fix v r assume v: "v \<in> set us" and r: "r \<in> set (updWhere (\<lambda>r. li_id r = au_id u) (payRow u) rs)" "li_id r = au_id v"
    from r(1) obtain q where "q \<in> set rs" "li_id q = li_id r" "li_loanId q = li_loanId r"
      by (rule in_updWhereE) simp_all
    then show "li_loanId r = i" using Cons.prems v r(2) by simp
  qed
  ultimately show ?case using Cons.IH by (simp add: persistUpdates_simps)
qed (simp add: persistUpdates_simps)

section \<open>When an installment counts as paid\<close>

text \<open>
  The code marks an installment paid when each part reaches its due amount less \<open>0.01\<close>, computed in
  binary: it may lack one pesewa, never two.
\<close>

definition nearlyPaid :: "installmentState \<Rightarrow> bool" where
  "nearlyPaid s \<longleftrightarrow> is_interestDue s - is_interestPaid s \<le> 15 / 1000 \<and> is_principalDue s - is_principalPaid s \<le> 15 / 1000"

lemma nsub_cent:
  assumes "nsub d (cents 1) \<le> p" and "0 \<le> d" and "d \<le> 1000000001"
  shows "d - p \<le> 15 / 1000"
proof -
  have c: "\<bar>cents 1 - 1 / 100\<bar> \<le> 2 / 10000000" using cents_close [of 1] by simp
  then have "\<bar>d - cents 1\<bar> \<le> 2000000000" using assms(2,3) unfolding abs_le_iff by linarith
  then have "\<bar>nsub d (cents 1) - (d - cents 1)\<bar> \<le> 3 / 10000000" unfolding nsub_def by (rule fl_close)
  then show ?thesis using c assms(1) unfolding abs_le_iff by linarith
qed

lemma allocateOne_paid:
  assumes "allocateOne s rem = (s', rem', u)" and "is_status s = I_PAID \<Longrightarrow> nearlyPaid s"
    and "0 \<le> is_interestDue s" "is_interestDue s \<le> 1000000001" "0 \<le> is_principalDue s" "is_principalDue s \<le> 1000000001"
    and "is_status s' = I_PAID"
  shows "nearlyPaid s'"
  using assms nsub_cent [of "is_interestDue s"] nsub_cent [of "is_principalDue s"]
  by (auto simp: allocateOne_def Let_def nearlyPaid_def split: if_splits)

lemma allocate_paid:
  assumes "\<forall>s \<in> set insts. is_status s = I_PAID \<longrightarrow> nearlyPaid s"
    and "\<forall>s \<in> set insts. 0 \<le> is_interestDue s \<and> is_interestDue s \<le> 1000000001 \<and> 0 \<le> is_principalDue s \<and> is_principalDue s \<le> 1000000001"
  shows "\<forall>s \<in> set (fst (allocateRepayment insts rem)). is_status s = I_PAID \<longrightarrow> nearlyPaid s"
  using assms
proof (induction insts rem rule: allocateRepayment.induct)
  case (2 s insts rem)
  show ?case
  proof (cases "rem \<le> 0")
    case False
    obtain s' rem' v where one: "allocateOne s rem = (s', rem', v)" by (cases "allocateOne s rem") auto
    obtain insts' us where rest: "allocateRepayment insts rem' = (insts', us)" by (cases "allocateRepayment insts rem'") auto
    have run: "fst (allocateRepayment (s # insts) rem) = s' # insts'" using False by (simp add: one rest)
    have "is_status s' = I_PAID \<longrightarrow> nearlyPaid s'" using allocateOne_paid [OF one] "2.prems" by simp
    moreover have "\<forall>s \<in> set insts'. is_status s = I_PAID \<longrightarrow> nearlyPaid s"
      using "2.IH" [OF False one [symmetric] refl] "2.prems" by (simp add: rest)
    ultimately show ?thesis unfolding run by simp
  qed (use 2 in simp)
qed simp

lemma nearlyPaid_stateOf:
  assumes "wfInst (instCents r)"
  shows "nearlyPaid (stateOf r) \<longleftrightarrow> li_interestDue r - li_interestPaid r \<le> 1 \<and> li_principalDue r - li_principalPaid r \<le> 1"
proof -
  have near: "cents d - cents q \<le> 15 / 1000 \<longleftrightarrow> d - q \<le> 1" if "0 \<le> q" "q \<le> d" "d \<le> 10 ^ 11" for d q
  proof -
    have c: "\<bar>cents d - of_int d / 100\<bar> \<le> 2 / 10000000" "\<bar>cents q - of_int q / 100\<bar> \<le> 2 / 10000000"
      by (rule cents_close; use that in simp)+
    show ?thesis
    proof (cases "d - q \<le> 1")
      case True
      then have "(of_int d :: rat) \<le> of_int q + 1" by (metis add.commute diff_le_eq of_int_1 of_int_add of_int_le_iff)
      then show ?thesis using c True unfolding abs_le_iff by linarith
    next
      case False
      then have "(of_int q :: rat) + 2 \<le> of_int d" by (metis add.commute linorder_not_le of_int_add of_int_le_iff of_int_numeral one_add_one le_diff_eq zless_imp_add1_zle)
      then show ?thesis using c False unfolding abs_le_iff by linarith
    qed
  qed
  have "0 \<le> li_interestPaid r" "li_interestPaid r \<le> li_interestDue r" "li_interestDue r \<le> 10 ^ 11"
    "0 \<le> li_principalPaid r" "li_principalPaid r \<le> li_principalDue r" "li_principalDue r \<le> 10 ^ 11"
    using assms by (simp_all add: instCents_def)
  from near [OF this(1-3)] near [OF this(4-6)] show ?thesis by (simp add: nearlyPaid_def stateOf_def)
qed

section \<open>The rows after a repayment\<close>

lemma loanInstallments_set: "set (loanInstallments i rs) = {r \<in> set rs. li_loanId r = i}"
  by (auto simp: loanInstallments_def)

lemma repayment_rows:
  fixes rs :: "loanInstallment list" and i :: string and n :: int
  defines "old \<equiv> loanInstallments i rs"
  defines "us \<equiv> snd (allocateRepayment (map stateOf old) (cents n))"
  assumes u: "uniqueBy li_id rs" and wf: "\<forall>r \<in> set rs. wfInst (instCents r)"
    and paid: "\<forall>r \<in> set rs. li_status r = I_PAID \<longrightarrow> nearlyPaid (stateOf r)"
    and n: "0 \<le> n" "n \<le> 10 ^ 11" and few: "length old \<le> 1000"
  shows "map instCents (loanInstallments i (persistUpdates us rs)) = waterfall (map instCents old) n"
    and "filter (\<lambda>r. li_loanId r \<noteq> i) (persistUpdates us rs) = filter (\<lambda>r. li_loanId r \<noteq> i) rs"
    and "\<forall>r \<in> set (loanInstallments i (persistUpdates us rs)). li_status r = I_PAID \<longrightarrow> nearlyPaid (stateOf r)"
    and "list_all wfInst (map instCents (loanInstallments i (persistUpdates us rs)))"
proof -
  have sub: "set old \<subseteq> set rs" by (auto simp: old_def loanInstallments_set)
  have H: "list_all2 holds (map stateOf old) (map instCents old)"
    by (simp add: list_all2_map1 list_all2_map2 list.rel_refl holds_stateOf)
  have W: "list_all wfInst (map instCents old)" using wf sub by (auto simp: list_all_iff)
  have len: "length (map stateOf old) \<le> 1000" using few by simp
  note A = allocate_waterfall [OF H W n len]
  have WW: "list_all wfInst (waterfall (map instCents old) n)" by (rule waterfall_conserves(1) [OF W n(1)])
  have exact: "\<forall>v \<in> set us. exactUpdate v"
  proof
    fix v assume "v \<in> set us"
    then obtain s where s: "s \<in> set (fst (allocateRepayment (map stateOf old) (cents n)))"
      "is_interestPaid s = au_newInterestPaid v" "is_principalPaid s = au_newPrincipalPaid v"
      unfolding us_def using allocate_values by blast
    then obtain x where x: "x \<in> set (waterfall (map instCents old) n)" "holds s x"
      using A(1) by (metis in_set_conv_nth list_all2_conv_all_nth)
    obtain di dp qi qp where X: "x = (di, dp, qi, qp)" by (cases x)
    have "wfInst x" using WW x(1) by (simp add: list_all_iff)
    then show "exactUpdate v" using x(2) s(2,3) by (auto simp: exactUpdate_def X)
  qed
  have dist: "distinct (map li_id old)"
  proof -
    have "distinct (map li_id (filter (\<lambda>r. li_loanId r = i) rs))" using u unfolding uniqueBy_def by (rule distinct_map_filter)
    moreover have "mset (map li_id old) = mset (map li_id (filter (\<lambda>r. li_loanId r = i) rs))" by (simp add: old_def loanInstallments_def)
    ultimately show ?thesis using mset_eq_imp_distinct_iff by blast
  qed
  have S: "map stateOf (loanInstallments i (persistUpdates us rs)) = fst (allocateRepayment (map stateOf old) (cents n))"
  proof -
    have "map stateOf (persistUpdates us old) = fold (\<lambda>u. map (applyUpdate u)) us (map stateOf old)"
      by (rule stateOf_persist [OF exact])
    also have "\<dots> = fst (allocateRepayment (map stateOf old) (cents n))"
      unfolding us_def by (rule updates_reproduce) (simp add: dist o_def)
    finally show ?thesis by (simp add: loanInstallments_persist old_def)
  qed
  have L: "list_all2 holds (map stateOf (loanInstallments i (persistUpdates us rs))) (waterfall (map instCents old) n)"
    using A(1) by (simp only: S)
  show main: "map instCents (loanInstallments i (persistUpdates us rs)) = waterfall (map instCents old) n"
  proof (rule nth_equalityI)
    show "length (map instCents (loanInstallments i (persistUpdates us rs))) = length (waterfall (map instCents old) n)"
      using list_all2_lengthD [OF L] by simp
    fix k assume k: "k < length (map instCents (loanInstallments i (persistUpdates us rs)))"
    then have "holds (stateOf (loanInstallments i (persistUpdates us rs) ! k)) (waterfall (map instCents old) n ! k)"
      using list_all2_nthD [OF L] by simp
    moreover have "wfInst (waterfall (map instCents old) n ! k)"
      using WW k list_all2_lengthD [OF L] by (simp add: list_all_length)
    ultimately show "map instCents (loanInstallments i (persistUpdates us rs)) ! k = waterfall (map instCents old) n ! k"
      using instCents_stateOf k by simp
  qed
  show "list_all wfInst (map instCents (loanInstallments i (persistUpdates us rs)))" using WW by (simp only: main)
  show "filter (\<lambda>r. li_loanId r \<noteq> i) (persistUpdates us rs) = filter (\<lambda>r. li_loanId r \<noteq> i) rs"
  proof (rule persist_others, intro ballI impI)
    fix v r assume v: "v \<in> set us" and r: "r \<in> set rs" "li_id r = au_id v"
    then obtain q where "q \<in> set old" "li_id q = au_id v"
      using allocate_ids [of "map stateOf old" "cents n"] by (auto simp: us_def)
    then have "q = r" using uniqueBy_eq [OF u, of q r] sub r by auto
    then show "li_loanId r = i" using \<open>q \<in> set old\<close> by (simp add: old_def loanInstallments_set)
  qed
  have "\<forall>s \<in> set (fst (allocateRepayment (map stateOf old) (cents n))). is_status s = I_PAID \<longrightarrow> nearlyPaid s"
  proof (rule allocate_paid)
    show "\<forall>s \<in> set (map stateOf old). is_status s = I_PAID \<longrightarrow> nearlyPaid s"
      using paid sub by (auto simp: stateOf_def)
    have due: "0 \<le> cents d \<and> cents d \<le> 1000000001" if "0 \<le> d" "d \<le> 10 ^ 11" for d
      using cents_close [OF that] rat_int_le [OF that(2)] that(1) unfolding abs_le_iff by simp
    show "\<forall>s \<in> set (map stateOf old). 0 \<le> is_interestDue s \<and> is_interestDue s \<le> 1000000001 \<and> 0 \<le> is_principalDue s \<and> is_principalDue s \<le> 1000000001"
    proof
      fix s assume "s \<in> set (map stateOf old)"
      then obtain r where r: "r \<in> set rs" "s = stateOf r" using sub by auto
      have "wfInst (instCents r)" using wf r(1) by blast
      then have "0 \<le> li_interestDue r" "li_interestDue r \<le> 10 ^ 11" "0 \<le> li_principalDue r" "li_principalDue r \<le> 10 ^ 11"
        by (simp_all add: instCents_def)
      from due [OF this(1,2)] due [OF this(3,4)]
      show "0 \<le> is_interestDue s \<and> is_interestDue s \<le> 1000000001 \<and> 0 \<le> is_principalDue s \<and> is_principalDue s \<le> 1000000001"
        by (simp add: r(2) stateOf_def)
    qed
  qed
  then have "\<forall>s \<in> set (map stateOf (loanInstallments i (persistUpdates us rs))). is_status s = I_PAID \<longrightarrow> nearlyPaid s"
    by (simp only: S)
  then show "\<forall>r \<in> set (loanInstallments i (persistUpdates us rs)). li_status r = I_PAID \<longrightarrow> nearlyPaid (stateOf r)"
    by (simp add: stateOf_def)
qed

section \<open>The repayment\<close>

lemma applyLoanRepayment_result:
  assumes "applyLoanRepaymentInTx env i amount by db = Inr ((x, c), db')"
  defines "rows \<equiv> persistUpdates (snd (allocateRepayment (map stateOf (loanInstallments i (db_installments db))) amount)) (db_installments db)"
  shows "db_installments db' = rows" and "db_repayments db' = db_repayments db @ [x]" and "lr_loanId x = i"
    and "lr_amount x = toDec2 amount" and "c = fullyRepaid i rows"
    and "db_glAccounts db' = db_glAccounts db" and "db_journals db' = db_journals db"
    and "\<exists>l. find (\<lambda>l. ln_id l = i) (db_loans db) = Some l \<and> db_loans db' = updWhere (\<lambda>x. ln_id x = i) (\<lambda>x. x\<lparr>ln_status :=
        if fullyRepaid i rows then LN_CLOSED else if ln_status l = LN_DISBURSED then LN_ACTIVE else ln_status x\<rparr>) (db_loans db)"
proof -
  obtain l where l: "find (\<lambda>l. ln_id l = i) (db_loans db) = Some l"
    using assms(1) by (auto simp: applyLoanRepaymentInTx_def bindE_Inr_iff)
  then have id: "ln_id l = i" by (auto dest: find_SomeD)
  have same: "updWhere (\<lambda>x. ln_id x = i) (\<lambda>x. x\<lparr>ln_status := ln_status x\<rparr>) (db_loans db) = db_loans db"
    by (simp add: updWhere_def)
  note A = assms(1) [unfolded applyLoanRepaymentInTx_def l orThrow_simps bindE_simps Let_def id, folded rows_def]
  show "db_installments db' = rows" "db_repayments db' = db_repayments db @ [x]" "lr_loanId x = i" "lr_amount x = toDec2 amount"
    "c = fullyRepaid i rows" "db_glAccounts db' = db_glAccounts db" "db_journals db' = db_journals db"
    using A by (auto simp: updLoan_def)
  show "\<exists>l. find (\<lambda>l. ln_id l = i) (db_loans db) = Some l \<and> db_loans db' = updWhere (\<lambda>x. ln_id x = i) (\<lambda>x. x\<lparr>ln_status :=
        if fullyRepaid i rows then LN_CLOSED else if ln_status l = LN_DISBURSED then LN_ACTIVE else ln_status x\<rparr>) (db_loans db)"
    using A l same by (auto simp: updLoan_def)
qed

lemma repayLoan_cases:
  assumes "repayLoan env i (Some amount) db = (r, db')"
  obtains (refused) "\<not> okResp r" and "db' = db"
  | (repaid) l receivable cash x c db1 j db2 where "r = ROk 201 (x, c)" and "0 < amount" and "ownLoan env i db = Some l"
      and "postingAccounts env (db_loanMappings db) ''Loan Receivable'' ''Cash/Bank (Disbursement)''
          (loanUnconfigured ''recording repayments'') db = Inr (receivable, cash)"
      and "applyLoanRepaymentInTx env i amount (e_userId env) db = Inr ((x, c), db1)"
      and "postJournal env (e_institutionId env) AUTOMATIC (''Loan repayment - loan '' @ i) (e_now env)
          (e_userId env) (e_userId env) (transferLines cash receivable amount) db1 = Inr (j, db2)"
      and "db' = audit env ''loan.repayment_recorded'' ''loan'' i db2"
  using assms unfolding repayLoan_def
proof (cases rule: answer_cases)
  case (finished y)
  obtain l p q jd where D: "0 < amount" "ownLoan env i db = Some l"
    "postingAccounts env (db_loanMappings db) ''Loan Receivable'' ''Cash/Bank (Disbursement)''
          (loanUnconfigured ''recording repayments'') db = Inr p"
    "applyLoanRepaymentInTx env (ln_id l) amount (e_userId env) db = Inr q"
    "postJournal env (e_institutionId env) AUTOMATIC (''Loan repayment - loan '' @ ln_id l) (e_now env)
          (e_userId env) (e_userId env) (transferLines (snd p) (fst p) amount) (snd q) = Inr jd"
    "y = fst q" "db' = audit env ''loan.repayment_recorded'' ''loan'' (ln_id l) (snd jd)"
    using finished(1) unfolding bindE_Inr_iff Let_def split_beta
    by (elim exE conjE) (simp only: parseBody_Inr orThrow_Inr_iff require_Inr Inr_inject prod.inject option.inject, force)
  then have "ln_id l = i" by (auto simp: ownLoan_def dest: find_SomeD)
  then show ?thesis
    by (intro repaid [of "fst y" "snd y" l "fst p" "snd p" "snd q" "fst jd" "snd jd"])
      (use D finished(2) in \<open>auto simp: prod_eq_iff\<close>)
qed (rule refused)

text \<open>The transaction of a repayment, whoever collects it: allocation, then the journal.\<close>

lemma repaymentTx_effect:
  assumes "books_ok db" and "installments_ok db" and "length (loanInstallments i (db_installments db)) \<le> 1000" and "0 \<le> n" "n \<le> 10 ^ 11"
    and tx: "applyLoanRepaymentInTx env i (cents n) by db = Inr ((x, c), db1)"
    and post: "postJournal env inst ty descr d u1 u2 cls db1 = Inr (j, db2)"
    and good: "goodLines db cls" and bal: "balancedLines (map (lineRow \<circ> snd) cls)"
  shows "books_ok db2" and "installments_ok db2"
    and "map instCents (loanInstallments i (db_installments db2)) = waterfall (map instCents (loanInstallments i (db_installments db))) n"
    and "filter (\<lambda>q. li_loanId q \<noteq> i) (db_installments db2) = filter (\<lambda>q. li_loanId q \<noteq> i) (db_installments db)"
    and "db_repayments db2 = db_repayments db @ [x]" and "lr_loanId x = i" and "lr_amount x = n"
    and "c = fullyRepaid i (db_installments db2)"
proof -
  note A = applyLoanRepayment_result [OF tx]
  have ok: "uniqueBy li_id (db_installments db)" "\<forall>q \<in> set (db_installments db). wfInst (instCents q)"
    "\<forall>q \<in> set (db_installments db). li_status q = I_PAID \<longrightarrow> nearlyPaid (stateOf q)"
    using assms(2) by (simp_all add: installments_ok_def nearlyPaid_stateOf)
  note R = repayment_rows [OF ok assms(4,5,3), folded A(1)]
  have books1: "books_ok db1" and good1: "goodLines db1 cls"
    using books_cong [OF A(6,7)] goodLines_cong [OF A(6)] assms(1) good by simp_all
  show "books_ok db2" by (rule postJournal_books [OF books1 good1 bal post])
  have u1: "uniqueBy ga_id (db_glAccounts db1)" using books1 by (simp add: books_ok_def)
  from postJournal_result [OF u1 good1 post] have db2: "db_installments db2 = db_installments db1" "db_repayments db2 = db_repayments db1"
    by simp_all
  have mem: "q \<in> set (loanInstallments i (db_installments db1)) \<or> q \<in> set (db_installments db)" if "q \<in> set (db_installments db1)" for q
  proof (cases "li_loanId q = i")
    case False
    then have "q \<in> set (filter (\<lambda>q. li_loanId q \<noteq> i) (db_installments db1))" using that by simp
    then have "q \<in> set (filter (\<lambda>q. li_loanId q \<noteq> i) (db_installments db))" by (simp only: R(2))
    then show ?thesis by simp
  qed (use that in \<open>simp add: loanInstallments_set\<close>)
  have "wfInst (instCents q) \<and> (li_status q = I_PAID \<longrightarrow> nearlyPaid (stateOf q))" if "q \<in> set (db_installments db1)" for q
    using mem [OF that] R(3,4) ok(2,3) by (auto simp: list_all_iff)
  moreover have "uniqueBy li_id (db_installments db1)" using ok(1) unfolding A(1) uniqueBy_def persist_keys .
  ultimately show "installments_ok db2" using nearlyPaid_stateOf by (auto simp: installments_ok_def db2)
  show "map instCents (loanInstallments i (db_installments db2)) = waterfall (map instCents (loanInstallments i (db_installments db))) n"
    "filter (\<lambda>q. li_loanId q \<noteq> i) (db_installments db2) = filter (\<lambda>q. li_loanId q \<noteq> i) (db_installments db)"
    "db_repayments db2 = db_repayments db @ [x]" "lr_loanId x = i" "lr_amount x = n"
    "c = fullyRepaid i (db_installments db2)"
    using R(1,2) A(2-5) assms(4,5) by (simp_all add: db2 A(1) [symmetric])
qed

lemma repayLoan_effect:
  assumes "books_ok db" and "installments_ok db" and "length (loanInstallments i (db_installments db)) \<le> 1000" and "n \<le> 10 ^ 11"
    and "repayLoan env i (Some (cents n)) db = (ROk k (x, c), db')"
  shows "books_ok db'" and "installments_ok db'"
    and "map instCents (loanInstallments i (db_installments db')) = waterfall (map instCents (loanInstallments i (db_installments db))) n"
    and "filter (\<lambda>q. li_loanId q \<noteq> i) (db_installments db') = filter (\<lambda>q. li_loanId q \<noteq> i) (db_installments db)"
    and "db_repayments db' = db_repayments db @ [x]" and "lr_loanId x = i" and "lr_amount x = n" and "0 \<le> n"
    and "c = fullyRepaid i (db_installments db')"
proof -
  obtain l receivable cash db1 j db2 where repaid: "0 < cents n"
      "postingAccounts env (db_loanMappings db) ''Loan Receivable'' ''Cash/Bank (Disbursement)''
          (loanUnconfigured ''recording repayments'') db = Inr (receivable, cash)"
      "applyLoanRepaymentInTx env i (cents n) (e_userId env) db = Inr ((x, c), db1)"
      "postJournal env (e_institutionId env) AUTOMATIC (''Loan repayment - loan '' @ i) (e_now env)
          (e_userId env) (e_userId env) (transferLines cash receivable (cents n)) db1 = Inr (j, db2)"
      "db' = audit env ''loan.repayment_recorded'' ''loan'' i db2"
    using assms(5) by (cases rule: repayLoan_cases) auto
  have n: "0 \<le> n" using repaid(1) by (simp only: cents_nonneg_iff [of n, symmetric] less_imp_le)
  have n13: "\<bar>n\<bar> \<le> 10 ^ 13" using n assms(4) by simp
  obtain p q where acc: "accountById p db = Some receivable" "accountById q db = Some cash"
    using repaid(2) by (rule postingAccounts_Inr)
  note E = repaymentTx_effect [OF assms(1-3) n assms(4) repaid(3,4) transferLines_good [OF acc(2,1) refl n13] transferLines_balanced]
  show "books_ok db'" "installments_ok db'"
    "map instCents (loanInstallments i (db_installments db')) = waterfall (map instCents (loanInstallments i (db_installments db))) n"
    "filter (\<lambda>q. li_loanId q \<noteq> i) (db_installments db') = filter (\<lambda>q. li_loanId q \<noteq> i) (db_installments db)"
    "db_repayments db' = db_repayments db @ [x]" "lr_loanId x = i" "lr_amount x = n" "0 \<le> n"
    "c = fullyRepaid i (db_installments db')"
    using E n by (simp_all add: repaid(5) installments_ok_def)
qed

lemma repayLoan_refused: "repayLoan env i (Some amount) db = (RErr k m, db') \<Longrightarrow> db' = db"
  by (cases rule: repayLoan_cases) auto

text \<open>
  Claim C8. A repayment is all or nothing, and refines the waterfall: the installments of the loan, read
  in pesewas and in order, are those of the specification applied to what they were before; no other
  loan's installments change; the amount is recorded; the answer says closed exactly when every
  installment is then marked paid; and the books agree with the journals.
\<close>

theorem loan_repayment_refines:
  assumes "books_ok db" and "installments_ok db" and "length (loanInstallments i (db_installments db)) \<le> 1000" and "n \<le> 10 ^ 11"
    and "repayLoan env i (Some (cents n)) db = (r, db')"
  shows "books_ok db' \<and> installments_ok db'
    \<and> (case r of
         RErr _ _ \<Rightarrow> db' = db
       | ROk _ (x, cleared) \<Rightarrow>
           map instCents (loanInstallments i (db_installments db')) = waterfall (map instCents (loanInstallments i (db_installments db))) n
         \<and> filter (\<lambda>q. li_loanId q \<noteq> i) (db_installments db') = filter (\<lambda>q. li_loanId q \<noteq> i) (db_installments db)
         \<and> db_repayments db' = db_repayments db @ [x] \<and> lr_loanId x = i \<and> lr_amount x = n
         \<and> cleared = fullyRepaid i (db_installments db'))"
proof (cases r)
  case (ROk k y)
  then show ?thesis using repayLoan_effect [OF assms(1-4), of env k "fst y" "snd y" db'] assms(5) by (cases y) simp
next
  case (RErr k m)
  then show ?thesis using repayLoan_refused [of env i "cents n" db] assms by simp
qed

text \<open>
  Claim C23. A repayment adds to what has been paid on the loan the amount, or everything outstanding if
  that is less, and a loan that the answer calls closed lacks at most one pesewa of interest and one of
  principal on any installment.
\<close>

theorem repaid_loan_bounds:
  assumes "books_ok db" and "installments_ok db" and "length (loanInstallments i (db_installments db)) \<le> 1000" and "n \<le> 10 ^ 11"
    and "repayLoan env i (Some (cents n)) db = (ROk k (x, cleared), db')"
  shows "sum_list (map paidOf (map instCents (loanInstallments i (db_installments db'))))
      = sum_list (map paidOf (map instCents (loanInstallments i (db_installments db))))
        + min n (sum_list (map outstanding (map instCents (loanInstallments i (db_installments db)))))
    \<and> (cleared \<longrightarrow> (\<forall>q \<in> set (db_installments db'). li_loanId q = i \<longrightarrow>
         0 \<le> li_interestDue q - li_interestPaid q \<and> li_interestDue q - li_interestPaid q \<le> 1
       \<and> 0 \<le> li_principalDue q - li_principalPaid q \<and> li_principalDue q - li_principalPaid q \<le> 1))"
proof
  note E = repayLoan_effect [OF assms]
  have "list_all wfInst (map instCents (loanInstallments i (db_installments db)))"
    using assms(2) by (auto simp: list_all_iff installments_ok_def loanInstallments_set)
  from waterfall_conserves(2) [OF this E(8)]
  show "sum_list (map paidOf (map instCents (loanInstallments i (db_installments db'))))
      = sum_list (map paidOf (map instCents (loanInstallments i (db_installments db))))
        + min n (sum_list (map outstanding (map instCents (loanInstallments i (db_installments db)))))"
    unfolding E(3) by linarith
  show "cleared \<longrightarrow> (\<forall>q \<in> set (db_installments db'). li_loanId q = i \<longrightarrow>
         0 \<le> li_interestDue q - li_interestPaid q \<and> li_interestDue q - li_interestPaid q \<le> 1
       \<and> 0 \<le> li_principalDue q - li_principalPaid q \<and> li_principalDue q - li_principalPaid q \<le> 1)"
    using E(2,9) by (auto simp: installments_ok_def fullyRepaid_def list_all_iff instCents_def)
qed

end
