(* ===== verification/Loan_Lifecycle.thy ===== *)
theory Loan_Lifecycle
  imports Loan_Repayment
begin

text \<open>
  The loan module as a state machine: the requests that decide about a loan are steps, and so is
  anything that leaves loans and installments alone. Whoever is paid out was approved by someone
  other than the initiator, and a loan is paid out once only, although neither is a condition that
  the disbursement itself checks.
\<close>

section \<open>Steps\<close>

inductive loan_step :: "(nat \<Rightarrow> string) \<Rightarrow> 'a loan_db_scheme \<Rightarrow> 'a loan_db_scheme \<Rightarrow> bool" for uuid where
  Apply: "e_uuid env = uuid \<Longrightarrow> loan_step uuid db (snd (initiateLoan cv toLocale env body db))"
| Approve: "loan_step uuid db (snd (approveLoan cv env i db))"
| Reject: "loan_step uuid db (snd (rejectLoan env i db))"
| Disburse: "loan_step uuid db (snd (disburseLoan pow cv env i vid db))"
| Repay: "loan_step uuid db (snd (repayLoan env i amount db))"
| Elsewhere: "db_loans db' = db_loans db \<Longrightarrow> db_installments db' = db_installments db \<Longrightarrow> db_next db \<le> db_next db'
    \<Longrightarrow> loan_step uuid db db'"

inductive_cases loan_stepE: "loan_step uuid db db'"

text \<open>What a step does to the two tables.\<close>

datatype loan_change =
    Same
  | Added loan
  | Approved string string
  | Rejected "loan \<Rightarrow> bool"
  | Disbursed loan time "loanInstallment list"
  | Repaid loan "allocationUpdate list"

fun changed :: "loan_change \<Rightarrow> (nat \<Rightarrow> string) \<Rightarrow> 'a loan_db_scheme \<Rightarrow> 'a loan_db_scheme \<Rightarrow> bool" where
  "changed Same uuid db db' \<longleftrightarrow> db_loans db' = db_loans db \<and> db_installments db' = db_installments db"
| "changed (Added l) uuid db db' \<longleftrightarrow> db_loans db' = db_loans db @ [l] \<and> db_installments db' = db_installments db
     \<and> ln_id l = uuid (db_next db) \<and> db_next db < db_next db' \<and> ln_approvedById l = None \<and> 0 < ln_termMonths l
     \<and> ln_status l \<in> {LN_PENDING, LN_REJECTED}"
| "changed (Approved i a) uuid db db' \<longleftrightarrow> db_installments db' = db_installments db
     \<and> db_loans db' = updWhere (\<lambda>l. ln_id l = i) (\<lambda>x. x\<lparr>ln_status := LN_APPROVED, ln_approvedById := Some a\<rparr>) (db_loans db)
     \<and> (\<exists>l \<in> set (db_loans db). ln_id l = i \<and> ln_initiatedById l \<noteq> Some a)"
| "changed (Rejected P) uuid db db' \<longleftrightarrow> db_installments db' = db_installments db
     \<and> db_loans db' = updWhere P (\<lambda>l. l\<lparr>ln_status := LN_REJECTED\<rparr>) (db_loans db)"
| "changed (Disbursed l t new) uuid db db' \<longleftrightarrow> l \<in> set (db_loans db) \<and> ln_status l = LN_APPROVED
     \<and> db_installments db' = db_installments db @ new \<and> (\<forall>r \<in> set new. li_loanId r = ln_id l)
     \<and> map li_installmentNumber new = [1..ln_termMonths l]
     \<and> (\<forall>r \<in> set (db_installments db). \<forall>q \<in> set new. li_loanId r = ln_id l \<longrightarrow> li_installmentNumber r \<noteq> li_installmentNumber q)
     \<and> db_loans db' = updWhere (\<lambda>x. ln_id x = ln_id l) (\<lambda>x. x\<lparr>ln_status := LN_DISBURSED, ln_disbursedAt := Some t\<rparr>) (db_loans db)"
| "changed (Repaid l us) uuid db db' \<longleftrightarrow> l \<in> set (db_loans db)
     \<and> db_installments db' = persistUpdates us (db_installments db)
     \<and> db_loans db' = updWhere (\<lambda>x. ln_id x = ln_id l) (\<lambda>x. x\<lparr>ln_status :=
          if fullyRepaid (ln_id l) (db_installments db') then LN_CLOSED else if ln_status l = LN_DISBURSED then LN_ACTIVE else ln_status x\<rparr>)
          (db_loans db)"

lemma rules_next: "db_next db \<le> db_next (snd (executeMatchedRules env tt ti ms db))"
proof -
  have a: "db_next d \<le> db_next (executeAction env tt ti r a d)" for r a and d :: "'a core_db_scheme"
    by (cases "ra_type a") (simp_all add: executeAction_def audit_frame requestApproval_def)
  have "db_next d \<le> db_next (foldl (\<lambda>d a. executeAction env tt ti r a d) d as)" for r as and d :: "'a core_db_scheme"
    by (induction as arbitrary: d) (auto intro: order_trans [OF a])
  then have r: "db_next d \<le> db_next (executeRule env tt ti r d)" for r and d :: "'a core_db_scheme"
    by (simp add: executeRule_def audit_frame)
  have "db_next d \<le> db_next (foldl (\<lambda>d r. executeRule env tt ti r d) d ms)" for d :: "'a core_db_scheme"
    by (induction ms arbitrary: d) (auto intro: order_trans [OF r])
  then show ?thesis by (simp add: executeMatchedRules_def)
qed

lemma initiateLoan_cases:
  assumes "initiateLoan cv toLocale env body db = (r, db')"
  obtains (refused) "\<not> okResp r" and "db' = db"
  | (applied) b c v l db1 ms where "0 < lb_termMonths b" and "ownCustomer env (lb_customerId b) db = Some c" and "cu_status c = CS_ACTIVE"
      and "loanProduct env (lb_productVersionId b) db = Inr v" and "loanLimits toLocale v b = None"
      and "createLoan env b v db = Inr (l, db1)"
      and "db' = snd (executeMatchedRules env ''Loan'' (ln_id l) ms
          (if list_ex hasReject ms then updLoan (ln_id l) (\<lambda>x. x\<lparr>ln_status := LN_REJECTED\<rparr>) (audit env ''loan.initiate'' ''loan'' (ln_id l) db1)
           else audit env ''loan.initiate'' ''loan'' (ln_id l) db1))"
  using assms unfolding initiateLoan_def
proof (cases rule: answer_cases)
  case (finished x)
  obtain b c v q ms where D: "0 < lb_termMonths b" "ownCustomer env (lb_customerId b) db = Some c" "cu_status c = CS_ACTIVE"
      "loanProduct env (lb_productVersionId b) db = Inr v" "loanLimits toLocale v b = None"
      "createLoan env b v db = Inr q"
      "db' = snd (executeMatchedRules env ''Loan'' (ln_id (fst q)) ms
          (if list_ex hasReject ms then updLoan (ln_id (fst q)) (\<lambda>x. x\<lparr>ln_status := LN_REJECTED\<rparr>) (audit env ''loan.initiate'' ''loan'' (ln_id (fst q)) (snd q))
           else audit env ''loan.initiate'' ''loan'' (ln_id (fst q)) (snd q)))"
    using finished(1) unfolding bindE_Inr_iff Let_def split_beta
    by (elim exE conjE) (simp only: orThrow_Inr_iff require_Inr parseBody_Inr noError_Inr Inr_inject prod.inject, force)
  show ?thesis by (rule applied [of b c v "fst q" "snd q" ms]) (use D in simp_all)
qed (rule refused)

lemma initiateLoan_change:
  assumes "e_uuid env = uuid" and "inj uuid" and "named uuid (db_next db) ln_id (db_loans db)"
  shows "\<exists>c. changed c uuid db (snd (initiateLoan cv toLocale env body db)) \<and> db_next db \<le> db_next (snd (initiateLoan cv toLocale env body db))"
proof -
  have "\<exists>c. changed c uuid db db' \<and> db_next db \<le> db_next db'" if "initiateLoan cv toLocale env body db = (r, db')" for r db'
    using that
  proof (cases rule: initiateLoan_cases)
    case refused
    then show ?thesis by (intro exI [of _ Same]) simp
  next
    case (applied b c v l db1 ms)
    have l: "ln_id l = uuid (db_next db)" "ln_approvedById l = None" "0 < ln_termMonths l" "ln_status l = LN_PENDING"
      and db1: "db_loans db1 = db_loans db @ [l]" "db_installments db1 = db_installments db" "db_next db1 = Suc (db_next db)"
      using applied(6) assms(1) applied(1) by (auto simp: createLoan_def Let_def newId_def split: if_splits)
    have fresh: "updWhere (\<lambda>x. ln_id x = ln_id l) f (db_loans db) = db_loans db" for f
      using named_fresh [OF assms(2,3)] l(1) by (intro updWhere_none) (metis image_eqI)
    define l' where "l' = (if list_ex hasReject ms then l\<lparr>ln_status := LN_REJECTED\<rparr> else l)"
    have "db_loans db' = db_loans db @ [l']" "db_installments db' = db_installments db"
      using fresh by (simp_all add: applied(7) rules_loan updLoan_frame db1 l'_def)
    moreover have "Suc (db_next db) \<le> db_next db'"
      unfolding applied(7) by (rule order_trans [OF _ rules_next]) (simp add: updLoan_def audit_frame db1)
    ultimately show ?thesis using l by (intro exI [of _ "Added l'"]) (auto simp: l'_def)
  qed
  then show ?thesis by (metis prod.collapse)
qed

lemma approveLoan_change:
  "\<exists>c. changed c uuid db (snd (approveLoan cv env i db)) \<and> db_next db \<le> db_next (snd (approveLoan cv env i db))"
proof -
  have "\<exists>c. changed c uuid db db' \<and> db_next db \<le> db_next db'" if "approveLoan cv env i db = (r, db')" for r db'
    using that unfolding approveLoan_def
  proof (cases rule: answer_cases)
    case refused
    then show ?thesis by (intro exI [of _ Same]) simp
  next
    case (finished x)
    obtain l ms where D: "ownLoan env i db = Some l" "ln_initiatedById l \<noteq> Some (e_userId env)"
      "db' = snd (executeMatchedRules env ''Loan'' (ln_id l) ms (audit env ''loan.approve'' ''loan'' (ln_id l)
         (updLoan (ln_id l) (\<lambda>x. x\<lparr>ln_status := LN_APPROVED, ln_approvedById := Some (e_userId env)\<rparr>) db)))"
      using finished(1) unfolding bindE_Inr_iff Let_def split_beta
      by (elim exE conjE) (simp only: orThrow_Inr_iff require_Inr Inr_inject prod.inject, force)
    have "l \<in> set (db_loans db)" using D(1) by (auto simp: ownLoan_def dest: find_SomeD)
    then have "changed (Approved (ln_id l) (e_userId env)) uuid db db'"
      using D(2) by (auto simp: D(3) rules_loan updLoan_frame)
    moreover have "db_next db \<le> db_next db'"
      unfolding D(3) by (rule order_trans [OF _ rules_next]) (simp add: updLoan_def audit_frame)
    ultimately show ?thesis by blast
  qed
  then show ?thesis by (metis prod.collapse)
qed

lemma rejectLoan_change:
  "\<exists>c. changed c uuid db (snd (rejectLoan env i db)) \<and> db_next db \<le> db_next (snd (rejectLoan env i db))"
proof (cases "countWhere (\<lambda>l. ln_id l = i \<and> ln_institutionId l = e_institutionId env) (db_loans db) = 0")
  case True
  then have "snd (rejectLoan env i db) = db" by (simp add: rejectLoan_def)
  then show ?thesis by (intro exI [of _ Same]) simp
next
  case False
  then show ?thesis
    by (intro exI [of _ "Rejected (\<lambda>l. ln_id l = i \<and> ln_institutionId l = e_institutionId env)"])
      (auto simp: rejectLoan_def Let_def audit_frame)
qed

text \<open>A posting touches accounts and journals only, whatever the state of the books.\<close>

lemma postJournal_tables:
  assumes "postJournal env inst ty descr date pb cb cls (db :: 'a loan_db_scheme) = Inr (j, db')"
  shows "db_loans db' = db_loans db \<and> db_installments db' = db_installments db \<and> db_next db \<le> db_next db'"
proof -
  obtain db1 where c: "createJournal env inst ty descr J_POSTED date (Some pb) cb (map snd cls) db = Inr (j, db1)"
    and f: "foldE postLine cls db1 = Inr db'"
    using assms by (auto simp: postJournal_def bindE_Inr_iff)
  have db1: "db_loans db1 = db_loans db \<and> db_installments db1 = db_installments db \<and> db_next db \<le> db_next db1"
    using c by (auto simp: createJournal_def Let_def split: if_splits)
  have step: "db_loans t = db_loans u \<and> db_installments t = db_installments u \<and> db_next t = db_next u"
    if "postLine cl u = Inr t" for cl and u t :: "'a loan_db_scheme"
    using that by (auto simp: postLine_def split: option.splits prod.splits if_splits)
  show ?thesis
    by (rule foldE_invariant [OF f, where P = "\<lambda>d. db_loans d = db_loans db \<and> db_installments d = db_installments db \<and> db_next db \<le> db_next d"])
      (use db1 step in auto)
qed

lemma disburseLoan_changed:
  assumes "disburseLoan pow cv env i vid db = (ROk k x, db')"
  shows "\<exists>l t new. changed (Disbursed l t new) uuid db db' \<and> ln_id l = i \<and> db_next db \<le> db_next db'"
  using assms
proof (cases rule: disburseLoan_cases)
  case (disbursed l v receivable cash l' warnings db1)
  let ?ss = "generateSchedule pow (cents (ln_principal l)) (ln_interestRate l) (ln_termMonths l) (ln_interestMethod l) (e_now env)"
  let ?f = "\<lambda>x :: loan. x\<lparr>ln_status := LN_DISBURSED, ln_disbursedAt := Some (e_now env)\<rparr>"
  have mem: "l \<in> set (db_loans db)" "ln_id l = i" using disbursed(2) by (auto simp: ownLoan_def dest: find_SomeD)
  obtain vs w q where post: "postJournal env (e_institutionId env) AUTOMATIC (''Loan disbursement - loan '' @ ln_id l) (e_now env)
      (e_userId env) (e_userId env) (transferLines receivable cash (cents (ln_principal l)))
      (snd (recordCash env (e_institutionId env) VAULT (the vid) TRANSFER_OUT (cents (ln_principal l)) (va_balance w)
          (Some (''Loan disbursement - '' @ ln_id l)) (e_userId env) (db\<lparr>db_vaults := vs\<rparr>))) = Inr q"
    and w: "find (\<lambda>v. va_id v = the vid) vs = Some w"
    and ins: "createInstallments env (ln_id l) ?ss (updLoan (ln_id l) ?f (snd q)) = Inr db1"
    using disbursed(9) unfolding disburseTx_def bindE_Inr_iff orThrow_Inr_iff Let_def
    by (metis (no_types, lifting) Inr_inject prod.inject)
  obtain j d3 where jd: "q = (j, d3)" by (cases q)
  have q: "db_loans (snd q) = db_loans db" "db_installments (snd q) = db_installments db" "db_next db \<le> db_next (snd q)"
    using postJournal_tables [OF post [unfolded jd]] by (simp_all add: jd recordCash_def Let_def)
  note I = ins [unfolded createInstallments_Inr updLoan_frame q]
  obtain ms where db': "db' = snd (executeMatchedRules env ''Loan'' (ln_id l) ms (audit env ''loan.disburse'' ''loan'' (ln_id l) db1))"
    using disbursed(10) by blast
  define new where "new = installmentRows env (ln_id l) ?ss (db_next (updLoan (ln_id l) ?f (snd q)))"
  have nums: "map li_installmentNumber new = map sr_installmentNumber ?ss" by (simp add: new_def installmentRows_map)
  then have img: "li_installmentNumber ` set new = sr_installmentNumber ` set ?ss" by (metis list.set_map)
  have free: "\<forall>s \<in> set ?ss. \<forall>r \<in> set (db_installments db). li_loanId r = ln_id l \<longrightarrow> li_installmentNumber r \<noteq> sr_installmentNumber s"
    using I by (rule conjunct1)
  have "\<forall>r \<in> set (db_installments db). \<forall>q \<in> set new. li_loanId r = ln_id l \<longrightarrow> li_installmentNumber r \<noteq> li_installmentNumber q"
  proof (intro ballI impI)
    fix r q assume r: "r \<in> set (db_installments db)" "li_loanId r = ln_id l" and "q \<in> set new"
    then have "li_installmentNumber q \<in> sr_installmentNumber ` set ?ss" using img by blast
    then obtain s where "s \<in> set ?ss" "li_installmentNumber q = sr_installmentNumber s" by blast
    then show "li_installmentNumber r \<noteq> li_installmentNumber q" using free r by simp
  qed
  moreover have "db_installments db1 = db_installments db @ new"
    "db_loans db1 = updWhere (\<lambda>x. ln_id x = ln_id l) ?f (db_loans db)"
    using I by (simp_all add: updLoan_frame q new_def)
  moreover have "\<forall>r \<in> set new. li_loanId r = ln_id l" unfolding new_def by (rule installmentRows_map)
  ultimately have "changed (Disbursed l (e_now env) new) uuid db db'"
    using nums mem disbursed(3) by (simp add: db' rules_loan generateSchedule_numbers)
  moreover have "db_next db \<le> db_next db'"
    unfolding db' by (rule order_trans [OF _ rules_next]) (use I q in \<open>simp add: updLoan_def audit_frame\<close>)
  ultimately show ?thesis using mem(2) by blast
qed simp

lemma disburseLoan_refused: "disburseLoan pow cv env i vid db = (RErr k m, db') \<Longrightarrow> db' = db"
  by (cases rule: disburseLoan_cases) auto

lemma disburseLoan_change:
  "\<exists>c. changed c uuid db (snd (disburseLoan pow cv env i vid db)) \<and> db_next db \<le> db_next (snd (disburseLoan pow cv env i vid db))"
proof -
  obtain r db' where r: "disburseLoan pow cv env i vid db = (r, db')" by (rule prod.exhaust)
  show ?thesis
  proof (cases r)
    case (ROk k x)
    then obtain l t new where "changed (Disbursed l t new) uuid db db'" "db_next db \<le> db_next db'"
      using disburseLoan_changed [of pow cv env i vid db k x db' uuid] r by blast
    then show ?thesis using r by (intro exI [of _ "Disbursed l t new"]) simp
  next
    case (RErr k m)
    then have "db' = db" using r disburseLoan_refused [of pow cv env i vid db k m db'] by simp
    then show ?thesis using r by (intro exI [of _ Same]) simp
  qed
qed

lemma repayLoan_change:
  "\<exists>c. changed c uuid db (snd (repayLoan env i amount db)) \<and> db_next db \<le> db_next (snd (repayLoan env i amount db))"
proof -
  have "\<exists>c. changed c uuid db db' \<and> db_next db \<le> db_next db'" if r: "repayLoan env i (Some am) db = (r, db')" for am r db'
    using r
  proof (cases rule: repayLoan_cases)
    case refused
    then show ?thesis by (intro exI [of _ Same]) simp
  next
    case (repaid l receivable cash x c db1 j db2)
    note A = applyLoanRepayment_result [OF repaid(5)]
    obtain m where m: "find (\<lambda>l. ln_id l = i) (db_loans db) = Some m" and loans: "db_loans db1 = updWhere (\<lambda>x. ln_id x = i) (\<lambda>x. x\<lparr>ln_status :=
        if fullyRepaid i (db_installments db1) then LN_CLOSED else if ln_status m = LN_DISBURSED then LN_ACTIVE else ln_status x\<rparr>) (db_loans db)"
      using A(8) [folded A(1)] by blast
    note P = postJournal_tables [OF repaid(6)]
    have n1: "db_next db \<le> db_next db1"
      using repaid(5) by (auto simp: applyLoanRepaymentInTx_def bindE_Inr_iff Let_def updLoan_def)
    define us where "us = snd (allocateRepayment (map stateOf (loanInstallments i (db_installments db))) am)"
    have "m \<in> set (db_loans db)" "ln_id m = i" using m by (auto dest: find_SomeD)
    then have "changed (Repaid m us) uuid db db'" "db_next db \<le> db_next db'"
      using P loans n1 A(1) by (simp_all add: repaid(7) us_def audit_frame)
    then show ?thesis by blast
  qed
  note some = this
  show ?thesis
  proof (cases amount)
    case None
    then have "snd (repayLoan env i amount db) = db"
      by (simp add: repayLoan_def answer_def parseBody_def safeParse_def)
    then show ?thesis by (intro exI [of _ Same]) simp
  next
    case (Some am)
    then show ?thesis using some [of am] by (metis prod.collapse)
  qed
qed

lemma loan_step_change:
  assumes "loan_step uuid db db'" and "inj uuid" and "named uuid (db_next db) ln_id (db_loans db)"
  obtains c where "changed c uuid db db'" and "db_next db \<le> db_next db'"
proof -
  have "\<exists>c. changed c uuid db db' \<and> db_next db \<le> db_next db'"
    using assms(1)
  proof (cases rule: loan_step.cases)
    case Elsewhere
    then show ?thesis by (intro exI [of _ Same]) simp
  next
    case Apply
    then show ?thesis using initiateLoan_change [OF _ assms(2,3)] by blast
  next
    case Approve
    show ?thesis unfolding Approve by (rule approveLoan_change)
  next
    case Reject
    show ?thesis unfolding Reject by (rule rejectLoan_change)
  next
    case Disburse
    show ?thesis unfolding Disburse by (rule disburseLoan_change)
  next
    case Repay
    show ?thesis unfolding Repay by (rule repayLoan_change)
  qed
  then show thesis using that by blast
qed

section \<open>What every step keeps\<close>

definition decided :: "loan \<Rightarrow> bool" where
  "decided l \<longleftrightarrow> (\<forall>a. ln_approvedById l = Some a \<longrightarrow> ln_initiatedById l \<noteq> Some a)
     \<and> (ln_status l \<in> {LN_APPROVED, LN_DISBURSED, LN_ACTIVE, LN_CLOSED} \<longrightarrow> ln_approvedById l \<noteq> None)"

definition loan_inv :: "(nat \<Rightarrow> string) \<Rightarrow> 'a loan_db_scheme \<Rightarrow> bool" where
  "loan_inv uuid db \<longleftrightarrow> named uuid (db_next db) ln_id (db_loans db)
     \<and> (\<forall>l \<in> set (db_loans db). decided l \<and> 0 < ln_termMonths l)
     \<and> (\<forall>r \<in> set (db_installments db). \<exists>l \<in> set (db_loans db). ln_id l = li_loanId r \<and> ln_approvedById l \<noteq> None)"

lemma set_persist_loanIds: "li_loanId ` set (persistUpdates us rs) = li_loanId ` set rs"
  by (metis list.set_map persist_keys(2))

lemma loan_inv_installment:
  "loan_inv uuid db \<Longrightarrow> r \<in> set (db_installments db) \<Longrightarrow> \<exists>l \<in> set (db_loans db). ln_id l = li_loanId r \<and> ln_approvedById l \<noteq> None"
  by (simp add: loan_inv_def)

text \<open>Rewriting some loans, when each stays decided and none loses its approval.\<close>

lemma loan_inv_upd:
  assumes inv: "loan_inv uuid db" and "db_next db \<le> db_next db'"
    and loans: "db_loans db' = updWhere P f (db_loans db)"
    and inst: "li_loanId ` set (db_installments db') \<subseteq> li_loanId ` set (db_installments db) \<union> I"
    and f: "\<And>l. ln_id (f l) = ln_id l \<and> ln_termMonths (f l) = ln_termMonths l \<and> (ln_approvedById l \<noteq> None \<longrightarrow> ln_approvedById (f l) \<noteq> None)"
    and dec: "\<And>l. l \<in> set (db_loans db) \<Longrightarrow> P l \<Longrightarrow> decided l \<Longrightarrow> decided (f l)"
    and new: "\<And>i. i \<in> I \<Longrightarrow> \<exists>l \<in> set (db_loans db). ln_id l = i \<and> ln_approvedById l \<noteq> None"
  shows "loan_inv uuid db'"
proof -
  have "named uuid (db_next db') ln_id (db_loans db')"
    using inv assms(2) f unfolding loans loan_inv_def by (auto simp: named_updWhere intro: named_mono)
  moreover have "decided l \<and> 0 < ln_termMonths l" if "l \<in> set (db_loans db')" for l
    using that inv f dec unfolding loans loan_inv_def by (auto elim!: in_updWhereE)
  moreover have "\<exists>l \<in> set (db_loans db'). ln_id l = li_loanId r \<and> ln_approvedById l \<noteq> None" if "r \<in> set (db_installments db')" for r
  proof -
    have "li_loanId r \<in> li_loanId ` set (db_installments db) \<union> I" using that inst by blast
    then have "\<exists>l \<in> set (db_loans db). ln_id l = li_loanId r \<and> ln_approvedById l \<noteq> None"
      using inv new [of "li_loanId r"] by (force simp: loan_inv_def)
    then obtain l where l: "l \<in> set (db_loans db)" "ln_id l = li_loanId r" "ln_approvedById l \<noteq> None" by blast
    define m where "m = (if P l then f l else l)"
    have "m \<in> set (db_loans db')" using l(1) unfolding loans m_def updWhere_def by auto
    moreover have "ln_id m = li_loanId r" "ln_approvedById m \<noteq> None" using l f [of l] by (auto simp: m_def)
    ultimately show ?thesis by blast
  qed
  ultimately show ?thesis by (simp add: loan_inv_def)
qed

lemma loan_inv_eq:
  assumes "loan_inv uuid db" and "l \<in> set (db_loans db)" and "m \<in> set (db_loans db)" and "ln_id l = ln_id m"
  shows "l = m"
  using assms uniqueBy_eq [of ln_id "db_loans db" l m] by (simp add: loan_inv_def named_def)

lemma loan_change_inv:
  assumes "changed c uuid db db'" and "db_next db \<le> db_next db'" and inv: "loan_inv uuid db" and "inj uuid"
  shows "loan_inv uuid db'"
proof (cases c)
  case Same
  then show ?thesis using assms by (auto simp: loan_inv_def intro: named_mono)
next
  case (Added l)
  have "named uuid (Suc (db_next db)) ln_id (db_loans db')"
    using assms(1) inv Added named_snoc [OF assms(4), of "db_next db" ln_id "db_loans db" l] by (simp add: loan_inv_def)
  then have "named uuid (db_next db') ln_id (db_loans db')" using assms(1) Added by (auto intro: named_mono)
  moreover have "decided l" using assms(1) Added by (auto simp: decided_def)
  ultimately show ?thesis using assms(1) inv Added by (auto simp: loan_inv_def)
next
  case (Approved i a)
  then obtain l where l: "l \<in> set (db_loans db)" "ln_id l = i" "ln_initiatedById l \<noteq> Some a" using assms(1) by auto
  have dec: "decided (x\<lparr>ln_status := LN_APPROVED, ln_approvedById := Some a\<rparr>)" if "x \<in> set (db_loans db)" "ln_id x = i" for x
    using loan_inv_eq [OF inv that(1) l(1)] that(2) l(2,3) by (simp add: decided_def)
  show ?thesis
    by (rule loan_inv_upd [OF inv assms(2), where P = "\<lambda>l. ln_id l = i" and I = "{}"
        and f = "\<lambda>x. x\<lparr>ln_status := LN_APPROVED, ln_approvedById := Some a\<rparr>"])
      (use assms(1) Approved dec in simp_all)
next
  case (Rejected P)
  show ?thesis
    by (rule loan_inv_upd [OF inv assms(2), where P = P and f = "\<lambda>l. l\<lparr>ln_status := LN_REJECTED\<rparr>" and I = "{}"])
      (use assms(1) Rejected in \<open>auto simp: decided_def\<close>)
next
  case (Disbursed l t new)
  have l: "l \<in> set (db_loans db)" "ln_approvedById l \<noteq> None"
    using assms(1) inv Disbursed by (auto simp: loan_inv_def decided_def)
  have dec: "decided (x\<lparr>ln_status := LN_DISBURSED, ln_disbursedAt := Some t\<rparr>)" if "x \<in> set (db_loans db)" "ln_id x = ln_id l" "decided x" for x
    using loan_inv_eq [OF inv that(1) l(1) that(2)] l(2) that(3) by (simp add: decided_def)
  show ?thesis
    by (rule loan_inv_upd [OF inv assms(2), where P = "\<lambda>x. ln_id x = ln_id l" and I = "{ln_id l}"
        and f = "\<lambda>x. x\<lparr>ln_status := LN_DISBURSED, ln_disbursedAt := Some t\<rparr>"])
      (use assms(1) Disbursed l dec in \<open>auto\<close>)
next
  case (Repaid l us)
  have l: "l \<in> set (db_loans db)" using assms(1) Repaid by simp
  let ?f = "\<lambda>x. x\<lparr>ln_status := if fullyRepaid (ln_id l) (db_installments db') then LN_CLOSED
      else if ln_status l = LN_DISBURSED then LN_ACTIVE else ln_status x\<rparr>"
  have ids: "li_loanId ` set (db_installments db') = li_loanId ` set (db_installments db)"
    using assms(1) Repaid set_persist_loanIds by simp
  have appr: "ln_approvedById l \<noteq> None" if "fullyRepaid (ln_id l) (db_installments db')"
  proof -
    have "\<exists>r \<in> set (db_installments db'). li_loanId r = ln_id l"
      using that unfolding fullyRepaid_def filter_empty_conv by blast
    then obtain r where "r \<in> set (db_installments db')" "li_loanId r = ln_id l" ..
    then have "ln_id l \<in> li_loanId ` set (db_installments db)" unfolding ids [symmetric] by (metis image_eqI)
    then obtain q where q: "q \<in> set (db_installments db)" "li_loanId q = ln_id l" by (metis imageE)
    obtain m where m: "m \<in> set (db_loans db)" "ln_id m = ln_id l" "ln_approvedById m \<noteq> None"
      using loan_inv_installment [OF inv q(1)] q(2) by metis
    then have "m = l" using loan_inv_eq [OF inv _ l] by blast
    then show ?thesis using m(3) by simp
  qed
  have "decided (?f x)" if "x \<in> set (db_loans db)" "ln_id x = ln_id l" "decided x" for x
  proof -
    have "x = l" by (rule loan_inv_eq [OF inv that(1) l that(2)])
    then show ?thesis using that(3) appr unfolding decided_def by simp
  qed
  note dec = this
  have loans: "db_loans db' = updWhere (\<lambda>x. ln_id x = ln_id l) ?f (db_loans db)" using assms(1) Repaid by simp
  show ?thesis
    by (rule loan_inv_upd [OF inv assms(2) loans, where I = "{}"]) (simp_all add: ids dec)
qed

lemma loan_step_inv: "loan_step uuid db db' \<Longrightarrow> inj uuid \<Longrightarrow> loan_inv uuid db \<Longrightarrow> loan_inv uuid db'"
  by (rule loan_step_change [of uuid db db']) (auto simp: loan_inv_def [of uuid db] intro: loan_change_inv)

lemma loan_reach_inv: "(loan_step uuid)\<^sup>*\<^sup>* db db' \<Longrightarrow> inj uuid \<Longrightarrow> loan_inv uuid db \<Longrightarrow> loan_inv uuid db'"
  by (induction rule: rtranclp_induct) (auto intro: loan_step_inv)

section \<open>Properties\<close>


text \<open>The installments of a loan stay, and its term with them.\<close>

lemma loan_change_keeps:
  assumes "changed c uuid db db'" and "db_next db \<le> db_next db'"
  shows "(\<lambda>r. (li_loanId r, li_installmentNumber r)) ` set (db_installments db)
      \<subseteq> (\<lambda>r. (li_loanId r, li_installmentNumber r)) ` set (db_installments db')"
proof -
  have num: "map (\<lambda>r. (li_loanId r, li_installmentNumber r)) (persistUpdates us rs) = map (\<lambda>r. (li_loanId r, li_installmentNumber r)) rs" for us rs
    by (induction us arbitrary: rs) (simp_all add: persistUpdates_simps map_updWhere)
  have "(\<lambda>r. (li_loanId r, li_installmentNumber r)) ` set (persistUpdates us rs) = (\<lambda>r. (li_loanId r, li_installmentNumber r)) ` set rs" for us rs
    using num [of us rs] by (metis (no_types, lifting) list.set_map)
  then show ?thesis using assms(1) by (cases c) auto
qed

lemma loan_reach_keeps:
  assumes "(loan_step uuid)\<^sup>*\<^sup>* db db'" and "inj uuid" and "loan_inv uuid db"
    and "\<exists>r \<in> set (db_installments db). li_loanId r = i \<and> li_installmentNumber r = k"
  shows "\<exists>r \<in> set (db_installments db'). li_loanId r = i \<and> li_installmentNumber r = k"
  using assms
proof (induction rule: rtranclp_induct)
  case (step d d')
  have inv: "loan_inv uuid d" using loan_reach_inv [OF step(1)] step.prems by blast
  obtain c where "changed c uuid d d'" "db_next d \<le> db_next d'"
    using loan_step_change [OF step(2) step.prems(1)] inv by (auto simp: loan_inv_def)
  from loan_change_keeps [OF this] step.IH [OF step.prems] show ?case by fastforce
qed


end
