(* ===== verification/Loan_Examples.thy ===== *)
theory Loan_Examples
  imports Loan_Lifecycle Interest_Safety
begin

text \<open>A sample loan, on which the hypotheses of the loan theorems hold.\<close>

definition sampleLoan :: "loanStatus \<Rightarrow> loan" where
  "sampleLoan st = \<lparr>ln_id = ''xx'', ln_institutionId = ''i1'', ln_customerId = ''c1'', ln_branchId = None,
     ln_productVersionId = Some ''v1'', ln_principal = 6000, ln_interestRate = 24, ln_interestMethod = ''FLAT'',
     ln_termMonths = 2, ln_status = st, ln_initiatedById = Some ''u2'', ln_approvedById = Some ''u3'', ln_disbursedAt = None,
     ln_arrearsClassification = CURRENT, ln_daysInArrears = 0, ln_arrearsAmount = 0, ln_lastArrearsCheckAt = None,
     ln_createdAt = 1700000000000\<rparr>"

definition sampleInstallment :: "string \<Rightarrow> int \<Rightarrow> loanInstallment" where
  "sampleInstallment i k = \<lparr>li_id = i, li_loanId = ''xx'', li_installmentNumber = k, li_dueDate = 1700000000000,
     li_principalDue = 3000, li_interestDue = 120, li_totalDue = 3120, li_principalPaid = 0, li_interestPaid = 0,
     li_status = I_PENDING, li_deletedAt = None\<rparr>"

definition sampleLoanDb :: "loan list \<Rightarrow> loanInstallment list \<Rightarrow> loan_db" where
  "sampleLoanDb ls is = interest_db.extend (sampleInterestDb\<lparr>db_next := 5, db_vaults := [sampleVault]\<rparr>)
     (loan_db.fields ls is [] [sampleMapping ''Loan Receivable'' ''bank'', sampleMapping ''Cash/Bank (Disbursement)'' ''cash'']
        [] [] [] [] [] [] [] [])"

lemma sampleLoanDb_sel [simp]:
  "db_loans (sampleLoanDb ls is) = ls" "db_installments (sampleLoanDb ls is) = is" "db_next (sampleLoanDb ls is) = 5"
  "db_vaults (sampleLoanDb ls is) = [sampleVault]" "db_repayments (sampleLoanDb ls is) = []"
  "db_approvals (sampleLoanDb ls is) = []" "db_businessRules (sampleLoanDb ls is) = []" "db_journals (sampleLoanDb ls is) = []"
  "db_glAccounts (sampleLoanDb ls is) = [sampleAccount ''cash'' ASSET, sampleAccount ''bank'' ASSET, sampleAccount ''dep'' LIABILITY]"
  "db_periods (sampleLoanDb ls is) = [samplePeriod FP_OPEN]"
  "db_loanMappings (sampleLoanDb ls is) = [sampleMapping ''Loan Receivable'' ''bank'', sampleMapping ''Cash/Bank (Disbursement)'' ''cash'']"
  "db_customers (sampleLoanDb ls is) = [sampleCustomer]"
  by (simp_all add: sampleLoanDb_def sampleInterestDb_def interest_db.defs savings_db.defs loan_db.defs cash_db.defs gl_db.defs core_db.defs sampleSavingsDb_def)

lemma sampleLoanDb_ok: "books_ok (sampleLoanDb ls is)" "vaults_ok (sampleLoanDb ls is)"
  by (simp_all add: books_ok_def vaults_ok_def uniqueBy_def postedLines_def accountEffect_def sampleAccount_def sampleVault_def)

lemma sampleInj: "inj (e_uuid sampleEnv)"
  by (rule injI) (simp add: sampleEnv_def)

lemma sampleLoanDb_inv: "loan_inv (e_uuid sampleEnv) (sampleLoanDb [sampleLoan st] [])"
proof -
  have "''xx'' = e_uuid sampleEnv 2" by (simp add: sampleEnv_def numeral_2_eq_2)
  then have "''xx'' \<in> e_uuid sampleEnv ` {..<5}" by (simp add: image_iff) (rule bexI [of _ 2], simp_all)
  then show ?thesis
    by (auto simp: loan_inv_def named_def uniqueBy_def decided_def sampleLoan_def)
qed

lemma samplePosting:
  "postingAccounts sampleEnv (db_loanMappings (sampleLoanDb ls is)) ''Loan Receivable'' ''Cash/Bank (Disbursement)'' m (sampleLoanDb ls is)
    = Inr (sampleAccount ''bank'' ASSET, sampleAccount ''cash'' ASSET)"
  by (simp add: postingAccounts_def accountIdByPurpose_def findPostablePeriod_def accountById_def sampleMapping_def sampleEnv_def
      sampleAccount_def samplePeriod_def)

definition sampleDisbursement :: "(loan \<times> ruleWarnings) resp \<times> loan_db" where
  "sampleDisbursement = disburseLoan (\<lambda>x n. x) \<lparr>cv_parse = (\<lambda>_. None), cv_show = (\<lambda>_. [])\<rparr> sampleEnv ''xx'' (Some ''v1'')
     (sampleLoanDb [sampleLoan LN_APPROVED] [])"

lemma sampleDisbursement_ok: "\<exists>x. fst sampleDisbursement = ROk 200 x"
proof -
  let ?db = "sampleLoanDb [sampleLoan LN_APPROVED] []" and ?l = "sampleLoan LN_APPROVED"
  let ?cls = "transferLines (sampleAccount ''bank'' ASSET) (sampleAccount ''cash'' ASSET) (cents 6000)"
  have own: "ownLoan sampleEnv ''xx'' ?db = Some ?l" "ownVault sampleEnv ''v1'' ?db = Some sampleVault"
    by (simp_all add: ownLoan_def ownVault_def sampleLoan_def sampleVault_def sampleEnv_def)
  have l: "ln_principal ?l = 6000" "ln_id ?l = ''xx''" "ln_status ?l = LN_APPROVED" "va_status sampleVault = V_OPEN"
    by (simp_all add: sampleLoan_def sampleVault_def)
  have dec: "guardedDecrement va_id va_balance updVaultBalance ''v1'' (cents 6000) [sampleVault] = Some [sampleVault\<lparr>va_balance := 4000\<rparr>]"
    by (simp add: guardedDecrement_def sampleVault_def updVaultBalance_def)
  have tx: "\<exists>q. disburseTx sampleEnv ''v1'' ?l cls (generateSchedule p a r n m t) ?db = Inr q" if "cls = ?cls" for cls p a r n m t
  proof -
    have "distinct (map sr_installmentNumber (generateSchedule p a r n m t))" by (simp add: generateSchedule_numbers)
    then show ?thesis
      using that dec
      by (simp add: disburseTx_def l postJournal_def createJournal_def recordCash_def Let_def createInstallments_def updLoan_def
          transferLines_def accountById_def postLine_def sampleVault_def sampleAccount_def list_ex_iff)
  qed
  obtain q where "disburseTx sampleEnv ''v1'' ?l ?cls (generateSchedule (\<lambda>x n. x) (cents 6000) (ln_interestRate ?l) (ln_termMonths ?l)
      (ln_interestMethod ?l) (e_now sampleEnv)) ?db = Inr q" using tx [OF refl] by blast
  moreover have "isBalanced (map snd ?cls)" by (simp add: balanced_transfer)
  ultimately show ?thesis
    by (simp add: sampleDisbursement_def disburseLoan_def answer_def require_def own l samplePosting [simplified] pendingRuleApproval_def noPendingRule_def
        matchRules_def noReject_def Let_def split_beta)
qed




definition sampleRepayment :: "(loanRepayment \<times> bool) resp \<times> loan_db" where
  "sampleRepayment = repayLoan sampleEnv ''xx'' (Some (cents 4000))
     (sampleLoanDb [sampleLoan LN_DISBURSED] [sampleInstallment ''k1'' 1, sampleInstallment ''k2'' 2])"

lemma sampleRepayment_run: "\<exists>x c. repayLoan sampleEnv ''xx'' (Some (cents 4000))
     (sampleLoanDb [sampleLoan LN_DISBURSED] [sampleInstallment ''k1'' 1, sampleInstallment ''k2'' 2]) = (ROk 201 (x, c), snd sampleRepayment)"
proof -
  let ?db = "sampleLoanDb [sampleLoan LN_DISBURSED] [sampleInstallment ''k1'' 1, sampleInstallment ''k2'' 2]"
  let ?cls = "transferLines (sampleAccount ''cash'' ASSET) (sampleAccount ''bank'' ASSET) (cents 4000)"
  have own: "ownLoan sampleEnv ''xx'' ?db = Some (sampleLoan LN_DISBURSED)"
    by (simp add: ownLoan_def sampleLoan_def sampleEnv_def)
  have l: "ln_id (sampleLoan LN_DISBURSED) = ''xx''" by (simp add: sampleLoan_def)
  obtain x c db1 where ap: "applyLoanRepaymentInTx sampleEnv ''xx'' (cents 4000) (e_userId sampleEnv) ?db = Inr ((x, c), db1)"
    by (simp add: applyLoanRepaymentInTx_def sampleLoan_def Let_def)
  note A = applyLoanRepayment_result [OF ap]
  have "\<exists>q. postJournal sampleEnv i AUTOMATIC d t u v cls db1 = Inr q" if "cls = ?cls" for cls i d t u v
    using that A(6,7) by (simp add: postJournal_def createJournal_def Let_def transferLines_def accountById_def postLine_def sampleAccount_def)
  then obtain q where q: "postJournal sampleEnv (e_institutionId sampleEnv) AUTOMATIC (''Loan repayment - loan '' @ ln_id (sampleLoan LN_DISBURSED))
      (e_now sampleEnv) (e_userId sampleEnv) (e_userId sampleEnv) ?cls db1 = Inr q" by blast
  have "isBalanced (map snd ?cls)" "0 < cents 4000" by (simp_all add: balanced_transfer cents_pos_iff)
  then have "\<exists>y. fst sampleRepayment = ROk 201 y"
    using q ap
    by (simp add: sampleRepayment_def repayLoan_def answer_def parseBody_def safeParse_def require_def own samplePosting [simplified] Let_def split_beta l)
  then show ?thesis by (auto simp: sampleRepayment_def prod_eq_iff)
qed

lemma sampleInstallments_ok:
  "installments_ok (sampleLoanDb ls [sampleInstallment ''k1'' 1, sampleInstallment ''k2'' 2])"
  "loanInstallments ''xx'' [sampleInstallment ''k1'' 1, sampleInstallment ''k2'' 2] = [sampleInstallment ''k1'' 1, sampleInstallment ''k2'' 2]"
  by (simp_all add: installments_ok_def uniqueBy_def instCents_def loanInstallments_def sampleInstallment_def)

theorem loan_repayment_refines_witness:
  "map instCents (loanInstallments ''xx'' (db_installments (snd sampleRepayment))) = [(120, 3000, 120, 3000), (120, 3000, 120, 760)]"
proof -
  obtain x c where run: "repayLoan sampleEnv ''xx'' (Some (cents 4000))
     (sampleLoanDb [sampleLoan LN_DISBURSED] [sampleInstallment ''k1'' 1, sampleInstallment ''k2'' 2]) = (ROk 201 (x, c), snd sampleRepayment)"
    using sampleRepayment_run by blast
  have "waterfall (map instCents [sampleInstallment ''k1'' 1, sampleInstallment ''k2'' 2]) 4000 = [(120, 3000, 120, 3000), (120, 3000, 120, 760)]"
    by (simp add: instCents_def sampleInstallment_def Let_def)
  then show ?thesis
    using loan_repayment_refines [OF sampleLoanDb_ok(1) sampleInstallments_ok(1) _ _ run] by (simp add: sampleInstallments_ok(2))
qed

theorem repaid_loan_bounds_witness:
  "sum_list (map paidOf (map instCents (loanInstallments ''xx'' (db_installments (snd sampleRepayment))))) = 4000"
proof -
  obtain x c where run: "repayLoan sampleEnv ''xx'' (Some (cents 4000))
     (sampleLoanDb [sampleLoan LN_DISBURSED] [sampleInstallment ''k1'' 1, sampleInstallment ''k2'' 2]) = (ROk 201 (x, c), snd sampleRepayment)"
    using sampleRepayment_run by blast
  have "map instCents [sampleInstallment ''k1'' 1, sampleInstallment ''k2'' 2] = [(120, 3000, 0, 0), (120, 3000, 0, 0)]"
    by (simp add: instCents_def sampleInstallment_def)
  then show ?thesis
    using repaid_loan_bounds [OF sampleLoanDb_ok(1) sampleInstallments_ok(1) _ _ run] by (simp add: sampleInstallments_ok(2))
qed

end
