(* ===== verification/Customer_Care.thy ===== *)
theory Customer_Care
  imports Loans Security
begin

text \<open>
  Interactions and complaints (\<open>routes/crm.routes.ts\<close>) and the notifications that the resolution of a
  complaint sends (\<open>lib/notifications.ts\<close>, \<open>routes/notifications.routes.ts\<close>). The three providers are
  services outside the repository: \<open>nf_deliver\<close> is what a request to one answers.
\<close>

section \<open>Tables\<close>

datatype interactionChannel = CALL | BRANCH_VISIT | I_EMAIL | I_SMS | LIVE_CHAT | SOCIAL_MEDIA | MEETING

record customerInteraction =
  ci_id :: string
  ci_institutionId :: string
  ci_customerId :: string
  ci_channel :: interactionChannel
  ci_summary :: string
  ci_followUpScheduledAt :: "time option"
  ci_followUpCompleted :: bool
  ci_followUpCompletedAt :: "time option"
  ci_followUpCompletedById :: "string option"
  ci_followUpNotes :: "string option"
  ci_recordedById :: string

datatype complaintCategory =
  SERVICE_QUALITY | LOAN_TERMS | FEES_CHARGES | STAFF_CONDUCT | TRANSACTION_ERROR | FRAUD_SECURITY | OTHER_COMPLAINT

datatype complaintPriority = CP_LOW | CP_MEDIUM | CP_HIGH | CP_CRITICAL
datatype complaintStatus = CO_OPEN | CO_INVESTIGATING | CO_RESOLVED | CO_CLOSED

fun showComplaintStatus :: "complaintStatus \<Rightarrow> string" where
  "showComplaintStatus CO_OPEN = ''OPEN''"
| "showComplaintStatus CO_INVESTIGATING = ''INVESTIGATING''"
| "showComplaintStatus CO_RESOLVED = ''RESOLVED''"
| "showComplaintStatus CO_CLOSED = ''CLOSED''"

record customerComplaint =
  cc_id :: string
  cc_institutionId :: string
  cc_customerId :: string
  cc_referenceNumber :: string
  cc_category :: complaintCategory
  cc_priority :: complaintPriority
  cc_description :: string
  cc_status :: complaintStatus
  cc_assignedToId :: "string option"
  cc_slaTargetAt :: time
  cc_escalated :: bool
  cc_escalatedAt :: "time option"
  cc_investigationNotes :: "string option"
  cc_resolutionNotes :: "string option"
  cc_resolvedAt :: "time option"
  cc_resolvedById :: "string option"
  cc_customerNotifiedAt :: "time option"
  cc_raisedById :: string
  cc_createdAt :: time

datatype notificationChannel = SMS | EMAIL | WHATSAPP
datatype notificationStatus = NS_PENDING | NS_SENT | NS_FAILED

record providerConfig =
  nc_id :: string
  nc_institutionId :: string
  nc_channel :: notificationChannel
  nc_provider :: string
  nc_credentialsEncrypted :: string
  nc_senderId :: "string option"
  nc_active :: bool

record notification =
  no_id :: string
  no_institutionId :: string
  no_channel :: notificationChannel
  no_recipient :: string
  no_subject :: "string option"
  no_body :: string
  no_template :: "(string \<times> string) option"
  no_status :: notificationStatus
  no_providerMessageId :: "string option"
  no_errorMessage :: "string option"
  no_related :: "(string \<times> string) option"
  no_sentById :: "string option"

record crm_db = loan_db +
  db_interactions :: "customerInteraction list"
  db_complaints :: "customerComplaint list"
  db_providerConfigs :: "providerConfig list"
  db_notifications :: "notification list"

section \<open>Notifications\<close>

type_synonym credentials = "(string \<times> string) list"

text \<open>A message as the caller states it: recipient, subject, body, template with language, related resource, sender.\<close>

record message =
  ms_to :: string
  ms_subject :: "string option"
  ms_body :: string
  ms_template :: "(string \<times> string) option"
  ms_related :: "(string \<times> string) option"
  ms_sentById :: "string option"

text \<open>
  Serialization and encryption of the credentials, and the answer of the provider: its message
  identifier, or the message of the exception.
\<close>

record notifier =
  nf_encrypt :: "nat \<Rightarrow> credentials \<Rightarrow> terr + string"
  nf_decrypt :: "string \<Rightarrow> terr + credentials"
  nf_deliver :: "notificationChannel \<Rightarrow> credentials \<Rightarrow> string option \<Rightarrow> message \<Rightarrow> string + string option"

definition getProviderConfig ::
  "notifier \<Rightarrow> string \<Rightarrow> notificationChannel \<Rightarrow> 'a crm_db_scheme \<Rightarrow> terr + (providerConfig \<times> credentials) option" where
  "getProviderConfig nf inst ch db =
     (case find (\<lambda>c. nc_institutionId c = inst \<and> nc_channel c = ch) (db_providerConfigs db) of
        None \<Rightarrow> Inr None
      | Some c \<Rightarrow> if \<not> nc_active c then Inr None
          else bindE (nf_decrypt nf (nc_credentialsEncrypted c)) (\<lambda>cred. Inr (Some (c, cred))))"

record sendResult =
  re_sent :: bool
  re_notificationId :: string
  re_error :: "string option"

text \<open>Every attempt leaves a row; a failure leaves an audit row without a user as well.\<close>

definition recordAndAlert ::
  "env \<Rightarrow> string \<Rightarrow> notificationChannel \<Rightarrow> message \<Rightarrow> string + string option \<Rightarrow> 'a crm_db_scheme
    \<Rightarrow> sendResult \<times> 'a crm_db_scheme" where
  "recordAndAlert env inst ch m outcome db =
     (let n = \<lparr>no_id = newId env db, no_institutionId = inst, no_channel = ch, no_recipient = ms_to m, no_subject = ms_subject m,
          no_body = ms_body m, no_template = ms_template m,
          no_status = (case outcome of Inr _ \<Rightarrow> NS_SENT | Inl _ \<Rightarrow> NS_FAILED),
          no_providerMessageId = (case outcome of Inr p \<Rightarrow> p | Inl _ \<Rightarrow> None),
          no_errorMessage = (case outcome of Inr _ \<Rightarrow> None | Inl e \<Rightarrow> Some (if e = [] then ''Unknown error'' else e)),
          no_related = ms_related m, no_sentById = ms_sentById m\<rparr>;
          db1 = db\<lparr>db_next := Suc (db_next db), db_notifications := db_notifications db @ [n]\<rparr>
      in case outcome of
           Inr _ \<Rightarrow> (\<lparr>re_sent = True, re_notificationId = no_id n, re_error = None\<rparr>, db1)
         | Inl _ \<Rightarrow> (\<lparr>re_sent = False, re_notificationId = no_id n, re_error = no_errorMessage n\<rparr>,
             db1\<lparr>db_audit := db_audit db1 @ [\<lparr>al_institutionId = inst, al_userId = None, al_action = ''notification.failed'',
               al_resource = ''notification'', al_resourceId = no_id n, al_createdAt = e_now env\<rparr>]\<rparr>))"

fun showChannel :: "notificationChannel \<Rightarrow> string" where
  "showChannel SMS = ''SMS''"
| "showChannel EMAIL = ''email''"
| "showChannel WHATSAPP = ''WhatsApp''"

text \<open>\<open>sendEmail\<close>, \<open>sendSms\<close> and \<open>sendWhatsapp\<close>, by channel.\<close>

definition sendNotification ::
  "notifier \<Rightarrow> env \<Rightarrow> string \<Rightarrow> notificationChannel \<Rightarrow> message \<Rightarrow> 'a crm_db_scheme \<Rightarrow> terr + sendResult \<times> 'a crm_db_scheme" where
  "sendNotification nf env inst ch m db =
     bindE (getProviderConfig nf inst ch db) (\<lambda>config.
       case config of
         None \<Rightarrow> Inr (\<lparr>re_sent = False, re_notificationId = [],
           re_error = Some (''No active '' @ showChannel ch @ '' provider configured for this institution'')\<rparr>, db)
       | Some (c, cred) \<Rightarrow> Inr (recordAndAlert env inst ch m (nf_deliver nf ch cred (nc_senderId c) m) db))"

record configBody =
  gb_channel :: notificationChannel
  gb_provider :: string
  gb_credentials :: credentials
  gb_senderId :: "string option"

definition configKey :: "env \<Rightarrow> notificationChannel \<Rightarrow> providerConfig \<Rightarrow> bool" where
  "configKey env ch c \<longleftrightarrow> nc_institutionId c = e_institutionId env \<and> nc_channel c = ch"

definition orKeep :: "'v option \<Rightarrow> 'v option \<Rightarrow> 'v option" where
  "orKeep new old = (case new of None \<Rightarrow> old | Some v \<Rightarrow> Some v)"

definition setProviderConfig ::
  "notifier \<Rightarrow> env \<Rightarrow> configBody option \<Rightarrow> 'a crm_db_scheme \<Rightarrow> providerConfig resp \<times> 'a crm_db_scheme" where
  "setProviderConfig nf env body db = answer 201 db (
     bindE (parseBody (\<lambda>b. gb_provider b \<noteq> []) body) (\<lambda>b.
     bindE (nf_encrypt nf (db_next db) (gb_credentials b)) (\<lambda>enc.
     let new = \<lparr>nc_id = newId env db, nc_institutionId = e_institutionId env, nc_channel = gb_channel b, nc_provider = gb_provider b,
           nc_credentialsEncrypted = enc, nc_senderId = gb_senderId b, nc_active = True\<rparr>;
         update = (\<lambda>c. c\<lparr>nc_provider := gb_provider b, nc_credentialsEncrypted := enc,
           nc_senderId := orKeep (gb_senderId b) (nc_senderId c), nc_active := True\<rparr>);
         (c, cs) = (case find (configKey env (gb_channel b)) (db_providerConfigs db) of
             None \<Rightarrow> (new, db_providerConfigs db @ [new])
           | Some c \<Rightarrow> (update c, updWhere (configKey env (gb_channel b)) update (db_providerConfigs db)))
     in Inr (c, audit env ''notification_config.set'' ''notification_provider_config'' (nc_id c)
          (db\<lparr>db_next := Suc (db_next db), db_providerConfigs := cs\<rparr>)))))"

definition deactivateProviderConfig :: "env \<Rightarrow> string \<Rightarrow> 'a crm_db_scheme \<Rightarrow> unit resp \<times> 'a crm_db_scheme" where
  "deactivateProviderConfig env i db =
     (case find (\<lambda>c. nc_id c = i \<and> nc_institutionId c = e_institutionId env) (db_providerConfigs db) of
        None \<Rightarrow> fail 404 ''Config not found'' db
      | Some c \<Rightarrow> (ROk 200 (), db\<lparr>db_providerConfigs := updWhere (\<lambda>x. nc_id x = nc_id c) (\<lambda>x. x\<lparr>nc_active := False\<rparr>) (db_providerConfigs db)\<rparr>))"

record testBody =
  xt_channel :: notificationChannel
  xt_to :: string
  xt_templateName :: "string option"
  xt_templateLanguage :: "string option"

definition testMessage :: "env \<Rightarrow> testBody \<Rightarrow> message" where
  "testMessage env b = \<lparr>ms_to = xt_to b,
     ms_subject = (if xt_channel b = EMAIL then Some ''Nexus EFOS - test notification'' else None),
     ms_body = (case xt_channel b of
         EMAIL \<Rightarrow> ''<p>This is a test notification from Nexus EFOS.</p>''
       | SMS \<Rightarrow> ''Nexus EFOS test notification: this channel is working.''
       | WHATSAPP \<Rightarrow> ''Test notification''),
     ms_template = (if xt_channel b = WHATSAPP then Some (the (xt_templateName b), the (xt_templateLanguage b)) else None),
     ms_related = None, ms_sentById = Some (e_userId env)\<rparr>"

definition testNotification ::
  "notifier \<Rightarrow> env \<Rightarrow> testBody option \<Rightarrow> 'a crm_db_scheme \<Rightarrow> sendResult resp \<times> 'a crm_db_scheme" where
  "testNotification nf env body db =
     (case bindE (parseBody (\<lambda>b. xt_to b \<noteq> []) body) (\<lambda>b.
        bindE (require (xt_channel b \<noteq> WHATSAPP \<or> truthy (xt_templateName b) \<and> truthy (xt_templateLanguage b)) 400
          (''WhatsApp test requires templateName and templateLanguage - a pre-approved template in Meta'' @ CHR 0x27 # ''s WhatsApp Manager'')) (\<lambda>_.
        sendNotification nf env (e_institutionId env) (xt_channel b) (testMessage env b) db)) of
        Inl e \<Rightarrow> answerError e db
      | Inr (r, db1) \<Rightarrow> (ROk (if re_sent r then 200 else 502) r, db1))"

section \<open>Interactions\<close>

record interactionBody =
  ib_customerId :: string
  ib_channel :: interactionChannel
  ib_summary :: string
  ib_followUpScheduledAt :: "string option"

definition recordInteraction :: "env \<Rightarrow> interactionBody option \<Rightarrow> 'a crm_db_scheme \<Rightarrow> customerInteraction resp \<times> 'a crm_db_scheme" where
  "recordInteraction env body db = answer 201 db (
     bindE (parseBody (\<lambda>b. ib_summary b \<noteq> []) body) (\<lambda>b.
     bindE (orThrow (Http 404 ''Customer not found'') (ownCustomer env (ib_customerId b) db)) (\<lambda>_.
     bindE (if truthy (ib_followUpScheduledAt b)
            then bindE (orThrow Thrown (e_parseDate env (the (ib_followUpScheduledAt b)))) (\<lambda>d. Inr (Some d)) else Inr None) (\<lambda>due.
     let r = \<lparr>ci_id = newId env db, ci_institutionId = e_institutionId env, ci_customerId = ib_customerId b, ci_channel = ib_channel b,
           ci_summary = ib_summary b, ci_followUpScheduledAt = due, ci_followUpCompleted = False, ci_followUpCompletedAt = None,
           ci_followUpCompletedById = None, ci_followUpNotes = None, ci_recordedById = e_userId env\<rparr>
     in Inr (r, audit env ''customer_interaction.record'' ''customer_interaction'' (ci_id r)
          (db\<lparr>db_next := Suc (db_next db), db_interactions := db_interactions db @ [r]\<rparr>))))))"

definition completeFollowUp ::
  "env \<Rightarrow> string \<Rightarrow> string option option \<Rightarrow> 'a crm_db_scheme \<Rightarrow> customerInteraction resp \<times> 'a crm_db_scheme" where
  "completeFollowUp env i body db = answer 200 db (
     bindE (parseBody (\<lambda>_. True) body) (\<lambda>notes.
     bindE (orThrow (Http 404 ''Interaction not found'')
       (find (\<lambda>r. ci_id r = i \<and> ci_institutionId r = e_institutionId env) (db_interactions db))) (\<lambda>r.
     bindE (require (ci_followUpScheduledAt r \<noteq> None) 400 ''This interaction has no follow-up scheduled'') (\<lambda>_.
     bindE (require (\<not> ci_followUpCompleted r) 400 ''Follow-up already completed'') (\<lambda>_.
     let f = (\<lambda>r. r\<lparr>ci_followUpCompleted := True, ci_followUpCompletedAt := Some (e_now env),
           ci_followUpCompletedById := Some (e_userId env), ci_followUpNotes := orKeep notes (ci_followUpNotes r)\<rparr>)
     in Inr (f r, audit env ''customer_interaction.complete_follow_up'' ''customer_interaction'' (ci_id r)
          (db\<lparr>db_interactions := updWhere (\<lambda>x. ci_id x = ci_id r) f (db_interactions db)\<rparr>)))))))"

section \<open>Complaints\<close>

definition generateComplaintReference :: "time \<Rightarrow> num \<Rightarrow> string" where
  "generateComplaintReference now r = (let s = showNat (nat now) in
     ''CMP'' @ drop (length s - 10) s @ padStart 3 (showNat (nat \<lfloor>nmul r 1000\<rfloor>)))"

fun slaTargetHours :: "complaintPriority \<Rightarrow> int" where
  "slaTargetHours CP_CRITICAL = 24"
| "slaTargetHours CP_HIGH = 48"
| "slaTargetHours CP_MEDIUM = 120"
| "slaTargetHours CP_LOW = 240"

definition computeSlaTarget :: "complaintPriority \<Rightarrow> time \<Rightarrow> time" where
  "computeSlaTarget p t = t + slaTargetHours p * 60 * 60 * 1000"

record complaintBody =
  pb_customerId :: string
  pb_category :: complaintCategory
  pb_priority :: "complaintPriority option"
  pb_description :: string
  pb_assignedToId :: "string option"

definition registerComplaint :: "env \<Rightarrow> complaintBody option \<Rightarrow> 'a crm_db_scheme \<Rightarrow> customerComplaint resp \<times> 'a crm_db_scheme" where
  "registerComplaint env body db = answer 201 db (
     bindE (parseBody (\<lambda>b. 2 \<le> length (pb_description b)) body) (\<lambda>b.
     bindE (orThrow (Http 404 ''Customer not found'') (ownCustomer env (pb_customerId b) db)) (\<lambda>_.
     let priority = (case pb_priority b of None \<Rightarrow> CP_MEDIUM | Some p \<Rightarrow> p);
         c = \<lparr>cc_id = newId env db, cc_institutionId = e_institutionId env, cc_customerId = pb_customerId b,
           cc_referenceNumber = generateComplaintReference (e_now env) (e_rand env (db_next db)), cc_category = pb_category b,
           cc_priority = priority, cc_description = pb_description b, cc_status = CO_OPEN, cc_assignedToId = pb_assignedToId b,
           cc_slaTargetAt = computeSlaTarget priority (e_now env), cc_escalated = False, cc_escalatedAt = None,
           cc_investigationNotes = None, cc_resolutionNotes = None, cc_resolvedAt = None, cc_resolvedById = None,
           cc_customerNotifiedAt = None, cc_raisedById = e_userId env, cc_createdAt = e_now env\<rparr>
     in if find (\<lambda>x. cc_referenceNumber x = cc_referenceNumber c) (db_complaints db) \<noteq> None then Inl Thrown
        else Inr (c, audit env ''complaint.register'' ''customer_complaint'' (cc_id c)
          (db\<lparr>db_next := Suc (db_next db), db_complaints := db_complaints db @ [c]\<rparr>)))))"

definition findComplaint :: "env \<Rightarrow> string \<Rightarrow> 'a crm_db_scheme \<Rightarrow> terr + customerComplaint" where
  "findComplaint env i db = orThrow (Http 404 ''Complaint not found'')
     (find (\<lambda>c. cc_id c = i \<and> cc_institutionId c = e_institutionId env) (db_complaints db))"

definition updComplaint :: "string \<Rightarrow> (customerComplaint \<Rightarrow> customerComplaint) \<Rightarrow> 'a crm_db_scheme \<Rightarrow> 'a crm_db_scheme" where
  "updComplaint i f db = db\<lparr>db_complaints := updWhere (\<lambda>c. cc_id c = i) f (db_complaints db)\<rparr>"

text \<open>The body: whom to assign it to and the notes.\<close>

definition investigateComplaint ::
  "env \<Rightarrow> string \<Rightarrow> (string option \<times> string option) option \<Rightarrow> 'a crm_db_scheme \<Rightarrow> customerComplaint resp \<times> 'a crm_db_scheme" where
  "investigateComplaint env i body db = answer 200 db (
     bindE (parseBody (\<lambda>_. True) body) (\<lambda>(assignee, notes).
     bindE (findComplaint env i db) (\<lambda>c.
     bindE (require (cc_status c = CO_OPEN) 400 (''Cannot move to investigating from '' @ showComplaintStatus (cc_status c))) (\<lambda>_.
     let f = (\<lambda>x. x\<lparr>cc_status := CO_INVESTIGATING, cc_assignedToId := orKeep assignee (cc_assignedToId c),
           cc_investigationNotes := orKeep notes (cc_investigationNotes x)\<rparr>)
     in Inr (f c, audit env ''complaint.investigate'' ''customer_complaint'' (cc_id c) (updComplaint (cc_id c) f db))))))"

definition colString :: "string \<Rightarrow> customer \<Rightarrow> string option" where
  "colString k c = (case map_of (cu_columns c) k of Some (JStr s) \<Rightarrow> Some s | _ \<Rightarrow> None)"

definition colTrue :: "string \<Rightarrow> customer \<Rightarrow> bool" where
  "colTrue k c \<longleftrightarrow> map_of (cu_columns c) k = Some (JBool True)"

definition resolutionText :: "customerComplaint \<Rightarrow> string \<Rightarrow> string" where
  "resolutionText c notes = ''Nexus EFOS: your complaint '' @ cc_referenceNumber c @ '' has been resolved. '' @ notes"

text \<open>
  Text message first; e-mail if that was not sent and the customer takes it. Whatever was recorded
  before an exception stays recorded.
\<close>

definition notifyCustomer ::
  "notifier \<Rightarrow> env \<Rightarrow> customerComplaint \<Rightarrow> string \<Rightarrow> customer \<Rightarrow> 'a crm_db_scheme \<Rightarrow> (terr + bool) \<times> 'a crm_db_scheme" where
  "notifyCustomer nf env c notes cust db =
     (let text = resolutionText c notes;
          m = \<lparr>ms_to = (case colString ''phone'' cust of None \<Rightarrow> [] | Some p \<Rightarrow> p), ms_subject = None, ms_body = text, ms_template = None,
            ms_related = Some (''CustomerComplaint'', cc_id c), ms_sentById = Some (e_userId env)\<rparr>;
          attempt = (\<lambda>ch m d. case sendNotification nf env (e_institutionId env) ch m d of
              Inl e \<Rightarrow> (Inl e, d) | Inr (r, d') \<Rightarrow> (Inr (re_sent r), d'))
      in case (if colTrue ''smsEnabled'' cust then attempt SMS m db else (Inr False, db)) of
           (Inl e, db1) \<Rightarrow> (Inl e, db1)
         | (Inr sent, db1) \<Rightarrow>
             if \<not> sent \<and> colTrue ''emailEnabled'' cust \<and> truthy (colString ''email'' cust)
             then attempt EMAIL (m\<lparr>ms_to := the (colString ''email'' cust),
               ms_subject := Some (''Complaint '' @ cc_referenceNumber c @ '' resolved''), ms_body := ''<p>'' @ text @ ''</p>''\<rparr>) db1
             else (Inr sent, db1))"

definition resolvable :: "env \<Rightarrow> string \<Rightarrow> (string \<times> bool) option \<Rightarrow> 'a crm_db_scheme \<Rightarrow> terr + (string \<times> bool) \<times> customerComplaint" where
  "resolvable env i body db =
     bindE (parseBody (\<lambda>(notes, _). 2 \<le> length notes) body) (\<lambda>b.
     bindE (findComplaint env i db) (\<lambda>c.
     bindE (require (cc_status c = CO_OPEN \<or> cc_status c = CO_INVESTIGATING) 400
       (''Cannot resolve from status '' @ showComplaintStatus (cc_status c))) (\<lambda>_. Inr (b, c))))"

text \<open>The body: the notes, and whether to notify the customer. The message goes out first.\<close>

definition resolveComplaint ::
  "notifier \<Rightarrow> env \<Rightarrow> string \<Rightarrow> (string \<times> bool) option \<Rightarrow> 'a crm_db_scheme \<Rightarrow> (customerComplaint \<times> bool) resp \<times> 'a crm_db_scheme" where
  "resolveComplaint nf env i body db =
     (case resolvable env i body db of
        Inl e \<Rightarrow> answerError e db
      | Inr ((notes, notify), c) \<Rightarrow>
     (case (case (if notify then find (\<lambda>u. customer.cu_id u = cc_customerId c) (db_customers db) else None) of
              None \<Rightarrow> (Inr False, db)
            | Some u \<Rightarrow> notifyCustomer nf env c notes u db) of
        (Inl e, db1) \<Rightarrow> answerError e db1
      | (Inr sent, db1) \<Rightarrow>
          (let f = (\<lambda>x. x\<lparr>cc_status := CO_RESOLVED, cc_resolutionNotes := Some notes, cc_resolvedAt := Some (e_now env),
               cc_resolvedById := Some (e_userId env),
               cc_customerNotifiedAt := (if sent then Some (e_now env) else cc_customerNotifiedAt x)\<rparr>)
           in (ROk 200 (f c, sent), audit env ''complaint.resolve'' ''customer_complaint'' (cc_id c) (updComplaint (cc_id c) f db1)))))"

definition closeComplaint :: "env \<Rightarrow> string \<Rightarrow> 'a crm_db_scheme \<Rightarrow> customerComplaint resp \<times> 'a crm_db_scheme" where
  "closeComplaint env i db = answer 200 db (
     bindE (findComplaint env i db) (\<lambda>c.
     bindE (require (cc_status c = CO_RESOLVED) 400 ''Only a resolved complaint can be closed'') (\<lambda>_.
     let f = (\<lambda>x. x\<lparr>cc_status := CO_CLOSED\<rparr>)
     in Inr (f c, audit env ''complaint.close'' ''customer_complaint'' (cc_id c) (updComplaint (cc_id c) f db)))))"

end
