(* ===== verification/Collections.thy ===== *)
theory Collections
  imports Customer_Care
begin

text \<open>
  Field collections (\<open>routes/collections.routes.ts\<close>): collectors and their routes, the recording and
  reversal of collections, the settlement of the cash with its variance, commissions, and the
  reports that score loans and collectors.
\<close>

section \<open>Tables\<close>

datatype availability = AVAILABLE | ON_LEAVE | COL_SUSPENDED

fun showAvailability :: "availability \<Rightarrow> string" where
  "showAvailability AVAILABLE = ''AVAILABLE''"
| "showAvailability ON_LEAVE = ''ON_LEAVE''"
| "showAvailability COL_SUSPENDED = ''SUSPENDED''"

record collector =
  kl_id :: string
  kl_institutionId :: string
  kl_employeeId :: string
  kl_branchId :: "string option"
  kl_availability :: availability
  kl_suspendedById :: "string option"
  kl_suspendedAt :: "time option"
  kl_suspendedReason :: "string option"

record collectionRoute =
  ro_id :: string
  ro_institutionId :: string
  ro_branchId :: "string option"
  ro_name :: string
  ro_collectorId :: "string option"
  ro_isTemporary :: bool
  ro_active :: bool

record routeCustomer =
  rc_id :: string
  rc_routeId :: string
  rc_customerId :: string
  rc_sequence :: "int option"
  rc_active :: bool
  rc_removedAt :: "time option"

datatype collectionType = C_SAVINGS_DEPOSIT | C_LOAN_REPAYMENT
datatype collectionStatus = C_COMPLETED | C_REVERSED

record collectionTransaction =
  cx_id :: string
  cx_institutionId :: string
  cx_transactionNumber :: string
  cx_type :: collectionType
  cx_collectorId :: string
  cx_customerId :: string
  cx_targetId :: string
  cx_amount :: int
  cx_status :: collectionStatus
  cx_reversedById :: "string option"
  cx_reversedAt :: "time option"
  cx_reversalReason :: "string option"
  cx_collectedAt :: time
  cx_recordedById :: string

datatype settlementStatus = SE_PENDING | SE_RECONCILED | SE_VARIANCE_PENDING_APPROVAL

record collectionSettlement =
  se_id :: string
  se_institutionId :: string
  se_collectorId :: string
  se_settlementDate :: time
  se_expectedAmount :: int
  se_actualAmount :: int
  se_variance :: int
  se_status :: settlementStatus
  se_notes :: "string option"
  se_reconciledById :: "string option"
  se_reconciledAt :: "time option"

text \<open>The rate of a commission is kept in thousandths.\<close>

record commissionStructure =
  cs_id :: string
  cs_institutionId :: string
  cs_name :: string
  cs_percentage :: bool
  cs_rate :: int
  cs_active :: bool

datatype commissionStatus = CM_PENDING | CM_PENDING_APPROVAL | CM_PAID

fun showCommissionStatus :: "commissionStatus \<Rightarrow> string" where
  "showCommissionStatus CM_PENDING = ''PENDING''"
| "showCommissionStatus CM_PENDING_APPROVAL = ''PENDING_APPROVAL''"
| "showCommissionStatus CM_PAID = ''PAID''"

record commissionRecord =
  cr_id :: string
  cr_institutionId :: string
  cr_collectorId :: string
  cr_structureId :: string
  cr_periodStart :: time
  cr_periodEnd :: time
  cr_totalCollected :: int
  cr_collectionCount :: int
  cr_commissionAmount :: int
  cr_status :: commissionStatus
  cr_paidAt :: "time option"

record collections_db = crm_db +
  db_collectors :: "collector list"
  db_routes :: "collectionRoute list"
  db_routeCustomers :: "routeCustomer list"
  db_collections :: "collectionTransaction list"
  db_settlements :: "collectionSettlement list"
  db_commissionStructures :: "commissionStructure list"
  db_commissions :: "commissionRecord list"

section \<open>Collectors\<close>

definition ownCollector :: "env \<Rightarrow> string \<Rightarrow> 'a collections_db_scheme \<Rightarrow> terr + collector" where
  "ownCollector env i db = orThrow (Http 404 ''Collector not found'')
     (find (\<lambda>c. kl_id c = i \<and> kl_institutionId c = e_institutionId env) (db_collectors db))"

definition updCollector :: "string \<Rightarrow> (collector \<Rightarrow> collector) \<Rightarrow> 'a collections_db_scheme \<Rightarrow> 'a collections_db_scheme" where
  "updCollector i f db = db\<lparr>db_collectors := updWhere (\<lambda>c. kl_id c = i) f (db_collectors db)\<rparr>"

text \<open>The body: the employee and the branch, which defaults to the employee's.\<close>

definition registerCollector ::
  "env \<Rightarrow> (string \<times> string option) option \<Rightarrow> 'a collections_db_scheme \<Rightarrow> collector resp \<times> 'a collections_db_scheme" where
  "registerCollector env body db = answer 201 db (
     bindE (parseBody (\<lambda>_. True) body) (\<lambda>(emp, branch).
     bindE (orThrow (Http 404 ''Employee not found'')
       (find (\<lambda>e. em_id e = emp \<and> em_institutionId e = e_institutionId env) (db_employees db))) (\<lambda>e.
     bindE (require (find (\<lambda>c. kl_employeeId c = em_id e) (db_collectors db) = None) 400
       ''This employee is already registered as a collector'') (\<lambda>_.
     let c = \<lparr>kl_id = newId env db, kl_institutionId = e_institutionId env, kl_employeeId = em_id e,
           kl_branchId = (if truthy branch then branch else em_branchId e), kl_availability = AVAILABLE, kl_suspendedById = None,
           kl_suspendedAt = None, kl_suspendedReason = None\<rparr>
     in Inr (c, audit env ''collector.register'' ''collector'' (kl_id c)
          (db\<lparr>db_next := Suc (db_next db), db_collectors := db_collectors db @ [c]\<rparr>))))))"

definition transferCollector :: "env \<Rightarrow> string \<Rightarrow> string option \<Rightarrow> 'a collections_db_scheme \<Rightarrow> collector resp \<times> 'a collections_db_scheme" where
  "transferCollector env i branch db = answer 200 db (
     bindE (require (truthy branch) 400 ''branchId is required'') (\<lambda>_.
     bindE (ownCollector env i db) (\<lambda>c.
     let f = (\<lambda>c. c\<lparr>kl_branchId := branch\<rparr>)
     in Inr (f c, audit env ''collector.transfer'' ''collector'' (kl_id c) (updCollector (kl_id c) f db)))))"

definition suspendCollector :: "env \<Rightarrow> string \<Rightarrow> string option \<Rightarrow> 'a collections_db_scheme \<Rightarrow> collector resp \<times> 'a collections_db_scheme" where
  "suspendCollector env i reason db = answer 200 db (
     bindE (ownCollector env i db) (\<lambda>c.
     let f = (\<lambda>c. c\<lparr>kl_availability := COL_SUSPENDED, kl_suspendedById := Some (e_userId env), kl_suspendedAt := Some (e_now env),
           kl_suspendedReason := orKeep reason (kl_suspendedReason c)\<rparr>)
     in Inr (f c, audit env ''collector.suspend'' ''collector'' (kl_id c) (updCollector (kl_id c) f db))))"

definition reinstateCollector :: "env \<Rightarrow> string \<Rightarrow> 'a collections_db_scheme \<Rightarrow> collector resp \<times> 'a collections_db_scheme" where
  "reinstateCollector env i db = answer 200 db (
     bindE (ownCollector env i db) (\<lambda>c.
     let f = (\<lambda>c. c\<lparr>kl_availability := AVAILABLE, kl_suspendedById := None, kl_suspendedAt := None, kl_suspendedReason := None\<rparr>)
     in Inr (f c, audit env ''collector.reinstate'' ''collector'' (kl_id c) (updCollector (kl_id c) f db))))"

text \<open>The body is \<open>None\<close> when it names neither of the two values; suspension is set elsewhere.\<close>

definition setAvailability :: "env \<Rightarrow> string \<Rightarrow> availability option \<Rightarrow> 'a collections_db_scheme \<Rightarrow> collector resp \<times> 'a collections_db_scheme" where
  "setAvailability env i body db = answer 200 db (
     bindE (orThrow (Http 400 ''availability must be AVAILABLE or ON_LEAVE'') (safeParse (\<lambda>a. a \<in> {AVAILABLE, ON_LEAVE}) body)) (\<lambda>a.
     bindE (ownCollector env i db) (\<lambda>c.
     bindE (require (kl_availability c \<noteq> COL_SUSPENDED) 400 ''A suspended collector must be reinstated first'') (\<lambda>_.
     let f = (\<lambda>c. c\<lparr>kl_availability := a\<rparr>) in Inr (f c, updCollector (kl_id c) f db)))))"

section \<open>Routes\<close>

record routeBody =
  rb_name :: string
  rb_branchId :: "string option"
  rb_collectorId :: "string option"
  rb_isTemporary :: "bool option"

text \<open>Names are unique in an institution, and branch and collector are foreign keys.\<close>

definition createRoute :: "env \<Rightarrow> routeBody option \<Rightarrow> 'a collections_db_scheme \<Rightarrow> collectionRoute resp \<times> 'a collections_db_scheme" where
  "createRoute env body db = answer 201 db (
     bindE (parseBody (\<lambda>b. routeBody.rb_name b \<noteq> []) body) (\<lambda>b.
     let r = \<lparr>ro_id = newId env db, ro_institutionId = e_institutionId env, ro_branchId = rb_branchId b, ro_name = routeBody.rb_name b,
           ro_collectorId = rb_collectorId b, ro_isTemporary = (rb_isTemporary b = Some True), ro_active = True\<rparr>
     in if find (\<lambda>x. ro_institutionId x = ro_institutionId r \<and> ro_name x = ro_name r) (db_routes db) \<noteq> None
          \<or> (ro_branchId r \<noteq> None \<and> find (\<lambda>(i, _). Some i = ro_branchId r) (db_branches db) = None)
          \<or> (ro_collectorId r \<noteq> None \<and> find (\<lambda>c. Some (kl_id c) = ro_collectorId r) (db_collectors db) = None)
        then Inl Thrown
        else Inr (r, audit env ''collection_route.create'' ''collection_route'' (ro_id r)
          (db\<lparr>db_next := Suc (db_next db), db_routes := db_routes db @ [r]\<rparr>))))"

definition ownRoute :: "env \<Rightarrow> string \<Rightarrow> 'a collections_db_scheme \<Rightarrow> terr + collectionRoute" where
  "ownRoute env i db = orThrow (Http 404 ''Route not found'')
     (find (\<lambda>r. ro_id r = i \<and> ro_institutionId r = e_institutionId env) (db_routes db))"

definition reassignRoute :: "env \<Rightarrow> string \<Rightarrow> string option \<Rightarrow> 'a collections_db_scheme \<Rightarrow> collectionRoute resp \<times> 'a collections_db_scheme" where
  "reassignRoute env i cid db = answer 200 db (
     bindE (ownRoute env i db) (\<lambda>r.
     let cid' = (if truthy cid then cid else None); f = (\<lambda>r. r\<lparr>ro_collectorId := cid'\<rparr>)
     in if cid' \<noteq> None \<and> find (\<lambda>c. Some (kl_id c) = cid') (db_collectors db) = None then Inl Thrown
        else Inr (f r, audit env ''collection_route.reassign_collector'' ''collection_route'' (ro_id r)
          (db\<lparr>db_routes := updWhere (\<lambda>x. ro_id x = ro_id r) f (db_routes db)\<rparr>))))"

definition assignCustomer ::
  "env \<Rightarrow> string \<Rightarrow> (string \<times> int option) option \<Rightarrow> 'a collections_db_scheme \<Rightarrow> routeCustomer resp \<times> 'a collections_db_scheme" where
  "assignCustomer env i body db = answer 201 db (
     bindE (parseBody (\<lambda>_. True) body) (\<lambda>(cid, sq).
     bindE (ownRoute env i db) (\<lambda>r.
     bindE (require (find (\<lambda>x. rc_customerId x = cid \<and> rc_active x) (db_routeCustomers db) = None) 400
       ''This customer is already assigned to an active route - remove them from it first'') (\<lambda>_.
     let a = \<lparr>rc_id = newId env db, rc_routeId = ro_id r, rc_customerId = cid, rc_sequence = sq, rc_active = True, rc_removedAt = None\<rparr>
     in Inr (a, audit env ''collection_route.customer_assigned'' ''collection_route'' (ro_id r)
          (db\<lparr>db_next := Suc (db_next db), db_routeCustomers := db_routeCustomers db @ [a]\<rparr>))))))"

definition removeCustomer :: "env \<Rightarrow> string \<Rightarrow> string \<Rightarrow> 'a collections_db_scheme \<Rightarrow> unit resp \<times> 'a collections_db_scheme" where
  "removeCustomer env routeId i db = answer 204 db (
     bindE (orThrow (Http 404 ''Assignment not found'')
       (find (\<lambda>a. rc_id a = i \<and> rc_routeId a = routeId) (db_routeCustomers db))) (\<lambda>a.
     Inr ((), audit env ''collection_route.customer_removed'' ''collection_route'' routeId
       (db\<lparr>db_routeCustomers := updWhere (\<lambda>x. rc_id x = rc_id a) (\<lambda>x. x\<lparr>rc_active := False, rc_removedAt := Some (e_now env)\<rparr>)
          (db_routeCustomers db)\<rparr>))))"

section \<open>Recording a collection\<close>

record collectionBody =
  kb_type :: collectionType
  kb_collectorId :: string
  kb_customerId :: string
  kb_targetId :: string
  kb_amount :: num

definition generateCollectionTransactionNumber :: "time \<Rightarrow> num \<Rightarrow> string" where
  "generateCollectionTransactionNumber now r = (let s = showNat (nat now) in
     ''CT'' @ drop (length s - 10) s @ padStart 3 (showNat (nat \<lfloor>nmul r 1000\<rfloor>)))"

definition isLikelyDuplicate :: "env \<Rightarrow> string \<Rightarrow> string \<Rightarrow> num \<Rightarrow> collectionTransaction list \<Rightarrow> bool" where
  "isLikelyDuplicate env cid target amount ts = list_ex (\<lambda>t. cx_institutionId t = e_institutionId env \<and> cx_collectorId t = cid
     \<and> cx_targetId t = target \<and> decEq (cx_amount t) amount \<and> cx_status t = C_COMPLETED
     \<and> e_now env - 5 * 60 * 1000 \<le> cx_collectedAt t) ts"

definition openPeriod :: "env \<Rightarrow> 'a gl_db_scheme \<Rightarrow> terr + unit" where
  "openPeriod env db =
     (case findPostablePeriod (e_institutionId env) (e_now env) db of
        None \<Rightarrow> Inl (Http 400 (''No financial period covers today'' @ CHR 0x27 # ''s date''))
      | Some p \<Rightarrow> require (fp_status p = FP_OPEN) 400
          (''The financial period covering today is '' @ showPeriodStatus (fp_status p) @ '', not open''))"

definition mappedAccounts ::
  "env \<Rightarrow> glMapping list \<Rightarrow> string \<Rightarrow> string \<Rightarrow> string \<Rightarrow> 'a gl_db_scheme \<Rightarrow> terr + glAccount \<times> glAccount" where
  "mappedAccounts env ms p q notConfigured db =
     (let ids = accountIdByPurpose (e_institutionId env) ms in
      bindE (require (truthy (ids p) \<and> truthy (ids q)) 400 notConfigured) (\<lambda>_.
      bindE (orThrow Thrown (accountById (the (ids p)) db)) (\<lambda>a.
      bindE (orThrow Thrown (accountById (the (ids q)) db)) (\<lambda>b. Inr (a, b)))))"

definition collectionUnconfigured :: "string \<Rightarrow> string \<Rightarrow> string" where
  "collectionUnconfigured md other = md @ '' GL account mapping is not configured (\"Collector Cash Custody\" and \"''
     @ other @ ''\" both required) - configure this before recording field collections.''"

definition journalBalances :: "(glCategory \<times> entry) list \<Rightarrow> terr + unit" where
  "journalBalances cls = require (isBalanced (map snd cls)) 400 ''Collection journal would not balance - check the amount''"

definition collectDeposit :: "env \<Rightarrow> collectionBody \<Rightarrow> 'a collections_db_scheme \<Rightarrow> terr + 'a collections_db_scheme" where
  "collectDeposit env b db =
     bindE (orThrow (Http 404 ''Savings account not found for this customer'')
       (find (\<lambda>a. sa_id a = kb_targetId b \<and> sa_institutionId a = e_institutionId env \<and> sa_customerId a = kb_customerId b) (db_savings db))) (\<lambda>a.
     bindE (mappedAccounts env (db_savingsMappings db) ''Collector Cash Custody'' ''Customer Deposits Liability''
       (collectionUnconfigured ''Savings'' ''Customer Deposits Liability'') db) (\<lambda>(custody, deposits).
     let cls = transferLines custody deposits (kb_amount b) in
     bindE (journalBalances cls) (\<lambda>_.
     bindE (moneyTx env False a (kb_amount b) (''Field-collected savings deposit - account '' @ sa_accountNumber a) cls db) (\<lambda>(_, db1).
     Inr db1))))"

definition collectRepayment :: "env \<Rightarrow> collectionBody \<Rightarrow> 'a collections_db_scheme \<Rightarrow> terr + 'a collections_db_scheme" where
  "collectRepayment env b db =
     bindE (orThrow (Http 404 ''Loan not found for this customer'')
       (find (\<lambda>l. ln_id l = kb_targetId b \<and> ln_institutionId l = e_institutionId env \<and> ln_customerId l = kb_customerId b) (db_loans db))) (\<lambda>l.
     bindE (mappedAccounts env (db_loanMappings db) ''Collector Cash Custody'' ''Loan Receivable''
       (collectionUnconfigured ''Loan'' ''Loan Receivable'') db) (\<lambda>(custody, receivable).
     let cls = transferLines custody receivable (kb_amount b) in
     bindE (journalBalances cls) (\<lambda>_.
     bindE (applyLoanRepaymentInTx env (ln_id l) (kb_amount b) (e_userId env) db) (\<lambda>(_, db1).
     bindE (postJournal env (e_institutionId env) AUTOMATIC (''Field-collected loan repayment - loan '' @ ln_id l) (e_now env)
        (e_userId env) (e_userId env) cls db1) (\<lambda>(_, db2).
     Inr db2)))))"

text \<open>Everything up to and including the movement of the money.\<close>

definition collectMoney :: "env \<Rightarrow> collectionBody option \<Rightarrow> 'a collections_db_scheme \<Rightarrow> terr + collectionBody \<times> 'a collections_db_scheme" where
  "collectMoney env body db =
     bindE (parseBody (\<lambda>b. 0 < kb_amount b) body) (\<lambda>b.
     bindE (ownCollector env (kb_collectorId b) db) (\<lambda>c.
     bindE (require (kl_availability c = AVAILABLE) 400 (''This collector is currently '' @ showAvailability (kl_availability c)
       @ '', not available to record collections'')) (\<lambda>_.
     bindE (require (\<not> isLikelyDuplicate env (kl_id c) (kb_targetId b) (kb_amount b) (db_collections db)) 400
       ''A matching collection was just recorded by this collector - if this is genuinely a second, separate payment, wait a few minutes and try again'') (\<lambda>_.
     bindE (openPeriod env db) (\<lambda>_.
     bindE (case kb_type b of C_SAVINGS_DEPOSIT \<Rightarrow> collectDeposit env b db | C_LOAN_REPAYMENT \<Rightarrow> collectRepayment env b db) (\<lambda>db1.
     Inr (b, db1)))))))"

text \<open>
  The collection is written after the transaction has committed: if its number is taken, the money
  has moved and the answer is an error. The number is drawn before the transaction.
\<close>

definition recordCollection ::
  "env \<Rightarrow> collectionBody option \<Rightarrow> 'a collections_db_scheme \<Rightarrow> collectionTransaction resp \<times> 'a collections_db_scheme" where
  "recordCollection env body db =
     (case collectMoney env body db of
        Inl e \<Rightarrow> answerError e db
      | Inr (b, db1) \<Rightarrow>
          (let t = \<lparr>cx_id = newId env db1, cx_institutionId = e_institutionId env,
               cx_transactionNumber = generateCollectionTransactionNumber (e_now env) (e_rand env (db_next db)), cx_type = kb_type b,
               cx_collectorId = kb_collectorId b, cx_customerId = kb_customerId b, cx_targetId = kb_targetId b,
               cx_amount = toDec2 (kb_amount b), cx_status = C_COMPLETED, cx_reversedById = None, cx_reversedAt = None,
               cx_reversalReason = None, cx_collectedAt = e_now env, cx_recordedById = e_userId env\<rparr>
           in if find (\<lambda>x. cx_transactionNumber x = cx_transactionNumber t) (db_collections db1) \<noteq> None then answerError Thrown db1
              else (ROk 201 t, audit env ''collection.transaction_recorded'' ''collection_transaction'' (cx_id t)
                (db1\<lparr>db_next := Suc (db_next db1), db_collections := db_collections db1 @ [t]\<rparr>))))"

text \<open>Only the account is put back: the journal of the collection stays, and so does a repayment.\<close>

definition undoDeposit :: "env \<Rightarrow> collectionTransaction \<Rightarrow> 'a collections_db_scheme \<Rightarrow> 'a collections_db_scheme" where
  "undoDeposit env t db =
     (case (if cx_type t = C_SAVINGS_DEPOSIT then find (\<lambda>a. sa_id a = cx_targetId t) (db_savings db) else None) of
        None \<Rightarrow> db
      | Some a \<Rightarrow>
          (let newBalance = nsub (cents (sa_balance a)) (cents (cx_amount t))
           in snd (recordTxn env (sa_id a) ST_WITHDRAWAL (cents (cx_amount t)) (toDec2 newBalance) (Some (e_userId env))
                (updSavings (sa_id a) (setBalance newBalance) db))))"

definition reverseCollection ::
  "env \<Rightarrow> string \<Rightarrow> string option \<Rightarrow> 'a collections_db_scheme \<Rightarrow> collectionTransaction resp \<times> 'a collections_db_scheme" where
  "reverseCollection env i reason db = answer 200 db (
     bindE (require (truthy reason) 400 ''A reason is required to reverse a collection'') (\<lambda>_.
     bindE (orThrow (Http 404 ''Collection not found'')
       (find (\<lambda>t. cx_id t = i \<and> cx_institutionId t = e_institutionId env) (db_collections db))) (\<lambda>t.
     bindE (require (cx_status t \<noteq> C_REVERSED) 400 ''This collection is already reversed'') (\<lambda>_.
     let db1 = undoDeposit env t db;
         f = (\<lambda>t. t\<lparr>cx_status := C_REVERSED, cx_reversedById := Some (e_userId env), cx_reversedAt := Some (e_now env),
           cx_reversalReason := reason\<rparr>)
     in Inr (f t, audit env ''collection.transaction_reversed'' ''collection_transaction'' (cx_id t)
          (db1\<lparr>db_collections := updWhere (\<lambda>x. cx_id x = cx_id t) f (db_collections db1)\<rparr>))))))"

section \<open>Settlement\<close>

record settleBody =
  sb_collectorId :: string
  sb_settlementDate :: string
  sb_actualAmount :: num
  sb_notes :: "string option"

definition collectedOn :: "string \<Rightarrow> time \<Rightarrow> collectionTransaction list \<Rightarrow> collectionTransaction list" where
  "collectedOn cid dayStart ts = filter (\<lambda>t. cx_collectorId t = cid \<and> cx_status t = C_COMPLETED
     \<and> dayStart \<le> cx_collectedAt t \<and> cx_collectedAt t < plusDays dayStart 1) ts"

definition collectedTotal :: "collectionTransaction list \<Rightarrow> num" where
  "collectedTotal ts = nsum (map (\<lambda>t. cents (cx_amount t)) ts)"

text \<open>\<open>show\<close> is the conversion of a number to a string.\<close>

definition settleCollections ::
  "(num \<Rightarrow> string) \<Rightarrow> env \<Rightarrow> settleBody option \<Rightarrow> 'a collections_db_scheme \<Rightarrow> collectionSettlement resp \<times> 'a collections_db_scheme" where
  "settleCollections show env body db = answer 201 db (
     bindE (parseBody (\<lambda>b. 0 \<le> sb_actualAmount b) body) (\<lambda>b.
     bindE (orThrow Thrown (e_parseDate env (sb_settlementDate b))) (\<lambda>d.
     let dayStart = startOfDay d in
     bindE (require (find (\<lambda>s. se_collectorId s = sb_collectorId b \<and> se_settlementDate s = dayStart) (db_settlements db) = None) 400
       ''This collector already has a settlement for this date'') (\<lambda>_.
     let expected = collectedTotal (collectedOn (sb_collectorId b) dayStart (db_collections db));
         variance = ndiv (of_int (mathRound (nmul (nsub (sb_actualAmount b) expected) 100))) 100;
         even = (\<bar>variance\<bar> < cents 1);
         s = \<lparr>se_id = newId env db, se_institutionId = e_institutionId env, se_collectorId = sb_collectorId b,
           se_settlementDate = dayStart, se_expectedAmount = toDec2 expected, se_actualAmount = toDec2 (sb_actualAmount b),
           se_variance = toDec2 variance, se_status = (if even then SE_RECONCILED else SE_VARIANCE_PENDING_APPROVAL),
           se_notes = sb_notes b, se_reconciledById = (if even then Some (e_userId env) else None),
           se_reconciledAt = (if even then Some (e_now env) else None)\<rparr>;
         db1 = db\<lparr>db_next := Suc (db_next db), db_settlements := db_settlements db @ [s]\<rparr>;
         db2 = (if even then db1 else requestApproval env COLLECTION_VARIANCE_ADJUSTMENT ''CollectionSettlement'' (se_id s) []
           (''Variance of GHS '' @ show variance @ '' on '' @ sb_settlementDate b @ '' settlement'') db1)
     in Inr (s, audit env ''collection.settlement_recorded'' ''collection_settlement'' (se_id s) db2)))))"

section \<open>Commissions\<close>

definition toDec3 :: "num \<Rightarrow> int" where
  "toDec3 x = (let y = jsDec x * 1000 in if 0 \<le> y then \<lfloor>y + 1/2\<rfloor> else - \<lfloor>- y + 1/2\<rfloor>)"

definition milli :: "int \<Rightarrow> num" where
  "milli k = fl (of_int k / 1000)"

text \<open>The body: name, whether a percentage, and the rate.\<close>

definition createCommissionStructure ::
  "env \<Rightarrow> (string \<times> bool \<times> num) option \<Rightarrow> 'a collections_db_scheme \<Rightarrow> commissionStructure resp \<times> 'a collections_db_scheme" where
  "createCommissionStructure env body db = answer 201 db (
     bindE (parseBody (\<lambda>(name, _, rate). name \<noteq> [] \<and> 0 < rate) body) (\<lambda>(name, pct, rate).
     let s = \<lparr>cs_id = newId env db, cs_institutionId = e_institutionId env, cs_name = name, cs_percentage = pct,
           cs_rate = toDec3 rate, cs_active = True\<rparr>
     in Inr (s, db\<lparr>db_next := Suc (db_next db), db_commissionStructures := db_commissionStructures db @ [s]\<rparr>)))"

definition commissionAmount :: "commissionStructure \<Rightarrow> num \<Rightarrow> nat \<Rightarrow> num" where
  "commissionAmount s tot n =
     (if cs_percentage s then ndiv (of_int (mathRound (nmul (nmul tot (ndiv (milli (cs_rate s)) 100)) 100))) 100
      else ndiv (of_int (mathRound (nmul (nmul (of_nat n) (milli (cs_rate s))) 100))) 100)"

record commissionBody =
  mb_collectorId :: string
  mb_structureId :: string
  mb_periodStart :: string
  mb_periodEnd :: string

definition calculateCommission ::
  "env \<Rightarrow> commissionBody option \<Rightarrow> 'a collections_db_scheme \<Rightarrow> commissionRecord resp \<times> 'a collections_db_scheme" where
  "calculateCommission env body db = answer 201 db (
     bindE (parseBody (\<lambda>_. True) body) (\<lambda>b.
     bindE (orThrow (Http 404 ''Active commission structure not found'')
       (find (\<lambda>s. cs_id s = mb_structureId b \<and> cs_institutionId s = e_institutionId env \<and> cs_active s) (db_commissionStructures db))) (\<lambda>s.
     bindE (orThrow Thrown (e_parseDate env (mb_periodStart b))) (\<lambda>start.
     bindE (orThrow Thrown (e_parseDate env (mb_periodEnd b))) (\<lambda>end'.
     let ts = filter (\<lambda>t. cx_collectorId t = mb_collectorId b \<and> cx_status t = C_COMPLETED \<and> start \<le> cx_collectedAt t
           \<and> cx_collectedAt t \<le> end') (db_collections db);
         total = collectedTotal ts;
         r = \<lparr>cr_id = newId env db, cr_institutionId = e_institutionId env, cr_collectorId = mb_collectorId b, cr_structureId = cs_id s,
           cr_periodStart = start, cr_periodEnd = end', cr_totalCollected = toDec2 total, cr_collectionCount = int (length ts),
           cr_commissionAmount = toDec2 (commissionAmount s total (length ts)), cr_status = CM_PENDING, cr_paidAt = None\<rparr>
     in Inr (r, db\<lparr>db_next := Suc (db_next db), db_commissions := db_commissions db @ [r]\<rparr>))))))"

text \<open>\<open>showDec\<close> is the conversion of a stored decimal to a string.\<close>

definition requestCommissionPayment ::
  "(int \<Rightarrow> string) \<Rightarrow> env \<Rightarrow> string \<Rightarrow> 'a collections_db_scheme \<Rightarrow> commissionRecord resp \<times> 'a collections_db_scheme" where
  "requestCommissionPayment showDec env i db = answer 200 db (
     bindE (orThrow (Http 404 ''Commission record not found'')
       (find (\<lambda>r. cr_id r = i \<and> cr_institutionId r = e_institutionId env) (db_commissions db))) (\<lambda>r.
     bindE (require (cr_status r = CM_PENDING) 400 (''Only a PENDING record can request payment (currently ''
       @ showCommissionStatus (cr_status r) @ '')'')) (\<lambda>_.
     let f = (\<lambda>r. r\<lparr>cr_status := CM_PENDING_APPROVAL\<rparr>);
         db1 = requestApproval env COMMISSION_PAYMENT ''CommissionRecord'' (cr_id r) []
           (''Commission payment of GHS '' @ showDec (cr_commissionAmount r)) db
     in Inr (f r, db1\<lparr>db_commissions := updWhere (\<lambda>x. cr_id x = cr_id r) f (db_commissions db1)\<rparr>))))"

section \<open>Reports\<close>

record collectionSummary =
  su_totalAmount :: num
  su_count :: nat
  su_savings :: num
  su_loans :: num
  su_performance :: "(string \<times> string \<times> availability \<times> num \<times> nat) list"
  su_routes :: "(string \<times> string \<times> nat \<times> num) list"
  su_expected :: num
  su_actual :: num
  su_reconciled :: nat
  su_pendingVariance :: nat
  su_suspended :: "string list"
  su_pending :: num
  su_pendingApproval :: num
  su_paid :: num

definition employeeName :: "employee list \<Rightarrow> string \<Rightarrow> string \<Rightarrow> string" where
  "employeeName es i dflt = (case find (\<lambda>e. em_id e = i) es of
      Some e \<Rightarrow> if em_fullName e = [] then dflt else em_fullName e | None \<Rightarrow> dflt)"

definition optionalDate :: "env \<Rightarrow> string option \<Rightarrow> time \<Rightarrow> terr + time" where
  "optionalDate env s d = (if truthy s then orThrow Thrown (e_parseDate env (the s)) else Inr d)"

definition collectionsSummary :: "env \<Rightarrow> string option \<Rightarrow> string option \<Rightarrow> 'a collections_db_scheme \<Rightarrow> terr + collectionSummary" where
  "collectionsSummary env from1 to1 db =
     bindE (optionalDate env from1 (startOfDay (e_now env))) (\<lambda>start.
     bindE (optionalDate env to1 (e_now env)) (\<lambda>end'.
     let inst = e_institutionId env;
         collectors = filter (\<lambda>c. kl_institutionId c = inst) (db_collectors db);
         completed = filter (\<lambda>t. cx_institutionId t = inst \<and> start \<le> cx_collectedAt t \<and> cx_collectedAt t \<le> end'
           \<and> cx_status t = C_COMPLETED) (db_collections db);
         settlements = filter (\<lambda>s. se_institutionId s = inst \<and> start \<le> se_settlementDate s \<and> se_settlementDate s \<le> end') (db_settlements db);
         records = filter (\<lambda>r. cr_institutionId r = inst) (db_commissions db);
         commission = (\<lambda>st. nsum (map (\<lambda>r. cents (cr_commissionAmount r)) (filter (\<lambda>r. cr_status r = st) records)))
     in Inr \<lparr>su_totalAmount = collectedTotal completed, su_count = length completed,
          su_savings = collectedTotal (filter (\<lambda>t. cx_type t = C_SAVINGS_DEPOSIT) completed),
          su_loans = collectedTotal (filter (\<lambda>t. cx_type t = C_LOAN_REPAYMENT) completed),
          su_performance = sort_key (\<lambda>(_, _, _, total, _). - total) (map (\<lambda>c.
            let own = filter (\<lambda>t. cx_collectorId t = kl_id c) completed
            in (kl_id c, employeeName (db_employees db) (kl_employeeId c) ''-'', kl_availability c, collectedTotal own, length own)) collectors),
          su_routes = map (\<lambda>r. let cs = filter (\<lambda>a. rc_routeId a = ro_id r \<and> rc_active a) (db_routeCustomers db)
            in (ro_id r, ro_name r, length cs,
                collectedTotal (filter (\<lambda>t. list_ex (\<lambda>a. rc_customerId a = cx_customerId t) cs) completed)))
            (filter (\<lambda>r. ro_institutionId r = inst) (db_routes db)),
          su_expected = nsum (map (\<lambda>s. cents (se_expectedAmount s)) settlements),
          su_actual = nsum (map (\<lambda>s. cents (se_actualAmount s)) settlements),
          su_reconciled = countWhere (\<lambda>s. se_status s = SE_RECONCILED) settlements,
          su_pendingVariance = countWhere (\<lambda>s. se_status s = SE_VARIANCE_PENDING_APPROVAL) settlements,
          su_suspended = map (\<lambda>c. employeeName (db_employees db) (kl_employeeId c) (kl_id c))
            (filter (\<lambda>c. kl_availability c = COL_SUSPENDED) collectors),
          su_pending = commission CM_PENDING, su_pendingApproval = commission CM_PENDING_APPROVAL, su_paid = commission CM_PAID\<rparr>))"

definition customerRating :: "customer option \<Rightarrow> riskRating option" where
  "customerRating c = (case Option.bind c (colString ''riskRating'') of
      Some r \<Rightarrow> if r = ''LOW'' then Some LOW else if r = ''MEDIUM'' then Some MEDIUM else if r = ''HIGH'' then Some HIGH else None
    | None \<Rightarrow> None)"

section \<open>The delinquency watch list\<close>

record watchEntry =
  we_loanId :: string
  we_customerId :: string
  we_principal :: int
  we_branchId :: "string option"
  we_risk :: delinquencyResult

definition liveLoan :: "loan \<Rightarrow> bool" where
  "liveLoan l \<longleftrightarrow> ln_status l \<in> {LN_DISBURSED, LN_ACTIVE}"

definition dueInstallments :: "time \<Rightarrow> string \<Rightarrow> loanInstallment list \<Rightarrow> loanInstallment list" where
  "dueInstallments now i rs = filter (\<lambda>r. li_dueDate r \<le> now) (loanInstallments i rs)"

definition repaymentsOf :: "string \<Rightarrow> loanRepayment list \<Rightarrow> loanRepayment list" where
  "repaymentsOf i rs = sort_key (\<lambda>r. - lr_paidAt r) (filter (\<lambda>r. lr_loanId r = i) rs)"

text \<open>The interval between the first two installments, in days; 30 when there is only one.\<close>

definition typicalInterval :: "loanInstallment list \<Rightarrow> num" where
  "typicalInterval ls = (case ls of
       a # b # _ \<Rightarrow> max 1 (of_int (mathRound (ndiv (of_int (li_dueDate b - li_dueDate a)) (of_int msPerDay))))
     | _ \<Rightarrow> 30)"

definition delinquencyOf :: "env \<Rightarrow> string set \<Rightarrow> loan \<Rightarrow> 'a loan_db_scheme \<Rightarrow> delinquencyResult option" where
  "delinquencyOf env inArrears l db =
     (let due = dueInstallments (e_now env) (ln_id l) (db_installments db);
          paid = repaymentsOf (ln_id l) (db_repayments db)
      in if due = [] then None else Some (assessDelinquencyRisk
        \<lparr>di_cumulativeDue = nsum (map (\<lambda>r. cents (li_totalDue r)) due),
         di_cumulativePaid = nsum (map (\<lambda>r. cents (lr_amount r)) paid),
         di_daysSinceLastRepayment = (case paid of [] \<Rightarrow> None
           | r # _ \<Rightarrow> Some (of_int \<lfloor>ndiv (of_int (e_now env - lr_paidAt r)) (of_int msPerDay)\<rfloor>)),
         di_typicalInstallmentIntervalDays = typicalInterval (loanInstallments (ln_id l) (db_installments db)),
         di_installmentsSoFar = int (length due),
         di_customerRiskRating = customerRating (loanCustomer l db),
         di_hasOtherLoansInArrears = (ln_customerId l \<in> inArrears)\<rparr>))"

definition delinquencyRisk :: "env \<Rightarrow> 'a loan_db_scheme \<Rightarrow> watchEntry list" where
  "delinquencyRisk env db =
     (let own = filter (\<lambda>l. ln_institutionId l = e_institutionId env \<and> liveLoan l) (db_loans db);
          inArrears = ln_customerId ` set (filter (\<lambda>l. ln_arrearsClassification l \<noteq> CURRENT) own)
      in sort_key (\<lambda>w. - dr_riskScore (we_risk w)) (List.map_filter (\<lambda>l.
           case delinquencyOf env inArrears l db of
             None \<Rightarrow> None
           | Some r \<Rightarrow> if dr_riskBand r = BLOW then None else Some
               \<lparr>we_loanId = ln_id l, we_customerId = ln_customerId l, we_principal = ln_principal l,
                we_branchId = ln_branchId l, we_risk = r\<rparr>)
           (filter (\<lambda>l. ln_arrearsClassification l = CURRENT) own)))"

section \<open>The collector integrity watch list\<close>

record integrityEntry =
  ie_collectorId :: string
  ie_employeeName :: string
  ie_availability :: availability
  ie_transactionCount :: nat
  ie_settlementCount :: nat
  ie_result :: collectorResult

text \<open>\<open>days\<close> is \<open>Number(req.query.days)\<close>, \<open>None\<close> when that is not a number.\<close>

definition integrityDays :: "num option \<Rightarrow> num" where
  "integrityDays days = min (max (case days of None \<Rightarrow> 30 | Some d \<Rightarrow> if d = 0 then 30 else d) 7) 90"

definition integritySince :: "env \<Rightarrow> num \<Rightarrow> time" where
  "integritySince env days = \<lfloor>nsub (of_int (e_now env)) (nmul (nmul (nmul (nmul days 24) 60) 60) 1000)\<rfloor>"

definition routeCustomers :: "string \<Rightarrow> 'a collections_db_scheme \<Rightarrow> string list" where
  "routeCustomers cid db = remdups (concat (map (\<lambda>r.
       map rc_customerId (filter (\<lambda>a. rc_routeId a = ro_id r \<and> rc_active a) (db_routeCustomers db)))
     (filter (\<lambda>r. ro_collectorId r = Some cid \<and> ro_active r) (db_routes db))))"

definition integrityInput :: "env \<Rightarrow> time \<Rightarrow> collector \<Rightarrow> 'a collections_db_scheme \<Rightarrow> collectorInput" where
  "integrityInput env since c db =
     (let inst = e_institutionId env;
          collectors = map kl_id (filter (\<lambda>c. kl_institutionId c = inst) (db_collectors db));
          ts = filter (\<lambda>t. cx_institutionId t = inst \<and> cx_collectorId t \<in> set collectors \<and> since \<le> cx_collectedAt t) (db_collections db);
          ss = filter (\<lambda>s. se_institutionId s = inst \<and> se_collectorId s = kl_id c \<and> since \<le> se_settlementDate s) (db_settlements db);
          cs = filter (\<lambda>x. cc_institutionId x = inst \<and> since \<le> cc_createdAt x) (db_complaints db);
          own = filter (\<lambda>t. cx_collectorId t = kl_id c) ts
      in \<lparr>co_collectorTransactionCount = int (length own),
          co_collectorReversalCount = int (countWhere (\<lambda>t. cx_reversedAt t \<noteq> None) own),
          co_institutionalReversalRate = (if ts = [] then 0
            else ndiv (of_nat (countWhere (\<lambda>t. cx_reversedAt t \<noteq> None) ts)) (of_nat (length ts))),
          co_settlementCount = int (length ss),
          co_varianceSettlementCount = int (countWhere (\<lambda>s. se_variance s \<noteq> 0) ss),
          co_totalVarianceAmount = nsum (map (\<lambda>s. cents \<bar>se_variance s\<bar>) ss),
          co_totalSettledAmount = nsum (map (\<lambda>s. cents (se_expectedAmount s)) ss),
          co_complaintCount = int (sum_list (map (\<lambda>i. countWhere (\<lambda>x. cc_customerId x = i) cs) (routeCustomers (kl_id c) db)))\<rparr>)"

definition collectorIntegrity :: "env \<Rightarrow> num option \<Rightarrow> 'a collections_db_scheme \<Rightarrow> integrityEntry list" where
  "collectorIntegrity env days db =
     (let since = integritySince env (integrityDays days)
      in sort_key (\<lambda>x. - ir_score (ie_result x)) (List.map_filter (\<lambda>c.
           let i = integrityInput env since c db; r = assessCollectorIntegrity i
           in if ir_band r = NORMAL then None else Some
             \<lparr>ie_collectorId = kl_id c, ie_employeeName = employeeName (db_employees db) (kl_employeeId c) ''-'',
              ie_availability = kl_availability c, ie_transactionCount = nat (co_collectorTransactionCount i),
              ie_settlementCount = nat (co_settlementCount i), ie_result = r\<rparr>)
           (filter (\<lambda>c. kl_institutionId c = e_institutionId env) (db_collectors db))))"

end
