(* ===== verification/Collections_Safety.thy ===== *)
theory Collections_Safety
  imports Collections Loan_Lifecycle Savings_Safety
begin

text \<open>
  What field collections guarantee: the money of a collection moves exactly once and exactly, a
  settlement states its variance to the pesewa and is reconciled only when there is none, and a
  customer is on one active route at most.
\<close>

section \<open>Recording a collection\<close>

lemma mappedAccounts_Inr:
  assumes "mappedAccounts env ms p q m db = Inr (a, c)"
  obtains i k where "accountById i db = Some a" and "accountById k db = Some c"
  using assms by (auto simp: mappedAccounts_def Let_def bindE_Inr_iff)

text \<open>What the two transactions leave alone.\<close>

lemma moneyTx_frame:
  assumes tx: "moneyTx env w a amount descr cls db = Inr (y, db')"
    and u: "uniqueBy ga_id (db_glAccounts db)" and good: "goodLines db cls"
  shows "savings_db.more db' = savings_db.more db" and "map sa_id (db_savings db') = map sa_id (db_savings db)"
    and "db_holders db' = db_holders db"
proof -
  obtain t1 x j where m: "moveBalance sa_id sa_balance updSavingsBalance w (sa_id a) amount (db_savings db) = Some t1"
    and x: "find (\<lambda>y. sa_id y = sa_id a) t1 = Some x"
    and post: "postJournal env (e_institutionId env) AUTOMATIC descr (e_now env) (e_userId env) (e_userId env) cls
       (snd (recordTxn env (sa_id a) (if w then ST_WITHDRAWAL else ST_DEPOSIT) amount (sa_balance x) (Some (e_userId env)) (db\<lparr>db_savings := t1\<rparr>))) = Inr (j, db')"
    using tx unfolding moneyTx_def bindE_Inr_iff orThrow_Inr_iff Let_def
    by (elim exE conjE) (metis (no_types, lifting) prod.collapse Inr_inject prod.inject)
  define db2 where "db2 = snd (recordTxn env (sa_id a) (if w then ST_WITHDRAWAL else ST_DEPOSIT) amount (sa_balance x) (Some (e_userId env)) (db\<lparr>db_savings := t1\<rparr>))"
  have db2: "db_glAccounts db2 = db_glAccounts db" "db_savings db2 = t1" "savings_db.more db2 = savings_db.more db" "db_holders db2 = db_holders db"
    by (simp_all add: db2_def recordTxn_def Let_def)
  have "db' = db2\<lparr>db_next := Suc (db_next db2), db_journals := db_journals db2 @ [j], db_glAccounts := map (addEffects cls) (db_glAccounts db2)\<rparr>"
    using postJournal_result [OF _ _ post [folded db2_def]] u good goodLines_cong [OF db2(1)] db2(1) by simp
  then show "savings_db.more db' = savings_db.more db" "map sa_id (db_savings db') = map sa_id (db_savings db)" "db_holders db' = db_holders db"
    using moveBalance_updWhere [OF m] db2 by (auto simp: map_updWhere updSavingsBalance_def)
qed

lemma applyLoanRepayment_frame:
  assumes "applyLoanRepaymentInTx env i amount by db = Inr (y, db')"
  shows "loan_db.more db' = loan_db.more db" and "db_savings db' = db_savings db"
    and "map ln_id (db_loans db') = map ln_id (db_loans db)"
  using assms by (auto simp: applyLoanRepaymentInTx_def bindE_Inr_iff Let_def updLoan_def map_updWhere)

lemma collectDeposit_effect:
  assumes run: "collectDeposit env b db = Inr db1" and n: "kb_amount b = cents n" "0 \<le> n" "n \<le> 10 ^ 13"
    and books: "books_ok db" and ok: "savings_ok db"
  shows "books_ok db1" and "savings_ok db1" and "savings_db.more db1 = savings_db.more db"
    and "sum_list (map sa_balance (db_savings db1)) = sum_list (map sa_balance (db_savings db)) + n"
    and "\<exists>a \<in> set (db_savings db). sa_id a = kb_targetId b \<and> sa_institutionId a = e_institutionId env \<and> sa_customerId a = kb_customerId b"
proof -
  obtain a p q where a: "find (\<lambda>a. sa_id a = kb_targetId b \<and> sa_institutionId a = e_institutionId env \<and> sa_customerId a = kb_customerId b) (db_savings db) = Some a"
    and p: "mappedAccounts env (db_savingsMappings db) ''Collector Cash Custody'' ''Customer Deposits Liability''
       (collectionUnconfigured ''Savings'' ''Customer Deposits Liability'') db = Inr p"
    and q: "moneyTx env False a (kb_amount b) (''Field-collected savings deposit - account '' @ sa_accountNumber a)
       (transferLines (fst p) (snd p) (kb_amount b)) db = Inr (q, db1)"
    using run unfolding collectDeposit_def bindE_Inr_iff orThrow_Inr_iff Let_def split_beta
    by (metis (no_types, lifting) prod.collapse Inr_inject)
  obtain i k where "accountById i db = Some (fst p)" "accountById k db = Some (snd p)"
    using mappedAccounts_Inr [of env _ _ _ _ db "fst p" "snd p"] p by (metis prod.collapse)
  from transferLines_good [OF this refl, of n]
  have good: "goodLines db (transferLines (fst p) (snd p) (cents n))" using n(2,3) by simp
  have tx: "moneyTx env False a (cents n) (''Field-collected savings deposit - account '' @ sa_accountNumber a)
       (transferLines (fst p) (snd p) (cents n)) db = Inr ((fst q, snd q), db1)"
    using q n by simp
  note E = moneyTx_effect [OF tx books ok n(2,3) good transferLines_balanced]
  show "books_ok db1" "savings_ok db1" using E(1,2) .
  show "sum_list (map sa_balance (db_savings db1)) = sum_list (map sa_balance (db_savings db)) + n" using E(6) by simp
  have "uniqueBy ga_id (db_glAccounts db)" using books by (simp add: books_ok_def)
  from moneyTx_frame(1) [OF tx this good] show "savings_db.more db1 = savings_db.more db" .
  show "\<exists>a \<in> set (db_savings db). sa_id a = kb_targetId b \<and> sa_institutionId a = e_institutionId env \<and> sa_customerId a = kb_customerId b"
    using find_SomeD [OF a] by blast
qed

lemma collectRepayment_effect:
  assumes run: "collectRepayment env b db = Inr db2" and n: "kb_amount b = cents n" "0 \<le> n" "n \<le> 10 ^ 11"
    and books: "books_ok db" and ok: "installments_ok db"
    and few: "length (loanInstallments (kb_targetId b) (db_installments db)) \<le> 1000"
  shows "books_ok db2" and "installments_ok db2" and "db_savings db2 = db_savings db" and "loan_db.more db2 = loan_db.more db"
    and "map instCents (loanInstallments (kb_targetId b) (db_installments db2))
       = waterfall (map instCents (loanInstallments (kb_targetId b) (db_installments db))) n"
    and "filter (\<lambda>q. li_loanId q \<noteq> kb_targetId b) (db_installments db2) = filter (\<lambda>q. li_loanId q \<noteq> kb_targetId b) (db_installments db)"
    and "\<exists>l \<in> set (db_loans db). ln_id l = kb_targetId b \<and> ln_institutionId l = e_institutionId env \<and> ln_customerId l = kb_customerId b"
proof -
  obtain l p q j where l: "find (\<lambda>l. ln_id l = kb_targetId b \<and> ln_institutionId l = e_institutionId env \<and> ln_customerId l = kb_customerId b) (db_loans db) = Some l"
    and p: "mappedAccounts env (db_loanMappings db) ''Collector Cash Custody'' ''Loan Receivable''
       (collectionUnconfigured ''Loan'' ''Loan Receivable'') db = Inr p"
    and q: "applyLoanRepaymentInTx env (ln_id l) (kb_amount b) (e_userId env) db = Inr q"
    and post: "postJournal env (e_institutionId env) AUTOMATIC (''Field-collected loan repayment - loan '' @ ln_id l) (e_now env)
        (e_userId env) (e_userId env) (transferLines (fst p) (snd p) (kb_amount b)) (snd q) = Inr (j, db2)"
    using run unfolding collectRepayment_def bindE_Inr_iff orThrow_Inr_iff Let_def split_beta
    by (metis (no_types, lifting) prod.collapse Inr_inject)
  have id: "ln_id l = kb_targetId b" using find_SomeD [OF l] by simp
  obtain i k where "accountById i db = Some (fst p)" "accountById k db = Some (snd p)"
    using mappedAccounts_Inr [of env _ _ _ _ db "fst p" "snd p"] p by (metis prod.collapse)
  from transferLines_good [OF this refl, of n]
  have good: "goodLines db (transferLines (fst p) (snd p) (cents n))" using n(2,3) by simp
  have tx: "applyLoanRepaymentInTx env (kb_targetId b) (cents n) (e_userId env) db = Inr ((fst (fst q), snd (fst q)), snd q)"
    using q n id by simp
  note P = post [unfolded n(1) id]
  note E = repaymentTx_effect [OF books ok few n(2,3) tx P good transferLines_balanced]
  show "books_ok db2" "installments_ok db2" using E(1,2) .
  show "map instCents (loanInstallments (kb_targetId b) (db_installments db2))
       = waterfall (map instCents (loanInstallments (kb_targetId b) (db_installments db))) n"
    "filter (\<lambda>q. li_loanId q \<noteq> kb_targetId b) (db_installments db2) = filter (\<lambda>q. li_loanId q \<noteq> kb_targetId b) (db_installments db)"
    using E(3,4) .
  note A = applyLoanRepayment_result [OF tx]
  have "uniqueBy ga_id (db_glAccounts (snd q))" "goodLines (snd q) (transferLines (fst p) (snd p) (cents n))"
    using books good goodLines_cong [OF A(6)] A(6) by (simp_all add: books_ok_def)
  from postJournal_result [OF this P]
  show "db_savings db2 = db_savings db" "loan_db.more db2 = loan_db.more db"
    using applyLoanRepayment_frame [OF tx] by simp_all
  show "\<exists>l \<in> set (db_loans db). ln_id l = kb_targetId b \<and> ln_institutionId l = e_institutionId env \<and> ln_customerId l = kb_customerId b"
    using find_SomeD [OF l] by blast
qed

lemma collectMoney_Inr:
  assumes "collectMoney env (Some b) db = Inr (b', db1)"
  obtains c where "b' = b" and "0 < kb_amount b" and "ownCollector env (kb_collectorId b) db = Inr c" and "kl_availability c = AVAILABLE"
    and "\<not> isLikelyDuplicate env (kb_collectorId b) (kb_targetId b) (kb_amount b) (db_collections db)"
    and "openPeriod env db = Inr ()"
    and "kb_type b = C_SAVINGS_DEPOSIT \<Longrightarrow> collectDeposit env b db = Inr db1"
    and "kb_type b = C_LOAN_REPAYMENT \<Longrightarrow> collectRepayment env b db = Inr db1"
proof -
  obtain c where c: "0 < kb_amount b" "ownCollector env (kb_collectorId b) db = Inr c" "kl_availability c = AVAILABLE"
      "\<not> isLikelyDuplicate env (kl_id c) (kb_targetId b) (kb_amount b) (db_collections db)" "openPeriod env db = Inr ()"
      "(case kb_type b of C_SAVINGS_DEPOSIT \<Rightarrow> collectDeposit env b db | C_LOAN_REPAYMENT \<Rightarrow> collectRepayment env b db) = Inr db1" "b' = b"
    using assms unfolding collectMoney_def bindE_Inr_iff by auto
  moreover have "kl_id c = kb_collectorId b" using c(2) by (auto simp: ownCollector_def dest: find_SomeD)
  ultimately show ?thesis using that [of c] by (cases "kb_type b") simp_all
qed

text \<open>The row that records it, and when there is none.\<close>

lemma recordCollection_cases:
  assumes "recordCollection env (Some b) db = (r, db')"
  obtains (refused) e where "\<not> okResp r" and "db' = db" and "collectMoney env (Some b) db = Inl e"
  | (unrecorded) db1 where "\<not> okResp r" and "db' = db1" and "collectMoney env (Some b) db = Inr (b, db1)"
      and "\<exists>x \<in> set (db_collections db1). cx_transactionNumber x = generateCollectionTransactionNumber (e_now env) (e_rand env (db_next db))"
  | (recorded) t db1 where "r = ROk 201 t" and "collectMoney env (Some b) db = Inr (b, db1)"
      and "db' = audit env ''collection.transaction_recorded'' ''collection_transaction'' (cx_id t)
             (db1\<lparr>db_next := Suc (db_next db1), db_collections := db_collections db1 @ [t]\<rparr>)"
      and "cx_amount t = toDec2 (kb_amount b)" and "cx_status t = C_COMPLETED" and "cx_targetId t = kb_targetId b"
      and "cx_collectorId t = kb_collectorId b" and "cx_type t = kb_type b" and "cx_collectedAt t = e_now env"
proof (cases "collectMoney env (Some b) db")
  case (Inl e)
  then have "r = fst (answerError e db)" "db' = db" using assms by (cases e; simp add: recordCollection_def fail_def)+
  then show ?thesis using Inl refused by simp
next
  case (Inr q)
  then have b: "collectMoney env (Some b) db = Inr (b, snd q)" using collectMoney_Inr [of env b db "fst q" "snd q"] by (cases q) auto
  show ?thesis
  proof (cases "find (\<lambda>x. cx_transactionNumber x = generateCollectionTransactionNumber (e_now env) (e_rand env (db_next db))) (db_collections (snd q))")
    case None
    then show ?thesis using assms by (intro recorded [OF _ b]) (auto simp: recordCollection_def b Let_def)
  next
    case (Some x)
    then show ?thesis using assms find_SomeD [OF Some] by (intro unrecorded [OF _ _ b]) (auto simp: recordCollection_def b Let_def fail_def)
  qed
qed

definition moneyCollected :: "collectionBody \<Rightarrow> int \<Rightarrow> 'a collections_db_scheme \<Rightarrow> 'a collections_db_scheme \<Rightarrow> bool" where
  "moneyCollected b n db db' \<longleftrightarrow>
     (case kb_type b of
        C_SAVINGS_DEPOSIT \<Rightarrow> db_installments db' = db_installments db
          \<and> sum_list (map sa_balance (db_savings db')) = sum_list (map sa_balance (db_savings db)) + n
      | C_LOAN_REPAYMENT \<Rightarrow> db_savings db' = db_savings db
          \<and> map instCents (loanInstallments (kb_targetId b) (db_installments db'))
            = waterfall (map instCents (loanInstallments (kb_targetId b) (db_installments db))) n
          \<and> filter (\<lambda>q. li_loanId q \<noteq> kb_targetId b) (db_installments db') = filter (\<lambda>q. li_loanId q \<noteq> kb_targetId b) (db_installments db))"

lemma more_to_loans:
  fixes db db' :: "'a collections_db_scheme"
  shows "savings_db.more db = savings_db.more db' \<Longrightarrow> db_installments db = db_installments db' \<and> loan_db.more db = loan_db.more db'"
  and "loan_db.more db = loan_db.more db' \<Longrightarrow> db_collections db = db_collections db' \<and> db_settlements db = db_settlements db'
     \<and> db_collectors db = db_collectors db' \<and> db_routeCustomers db = db_routeCustomers db'"
  by (cases db; cases db'; simp)+

lemma collectMoney_effect:
  assumes run: "collectMoney env (Some b) db = Inr (b, db1)" and n: "kb_amount b = cents n" "n \<le> 10 ^ 11"
    and "books_ok db" and "savings_ok db" and "installments_ok db"
    and "length (loanInstallments (kb_targetId b) (db_installments db)) \<le> 1000"
  shows "0 \<le> n" and "books_ok db1" and "savings_ok db1" and "installments_ok db1" and "moneyCollected b n db db1"
    and "db_collections db1 = db_collections db"
proof -
  obtain c where c: "0 < kb_amount b"
    and D: "kb_type b = C_SAVINGS_DEPOSIT \<Longrightarrow> collectDeposit env b db = Inr db1"
    and R: "kb_type b = C_LOAN_REPAYMENT \<Longrightarrow> collectRepayment env b db = Inr db1"
    using run by (rule collectMoney_Inr) blast
  show n0: "0 \<le> n" using c n(1) by (simp only: cents_nonneg_iff [of n, symmetric] less_imp_le)
  have n13: "n \<le> 10 ^ 13" using n(2) by simp
  have "books_ok db1 \<and> savings_ok db1 \<and> installments_ok db1 \<and> moneyCollected b n db db1 \<and> db_collections db1 = db_collections db"
  proof (cases "kb_type b")
    case C_SAVINGS_DEPOSIT
    note E = collectDeposit_effect [OF D [OF this] n(1) n0 n13 assms(4,5)]
    show ?thesis using E more_to_loans(1) [OF E(3)] more_to_loans(2) [of db1 db] assms(6) C_SAVINGS_DEPOSIT
      by (simp add: moneyCollected_def installments_ok_def)
  next
    case C_LOAN_REPAYMENT
    note E = collectRepayment_effect [OF R [OF this] n(1) n0 n(2) assms(4,6,7)]
    show ?thesis using E more_to_loans(2) [OF E(4)] assms(5) C_LOAN_REPAYMENT
      by (simp add: moneyCollected_def savings_ok_def)
  qed
  then show "books_ok db1" "savings_ok db1" "installments_ok db1" "moneyCollected b n db db1" "db_collections db1 = db_collections db"
    by simp_all
qed


section \<open>Settlement\<close>

text \<open>A double close to a number of hundredths is stored as that number.\<close>

lemma toDec2_near:
  assumes x: "fl x = x" and near: "\<bar>x - of_int k / 100\<bar> \<le> 4 / 1000" and k: "dec14 k"
  shows "toDec2 x = k"
proof -
  have K: "\<bar>of_int k / 100 :: rat\<bar> \<le> 10 ^ 12" using dec14_rat [OF k] unfolding abs_le_iff by simp
  have e: "\<bar>x - jsDec x\<bar> \<le> \<bar>jsDec x\<bar> / 2 ^ 53" using fl_error [of "jsDec x"] fl_jsDec [OF x] by simp
  have "\<bar>jsDec x\<bar> \<le> 2 * 10 ^ 12" using e K near unfolding abs_le_iff by (simp add: abs_if split: if_splits)
  then have "\<bar>jsDec x\<bar> / 2 ^ 53 \<le> 2 * 10 ^ 12 / 2 ^ 53" by (rule divide_right_mono) simp
  then have "\<bar>x - jsDec x\<bar> \<le> 5 / 10000" using e by simp
  then have near': "\<bar>jsDec x * 100 - of_int k\<bar> < 1 / 2" using near unfolding abs_le_iff abs_less_iff by linarith
  have "\<lfloor>jsDec x * 100 + 1 / 2\<rfloor> = k" using near' unfolding abs_less_iff by (intro floor_unique) linarith+
  moreover have "\<lfloor>- jsDec x * 100 + 1 / 2\<rfloor> = - k"
    using near' unfolding abs_less_iff by (intro floor_unique; unfold of_int_minus) linarith+
  ultimately show ?thesis by (simp add: toDec2_def pgRound2_def)
qed

lemma toDec2_0 [simp]: "toDec2 0 = 0"
  using toDec2_cents [of 0] by simp

lemma fl_nsum [simp]: "fl (nsum xs) = nsum xs"
  by (cases xs rule: rev_cases) (simp_all add: nsum_def nadd_def)

lemma toDec2_nsum_cents: "smallSum ks \<Longrightarrow> toDec2 (nsum (map cents ks)) = sum_list ks"
  using nsum_cents_error [of ks] abs_sum_list_le [of ks] by (intro toDec2_near) (auto simp: smallSum_def)

text \<open>The variance, computed in binary, is the difference to the pesewa.\<close>

lemma variance_exact:
  assumes small: "smallSum ks" and n: "\<bar>n\<bar> \<le> 10 ^ 13" and d: "dec14 (n - sum_list ks)"
  shows "round2 (nsub (cents n) (nsum (map cents ks))) = cents (n - sum_list ks)"
proof (rule round2_near [OF _ d])
  have a: "\<bar>cents n - of_int n / 100\<bar> \<le> 1 / 8000" using n by (intro cents_error) simp
  note b = nsum_cents_error [OF small]
  have diff: "\<bar>cents n - nsum (map cents ks) - of_int (n - sum_list ks) / 100\<bar> \<le> 36 / 10000"
    using a b unfolding abs_le_iff of_int_diff diff_divide_distrib by linarith
  then have "\<bar>cents n - nsum (map cents ks)\<bar> \<le> 1000000000001"
    using dec14_value [OF d] unfolding abs_le_iff by linarith
  then have "\<bar>cents n - nsum (map cents ks)\<bar> / 2 ^ 53 \<le> 1000000000001 / 2 ^ 53" by (rule divide_right_mono) simp
  then have "\<bar>nsub (cents n) (nsum (map cents ks)) - (cents n - nsum (map cents ks))\<bar> \<le> 2 / 10000"
    using fl_error [of "cents n - nsum (map cents ks)"] by (simp add: nsub_def)
  then show "\<bar>nsub (cents n) (nsum (map cents ks)) - of_int (n - sum_list ks) / 100\<bar> \<le> 4 / 1000"
    using diff unfolding abs_le_iff by linarith
qed

lemma cents_small_iff: "dec14 k \<Longrightarrow> \<bar>cents k\<bar> < cents 1 \<longleftrightarrow> k = 0"
  using cents_less_iff [of k 1] cents_less_iff [of "-1" k] cents_minus [of 1] by (auto simp: abs_less_iff)

text \<open>
  Claim C26. A settlement is honest: it expects exactly the completed collections of the collector on that
  day, records the amount handed in and their difference to the pesewa, and is reconciled at once if
  and only if the difference is zero; otherwise an approval of the variance is requested, by the user
  who recorded it. A collector settles a day once, and a refused settlement changes nothing.
\<close>

theorem settlement_exact:
  assumes "settleCollections show env (Some b) db = (r, db')" and "sb_actualAmount b = cents n" and "\<bar>n\<bar> \<le> 10 ^ 13"
    and "e_parseDate env (sb_settlementDate b) = Some d"
    and "smallSum (map cx_amount (collectedOn (sb_collectorId b) (startOfDay d) (db_collections db)))"
    and "dec14 (n - (\<Sum>t\<leftarrow>collectedOn (sb_collectorId b) (startOfDay d) (db_collections db). cx_amount t))"
  shows "case r of
      RErr _ _ \<Rightarrow> db' = db
    | ROk _ s \<Rightarrow> se_collectorId s = sb_collectorId b \<and> se_settlementDate s = startOfDay d \<and> se_actualAmount s = n
        \<and> se_expectedAmount s = (\<Sum>t\<leftarrow>collectedOn (sb_collectorId b) (startOfDay d) (db_collections db). cx_amount t)
        \<and> se_variance s = n - se_expectedAmount s
        \<and> se_status s = (if se_variance s = 0 then SE_RECONCILED else SE_VARIANCE_PENDING_APPROVAL)
        \<and> db_settlements db' = db_settlements db @ [s]
        \<and> (\<forall>s0 \<in> set (db_settlements db). \<not> (se_collectorId s0 = se_collectorId s \<and> se_settlementDate s0 = se_settlementDate s))
        \<and> (if se_variance s = 0 then db_approvals db' = db_approvals db
           else \<exists>a. db_approvals db' = db_approvals db @ [a] \<and> ap_type a = COLLECTION_VARIANCE_ADJUSTMENT \<and> ap_status a = AP_PENDING
             \<and> ap_targetId a = se_id s \<and> ap_requestedById a = e_userId env)"
  using assms(1) unfolding settleCollections_def
proof (cases rule: answer_cases)
  case refused
  then show ?thesis by (cases r) auto
next
  case (finished s)
  define ts where "ts = collectedOn (sb_collectorId b) (startOfDay d) (db_collections db)"
  define k where "k = n - sum_list (map cx_amount ts)"
  have V: "ndiv (of_int (mathRound (nmul (nsub (cents n) (collectedTotal ts)) 100))) 100 = cents k"
    using variance_exact [of "map cx_amount ts" n] assms(3,5,6) unfolding round2_def k_def
    by (simp add: collectedTotal_def ts_def o_def)
  have S: "sum_list (map cx_amount ts) = n - k" by (simp add: k_def)
  have E: "toDec2 (collectedTotal ts) = n - k"
    unfolding S [symmetric] using toDec2_nsum_cents [of "map cx_amount ts"] assms(5) by (simp add: collectedTotal_def ts_def o_def)
  have k: "dec14 k" using assms(6) by (simp add: k_def ts_def)
  have none: "find (\<lambda>s. se_collectorId s = sb_collectorId b \<and> se_settlementDate s = startOfDay d) (db_settlements db) = None"
    using finished(1) assms(4) by (auto simp: bindE_Inr_iff Let_def)
  have n: "dec14 n" using assms(3) by simp
  have "0 < cents 1" using cents_small_iff [of 0] by simp
  then show ?thesis
    using finished assms(4) none n k
    by (cases "k = 0") (auto simp: bindE_Inr_iff Let_def assms(2) ts_def [symmetric] V E S cents_small_iff audit_def
        requestApproval_def find_None_iff toDec2_cents newId_def)
qed

section \<open>Reversal\<close>

lemma reverseCollection_cases:
  assumes "reverseCollection env i reason db = (r, db')"
  obtains (refused) "\<not> okResp r" and "db' = db"
  | (reversed) t f where "r = ROk 200 (f t)" and "find (\<lambda>t. cx_id t = i \<and> cx_institutionId t = e_institutionId env) (db_collections db) = Some t"
      and "cx_status t \<noteq> C_REVERSED" and "truthy reason"
      and "f = (\<lambda>t. t\<lparr>cx_status := C_REVERSED, cx_reversedById := Some (e_userId env), cx_reversedAt := Some (e_now env), cx_reversalReason := reason\<rparr>)"
      and "db' = audit env ''collection.transaction_reversed'' ''collection_transaction'' (cx_id t)
          ((undoDeposit env t db)\<lparr>db_collections := updWhere (\<lambda>x. cx_id x = cx_id t) f (db_collections (undoDeposit env t db))\<rparr>)"
  using assms unfolding reverseCollection_def
proof (cases rule: answer_cases)
  case (finished x)
  then show ?thesis using reversed by (auto simp: bindE_Inr_iff Let_def)
qed (rule refused)

lemma toDec2_nsub_cents:
  assumes "dec14 a" "dec14 b" "dec14 (a - b)"
  shows "toDec2 (nsub (cents a) (cents b)) = a - b"
proof (rule toDec2_near)
  have "nsub (cents a) (cents b) = nadd (cents a) (cents (- b))" by (simp add: num_ops cents_minus)
  then show "\<bar>nsub (cents a) (cents b) - of_int (a - b) / 100\<bar> \<le> 4 / 1000"
    using nadd_cents_error [of a "- b"] assms by simp
qed (use assms(3) in \<open>simp_all add: nsub_def\<close>)

text \<open>The account a reversal touches, if any.\<close>

definition reversedAccount :: "collectionTransaction \<Rightarrow> 'a savings_db_scheme \<Rightarrow> savingsAccount option" where
  "reversedAccount t db = (if cx_type t = C_SAVINGS_DEPOSIT then find (\<lambda>a. sa_id a = cx_targetId t) (db_savings db) else None)"

lemma undoDeposit_frame:
  "db_collections (undoDeposit env t db) = db_collections db" "db_journals (undoDeposit env t db) = db_journals db"
  "db_glAccounts (undoDeposit env t db) = db_glAccounts db" "db_installments (undoDeposit env t db) = db_installments db"
  by (simp_all add: undoDeposit_def recordTxn_def updSavings_def Let_def split: option.splits)

lemma undoDeposit_sum:
  assumes u: "uniqueBy sa_id (db_savings db)" and "\<forall>a \<in> set (db_savings db). \<bar>sa_balance a\<bar> \<le> 10 ^ 13" and "\<bar>cx_amount t\<bar> \<le> 10 ^ 13"
  shows "(\<Sum>a\<leftarrow>db_savings (undoDeposit env t db). sa_balance a)
    = (\<Sum>a\<leftarrow>db_savings db. sa_balance a) - (if reversedAccount t db = None then 0 else cx_amount t)"
proof (cases "reversedAccount t db")
  case None
  then show ?thesis by (simp add: undoDeposit_def reversedAccount_def)
next
  case (Some a)
  have a: "a \<in> set (db_savings db)" using Some by (auto simp: reversedAccount_def dest: find_SomeD split: if_splits)
  then have "\<bar>sa_balance a\<bar> \<le> 10 ^ 13" using assms(2) by blast
  then have "toDec2 (nsub (cents (sa_balance a)) (cents (cx_amount t))) = sa_balance a - cx_amount t"
    using assms(3) by (intro toDec2_nsub_cents) simp_all
  then have "sa_balance (setBalance (nsub (cents (sa_balance a)) (cents (cx_amount t))) a) = sa_balance a - cx_amount t"
    by (simp add: setBalance_def)
  then show ?thesis using Some sum_updWhere_unique [OF u a, of sa_balance]
    by (simp add: undoDeposit_def reversedAccount_def recordTxn_def updSavings_def Let_def)
qed


end
