(* ===== verification/Collections_Examples.thy ===== *)
theory Collections_Examples
  imports Collections_Safety Loan_Examples
begin

text \<open>A sample collector at work, on whom the hypotheses of the collection theorems hold.\<close>

definition sampleCollector :: collector where
  "sampleCollector = \<lparr>kl_id = ''k1'', kl_institutionId = ''i1'', kl_employeeId = ''e1'', kl_branchId = None,
     kl_availability = AVAILABLE, kl_suspendedById = None, kl_suspendedAt = None, kl_suspendedReason = None\<rparr>"

definition sampleCollection :: collectionTransaction where
  "sampleCollection = \<lparr>cx_id = ''t1'', cx_institutionId = ''i1'', cx_transactionNumber = ''CT1'', cx_type = C_SAVINGS_DEPOSIT,
     cx_collectorId = ''k1'', cx_customerId = ''c1'', cx_targetId = ''s1'', cx_amount = 2500, cx_status = C_COMPLETED,
     cx_reversedById = None, cx_reversedAt = None, cx_reversalReason = None, cx_collectedAt = 1700000000000, cx_recordedById = ''u1''\<rparr>"

definition sampleFieldDb :: "collectionTransaction list \<Rightarrow> collections_db" where
  "sampleFieldDb ts = crm_db.extend (loan_db.extend
     ((sampleLoanDb [] [])\<lparr>db_savingsMappings := [sampleMapping ''Collector Cash Custody'' ''cash'', sampleMapping ''Customer Deposits Liability'' ''dep'']\<rparr>)
     (crm_db.fields [] [] [] [])) (collections_db.fields [sampleCollector] [] [] ts [] [] [])"

lemma sampleFieldDb_sel [simp]:
  "db_collectors (sampleFieldDb ts) = [sampleCollector]" "db_collections (sampleFieldDb ts) = ts" "db_settlements (sampleFieldDb ts) = []"
  "db_savings (sampleFieldDb ts) = [sampleSavings]" "db_installments (sampleFieldDb ts) = []" "db_journals (sampleFieldDb ts) = []"
  "db_glAccounts (sampleFieldDb ts) = [sampleAccount ''cash'' ASSET, sampleAccount ''bank'' ASSET, sampleAccount ''dep'' LIABILITY]"
  "db_periods (sampleFieldDb ts) = [samplePeriod FP_OPEN]" "db_approvals (sampleFieldDb ts) = []" "db_next (sampleFieldDb ts) = 5"
  "db_savingsMappings (sampleFieldDb ts) = [sampleMapping ''Collector Cash Custody'' ''cash'', sampleMapping ''Customer Deposits Liability'' ''dep'']"
  by (simp_all add: sampleFieldDb_def sampleLoanDb_def sampleInterestDb_def interest_db.defs savings_db.defs loan_db.defs cash_db.defs
      gl_db.defs core_db.defs crm_db.defs collections_db.defs sampleSavingsDb_def)

lemma sampleFieldDb_ok: "books_ok (sampleFieldDb ts)" "savings_ok (sampleFieldDb ts)" "installments_ok (sampleFieldDb ts)"
  by (simp_all add: books_ok_def savings_ok_def installments_ok_def uniqueBy_def postedLines_def accountEffect_def sampleAccount_def sampleSavings_def)

definition sampleCollectionBody :: collectionBody where
  "sampleCollectionBody = \<lparr>kb_type = C_SAVINGS_DEPOSIT, kb_collectorId = ''k1'', kb_customerId = ''c1'', kb_targetId = ''s1'', kb_amount = cents 4000\<rparr>"

definition sampleFieldDeposit :: "collectionTransaction resp \<times> collections_db" where
  "sampleFieldDeposit = recordCollection sampleEnv (Some sampleCollectionBody) (sampleFieldDb [])"

lemma sampleFieldDeposit_ok: "\<exists>t. fst sampleFieldDeposit = ROk 201 t"
proof -
  let ?db = "sampleFieldDb []" and ?b = sampleCollectionBody
  have b: "kb_type ?b = C_SAVINGS_DEPOSIT" "kb_collectorId ?b = ''k1''" "kb_customerId ?b = ''c1''" "kb_targetId ?b = ''s1''" "kb_amount ?b = cents 4000"
    by (simp_all add: sampleCollectionBody_def)
  have ma: "mappedAccounts sampleEnv (db_savingsMappings ?db) ''Collector Cash Custody'' ''Customer Deposits Liability'' m ?db
      = Inr (sampleAccount ''cash'' ASSET, sampleAccount ''dep'' LIABILITY)" for m
    by (simp add: mappedAccounts_def accountIdByPurpose_def accountById_def sampleMapping_def sampleEnv_def sampleAccount_def require_def)
  let ?cls = "transferLines (sampleAccount ''cash'' ASSET) (sampleAccount ''dep'' LIABILITY) (cents 4000)"
  have mv: "moveBalance sa_id sa_balance updSavingsBalance False ''s1'' (cents 4000) [sampleSavings]
      = Some [sampleSavings\<lparr>sa_balance := 9000, sa_ledgerBalance := 9000\<rparr>]"
    by (simp add: moveBalance_def increment_def sampleSavings_def updSavingsBalance_def)
  have own: "ownCollector sampleEnv ''k1'' ?db = Inr sampleCollector" "kl_availability sampleCollector = AVAILABLE" "openPeriod sampleEnv ?db = Inr ()"
    by (simp_all add: ownCollector_def sampleCollector_def sampleEnv_def openPeriod_def findPostablePeriod_def samplePeriod_def require_def)
  have s: "sa_institutionId sampleSavings = e_institutionId sampleEnv" "sa_customerId sampleSavings = ''c1''"
    "sa_id sampleSavings = ''s1''" by (simp_all add: sampleSavings_def sampleEnv_def)
  have "\<exists>q. moneyTx sampleEnv False sampleSavings (cents 4000) d cls ?db = Inr q" if "cls = ?cls" for cls d
    using that mv
    by (simp add: moneyTx_def s postJournal_def createJournal_def recordTxn_def Let_def transferLines_def accountById_def postLine_def
        sampleAccount_def sampleSavings_def)
  then obtain q where "moneyTx sampleEnv False sampleSavings (cents 4000) (''Field-collected savings deposit - account '' @ sa_accountNumber sampleSavings)
      ?cls ?db = Inr q" by blast
  moreover have "isBalanced (map snd ?cls)" "0 < cents 4000" by (simp_all add: balanced_transfer cents_pos_iff)
  ultimately have run: "collectMoney sampleEnv (Some ?b) ?db = Inr (?b, snd q)"
    by (simp add: collectMoney_def parseBody_def safeParse_def b own require_def isLikelyDuplicate_def collectDeposit_def s ma [simplified]
        journalBalances_def Let_def split_beta)
  have "db_collections (snd q) = []"
    using collectMoney_effect(6) [OF run b(5) _ sampleFieldDb_ok] by (simp add: loanInstallments_def)
  then show ?thesis using run by (simp add: sampleFieldDeposit_def recordCollection_def Let_def)
qed


definition sampleSettleBody :: settleBody where
  "sampleSettleBody = \<lparr>sb_collectorId = ''k1'', sb_settlementDate = ''2023-11-14'', sb_actualAmount = cents 2400, sb_notes = None\<rparr>"

theorem settlement_exact_witness:
  "\<exists>s. db_settlements (snd (settleCollections (\<lambda>_. []) sampleEnv (Some sampleSettleBody) (sampleFieldDb [sampleCollection]))) = [s]
     \<and> se_variance s = - 100 \<and> se_status s = SE_VARIANCE_PENDING_APPROVAL"
proof -
  let ?db = "sampleFieldDb [sampleCollection]" and ?b = sampleSettleBody
  have d: "e_parseDate sampleEnv (sb_settlementDate ?b) = Some 1700000000000" by (simp add: sampleEnv_def)
  have own: "collectedOn (sb_collectorId ?b) (startOfDay 1700000000000) (db_collections ?db) = [sampleCollection]"
    by (simp add: collectedOn_def sampleCollection_def sampleSettleBody_def startOfDay_def dayOf_def plusDays_eq)
  obtain s db' where run: "settleCollections (\<lambda>_. []) sampleEnv (Some ?b) ?db = (ROk 201 s, db')"
    using d by (simp add: settleCollections_def answer_def parseBody_def safeParse_def sampleSettleBody_def require_def Let_def)
  have "sb_actualAmount ?b = cents 2400" by (simp add: sampleSettleBody_def)
  from settlement_exact [OF run this _ d] show ?thesis
    unfolding own run by (simp add: smallSum_def sampleCollection_def)
qed


end
