(* ===== verification/Internal_Audit.thy ===== *)
theory Internal_Audit
  imports Collections_Safety
begin

text \<open>
  Internal audit (\<open>routes/internalAudit.routes.ts\<close>): engagements with their approved scope, findings
  with their owners and remediation, and what the closing of an engagement guarantees.
\<close>

section \<open>Tables\<close>

datatype engagementType = INTERNAL | EXTERNAL | REGULATORY | IT_AUDIT | FINANCIAL

datatype engagementStatus = EG_PLANNED | EG_APPROVED | EG_IN_PROGRESS | EG_UNDER_REVIEW | EG_COMPLETED | EG_FOLLOW_UP | EG_CLOSED | EG_ARCHIVED

fun showEngagementStatus :: "engagementStatus \<Rightarrow> string" where
  "showEngagementStatus EG_PLANNED = ''PLANNED''"
| "showEngagementStatus EG_APPROVED = ''APPROVED''"
| "showEngagementStatus EG_IN_PROGRESS = ''IN_PROGRESS''"
| "showEngagementStatus EG_UNDER_REVIEW = ''UNDER_REVIEW''"
| "showEngagementStatus EG_COMPLETED = ''COMPLETED''"
| "showEngagementStatus EG_FOLLOW_UP = ''FOLLOW_UP''"
| "showEngagementStatus EG_CLOSED = ''CLOSED''"
| "showEngagementStatus EG_ARCHIVED = ''ARCHIVED''"

datatype auditRating = SATISFACTORY | NEEDS_IMPROVEMENT | UNSATISFACTORY

record auditEngagement =
  eg_id :: string
  eg_institutionId :: string
  eg_branchId :: "string option"
  eg_auditNumber :: string
  eg_type :: engagementType
  eg_leadAuditor :: string
  eg_scope :: string
  eg_status :: engagementStatus
  eg_plannedStartDate :: time
  eg_completionDate :: "time option"
  eg_rating :: "auditRating option"
  eg_raisedById :: string

datatype findingStatus = AF_OPEN | AF_IN_PROGRESS | AF_IMPLEMENTED | AF_VERIFIED | AF_CLOSED

fun showFindingStatus :: "findingStatus \<Rightarrow> string" where
  "showFindingStatus AF_OPEN = ''OPEN''"
| "showFindingStatus AF_IN_PROGRESS = ''IN_PROGRESS''"
| "showFindingStatus AF_IMPLEMENTED = ''IMPLEMENTED''"
| "showFindingStatus AF_VERIFIED = ''VERIFIED''"
| "showFindingStatus AF_CLOSED = ''CLOSED''"

datatype findingRisk = AR_LOW | AR_MEDIUM | AR_HIGH | AR_CRITICAL

record auditFinding =
  af_id :: string
  af_institutionId :: string
  af_engagementId :: string
  af_referenceNumber :: string
  af_description :: string
  af_riskClassification :: findingRisk
  af_rootCauseAnalysis :: "string option"
  af_recommendation :: string
  af_managementResponse :: "string option"
  af_actionOwnerId :: "string option"
  af_targetRemediationDate :: "time option"
  af_overdue :: bool
  af_status :: findingStatus
  af_verifiedAt :: "time option"
  af_verifiedById :: "string option"
  af_closedAt :: "time option"
  af_closedById :: "string option"
  af_raisedById :: string

record audit_db = collections_db +
  db_engagements :: "auditEngagement list"
  db_findings :: "auditFinding list"

section \<open>Engagements\<close>

definition stampedNumber :: "string \<Rightarrow> time \<Rightarrow> num \<Rightarrow> string" where
  "stampedNumber prefix now r = (let s = showNat (nat now) in
     prefix @ drop (length s - 10) s @ padStart 3 (showNat (nat \<lfloor>nmul r 1000\<rfloor>)))"

definition generateAuditNumber :: "time \<Rightarrow> num \<Rightarrow> string" where
  "generateAuditNumber = stampedNumber ''AUD''"

definition generateFindingReference :: "time \<Rightarrow> num \<Rightarrow> string" where
  "generateFindingReference = stampedNumber ''FND''"

record engagementBody =
  gb_type :: engagementType
  gb_branchId :: "string option"
  gb_leadAuditor :: string
  gb_scope :: string
  gb_plannedStartDate :: string

text \<open>Audit numbers are unique, and the branch is a foreign key.\<close>

definition createEngagement :: "env \<Rightarrow> engagementBody option \<Rightarrow> 'a audit_db_scheme \<Rightarrow> auditEngagement resp \<times> 'a audit_db_scheme" where
  "createEngagement env body db = answer 201 db (
     bindE (parseBody (\<lambda>b. gb_leadAuditor b \<noteq> [] \<and> 2 \<le> length (gb_scope b)) body) (\<lambda>b.
     bindE (orThrow Thrown (e_parseDate env (gb_plannedStartDate b))) (\<lambda>d.
     let g = \<lparr>eg_id = newId env db, eg_institutionId = e_institutionId env, eg_branchId = gb_branchId b,
           eg_auditNumber = generateAuditNumber (e_now env) (e_rand env (db_next db)), eg_type = gb_type b,
           eg_leadAuditor = gb_leadAuditor b, eg_scope = gb_scope b, eg_status = EG_PLANNED, eg_plannedStartDate = d,
           eg_completionDate = None, eg_rating = None, eg_raisedById = e_userId env\<rparr>
     in if find (\<lambda>x. eg_auditNumber x = eg_auditNumber g) (db_engagements db) \<noteq> None
          \<or> (eg_branchId g \<noteq> None \<and> find (\<lambda>(i, _). Some i = eg_branchId g) (db_branches db) = None)
        then Inl Thrown
        else Inr (g, audit env ''audit_engagement.create'' ''audit_engagement'' (eg_id g)
          (db\<lparr>db_next := Suc (db_next db), db_engagements := db_engagements db @ [g]\<rparr>)))))"

definition ownEngagement :: "env \<Rightarrow> string \<Rightarrow> 'a audit_db_scheme \<Rightarrow> terr + auditEngagement" where
  "ownEngagement env i db = orThrow (Http 404 ''Engagement not found'')
     (find (\<lambda>g. eg_id g = i \<and> eg_institutionId g = e_institutionId env) (db_engagements db))"

definition updEngagement :: "string \<Rightarrow> (auditEngagement \<Rightarrow> auditEngagement) \<Rightarrow> 'a audit_db_scheme \<Rightarrow> 'a audit_db_scheme" where
  "updEngagement i f db = db\<lparr>db_engagements := updWhere (\<lambda>g. eg_id g = i) f (db_engagements db)\<rparr>"

definition requestEngagementApproval :: "env \<Rightarrow> string \<Rightarrow> 'a audit_db_scheme \<Rightarrow> unit resp \<times> 'a audit_db_scheme" where
  "requestEngagementApproval env i db = answer 202 db (
     bindE (ownEngagement env i db) (\<lambda>g.
     bindE (require (eg_status g = EG_PLANNED) 400 (''Cannot request approval from status '' @ showEngagementStatus (eg_status g))) (\<lambda>_.
     Inr ((), requestApproval env AUDIT_ENGAGEMENT_APPROVAL ''AuditEngagement'' (eg_id g) []
       (''Scope approval for audit '' @ eg_auditNumber g) db))))"

definition engagementTargets :: "engagementStatus set" where
  "engagementTargets = {EG_UNDER_REVIEW, EG_COMPLETED, EG_FOLLOW_UP, EG_ARCHIVED}"

definition setEngagementStatus ::
  "env \<Rightarrow> string \<Rightarrow> engagementStatus option \<Rightarrow> 'a audit_db_scheme \<Rightarrow> auditEngagement resp \<times> 'a audit_db_scheme" where
  "setEngagementStatus env i status db = answer 200 db (
     bindE (orThrow (Http 400 ''status must be one of UNDER_REVIEW, COMPLETED, FOLLOW_UP, ARCHIVED'')
       (safeParse (\<lambda>s. s \<in> engagementTargets) status)) (\<lambda>s.
     bindE (ownEngagement env i db) (\<lambda>g.
     bindE (require (eg_status g \<in> {EG_IN_PROGRESS, EG_UNDER_REVIEW, EG_COMPLETED, EG_FOLLOW_UP}) 400
       (''Cannot transition from '' @ showEngagementStatus (eg_status g))) (\<lambda>_.
     let f = (\<lambda>g. g\<lparr>eg_status := s, eg_completionDate := (if s = EG_COMPLETED then Some (e_now env) else eg_completionDate g)\<rparr>)
     in Inr (f g, updEngagement (eg_id g) f db)))))"

definition rateEngagement :: "env \<Rightarrow> string \<Rightarrow> auditRating option \<Rightarrow> 'a audit_db_scheme \<Rightarrow> auditEngagement resp \<times> 'a audit_db_scheme" where
  "rateEngagement env i body db = answer 200 db (
     bindE (parseBody (\<lambda>_. True) body) (\<lambda>r.
     bindE (ownEngagement env i db) (\<lambda>g.
     let f = (\<lambda>g. g\<lparr>eg_rating := Some r\<rparr>) in Inr (f g, updEngagement (eg_id g) f db))))"

definition unassignedFindings :: "string \<Rightarrow> 'a audit_db_scheme \<Rightarrow> auditFinding list" where
  "unassignedFindings i db = filter (\<lambda>f. af_engagementId f = i \<and> \<not> truthy (af_actionOwnerId f)) (db_findings db)"

definition closeEngagement :: "env \<Rightarrow> string \<Rightarrow> 'a audit_db_scheme \<Rightarrow> auditEngagement resp \<times> 'a audit_db_scheme" where
  "closeEngagement env i db = answer 200 db (
     bindE (ownEngagement env i db) (\<lambda>g.
     bindE (require (eg_status g \<in> {EG_COMPLETED, EG_FOLLOW_UP}) 400 (''Cannot close from status '' @ showEngagementStatus (eg_status g))) (\<lambda>_.
     bindE (require (unassignedFindings (eg_id g) db = []) 400 (showNat (length (unassignedFindings (eg_id g) db))
       @ '' finding(s) still have no accountable owner assigned - required before closure'')) (\<lambda>_.
     let f = (\<lambda>g. g\<lparr>eg_status := EG_CLOSED\<rparr>)
     in Inr (f g, audit env ''audit_engagement.close'' ''audit_engagement'' (eg_id g) (updEngagement (eg_id g) f db))))))"

section \<open>Findings\<close>

record findingBody =
  fb_engagementId :: string
  fb_description :: string
  fb_riskClassification :: findingRisk
  fb_rootCauseAnalysis :: "string option"
  fb_recommendation :: string
  fb_actionOwnerId :: "string option"
  fb_targetRemediationDate :: "string option"

text \<open>A date that is given must parse; an owner that is given must be an employee (a foreign key).\<close>

definition givenDate :: "env \<Rightarrow> string option \<Rightarrow> terr + time option" where
  "givenDate env s = (if truthy s then bindE (orThrow Thrown (e_parseDate env (the s))) (\<lambda>d. Inr (Some d)) else Inr None)"

definition employeeKnown :: "string option \<Rightarrow> 'a cash_db_scheme \<Rightarrow> bool" where
  "employeeKnown i db \<longleftrightarrow> i = None \<or> find (\<lambda>e. Some (em_id e) = i) (db_employees db) \<noteq> None"

definition registerFinding :: "env \<Rightarrow> findingBody option \<Rightarrow> 'a audit_db_scheme \<Rightarrow> auditFinding resp \<times> 'a audit_db_scheme" where
  "registerFinding env body db = answer 201 db (
     bindE (parseBody (\<lambda>b. 2 \<le> length (fb_description b) \<and> 2 \<le> length (fb_recommendation b)) body) (\<lambda>b.
     bindE (ownEngagement env (fb_engagementId b) db) (\<lambda>g.
     bindE (givenDate env (fb_targetRemediationDate b)) (\<lambda>d.
     let f = \<lparr>af_id = newId env db, af_institutionId = e_institutionId env, af_engagementId = eg_id g,
           af_referenceNumber = generateFindingReference (e_now env) (e_rand env (db_next db)), af_description = fb_description b,
           af_riskClassification = fb_riskClassification b, af_rootCauseAnalysis = fb_rootCauseAnalysis b,
           af_recommendation = fb_recommendation b, af_managementResponse = None, af_actionOwnerId = fb_actionOwnerId b,
           af_targetRemediationDate = d, af_overdue = False, af_status = AF_OPEN, af_verifiedAt = None, af_verifiedById = None,
           af_closedAt = None, af_closedById = None, af_raisedById = e_userId env\<rparr>
     in if find (\<lambda>x. af_referenceNumber x = af_referenceNumber f) (db_findings db) \<noteq> None \<or> \<not> employeeKnown (af_actionOwnerId f) db
        then Inl Thrown
        else Inr (f, audit env ''audit_finding.register'' ''audit_finding'' (af_id f)
          (db\<lparr>db_next := Suc (db_next db), db_findings := db_findings db @ [f]\<rparr>))))))"

definition ownFinding :: "env \<Rightarrow> string \<Rightarrow> 'a audit_db_scheme \<Rightarrow> terr + auditFinding" where
  "ownFinding env i db = orThrow (Http 404 ''Finding not found'')
     (find (\<lambda>f. af_id f = i \<and> af_institutionId f = e_institutionId env) (db_findings db))"

definition updFinding :: "string \<Rightarrow> (auditFinding \<Rightarrow> auditFinding) \<Rightarrow> 'a audit_db_scheme \<Rightarrow> 'a audit_db_scheme" where
  "updFinding i f db = db\<lparr>db_findings := updWhere (\<lambda>x. af_id x = i) f (db_findings db)\<rparr>"

definition respondRow :: "string \<Rightarrow> string option \<Rightarrow> time option \<Rightarrow> auditFinding \<Rightarrow> auditFinding" where
  "respondRow response owner d x = x\<lparr>af_managementResponse := Some response, af_actionOwnerId := Customer_Care.orKeep owner (af_actionOwnerId x),
     af_targetRemediationDate := Customer_Care.orKeep d (af_targetRemediationDate x),
     af_status := (if af_status x = AF_OPEN then AF_IN_PROGRESS else af_status x)\<rparr>"

text \<open>The body: the response, the owner and the target date.\<close>

definition respondToFinding ::
  "env \<Rightarrow> string \<Rightarrow> (string \<times> string option \<times> string option) option \<Rightarrow> 'a audit_db_scheme \<Rightarrow> auditFinding resp \<times> 'a audit_db_scheme" where
  "respondToFinding env i body db = answer 200 db (
     bindE (parseBody (\<lambda>(response, _, _). response \<noteq> []) body) (\<lambda>(response, owner, target).
     bindE (ownFinding env i db) (\<lambda>x.
     bindE (givenDate env target) (\<lambda>d.
     if \<not> employeeKnown (af_actionOwnerId (respondRow response owner d x)) db then Inl Thrown
     else Inr (respondRow response owner d x, updFinding (af_id x) (respondRow response owner d) db)))))"

definition markImplemented :: "env \<Rightarrow> string \<Rightarrow> 'a audit_db_scheme \<Rightarrow> auditFinding resp \<times> 'a audit_db_scheme" where
  "markImplemented env i db = answer 200 db (
     bindE (ownFinding env i db) (\<lambda>x.
     bindE (require (af_status x \<in> {AF_IN_PROGRESS, AF_OPEN}) 400 (''Cannot mark implemented from '' @ showFindingStatus (af_status x))) (\<lambda>_.
     let f = (\<lambda>x. x\<lparr>af_status := AF_IMPLEMENTED\<rparr>) in Inr (f x, updFinding (af_id x) f db))))"

definition verifyFinding :: "env \<Rightarrow> string \<Rightarrow> 'a audit_db_scheme \<Rightarrow> auditFinding resp \<times> 'a audit_db_scheme" where
  "verifyFinding env i db = answer 200 db (
     bindE (ownFinding env i db) (\<lambda>x.
     bindE (require (af_status x = AF_IMPLEMENTED) 400 ''Only an implemented finding can be verified'') (\<lambda>_.
     let f = (\<lambda>x. x\<lparr>af_status := AF_VERIFIED, af_verifiedAt := Some (e_now env), af_verifiedById := Some (e_userId env), af_overdue := False\<rparr>)
     in Inr (f x, audit env ''audit_finding.verify'' ''audit_finding'' (af_id x) (updFinding (af_id x) f db)))))"

definition closeFinding :: "env \<Rightarrow> string \<Rightarrow> 'a audit_db_scheme \<Rightarrow> auditFinding resp \<times> 'a audit_db_scheme" where
  "closeFinding env i db = answer 200 db (
     bindE (ownFinding env i db) (\<lambda>x.
     bindE (require (af_status x = AF_VERIFIED) 400 ''Only a verified finding can be closed'') (\<lambda>_.
     let f = (\<lambda>x. x\<lparr>af_status := AF_CLOSED, af_closedAt := Some (e_now env), af_closedById := Some (e_userId env)\<rparr>)
     in Inr (f x, audit env ''audit_finding.close'' ''audit_finding'' (af_id x) (updFinding (af_id x) f db)))))"

section \<open>The life of a finding\<close>

text \<open>Every request of the module, by any user at any time.\<close>

inductive audit_step :: "(nat \<Rightarrow> string) \<Rightarrow> 'a audit_db_scheme \<Rightarrow> 'a audit_db_scheme \<Rightarrow> bool" for uuid where
  CreateEngagement: "audit_step uuid db (snd (createEngagement env b1 db))"
| RequestApproval: "audit_step uuid db (snd (requestEngagementApproval env i db))"
| SetStatus: "audit_step uuid db (snd (setEngagementStatus env i s db))"
| Rate: "audit_step uuid db (snd (rateEngagement env i r db))"
| CloseEngagement: "audit_step uuid db (snd (closeEngagement env i db))"
| Register: "e_uuid env = uuid \<Longrightarrow> audit_step uuid db (snd (registerFinding env b2 db))"
| Respond: "audit_step uuid db (snd (respondToFinding env i b3 db))"
| Implement: "audit_step uuid db (snd (markImplemented env i db))"
| Verify: "audit_step uuid db (snd (verifyFinding env i db))"
| CloseFinding: "audit_step uuid db (snd (closeFinding env i db))"

text \<open>The evidence that a finding's status demands.\<close>

fun evidenced :: "auditFinding \<Rightarrow> bool" where
  "evidenced f = (case af_status f of
       AF_VERIFIED \<Rightarrow> af_verifiedById f \<noteq> None \<and> af_verifiedAt f \<noteq> None \<and> \<not> af_overdue f
     | AF_CLOSED \<Rightarrow> af_verifiedById f \<noteq> None \<and> af_verifiedAt f \<noteq> None \<and> af_closedById f \<noteq> None \<and> af_closedAt f \<noteq> None
     | _ \<Rightarrow> True)"

definition findings_inv :: "(nat \<Rightarrow> string) \<Rightarrow> 'a audit_db_scheme \<Rightarrow> bool" where
  "findings_inv uuid db \<longleftrightarrow> named uuid (db_next db) af_id (db_findings db) \<and> (\<forall>f \<in> set (db_findings db). evidenced f)"

lemma respondRow_evidenced: "evidenced x \<Longrightarrow> evidenced (respondRow r o' d x)"
  by (cases "af_status x") (simp_all add: respondRow_def)

lemma respondRow_id [simp]: "af_id (respondRow r o' d x) = af_id x"
  by (simp add: respondRow_def)

lemma findings_inv_frame:
  assumes "findings_inv uuid db" and "db_findings db' = db_findings db" and "db_next db \<le> db_next db'"
  shows "findings_inv uuid db'"
  using assms named_mono unfolding findings_inv_def by metis

lemma audit_rows [simp]:
  "findings_inv uuid (audit env a r i db) = findings_inv uuid db"
  "db_findings (updEngagement i f db) = db_findings db" "db_next (updEngagement i f db) = db_next db"
  by (simp_all add: audit_def updEngagement_def findings_inv_def)

lemma finding_added:
  assumes "findings_inv uuid db" and "inj uuid" and "af_id f = uuid (db_next db)" and "evidenced f"
  shows "findings_inv uuid (db\<lparr>db_next := Suc (db_next db), db_findings := db_findings db @ [f]\<rparr>)"
  using assms named_snoc by (auto simp: findings_inv_def)

text \<open>A request on a finding changes its one row.\<close>

lemma finding_updated:
  assumes inv: "findings_inv uuid db" and own: "ownFinding env i db = Inr x"
    and f: "evidenced x \<Longrightarrow> evidenced (f x)" and key: "\<And>y. af_id (f y) = af_id y"
  shows "findings_inv uuid (updFinding (af_id x) f db)"
proof -
  have u: "uniqueBy af_id (db_findings db)" using inv by (simp add: findings_inv_def named_def)
  have x: "x \<in> set (db_findings db)" using own by (auto simp: ownFinding_def dest: find_SomeD)
  have "evidenced y" if y: "y \<in> set (updWhere (\<lambda>q. af_id q = af_id x) f (db_findings db))" for y
    using y
  proof (rule in_updWhereE)
    fix q assume q: "q \<in> set (db_findings db)" "af_id q = af_id x" "y = f q"
    then have "q = x" using uniqueBy_eq [OF u _ x] by simp
    then show "evidenced y" using inv x f q(3) by (simp add: findings_inv_def)
  qed (use inv in \<open>simp add: findings_inv_def\<close>)
  then show ?thesis using inv key by (simp add: findings_inv_def updFinding_def named_updWhere)
qed

text \<open>
  Claim C40. Whatever requests come in, by whomever and in whatever order, a finding that is closed was
  verified first: who verified and who closed it and when are on record, and a finding that has been
  verified is not flagged overdue.
\<close>

theorem finding_closed_verified:
  assumes "(audit_step uuid)\<^sup>*\<^sup>* db0 db" and "inj uuid" and "findings_inv uuid db0"
  shows "\<forall>f \<in> set (db_findings db).
      (af_status f \<in> {AF_VERIFIED, AF_CLOSED} \<longrightarrow> af_verifiedById f \<noteq> None \<and> af_verifiedAt f \<noteq> None)
    \<and> (af_status f = AF_VERIFIED \<longrightarrow> \<not> af_overdue f)
    \<and> (af_status f = AF_CLOSED \<longrightarrow> af_closedById f \<noteq> None \<and> af_closedAt f \<noteq> None)"
proof -
  have "findings_inv uuid db"
    using assms(1)
  proof (induction rule: rtranclp_induct)
    case (step db db')
    note inv = step.IH
    note A = answer_db [where Q = "findings_inv uuid", OF _ inv]
    note upd = finding_updated [OF inv]
    note F = findings_inv_frame [OF inv]
    show ?case using step.hyps(2)
    proof cases
      case (CreateEngagement env b)
      show ?thesis unfolding CreateEngagement createEngagement_def
        by (rule A) (auto simp: bindE_Inr_iff Let_def audit_def split: if_splits intro!: F)
    next
      case (RequestApproval env i)
      show ?thesis unfolding RequestApproval requestEngagementApproval_def
        by (rule A) (auto simp: bindE_Inr_iff requestApproval_def intro!: F)
    next
      case (SetStatus env i s)
      show ?thesis unfolding SetStatus setEngagementStatus_def
        by (rule A) (auto simp: bindE_Inr_iff Let_def audit_def intro!: F)
    next
      case (Rate env i r)
      show ?thesis unfolding Rate rateEngagement_def by (rule A) (auto simp: bindE_Inr_iff Let_def audit_def intro!: F)
    next
      case (CloseEngagement env i)
      show ?thesis unfolding CloseEngagement closeEngagement_def
        by (rule A) (auto simp: bindE_Inr_iff Let_def audit_def intro!: F)
    next
      case (Register env b)
      have new: "newId env db = uuid (db_next db)" using Register(2) by (simp add: newId_def)
      show ?thesis unfolding Register(1) registerFinding_def
        by (rule A) (auto simp: bindE_Inr_iff Let_def new split: if_splits intro!: finding_added [OF inv assms(2)])
    next
      case (Respond env i b)
      show ?thesis unfolding Respond respondToFinding_def
        by (rule A) (auto simp: bindE_Inr_iff split: if_splits intro!: upd respondRow_evidenced)
    next
      case (Implement env i)
      show ?thesis unfolding Implement markImplemented_def by (rule A) (auto simp: bindE_Inr_iff Let_def intro!: upd)
    next
      case (Verify env i)
      show ?thesis unfolding Verify verifyFinding_def by (rule A) (auto simp: bindE_Inr_iff Let_def intro!: upd)
    next
      case (CloseFinding env i)
      show ?thesis unfolding CloseFinding closeFinding_def by (rule A) (auto simp: bindE_Inr_iff Let_def intro!: upd)
    qed
  qed (rule assms(3))
  then show ?thesis by (auto simp: findings_inv_def split: findingStatus.splits)
qed

end
