(* ===== verification/Scheduler.thy ===== *)
theory Scheduler
  imports Internal_Audit
begin

text \<open>
  The scheduled jobs (\<open>lib/scheduler.ts\<close>, \<open>lib/standingInstructions.ts\<close>): the claim that makes a job
  run once a day across server instances, arrears, standing instructions, recurring journals, interest
  and the two overdue checks. A job runs outside a transaction: what it wrote before an exception
  stays. Jobs are taken one after the other, although the server starts them without waiting.
\<close>

section \<open>Tables\<close>

datatype jobStatus = JOB_CLAIMED | JOB_COMPLETED | JOB_FAILED

record jobRun =
  jr_id :: string
  jr_jobType :: string
  jr_runDate :: time
  jr_status :: jobStatus
  jr_completedAt :: "time option"

record recurringRun =
  rr_recurringJournalId :: string
  rr_success :: bool
  rr_journalId :: "string option"
  rr_failureReason :: "string option"

record scheduler_db = audit_db +
  db_jobRuns :: "jobRun list"
  db_recurringRuns :: "recurringRun list"

text \<open>A job ends with an exception or without, and either way with a database.\<close>

type_synonym 'd job = "'d \<Rightarrow> terr option \<times> 'd"

fun runEach :: "('x \<Rightarrow> 'd job) \<Rightarrow> 'x list \<Rightarrow> 'd job" where
  "runEach f [] d = (None, d)"
| "runEach f (x # xs) d = (case f x d of (Some e, d1) \<Rightarrow> (Some e, d1) | (None, d1) \<Rightarrow> runEach f xs d1)"

section \<open>The daily claim\<close>

definition updJobRun :: "string \<Rightarrow> (jobRun \<Rightarrow> jobRun) \<Rightarrow> 'a scheduler_db_scheme \<Rightarrow> 'a scheduler_db_scheme" where
  "updJobRun i f db = db\<lparr>db_jobRuns := updWhere (\<lambda>r. jr_id r = i) f (db_jobRuns db)\<rparr>"

text \<open>The row of the job and the day is unique: only one process can create it.\<close>

definition claimAndRun :: "env \<Rightarrow> string \<Rightarrow> 'a scheduler_db_scheme job \<Rightarrow> 'a scheduler_db_scheme job" where
  "claimAndRun env jobType fn db =
     (let runDate = startOfDay (e_now env) in
      if find (\<lambda>r. jr_jobType r = jobType \<and> jr_runDate r = runDate) (db_jobRuns db) \<noteq> None then (None, db)
      else
        (let claim = \<lparr>jr_id = newId env db, jr_jobType = jobType, jr_runDate = runDate, jr_status = JOB_CLAIMED, jr_completedAt = None\<rparr>;
             (e, db1) = fn (db\<lparr>db_next := Suc (db_next db), db_jobRuns := db_jobRuns db @ [claim]\<rparr>);
             st = (if e = None then JOB_COMPLETED else JOB_FAILED)
         in (e, updJobRun (jr_id claim) (\<lambda>r. r\<lparr>jr_status := st, jr_completedAt := Some (e_now env)\<rparr>) db1)))"

section \<open>Arrears\<close>

definition arrearsInstallmentOf :: "loanInstallment \<Rightarrow> arrearsInstallment" where
  "arrearsInstallmentOf r = \<lparr>ai_dueDate = li_dueDate r, ai_totalDue = cents (li_totalDue r),
     ai_principalPaid = cents (li_principalPaid r), ai_interestPaid = cents (li_interestPaid r)\<rparr>"

definition loanArrears :: "time \<Rightarrow> string \<Rightarrow> loanInstallment list \<Rightarrow> arrearsResult" where
  "loanArrears now i rs = calculateArrears (map arrearsInstallmentOf (filter (\<lambda>r. li_loanId r = i) rs)) now"

definition arrearsChanged :: "arrearsResult \<Rightarrow> loan \<Rightarrow> bool" where
  "arrearsChanged a l \<longleftrightarrow> ar_classification a \<noteq> ln_arrearsClassification l \<or> ar_daysInArrears a \<noteq> ln_daysInArrears l
     \<or> cents 1 < \<bar>nsub (ar_arrearsAmount a) (cents (ln_arrearsAmount l))\<bar>"

definition arrearsRow :: "time \<Rightarrow> arrearsResult \<Rightarrow> bool \<Rightarrow> loan \<Rightarrow> loan" where
  "arrearsRow now a differs l = (if differs
     then l\<lparr>ln_arrearsClassification := ar_classification a, ln_daysInArrears := ar_daysInArrears a,
       ln_arrearsAmount := toDec2 (ar_arrearsAmount a), ln_lastArrearsCheckAt := Some now\<rparr>
     else l\<lparr>ln_lastArrearsCheckAt := Some now\<rparr>)"

definition checkLoanArrears :: "env \<Rightarrow> loan \<Rightarrow> 'a loan_db_scheme job" where
  "checkLoanArrears env l db =
     (let a = loanArrears (e_now env) (ln_id l) (db_installments db)
      in (None, updLoan (ln_id l) (arrearsRow (e_now env) a (arrearsChanged a l)) db))"

definition runArrearsCheck :: "env \<Rightarrow> 'a loan_db_scheme job" where
  "runArrearsCheck env db = runEach (checkLoanArrears env) (filter liveLoan (db_loans db)) db"

section \<open>Standing instructions\<close>

fun nextExecutionDate :: "time \<Rightarrow> frequency \<Rightarrow> int option \<Rightarrow> time" where
  "nextExecutionDate d DAILY n = plusDays d 1"
| "nextExecutionDate d WEEKLY n = plusDays d 7"
| "nextExecutionDate d FORTNIGHTLY n = plusDays d 14"
| "nextExecutionDate d MONTHLY n = plusMonths d 1"
| "nextExecutionDate d QUARTERLY n = plusMonths d 3"
| "nextExecutionDate d HALF_YEARLY n = plusMonths d 6"
| "nextExecutionDate d ANNUALLY n = plusYears d 1"
| "nextExecutionDate d CUSTOM_INTERVAL n = plusDays d (case n of Some k \<Rightarrow> if 0 < k then k else 1 | None \<Rightarrow> 1)"

definition updInstruction :: "string \<Rightarrow> (standingInstruction \<Rightarrow> standingInstruction) \<Rightarrow> 'a savings_db_scheme \<Rightarrow> 'a savings_db_scheme" where
  "updInstruction i = updInstructions (\<lambda>s. si_id s = i)"

definition recordInstructionRun :: "standingInstruction \<Rightarrow> string option \<Rightarrow> 'a savings_db_scheme \<Rightarrow> 'a savings_db_scheme" where
  "recordInstructionRun s failure db = db\<lparr>db_instructionRuns := db_instructionRuns db @
     [\<lparr>ir_instructionId = si_id s, ir_success = (failure = None), ir_amount = toDec2 (cents (si_amount s)), ir_failureReason = failure\<rparr>]\<rparr>"

definition savingsById :: "string \<Rightarrow> 'a savings_db_scheme \<Rightarrow> savingsAccount option" where
  "savingsById i db = find (\<lambda>a. sa_id a = i) (db_savings db)"

text \<open>One step of a transfer: the balance that was computed before, and its transaction.\<close>

definition withdrawFor :: "env \<Rightarrow> standingInstruction \<Rightarrow> savingsAccount \<Rightarrow> 'a savings_db_scheme \<Rightarrow> 'a savings_db_scheme" where
  "withdrawFor env s a db =
     (let x = nsub (cents (sa_balance a)) (cents (si_amount s))
      in snd (recordTxn env (sa_id a) ST_WITHDRAWAL (cents (si_amount s)) (toDec2 x) (Some (si_createdById s))
           (updSavings (sa_id a) (setBalance x) db)))"

text \<open>Both new balances are computed from what was read; the two accounts may be the same.\<close>

definition transferFor :: "env \<Rightarrow> standingInstruction \<Rightarrow> savingsAccount \<Rightarrow> savingsAccount \<Rightarrow> 'a savings_db_scheme \<Rightarrow> 'a savings_db_scheme" where
  "transferFor env s a b db =
     (let x = nsub (cents (sa_balance a)) (cents (si_amount s));
          y = nadd (cents (sa_balance b)) (cents (si_amount s));
          db1 = updSavings (sa_id b) (setBalance y) (updSavings (sa_id a) (setBalance x) db);
          db2 = snd (recordTxn env (sa_id a) ST_WITHDRAWAL (cents (si_amount s)) (toDec2 x) (Some (si_createdById s)) db1)
      in snd (recordTxn env (sa_id b) ST_DEPOSIT (cents (si_amount s)) (toDec2 y) (Some (si_createdById s)) db2))"

definition failInstruction :: "standingInstruction \<Rightarrow> string \<Rightarrow> 'a savings_db_scheme \<Rightarrow> 'a savings_db_scheme" where
  "failInstruction s reason db =
     (let n = si_consecutiveFailures s + 1;
          st = (if si_maxRetries s \<le> n then SI_SUSPENDED else SI_ACTIVE)
      in recordInstructionRun s (Some reason)
           (updInstruction (si_id s) (\<lambda>x. x\<lparr>si_consecutiveFailures := n, si_status := st\<rparr>) db))"

text \<open>The movement of the money: \<open>Inl\<close> is a failure that is recorded, or an exception.\<close>

definition instructionTx :: "env \<Rightarrow> standingInstruction \<Rightarrow> savingsAccount \<Rightarrow> 'a loan_db_scheme \<Rightarrow> (string + terr) + 'a loan_db_scheme" where
  "instructionTx env s a db =
     (if si_type s = INTERNAL_TRANSFER \<and> truthy (si_destinationAccountId s) then
        (case savingsById (the (si_destinationAccountId s)) db of
           None \<Rightarrow> Inl (Inl ''Destination account not found'')
         | Some b \<Rightarrow> Inr (transferFor env s a b db))
      else if si_type s = LOAN_REPAYMENT \<and> truthy (si_destinationLoanId s) then
        (if find (\<lambda>l. ln_id l = the (si_destinationLoanId s)) (db_loans db) = None then Inl (Inr Thrown)
         else (let db1 = withdrawFor env s a db in Inr (db1\<lparr>db_next := Suc (db_next db1), db_repayments := db_repayments db1 @
           [\<lparr>lr_id = newId env db1, lr_loanId = the (si_destinationLoanId s), lr_amount = toDec2 (cents (si_amount s)),
             lr_paidAt = e_now env, lr_recordedById = Some (si_createdById s)\<rparr>]\<rparr>)))
      else if si_type s = SCHEDULED_WITHDRAWAL then Inr (withdrawFor env s a db)
      else Inr db)"

definition executeInstruction :: "env \<Rightarrow> standingInstruction \<Rightarrow> 'a loan_db_scheme job" where
  "executeInstruction env s db =
     (case savingsById (si_sourceAccountId s) db of
        None \<Rightarrow> (None, failInstruction s ''Source account not found'' db)
      | Some a \<Rightarrow>
          if cents (sa_balance a) < cents (si_amount s) then (None, failInstruction s ''Insufficient balance'' db)
          else (case instructionTx env s a db of
              Inl (Inl reason) \<Rightarrow> (None, recordInstructionRun s (Some reason) db)
            | Inl (Inr e) \<Rightarrow> (Some e, db)
            | Inr db1 \<Rightarrow> (None, updInstruction (si_id s) (\<lambda>x. x\<lparr>si_nextExecutionDate :=
                nextExecutionDate (si_nextExecutionDate s) (si_frequency s) (si_customIntervalDays s), si_consecutiveFailures := 0\<rparr>)
                (recordInstructionRun s None db1))))"

definition dueInstruction :: "env \<Rightarrow> standingInstruction \<Rightarrow> bool" where
  "dueInstruction env s \<longleftrightarrow> si_status s = SI_ACTIVE \<and> si_nextExecutionDate s \<le> e_now env"

definition runStandingInstructions :: "env \<Rightarrow> 'a loan_db_scheme job" where
  "runStandingInstructions env db = runEach (executeInstruction env) (filter (dueInstruction env) (db_instructions db)) db"

section \<open>Recurring journals\<close>

definition recordRecurringRun :: "recurringJournal \<Rightarrow> string option \<Rightarrow> string option \<Rightarrow> 'a scheduler_db_scheme \<Rightarrow> 'a scheduler_db_scheme" where
  "recordRecurringRun rj journalId failure db = db\<lparr>db_recurringRuns := db_recurringRuns db @
     [\<lparr>rr_recurringJournalId = rj_id rj, rr_success = (failure = None), rr_journalId = journalId, rr_failureReason = failure\<rparr>]\<rparr>"

text \<open>Why the template cannot be posted, if it cannot.\<close>

definition recurringProblem :: "recurringJournal \<Rightarrow> 'a gl_db_scheme \<Rightarrow> string option" where
  "recurringProblem rj db =
     (let ls = rj_lineTemplate rj; period = findPostablePeriod (rj_institutionId rj) (rj_nextExecutionDate rj) db in
      if \<not> list_all (\<lambda>l. case accountById (en_accountId l) db of None \<Rightarrow> False | Some a \<Rightarrow> ga_status a = GA_ACTIVE) ls
      then Some ''one or more template accounts are missing or inactive''
      else if \<not> isBalanced ls then Some ''template no longer balances''
      else (case period of None \<Rightarrow> Some ''no financial period covers this date''
         | Some p \<Rightarrow> if fp_status p \<noteq> FP_OPEN then Some (''financial period is '' @ showPeriodStatus (fp_status p)) else None))"

definition templateLines :: "recurringJournal \<Rightarrow> 'a gl_db_scheme \<Rightarrow> (glCategory \<times> entry) list" where
  "templateLines rj db = map (\<lambda>l. (ga_category (the (accountById (en_accountId l) db)), l)) (rj_lineTemplate rj)"

definition postEach :: "(glCategory \<times> entry) list \<Rightarrow> 'a gl_db_scheme job" where
  "postEach = runEach (\<lambda>cl d. case postLine cl d of Inl e \<Rightarrow> (Some e, d) | Inr d1 \<Rightarrow> (None, d1))"

text \<open>The journal first, then the balances, each on its own.\<close>

definition postRecurring :: "env \<Rightarrow> recurringJournal \<Rightarrow> 'a scheduler_db_scheme job" where
  "postRecurring env rj db =
     (case createJournal env (rj_institutionId rj) RECURRING (rj_description rj) J_POSTED (rj_nextExecutionDate rj)
          (Some (rj_createdById rj)) (rj_createdById rj) (rj_lineTemplate rj) db of
        Inl e \<Rightarrow> (Some e, db)
      | Inr (j, db1) \<Rightarrow>
          (case postEach (templateLines rj db) db1 of
             (Some e, db2) \<Rightarrow> (Some e, db2)
           | (None, db2) \<Rightarrow> (None, updRecurring (\<lambda>r. rj_id r = rj_id rj) (\<lambda>r. r\<lparr>rj_nextExecutionDate :=
               nextExecutionDate (rj_nextExecutionDate rj) (rj_frequency rj) (rj_customIntervalDays rj), rj_consecutiveFailures := 0\<rparr>)
               (recordRecurringRun rj (Some (jo_id j)) None db2))))"

definition executeRecurring :: "env \<Rightarrow> recurringJournal \<Rightarrow> 'a scheduler_db_scheme job" where
  "executeRecurring env rj db =
     (case recurringProblem rj db of
        Some reason \<Rightarrow>
          (let n = rj_consecutiveFailures rj + 1; st = (if rj_maxRetries rj \<le> n then RJ_SUSPENDED else RJ_ACTIVE)
           in (None, recordRecurringRun rj None (Some reason)
                (updRecurring (\<lambda>r. rj_id r = rj_id rj) (\<lambda>r. r\<lparr>rj_consecutiveFailures := n, rj_status := st\<rparr>) db)))
      | None \<Rightarrow> postRecurring env rj db)"

definition runRecurringJournals :: "env \<Rightarrow> 'a scheduler_db_scheme job" where
  "runRecurringJournals env db =
     runEach (executeRecurring env) (filter (\<lambda>r. rj_status r = RJ_ACTIVE \<and> rj_nextExecutionDate r \<le> e_now env) (db_recurring db)) db"

section \<open>Interest, complaints and findings\<close>

text \<open>
  The interest runs end with an exception or with their totals, which are only logged. An exception
  in the middle of a run is taken to leave the database as it was.
\<close>

definition jobOf :: "('d \<Rightarrow> terr + 'x \<times> 'd) \<Rightarrow> 'd job" where
  "jobOf f db = (case f db of Inl e \<Rightarrow> (Some e, db) | Inr (_, db1) \<Rightarrow> (None, db1))"

definition runSavingsInterestAccrual :: "env \<Rightarrow> 'a interest_db_scheme job" where
  "runSavingsInterestAccrual env = jobOf (runSavingsInterestAccrualAllInstitutions env)"

definition runSavingsInterestPosting :: "env \<Rightarrow> 'a interest_db_scheme job" where
  "runSavingsInterestPosting env = jobOf (runSavingsInterestPostingAllInstitutions env)"

definition complaintOverdue :: "env \<Rightarrow> customerComplaint \<Rightarrow> bool" where
  "complaintOverdue env c \<longleftrightarrow> cc_status c \<in> {CO_OPEN, CO_INVESTIGATING} \<and> \<not> cc_escalated c \<and> cc_slaTargetAt c < e_now env"

definition runComplaintEscalationCheck :: "env \<Rightarrow> 'a crm_db_scheme job" where
  "runComplaintEscalationCheck env db = (None, db\<lparr>db_complaints := updWhere (complaintOverdue env)
     (\<lambda>c. c\<lparr>cc_escalated := True, cc_escalatedAt := Some (e_now env)\<rparr>) (db_complaints db)\<rparr>)"

definition findingOverdue :: "env \<Rightarrow> auditFinding \<Rightarrow> bool" where
  "findingOverdue env f \<longleftrightarrow> af_status f \<in> {AF_OPEN, AF_IN_PROGRESS} \<and> \<not> af_overdue f
     \<and> (case af_targetRemediationDate f of None \<Rightarrow> False | Some d \<Rightarrow> d < e_now env)"

definition runAuditFindingOverdueCheck :: "env \<Rightarrow> 'a audit_db_scheme job" where
  "runAuditFindingOverdueCheck env db = (None, db\<lparr>db_findings := updWhere (findingOverdue env) (\<lambda>f. f\<lparr>af_overdue := True\<rparr>) (db_findings db)\<rparr>)"

section \<open>The schedule\<close>

definition dailyJobs :: "env \<Rightarrow> (string \<times> 'a scheduler_db_scheme job) list" where
  "dailyJobs env =
     [(''ARREARS_CHECK'', runArrearsCheck env), (''STANDING_INSTRUCTIONS'', runStandingInstructions env),
      (''RECURRING_JOURNALS'', runRecurringJournals env), (''SAVINGS_INTEREST_ACCRUAL'', runSavingsInterestAccrual env),
      (''COMPLAINT_ESCALATION_CHECK'', runComplaintEscalationCheck env), (''AUDIT_FINDING_OVERDUE_CHECK'', runAuditFindingOverdueCheck env)]"

text \<open>The exception of a job is logged; the others run all the same.\<close>

definition runDaily :: "env \<Rightarrow> 'a scheduler_db_scheme \<Rightarrow> 'a scheduler_db_scheme" where
  "runDaily env db = fold (\<lambda>j d. snd (claimAndRun env (fst j) (snd j) d)) (dailyJobs env) db"

definition runMonthly :: "env \<Rightarrow> 'a scheduler_db_scheme \<Rightarrow> 'a scheduler_db_scheme" where
  "runMonthly env db = snd (claimAndRun env ''SAVINGS_INTEREST_POSTING'' (runSavingsInterestPosting env) db)"

end
