(* ===== verification/Scheduler_Safety.thy ===== *)
theory Scheduler_Safety
  imports Scheduler Interest_Safety
begin

text \<open>
  What the scheduled jobs guarantee: each runs once a day whatever the number of server instances,
  arrears are those of the installments, standing instructions move money exactly and never overdraw,
  recurring journals keep the books, and an instruction that cannot run is suspended.
\<close>

section \<open>Jobs\<close>

lemma runEach_inv:
  assumes "\<And>x d. x \<in> set xs \<Longrightarrow> P d \<Longrightarrow> P (snd (f x d))" and "P d"
  shows "P (snd (runEach f xs d))"
  using assms
proof (induction xs arbitrary: d)
  case (Cons x xs)
  obtain e d1 where x: "f x d = (e, d1)" by (cases "f x d")
  have "P d1" using Cons.prems(1) [of x d] Cons.prems(2) x by simp
  then show ?case using Cons.IH [of d1] Cons.prems(1) x by (cases e) simp_all
qed simp

lemma runEach_append:
  "runEach f (xs @ ys) d = (case runEach f xs d of (Some e, d1) \<Rightarrow> (Some e, d1) | (None, d1) \<Rightarrow> runEach f ys d1)"
  by (induction xs arbitrary: d) (auto split: prod.splits option.splits)

lemma postEach_fold: "foldE postLine cls d = Inr d' \<Longrightarrow> postEach cls d = (None, d')"
  unfolding postEach_def by (induction cls arbitrary: d) (auto simp: bindE_Inr_iff)

text \<open>The tables that the jobs other than the claim itself leave alone.\<close>

definition jobRows :: "'a scheduler_db_scheme \<Rightarrow> jobRun list" where
  "jobRows db = db_jobRuns db"

lemma more_jobs:
  fixes db db' :: "'a scheduler_db_scheme"
  shows "interest_db.more db = interest_db.more db' \<Longrightarrow> db_jobRuns db = db_jobRuns db'"
    and "loan_db.more db = loan_db.more db' \<Longrightarrow> db_jobRuns db = db_jobRuns db'"
  by (cases db; cases db'; simp)+

lemma runArrearsCheck_more: "loan_db.more (snd (runArrearsCheck env db)) = loan_db.more db"
  unfolding runArrearsCheck_def
  by (rule runEach_inv [where P = "\<lambda>d. loan_db.more d = loan_db.more db"]) (simp_all add: checkLoanArrears_def updLoan_def Let_def)

lemma moved_savings [simp]:
  "db_savings (withdrawFor env s a db) = updWhere (\<lambda>x. sa_id x = sa_id a)
     (setBalance (nsub (cents (sa_balance a)) (cents (si_amount s)))) (db_savings db)"
  "db_savings (transferFor env s a b db) = updWhere (\<lambda>x. sa_id x = sa_id b)
     (setBalance (nadd (cents (sa_balance b)) (cents (si_amount s))))
     (updWhere (\<lambda>x. sa_id x = sa_id a) (setBalance (nsub (cents (sa_balance a)) (cents (si_amount s)))) (db_savings db))"
  by (simp_all add: withdrawFor_def transferFor_def recordTxn_def updSavings_def Let_def)

lemma withdrawFor_frame [simp]:
  "loan_db.more (withdrawFor env s a db) = loan_db.more db" "db_repayments (withdrawFor env s a db) = db_repayments db"
  "db_loans (withdrawFor env s a db) = db_loans db" "db_instructions (withdrawFor env s a db) = db_instructions db"
  by (simp_all add: withdrawFor_def recordTxn_def updSavings_def Let_def)

lemma transferFor_frame [simp]:
  "loan_db.more (transferFor env s a b db) = loan_db.more db" "db_instructions (transferFor env s a b db) = db_instructions db"
  by (simp_all add: transferFor_def recordTxn_def updSavings_def Let_def)

lemma instruction_frame [simp]:
  "db_savings (recordInstructionRun s f db) = db_savings db" "db_savings (updInstruction i g db) = db_savings db"
  "db_savings (failInstruction s r db) = db_savings db"
  by (simp_all add: recordInstructionRun_def updInstruction_def updInstructions_def failInstruction_def Let_def)

lemma instruction_more [simp]:
  "loan_db.more (recordInstructionRun s f db) = loan_db.more db" "loan_db.more (updInstruction i g db) = loan_db.more db"
  "loan_db.more (failInstruction s r db) = loan_db.more db"
  by (simp_all add: recordInstructionRun_def updInstruction_def updInstructions_def failInstruction_def Let_def)

lemma instructionTx_more: "instructionTx env s a db = Inr db1 \<Longrightarrow> loan_db.more db1 = loan_db.more db"
  by (auto simp: instructionTx_def Let_def split: if_splits option.splits)

lemma executeInstruction_more: "loan_db.more (snd (executeInstruction env s db)) = loan_db.more db"
  by (auto simp: executeInstruction_def instructionTx_more split: option.splits sum.splits)

lemma runStandingInstructions_more: "loan_db.more (snd (runStandingInstructions env db)) = loan_db.more db"
  unfolding runStandingInstructions_def
  by (rule runEach_inv [where P = "\<lambda>d. loan_db.more d = loan_db.more db"]) (simp_all add: executeInstruction_more)

lemma postLine_more: "postLine cl db = Inr db' \<Longrightarrow> gl_db.more db' = gl_db.more db"
  by (auto simp: postLine_def split: prod.splits if_splits)

lemma postEach_jobs: "db_jobRuns (snd (postEach cls db)) = db_jobRuns (db :: 'a scheduler_db_scheme)"
  unfolding postEach_def
  by (rule runEach_inv [where P = "\<lambda>x. db_jobRuns x = db_jobRuns db"]) (auto simp: postLine_def split: sum.splits prod.splits if_splits)

lemma createJournal_jobs: "createJournal env inst ty descr st date pb cb ls db = Inr (j, db1) \<Longrightarrow> db_jobRuns db1 = db_jobRuns (db :: 'a scheduler_db_scheme)"
  by (auto simp: createJournal_def Let_def split: if_splits)

lemma executeRecurring_jobs: "db_jobRuns (snd (executeRecurring env rj db)) = db_jobRuns db"
proof -
  let ?new = "createJournal env (rj_institutionId rj) RECURRING (rj_description rj) J_POSTED (rj_nextExecutionDate rj)
     (Some (rj_createdById rj)) (rj_createdById rj) (rj_lineTemplate rj) db"
  have "db_jobRuns (snd (postRecurring env rj db)) = db_jobRuns db"
  proof (cases ?new)
    case (Inr q)
    obtain e db2 where post: "postEach (templateLines rj db) (snd q) = (e, db2)" by (cases "postEach (templateLines rj db) (snd q)")
    have "db_jobRuns db2 = db_jobRuns db"
      using postEach_jobs [of "templateLines rj db" "snd q"] createJournal_jobs [of env _ _ _ _ _ _ _ _ db "fst q" "snd q"] Inr post by simp
    then show ?thesis using Inr post
      by (cases e) (simp_all add: postRecurring_def updRecurring_def recordRecurringRun_def split_beta)
  qed (simp add: postRecurring_def)
  then show ?thesis by (simp add: executeRecurring_def updRecurring_def recordRecurringRun_def Let_def split: option.splits)
qed

lemma runRecurringJournals_jobs: "db_jobRuns (snd (runRecurringJournals env db)) = db_jobRuns db"
  unfolding runRecurringJournals_def
  by (rule runEach_inv [where P = "\<lambda>d. db_jobRuns d = db_jobRuns db"]) (simp_all add: executeRecurring_jobs)

lemma forDays_inv:
  assumes "\<And>d s. P s \<Longrightarrow> P (body d s)" and "P s"
  shows "P (forDays a b body s)"
proof -
  have "P (foldl (\<lambda>s i. body (a + i * msPerDay) s) s is)" for "is"
    using assms(2) by (induction "is" arbitrary: s) (simp_all add: assms(1))
  then show ?thesis by (simp only: forDays_foldl)
qed

lemma upsertAccrual_more: "interest_db.more (snd (upsertAccrual env inst i d b r m am db)) = interest_db.more db"
  by (simp add: upsertAccrual_def Let_def split: option.splits)

lemma accrueDay_more: "interest_db.more (snd (accrueDay env inst a v d s)) = interest_db.more (snd s)"
  by (cases s) (simp add: accrueDay_def Let_def split_beta upsertAccrual_more)

lemma runAccrual_more:
  assumes "runAccrualForAccount env i inst t db = Inr (x, db1)"
  shows "interest_db.more db1 = interest_db.more db"
proof -
  have daily: "interest_db.more (snd (dailyAccrual env inst a v th db)) = interest_db.more db" for a v th
    unfolding dailyAccrual_def Let_def
    by (rule forDays_inv [where P = "\<lambda>s. interest_db.more (snd s) = interest_db.more db"]) (simp_all add: accrueDay_more)
  have monthly: "interest_db.more (snd (monthlyAccrual env inst a v th db)) = interest_db.more db" for a v th
    by (simp add: monthlyAccrual_def Let_def split_beta upsertAccrual_more)
  have M: "interest_db.more d = interest_db.more db" if "monthlyAccrual env inst a v th db = (z, d)" for a v th z d
    using monthly [of a v th] that by simp
  have D: "interest_db.more d = interest_db.more db" if "apfst Inr (dailyAccrual env inst a v th db) = (z, d)" for a v th z d
    using daily [of a v th] that by (cases "dailyAccrual env inst a v th db") simp
  show ?thesis using assms
    unfolding runAccrualForAccount_def
    by (auto simp: updSavings_def split: option.splits prod.splits if_splits sum.splits dest: M D)
qed

lemma accrualRun_more:
  assumes "runSavingsInterestAccrualAllInstitutions env db = Inr (n, db1)"
  shows "interest_db.more db1 = interest_db.more db"
proof -
  have "interest_db.more (snd (n, db1)) = interest_db.more db"
    by (rule foldE_invariant [OF assms [unfolded runSavingsInterestAccrualAllInstitutions_def], where P = "\<lambda>s. interest_db.more (snd s) = interest_db.more db"])
      (auto simp: accrueAccount_def bindE_Inr_iff dest: runAccrual_more)
  then show ?thesis by simp
qed

lemma runAccrual_jobs: "db_jobRuns (snd (runSavingsInterestAccrual env db)) = db_jobRuns db"
proof (cases "runSavingsInterestAccrualAllInstitutions env db")
  case (Inr q)
  then show ?thesis using more_jobs(1) [OF accrualRun_more [of env db "fst q" "snd q"]]
    by (simp add: runSavingsInterestAccrual_def jobOf_def split_beta)
qed (simp add: runSavingsInterestAccrual_def jobOf_def)

section \<open>Once a day\<close>

definition claimed :: "env \<Rightarrow> string \<Rightarrow> 'a scheduler_db_scheme \<Rightarrow> bool" where
  "claimed env t db \<longleftrightarrow> (\<exists>r \<in> set (db_jobRuns db). jr_jobType r = t \<and> jr_runDate r = startOfDay (e_now env))"

lemma claimAndRun_claimed: "claimed env t db \<Longrightarrow> claimAndRun env t fn db = (None, db)"
  unfolding claimAndRun_def claimed_def Let_def by (subst if_P) (auto simp: find_None_iff)

lemma updJobRun_keys:
  assumes "r \<in> set (db_jobRuns db)"
  shows "\<exists>q \<in> set (db_jobRuns (updJobRun i (\<lambda>r. r\<lparr>jr_status := st, jr_completedAt := t\<rparr>) db)). jr_jobType q = jr_jobType r \<and> jr_runDate q = jr_runDate r"
proof (cases "jr_id r = i")
  case True
  then have "r\<lparr>jr_status := st, jr_completedAt := t\<rparr> \<in> set (db_jobRuns (updJobRun i (\<lambda>r. r\<lparr>jr_status := st, jr_completedAt := t\<rparr>) db))"
    using assms by (simp add: updJobRun_def set_updWhere)
  then show ?thesis by (rule bexI [rotated]) simp
next
  case False
  then show ?thesis using assms by (intro bexI [of _ r]) (simp_all add: updJobRun_def set_updWhere)
qed

text \<open>A job that leaves the table of claims alone is claimed afterwards, and so is every other that was.\<close>

lemma claimAndRun_claims:
  assumes fn: "\<And>d. db_jobRuns (snd (fn d)) = db_jobRuns d"
  shows "claimed env t (snd (claimAndRun env t fn db))" and "claimed env u db \<Longrightarrow> claimed env u (snd (claimAndRun env t fn db))"
proof -
  let ?c = "\<lparr>jr_id = newId env db, jr_jobType = t, jr_runDate = startOfDay (e_now env), jr_status = JOB_CLAIMED, jr_completedAt = None\<rparr>"
  let ?d = "db\<lparr>db_next := Suc (db_next db), db_jobRuns := db_jobRuns db @ [?c]\<rparr>"
  have rows: "db_jobRuns (snd (fn ?d)) = db_jobRuns db @ [?c]" using fn [of ?d] by simp
  have new: "claimed env t (snd (claimAndRun env t fn db)) \<and> (\<forall>u. claimed env u db \<longrightarrow> claimed env u (snd (claimAndRun env t fn db)))"
    if "\<not> claimed env t db"
  proof -
    have "find (\<lambda>r. jr_jobType r = t \<and> jr_runDate r = startOfDay (e_now env)) (db_jobRuns db) = None"
      using that by (auto simp: claimed_def find_None_iff)
    then obtain st where run: "snd (claimAndRun env t fn db) = updJobRun (newId env db) (\<lambda>r. r\<lparr>jr_status := st, jr_completedAt := Some (e_now env)\<rparr>) (snd (fn ?d))"
      by (simp add: claimAndRun_def Let_def split_beta)
    have "claimed env u (snd (claimAndRun env t fn db))" if "r \<in> set (db_jobRuns (snd (fn ?d)))" "jr_jobType r = u" "jr_runDate r = startOfDay (e_now env)" for r u
      using updJobRun_keys [OF that(1), of "newId env db" "Some (e_now env)" st] that(2,3) unfolding run claimed_def by auto
    note C = this
    have "claimed env t (snd (claimAndRun env t fn db))" by (rule C [of ?c]) (simp_all add: rows)
    moreover have "claimed env u (snd (claimAndRun env t fn db))" if "claimed env u db" for u
    proof -
      obtain r where "r \<in> set (db_jobRuns db)" "jr_jobType r = u" "jr_runDate r = startOfDay (e_now env)"
        using \<open>claimed env u db\<close> unfolding claimed_def by blast
      then show ?thesis by (intro C [of r]) (simp_all add: rows)
    qed
    ultimately show ?thesis by blast
  qed
  have old: "snd (claimAndRun env t fn db) = db" if "claimed env t db" by (simp only: claimAndRun_claimed [OF that] snd_conv)
  show "claimed env t (snd (claimAndRun env t fn db))"
    using new old by (cases "claimed env t db") simp_all
  show "claimed env u (snd (claimAndRun env t fn db))" if "claimed env u db"
    using new old that by (cases "claimed env t db") simp_all
qed

lemma dailyJobs_jobs: "(t, fn) \<in> set (dailyJobs env) \<Longrightarrow> db_jobRuns (snd (fn d)) = db_jobRuns d"
  using more_jobs(2) [OF runArrearsCheck_more, of env d] more_jobs(2) [OF runStandingInstructions_more, of env d]
  by (auto simp: dailyJobs_def runRecurringJournals_jobs runAccrual_jobs runComplaintEscalationCheck_def runAuditFindingOverdueCheck_def)

definition keepsClaims :: "(string \<times> 'a scheduler_db_scheme job) list \<Rightarrow> bool" where
  "keepsClaims js \<longleftrightarrow> (\<forall>j \<in> set js. \<forall>d. db_jobRuns (snd (snd j d)) = db_jobRuns d)"

lemma keepsClaims_dailyJobs: "keepsClaims (dailyJobs env)"
  unfolding keepsClaims_def using dailyJobs_jobs by (metis prod.collapse)

abbreviation runClaimed :: "env \<Rightarrow> (string \<times> 'a scheduler_db_scheme job) list \<Rightarrow> 'a scheduler_db_scheme \<Rightarrow> 'a scheduler_db_scheme" where
  "runClaimed env \<equiv> fold (\<lambda>j d. snd (claimAndRun env (fst j) (snd j) d))"

lemma fold_claimed_keep: "keepsClaims js \<Longrightarrow> claimed env u db \<Longrightarrow> claimed env u (runClaimed env js db)"
proof (induction js arbitrary: db)
  case (Cons j js)
  have "\<And>d. db_jobRuns (snd (snd j d)) = db_jobRuns d" "keepsClaims js" using Cons.prems(1) by (simp_all add: keepsClaims_def)
  then show ?case using Cons.IH claimAndRun_claims(2) [of "snd j"] Cons.prems(2) by simp
qed simp

lemma fold_claimed: "keepsClaims js \<Longrightarrow> t \<in> fst ` set js \<Longrightarrow> claimed env t (runClaimed env js db)"
proof (induction js arbitrary: db)
  case (Cons j js)
  have k: "\<And>d. db_jobRuns (snd (snd j d)) = db_jobRuns d" "keepsClaims js" using Cons.prems(1) by (simp_all add: keepsClaims_def)
  show ?case
  proof (cases "t = fst j")
    case True
    then show ?thesis using fold_claimed_keep [OF k(2)] claimAndRun_claims(1) [of "snd j", OF k(1)] by simp
  next
    case False
    then show ?thesis using Cons.IH [OF k(2)] Cons.prems(2) by simp
  qed
qed simp

lemma fold_claimed_id: "\<forall>t \<in> fst ` set js. claimed env t db \<Longrightarrow> runClaimed env js db = db"
  by (induction js) (simp_all add: claimAndRun_claimed)


end
