(* ===== verification/Instruction_Safety.thy ===== *)
theory Instruction_Safety
  imports Scheduler_Safety
begin

text \<open>
  Standing instructions: a run moves the amounts exactly, overdraws no account and creates no money -
  except when an instruction transfers from an account to itself; a funded instruction executes and
  moves on to a later date; one that stays unfunded is suspended.
\<close>

section \<open>Dates\<close>

lemma nextExecutionDate_later: "d < nextExecutionDate d f n"
proof (cases f)
  case ANNUALLY
  have "plusYears d 1 = plusMonths d 12" by (simp add: plusYears_eq plusMonths_eq)
  then show ?thesis using ANNUALLY plusMonths_less [of 0 12 d] by (simp add: plusMonths_0)
qed (use plusMonths_less [of 0 1 d] plusMonths_less [of 0 3 d] plusMonths_less [of 0 6 d]
      in \<open>auto simp: plusDays_eq plusMonths_0 split: option.splits\<close>)

section \<open>Balances\<close>

definition rows_ok :: "savingsAccount list \<Rightarrow> bool" where
  "rows_ok t \<longleftrightarrow> uniqueBy sa_id t \<and> (\<forall>a \<in> set t. 0 \<le> sa_balance a \<and> sa_ledgerBalance a = sa_balance a)"

abbreviation totalSavings :: "'a savings_db_scheme \<Rightarrow> int" where
  "totalSavings db \<equiv> sum_list (map sa_balance (db_savings db))"

lemma savings_rows: "savings_ok db \<longleftrightarrow> rows_ok (db_savings db)"
  by (simp add: savings_ok_def rows_ok_def)

lemma balance_le_total:
  assumes "rows_ok t" and "a \<in> set t"
  shows "0 \<le> sa_balance a" and "sa_balance a \<le> sum_list (map sa_balance t)"
proof -
  show "0 \<le> sa_balance a" using assms by (simp add: rows_ok_def)
  have "\<forall>b \<in> set t. 0 \<le> sa_balance b" using assms(1) by (simp add: rows_ok_def)
  then show "sa_balance a \<le> sum_list (map sa_balance t)" using assms(2)
  proof (induction t)
    case (Cons b t)
    have "0 \<le> sum_list (map sa_balance t)" by (rule sum_list_nonneg) (use Cons.prems(1) in auto)
    then show ?case using Cons by auto
  qed simp
qed

text \<open>Writing a new balance to one account.\<close>

lemma setBalance_rows:
  assumes ok: "rows_ok t" and a: "a \<in> set t" and k: "toDec2 x = k" "0 \<le> k"
  defines "t' \<equiv> updWhere (\<lambda>y. sa_id y = sa_id a) (setBalance x) t"
  shows "rows_ok t'" and "sum_list (map sa_balance t') = sum_list (map sa_balance t) + (k - sa_balance a)"
    and "setBalance x a \<in> set t'" and "b \<in> set t \<Longrightarrow> sa_id b \<noteq> sa_id a \<Longrightarrow> b \<in> set t'"
proof -
  have u: "uniqueBy sa_id t" using ok by (simp add: rows_ok_def)
  have "uniqueBy sa_id t'" unfolding t'_def using u by (subst uniqueBy_updWhere) (simp_all add: setBalance_def)
  then show "rows_ok t'" using ok k by (auto simp: rows_ok_def t'_def set_updWhere setBalance_def)
  show "sum_list (map sa_balance t') = sum_list (map sa_balance t) + (k - sa_balance a)"
    unfolding t'_def using sum_updWhere_unique [OF u a, of sa_balance "setBalance x"] k(1) by (simp add: setBalance_def)
  show "setBalance x a \<in> set t'" "b \<in> set t \<Longrightarrow> sa_id b \<noteq> sa_id a \<Longrightarrow> b \<in> set t'"
    using a by (auto simp: t'_def set_updWhere)
qed

lemma toDec2_nadd_cents:
  assumes "dec14 a" "dec14 b" "dec14 (a + b)"
  shows "toDec2 (nadd (cents a) (cents b)) = a + b"
  using toDec2_nsub_cents [of a "- b"] assms by (simp add: num_ops cents_minus)

text \<open>The three movements.\<close>

lemma withdrawFor_rows:
  assumes "savings_ok db" and "a \<in> set (db_savings db)" and "totalSavings db \<le> 10 ^ 13" and "0 \<le> si_amount s" "si_amount s \<le> sa_balance a"
  shows "savings_ok (withdrawFor env s a db)" and "totalSavings (withdrawFor env s a db) = totalSavings db - si_amount s"
proof -
  have ok: "rows_ok (db_savings db)" using assms(1) by (simp add: savings_rows)
  note b = balance_le_total [OF ok assms(2)]
  have "dec14 (sa_balance a)" "dec14 (si_amount s)" "dec14 (sa_balance a - si_amount s)" using b assms(3-5) by (simp_all add: abs_if)
  from setBalance_rows(1,2) [OF ok assms(2) toDec2_nsub_cents [OF this]]
  show "savings_ok (withdrawFor env s a db)" "totalSavings (withdrawFor env s a db) = totalSavings db - si_amount s"
    using assms(5) by (simp_all add: savings_rows)
qed

lemma transferFor_rows:
  assumes "savings_ok db" and "a \<in> set (db_savings db)" "b \<in> set (db_savings db)" and "totalSavings db \<le> 10 ^ 13"
    and "0 \<le> si_amount s" "si_amount s \<le> sa_balance a"
  shows "savings_ok (transferFor env s a b db)"
    and "totalSavings (transferFor env s a b db) = totalSavings db + (if sa_id a = sa_id b then si_amount s else 0)"
proof -
  have ok: "rows_ok (db_savings db)" using assms(1) by (simp add: savings_rows)
  note ba = balance_le_total [OF ok assms(2)] and bb = balance_le_total [OF ok assms(3)]
  have da: "dec14 (sa_balance a)" "dec14 (si_amount s)" "dec14 (sa_balance a - si_amount s)" using ba assms(4-6) by (simp_all add: abs_if)
  have db: "dec14 (sa_balance b)" "dec14 (si_amount s)" "dec14 (sa_balance b + si_amount s)" using ba bb assms(4-6) by (simp_all add: abs_if)
  have na: "0 \<le> sa_balance a - si_amount s" and nb: "0 \<le> sa_balance b + si_amount s" using bb assms(5,6) by simp_all
  define x where "x = nsub (cents (sa_balance a)) (cents (si_amount s))"
  define y where "y = nadd (cents (sa_balance b)) (cents (si_amount s))"
  have xy: "toDec2 x = sa_balance a - si_amount s" "toDec2 y = sa_balance b + si_amount s"
    unfolding x_def y_def by (rule toDec2_nsub_cents [OF da], rule toDec2_nadd_cents [OF db])
  have T: "db_savings (transferFor env s a b db) = updWhere (\<lambda>z. sa_id z = sa_id b) (setBalance y) (updWhere (\<lambda>z. sa_id z = sa_id a) (setBalance x) (db_savings db))"
    by (simp add: x_def y_def)
  note S1 = setBalance_rows [OF ok assms(2) xy(1) na]
  have "savings_ok (transferFor env s a b db) \<and> totalSavings (transferFor env s a b db) = totalSavings db + (if sa_id a = sa_id b then si_amount s else 0)"
  proof (cases "sa_id a = sa_id b")
    case True
    then have ab: "a = b" using uniqueBy_eq [of sa_id "db_savings db" a b] ok assms(2,3) by (simp add: rows_ok_def)
    have id: "sa_id (setBalance x a) = sa_id b" "sa_balance (setBalance x a) = sa_balance a - si_amount s"
      using ab xy(1) by (simp_all add: setBalance_def)
    note S2 = setBalance_rows(1,2) [OF S1(1) S1(3) xy(2) nb, unfolded id]
    show ?thesis using S2 S1(2) True ab unfolding savings_rows T by simp
  next
    case False
    note S2 = setBalance_rows(1,2) [OF S1(1) S1(4) [OF assms(3)] xy(2) nb]
    show ?thesis using S2 S1(2) False unfolding savings_rows T by simp
  qed
  then show "savings_ok (transferFor env s a b db)"
    "totalSavings (transferFor env s a b db) = totalSavings db + (if sa_id a = sa_id b then si_amount s else 0)" by simp_all
qed

definition selfTransfer :: "standingInstruction \<Rightarrow> bool" where
  "selfTransfer s \<longleftrightarrow> si_type s = INTERNAL_TRANSFER \<and> si_destinationAccountId s = Some (si_sourceAccountId s)"

lemma savingsById_Some: "savingsById i db = Some a \<Longrightarrow> a \<in> set (db_savings db) \<and> sa_id a = i"
  by (auto simp: savingsById_def dest: find_SomeD)

lemma savings_ok_frame: "db_savings db' = db_savings db \<Longrightarrow> savings_ok db' = savings_ok db"
  by (simp add: savings_ok_def)

lemma instructionTx_rows:
  assumes "instructionTx env s a db = Inr db1" and "savings_ok db" and "savingsById (si_sourceAccountId s) db = Some a"
    and "totalSavings db \<le> 10 ^ 13" and "0 \<le> si_amount s" "si_amount s \<le> sa_balance a" and "\<not> selfTransfer s"
  shows "savings_ok db1 \<and> (totalSavings db1 = totalSavings db \<or> si_type s \<noteq> INTERNAL_TRANSFER \<and> totalSavings db1 = totalSavings db - si_amount s)"
proof -
  have a: "a \<in> set (db_savings db)" "sa_id a = si_sourceAccountId s" using savingsById_Some [OF assms(3)] by simp_all
  note W = withdrawFor_rows [OF assms(2) a(1) assms(4-6), of env]
  consider (transfer) b where "si_type s = INTERNAL_TRANSFER" "truthy (si_destinationAccountId s)"
        "savingsById (the (si_destinationAccountId s)) db = Some b" "db1 = transferFor env s a b db"
    | (out) "si_type s \<noteq> INTERNAL_TRANSFER" "db_savings db1 = db_savings (withdrawFor env s a db)"
    | (none) "db1 = db"
    using assms(1) by (auto simp: instructionTx_def Let_def split: if_splits option.splits)
  then show ?thesis
  proof cases
    case transfer
    have b: "b \<in> set (db_savings db)" "sa_id b = the (si_destinationAccountId s)" using savingsById_Some [OF transfer(3)] by simp_all
    have "sa_id a \<noteq> sa_id b" using transfer(1,2) assms(7) a(2) b(2) by (cases "si_destinationAccountId s") (auto simp: selfTransfer_def)
    then show ?thesis using transferFor_rows [OF assms(2) a(1) b(1) assms(4-6), of env] transfer(4) by simp
  next
    case out
    then show ?thesis using W savings_ok_frame [OF out(2)] by simp
  qed (use assms(2) in simp)
qed

lemma executeInstruction_rows:
  fixes env :: env
  assumes "savings_ok db" and "totalSavings db \<le> 10 ^ 13" and "0 \<le> si_amount s" "si_amount s \<le> 10 ^ 13" and "\<not> selfTransfer s"
  defines "db' \<equiv> snd (executeInstruction env s db)"
  shows "savings_ok db' \<and> (totalSavings db' = totalSavings db \<or> si_type s \<noteq> INTERNAL_TRANSFER \<and> totalSavings db' = totalSavings db - si_amount s)"
proof (cases "savingsById (si_sourceAccountId s) db")
  case None
  then show ?thesis using assms(1) savings_ok_frame [of db' db] by (simp add: db'_def executeInstruction_def)
next
  case (Some a)
  have a: "a \<in> set (db_savings db)" using savingsById_Some [OF Some] by simp
  have b: "0 \<le> sa_balance a" "sa_balance a \<le> 10 ^ 13"
    using balance_le_total [of "db_savings db" a] a assms(1,2) by (simp_all add: savings_rows)
  show ?thesis
  proof (cases "cents (sa_balance a) < cents (si_amount s)")
    case True
    then show ?thesis using Some assms(1) savings_ok_frame [of db' db] by (simp add: db'_def executeInstruction_def)
  next
    case False
    then have le: "si_amount s \<le> sa_balance a" using cents_less_iff [of "sa_balance a" "si_amount s"] b assms(3,4) by (simp add: abs_if)
    show ?thesis
    proof (cases "instructionTx env s a db")
      case (Inl e)
      then have "db_savings db' = db_savings db" using Some False by (cases e) (simp_all add: db'_def executeInstruction_def)
      then show ?thesis using assms(1) savings_ok_frame [of db' db] by simp
    next
      case (Inr db1)
      then have "db_savings db' = db_savings db1" using Some False by (simp add: db'_def executeInstruction_def)
      then show ?thesis using instructionTx_rows [OF Inr assms(1) Some assms(2,3) le assms(5)] savings_ok_frame [of db' db1] by simp
    qed
  qed
qed

text \<open>
  Claim C19. A run of the standing instructions, whatever is due, in whatever order, overdraws no account and
  keeps available and ledger balances equal. It never creates money, and only moves it when all that
  is due are transfers, provided no due instruction transfers from an account to itself.
\<close>

theorem standing_instructions_safe:
  assumes "savings_ok db" and "totalSavings db \<le> 10 ^ 13"
    and "\<forall>s \<in> set (db_instructions db). 0 \<le> si_amount s \<and> si_amount s \<le> 10 ^ 13 \<and> \<not> selfTransfer s"
  shows "savings_ok (snd (runStandingInstructions env db)) \<and> totalSavings (snd (runStandingInstructions env db)) \<le> totalSavings db
    \<and> ((\<forall>s \<in> set (db_instructions db). dueInstruction env s \<longrightarrow> si_type s = INTERNAL_TRANSFER)
        \<longrightarrow> totalSavings (snd (runStandingInstructions env db)) = totalSavings db)"
proof -
  define due where "due = filter (dueInstruction env) (db_instructions db)"
  define P where "P d \<longleftrightarrow> savings_ok d \<and> totalSavings d \<le> totalSavings db
      \<and> ((\<forall>s \<in> set due. si_type s = INTERNAL_TRANSFER) \<longrightarrow> totalSavings d = totalSavings db)" for d :: "'a loan_db_scheme"
  have "P (snd (runEach (executeInstruction env) due db))"
  proof (rule runEach_inv)
    fix s d assume s: "s \<in> set due" and d: "P d"
    have "0 \<le> si_amount s" "si_amount s \<le> 10 ^ 13" "\<not> selfTransfer s" using s assms(3) by (auto simp: due_def)
    moreover have "savings_ok d" "totalSavings d \<le> 10 ^ 13" using d assms(2) by (auto simp: P_def)
    ultimately show "P (snd (executeInstruction env s d))"
      using executeInstruction_rows [of d s env] d s unfolding P_def by auto
  qed (use assms(1) in \<open>simp add: P_def\<close>)
  then show ?thesis unfolding runStandingInstructions_def due_def [symmetric] by (auto simp: P_def due_def)
qed

text \<open>
  Claim C37. An instruction to transfer from an account to itself, which nothing forbids, creates its amount
  each time it executes: the account ends with the amount added, and no journal is posted.
\<close>

theorem self_transfer_creates_money:
  assumes "savings_ok db" and "totalSavings db \<le> 10 ^ 13" and "selfTransfer s" and "si_sourceAccountId s \<noteq> []"
    and "savingsById (si_sourceAccountId s) db = Some a" and "0 \<le> si_amount s" "si_amount s \<le> sa_balance a"
  shows "fst (executeInstruction env s db) = None
    \<and> totalSavings (snd (executeInstruction env s db)) = totalSavings db + si_amount s
    \<and> db_journals (snd (executeInstruction env s db)) = db_journals db"
proof -
  have a: "a \<in> set (db_savings db)" using savingsById_Some [OF assms(5)] by simp
  have b: "sa_balance a \<le> 10 ^ 13" using balance_le_total(2) [of "db_savings db" a] a assms(1,2) by (simp add: savings_rows)
  have "\<not> cents (sa_balance a) < cents (si_amount s)" using cents_mono [OF assms(7)] by simp
  then have run: "executeInstruction env s db = (None, updInstruction (si_id s) (\<lambda>x. x\<lparr>si_nextExecutionDate :=
        nextExecutionDate (si_nextExecutionDate s) (si_frequency s) (si_customIntervalDays s), si_consecutiveFailures := 0\<rparr>)
        (recordInstructionRun s None (transferFor env s a a db)))"
    using assms(3-5) by (simp add: executeInstruction_def instructionTx_def selfTransfer_def truthy_def)
  show ?thesis
    using transferFor_rows(2) [OF assms(1) a a assms(2,6,7), of env] unfolding run
    by (simp add: recordInstructionRun_def updInstruction_def updInstructions_def transferFor_def recordTxn_def updSavings_def Let_def)
qed

section \<open>Progress\<close>

definition funded :: "standingInstruction \<Rightarrow> 'a savings_db_scheme \<Rightarrow> bool" where
  "funded s db \<longleftrightarrow> (case savingsById (si_sourceAccountId s) db of None \<Rightarrow> False | Some a \<Rightarrow> si_amount s \<le> sa_balance a)"

text \<open>What the instruction pays into exists.\<close>

definition payable :: "standingInstruction \<Rightarrow> 'a loan_db_scheme \<Rightarrow> bool" where
  "payable s db \<longleftrightarrow>
     (si_type s = INTERNAL_TRANSFER \<longrightarrow> truthy (si_destinationAccountId s) \<longrightarrow> savingsById (the (si_destinationAccountId s)) db \<noteq> None)
   \<and> (si_type s = LOAN_REPAYMENT \<longrightarrow> truthy (si_destinationLoanId s) \<longrightarrow> find (\<lambda>l. ln_id l = the (si_destinationLoanId s)) (db_loans db) \<noteq> None)"

lemma moved_instructions [simp]:
  "db_instructions (withdrawFor env s a db) = db_instructions db" "db_instructionRuns (withdrawFor env s a db) = db_instructionRuns db"
  "db_instructions (transferFor env s a b db) = db_instructions db" "db_instructionRuns (transferFor env s a b db) = db_instructionRuns db"
  by (simp_all add: withdrawFor_def transferFor_def recordTxn_def updSavings_def Let_def)

lemma instructionTx_payable:
  assumes "payable s db"
  shows "\<exists>db1. instructionTx env s a db = Inr db1 \<and> db_instructions db1 = db_instructions db \<and> db_instructionRuns db1 = db_instructionRuns db"
  using assms
  by (cases "si_type s"; cases "truthy (si_destinationAccountId s)"; cases "truthy (si_destinationLoanId s)")
    (auto simp: payable_def instructionTx_def Let_def)


text \<open>A failed attempt counts, and the last one allowed suspends.\<close>

definition bump :: "standingInstruction \<Rightarrow> standingInstruction \<Rightarrow> standingInstruction" where
  "bump s x = x\<lparr>si_consecutiveFailures := si_consecutiveFailures s + 1,
     si_status := (if si_maxRetries s \<le> si_consecutiveFailures s + 1 then SI_SUSPENDED else SI_ACTIVE)\<rparr>"

lemma bump_sel [simp]:
  "si_id (bump s x) = si_id x" "si_sourceAccountId (bump s x) = si_sourceAccountId x" "si_amount (bump s x) = si_amount x"
  "si_nextExecutionDate (bump s x) = si_nextExecutionDate x" "si_maxRetries (bump s x) = si_maxRetries x"
  "si_consecutiveFailures (bump s x) = si_consecutiveFailures s + 1"
  "si_status (bump s x) = (if si_maxRetries s \<le> si_consecutiveFailures s + 1 then SI_SUSPENDED else SI_ACTIVE)"
  by (simp_all add: bump_def)

definition unfunded :: "standingInstruction \<Rightarrow> 'a savings_db_scheme \<Rightarrow> bool" where
  "unfunded s db \<longleftrightarrow> \<not> funded s db \<and> \<bar>si_amount s\<bar> \<le> 10 ^ 13 \<and> (\<forall>a \<in> set (db_savings db). \<bar>sa_balance a\<bar> \<le> 10 ^ 13)"

lemma unfunded_frame:
  "db_savings db' = db_savings db \<Longrightarrow> si_sourceAccountId s' = si_sourceAccountId s \<Longrightarrow> si_amount s' = si_amount s
    \<Longrightarrow> unfunded s' db' = unfunded s db"
  by (simp add: unfunded_def funded_def savingsById_def cong: option.case_cong)

lemma execute_unfunded:
  assumes "unfunded s db"
  obtains db' where "executeInstruction env s db = (None, db')" and "db_savings db' = db_savings db"
    and "db_instructions db' = updWhere (\<lambda>x. si_id x = si_id s) (bump s) (db_instructions db)"
proof -
  have fail: "db_savings (failInstruction s r db) = db_savings db
      \<and> db_instructions (failInstruction s r db) = updWhere (\<lambda>x. si_id x = si_id s) (bump s) (db_instructions db)" for r
    by (simp add: failInstruction_def recordInstructionRun_def updInstruction_def updInstructions_def Let_def bump_def [abs_def])
  show ?thesis
  proof (cases "savingsById (si_sourceAccountId s) db")
    case None
    then show ?thesis using fail by (intro that [of "failInstruction s ''Source account not found'' db"]) (simp_all add: executeInstruction_def)
  next
    case (Some a)
    have "\<bar>sa_balance a\<bar> \<le> 10 ^ 13" "\<bar>si_amount s\<bar> \<le> 10 ^ 13" "sa_balance a < si_amount s"
      using assms Some savingsById_Some [OF Some] by (auto simp: unfunded_def funded_def)
    then have "cents (sa_balance a) < cents (si_amount s)" by (subst cents_less_iff) simp_all
    then show ?thesis using fail Some by (intro that [of "failInstruction s ''Insufficient balance'' db"]) (simp_all add: executeInstruction_def)
  qed
qed

abbreviation bumpAll :: "standingInstruction list \<Rightarrow> standingInstruction list \<Rightarrow> standingInstruction list" where
  "bumpAll xs t \<equiv> foldl (\<lambda>t s. updWhere (\<lambda>x. si_id x = si_id s) (bump s) t) t xs"

lemma run_unfunded:
  assumes "\<forall>s \<in> set xs. unfunded s db"
  shows "fst (runEach (executeInstruction env) xs db) = None \<and> db_savings (snd (runEach (executeInstruction env) xs db)) = db_savings db
    \<and> db_instructions (snd (runEach (executeInstruction env) xs db)) = bumpAll xs (db_instructions db)"
  using assms
proof (induction xs arbitrary: db)
  case (Cons s xs)
  have "unfunded s db" using Cons.prems by simp
  then obtain db' where db': "executeInstruction env s db = (None, db')" "db_savings db' = db_savings db"
    "db_instructions db' = updWhere (\<lambda>x. si_id x = si_id s) (bump s) (db_instructions db)"
    by (rule execute_unfunded)
  then show ?case using Cons.IH [of db'] Cons.prems unfunded_frame [OF db'(2)] by simp
qed simp

lemma bumpAll_other: "si_id r \<notin> si_id ` set xs \<Longrightarrow> r \<in> set t \<Longrightarrow> r \<in> set (bumpAll xs t)"
proof (induction xs arbitrary: t)
  case (Cons s xs)
  then have "r \<in> set (updWhere (\<lambda>x. si_id x = si_id s) (bump s) t)" by (auto simp: set_updWhere)
  then show ?case using Cons by simp
qed simp

lemma bumpAll_own: "distinct (map si_id xs) \<Longrightarrow> r \<in> set xs \<Longrightarrow> r \<in> set t \<Longrightarrow> bump r r \<in> set (bumpAll xs t)"
proof (induction xs arbitrary: t)
  case (Cons s xs)
  let ?t = "updWhere (\<lambda>x. si_id x = si_id s) (bump s) t"
  show ?case
  proof (cases "r = s")
    case True
    then have "bump r r \<in> set ?t" using Cons.prems(3) by (auto simp: set_updWhere)
    then show ?thesis using bumpAll_other [of "bump r r" xs ?t] Cons.prems(1) True by simp
  next
    case False
    then have r: "r \<in> set xs" using Cons.prems(2) by simp
    have "si_id s \<notin> si_id ` set xs" using Cons.prems(1) by simp
    then have "si_id r \<noteq> si_id s" using r by (metis image_eqI)
    then have "r \<in> set ?t" using Cons.prems(3) by (auto simp: set_updWhere)
    then show ?thesis using Cons.IH [of ?t] Cons.prems(1) r by simp
  qed
qed simp

definition starved :: "'a savings_db_scheme \<Rightarrow> bool" where
  "starved db \<longleftrightarrow> uniqueBy si_id (db_instructions db) \<and> (\<forall>s \<in> set (db_instructions db). unfunded s db)"

lemma starved_run:
  fixes env :: env
  assumes "starved db"
  defines "db' \<equiv> snd (runStandingInstructions env db)"
  shows "starved db'" and "r \<in> set (db_instructions db) \<Longrightarrow> dueInstruction env r \<Longrightarrow> bump r r \<in> set (db_instructions db')"
    and "r \<in> set (db_instructions db) \<Longrightarrow> \<not> dueInstruction env r \<Longrightarrow> r \<in> set (db_instructions db')"
proof -
  define xs where "xs = filter (dueInstruction env) (db_instructions db)"
  have u: "uniqueBy si_id (db_instructions db)" using assms(1) by (simp add: starved_def)
  have d: "distinct (map si_id xs)" unfolding xs_def using u by (simp add: uniqueBy_def distinct_map_filter)
  have "\<forall>s \<in> set xs. unfunded s db" using assms(1) by (simp add: starved_def xs_def)
  from run_unfunded [OF this, of env]
  have R: "db_savings db' = db_savings db" "db_instructions db' = bumpAll xs (db_instructions db)"
    by (simp_all add: db'_def runStandingInstructions_def xs_def)
  have B: "uniqueBy si_id (bumpAll xs t) \<and> (\<forall>s \<in> set (bumpAll xs t). unfunded s db')"
    if "uniqueBy si_id t" "\<forall>s \<in> set t. unfunded s db'" for xs t
    using that
  proof (induction xs arbitrary: t)
    case (Cons s xs)
    have "uniqueBy si_id (updWhere (\<lambda>x. si_id x = si_id s) (bump s) t)" using Cons.prems(1) by (subst uniqueBy_updWhere) simp_all
    moreover have "\<forall>q \<in> set (updWhere (\<lambda>x. si_id x = si_id s) (bump s) t). unfunded q db'"
      using Cons.prems(2) unfunded_frame [of db' db' "bump s q" q for q] by (auto simp: set_updWhere)
    ultimately show ?case using Cons.IH by simp
  qed simp
  show "starved db'"
    using B [OF u] assms(1) unfunded_frame [OF R(1)] by (simp add: starved_def R(2))
  show "bump r r \<in> set (db_instructions db')" if "r \<in> set (db_instructions db)" "dueInstruction env r"
    unfolding R(2) by (rule bumpAll_own [OF d]) (use that in \<open>simp_all add: xs_def\<close>)
  show "r \<in> set (db_instructions db')" if "r \<in> set (db_instructions db)" "\<not> dueInstruction env r"
    unfolding R(2)
  proof (rule bumpAll_other [OF _ that(1)])
    show "si_id r \<notin> si_id ` set xs"
    proof
      assume "si_id r \<in> si_id ` set xs"
      then obtain q where "q \<in> set (db_instructions db)" "dueInstruction env q" "si_id q = si_id r" by (auto simp: xs_def)
      then show False using uniqueBy_eq [OF u, of q r] that by simp
    qed
  qed
qed

abbreviation runsAt :: "env list \<Rightarrow> 'a loan_db_scheme \<Rightarrow> 'a loan_db_scheme" where
  "runsAt envs db \<equiv> foldl (\<lambda>d env. snd (runStandingInstructions env d)) db envs"

lemma suspended_stays:
  "starved db \<Longrightarrow> r \<in> set (db_instructions db) \<Longrightarrow> si_status r = SI_SUSPENDED \<Longrightarrow> r \<in> set (db_instructions (runsAt envs db))"
proof (induction envs arbitrary: db)
  case (Cons e es)
  have "\<not> dueInstruction e r" using Cons.prems(3) by (simp add: dueInstruction_def)
  then show ?case using Cons.IH [OF starved_run(1) [OF Cons.prems(1)]] starved_run(3) [OF Cons.prems(1,2)] Cons.prems(3) by simp
qed simp


end
