(* ===== verification/Batch_Safety.thy ===== *)
theory Batch_Safety
  imports Instruction_Safety
begin

text \<open>
  The two batch jobs on loans and on the ledger: arrears are those of the installments, and recurring
  journals keep the books and post to open periods only.
\<close>

section \<open>Arrears\<close>

definition arrearsOf :: "env \<Rightarrow> loan \<Rightarrow> 'a loan_db_scheme \<Rightarrow> arrearsResult" where
  "arrearsOf env l db = loanArrears (e_now env) (ln_id l) (db_installments db)"

text \<open>After the check every open loan has been rewritten from its installments, in one pass over the table.\<close>

lemma runArrears_rows:
  assumes "distinct (map ln_id ls)" and "\<forall>l \<in> set ls. \<forall>x \<in> set (db_loans db). ln_id x = ln_id l \<longrightarrow> x = l"
  shows "fst (runEach (checkLoanArrears env) ls db) = None
    \<and> db_loans (snd (runEach (checkLoanArrears env) ls db)) = map (\<lambda>x. if x \<in> set ls
        then arrearsRow (e_now env) (arrearsOf env x db) (arrearsChanged (arrearsOf env x db) x) x else x) (db_loans db)
    \<and> db_installments (snd (runEach (checkLoanArrears env) ls db)) = db_installments db"
proof -
  define g where "g l = arrearsRow (e_now env) (arrearsOf env l db) (arrearsChanged (arrearsOf env l db) l)" for l
  have gid: "ln_id (g l x) = ln_id x" for l x by (simp add: g_def arrearsRow_def)
  have "fst (runEach (checkLoanArrears env) ls d) = None
    \<and> db_loans (snd (runEach (checkLoanArrears env) ls d)) = map (\<lambda>x. case find (\<lambda>l. ln_id l = ln_id x) ls of None \<Rightarrow> x | Some l \<Rightarrow> g l x) (db_loans d)
    \<and> db_installments (snd (runEach (checkLoanArrears env) ls d)) = db_installments d"
    if "distinct (map ln_id ls)" "db_installments d = db_installments db" for d :: "'a loan_db_scheme" and ls
    using that
  proof (induction ls arbitrary: d)
    case (Cons l ls)
    let ?d = "updLoan (ln_id l) (g l) d"
    have one: "checkLoanArrears env l d = (None, ?d)"
      using Cons.prems(2) by (simp add: checkLoanArrears_def Let_def g_def arrearsOf_def)
    have none: "find (\<lambda>k. ln_id k = ln_id l) ls = None" using Cons.prems(1) unfolding find_None_iff by (metis distinct.simps(2) image_eqI list.set_map list.simps(9))
    have rows: "map (\<lambda>x. case find (\<lambda>k. ln_id k = ln_id x) ls of None \<Rightarrow> x | Some k \<Rightarrow> g k x) (db_loans ?d)
       = map (\<lambda>x. case find (\<lambda>k. ln_id k = ln_id x) (l # ls) of None \<Rightarrow> x | Some k \<Rightarrow> g k x) (db_loans d)"
      by (auto simp: updLoan_def updWhere_def gid none)
    show ?case using Cons.IH [of ?d] Cons.prems one rows by (simp add: updLoan_def)
  qed simp
  from this [OF assms(1) refl]
  have A: "fst (runEach (checkLoanArrears env) ls db) = None"
    "db_loans (snd (runEach (checkLoanArrears env) ls db)) = map (\<lambda>x. case find (\<lambda>l. ln_id l = ln_id x) ls of None \<Rightarrow> x | Some l \<Rightarrow> g l x) (db_loans db)"
    "db_installments (snd (runEach (checkLoanArrears env) ls db)) = db_installments db" by simp_all
  have "(case find (\<lambda>l. ln_id l = ln_id x) ls of None \<Rightarrow> x | Some l \<Rightarrow> g l x) = (if x \<in> set ls then g x x else x)" if "x \<in> set (db_loans db)" for x
  proof (cases "find (\<lambda>l. ln_id l = ln_id x) ls")
    case (Some l)
    then have "l \<in> set ls" "ln_id l = ln_id x" by (auto dest: find_SomeD)
    then have "x = l" using assms(2) that by auto
    then show ?thesis using Some \<open>l \<in> set ls\<close> by simp
  next
    case None
    then have "x \<notin> set ls" by (auto simp: find_None_iff)
    then show ?thesis using None by simp
  qed
  then show ?thesis using A by (simp add: g_def cong: map_cong)
qed

text \<open>The difference the code tolerates is at most a pesewa.\<close>

lemma small_difference:
  assumes "\<bar>k\<bar> \<le> 10 ^ 12" "\<bar>j\<bar> \<le> 10 ^ 12" and "\<not> cents 1 < \<bar>nsub (cents k) (cents j)\<bar>"
  shows "\<bar>k - j\<bar> \<le> 1"
proof (rule ccontr)
  assume "\<not> \<bar>k - j\<bar> \<le> 1"
  then have d: "2 \<le> \<bar>k - j\<bar>" by simp
  have dk: "dec14 k" "dec14 (- j)" "dec14 (k + - j)" using assms(1,2) by (simp_all add: abs_if split: if_splits)
  have "nsub (cents k) (cents j) = nadd (cents k) (cents (- j))" by (simp add: num_ops cents_minus)
  then have e: "\<bar>nsub (cents k) (cents j) - of_int (k - j) / 100\<bar> \<le> 1 / 1000" using nadd_cents_error [OF dk] by simp
  have "(2 :: rat) \<le> \<bar>of_int (k - j)\<bar>" using d by (metis of_int_abs of_int_le_iff of_int_numeral)
  moreover have "cents 1 \<le> 1 / 100 + 1 / 8000" using cents_error [of 1] unfolding abs_le_iff by simp
  moreover have False if "2 \<le> \<bar>x\<bar>" "c \<le> 1 / 100 + 1 / 8000" "\<bar>y - x / 100\<bar> \<le> 1 / 1000" "\<not> c < \<bar>y\<bar>" for x y c :: rat
    using that unfolding abs_if by (simp only: split: if_splits)
  ultimately show False using e assms(3) by blast
qed


section \<open>Recurring journals\<close>

definition goodTemplate :: "recurringJournal \<Rightarrow> bool" where
  "goodTemplate rj \<longleftrightarrow> (\<forall>l \<in> set (rj_lineTemplate rj). centsEntry l)
     \<and> smallSum (map (\<lambda>l. toDec2 (en_debit l)) (rj_lineTemplate rj)) \<and> smallSum (map (\<lambda>l. toDec2 (en_credit l)) (rj_lineTemplate rj))"

lemma recurringProblem_None:
  assumes "recurringProblem rj db = None" and "goodTemplate rj"
  shows "goodLines db (templateLines rj db)" and "balancedLines (map (lineRow \<circ> snd) (templateLines rj db))"
    and "map snd (templateLines rj db) = rj_lineTemplate rj"
    and "\<exists>p. findPostablePeriod (rj_institutionId rj) (rj_nextExecutionDate rj) db = Some p \<and> fp_status p = FP_OPEN"
proof -
  have acc: "\<exists>a. accountById (en_accountId l) db = Some a" if "l \<in> set (rj_lineTemplate rj)" for l
    using assms(1) that by (auto simp: recurringProblem_def Let_def list_all_iff split: if_splits option.splits)
  have bal: "isBalanced (rj_lineTemplate rj)"
    and per: "\<exists>p. findPostablePeriod (rj_institutionId rj) (rj_nextExecutionDate rj) db = Some p \<and> fp_status p = FP_OPEN"
    using assms(1) by (auto simp: recurringProblem_def Let_def split: if_splits option.splits)
  show "map snd (templateLines rj db) = rj_lineTemplate rj" by (simp add: templateLines_def o_def)
  show "\<exists>p. findPostablePeriod (rj_institutionId rj) (rj_nextExecutionDate rj) db = Some p \<and> fp_status p = FP_OPEN" by (rule per)
  show "goodLines db (templateLines rj db)"
    using acc assms(2) by (fastforce simp: goodLines_def templateLines_def goodTemplate_def)
  let ?ls = "rj_lineTemplate rj"
  have d: "map en_debit ?ls = map cents (map (\<lambda>l. toDec2 (en_debit l)) ?ls)"
    and c: "map en_credit ?ls = map cents (map (\<lambda>l. toDec2 (en_credit l)) ?ls)"
    using assms(2) by (simp_all add: goodTemplate_def centsEntry_def)
  have "sum_list (map (\<lambda>l. toDec2 (en_debit l)) ?ls) = sum_list (map (\<lambda>l. toDec2 (en_credit l)) ?ls)"
    using isBalanced_cents [OF d c] bal assms(2) by (simp add: goodTemplate_def)
  then show "balancedLines (map (lineRow \<circ> snd) (templateLines rj db))"
    by (simp add: balancedLines_def templateLines_def lineRow_def o_def)
qed

definition recurringPosting :: "env \<Rightarrow> 'a gl_db_scheme \<Rightarrow> journal \<Rightarrow> bool" where
  "recurringPosting env db j \<longleftrightarrow> (\<exists>rj \<in> set (db_recurring db). rj_status rj = RJ_ACTIVE \<and> rj_nextExecutionDate rj \<le> e_now env
     \<and> jo_type j = RECURRING \<and> jo_status j = J_POSTED \<and> jo_postingDate j = rj_nextExecutionDate rj \<and> jo_institutionId j = rj_institutionId rj
     \<and> jo_lines j = map lineRow (rj_lineTemplate rj)
     \<and> (\<exists>p. findPostablePeriod (rj_institutionId rj) (rj_nextExecutionDate rj) db = Some p \<and> fp_status p = FP_OPEN))"

lemma executeRecurring_effect:
  fixes env :: env
  assumes books: "books_ok db" and good: "goodTemplate rj"
  defines "db' \<equiv> snd (executeRecurring env rj db)"
  shows "books_ok db' \<and> db_periods db' = db_periods db
    \<and> (db_journals db' = db_journals db
      \<or> (\<exists>j. db_journals db' = db_journals db @ [j] \<and> jo_type j = RECURRING \<and> jo_status j = J_POSTED \<and> jo_postingDate j = rj_nextExecutionDate rj
          \<and> jo_institutionId j = rj_institutionId rj \<and> jo_lines j = map lineRow (rj_lineTemplate rj)
          \<and> (\<exists>p. findPostablePeriod (rj_institutionId rj) (rj_nextExecutionDate rj) db = Some p \<and> fp_status p = FP_OPEN)))"
proof (cases "recurringProblem rj db")
  case (Some r)
  then show ?thesis using books books_cong [of db' db]
    by (simp add: db'_def executeRecurring_def Let_def updRecurring_def recordRecurringRun_def)
next
  case None
  note T = recurringProblem_None [OF None good]
  let ?new = "createJournal env (rj_institutionId rj) RECURRING (rj_description rj) J_POSTED (rj_nextExecutionDate rj)
     (Some (rj_createdById rj)) (rj_createdById rj) (rj_lineTemplate rj) db"
  show ?thesis
  proof (cases ?new)
    case (Inl e)
    then show ?thesis using None books by (simp add: db'_def executeRecurring_def postRecurring_def)
  next
    case (Inr q)
    obtain j db1 where q: "?new = Inr (j, db1)" using Inr by (cases q) simp
    have u: "uniqueBy ga_id (db_glAccounts db)" using books by (simp add: books_ok_def)
    have j: "jo_type j = RECURRING" "jo_status j = J_POSTED" "jo_postingDate j = rj_nextExecutionDate rj" "jo_institutionId j = rj_institutionId rj"
        "jo_lines j = map lineRow (rj_lineTemplate rj)" and db1: "db_glAccounts db1 = db_glAccounts db" "db_journals db1 = db_journals db @ [j]" "db_periods db1 = db_periods db"
      using q by (auto simp: createJournal_def Let_def split: if_splits)
    let ?db2 = "db1\<lparr>db_glAccounts := map (addEffects (templateLines rj db)) (db_glAccounts db1)\<rparr>"
    have fold: "foldE postLine (templateLines rj db) db1 = Inr ?db2"
      using u T(1) db1(1) goodLines_cong [OF db1(1)] by (intro foldE_postLine) simp_all
    have "postJournal env (rj_institutionId rj) RECURRING (rj_description rj) (rj_nextExecutionDate rj) (rj_createdById rj) (rj_createdById rj)
        (templateLines rj db) db = Inr (j, ?db2)"
      by (simp add: postJournal_def T(3) q fold)
    from postJournal_books [OF books T(1,2) this] have "books_ok ?db2" .
    moreover have "db_glAccounts db' = db_glAccounts ?db2" "db_journals db' = db_journals ?db2" "db_periods db' = db_periods ?db2"
      using None q postEach_fold [OF fold]
      by (simp_all add: db'_def executeRecurring_def postRecurring_def updRecurring_def recordRecurringRun_def)
    ultimately show ?thesis using books_cong [of db' ?db2] db1 j T(4) by simp
  qed
qed

text \<open>
  Claim C39. The recurring journals keep the books: after a run every balance is the effect of the posted
  lines and every posted journal balances. Each journal of the run comes from an active template that
  was due, with its lines, dated on its due date, in a financial period that is open; a template that
  cannot be posted posts nothing.
\<close>

theorem recurring_journals_books:
  assumes "books_ok db" and "\<forall>rj \<in> set (db_recurring db). goodTemplate rj"
  shows "books_ok (snd (runRecurringJournals env db))
    \<and> (\<forall>j \<in> set (db_journals (snd (runRecurringJournals env db))). j \<in> set (db_journals db) \<or> recurringPosting env db j)"
proof -
  let ?due = "filter (\<lambda>r. rj_status r = RJ_ACTIVE \<and> rj_nextExecutionDate r \<le> e_now env) (db_recurring db)"
  let ?P = "\<lambda>d :: 'a scheduler_db_scheme. books_ok d \<and> db_periods d = db_periods db
     \<and> (\<forall>j \<in> set (db_journals d). j \<in> set (db_journals db) \<or> recurringPosting env db j)"
  have "?P (snd (runEach (executeRecurring env) ?due db))"
  proof (rule runEach_inv)
    fix rj d assume rj: "rj \<in> set ?due" and d: "?P d"
    have good: "goodTemplate rj" using rj assms(2) by simp
    have "findPostablePeriod i t d = findPostablePeriod i t db" for i t using d by (simp add: findPostablePeriod_def)
    then show "?P (snd (executeRecurring env rj d))"
      using executeRecurring_effect [of d rj env] d good rj by (auto simp: recurringPosting_def)
  qed (use assms(1) in simp)
  then show ?thesis by (simp add: runRecurringJournals_def)
qed

end
