(* ===== verification/Scheduler_Examples.thy ===== *)
theory Scheduler_Examples
  imports Batch_Safety Collections_Examples
begin

text \<open>Sample instructions, templates and findings, on which the hypotheses of the theorems on the jobs hold.\<close>

definition sampleJobsDb :: "loan list \<Rightarrow> loanInstallment list \<Rightarrow> standingInstruction list \<Rightarrow> recurringJournal list \<Rightarrow> auditFinding list
    \<Rightarrow> scheduler_db" where
  "sampleJobsDb ls is ss rs fs = audit_db.extend (collections_db.extend
     ((sampleFieldDb [])\<lparr>db_loans := ls, db_installments := is, db_instructions := ss, db_recurring := rs\<rparr>)
     (audit_db.fields [] fs)) (scheduler_db.fields [] [])"

lemma sampleJobsDb_sel [simp]:
  "db_loans (sampleJobsDb ls is ss rs fs) = ls" "db_installments (sampleJobsDb ls is ss rs fs) = is"
  "db_instructions (sampleJobsDb ls is ss rs fs) = ss" "db_recurring (sampleJobsDb ls is ss rs fs) = rs"
  "db_findings (sampleJobsDb ls is ss rs fs) = fs" "db_savings (sampleJobsDb ls is ss rs fs) = [sampleSavings]"
  "db_journals (sampleJobsDb ls is ss rs fs) = []" "db_periods (sampleJobsDb ls is ss rs fs) = [samplePeriod FP_OPEN]"
  "db_glAccounts (sampleJobsDb ls is ss rs fs) = [sampleAccount ''cash'' ASSET, sampleAccount ''bank'' ASSET, sampleAccount ''dep'' LIABILITY]"
  "db_next (sampleJobsDb ls is ss rs fs) = 5" "db_jobRuns (sampleJobsDb ls is ss rs fs) = []"
  by (simp_all add: sampleJobsDb_def sampleFieldDb_def sampleLoanDb_def sampleInterestDb_def interest_db.defs savings_db.defs loan_db.defs cash_db.defs
      gl_db.defs core_db.defs crm_db.defs collections_db.defs audit_db.defs scheduler_db.defs sampleSavingsDb_def)

lemma sampleJobsDb_ok: "books_ok (sampleJobsDb ls is ss rs fs)" "savings_ok (sampleJobsDb ls is ss rs fs)"
  by (simp_all add: books_ok_def savings_ok_def uniqueBy_def postedLines_def accountEffect_def sampleAccount_def sampleSavings_def)

definition sampleInstruction :: "instructionType \<Rightarrow> string option \<Rightarrow> int \<Rightarrow> standingInstruction" where
  "sampleInstruction t d amt = \<lparr>si_id = ''o1'', si_institutionId = ''i1'', si_type = t, si_sourceAccountId = ''s1'', si_destinationAccountId = d,
     si_destinationLoanId = None, si_amount = amt, si_frequency = MONTHLY, si_customIntervalDays = None,
     si_nextExecutionDate = 1600000000000, si_status = SI_ACTIVE, si_maxRetries = 3, si_consecutiveFailures = 1, si_createdById = ''u1''\<rparr>"

lemma sampleSavings_found: "savingsById ''s1'' (sampleJobsDb ls is ss rs fs) = Some sampleSavings"
  by (simp add: savingsById_def sampleSavings_def)

section \<open>The daily jobs\<close>


section \<open>Standing instructions\<close>

theorem standing_instructions_safe_witness:
  "totalSavings (snd (runStandingInstructions sampleEnv (sampleJobsDb [] [] [sampleInstruction SCHEDULED_WITHDRAWAL None 300] [] []))) \<le> 5000"
proof -
  let ?db = "sampleJobsDb [] [] [sampleInstruction SCHEDULED_WITHDRAWAL None 300] [] []"
  have "totalSavings (snd (runStandingInstructions sampleEnv ?db)) \<le> totalSavings ?db"
    using standing_instructions_safe [OF sampleJobsDb_ok(2), of "[]" "[]" "[sampleInstruction SCHEDULED_WITHDRAWAL None 300]" "[]" "[]" sampleEnv]
    by (simp add: sampleInstruction_def selfTransfer_def sampleSavings_def)
  then show ?thesis by (simp add: sampleSavings_def)
qed

theorem self_transfer_creates_money_witness:
  "totalSavings (snd (executeInstruction sampleEnv (sampleInstruction INTERNAL_TRANSFER (Some ''s1'') 300) (sampleJobsDb [] [] [] [] []))) = 5300"
proof -
  let ?s = "sampleInstruction INTERNAL_TRANSFER (Some ''s1'') 300" and ?db = "sampleJobsDb [] [] [] [] []"
  have s: "selfTransfer ?s" "si_sourceAccountId ?s = ''s1''" "si_amount ?s = 300" by (simp_all add: sampleInstruction_def selfTransfer_def)
  have "totalSavings ?db = 5000" "sa_balance sampleSavings = 5000" by (simp_all add: sampleSavings_def)
  then show ?thesis
    using self_transfer_creates_money [OF sampleJobsDb_ok(2) _ s(1), of "[]" "[]" "[]" "[]" "[]" sampleSavings sampleEnv]
    by (simp add: s(2,3) sampleSavings_found)
qed



section \<open>Arrears and recurring journals\<close>


definition sampleTemplate :: recurringJournal where
  "sampleTemplate = \<lparr>rj_id = ''j1'', rj_institutionId = ''i1'', rj_description = ''Rent'',
     rj_lineTemplate = [\<lparr>en_accountId = ''bank'', en_debit = cents 500, en_credit = 0\<rparr>, \<lparr>en_accountId = ''cash'', en_debit = 0, en_credit = cents 500\<rparr>],
     rj_frequency = MONTHLY, rj_customIntervalDays = None, rj_nextExecutionDate = 1650000000000, rj_status = RJ_ACTIVE,
     rj_maxRetries = 3, rj_consecutiveFailures = 0, rj_createdById = ''u1''\<rparr>"

theorem recurring_journals_books_witness:
  "books_ok (snd (runRecurringJournals sampleEnv (sampleJobsDb [] [] [] [sampleTemplate] [])))"
proof -
  have "toDec2 (cents 500) = 500" "toDec2 0 = 0" by (rule toDec2_cents, simp_all)
  then have "goodTemplate sampleTemplate"
    by (simp add: goodTemplate_def sampleTemplate_def centsEntry_def smallSum_def)
  then show ?thesis
    using recurring_journals_books [OF sampleJobsDb_ok(1), of "[]" "[]" "[]" "[sampleTemplate]" "[]" sampleEnv] by simp
qed

section \<open>Findings\<close>

definition sampleFinding :: "findingStatus \<Rightarrow> auditFinding" where
  "sampleFinding st = \<lparr>af_id = ''xx'', af_institutionId = ''i1'', af_engagementId = ''g1'', af_referenceNumber = ''FND1'', af_description = ''d'',
     af_riskClassification = AR_HIGH, af_rootCauseAnalysis = None, af_recommendation = ''r'', af_managementResponse = None,
     af_actionOwnerId = None, af_targetRemediationDate = None, af_overdue = True, af_status = st, af_verifiedAt = None, af_verifiedById = None,
     af_closedAt = None, af_closedById = None, af_raisedById = ''u1''\<rparr>"

theorem finding_closed_verified_witness:
  "\<exists>f. db_findings (snd (closeFinding sampleEnv ''xx'' (snd (verifyFinding sampleEnv ''xx'' (sampleJobsDb [] [] [] [] [sampleFinding AF_IMPLEMENTED]))))) = [f]
     \<and> af_status f = AF_CLOSED \<and> af_verifiedById f \<noteq> None"
proof -
  let ?initial = "sampleJobsDb [] [] [] [] [sampleFinding AF_IMPLEMENTED]"
  let ?verified = "snd (verifyFinding sampleEnv ''xx'' ?initial)" let ?db = "snd (closeFinding sampleEnv ''xx'' ?verified)"
  have "audit_step (e_uuid sampleEnv) ?initial ?verified" "audit_step (e_uuid sampleEnv) ?verified ?db"
    by (rule audit_step.Verify, rule audit_step.CloseFinding)
  then have reach: "(audit_step (e_uuid sampleEnv))\<^sup>*\<^sup>* ?initial ?db" by (meson converse_rtranclp_into_rtranclp r_into_rtranclp)
  have "''xx'' = e_uuid sampleEnv 2" by (simp add: sampleEnv_def numeral_2_eq_2)
  then have "''xx'' \<in> e_uuid sampleEnv ` {..<5}" by (simp add: image_iff) (rule bexI [of _ 2], simp_all)
  then have inv: "findings_inv (e_uuid sampleEnv) ?initial"
    by (auto simp: findings_inv_def named_def uniqueBy_def sampleFinding_def)
  have "\<exists>f. db_findings ?db = [f] \<and> af_status f = AF_CLOSED"
    by (simp add: closeFinding_def verifyFinding_def answer_def ownFinding_def sampleFinding_def sampleEnv_def require_def Let_def updFinding_def audit_def)
  then show ?thesis using finding_closed_verified [OF reach sampleInj inv] by auto
qed

end
