(* ===== verification/Customers.thy ===== *)
theory Customers
  imports Scheduler Access
begin

text \<open>
  The customer register (\<open>routes/customer.routes.ts\<close>, \<open>routes/watchlist.routes.ts\<close>,
  \<open>lib/customerNumber.ts\<close>): creation with watchlist and duplicate screening, edits and status changes
  that need approval, due diligence, archiving, the people around a customer, consents, and the
  requests to merge duplicates. Every column but the status and the merge state is kept in the JSON
  object \<open>cu_columns\<close>, dates as their milliseconds. The format of an e-mail address is part of the
  schema; the comparison that ignores case is the database's, a parameter.
\<close>

section \<open>Tables\<close>

record watchlistEntry =
  wl_id :: string
  wl_institutionId :: string
  wl_fullName :: string
  wl_idNumber :: "string option"
  wl_reason :: "string option"
  wl_addedById :: "string option"
  wl_deletedAt :: "time option"

record nextOfKin =
  nk_id :: string
  nk_customerId :: string
  nk_fullName :: string
  nk_relationship :: string
  nk_phone :: string
  nk_email :: "string option"
  nk_address :: "string option"
  nk_deletedAt :: "time option"

record customerNote =
  cn_id :: string
  cn_customerId :: string
  cn_authorId :: "string option"
  cn_note :: string

text \<open>Percentages have two decimals and are kept in hundredths.\<close>

record beneficiary =
  be_id :: string
  be_customerId :: string
  be_fullName :: string
  be_relationship :: string
  be_allocationPct :: int
  be_phone :: "string option"
  be_deletedAt :: "time option"

record beneficialOwner =
  bo_id :: string
  bo_customerId :: string
  bo_fullName :: string
  bo_ownershipPct :: int
  bo_idType :: "string option"
  bo_idNumber :: "string option"
  bo_deletedAt :: "time option"

datatype documentType = NATIONAL_ID | PASSPORT | DRIVERS_LICENCE | VOTER_ID | BUSINESS_REGISTRATION | TAX_CERTIFICATE
  | UTILITY_BILL | PROOF_OF_ADDRESS | PHOTOGRAPH | SIGNATURE | LOAN_DOCUMENT | CONTRACT | CONSENT_FORM | OTHER_DOCUMENT

datatype documentStatus = DS_UPLOADED | DS_VERIFIED | DS_APPROVED | DS_ACTIVE | DS_ARCHIVED | DS_DISPOSED

record document =
  dc_id :: string
  dc_institutionId :: string
  dc_customerId :: "string option"
  dc_documentName :: string
  dc_documentType :: documentType
  dc_category :: "string option"
  dc_storageReference :: string
  dc_checksum :: string
  dc_fileSize :: nat
  dc_mimeType :: string
  dc_versionNumber :: nat
  dc_expiryDate :: "time option"
  dc_status :: documentStatus
  dc_uploadedById :: "string option"
  dc_replacesDocumentId :: "string option"

record savedSearch =
  sv_id :: string
  sv_institutionId :: string
  sv_userId :: string
  sv_name :: string
  sv_criteria :: "(string \<times> jsValue) list"

datatype consentType = DATA_PROCESSING | MARKETING | CONSENT_SMS | CONSENT_EMAIL | PUSH_NOTIFICATION | BIOMETRIC
  | CREDIT_BUREAU | INFORMATION_SHARING | DIGITAL_SIGNATURE | OTHER_CONSENT

record customerConsent =
  co_id :: string
  co_institutionId :: string
  co_customerId :: string
  co_consentType :: consentType
  co_otherTypeLabel :: "string option"
  co_granted :: bool
  co_expiresAt :: "time option"
  co_withdrawnAt :: "time option"
  co_withdrawnById :: "string option"
  co_documentId :: "string option"
  co_capturedById :: string
  co_notes :: "string option"

text \<open>The models that refer to a customer, as the merge names them.\<close>

datatype refModel = NEXT_OF_KIN | CUSTOMER_NOTE | BENEFICIARY | BENEFICIAL_OWNER | LOAN | SAVINGS_ACCOUNT | ACCOUNT_HOLDER
  | DOCUMENT | COLLECTION_ROUTE_CUSTOMER | COLLECTION_TRANSACTION

datatype mergeStatus = MG_PENDING_APPROVAL | MG_APPROVED | MG_REJECTED | MG_ROLLED_BACK

record mergeRecord =
  mg_id :: string
  mg_institutionId :: string
  mg_primaryCustomerId :: string
  mg_mergedCustomerId :: string
  mg_similarityScore :: int
  mg_matchedFields :: "string list"
  mg_status :: mergeStatus
  mg_reassignedRecords :: "(refModel \<times> string) list option"
  mg_requestedById :: string
  mg_approvedById :: "string option"
  mg_mergedAt :: "time option"
  mg_rolledBackById :: "string option"
  mg_rolledBackAt :: "time option"
  mg_rollbackReason :: "string option"

record customer_db = scheduler_db +
  db_watchlist :: "watchlistEntry list"
  db_kin :: "nextOfKin list"
  db_notes :: "customerNote list"
  db_beneficiaries :: "beneficiary list"
  db_owners :: "beneficialOwner list"
  db_documents :: "document list"
  db_savedSearches :: "savedSearch list"
  db_consents :: "customerConsent list"
  db_merges :: "mergeRecord list"

section \<open>Columns\<close>

type_synonym columns = "(string \<times> jsValue) list"

definition setColumn :: "string \<times> jsValue \<Rightarrow> columns \<Rightarrow> columns" where
  "setColumn kv cols = (if list_ex (\<lambda>c. fst c = fst kv) cols then map (\<lambda>c. if fst c = fst kv then kv else c) cols else cols @ [kv])"

definition setColumns :: "columns \<Rightarrow> columns \<Rightarrow> columns" where
  "setColumns new cols = fold setColumn new cols"

definition writeColumns :: "columns \<Rightarrow> customer \<Rightarrow> customer" where
  "writeColumns new c = c\<lparr>cu_columns := setColumns new (cu_columns c)\<rparr>"

definition updCustomer :: "string \<Rightarrow> (customer \<Rightarrow> customer) \<Rightarrow> 'a savings_db_scheme \<Rightarrow> 'a savings_db_scheme" where
  "updCustomer i f db = db\<lparr>db_customers := updWhere (\<lambda>c. customer.cu_id c = i) f (db_customers db)\<rparr>"

abbreviation customerOf :: "env \<Rightarrow> string \<Rightarrow> 'a savings_db_scheme \<Rightarrow> terr + customer" where
  "customerOf env i db \<equiv> orThrow (Http 404 ''Customer not found'') (ownCustomer env i db)"

definition colText :: "string \<Rightarrow> customer \<Rightarrow> string" where
  "colText k c = (case colString k c of Some s \<Rightarrow> s | None \<Rightarrow> [])"

definition optText :: "string \<Rightarrow> string option \<Rightarrow> columns" where
  "optText k v = (case v of None \<Rightarrow> [] | Some s \<Rightarrow> [(k, JStr s)])"

text \<open>The telephone number is unique at the institution, and the branch is a foreign key.\<close>

definition phoneTaken :: "env \<Rightarrow> string \<Rightarrow> string \<Rightarrow> 'a savings_db_scheme \<Rightarrow> bool" where
  "phoneTaken env i ph db \<longleftrightarrow>
     list_ex (\<lambda>c. cu_institutionId c = e_institutionId env \<and> customer.cu_id c \<noteq> i \<and> colString ''phone'' c = Some ph) (db_customers db)"

definition columnsAllowed :: "env \<Rightarrow> string \<Rightarrow> columns \<Rightarrow> 'a savings_db_scheme \<Rightarrow> bool" where
  "columnsAllowed env i new db \<longleftrightarrow>
     (case map_of new ''phone'' of Some (JStr ph) \<Rightarrow> \<not> phoneTaken env i ph db | _ \<Rightarrow> True)
   \<and> (case map_of new ''branchId'' of Some (JStr b) \<Rightarrow> find (\<lambda>(j, _). j = b) (db_branches db) \<noteq> None | _ \<Rightarrow> True)"

section \<open>Creating a customer\<close>

definition generateCustomerNumber :: "time \<Rightarrow> num \<Rightarrow> string" where
  "generateCustomerNumber = stampedNumber ''CU''"

record customerBody =
  yb_fullName :: string
  yb_phone :: string
  yb_email :: "string option"
  yb_idType :: "string option"
  yb_idNumber :: "string option"
  yb_branchId :: string
  yb_address :: "string option"
  yb_segment :: "string option"

definition bodyColumns :: "customerBody \<Rightarrow> columns" where
  "bodyColumns b = [(''fullName'', JStr (yb_fullName b)), (''phone'', JStr (yb_phone b))] @ optText ''email'' (yb_email b)
     @ optText ''idType'' (yb_idType b) @ optText ''idNumber'' (yb_idNumber b) @ [(''branchId'', JStr (yb_branchId b))]
     @ optText ''address'' (yb_address b)
     @ [(''segment'', JStr (case yb_segment b of None \<Rightarrow> ''INDIVIDUAL'' | Some s \<Rightarrow> s))]"

text \<open>The defaults of the columns that creation does not set.\<close>

definition defaultColumns :: columns where
  "defaultColumns = [(''lifecycleStage'', JStr ''ONBOARDING''), (''kycStatus'', JStr ''PENDING''),
     (''smsEnabled'', JBool True), (''emailEnabled'', JBool True), (''whatsappEnabled'', JBool True), (''marketingEnabled'', JBool False),
     (''transactionAlertsEnabled'', JBool True), (''statementDeliveryEnabled'', JBool True),
     (''pepStatus'', JStr ''NOT_PEP''), (''cddLevel'', JStr ''STANDARD''), (''archived'', JBool False)]"

definition onWatchlist :: "(string \<Rightarrow> string \<Rightarrow> bool) \<Rightarrow> env \<Rightarrow> string \<Rightarrow> watchlistEntry list \<Rightarrow> watchlistEntry option" where
  "onWatchlist same env name = find (\<lambda>w. wl_institutionId w = e_institutionId env \<and> same (wl_fullName w) name \<and> wl_deletedAt w = None)"

definition nameDuplicate :: "env \<Rightarrow> string \<Rightarrow> customer list \<Rightarrow> customer option" where
  "nameDuplicate env name = find (\<lambda>c. cu_institutionId c = e_institutionId env \<and> \<not> colTrue ''archived'' c
     \<and> normalizeName (colText ''fullName'' c) = normalizeName name)"

definition watchReason :: "watchlistEntry \<Rightarrow> string" where
  "watchReason w = orMessage (wl_reason w) ''no reason recorded''"

text \<open>The rules are asked before anything is written; the answer carries the warnings.\<close>

definition createCustomer ::
  "conversions \<Rightarrow> (string \<Rightarrow> string \<Rightarrow> bool) \<Rightarrow> env \<Rightarrow> customerBody option \<Rightarrow> 'a customer_db_scheme
    \<Rightarrow> (customer \<times> ruleWarnings \<times> string option \<times> string option) resp \<times> 'a customer_db_scheme" where
  "createCustomer cv same env body db = answer 201 db (
     bindE (parseBody (\<lambda>b. 2 \<le> length (yb_fullName b) \<and> 6 \<le> length (yb_phone b) \<and> yb_branchId b \<noteq> []) body) (\<lambda>b.
     let watch = onWatchlist same env (yb_fullName b) (db_watchlist db);
         dup = nameDuplicate env (yb_fullName b) (db_customers db);
         matched = matchRules cv env (e_institutionId env) CUSTOMER_CREATION (bodyColumns b) (db_businessRules db)
     in (case find hasReject matched of
          Some r \<Rightarrow> Inl (Http 400 (''Customer creation blocked by business rule '' @ br_ruleCode r @ '': '' @ br_name r))
        | None \<Rightarrow>
            (let c = \<lparr>customer.cu_id = newId env db, cu_institutionId = e_institutionId env,
                  cu_status = (if watch = None then CS_REGISTERED else CS_BLACKLISTED), cu_merged = False, cu_mergedIntoCustomerId = None,
                  cu_columns = bodyColumns b @ defaultColumns @ [(''customerNumber'', JStr (generateCustomerNumber (e_now env) (e_rand env (db_next db)))),
                    (''watchlistFlag'', JBool (watch \<noteq> None)), (''possibleDuplicate'', JBool (dup \<noteq> None))]\<rparr>;
                 db1 = db\<lparr>db_next := Suc (db_next db), db_customers := db_customers db @ [c]\<rparr>;
                 (warnings, db2) = executeMatchedRules env ''Customer'' (customer.cu_id c) matched db1;
                 db3 = (case watch of None \<Rightarrow> db2 | Some w \<Rightarrow> requestApproval env AML_ADJUDICATION ''Customer'' (customer.cu_id c)
                    [(''previousStatus'', JStr ''REGISTERED'')] (''Name matches watchlist entry: '' @ watchReason w) db2)
             in if \<not> columnsAllowed env (customer.cu_id c) (bodyColumns b) db
                  \<or> list_ex (\<lambda>x. colString ''customerNumber'' x = colString ''customerNumber'' c) (db_customers db)
                then Inl Thrown
                else Inr ((c, warnings,
                     map_option (\<lambda>w. ''Name matches a watchlist entry - customer BLACKLISTED pending compliance adjudication: '' @ watchReason w) watch,
                     map_option (\<lambda>d. ''Possible duplicate of existing customer: '' @ colText ''fullName'' d) dup),
                   audit env ''customer.create'' ''customer'' (customer.cu_id c) db3)))))"

section \<open>Editing\<close>

definition lockedStatuses :: "customerStatus list" where
  "lockedStatuses = [CS_CLOSED, CS_ARCHIVED, CS_BLACKLISTED, CS_PENDING_APPROVAL]"

definition assertNotLocked :: "customerStatus \<Rightarrow> terr + unit" where
  "assertNotLocked st = require (st \<notin> set lockedStatuses) 409
     (''This customer is '' @ showCustomerStatus st @ '' and locked. No fields can be changed until the record is reopened.'')"

definition criticalFields :: "string list" where
  "criticalFields = [''fullName'', ''idType'', ''idNumber'', ''segment'']"

text \<open>
  The body of an edit is the object of the columns it names; \<open>null\<close> clears one that may be null, and
  other names are dropped. The format of an email address is not checked here.
\<close>

datatype columnKind = AT_LEAST nat | ONE_OF "string list" | FLAG | NULLABLE columnKind

fun fits :: "columnKind \<Rightarrow> jsValue \<Rightarrow> bool" where
  "fits (AT_LEAST n) (JStr s) = (n \<le> length s)"
| "fits (ONE_OF xs) (JStr s) = (s \<in> set xs)"
| "fits FLAG (JBool _) = True"
| "fits (NULLABLE k) JNull = True"
| "fits (NULLABLE k) v = fits k v"
| "fits _ _ = False"

definition updateColumns :: "(string \<times> columnKind) list" where
  "updateColumns = [(''fullName'', AT_LEAST 2), (''phone'', AT_LEAST 6), (''email'', NULLABLE (AT_LEAST 0)),
     (''idType'', NULLABLE (AT_LEAST 0)), (''idNumber'', NULLABLE (AT_LEAST 0)), (''branchId'', NULLABLE (AT_LEAST 0)),
     (''address'', NULLABLE (AT_LEAST 0)),
     (''segment'', ONE_OF [''INDIVIDUAL'', ''BUSINESS'', ''FARMER_GROUP'', ''WOMENS_GROUP'', ''YOUTH'', ''CORPORATE'']),
     (''riskRating'', NULLABLE (ONE_OF [''LOW'', ''MEDIUM'', ''HIGH''])),
     (''preferredChannel'', NULLABLE (AT_LEAST 0)), (''preferredLanguage'', NULLABLE (AT_LEAST 0)),
     (''smsEnabled'', FLAG), (''emailEnabled'', FLAG), (''whatsappEnabled'', FLAG), (''marketingEnabled'', FLAG),
     (''transactionAlertsEnabled'', FLAG), (''statementDeliveryEnabled'', FLAG)]"

definition updateSchema :: "columns \<Rightarrow> bool" where
  "updateSchema b \<longleftrightarrow> list_all (\<lambda>(k, v). case map_of updateColumns k of None \<Rightarrow> True | Some kind \<Rightarrow> fits kind v) b"

definition namedColumns :: "columns \<Rightarrow> columns" where
  "namedColumns = filter (\<lambda>(k, _). map_of updateColumns k \<noteq> None)"

definition needsApproval :: "columns \<Rightarrow> customer \<Rightarrow> bool" where
  "needsApproval b c \<longleftrightarrow> list_ex (\<lambda>f. map_of b f \<noteq> None) criticalFields \<and> cu_status c \<in> {CS_ACTIVE, CS_VERIFIED}"

definition holdForApproval ::
  "env \<Rightarrow> approvalType \<Rightarrow> columns \<Rightarrow> string \<Rightarrow> string \<Rightarrow> customer \<Rightarrow> 'a savings_db_scheme \<Rightarrow> 'a savings_db_scheme" where
  "holdForApproval env ty payload reason action c db =
     audit env action ''customer'' (customer.cu_id c) (updCustomer (customer.cu_id c) (\<lambda>x. x\<lparr>cu_status := CS_PENDING_APPROVAL\<rparr>)
       (requestApproval env ty ''Customer'' (customer.cu_id c) payload reason db))"

text \<open>
  The version the client expects is checked against the audit columns that the database client keeps
  with the row. The answer is \<open>None\<close> when the edit waits for approval.
\<close>

definition editCustomer ::
  "auditColumns option \<Rightarrow> int option \<Rightarrow> env \<Rightarrow> string \<Rightarrow> columns option \<Rightarrow> 'a savings_db_scheme \<Rightarrow> customer option resp \<times> 'a savings_db_scheme" where
  "editCustomer current expected env i body db =
     (case bindE (parseBody updateSchema body) (\<lambda>b.
           bindE (customerOf env i db) (\<lambda>c.
           bindE (assertNotLocked (cu_status c)) (\<lambda>_.
           bindE (case checkVersion current expected of Inl v \<Rightarrow> Inl (Http 409 ''This record was changed by someone else since you loaded it'') | Inr u \<Rightarrow> Inr ()) (\<lambda>_.
           Inr (namedColumns b, c))))) of
        Inl e \<Rightarrow> answerError e db
      | Inr (b, c) \<Rightarrow>
          if needsApproval b c then (ROk 202 None, holdForApproval env CUSTOMER_PROFILE_UPDATE b
              ''Critical field change on an active/verified customer'' ''customer.update_requested'' c db)
          else if \<not> columnsAllowed env (customer.cu_id c) b db then answerError Thrown db
          else (ROk 200 (Some (writeColumns b c)), audit env ''customer.update'' ''customer'' (customer.cu_id c) (updCustomer (customer.cu_id c) (writeColumns b) db)))"

definition clearDuplicateFlag :: "env \<Rightarrow> string \<Rightarrow> 'a savings_db_scheme \<Rightarrow> unit resp \<times> 'a savings_db_scheme" where
  "clearDuplicateFlag env i db = answer 200 db (
     bindE (customerOf env i db) (\<lambda>_.
     Inr ((), audit env ''customer.duplicate_cleared'' ''customer'' i
       (db\<lparr>db_customers := updWhere (\<lambda>c. customer.cu_id c = i \<and> cu_institutionId c = e_institutionId env)
          (writeColumns [(''possibleDuplicate'', JBool False)]) (db_customers db)\<rparr>))))"

text \<open>An edit of one column of a customer that is not locked.\<close>

definition changeColumns :: "env \<Rightarrow> string \<Rightarrow> columns \<Rightarrow> string \<Rightarrow> 'a savings_db_scheme \<Rightarrow> terr + unit \<times> 'a savings_db_scheme" where
  "changeColumns env i new action db =
     bindE (customerOf env i db) (\<lambda>c.
     bindE (assertNotLocked (cu_status c)) (\<lambda>_.
     Inr ((), audit env action ''customer'' i (updCustomer (customer.cu_id c) (writeColumns new) db))))"

definition changeStage :: "env \<Rightarrow> string \<Rightarrow> string option \<Rightarrow> 'a savings_db_scheme \<Rightarrow> unit resp \<times> 'a savings_db_scheme" where
  "changeStage env i stage db = answer 200 db (
     bindE (parseBody (\<lambda>_. True) stage) (\<lambda>s. changeColumns env i [(''lifecycleStage'', JStr s)] ''customer.stage_change'' db))"

definition changeStatus :: "env \<Rightarrow> string \<Rightarrow> customerStatus option \<Rightarrow> 'a savings_db_scheme \<Rightarrow> unit resp \<times> 'a savings_db_scheme" where
  "changeStatus env i body db =
     (case bindE (parseBody (\<lambda>_. True) body) (\<lambda>st.
           bindE (customerOf env i db) (\<lambda>c.
           bindE (assertNotLocked (cu_status c)) (\<lambda>_.
           bindE (require (st \<in> {CS_VERIFIED, CS_ACTIVE} \<longrightarrow> colString ''kycStatus'' c = Some ''VERIFIED'') 409
             (''Cannot set status to '' @ showCustomerStatus st @ '' - KYC must be VERIFIED first (currently '' @ colText ''kycStatus'' c @ '')'')) (\<lambda>_.
           Inr (st, c))))) of
        Inl e \<Rightarrow> answerError e db
      | Inr (st, c) \<Rightarrow>
          if cu_status c = CS_ACTIVE \<and> st \<noteq> CS_ACTIVE
          then (ROk 202 (), holdForApproval env CUSTOMER_STATUS_CHANGE
              [(''status'', JStr (showCustomerStatus st)), (''previousStatus'', JStr (showCustomerStatus (cu_status c)))]
              ''Status change requested on an ACTIVE customer'' ''customer.status_change_requested'' c db)
          else (ROk 200 (), audit env ''customer.status_change'' ''customer'' i (updCustomer (customer.cu_id c) (\<lambda>x. x\<lparr>cu_status := st\<rparr>) db)))"

text \<open>The body is not checked against the values of the column; the database client refuses others.\<close>

definition changeKyc :: "env \<Rightarrow> string \<Rightarrow> string option \<Rightarrow> 'a savings_db_scheme \<Rightarrow> unit resp \<times> 'a savings_db_scheme" where
  "changeKyc env i body db = answer 200 db (
     bindE (require (truthy body) 400 ''kycStatus required'') (\<lambda>_.
     bindE (changeColumns env i [(''kycStatus'', JStr (the body))] ''customer.kyc_change'' db) (\<lambda>r.
     if the body \<in> {''PENDING'', ''VERIFIED'', ''REJECTED''} then Inr r else Inl Thrown)))"

definition cddLevelFor :: "string \<Rightarrow> customer \<Rightarrow> string" where
  "cddLevelFor pep c = (if pep \<noteq> ''NOT_PEP'' \<or> colString ''riskRating'' c = Some ''HIGH'' then ''ENHANCED'' else ''STANDARD'')"

definition updateCdd :: "env \<Rightarrow> string \<Rightarrow> (string option \<times> string option) option \<Rightarrow> 'a savings_db_scheme \<Rightarrow> customer resp \<times> 'a savings_db_scheme" where
  "updateCdd env i body db = answer 200 db (
     bindE (parseBody (\<lambda>_. True) body) (\<lambda>(pep, notes).
     bindE (customerOf env i db) (\<lambda>c.
     bindE (assertNotLocked (cu_status c)) (\<lambda>_.
     let effective = (case pep of Some p \<Rightarrow> p | None \<Rightarrow> colText ''pepStatus'' c);
         new = optText ''pepStatus'' pep @ optText ''cddNotes'' notes @ [(''cddLevel'', JStr (cddLevelFor effective c)),
           (''cddCompletedAt'', JNum (of_int (e_now env))), (''cddCompletedById'', JStr (e_userId env))]
     in Inr (writeColumns new c, audit env ''customer.cdd_update'' ''customer'' (customer.cu_id c) (updCustomer (customer.cu_id c) (writeColumns new) db))))))"

section \<open>The checklist of documents\<close>

type_synonym requirement = "string \<times> documentType list"

definition identityDocument :: requirement where
  "identityDocument = (''Identity document'', [NATIONAL_ID, PASSPORT, DRIVERS_LICENCE, VOTER_ID])"

definition proofOfAddress :: requirement where
  "proofOfAddress = (''Proof of address'', [PROOF_OF_ADDRESS, UTILITY_BILL])"

definition kycRequirements :: "string \<Rightarrow> requirement list" where
  "kycRequirements segment = (if segment \<in> {''BUSINESS'', ''CORPORATE''}
     then [(''Business registration'', [BUSINESS_REGISTRATION]), (''Tax certificate'', [TAX_CERTIFICATE]), proofOfAddress]
     else [identityDocument, proofOfAddress, (''Photograph'', [PHOTOGRAPH])])"

record checklist =
  ck_checklist :: "(string \<times> bool \<times> documentType list) list"
  ck_percentComplete :: int
  ck_complete :: bool
  ck_missing :: "string list"

definition kycChecklist :: "env \<Rightarrow> string \<Rightarrow> 'a customer_db_scheme \<Rightarrow> terr + checklist" where
  "kycChecklist env i db =
     bindE (customerOf env i db) (\<lambda>c.
     let present = set (map dc_documentType (filter (\<lambda>d. dc_customerId d = Some (customer.cu_id c) \<and> dc_status d \<noteq> DS_DISPOSED) (db_documents db)));
         checks = map (\<lambda>(l, ts). (l, list_ex (\<lambda>t. t \<in> present) ts, ts)) (kycRequirements (colText ''segment'' c));
         n = countWhere (\<lambda>(_, ok, _). ok) checks
     in Inr \<lparr>ck_checklist = checks, ck_percentComplete = mathRound (nmul (ndiv (of_nat n) (of_nat (length checks))) 100),
          ck_complete = (n = length checks), ck_missing = map fst (filter (\<lambda>(_, ok, _). \<not> ok) checks)\<rparr>)"

section \<open>Archiving\<close>

definition openLoansOf :: "string \<Rightarrow> loan list \<Rightarrow> loan list" where
  "openLoansOf i = filter (\<lambda>l. ln_customerId l = i \<and> ln_status l \<in> {LN_PENDING, LN_APPROVED, LN_DISBURSED, LN_ACTIVE})"

definition fundedSavingsOf :: "string \<Rightarrow> savingsAccount list \<Rightarrow> savingsAccount list" where
  "fundedSavingsOf i = filter (\<lambda>a. sa_customerId a = i \<and> sa_status a = SA_ACTIVE \<and> sa_balance a \<noteq> 0)"

text \<open>The body: the reason of the closure and a note.\<close>

definition archiveCustomer :: "env \<Rightarrow> string \<Rightarrow> (string \<times> string option) option \<Rightarrow> 'a customer_db_scheme \<Rightarrow> unit resp \<times> 'a customer_db_scheme" where
  "archiveCustomer env i body db = answer 200 db (
     bindE (parseBody (\<lambda>_. True) body) (\<lambda>(reason, note).
     bindE (customerOf env i db) (\<lambda>c.
     let ls = openLoansOf (customer.cu_id c) (db_loans db); as = fundedSavingsOf (customer.cu_id c) (db_savings db) in
     bindE (require (ls = [] \<and> as = []) 409 (''This customer has active financial obligations ('' @ showNat (length ls) @ '' open loan(s), ''
       @ showNat (length as) @ '' funded savings account(s)) and cannot be archived until they'' @ [CHR 0x27] @ ''re resolved.'')) (\<lambda>_.
     Inr ((), audit env ''customer.archive'' ''customer'' i (updCustomer (customer.cu_id c) (writeColumns ([(''archived'', JBool True),
         (''archivedAt'', JNum (of_int (e_now env))), (''closureReason'', JStr reason)] @ optText ''closureNote'' note
         @ [(''closedById'', JStr (e_userId env)), (''closedAt'', JNum (of_int (e_now env)))])) db))))))"

definition unarchiveCustomer :: "env \<Rightarrow> string \<Rightarrow> 'a savings_db_scheme \<Rightarrow> unit resp \<times> 'a savings_db_scheme" where
  "unarchiveCustomer env i db = answer 200 db (
     bindE (customerOf env i db) (\<lambda>_.
     Inr ((), audit env ''customer.unarchive'' ''customer'' i
       (db\<lparr>db_customers := updWhere (\<lambda>c. customer.cu_id c = i \<and> cu_institutionId c = e_institutionId env)
          (writeColumns [(''archived'', JBool False), (''archivedAt'', JNull)]) (db_customers db)\<rparr>))))"

section \<open>The people around a customer\<close>

record kinBody =
  kn_fullName :: string
  kn_relationship :: string
  kn_phone :: string
  kn_email :: "string option"
  kn_address :: "string option"

definition addKin :: "env \<Rightarrow> string \<Rightarrow> kinBody option \<Rightarrow> 'a customer_db_scheme \<Rightarrow> nextOfKin resp \<times> 'a customer_db_scheme" where
  "addKin env i body db = answer 201 db (
     bindE (parseBody (\<lambda>b. 2 \<le> length (kn_fullName b) \<and> kn_relationship b \<noteq> [] \<and> 6 \<le> length (kn_phone b)) body) (\<lambda>b.
     bindE (customerOf env i db) (\<lambda>c.
     let k = \<lparr>nk_id = newId env db, nk_customerId = customer.cu_id c, nk_fullName = kn_fullName b, nk_relationship = kn_relationship b,
           nk_phone = kn_phone b, nk_email = kn_email b, nk_address = kn_address b, nk_deletedAt = None\<rparr>
     in Inr (k, audit env ''customer.next_of_kin_add'' ''customer'' (customer.cu_id c) (db\<lparr>db_next := Suc (db_next db), db_kin := db_kin db @ [k]\<rparr>)))))"

definition removeKin :: "env \<Rightarrow> string \<Rightarrow> string \<Rightarrow> 'a customer_db_scheme \<Rightarrow> unit resp \<times> 'a customer_db_scheme" where
  "removeKin env i j db = answer 204 db (
     bindE (customerOf env i db) (\<lambda>c.
     Inr ((), db\<lparr>db_kin := updWhere (\<lambda>k. nk_id k = j \<and> nk_customerId k = customer.cu_id c) (\<lambda>k. k\<lparr>nk_deletedAt := Some (e_now env)\<rparr>) (db_kin db)\<rparr>)))"

definition addNote :: "env \<Rightarrow> string \<Rightarrow> string option \<Rightarrow> 'a customer_db_scheme \<Rightarrow> customerNote resp \<times> 'a customer_db_scheme" where
  "addNote env i body db = answer 201 db (
     bindE (parseBody (\<lambda>n. n \<noteq> []) body) (\<lambda>n.
     bindE (customerOf env i db) (\<lambda>c.
     let k = \<lparr>cn_id = newId env db, cn_customerId = customer.cu_id c, cn_authorId = Some (e_userId env), cn_note = n\<rparr>
     in Inr (k, audit env ''customer.note_add'' ''customer'' (customer.cu_id c) (db\<lparr>db_next := Suc (db_next db), db_notes := db_notes db @ [k]\<rparr>)))))"

record beneficiaryBody =
  by_fullName :: string
  by_relationship :: string
  by_allocationPct :: num
  by_phone :: "string option"

definition allocated :: "string \<Rightarrow> beneficiary list \<Rightarrow> num" where
  "allocated i bs = nsum (map (\<lambda>b. cents (be_allocationPct b)) (filter (\<lambda>b. be_customerId b = i \<and> be_deletedAt b = None) bs))"

definition addBeneficiary ::
  "conversions \<Rightarrow> env \<Rightarrow> string \<Rightarrow> beneficiaryBody option \<Rightarrow> 'a customer_db_scheme \<Rightarrow> (beneficiary \<times> num) resp \<times> 'a customer_db_scheme" where
  "addBeneficiary cv env i body db = answer 201 db (
     bindE (parseBody (\<lambda>b. 2 \<le> length (by_fullName b) \<and> by_relationship b \<noteq> [] \<and> 0 \<le> by_allocationPct b \<and> by_allocationPct b \<le> 100) body) (\<lambda>b.
     bindE (customerOf env i db) (\<lambda>c.
     let current = allocated (customer.cu_id c) (db_beneficiaries db); new = nadd current (by_allocationPct b) in
     bindE (require (new \<le> 100) 400 (''Total beneficiary allocation cannot exceed 100% (currently '' @ cv_show cv current
       @ ''%, this would bring it to '' @ cv_show cv new @ ''%)'')) (\<lambda>_.
     let k = \<lparr>be_id = newId env db, be_customerId = customer.cu_id c, be_fullName = by_fullName b, be_relationship = by_relationship b,
           be_allocationPct = toDec2 (by_allocationPct b), be_phone = by_phone b, be_deletedAt = None\<rparr>
     in Inr ((k, new), audit env ''customer.beneficiary_add'' ''customer'' (customer.cu_id c)
          (db\<lparr>db_next := Suc (db_next db), db_beneficiaries := db_beneficiaries db @ [k]\<rparr>))))))"

definition removeBeneficiary :: "env \<Rightarrow> string \<Rightarrow> string \<Rightarrow> 'a customer_db_scheme \<Rightarrow> unit resp \<times> 'a customer_db_scheme" where
  "removeBeneficiary env i j db = answer 204 db (
     bindE (customerOf env i db) (\<lambda>c.
     Inr ((), db\<lparr>db_beneficiaries := updWhere (\<lambda>b. be_id b = j \<and> be_customerId b = customer.cu_id c)
       (\<lambda>b. b\<lparr>be_deletedAt := Some (e_now env)\<rparr>) (db_beneficiaries db)\<rparr>)))"

record ownerBody =
  ow_fullName :: string
  ow_ownershipPct :: num
  ow_idType :: "string option"
  ow_idNumber :: "string option"

text \<open>Nothing bounds the sum of the shares here.\<close>

definition addOwner :: "env \<Rightarrow> string \<Rightarrow> ownerBody option \<Rightarrow> 'a customer_db_scheme \<Rightarrow> beneficialOwner resp \<times> 'a customer_db_scheme" where
  "addOwner env i body db = answer 201 db (
     bindE (parseBody (\<lambda>b. 2 \<le> length (ow_fullName b) \<and> 0 \<le> ow_ownershipPct b \<and> ow_ownershipPct b \<le> 100) body) (\<lambda>b.
     bindE (customerOf env i db) (\<lambda>c.
     let k = \<lparr>bo_id = newId env db, bo_customerId = customer.cu_id c, bo_fullName = ow_fullName b, bo_ownershipPct = toDec2 (ow_ownershipPct b),
           bo_idType = ow_idType b, bo_idNumber = ow_idNumber b, bo_deletedAt = None\<rparr>
     in Inr (k, audit env ''customer.beneficial_owner_add'' ''customer'' (customer.cu_id c) (db\<lparr>db_next := Suc (db_next db), db_owners := db_owners db @ [k]\<rparr>)))))"

definition removeOwner :: "env \<Rightarrow> string \<Rightarrow> string \<Rightarrow> 'a customer_db_scheme \<Rightarrow> unit resp \<times> 'a customer_db_scheme" where
  "removeOwner env i j db = answer 204 db (
     bindE (customerOf env i db) (\<lambda>c.
     Inr ((), db\<lparr>db_owners := updWhere (\<lambda>k. bo_id k = j \<and> bo_customerId k = customer.cu_id c) (\<lambda>k. k\<lparr>bo_deletedAt := Some (e_now env)\<rparr>) (db_owners db)\<rparr>)))"

definition saveSearch :: "env \<Rightarrow> (string \<times> columns) option \<Rightarrow> 'a customer_db_scheme \<Rightarrow> savedSearch resp \<times> 'a customer_db_scheme" where
  "saveSearch env body db = answer 201 db (
     bindE (parseBody (\<lambda>(n, _). n \<noteq> []) body) (\<lambda>(n, crit).
     let s = \<lparr>sv_id = newId env db, sv_institutionId = e_institutionId env, sv_userId = e_userId env, sv_name = n, sv_criteria = crit\<rparr>
     in Inr (s, db\<lparr>db_next := Suc (db_next db), db_savedSearches := db_savedSearches db @ [s]\<rparr>)))"

section \<open>Risk\<close>

definition pepOf :: "customer \<Rightarrow> pepStatus" where
  "pepOf c = (let s = colText ''pepStatus'' c in if s = ''DOMESTIC_PEP'' then DOMESTIC_PEP else if s = ''FOREIGN_PEP'' then FOREIGN_PEP
     else if s = ''PEP_ASSOCIATE'' then PEP_ASSOCIATE else NOT_PEP)"

definition kycOf :: "customer \<Rightarrow> kycStatus" where
  "kycOf c = (let s = colText ''kycStatus'' c in if s = ''VERIFIED'' then KYC_VERIFIED else if s = ''REJECTED'' then KYC_REJECTED else KYC_PENDING)"

definition riskFactorsOf :: "customer \<Rightarrow> customerRiskFactors" where
  "riskFactorsOf c = \<lparr>rf_watchlistFlag = colTrue ''watchlistFlag'' c, rf_pepStatus = pepOf c, rf_kycStatus = kycOf c,
     rf_possibleDuplicate = colTrue ''possibleDuplicate'' c,
     rf_cddLevel = (if colText ''cddLevel'' c = ''ENHANCED'' then ENHANCED else STANDARD)\<rparr>"

fun showRating :: "riskRating \<Rightarrow> string" where
  "showRating LOW = ''LOW''"
| "showRating MEDIUM = ''MEDIUM''"
| "showRating HIGH = ''HIGH''"

text \<open>The breakdown goes into its column as an object of points by factor.\<close>

definition recomputeRiskScore :: "env \<Rightarrow> string \<Rightarrow> 'a savings_db_scheme \<Rightarrow> (customer \<times> factor list) resp \<times> 'a savings_db_scheme" where
  "recomputeRiskScore env i db = answer 200 db (
     bindE (customerOf env i db) (\<lambda>c.
     let (score, rating, breakdown) = calculateCustomerRiskScore (riskFactorsOf c);
         new = [(''kycRiskScore'', JNum (of_int score)), (''kycRiskScoreBreakdown'', JObj (map (\<lambda>(f, p). (f, JNum (of_int p))) breakdown)),
           (''riskRating'', JStr (showRating rating))]
     in Inr ((writeColumns new c, breakdown), audit env ''customer.risk_score_recomputed'' ''customer'' (customer.cu_id c)
          (updCustomer (customer.cu_id c) (writeColumns new) db))))"

section \<open>Consents\<close>

record consentBody =
  xn_customerId :: string
  xn_consentType :: consentType
  xn_otherTypeLabel :: "string option"
  xn_granted :: bool
  xn_expiresAt :: "string option"
  xn_documentId :: "string option"
  xn_notes :: "string option"

definition captureConsent :: "env \<Rightarrow> consentBody option \<Rightarrow> 'a customer_db_scheme \<Rightarrow> customerConsent resp \<times> 'a customer_db_scheme" where
  "captureConsent env body db = answer 201 db (
     bindE (parseBody (\<lambda>_. True) body) (\<lambda>b.
     bindE (require (xn_consentType b = OTHER_CONSENT \<longrightarrow> truthy (xn_otherTypeLabel b)) 400 ''otherTypeLabel is required when consentType is OTHER'') (\<lambda>_.
     bindE (customerOf env (xn_customerId b) db) (\<lambda>_.
     bindE (givenDate env (xn_expiresAt b)) (\<lambda>expires.
     let k = \<lparr>co_id = newId env db, co_institutionId = e_institutionId env, co_customerId = xn_customerId b, co_consentType = xn_consentType b,
           co_otherTypeLabel = xn_otherTypeLabel b, co_granted = xn_granted b, co_expiresAt = expires, co_withdrawnAt = None,
           co_withdrawnById = None, co_documentId = xn_documentId b, co_capturedById = e_userId env, co_notes = xn_notes b\<rparr>
     in Inr (k, audit env ''customer_consent.captured'' ''customer_consent'' (co_id k)
          (db\<lparr>db_next := Suc (db_next db), db_consents := db_consents db @ [k]\<rparr>)))))))"

definition withdrawConsent :: "env \<Rightarrow> string \<Rightarrow> 'a customer_db_scheme \<Rightarrow> customerConsent resp \<times> 'a customer_db_scheme" where
  "withdrawConsent env i db = answer 200 db (
     bindE (orThrow (Http 404 ''Consent record not found'')
       (find (\<lambda>k. co_id k = i \<and> co_institutionId k = e_institutionId env) (db_consents db))) (\<lambda>k.
     bindE (require (co_withdrawnAt k = None) 400 ''This consent has already been withdrawn'') (\<lambda>_.
     let f = (\<lambda>k. k\<lparr>co_withdrawnAt := Some (e_now env), co_withdrawnById := Some (e_userId env)\<rparr>)
     in Inr (f k, audit env ''customer_consent.withdrawn'' ''customer_consent'' (co_id k)
          (db\<lparr>db_consents := updWhere (\<lambda>x. co_id x = co_id k) f (db_consents db)\<rparr>)))))"

section \<open>The watchlist\<close>

definition addToWatchlist :: "env \<Rightarrow> (string \<times> string option \<times> string option) option \<Rightarrow> 'a customer_db_scheme \<Rightarrow> watchlistEntry resp \<times> 'a customer_db_scheme" where
  "addToWatchlist env body db = answer 201 db (
     bindE (parseBody (\<lambda>(n, _, _). 2 \<le> length n) body) (\<lambda>(n, idn, reason).
     let w = \<lparr>wl_id = newId env db, wl_institutionId = e_institutionId env, wl_fullName = n, wl_idNumber = idn, wl_reason = reason,
           wl_addedById = Some (e_userId env), wl_deletedAt = None\<rparr>
     in Inr (w, audit env ''watchlist.add'' ''watchlist_entry'' (wl_id w)
          (db\<lparr>db_next := Suc (db_next db), db_watchlist := db_watchlist db @ [w]\<rparr>))))"

definition removeFromWatchlist :: "env \<Rightarrow> string \<Rightarrow> 'a customer_db_scheme \<Rightarrow> unit resp \<times> 'a customer_db_scheme" where
  "removeFromWatchlist env i db = (ROk 204 (), audit env ''watchlist.remove'' ''watchlist_entry'' i
     (db\<lparr>db_watchlist := updWhere (\<lambda>w. wl_id w = i \<and> wl_institutionId w = e_institutionId env)
        (\<lambda>w. w\<lparr>wl_deletedAt := Some (e_now env)\<rparr>) (db_watchlist db)\<rparr>))"

end
