(* ===== verification/Payroll.thy ===== *)
theory Payroll
  imports Customers Payroll_Assets
begin

text \<open>
  The payroll module (\<open>routes/payroll.routes.ts\<close>): calendars and periods, grades and codes, tax tables
  and statutory rates, the salary structures of employees, the processing of a period into a run of
  entries, its approval, payment and reversal, and what employees and reports read. The calculation of
  one employee's pay is \<open>payOf\<close>; the entries and the totals of the run are kept in pesewas.
\<close>

section \<open>Tables\<close>

datatype payFrequency = PF_MONTHLY | PF_BI_WEEKLY | PF_WEEKLY

record payrollCalendar =
  pc_id :: string
  pc_institutionId :: string
  pc_name :: string
  pc_frequency :: payFrequency
  pc_payDayOfMonth :: "int option"

datatype payrollPeriodStatus = PY_OPEN | PY_PROCESSING | PY_PENDING_APPROVAL | PY_APPROVED | PY_PAID | PY_CLOSED

record payrollPeriod =
  py_id :: string
  py_institutionId :: string
  py_calendarId :: string
  py_name :: string
  py_startDate :: time
  py_endDate :: time
  py_payDate :: time
  py_status :: payrollPeriodStatus

record salaryGrade =
  sg_id :: string
  sg_institutionId :: string
  sg_name :: string
  sg_minSalary :: int
  sg_maxSalary :: int

record payGroup =
  pg_id :: string
  pg_institutionId :: string
  pg_name :: string
  pg_calendarId :: string

datatype earningCategory = EC_BASIC | EC_ALLOWANCE | EC_BONUS | EC_OVERTIME | EC_OTHER
datatype deductionCategory = DD_STATUTORY | DD_LOAN | DD_INSURANCE | DD_UNION | DD_OTHER

record earningCode =
  ec_id :: string
  ec_institutionId :: string
  ec_code :: string
  ec_name :: string
  ec_category :: earningCategory
  ec_taxable :: bool

record deductionCode =
  dd_id :: string
  dd_institutionId :: string
  dd_code :: string
  dd_name :: string
  dd_category :: deductionCategory

text \<open>A multiplier with two decimals, in hundredths.\<close>

record overtimeRule =
  ot_id :: string
  ot_institutionId :: string
  ot_name :: string
  ot_multiplier :: int

text \<open>A band's upper bound is a decimal of any precision; the other columns have two decimals.\<close>

record taxBandRow =
  tw_sequence :: int
  tw_lowerBound :: int
  tw_upperBound :: "num option"
  tw_rate :: int

record taxTable =
  tt_id :: string
  tt_institutionId :: string
  tt_name :: string
  tt_effectiveDate :: time
  tt_active :: bool
  tt_bands :: "taxBandRow list"

record statutoryRate =
  sx_id :: string
  sx_institutionId :: string
  sx_name :: string
  sx_rate :: int
  sx_ceiling :: "int option"
  sx_minimum :: "int option"
  sx_effectiveDate :: time
  sx_active :: bool

text \<open>An allowance, or a deduction, which can be paused: a flat amount or a percentage of basic pay.\<close>

record payLine =
  aw_codeId :: string
  aw_amount :: int
  aw_isPercentageOfBasic :: bool

record deductionLine = payLine +
  aw_active :: bool

datatype structureStatus = SY_DRAFT | SY_PENDING_APPROVAL | SY_ACTIVE | SY_SUPERSEDED

fun showStructureStatus :: "structureStatus \<Rightarrow> string" where
  "showStructureStatus SY_DRAFT = ''DRAFT''"
| "showStructureStatus SY_PENDING_APPROVAL = ''PENDING_APPROVAL''"
| "showStructureStatus SY_ACTIVE = ''ACTIVE''"
| "showStructureStatus SY_SUPERSEDED = ''SUPERSEDED''"

record salaryStructure =
  sy_id :: string
  sy_institutionId :: string
  sy_employeeId :: string
  sy_payGroupId :: "string option"
  sy_salaryGradeId :: "string option"
  sy_basicSalary :: int
  sy_effectiveDate :: time
  sy_status :: structureStatus
  sy_approvedById :: "string option"
  sy_allowances :: "payLine list"
  sy_deductions :: "deductionLine list"

datatype runStatus = PN_DRAFT | PN_PROCESSING | PN_PROCESSED | PN_PENDING_APPROVAL | PN_APPROVED | PN_PAID | PN_REVERSED

fun showRunStatus :: "runStatus \<Rightarrow> string" where
  "showRunStatus PN_DRAFT = ''DRAFT''"
| "showRunStatus PN_PROCESSING = ''PROCESSING''"
| "showRunStatus PN_PROCESSED = ''PROCESSED''"
| "showRunStatus PN_PENDING_APPROVAL = ''PENDING_APPROVAL''"
| "showRunStatus PN_APPROVED = ''APPROVED''"
| "showRunStatus PN_PAID = ''PAID''"
| "showRunStatus PN_REVERSED = ''REVERSED''"

record payrollRun =
  pn_id :: string
  pn_institutionId :: string
  pn_payrollPeriodId :: string
  pn_status :: runStatus
  pn_totalGross :: int
  pn_totalDeductions :: int
  pn_totalNet :: int
  pn_processedById :: "string option"
  pn_processedAt :: "time option"
  pn_approvedById :: "string option"
  pn_approvedAt :: "time option"
  pn_paidById :: "string option"
  pn_paidAt :: "time option"
  pn_reversedById :: "string option"
  pn_reversedAt :: "time option"
  pn_reversalReason :: "string option"
  pn_accrualJournalId :: "string option"
  pn_settlementJournalId :: "string option"

record payrollEntry =
  pz_id :: string
  pz_payrollRunId :: string
  pz_employeeId :: string
  pz_basicSalary :: int
  pz_grossPay :: int
  pz_taxableIncome :: int
  pz_paye :: int
  pz_ssnitEmployee :: int
  pz_ssnitEmployerTier1 :: int
  pz_tier2Employer :: int
  pz_otherDeductions :: int
  pz_netPay :: int
  pz_createdAt :: time

record department =
  dm_id :: string
  dm_institutionId :: string
  dm_name :: string
  dm_code :: "string option"
  dm_deletedAt :: "time option"

record position =
  po_id :: string
  po_institutionId :: string
  po_title :: string
  po_departmentId :: "string option"
  po_deletedAt :: "time option"

record payroll_db = customer_db +
  db_departments :: "department list"
  db_positions :: "position list"
  db_payCalendars :: "payrollCalendar list"
  db_payPeriods :: "payrollPeriod list"
  db_grades :: "salaryGrade list"
  db_payGroups :: "payGroup list"
  db_earningCodes :: "earningCode list"
  db_deductionCodes :: "deductionCode list"
  db_overtimeRules :: "overtimeRule list"
  db_taxTables :: "taxTable list"
  db_statutoryRates :: "statutoryRate list"
  db_structures :: "salaryStructure list"
  db_payRuns :: "payrollRun list"
  db_payEntries :: "payrollEntry list"
  db_payrollMappings :: "glMapping list"

section \<open>Departments and positions\<close>

definition createDepartment :: "env \<Rightarrow> (string \<times> string option) option \<Rightarrow> 'a payroll_db_scheme \<Rightarrow> department resp \<times> 'a payroll_db_scheme" where
  "createDepartment env body db = answer 201 db (
     bindE (parseBody (\<lambda>(name, _). name \<noteq> []) body) (\<lambda>(name, cd).
     let d = \<lparr>dm_id = newId env db, dm_institutionId = e_institutionId env, dm_name = name, dm_code = cd, dm_deletedAt = None\<rparr>
     in Inr (d, db\<lparr>db_next := Suc (db_next db), db_departments := db_departments db @ [d]\<rparr>)))"

definition deleteDepartment :: "env \<Rightarrow> string \<Rightarrow> 'a payroll_db_scheme \<Rightarrow> unit resp \<times> 'a payroll_db_scheme" where
  "deleteDepartment env i db = (let inUse = countWhere (\<lambda>e. em_departmentId e = Some i) (db_employees db) in answer 204 db (
     bindE (require (inUse = 0) 400 (''Cannot delete - '' @ showNat inUse @ '' employee(s) still assigned to this department'')) (\<lambda>_.
     Inr ((), db\<lparr>db_departments := updWhere (\<lambda>d. dm_id d = i \<and> dm_institutionId d = e_institutionId env)
       (\<lambda>d. d\<lparr>dm_deletedAt := Some (e_now env)\<rparr>) (db_departments db)\<rparr>))))"

text \<open>The department of a position is a foreign key.\<close>

definition createPosition :: "env \<Rightarrow> (string \<times> string option) option \<Rightarrow> 'a payroll_db_scheme \<Rightarrow> position resp \<times> 'a payroll_db_scheme" where
  "createPosition env body db = answer 201 db (
     bindE (parseBody (\<lambda>(title, _). title \<noteq> []) body) (\<lambda>(title, dept).
     let p = \<lparr>po_id = newId env db, po_institutionId = e_institutionId env, po_title = title, po_departmentId = dept, po_deletedAt = None\<rparr>
     in if dept \<noteq> None \<and> find (\<lambda>d. Some (dm_id d) = dept) (db_departments db) = None then Inl Thrown
        else Inr (p, db\<lparr>db_next := Suc (db_next db), db_positions := db_positions db @ [p]\<rparr>)))"

definition deletePosition :: "env \<Rightarrow> string \<Rightarrow> 'a payroll_db_scheme \<Rightarrow> unit resp \<times> 'a payroll_db_scheme" where
  "deletePosition env i db = (let inUse = countWhere (\<lambda>e. em_positionId e = Some i) (db_employees db) in answer 204 db (
     bindE (require (inUse = 0) 400 (''Cannot delete - '' @ showNat inUse @ '' employee(s) still assigned to this position'')) (\<lambda>_.
     Inr ((), db\<lparr>db_positions := updWhere (\<lambda>p. po_id p = i \<and> po_institutionId p = e_institutionId env)
       (\<lambda>p. p\<lparr>po_deletedAt := Some (e_now env)\<rparr>) (db_positions db)\<rparr>))))"

section \<open>Configuration\<close>

definition createCalendar :: "env \<Rightarrow> (string \<times> payFrequency \<times> int option) option \<Rightarrow> 'a payroll_db_scheme \<Rightarrow> payrollCalendar resp \<times> 'a payroll_db_scheme" where
  "createCalendar env body db = answer 201 db (
     bindE (parseBody (\<lambda>(name, _, day). name \<noteq> [] \<and> (case day of None \<Rightarrow> True | Some d \<Rightarrow> 1 \<le> d \<and> d \<le> 31)) body) (\<lambda>(name, freq, day).
     let c = \<lparr>pc_id = newId env db, pc_institutionId = e_institutionId env, pc_name = name, pc_frequency = freq, pc_payDayOfMonth = day\<rparr>
     in Inr (c, audit env ''payroll_calendar.create'' ''payroll_calendar'' (pc_id c)
          (db\<lparr>db_next := Suc (db_next db), db_payCalendars := db_payCalendars db @ [c]\<rparr>))))"

record payPeriodBody =
  ab_calendarId :: string
  ab_name :: string
  ab_startDate :: string
  ab_endDate :: string
  ab_payDate :: string

text \<open>The other periods of the same calendar; the calendar is a foreign key.\<close>

definition overlappingPayPeriod :: "env \<Rightarrow> string \<Rightarrow> time \<Rightarrow> time \<Rightarrow> payrollPeriod list \<Rightarrow> payrollPeriod option" where
  "overlappingPayPeriod env cal start finish = find (\<lambda>p. py_institutionId p = e_institutionId env \<and> py_calendarId p = cal
     \<and> py_startDate p \<le> finish \<and> start \<le> py_endDate p)"

definition createPayPeriod :: "env \<Rightarrow> payPeriodBody option \<Rightarrow> 'a payroll_db_scheme \<Rightarrow> payrollPeriod resp \<times> 'a payroll_db_scheme" where
  "createPayPeriod env body db = answer 201 db (
     bindE (parseBody (\<lambda>b. ab_name b \<noteq> []) body) (\<lambda>b.
     bindE (orThrow Thrown (e_parseDate env (ab_startDate b))) (\<lambda>start.
     bindE (orThrow Thrown (e_parseDate env (ab_endDate b))) (\<lambda>finish.
     case overlappingPayPeriod env (ab_calendarId b) start finish (db_payPeriods db) of
       Some o' \<Rightarrow> Inl (Http 400 (''This date range overlaps an existing payroll period ('' @ py_name o' @ '')''))
     | None \<Rightarrow>
         bindE (orThrow Thrown (e_parseDate env (ab_payDate b))) (\<lambda>pay.
         bindE (orThrow Thrown (find (\<lambda>c. pc_id c = ab_calendarId b) (db_payCalendars db))) (\<lambda>_.
         let p = \<lparr>py_id = newId env db, py_institutionId = e_institutionId env, py_calendarId = ab_calendarId b, py_name = ab_name b,
               py_startDate = start, py_endDate = finish, py_payDate = pay, py_status = PY_OPEN\<rparr>
         in Inr (p, audit env ''payroll_period.create'' ''payroll_period'' (py_id p)
              (db\<lparr>db_next := Suc (db_next db), db_payPeriods := db_payPeriods db @ [p]\<rparr>))))))))"

text \<open>The name of a grade, and of a pay group, is unique at the institution: the database refuses the second.\<close>

definition createGrade :: "env \<Rightarrow> (string \<times> num \<times> num) option \<Rightarrow> 'a payroll_db_scheme \<Rightarrow> salaryGrade resp \<times> 'a payroll_db_scheme" where
  "createGrade env body db = answer 201 db (
     bindE (parseBody (\<lambda>(name, lo, hi). name \<noteq> [] \<and> 0 < lo \<and> 0 < hi) body) (\<lambda>(name, lo, hi).
     bindE (require (lo < hi) 400 ''maxSalary must exceed minSalary'') (\<lambda>_.
     let g = \<lparr>sg_id = newId env db, sg_institutionId = e_institutionId env, sg_name = name, sg_minSalary = toDec2 lo, sg_maxSalary = toDec2 hi\<rparr>
     in if list_ex (\<lambda>x. sg_institutionId x = e_institutionId env \<and> sg_name x = name) (db_grades db) then Inl Thrown
        else Inr (g, db\<lparr>db_next := Suc (db_next db), db_grades := db_grades db @ [g]\<rparr>))))"

definition createPayGroup :: "env \<Rightarrow> string option \<Rightarrow> string option \<Rightarrow> 'a payroll_db_scheme \<Rightarrow> payGroup resp \<times> 'a payroll_db_scheme" where
  "createPayGroup env name cal db = answer 201 db (
     bindE (require (truthy name \<and> truthy cal) 400 ''name and calendarId are required'') (\<lambda>_.
     let g = \<lparr>pg_id = newId env db, pg_institutionId = e_institutionId env, pg_name = the name, pg_calendarId = the cal\<rparr>
     in if list_ex (\<lambda>x. pg_institutionId x = e_institutionId env \<and> pg_name x = the name) (db_payGroups db) then Inl Thrown
        else Inr (g, db\<lparr>db_next := Suc (db_next db), db_payGroups := db_payGroups db @ [g]\<rparr>)))"

definition createEarningCode :: "env \<Rightarrow> (string \<times> string \<times> earningCategory \<times> bool) option \<Rightarrow> 'a payroll_db_scheme \<Rightarrow> earningCode resp \<times> 'a payroll_db_scheme" where
  "createEarningCode env body db = answer 201 db (
     bindE (parseBody (\<lambda>(cd, name, _). cd \<noteq> [] \<and> name \<noteq> []) body) (\<lambda>(cd, name, cat, tax).
     bindE (require (find (\<lambda>c. ec_institutionId c = e_institutionId env \<and> ec_code c = cd) (db_earningCodes db) = None) 400
       (''Earning code '' @ cd @ '' is already in use'')) (\<lambda>_.
     let c = \<lparr>ec_id = newId env db, ec_institutionId = e_institutionId env, ec_code = cd, ec_name = name, ec_category = cat, ec_taxable = tax\<rparr>
     in Inr (c, db\<lparr>db_next := Suc (db_next db), db_earningCodes := db_earningCodes db @ [c]\<rparr>))))"

definition createDeductionCode :: "env \<Rightarrow> (string \<times> string \<times> deductionCategory) option \<Rightarrow> 'a payroll_db_scheme \<Rightarrow> deductionCode resp \<times> 'a payroll_db_scheme" where
  "createDeductionCode env body db = answer 201 db (
     bindE (parseBody (\<lambda>(cd, name, _). cd \<noteq> [] \<and> name \<noteq> []) body) (\<lambda>(cd, name, cat).
     bindE (require (find (\<lambda>c. dd_institutionId c = e_institutionId env \<and> dd_code c = cd) (db_deductionCodes db) = None) 400
       (''Deduction code '' @ cd @ '' is already in use'')) (\<lambda>_.
     let c = \<lparr>dd_id = newId env db, dd_institutionId = e_institutionId env, dd_code = cd, dd_name = name, dd_category = cat\<rparr>
     in Inr (c, db\<lparr>db_next := Suc (db_next db), db_deductionCodes := db_deductionCodes db @ [c]\<rparr>))))"

definition createOvertimeRule :: "env \<Rightarrow> string option \<Rightarrow> num option \<Rightarrow> 'a payroll_db_scheme \<Rightarrow> overtimeRule resp \<times> 'a payroll_db_scheme" where
  "createOvertimeRule env name factor db = answer 201 db (
     bindE (require (truthy name \<and> (case factor of None \<Rightarrow> False | Some m \<Rightarrow> 0 < m)) 400 ''name and a positive multiplier are required'') (\<lambda>_.
     let r = \<lparr>ot_id = newId env db, ot_institutionId = e_institutionId env, ot_name = the name, ot_multiplier = toDec2 (the factor)\<rparr>
     in Inr (r, db\<lparr>db_next := Suc (db_next db), db_overtimeRules := db_overtimeRules db @ [r]\<rparr>)))"

record bandBody =
  bb_sequence :: int
  bb_lowerBound :: num
  bb_upperBound :: "num option"
  bb_rate :: num

definition bandSchema :: "bandBody \<Rightarrow> bool" where
  "bandSchema b \<longleftrightarrow> 0 \<le> bb_lowerBound b \<and> (case bb_upperBound b of None \<Rightarrow> True | Some u \<Rightarrow> 0 < u) \<and> 0 \<le> bb_rate b \<and> bb_rate b \<le> 100"

definition createTaxTable :: "env \<Rightarrow> (string \<times> string \<times> bandBody list) option \<Rightarrow> 'a payroll_db_scheme \<Rightarrow> taxTable resp \<times> 'a payroll_db_scheme" where
  "createTaxTable env body db = answer 201 db (
     bindE (parseBody (\<lambda>(name, _, bands). name \<noteq> [] \<and> bands \<noteq> [] \<and> list_all bandSchema bands) body) (\<lambda>(name, effective, bands).
     bindE (orThrow Thrown (e_parseDate env effective)) (\<lambda>d.
     let t = \<lparr>tt_id = newId env db, tt_institutionId = e_institutionId env, tt_name = name, tt_effectiveDate = d, tt_active = False,
           tt_bands = map (\<lambda>b. \<lparr>tw_sequence = bb_sequence b, tw_lowerBound = toDec2 (bb_lowerBound b), tw_upperBound = bb_upperBound b,
             tw_rate = toDec2 (bb_rate b)\<rparr>) bands\<rparr>
     in Inr (t, audit env ''tax_table.create'' ''tax_table'' (tt_id t)
          (db\<lparr>db_next := Suc (db_next db), db_taxTables := db_taxTables db @ [t]\<rparr>)))))"

record rateBody =
  ax_name :: string
  ax_rate :: num
  ax_ceiling :: "num option"
  ax_minimum :: "num option"
  ax_effectiveDate :: string

definition createStatutoryRate :: "env \<Rightarrow> rateBody option \<Rightarrow> 'a payroll_db_scheme \<Rightarrow> statutoryRate resp \<times> 'a payroll_db_scheme" where
  "createStatutoryRate env body db = answer 201 db (
     bindE (parseBody (\<lambda>b. ax_name b \<noteq> [] \<and> 0 \<le> ax_rate b \<and> ax_rate b \<le> 100
       \<and> (case ax_ceiling b of None \<Rightarrow> True | Some c \<Rightarrow> 0 < c) \<and> (case ax_minimum b of None \<Rightarrow> True | Some m \<Rightarrow> 0 \<le> m)) body) (\<lambda>b.
     bindE (orThrow Thrown (e_parseDate env (ax_effectiveDate b))) (\<lambda>d.
     let r = \<lparr>sx_id = newId env db, sx_institutionId = e_institutionId env, sx_name = ax_name b, sx_rate = toDec2 (ax_rate b),
           sx_ceiling = map_option toDec2 (ax_ceiling b), sx_minimum = map_option toDec2 (ax_minimum b), sx_effectiveDate = d, sx_active = False\<rparr>
     in Inr (r, audit env ''statutory_rate.create'' ''statutory_contribution_rate'' (sx_id r)
          (db\<lparr>db_next := Suc (db_next db), db_statutoryRates := db_statutoryRates db @ [r]\<rparr>)))))"

text \<open>Activation switches off whatever was active before, then switches the one on.\<close>

definition activateTaxTable :: "env \<Rightarrow> string \<Rightarrow> 'a payroll_db_scheme \<Rightarrow> taxTable resp \<times> 'a payroll_db_scheme" where
  "activateTaxTable env i db = answer 200 db (
     bindE (orThrow (Http 404 ''Tax table not found'')
       (find (\<lambda>t. tt_id t = i \<and> tt_institutionId t = e_institutionId env) (db_taxTables db))) (\<lambda>t.
     Inr (t\<lparr>tt_active := True\<rparr>, audit env ''tax_table.activate'' ''tax_table'' (tt_id t)
       (db\<lparr>db_taxTables := updWhere (\<lambda>x. tt_id x = tt_id t) (\<lambda>x. x\<lparr>tt_active := True\<rparr>)
          (updWhere (\<lambda>x. tt_institutionId x = e_institutionId env \<and> tt_active x) (\<lambda>x. x\<lparr>tt_active := False\<rparr>) (db_taxTables db))\<rparr>))))"

definition activateStatutoryRate :: "env \<Rightarrow> string \<Rightarrow> 'a payroll_db_scheme \<Rightarrow> statutoryRate resp \<times> 'a payroll_db_scheme" where
  "activateStatutoryRate env i db = answer 200 db (
     bindE (orThrow (Http 404 ''Statutory rate not found'')
       (find (\<lambda>r. sx_id r = i \<and> sx_institutionId r = e_institutionId env) (db_statutoryRates db))) (\<lambda>r.
     Inr (r\<lparr>sx_active := True\<rparr>, audit env ''statutory_rate.activate'' ''statutory_contribution_rate'' (sx_id r)
       (db\<lparr>db_statutoryRates := updWhere (\<lambda>x. sx_id x = sx_id r) (\<lambda>x. x\<lparr>sx_active := True\<rparr>)
          (updWhere (\<lambda>x. sx_institutionId x = e_institutionId env \<and> sx_name x = sx_name r \<and> sx_active x)
             (\<lambda>x. x\<lparr>sx_active := False\<rparr>) (db_statutoryRates db))\<rparr>))))"

definition setPayrollMapping :: "env \<Rightarrow> string option \<Rightarrow> string option \<Rightarrow> 'a payroll_db_scheme \<Rightarrow> glMapping resp \<times> 'a payroll_db_scheme" where
  "setPayrollMapping env purpose acct db =
     (case mappingGuard env purpose acct db of
        Inl e \<Rightarrow> answerError e db
      | Inr (p, a) \<Rightarrow>
          (case upsertMapping env (newId env db) p a (db_payrollMappings db) of
             (m, ms) \<Rightarrow> (ROk 201 m, audit env ''payroll_gl_mapping.set'' ''payroll_gl_account_mapping'' (gm_id m)
               (db\<lparr>db_next := Suc (db_next db), db_payrollMappings := ms\<rparr>))))"

section \<open>Salary structures\<close>

record lineBody =
  ay_codeId :: string
  ay_amount :: num
  ay_isPercentageOfBasic :: "bool option"

record structureBody =
  az_employeeId :: string
  az_payGroupId :: "string option"
  az_salaryGradeId :: "string option"
  az_basicSalary :: num
  az_effectiveDate :: string
  az_allowances :: "lineBody list option"
  az_deductions :: "lineBody list option"

definition structureSchema :: "structureBody \<Rightarrow> bool" where
  "structureSchema b \<longleftrightarrow> 0 < az_basicSalary b \<and> list_all (\<lambda>a. 0 < ay_amount a) (GL_Routes.orKeep (az_allowances b) [])
     \<and> list_all (\<lambda>a. 0 < ay_amount a) (GL_Routes.orKeep (az_deductions b) [])"

definition plannedAmount :: "num \<Rightarrow> lineBody \<Rightarrow> num" where
  "plannedAmount basic a = (if ay_isPercentageOfBasic a = Some True then nmul basic (ndiv (ay_amount a) 100) else ay_amount a)"

definition plannedTotal :: "num \<Rightarrow> lineBody list option \<Rightarrow> num" where
  "plannedTotal basic ls = nsum (map (plannedAmount basic) (GL_Routes.orKeep ls []))"

definition newLine :: "lineBody \<Rightarrow> payLine" where
  "newLine a = \<lparr>aw_codeId = ay_codeId a, aw_amount = toDec2 (ay_amount a),
     aw_isPercentageOfBasic = GL_Routes.orKeep (ay_isPercentageOfBasic a) False\<rparr>"

text \<open>A grade that is not found is not checked.\<close>

definition gradeCheck :: "conversions \<Rightarrow> env \<Rightarrow> structureBody \<Rightarrow> salaryGrade list \<Rightarrow> terr + unit" where
  "gradeCheck cv env b grades =
     (if \<not> truthy (az_salaryGradeId b) then Inr ()
      else (case find (\<lambda>g. Some (sg_id g) = az_salaryGradeId b \<and> sg_institutionId g = e_institutionId env) grades of
          None \<Rightarrow> Inr ()
        | Some g \<Rightarrow> require (cents (sg_minSalary g) \<le> az_basicSalary b \<and> az_basicSalary b \<le> cents (sg_maxSalary g)) 400
            (''Basic salary must fall within grade '' @ sg_name g @ CHR 0x27 # ''s range (GHS '' @ cv_show cv (cents (sg_minSalary g))
             @ '' - '' @ cv_show cv (cents (sg_maxSalary g)) @ '')'')))"

definition createStructure :: "conversions \<Rightarrow> env \<Rightarrow> structureBody option \<Rightarrow> 'a payroll_db_scheme \<Rightarrow> salaryStructure resp \<times> 'a payroll_db_scheme" where
  "createStructure cv env body db = answer 201 db (
     bindE (parseBody structureSchema body) (\<lambda>b.
     bindE (gradeCheck cv env b (db_grades db)) (\<lambda>_.
     bindE (require (plannedTotal (az_basicSalary b) (az_deductions b)
         \<le> nadd (az_basicSalary b) (plannedTotal (az_basicSalary b) (az_allowances b))) 400
       ''Total deductions cannot exceed gross pay'') (\<lambda>_.
     bindE (orThrow Thrown (e_parseDate env (az_effectiveDate b))) (\<lambda>d.
     let s = \<lparr>sy_id = newId env db, sy_institutionId = e_institutionId env, sy_employeeId = az_employeeId b, sy_payGroupId = az_payGroupId b,
           sy_salaryGradeId = az_salaryGradeId b, sy_basicSalary = toDec2 (az_basicSalary b), sy_effectiveDate = d, sy_status = SY_DRAFT,
           sy_approvedById = None, sy_allowances = map newLine (GL_Routes.orKeep (az_allowances b) []),
           sy_deductions = map (\<lambda>a. payLine.extend (newLine a) \<lparr>aw_active = True\<rparr>) (GL_Routes.orKeep (az_deductions b) [])\<rparr>
     in Inr (s, audit env ''salary_structure.create'' ''employee_salary_structure'' (sy_id s)
          (db\<lparr>db_next := Suc (db_next db), db_structures := db_structures db @ [s]\<rparr>)))))))"

definition updStructure :: "string \<Rightarrow> (salaryStructure \<Rightarrow> salaryStructure) \<Rightarrow> 'a payroll_db_scheme \<Rightarrow> 'a payroll_db_scheme" where
  "updStructure i f db = db\<lparr>db_structures := updWhere (\<lambda>s. sy_id s = i) f (db_structures db)\<rparr>"

text \<open>\<open>toISOString().slice(0, 10)\<close>, for the years 0 to 9999.\<close>

definition isoDay :: "time \<Rightarrow> string" where
  "isoDay t = (let d = dayOf t in padStart 4 (showNat (nat (yearOf d))) @ ''-'' @ padStart 2 (showNat (nat (monthOf d + 1)))
     @ ''-'' @ padStart 2 (showNat (nat (dateOf d))))"

definition requestStructureApproval :: "env \<Rightarrow> string \<Rightarrow> 'a payroll_db_scheme \<Rightarrow> unit resp \<times> 'a payroll_db_scheme" where
  "requestStructureApproval env i db = answer 202 db (
     bindE (orThrow (Http 404 ''Salary structure not found'')
       (find (\<lambda>s. sy_id s = i \<and> sy_institutionId s = e_institutionId env) (db_structures db))) (\<lambda>s.
     bindE (require (sy_status s = SY_DRAFT) 400
       (''Only a DRAFT structure can request approval (currently '' @ showStructureStatus (sy_status s) @ '')'')) (\<lambda>_.
     Inr ((), updStructure (sy_id s) (\<lambda>x. x\<lparr>sy_status := SY_PENDING_APPROVAL\<rparr>)
       (requestApproval env SALARY_STRUCTURE_CHANGE ''EmployeeSalaryStructure'' (sy_id s) []
         (''Salary structure change for employee, effective '' @ isoDay (sy_effectiveDate s)) db)))))"

section \<open>Processing a period\<close>

text \<open>The calculation of one structure, every amount a number; \<open>otherDeductions\<close> is rounded when it is stored.\<close>

record payCalc =
  kc_employeeId :: string
  kc_basicSalary :: num
  kc_grossPay :: num
  kc_taxableIncome :: num
  kc_paye :: num
  kc_ssnitEmployee :: num
  kc_ssnitEmployerTier1 :: num
  kc_tier2Employer :: num
  kc_otherDeductions :: num
  kc_netPay :: num

definition lineAmount :: "num \<Rightarrow> 'a payLine_scheme \<Rightarrow> num" where
  "lineAmount basic l = (if aw_isPercentageOfBasic l then round2 (nmul basic (ndiv (cents (aw_amount l)) 100)) else cents (aw_amount l))"

definition taxableLine :: "earningCode list \<Rightarrow> payLine \<Rightarrow> bool" where
  "taxableLine codes l \<longleftrightarrow> (case find (\<lambda>c. ec_id c = aw_codeId l) codes of None \<Rightarrow> False | Some c \<Rightarrow> ec_taxable c)"

definition bandsOf :: "taxTable \<Rightarrow> taxBand list" where
  "bandsOf t = map (\<lambda>b. \<lparr>tx_lowerBound = cents (tw_lowerBound b), tx_upperBound = tw_upperBound b, tx_rate = cents (tw_rate b)\<rparr>)
     (sort_key tw_sequence (tt_bands t))"

definition contributionOf :: "num \<Rightarrow> statutoryRate \<Rightarrow> num" where
  "contributionOf basic r = calculateStatutoryContribution basic (cents (sx_rate r)) (map_option cents (sx_ceiling r)) (map_option cents (sx_minimum r))"

definition payOf :: "earningCode list \<Rightarrow> taxBand list \<Rightarrow> statutoryRate \<Rightarrow> statutoryRate \<Rightarrow> statutoryRate \<Rightarrow> salaryStructure \<Rightarrow> payCalc" where
  "payOf codes bands ssnitEmployeeRate ssnitEmployerRate tier2Rate s =
     (let basic = cents (sy_basicSalary s);
          totalAllowances = nsum (map (lineAmount basic) (sy_allowances s));
          taxableAllowances = nsum (map (lineAmount basic) (filter (taxableLine codes) (sy_allowances s)));
          other = nsum (map (lineAmount basic) (filter aw_active (sy_deductions s)));
          gross = round2 (nadd basic totalAllowances);
          taxable = round2 (nadd basic taxableAllowances);
          paye = calculatePAYE taxable bands;
          ssnit = contributionOf basic ssnitEmployeeRate
      in \<lparr>kc_employeeId = sy_employeeId s, kc_basicSalary = basic, kc_grossPay = gross, kc_taxableIncome = taxable, kc_paye = paye,
          kc_ssnitEmployee = ssnit, kc_ssnitEmployerTier1 = contributionOf basic ssnitEmployerRate,
          kc_tier2Employer = contributionOf basic tier2Rate, kc_otherDeductions = other,
          kc_netPay = round2 (max 0 (nsub (nsub (nsub gross paye) ssnit) other))\<rparr>)"

definition entryRow :: "env \<Rightarrow> string \<Rightarrow> string \<Rightarrow> payCalc \<Rightarrow> payrollEntry" where
  "entryRow env i run c = \<lparr>pz_id = i, pz_payrollRunId = run, pz_employeeId = kc_employeeId c, pz_basicSalary = toDec2 (kc_basicSalary c),
     pz_grossPay = toDec2 (kc_grossPay c), pz_taxableIncome = toDec2 (kc_taxableIncome c), pz_paye = toDec2 (kc_paye c),
     pz_ssnitEmployee = toDec2 (kc_ssnitEmployee c), pz_ssnitEmployerTier1 = toDec2 (kc_ssnitEmployerTier1 c),
     pz_tier2Employer = toDec2 (kc_tier2Employer c), pz_otherDeductions = toDec2 (round2 (kc_otherDeductions c)),
     pz_netPay = toDec2 (kc_netPay c), pz_createdAt = e_now env\<rparr>"

definition activeRate :: "env \<Rightarrow> string \<Rightarrow> statutoryRate list \<Rightarrow> statutoryRate option" where
  "activeRate env name = find (\<lambda>r. sx_institutionId r = e_institutionId env \<and> sx_active r \<and> sx_name r = name)"

definition quoted :: "string \<Rightarrow> string" where
  "quoted s = CHR 0x27 # s @ [CHR 0x27]"

text \<open>The three rates, or the answer that they are all required.\<close>

definition requiredRates :: "env \<Rightarrow> statutoryRate list \<Rightarrow> terr + statutoryRate \<times> statutoryRate \<times> statutoryRate" where
  "requiredRates env rs =
     (case (activeRate env ''SSNIT Employee'' rs, activeRate env ''SSNIT Employer Tier 1'' rs, activeRate env ''Tier 2 Employer'' rs) of
        (Some a, Some b, Some c) \<Rightarrow> Inr (a, b, c)
      | _ \<Rightarrow> Inl (Http 400 (''Active '' @ quoted ''SSNIT Employee'' @ '', '' @ quoted ''SSNIT Employer Tier 1''
               @ '', and '' @ quoted ''Tier 2 Employer'' @ '' rates are all required before processing payroll'')))"

definition runTotals :: "payCalc list \<Rightarrow> num \<times> num \<times> num" where
  "runTotals cs = (nsum (map kc_grossPay cs), nsum (map (\<lambda>c. nadd (nadd (kc_paye c) (kc_ssnitEmployee c)) (kc_otherDeductions c)) cs),
     nsum (map kc_netPay cs))"

definition activeStructures :: "env \<Rightarrow> salaryStructure list \<Rightarrow> salaryStructure list" where
  "activeStructures env = filter (\<lambda>s. sy_institutionId s = e_institutionId env \<and> sy_status s = SY_ACTIVE)"

definition createRun :: "env \<Rightarrow> string \<Rightarrow> payCalc list \<Rightarrow> 'a payroll_db_scheme \<Rightarrow> payrollRun \<times> 'a payroll_db_scheme" where
  "createRun env period cs db =
     (case runTotals cs of (g, d, n) \<Rightarrow>
      let r = \<lparr>pn_id = newId env db, pn_institutionId = e_institutionId env, pn_payrollPeriodId = period, pn_status = PN_PROCESSED,
            pn_totalGross = toDec2 (round2 g), pn_totalDeductions = toDec2 (round2 d), pn_totalNet = toDec2 (round2 n),
            pn_processedById = Some (e_userId env), pn_processedAt = Some (e_now env), pn_approvedById = None, pn_approvedAt = None,
            pn_paidById = None, pn_paidAt = None, pn_reversedById = None, pn_reversedAt = None, pn_reversalReason = None,
            pn_accrualJournalId = None, pn_settlementJournalId = None\<rparr>;
          entries = map (\<lambda>(k, c). entryRow env (e_uuid env (Suc (db_next db) + k)) (pn_id r) c) (zip [0..<length cs] cs)
      in (r, db\<lparr>db_next := Suc (db_next db) + length cs, db_payRuns := db_payRuns db @ [r], db_payEntries := db_payEntries db @ entries\<rparr>))"

definition processPeriod :: "env \<Rightarrow> string \<Rightarrow> 'a payroll_db_scheme \<Rightarrow> payrollRun resp \<times> 'a payroll_db_scheme" where
  "processPeriod env i db = answer 201 db (
     bindE (orThrow (Http 404 ''Payroll period not found'')
       (find (\<lambda>p. py_id p = i \<and> py_institutionId p = e_institutionId env) (db_payPeriods db))) (\<lambda>p.
     bindE (require (find (\<lambda>r. pn_payrollPeriodId r = py_id p) (db_payRuns db) = None) 400
       ''This period has already been processed - duplicate processing is not allowed'') (\<lambda>_.
     bindE (orThrow (Http 400 ''No active tax table - activate one before processing payroll'')
       (find (\<lambda>t. tt_institutionId t = e_institutionId env \<and> tt_active t) (db_taxTables db))) (\<lambda>t.
     bindE (requiredRates env (db_statutoryRates db)) (\<lambda>(a, b, c).
     let codes = filter (\<lambda>x. ec_institutionId x = e_institutionId env) (db_earningCodes db);
         calcs = map (payOf codes (bandsOf t) a b c) (activeStructures env (db_structures db));
         (r, db1) = createRun env (py_id p) calcs db
     in Inr (r, audit env ''payroll_run.process'' ''payroll_run'' (pn_id r)
          (db1\<lparr>db_payPeriods := updWhere (\<lambda>x. py_id x = py_id p) (\<lambda>x. x\<lparr>py_status := PY_PROCESSING\<rparr>) (db_payPeriods db1)\<rparr>)))))))"

section \<open>Approval, payment, reversal\<close>

definition ownRun :: "env \<Rightarrow> string \<Rightarrow> 'a payroll_db_scheme \<Rightarrow> terr + payrollRun" where
  "ownRun env i db = orThrow (Http 404 ''Payroll run not found'')
     (find (\<lambda>r. pn_id r = i \<and> pn_institutionId r = e_institutionId env) (db_payRuns db))"

definition updRun :: "string \<Rightarrow> (payrollRun \<Rightarrow> payrollRun) \<Rightarrow> 'a payroll_db_scheme \<Rightarrow> 'a payroll_db_scheme" where
  "updRun i f db = db\<lparr>db_payRuns := updWhere (\<lambda>r. pn_id r = i) f (db_payRuns db)\<rparr>"

definition requestRunApproval :: "conversions \<Rightarrow> env \<Rightarrow> string \<Rightarrow> 'a payroll_db_scheme \<Rightarrow> unit resp \<times> 'a payroll_db_scheme" where
  "requestRunApproval cv env i db = answer 202 db (
     bindE (ownRun env i db) (\<lambda>r.
     bindE (require (pn_status r = PN_PROCESSED) 400
       (''Only a PROCESSED run can request approval (currently '' @ showRunStatus (pn_status r) @ '')'')) (\<lambda>_.
     Inr ((), updRun (pn_id r) (\<lambda>x. x\<lparr>pn_status := PN_PENDING_APPROVAL\<rparr>)
       (requestApproval env PAYROLL_RUN_APPROVAL ''PayrollRun'' (pn_id r) []
         (''Approve payroll run - total net GHS '' @ cv_show cv (cents (pn_totalNet r))) db)))))"

text \<open>The category of each line's account, as the code looks it up before posting.\<close>

definition withCategory :: "'a gl_db_scheme \<Rightarrow> entry list \<Rightarrow> (glCategory \<times> entry) list" where
  "withCategory db ls = map (\<lambda>l. (ga_category (the (accountById (en_accountId l) db)), l)) ls"

definition payPeriodName :: "string \<Rightarrow> 'a payroll_db_scheme \<Rightarrow> string" where
  "payPeriodName i db = (case find (\<lambda>p. py_id p = i) (db_payPeriods db) of
     Some p \<Rightarrow> (if py_name p = [] then ''period'' else py_name p) | None \<Rightarrow> ''period'')"

text \<open>
  The settlement journal is posted only when the accrual journal was, both accounts are mapped and
  the period of today is open; otherwise the run is paid without one. The balance of its lines is not checked.
\<close>

definition settleRun :: "env \<Rightarrow> payrollRun \<Rightarrow> 'a payroll_db_scheme \<Rightarrow> terr + string option \<times> 'a payroll_db_scheme" where
  "settleRun env r db =
     (case (pn_accrualJournalId r, accountIdByPurpose (e_institutionId env) (db_payrollMappings db) ''Salaries Payable'',
            accountIdByPurpose (e_institutionId env) (db_payrollMappings db) ''Cash/Bank Disbursement'',
            findPostablePeriod (e_institutionId env) (e_now env) db) of
        (Some _, Some payable, Some cash, Some p) \<Rightarrow>
          if fp_status p \<noteq> FP_OPEN then Inr (None, db)
          else bindE (postJournal env (e_institutionId env) AUTOMATIC (''Payroll settlement - '' @ payPeriodName (pn_payrollPeriodId r) db)
                 (e_now env) (e_userId env) (e_userId env)
                 (withCategory db (buildPayrollSettlementLines (cents (pn_totalNet r)) payable cash)) db)
               (\<lambda>(j, db1). Inr (Some (jo_id j), db1))
      | _ \<Rightarrow> Inr (None, db))"

definition markPaid :: "env \<Rightarrow> string \<Rightarrow> 'a payroll_db_scheme \<Rightarrow> payrollRun resp \<times> 'a payroll_db_scheme" where
  "markPaid env i db = answer 200 db (
     bindE (ownRun env i db) (\<lambda>r.
     bindE (require (pn_status r = PN_APPROVED) 400 (''Only an APPROVED run can be marked paid (currently '' @ showRunStatus (pn_status r) @ '')'')) (\<lambda>_.
     bindE (settleRun env r db) (\<lambda>(settled, db1).
     let f = (\<lambda>x. x\<lparr>pn_status := PN_PAID, pn_paidById := Some (e_userId env), pn_paidAt := Some (e_now env), pn_settlementJournalId := settled\<rparr>)
     in Inr (f r, audit env ''payroll_run.mark_paid'' ''payroll_run'' (pn_id r) (updRun (pn_id r) f db1))))))"

definition reverseRun :: "env \<Rightarrow> string \<Rightarrow> string option \<Rightarrow> 'a payroll_db_scheme \<Rightarrow> payrollRun resp \<times> 'a payroll_db_scheme" where
  "reverseRun env i reason db = answer 200 db (
     bindE (require (truthy reason) 400 ''A reason is required to reverse a payroll run'') (\<lambda>_.
     bindE (ownRun env i db) (\<lambda>r.
     bindE (require (pn_status r \<in> {PN_APPROVED, PN_PAID}) 400
       (''Only an APPROVED or PAID run can be reversed (currently '' @ showRunStatus (pn_status r) @ '')'')) (\<lambda>_.
     let f = (\<lambda>x. x\<lparr>pn_status := PN_REVERSED, pn_reversedById := Some (e_userId env), pn_reversedAt := Some (e_now env), pn_reversalReason := reason\<rparr>)
     in Inr (f r, audit env ''payroll_run.reverse'' ''payroll_run'' (pn_id r) (updRun (pn_id r) f db))))))"

section \<open>Bank file and payslips\<close>

text \<open>\<open>toFixed(2)\<close> of an amount of pesewas that is not negative.\<close>

definition fixed2 :: "int \<Rightarrow> string" where
  "fixed2 n = showNat (nat n div 100) @ ''.'' @ padStart 2 (showNat (nat n mod 100))"

definition csvCell :: "string \<Rightarrow> string" where
  "csvCell s = CHR 0x22 # s @ [CHR 0x22]"

text \<open>One entry: a line of the file, or the name of an employee without a bank account.\<close>

definition bankLine :: "employee list \<Rightarrow> payrollEntry \<Rightarrow> string + string" where
  "bankLine emps z =
     (case find (\<lambda>e. em_id e = pz_employeeId z) emps of
        None \<Rightarrow> Inl (pz_employeeId z)
      | Some e \<Rightarrow>
          if \<not> truthy (em_bankAccountNumber e) then Inl (if em_fullName e = [] then pz_employeeId z else em_fullName e)
          else Inr (csvCell (em_fullName e) @ '','' @ csvCell (orMessage (em_bankName e) []) @ '','' @ csvCell (the (em_bankAccountNumber e))
            @ '','' @ csvCell (orMessage (em_bankAccountName e) (em_fullName e)) @ '','' @ fixed2 (pz_netPay z)))"

definition entriesOf :: "string \<Rightarrow> payrollEntry list \<Rightarrow> payrollEntry list" where
  "entriesOf run = filter (\<lambda>z. pz_payrollRunId z = run)"

definition bankFile :: "env \<Rightarrow> string \<Rightarrow> 'a payroll_db_scheme \<Rightarrow> (string list \<times> string list) resp \<times> 'a payroll_db_scheme" where
  "bankFile env i db = answer 200 db (
     bindE (ownRun env i db) (\<lambda>r.
     bindE (require (pn_status r \<in> {PN_APPROVED, PN_PAID}) 400 ''A bank file can only be generated for an APPROVED or PAID run'') (\<lambda>_.
     let ls = map (bankLine (db_employees db)) (entriesOf (pn_id r) (db_payEntries db))
     in Inr ((''Employee Name,Bank Name,Account Number,Account Name,Amount'' # concat (map (case_sum (\<lambda>_. []) (\<lambda>l. [l])) ls),
              concat (map (case_sum (\<lambda>n. [n]) (\<lambda>_. [])) ls)),
          audit env ''payroll_run.bank_file_generated'' ''payroll_run'' (pn_id r) db))))"

text \<open>An employee reads only their own payslips: the employee is the one linked to the user.\<close>

definition resolveOwnEmployee :: "env \<Rightarrow> 'a cash_db_scheme \<Rightarrow> terr + employee" where
  "resolveOwnEmployee env db = orThrow (Http 404 ''No employee record is linked to your account'')
     (find (\<lambda>e. em_userId e = Some (e_userId env) \<and> em_institutionId e = e_institutionId env) (db_employees db))"

definition runStatusOf :: "'a payroll_db_scheme \<Rightarrow> payrollEntry \<Rightarrow> runStatus option" where
  "runStatusOf db z = map_option pn_status (find (\<lambda>r. pn_id r = pz_payrollRunId z) (db_payRuns db))"

definition myPayslips :: "env \<Rightarrow> 'a payroll_db_scheme \<Rightarrow> payrollEntry list resp \<times> 'a payroll_db_scheme" where
  "myPayslips env db = answer 200 db (
     bindE (resolveOwnEmployee env db) (\<lambda>e.
     Inr (filter (\<lambda>z. pz_employeeId z = em_id e \<and> runStatusOf db z \<in> {Some PN_APPROVED, Some PN_PAID}) (db_payEntries db),
       audit env ''payslip.list_viewed'' ''payroll_entry'' (em_id e) db)))"

text \<open>The PDF is rendered from the entry.\<close>

definition downloadPayslip :: "env \<Rightarrow> string \<Rightarrow> 'a payroll_db_scheme \<Rightarrow> payrollEntry resp \<times> 'a payroll_db_scheme" where
  "downloadPayslip env i db = answer 200 db (
     bindE (resolveOwnEmployee env db) (\<lambda>e.
     bindE (orThrow (Http 404 ''Payslip not found'') (find (\<lambda>z. pz_id z = i \<and> pz_employeeId z = em_id e) (db_payEntries db))) (\<lambda>z.
     bindE (require (runStatusOf db z \<in> {Some PN_APPROVED, Some PN_PAID}) 400 ''This payslip is not yet available'') (\<lambda>_.
     Inr (z, audit env ''payslip.downloaded'' ''payroll_entry'' (pz_id z) db)))))"

text \<open>The entries of a year's paid runs, by the day the entry was created; a year that is no number is this year.\<close>

definition yearEntries :: "conversions \<Rightarrow> env \<Rightarrow> num option \<Rightarrow> employee \<Rightarrow> 'a payroll_db_scheme \<Rightarrow> terr + num \<times> payrollEntry list" where
  "yearEntries cv env year e db =
     (let y = (case year of None \<Rightarrow> of_int (yearOf (dayOf (e_now env))) | Some v \<Rightarrow> if v = 0 then of_int (yearOf (dayOf (e_now env))) else v) in
      bindE (orThrow Thrown (e_parseDate env (cv_show cv y @ ''-01-01''))) (\<lambda>a.
      bindE (orThrow Thrown (e_parseDate env (cv_show cv y @ ''-12-31T23:59:59''))) (\<lambda>b.
      Inr (y, filter (\<lambda>z. pz_employeeId z = em_id e \<and> runStatusOf db z = Some PN_PAID \<and> a \<le> pz_createdAt z \<and> pz_createdAt z \<le> b)
        (db_payEntries db)))))"

definition total2 :: "(payrollEntry \<Rightarrow> int) \<Rightarrow> payrollEntry list \<Rightarrow> num" where
  "total2 f zs = round2 (nsum (map (cents \<circ> f) zs))"

definition taxCertificate :: "conversions \<Rightarrow> env \<Rightarrow> num option \<Rightarrow> 'a payroll_db_scheme \<Rightarrow> (num \<times> nat \<times> num \<times> num) resp \<times> 'a payroll_db_scheme" where
  "taxCertificate cv env year db = answer 200 db (
     bindE (resolveOwnEmployee env db) (\<lambda>e.
     bindE (yearEntries cv env year e db) (\<lambda>(y, zs).
     Inr ((y, length zs, total2 pz_grossPay zs, total2 pz_paye zs), audit env ''tax_certificate.viewed'' ''employee'' (em_id e) db))))"

definition contributionStatement ::
  "conversions \<Rightarrow> env \<Rightarrow> num option \<Rightarrow> 'a payroll_db_scheme \<Rightarrow> (num \<times> nat \<times> num \<times> num \<times> num) resp \<times> 'a payroll_db_scheme" where
  "contributionStatement cv env year db = answer 200 db (
     bindE (resolveOwnEmployee env db) (\<lambda>e.
     bindE (yearEntries cv env year e db) (\<lambda>(y, zs).
     Inr ((y, length zs, total2 pz_ssnitEmployee zs, total2 pz_ssnitEmployerTier1 zs, total2 pz_tier2Employer zs),
       audit env ''contribution_statement.viewed'' ''employee'' (em_id e) db))))"

section \<open>Reconciliation and reports\<close>

record reconciliation =
  rq_hasAccrualJournal :: bool
  rq_hasSettlementJournal :: bool
  rq_totals :: "(num \<times> num \<times> bool) option"

text \<open>The debits of the accrual journal against gross pay and the employer's contributions.\<close>

definition reconcile :: "env \<Rightarrow> string \<Rightarrow> 'a payroll_db_scheme \<Rightarrow> terr + reconciliation" where
  "reconcile env i db =
     bindE (ownRun env i db) (\<lambda>r.
     Inr \<lparr>rq_hasAccrualJournal = truthy (pn_accrualJournalId r), rq_hasSettlementJournal = truthy (pn_settlementJournalId r),
       rq_totals = (if \<not> truthy (pn_accrualJournalId r) then None
         else (let ls = (case find (\<lambda>j. Some (jo_id j) = pn_accrualJournalId r) (db_journals db) of None \<Rightarrow> [] | Some j \<Rightarrow> jo_lines j);
                   posted = nsum (map (\<lambda>l. cents (jl_debit l)) ls);
                   expected = foldl (\<lambda>s z. nadd (nadd (nadd s (cents (pz_grossPay z))) (cents (pz_ssnitEmployerTier1 z))) (cents (pz_tier2Employer z)))
                     0 (entriesOf (pn_id r) (db_payEntries db))
               in Some (round2 posted, round2 expected, \<bar>nsub posted expected\<bar> < cents 1)))\<rparr>)"

definition countedEntries :: "env \<Rightarrow> 'a payroll_db_scheme \<Rightarrow> payrollEntry list" where
  "countedEntries env db = concat (map (\<lambda>r. entriesOf (pn_id r) (db_payEntries db))
     (filter (\<lambda>r. pn_institutionId r = e_institutionId env \<and> pn_status r \<in> {PN_APPROVED, PN_PAID}) (db_payRuns db)))"

text \<open>Runs and employees counted, and the six totals.\<close>

definition payrollSummary :: "env \<Rightarrow> 'a payroll_db_scheme \<Rightarrow> nat \<times> nat \<times> num list" where
  "payrollSummary env db =
     (let zs = countedEntries env db in
      (length (filter (\<lambda>r. pn_institutionId r = e_institutionId env \<and> pn_status r \<in> {PN_APPROVED, PN_PAID}) (db_payRuns db)),
       length (remdups (map pz_employeeId zs)),
       [total2 pz_grossPay zs, total2 pz_paye zs,
        round2 (foldl (\<lambda>s z. nadd (nadd s (cents (pz_ssnitEmployee z))) (cents (pz_ssnitEmployerTier1 z))) 0 zs),
        total2 pz_tier2Employer zs, total2 pz_otherDeductions zs, total2 pz_netPay zs]))"

text \<open>Gross and net by a key of the employee, in the order the keys first appear.\<close>

definition groupedPay :: "(employee \<Rightarrow> string option) \<Rightarrow> (string \<Rightarrow> string) \<Rightarrow> env \<Rightarrow> 'a payroll_db_scheme \<Rightarrow> (string \<times> num \<times> num \<times> nat) list" where
  "groupedPay key name env db =
     (let zs = countedEntries env db;
          keyOf = (\<lambda>z. case find (\<lambda>e. em_id e = pz_employeeId z) (db_employees db) of
            None \<Rightarrow> ''unassigned'' | Some e \<Rightarrow> orMessage (key e) ''unassigned'')
      in map (\<lambda>k. let own = filter (\<lambda>z. keyOf z = k) zs in
           (name k, total2 pz_grossPay own, total2 pz_netPay own, length (remdups (map pz_employeeId own))))
         (rev (remdups (rev (map keyOf zs)))))"

definition payByDepartment :: "env \<Rightarrow> 'a payroll_db_scheme \<Rightarrow> (string \<times> num \<times> num \<times> nat) list" where
  "payByDepartment env db = groupedPay em_departmentId
     (\<lambda>k. case find (\<lambda>d. dm_id d = k) (db_departments db) of None \<Rightarrow> ''Unassigned'' | Some d \<Rightarrow> (if dm_name d = [] then ''Unassigned'' else dm_name d)) env db"

definition payByBranch :: "env \<Rightarrow> 'a payroll_db_scheme \<Rightarrow> (string \<times> num \<times> num \<times> nat) list" where
  "payByBranch env db = groupedPay em_branchId
     (\<lambda>k. case find (\<lambda>(j, _). j = k) (db_branches db) of None \<Rightarrow> ''Unassigned'' | Some (_, n) \<Rightarrow> n) env db"

text \<open>The last months, two to twenty-four of them, six when no number is given: gross, PAYE, SSNIT and net.\<close>

definition payTrendMonth :: "env \<Rightarrow> int \<Rightarrow> 'a payroll_db_scheme \<Rightarrow> time \<times> num \<times> num \<times> num \<times> num" where
  "payTrendMonth env m db =
     (let d = dayOf (e_now env); start = newDate (yearOf d) (monthOf d - m) 1;
          finish = newDate (yearOf d) (monthOf d - m + 1) 0 + msPerDay - 1;
          zs = filter (\<lambda>z. start \<le> pz_createdAt z \<and> pz_createdAt z \<le> finish
            \<and> list_ex (\<lambda>r. pn_id r = pz_payrollRunId z \<and> pn_institutionId r = e_institutionId env \<and> pn_status r \<in> {PN_APPROVED, PN_PAID}) (db_payRuns db))
            (db_payEntries db)
      in (start, total2 pz_grossPay zs, total2 pz_paye zs,
          round2 (foldl (\<lambda>s z. nadd (nadd s (cents (pz_ssnitEmployee z))) (cents (pz_ssnitEmployerTier1 z))) 0 zs), total2 pz_netPay zs))"

definition disbursementSummary :: "env \<Rightarrow> 'a payroll_db_scheme \<Rightarrow> nat \<times> num \<times> nat \<times> nat \<times> nat" where
  "disbursementSummary env db =
     (let rs = filter (\<lambda>r. pn_institutionId r = e_institutionId env) (db_payRuns db);
          n = (\<lambda>st. length (filter (\<lambda>r. pn_status r = st) rs))
      in (length rs, nsum (map (\<lambda>r. cents (pn_totalNet r)) (filter (\<lambda>r. pn_status r = PN_PAID) rs)), n PN_PENDING_APPROVAL, n PN_APPROVED, n PN_REVERSED))"

end
