(* ===== verification/People.thy ===== *)
theory People
  imports Payroll
begin

text \<open>
  Attendance, performance reviews and disciplinary cases (\<open>routes/hr.routes.ts\<close>). A correction of an
  attendance record is kept as a proposal on the record until it is approved.
\<close>

section \<open>Tables\<close>

datatype attendanceMethod = AT_MANUAL | AT_REMOTE

record attendanceRecord =
  at_id :: string
  at_institutionId :: string
  at_employeeId :: string
  at_workDate :: time
  at_clockInAt :: time
  at_clockOutAt :: "time option"
  at_method :: attendanceMethod
  at_correctionPending :: bool
  at_proposedClockInAt :: "time option"
  at_proposedClockOutAt :: "time option"
  at_correctionReason :: "string option"
  at_correctionRequestedById :: "string option"
  at_recordedById :: string

datatype reviewStatus = RV_DRAFT | RV_SELF_ASSESSMENT | RV_MANAGER_ASSESSMENT | RV_COMPLETED

fun showReviewStatus :: "reviewStatus \<Rightarrow> string" where
  "showReviewStatus RV_DRAFT = ''DRAFT''"
| "showReviewStatus RV_SELF_ASSESSMENT = ''SELF_ASSESSMENT''"
| "showReviewStatus RV_MANAGER_ASSESSMENT = ''MANAGER_ASSESSMENT''"
| "showReviewStatus RV_COMPLETED = ''COMPLETED''"

datatype performanceRating = PR_UNSATISFACTORY | PR_NEEDS_IMPROVEMENT | PR_MEETS_EXPECTATIONS | PR_EXCEEDS_EXPECTATIONS | PR_OUTSTANDING

record performanceReview =
  pw_id :: string
  pw_institutionId :: string
  pw_employeeId :: string
  pw_reviewerId :: string
  pw_cycleLabel :: string
  pw_goals :: "string option"
  pw_kpis :: "jsValue option"
  pw_selfAssessment :: "string option"
  pw_managerAssessment :: "string option"
  pw_rating :: "performanceRating option"
  pw_developmentPlan :: "string option"
  pw_status :: reviewStatus
  pw_completedAt :: "time option"

datatype disciplinaryStatus = DZ_OPEN | DZ_INVESTIGATING | DZ_RESOLVED | DZ_CLOSED

fun showDisciplinaryStatus :: "disciplinaryStatus \<Rightarrow> string" where
  "showDisciplinaryStatus DZ_OPEN = ''OPEN''"
| "showDisciplinaryStatus DZ_INVESTIGATING = ''INVESTIGATING''"
| "showDisciplinaryStatus DZ_RESOLVED = ''RESOLVED''"
| "showDisciplinaryStatus DZ_CLOSED = ''CLOSED''"

datatype disciplinaryAction = VERBAL_WARNING | WRITTEN_WARNING | FINAL_WARNING | ACTION_SUSPENSION | TERMINATION

record disciplinaryCase =
  dz_id :: string
  dz_institutionId :: string
  dz_employeeId :: string
  dz_misconductDescription :: string
  dz_investigationNotes :: "string option"
  dz_actionTaken :: "disciplinaryAction option"
  dz_status :: disciplinaryStatus
  dz_resolvedAt :: "time option"
  dz_resolvedById :: "string option"
  dz_raisedById :: string

record people_db = payroll_db +
  db_attendance :: "attendanceRecord list"
  db_reviews :: "performanceReview list"
  db_disciplinary :: "disciplinaryCase list"

abbreviation employeeOf :: "string \<Rightarrow> env \<Rightarrow> string \<Rightarrow> 'a cash_db_scheme \<Rightarrow> terr + employee" where
  "employeeOf msg env i db \<equiv> orThrow (Http 404 msg) (find (\<lambda>e. em_id e = i \<and> em_institutionId e = e_institutionId env) (db_employees db))"

section \<open>Attendance\<close>

definition clockIn :: "env \<Rightarrow> (string \<times> attendanceMethod option) option \<Rightarrow> 'a people_db_scheme \<Rightarrow> attendanceRecord resp \<times> 'a people_db_scheme" where
  "clockIn env body db = answer 201 db (
     bindE (parseBody (\<lambda>_. True) body) (\<lambda>(i, m).
     bindE (employeeOf ''Employee not found'' env i db) (\<lambda>e.
     bindE (require (find (\<lambda>r. at_employeeId r = em_id e \<and> at_workDate r = startOfDay (e_now env)) (db_attendance db) = None) 400
       ''This employee has already clocked in today'') (\<lambda>_.
     let r = \<lparr>at_id = newId env db, at_institutionId = e_institutionId env, at_employeeId = em_id e, at_workDate = startOfDay (e_now env),
           at_clockInAt = e_now env, at_clockOutAt = None, at_method = GL_Routes.orKeep m AT_MANUAL, at_correctionPending = False,
           at_proposedClockInAt = None, at_proposedClockOutAt = None, at_correctionReason = None, at_correctionRequestedById = None,
           at_recordedById = e_userId env\<rparr>
     in Inr (r, audit env ''attendance.clock_in'' ''attendance_record'' (at_id r)
          (db\<lparr>db_next := Suc (db_next db), db_attendance := db_attendance db @ [r]\<rparr>))))))"

definition ownAttendance :: "env \<Rightarrow> string \<Rightarrow> 'a people_db_scheme \<Rightarrow> terr + attendanceRecord" where
  "ownAttendance env i db = orThrow (Http 404 ''Attendance record not found'')
     (find (\<lambda>r. at_id r = i \<and> at_institutionId r = e_institutionId env) (db_attendance db))"

definition updAttendance :: "string \<Rightarrow> (attendanceRecord \<Rightarrow> attendanceRecord) \<Rightarrow> 'a people_db_scheme \<Rightarrow> 'a people_db_scheme" where
  "updAttendance i f db = db\<lparr>db_attendance := updWhere (\<lambda>r. at_id r = i) f (db_attendance db)\<rparr>"

definition clockOut :: "env \<Rightarrow> string \<Rightarrow> 'a people_db_scheme \<Rightarrow> attendanceRecord resp \<times> 'a people_db_scheme" where
  "clockOut env i db = answer 200 db (
     bindE (ownAttendance env i db) (\<lambda>r.
     bindE (require (at_clockOutAt r = None) 400 ''Already clocked out'') (\<lambda>_.
     let f = (\<lambda>r. r\<lparr>at_clockOutAt := Some (e_now env)\<rparr>)
     in Inr (f r, audit env ''attendance.clock_out'' ''attendance_record'' (at_id r) (updAttendance (at_id r) f db)))))"

text \<open>A time that is not proposed leaves the proposal on the record as it is.\<close>

definition requestCorrection :: "env \<Rightarrow> string \<Rightarrow> (string option \<times> string option \<times> string) option \<Rightarrow> 'a people_db_scheme \<Rightarrow> unit resp \<times> 'a people_db_scheme" where
  "requestCorrection env i body db = answer 202 db (
     bindE (parseBody (\<lambda>(_, _, reason). 2 \<le> length reason) body) (\<lambda>(tin, tout, reason).
     bindE (require (truthy tin \<or> truthy tout) 400 ''Propose at least one corrected time'') (\<lambda>_.
     bindE (ownAttendance env i db) (\<lambda>r.
     bindE (require (\<not> at_correctionPending r) 400 ''A correction is already pending approval for this record'') (\<lambda>_.
     bindE (givenDate env tin) (\<lambda>pin.
     bindE (givenDate env tout) (\<lambda>pout.
     Inr ((), audit env ''attendance.request_correction'' ''attendance_record'' (at_id r)
       (requestApproval env ATTENDANCE_CORRECTION ''AttendanceRecord'' (at_id r) [] reason
         (updAttendance (at_id r) (\<lambda>r. r\<lparr>at_correctionPending := True,
            at_proposedClockInAt := Customer_Care.orKeep pin (at_proposedClockInAt r),
            at_proposedClockOutAt := Customer_Care.orKeep pout (at_proposedClockOutAt r),
            at_correctionReason := Some reason, at_correctionRequestedById := Some (e_userId env)\<rparr>) db))))))))))"

section \<open>Performance reviews\<close>

record reviewBody =
  xb_employeeId :: string
  xb_reviewerId :: string
  xb_cycleLabel :: string
  xb_goals :: "string option"
  xb_kpis :: "jsValue option"

definition createReview :: "env \<Rightarrow> reviewBody option \<Rightarrow> 'a people_db_scheme \<Rightarrow> performanceReview resp \<times> 'a people_db_scheme" where
  "createReview env body db = answer 201 db (
     bindE (parseBody (\<lambda>b. xb_cycleLabel b \<noteq> []) body) (\<lambda>b.
     bindE (employeeOf ''Employee not found'' env (xb_employeeId b) db) (\<lambda>e.
     bindE (employeeOf ''Reviewer not found'' env (xb_reviewerId b) db) (\<lambda>m.
     let v = \<lparr>pw_id = newId env db, pw_institutionId = e_institutionId env, pw_employeeId = em_id e, pw_reviewerId = em_id m,
           pw_cycleLabel = xb_cycleLabel b, pw_goals = xb_goals b, pw_kpis = xb_kpis b, pw_selfAssessment = None,
           pw_managerAssessment = None, pw_rating = None, pw_developmentPlan = None, pw_status = RV_DRAFT, pw_completedAt = None\<rparr>
     in Inr (v, audit env ''performance_review.create'' ''performance_review'' (pw_id v)
          (db\<lparr>db_next := Suc (db_next db), db_reviews := db_reviews db @ [v]\<rparr>))))))"

definition ownReview :: "env \<Rightarrow> string \<Rightarrow> 'a people_db_scheme \<Rightarrow> terr + performanceReview" where
  "ownReview env i db = orThrow (Http 404 ''Review not found'')
     (find (\<lambda>v. pw_id v = i \<and> pw_institutionId v = e_institutionId env) (db_reviews db))"

definition updReview :: "string \<Rightarrow> (performanceReview \<Rightarrow> performanceReview) \<Rightarrow> 'a people_db_scheme \<Rightarrow> 'a people_db_scheme" where
  "updReview i f db = db\<lparr>db_reviews := updWhere (\<lambda>v. pw_id v = i) f (db_reviews db)\<rparr>"

definition selfAssess :: "env \<Rightarrow> string \<Rightarrow> string option \<Rightarrow> 'a people_db_scheme \<Rightarrow> performanceReview resp \<times> 'a people_db_scheme" where
  "selfAssess env i body db = answer 200 db (
     bindE (parseBody (\<lambda>s. s \<noteq> []) body) (\<lambda>s.
     bindE (ownReview env i db) (\<lambda>v.
     bindE (require (pw_status v = RV_DRAFT) 400 (''Cannot submit self-assessment from status '' @ showReviewStatus (pw_status v))) (\<lambda>_.
     let f = (\<lambda>x. x\<lparr>pw_selfAssessment := Some s, pw_status := RV_SELF_ASSESSMENT\<rparr>)
     in Inr (f v, updReview (pw_id v) f db)))))"

definition managerAssess :: "env \<Rightarrow> string \<Rightarrow> (string \<times> performanceRating \<times> string option) option \<Rightarrow> 'a people_db_scheme \<Rightarrow> performanceReview resp \<times> 'a people_db_scheme" where
  "managerAssess env i body db = answer 200 db (
     bindE (parseBody (\<lambda>(s, _). s \<noteq> []) body) (\<lambda>(s, rating, plan).
     bindE (ownReview env i db) (\<lambda>v.
     bindE (require (pw_status v \<in> {RV_SELF_ASSESSMENT, RV_DRAFT}) 400
       (''Cannot submit manager assessment from status '' @ showReviewStatus (pw_status v))) (\<lambda>_.
     let f = (\<lambda>x. x\<lparr>pw_managerAssessment := Some s, pw_rating := Some rating, pw_developmentPlan := Customer_Care.orKeep plan (pw_developmentPlan x),
            pw_status := RV_COMPLETED, pw_completedAt := Some (e_now env)\<rparr>)
     in Inr (f v, audit env ''performance_review.complete'' ''performance_review'' (pw_id v) (updReview (pw_id v) f db))))))"

section \<open>Disciplinary cases\<close>

definition raiseCase :: "env \<Rightarrow> (string \<times> string) option \<Rightarrow> 'a people_db_scheme \<Rightarrow> disciplinaryCase resp \<times> 'a people_db_scheme" where
  "raiseCase env body db = answer 201 db (
     bindE (parseBody (\<lambda>(_, d). 2 \<le> length d) body) (\<lambda>(i, d).
     bindE (employeeOf ''Employee not found'' env i db) (\<lambda>e.
     let c = \<lparr>dz_id = newId env db, dz_institutionId = e_institutionId env, dz_employeeId = em_id e, dz_misconductDescription = d,
           dz_investigationNotes = None, dz_actionTaken = None, dz_status = DZ_OPEN, dz_resolvedAt = None, dz_resolvedById = None,
           dz_raisedById = e_userId env\<rparr>
     in Inr (c, audit env ''disciplinary_case.raise'' ''disciplinary_case'' (dz_id c)
          (db\<lparr>db_next := Suc (db_next db), db_disciplinary := db_disciplinary db @ [c]\<rparr>)))))"

definition ownCase :: "env \<Rightarrow> string \<Rightarrow> 'a people_db_scheme \<Rightarrow> terr + disciplinaryCase" where
  "ownCase env i db = orThrow (Http 404 ''Case not found'')
     (find (\<lambda>c. dz_id c = i \<and> dz_institutionId c = e_institutionId env) (db_disciplinary db))"

definition updCase :: "string \<Rightarrow> (disciplinaryCase \<Rightarrow> disciplinaryCase) \<Rightarrow> 'a people_db_scheme \<Rightarrow> 'a people_db_scheme" where
  "updCase i f db = db\<lparr>db_disciplinary := updWhere (\<lambda>c. dz_id c = i) f (db_disciplinary db)\<rparr>"

definition investigateCase :: "env \<Rightarrow> string \<Rightarrow> string option option \<Rightarrow> 'a people_db_scheme \<Rightarrow> disciplinaryCase resp \<times> 'a people_db_scheme" where
  "investigateCase env i body db = answer 200 db (
     bindE (parseBody (\<lambda>_. True) body) (\<lambda>notes.
     bindE (ownCase env i db) (\<lambda>c.
     bindE (require (dz_status c = DZ_OPEN) 400 (''Cannot move to investigating from '' @ showDisciplinaryStatus (dz_status c))) (\<lambda>_.
     let f = (\<lambda>x. x\<lparr>dz_status := DZ_INVESTIGATING, dz_investigationNotes := Customer_Care.orKeep notes (dz_investigationNotes x)\<rparr>)
     in Inr (f c, updCase (dz_id c) f db)))))"

definition resolveCase :: "env \<Rightarrow> string \<Rightarrow> disciplinaryAction option \<Rightarrow> 'a people_db_scheme \<Rightarrow> disciplinaryCase resp \<times> 'a people_db_scheme" where
  "resolveCase env i body db = answer 200 db (
     bindE (parseBody (\<lambda>_. True) body) (\<lambda>act.
     bindE (ownCase env i db) (\<lambda>c.
     bindE (require (dz_status c \<in> {DZ_OPEN, DZ_INVESTIGATING}) 400 (''Cannot resolve from status '' @ showDisciplinaryStatus (dz_status c))) (\<lambda>_.
     let f = (\<lambda>x. x\<lparr>dz_status := DZ_RESOLVED, dz_actionTaken := Some act, dz_resolvedAt := Some (e_now env), dz_resolvedById := Some (e_userId env)\<rparr>)
     in Inr (f c, audit env ''disciplinary_case.resolve'' ''disciplinary_case'' (dz_id c) (updCase (dz_id c) f db))))))"

definition closeCase :: "env \<Rightarrow> string \<Rightarrow> 'a people_db_scheme \<Rightarrow> disciplinaryCase resp \<times> 'a people_db_scheme" where
  "closeCase env i db = answer 200 db (
     bindE (ownCase env i db) (\<lambda>c.
     bindE (require (dz_status c = DZ_RESOLVED) 400 ''Only a resolved case can be closed'') (\<lambda>_.
     let f = (\<lambda>x. x\<lparr>dz_status := DZ_CLOSED\<rparr>) in Inr (f c, updCase (dz_id c) f db))))"

end
