(* ===== verification/Assets.thy ===== *)
theory Assets
  imports People
begin

text \<open>
  Fixed assets (\<open>routes/asset.routes.ts\<close>): categories, registration, allocation, transfer, maintenance,
  depreciation, disposal, verification and reports; and the transfers between branches
  (\<open>routes/interBranch.routes.ts\<close>). Transfers, disposals and inter-branch transfers take effect when they
  are approved. Coordinates are kept as given.
\<close>

section \<open>Tables\<close>

record assetCategory =
  fk_id :: string
  fk_institutionId :: string
  fk_name :: string
  fk_usefulLifeMonths :: int
  fk_method :: depreciationMethod
  fk_rate :: "int option"

datatype assetStatus = FA_ACTIVE | FA_UNDER_MAINTENANCE | FA_DISPOSED | FA_LOST

record asset =
  fa_id :: string
  fa_institutionId :: string
  fa_categoryId :: string
  fa_assetCode :: string
  fa_name :: string
  fa_serialNumber :: "string option"
  fa_manufacturer :: "string option"
  fa_model :: "string option"
  fa_acquisitionDate :: time
  fa_acquisitionCost :: int
  fa_supplierName :: "string option"
  fa_warrantyExpiryDate :: "time option"
  fa_installationDate :: "time option"
  fa_commissionedDate :: "time option"
  fa_usefulLifeMonths :: int
  fa_residualValue :: int
  fa_method :: depreciationMethod
  fa_rate :: "int option"
  fa_accumulatedDepreciation :: int
  fa_status :: assetStatus
  fa_currentEmployeeId :: "string option"
  fa_currentDepartmentId :: "string option"
  fa_currentBranchId :: "string option"
  fa_barcodeValue :: "string option"
  fa_qrCodeValue :: "string option"
  fa_latitude :: "num option"
  fa_longitude :: "num option"
  fa_disposedAt :: "time option"
  fa_disposalReason :: "string option"
  fa_createdById :: string

record assetAllocation =
  fl_id :: string
  fl_institutionId :: string
  fl_assetId :: string
  fl_employeeId :: "string option"
  fl_departmentId :: "string option"
  fl_branchId :: "string option"
  fl_allocatedById :: string
  fl_returnedAt :: "time option"
  fl_returnCondition :: "string option"
  fl_notes :: "string option"

datatype assetTransferStatus = FX_PENDING_APPROVAL | FX_APPROVED | FX_REJECTED

record assetTransfer =
  fx_id :: string
  fx_institutionId :: string
  fx_assetId :: string
  fx_fromEmployeeId :: "string option"
  fx_fromDepartmentId :: "string option"
  fx_fromBranchId :: "string option"
  fx_toEmployeeId :: "string option"
  fx_toDepartmentId :: "string option"
  fx_toBranchId :: "string option"
  fx_reason :: string
  fx_status :: assetTransferStatus
  fx_requestedById :: string
  fx_transferredAt :: "time option"

record maintenanceSchedule =
  fm_id :: string
  fm_institutionId :: string
  fm_assetId :: string
  fm_frequencyMonths :: int
  fm_lastMaintenanceDate :: "time option"
  fm_nextDueDate :: time

datatype maintenanceType = PREVENTIVE | CORRECTIVE

record maintenanceRecord =
  fn_id :: string
  fn_institutionId :: string
  fn_assetId :: string
  fn_type :: maintenanceType
  fn_scheduledDate :: "time option"
  fn_completedDate :: "time option"
  fn_serviceProvider :: "string option"
  fn_cost :: int
  fn_notes :: "string option"
  fn_createdById :: string

record depreciationEntry =
  fd_id :: string
  fd_institutionId :: string
  fd_assetId :: string
  fd_periodLabel :: string
  fd_depreciationAmount :: int
  fd_accumulatedDepreciation :: int
  fd_netBookValue :: int
  fd_journalId :: "string option"
  fd_postedById :: string

datatype disposalType = SALE | DONATION | WRITE_OFF | SCRAP

fun showDisposalType :: "disposalType \<Rightarrow> string" where
  "showDisposalType SALE = ''SALE''"
| "showDisposalType DONATION = ''DONATION''"
| "showDisposalType WRITE_OFF = ''WRITE_OFF''"
| "showDisposalType SCRAP = ''SCRAP''"

datatype disposalStatus = FZ_PENDING_APPROVAL | FZ_APPROVED | FZ_REJECTED

record assetDisposal =
  fz_id :: string
  fz_institutionId :: string
  fz_assetId :: string
  fz_disposalType :: disposalType
  fz_disposalDate :: time
  fz_saleProceeds :: "int option"
  fz_netBookValueAtDisposal :: int
  fz_gainLoss :: int
  fz_reason :: string
  fz_status :: disposalStatus
  fz_requestedById :: string
  fz_approvedById :: "string option"
  fz_journalId :: "string option"

datatype assetCondition = GOOD | FAIR | POOR | DAMAGED | MISSING

record verificationRecord =
  fv_id :: string
  fv_institutionId :: string
  fv_assetId :: string
  fv_verifiedById :: string
  fv_locationConfirmed :: bool
  fv_custodianConfirmed :: bool
  fv_condition :: assetCondition
  fv_latitude :: "num option"
  fv_longitude :: "num option"
  fv_notes :: "string option"
  fv_variance :: bool

text \<open>One settlement account per branch, and no account settles two.\<close>

record settlementAccount =
  iz_id :: string
  iz_institutionId :: string
  iz_branchId :: string
  iz_glAccountId :: string

datatype interBranchStatus = IX_PENDING_APPROVAL | IX_POSTED | IX_REJECTED

record interBranchTransfer =
  ix_id :: string
  ix_institutionId :: string
  ix_fromBranchId :: string
  ix_toBranchId :: string
  ix_fromGLAccountId :: string
  ix_toGLAccountId :: string
  ix_amount :: int
  ix_description :: string
  ix_status :: interBranchStatus
  ix_journalId :: "string option"
  ix_requestedById :: string

record asset_db = people_db +
  db_assetCategories :: "assetCategory list"
  db_assets :: "asset list"
  db_allocations :: "assetAllocation list"
  db_assetTransfers :: "assetTransfer list"
  db_schedules :: "maintenanceSchedule list"
  db_maintenance :: "maintenanceRecord list"
  db_depreciation :: "depreciationEntry list"
  db_disposals :: "assetDisposal list"
  db_verifications :: "verificationRecord list"
  db_assetMappings :: "glMapping list"
  db_settlementAccounts :: "settlementAccount list"
  db_interBranch :: "interBranchTransfer list"

section \<open>Registration\<close>

text \<open>The name of a category is unique at the institution. A rate of zero counts as none.\<close>

definition givenRate :: "num option \<Rightarrow> bool" where
  "givenRate r \<longleftrightarrow> (case r of None \<Rightarrow> False | Some x \<Rightarrow> x \<noteq> 0)"

definition percentage :: "num option \<Rightarrow> bool" where
  "percentage r \<longleftrightarrow> (case r of None \<Rightarrow> True | Some x \<Rightarrow> 0 \<le> x \<and> x \<le> 100)"

definition createCategory :: "env \<Rightarrow> (string \<times> int \<times> depreciationMethod \<times> num option) option \<Rightarrow> 'a asset_db_scheme \<Rightarrow> assetCategory resp \<times> 'a asset_db_scheme" where
  "createCategory env body db = answer 201 db (
     bindE (parseBody (\<lambda>(name, life, _, rate). name \<noteq> [] \<and> 0 < life \<and> percentage rate) body) (\<lambda>(name, life, m, rate).
     bindE (require (m = REDUCING_BALANCE \<longrightarrow> givenRate rate) 400 ''A default depreciation rate is required for the reducing-balance method'') (\<lambda>_.
     let c = \<lparr>fk_id = newId env db, fk_institutionId = e_institutionId env, fk_name = name, fk_usefulLifeMonths = life, fk_method = m,
           fk_rate = map_option toDec2 rate\<rparr>
     in if list_ex (\<lambda>k. fk_institutionId k = e_institutionId env \<and> fk_name k = name) (db_assetCategories db) then Inl Thrown
        else Inr (c, db\<lparr>db_next := Suc (db_next db), db_assetCategories := db_assetCategories db @ [c]\<rparr>))))"

record assetBody =
  hb_assetCode :: string
  hb_name :: string
  hb_categoryId :: string
  hb_serialNumber :: "string option"
  hb_manufacturer :: "string option"
  hb_model :: "string option"
  hb_acquisitionDate :: string
  hb_acquisitionCost :: num
  hb_supplierName :: "string option"
  hb_warrantyExpiryDate :: "string option"
  hb_installationDate :: "string option"
  hb_commissionedDate :: "string option"
  hb_usefulLifeMonths :: int
  hb_residualValue :: "num option"
  hb_method :: "depreciationMethod option"
  hb_rate :: "num option"
  hb_barcodeValue :: "string option"
  hb_qrCodeValue :: "string option"
  hb_latitude :: "num option"
  hb_longitude :: "num option"

definition assetSchema :: "assetBody \<Rightarrow> bool" where
  "assetSchema b \<longleftrightarrow> hb_assetCode b \<noteq> [] \<and> hb_name b \<noteq> [] \<and> 0 < hb_acquisitionCost b \<and> 0 < hb_usefulLifeMonths b
     \<and> 0 \<le> GL_Routes.orKeep (hb_residualValue b) 0 \<and> percentage (hb_rate b)"

definition registerAsset :: "env \<Rightarrow> assetBody option \<Rightarrow> 'a asset_db_scheme \<Rightarrow> asset resp \<times> 'a asset_db_scheme" where
  "registerAsset env body db = answer 201 db (
     bindE (parseBody assetSchema body) (\<lambda>b.
     bindE (require (find (\<lambda>a. fa_institutionId a = e_institutionId env \<and> fa_assetCode a = hb_assetCode b) (db_assets db) = None) 400
       (''Asset code '' @ hb_assetCode b @ '' is already in use'')) (\<lambda>_.
     bindE (orThrow (Http 404 ''Asset category not found'')
       (find (\<lambda>k. fk_id k = hb_categoryId b \<and> fk_institutionId k = e_institutionId env) (db_assetCategories db))) (\<lambda>k.
     let m = GL_Routes.orKeep (hb_method b) (fk_method k);
         rate = (case hb_rate b of None \<Rightarrow> map_option cents (fk_rate k) | Some r \<Rightarrow> Some r) in
     bindE (require (m = REDUCING_BALANCE \<longrightarrow> givenRate rate) 400
       ''A depreciation rate is required for the reducing-balance method (set on the asset or its category)'') (\<lambda>_.
     bindE (orThrow Thrown (e_parseDate env (hb_acquisitionDate b))) (\<lambda>acquired.
     bindE (givenDate env (hb_warrantyExpiryDate b)) (\<lambda>warranty.
     bindE (givenDate env (hb_installationDate b)) (\<lambda>installed.
     bindE (givenDate env (hb_commissionedDate b)) (\<lambda>commissioned.
     let a = \<lparr>fa_id = newId env db, fa_institutionId = e_institutionId env, fa_categoryId = hb_categoryId b, fa_assetCode = hb_assetCode b,
           fa_name = hb_name b, fa_serialNumber = hb_serialNumber b, fa_manufacturer = hb_manufacturer b, fa_model = hb_model b,
           fa_acquisitionDate = acquired, fa_acquisitionCost = toDec2 (hb_acquisitionCost b), fa_supplierName = hb_supplierName b,
           fa_warrantyExpiryDate = warranty, fa_installationDate = installed, fa_commissionedDate = commissioned,
           fa_usefulLifeMonths = hb_usefulLifeMonths b, fa_residualValue = toDec2 (GL_Routes.orKeep (hb_residualValue b) 0),
           fa_method = m, fa_rate = map_option toDec2 rate, fa_accumulatedDepreciation = 0, fa_status = FA_ACTIVE,
           fa_currentEmployeeId = None, fa_currentDepartmentId = None, fa_currentBranchId = None, fa_barcodeValue = hb_barcodeValue b,
           fa_qrCodeValue = hb_qrCodeValue b, fa_latitude = hb_latitude b, fa_longitude = hb_longitude b, fa_disposedAt = None,
           fa_disposalReason = None, fa_createdById = e_userId env\<rparr>
     in Inr (a, audit env ''asset.register'' ''asset'' (fa_id a)
          (db\<lparr>db_next := Suc (db_next db), db_assets := db_assets db @ [a]\<rparr>)))))))))))"

definition ownAsset :: "env \<Rightarrow> string \<Rightarrow> 'a asset_db_scheme \<Rightarrow> terr + asset" where
  "ownAsset env i db = orThrow (Http 404 ''Asset not found'')
     (find (\<lambda>a. fa_id a = i \<and> fa_institutionId a = e_institutionId env) (db_assets db))"

definition updAsset :: "string \<Rightarrow> (asset \<Rightarrow> asset) \<Rightarrow> 'a asset_db_scheme \<Rightarrow> 'a asset_db_scheme" where
  "updAsset i f db = db\<lparr>db_assets := updWhere (\<lambda>a. fa_id a = i) f (db_assets db)\<rparr>"

definition lookupAsset :: "env \<Rightarrow> string option \<Rightarrow> 'a asset_db_scheme \<Rightarrow> terr + asset" where
  "lookupAsset env cd db =
     bindE (require (truthy cd) 400 ''code query parameter is required'') (\<lambda>_.
     orThrow (Http 404 ''No asset found matching that code'')
       (find (\<lambda>a. fa_institutionId a = e_institutionId env \<and> (fa_barcodeValue a = cd \<or> fa_qrCodeValue a = cd \<or> Some (fa_assetCode a) = cd)) (db_assets db)))"

definition setAssetMapping :: "env \<Rightarrow> string option \<Rightarrow> string option \<Rightarrow> 'a asset_db_scheme \<Rightarrow> glMapping resp \<times> 'a asset_db_scheme" where
  "setAssetMapping env purpose acct db =
     (case mappingGuard env purpose acct db of
        Inl e \<Rightarrow> answerError e db
      | Inr (p, a) \<Rightarrow>
          (case upsertMapping env (newId env db) p a (db_assetMappings db) of
             (m, ms) \<Rightarrow> (ROk 201 m, db\<lparr>db_next := Suc (db_next db), db_assetMappings := ms\<rparr>)))"

section \<open>Custody\<close>

type_synonym holder = "string option \<times> string option \<times> string option"

definition someHolder :: "holder \<Rightarrow> bool" where
  "someHolder h \<longleftrightarrow> truthy (fst h) \<or> truthy (fst (snd h)) \<or> truthy (snd (snd h))"

text \<open>A field of the body that is absent leaves the column as it was.\<close>

definition moveTo :: "holder \<Rightarrow> asset \<Rightarrow> asset" where
  "moveTo h a = a\<lparr>fa_currentEmployeeId := Customer_Care.orKeep (fst h) (fa_currentEmployeeId a),
     fa_currentDepartmentId := Customer_Care.orKeep (fst (snd h)) (fa_currentDepartmentId a),
     fa_currentBranchId := Customer_Care.orKeep (snd (snd h)) (fa_currentBranchId a)\<rparr>"

definition allocateAsset :: "env \<Rightarrow> (string \<times> holder \<times> string option) option \<Rightarrow> 'a asset_db_scheme \<Rightarrow> assetAllocation resp \<times> 'a asset_db_scheme" where
  "allocateAsset env body db = answer 201 db (
     bindE (parseBody (\<lambda>_. True) body) (\<lambda>(i, h, notes).
     bindE (require (someHolder h) 400 ''At least one of employeeId, departmentId, or branchId is required'') (\<lambda>_.
     bindE (ownAsset env i db) (\<lambda>a.
     bindE (require (fa_status a \<noteq> FA_DISPOSED) 400 ''A disposed asset cannot be reassigned'') (\<lambda>_.
     bindE (require (find (\<lambda>l. fl_assetId l = fa_id a \<and> fl_returnedAt l = None) (db_allocations db) = None) 400
       ''This asset is already allocated - return it first before reallocating'') (\<lambda>_.
     let l = \<lparr>fl_id = newId env db, fl_institutionId = e_institutionId env, fl_assetId = fa_id a, fl_employeeId = fst h,
           fl_departmentId = fst (snd h), fl_branchId = snd (snd h), fl_allocatedById = e_userId env, fl_returnedAt = None,
           fl_returnCondition = None, fl_notes = notes\<rparr>
     in Inr (l, audit env ''asset.allocate'' ''asset'' (fa_id a) (updAsset (fa_id a) (moveTo h)
          (db\<lparr>db_next := Suc (db_next db), db_allocations := db_allocations db @ [l]\<rparr>)))))))))"

definition returnAsset :: "env \<Rightarrow> string \<Rightarrow> string option \<Rightarrow> 'a asset_db_scheme \<Rightarrow> assetAllocation resp \<times> 'a asset_db_scheme" where
  "returnAsset env i condition db = answer 200 db (
     bindE (require (truthy condition) 400 ''A return condition note is required'') (\<lambda>_.
     bindE (orThrow (Http 404 ''Active allocation not found'')
       (find (\<lambda>l. fl_id l = i \<and> fl_institutionId l = e_institutionId env \<and> fl_returnedAt l = None) (db_allocations db))) (\<lambda>l.
     let f = (\<lambda>l. l\<lparr>fl_returnedAt := Some (e_now env), fl_returnCondition := condition\<rparr>)
     in Inr (f l, audit env ''asset.return'' ''asset'' (fl_assetId l)
          (updAsset (fl_assetId l) (\<lambda>a. a\<lparr>fa_currentEmployeeId := None, fa_currentDepartmentId := None, fa_currentBranchId := None\<rparr>)
            (db\<lparr>db_allocations := updWhere (\<lambda>x. fl_id x = fl_id l) f (db_allocations db)\<rparr>))))))"

definition requestAssetTransfer :: "env \<Rightarrow> (string \<times> holder \<times> string) option \<Rightarrow> 'a asset_db_scheme \<Rightarrow> assetTransfer resp \<times> 'a asset_db_scheme" where
  "requestAssetTransfer env body db = answer 202 db (
     bindE (parseBody (\<lambda>(_, _, reason). 2 \<le> length reason) body) (\<lambda>(i, h, reason).
     bindE (require (someHolder h) 400 ''A destination (employee, department, or branch) is required'') (\<lambda>_.
     bindE (ownAsset env i db) (\<lambda>a.
     bindE (require (fa_status a \<noteq> FA_DISPOSED) 400 ''A disposed asset cannot be transferred'') (\<lambda>_.
     let t = \<lparr>fx_id = newId env db, fx_institutionId = e_institutionId env, fx_assetId = fa_id a,
           fx_fromEmployeeId = fa_currentEmployeeId a, fx_fromDepartmentId = fa_currentDepartmentId a, fx_fromBranchId = fa_currentBranchId a,
           fx_toEmployeeId = fst h, fx_toDepartmentId = fst (snd h), fx_toBranchId = snd (snd h), fx_reason = reason,
           fx_status = FX_PENDING_APPROVAL, fx_requestedById = e_userId env, fx_transferredAt = None\<rparr>
     in Inr (t, audit env ''asset_transfer.requested'' ''asset_transfer'' (fx_id t)
          (requestApproval env ASSET_TRANSFER ''AssetTransfer'' (fx_id t) [] reason
            (db\<lparr>db_next := Suc (db_next db), db_assetTransfers := db_assetTransfers db @ [t]\<rparr>))))))))"

section \<open>Maintenance\<close>

text \<open>The asset is a foreign key; its institution is not looked at.\<close>

definition assetKnown :: "string \<Rightarrow> 'a asset_db_scheme \<Rightarrow> terr + asset" where
  "assetKnown i db = orThrow Thrown (find (\<lambda>a. fa_id a = i) (db_assets db))"

definition scheduleMaintenance :: "env \<Rightarrow> (string \<times> int \<times> string option) option \<Rightarrow> 'a asset_db_scheme \<Rightarrow> maintenanceSchedule resp \<times> 'a asset_db_scheme" where
  "scheduleMaintenance env body db = answer 201 db (
     bindE (parseBody (\<lambda>(_, freq, _). 0 < freq) body) (\<lambda>(i, freq, last').
     bindE (givenDate env last') (\<lambda>d.
     let next' = plusMonths (case d of None \<Rightarrow> e_now env | Some t \<Rightarrow> t) freq;
         f = (\<lambda>s. s\<lparr>fm_frequencyMonths := freq, fm_nextDueDate := next'\<rparr>) in
     case find (\<lambda>s. fm_assetId s = i) (db_schedules db) of
       Some s \<Rightarrow> Inr (f s, db\<lparr>db_schedules := updWhere (\<lambda>x. fm_assetId x = i) f (db_schedules db)\<rparr>)
     | None \<Rightarrow>
         bindE (assetKnown i db) (\<lambda>_.
         let s = \<lparr>fm_id = newId env db, fm_institutionId = e_institutionId env, fm_assetId = i, fm_frequencyMonths = freq,
               fm_lastMaintenanceDate = d, fm_nextDueDate = next'\<rparr>
         in Inr (s, db\<lparr>db_next := Suc (db_next db), db_schedules := db_schedules db @ [s]\<rparr>)))))"

record maintenanceBody =
  hm_assetId :: string
  hm_type :: maintenanceType
  hm_scheduledDate :: "string option"
  hm_completedDate :: "string option"
  hm_serviceProvider :: "string option"
  hm_cost :: "num option"
  hm_notes :: "string option"

definition recordMaintenance :: "env \<Rightarrow> maintenanceBody option \<Rightarrow> 'a asset_db_scheme \<Rightarrow> maintenanceRecord resp \<times> 'a asset_db_scheme" where
  "recordMaintenance env body db = answer 201 db (
     bindE (parseBody (\<lambda>b. 0 \<le> GL_Routes.orKeep (hm_cost b) 0) body) (\<lambda>b.
     bindE (givenDate env (hm_scheduledDate b)) (\<lambda>scheduled.
     bindE (givenDate env (hm_completedDate b)) (\<lambda>completed.
     bindE (assetKnown (hm_assetId b) db) (\<lambda>_.
     let r = \<lparr>fn_id = newId env db, fn_institutionId = e_institutionId env, fn_assetId = hm_assetId b, fn_type = hm_type b,
           fn_scheduledDate = scheduled, fn_completedDate = completed, fn_serviceProvider = hm_serviceProvider b,
           fn_cost = toDec2 (GL_Routes.orKeep (hm_cost b) 0), fn_notes = hm_notes b, fn_createdById = e_userId env\<rparr>;
         db1 = db\<lparr>db_next := Suc (db_next db), db_maintenance := db_maintenance db @ [r]\<rparr>;
         db2 = (case completed of None \<Rightarrow> db1 | Some d \<Rightarrow> db1\<lparr>db_schedules := updWhere (\<lambda>s. fm_assetId s = hm_assetId b)
             (\<lambda>s. s\<lparr>fm_lastMaintenanceDate := Some d, fm_nextDueDate := plusMonths d (fm_frequencyMonths s)\<rparr>) (db_schedules db)\<rparr>)
     in Inr (r, audit env ''asset.maintenance_record'' ''asset'' (hm_assetId b) db2))))))"

section \<open>Depreciation\<close>

definition monthsElapsed :: "string \<Rightarrow> 'a asset_db_scheme \<Rightarrow> nat" where
  "monthsElapsed i db = countWhere (\<lambda>e. fd_assetId e = i) (db_depreciation db)"

definition assetDepreciation :: "asset \<Rightarrow> 'a asset_db_scheme \<Rightarrow> num" where
  "assetDepreciation a db = calculateMonthlyDepreciation
     \<lparr>dp_acquisitionCost = cents (fa_acquisitionCost a), dp_residualValue = cents (fa_residualValue a),
      dp_usefulLifeMonths = fa_usefulLifeMonths a, dp_method = fa_method a, dp_annualRate = map_option cents (fa_rate a),
      dp_accumulatedDepreciationSoFar = cents (fa_accumulatedDepreciation a), dp_monthsElapsed = int (monthsElapsed (fa_id a) db)\<rparr>"

text \<open>The journal, when both accounts are mapped and the period of today is open.\<close>

definition postDepreciation :: "env \<Rightarrow> asset \<Rightarrow> string \<Rightarrow> num \<Rightarrow> 'a asset_db_scheme \<Rightarrow> terr + string option \<times> 'a asset_db_scheme" where
  "postDepreciation env a label amount db =
     (case (accountIdByPurpose (e_institutionId env) (db_assetMappings db) ''Depreciation Expense'',
            accountIdByPurpose (e_institutionId env) (db_assetMappings db) ''Accumulated Depreciation'',
            findPostablePeriod (e_institutionId env) (e_now env) db) of
        (Some expense, Some accum, Some p) \<Rightarrow>
          if fp_status p \<noteq> FP_OPEN then Inr (None, db)
          else bindE (postJournal env (e_institutionId env) AUTOMATIC (''Depreciation - '' @ fa_assetCode a @ '' - '' @ label) (e_now env)
                 (e_userId env) (e_userId env) (withCategory db (buildAssetDepreciationLines amount expense accum)) db)
               (\<lambda>(j, db1). Inr (Some (jo_id j), db1))
      | _ \<Rightarrow> Inr (None, db))"

definition processDepreciation :: "env \<Rightarrow> string \<Rightarrow> string option \<Rightarrow> 'a asset_db_scheme \<Rightarrow> depreciationEntry resp \<times> 'a asset_db_scheme" where
  "processDepreciation env i label db = answer 201 db (
     bindE (require (truthy label) 400 (''periodLabel is required (e.g. '' @ quoted ''January 2026'' @ '')'')) (\<lambda>_.
     bindE (ownAsset env i db) (\<lambda>a.
     bindE (require (fa_status a \<noteq> FA_DISPOSED) 400 ''A disposed asset cannot be depreciated further'') (\<lambda>_.
     bindE (require (find (\<lambda>e. fd_assetId e = fa_id a \<and> fd_periodLabel e = the label) (db_depreciation db) = None) 400
       (''Depreciation for '' @ the label @ '' has already been posted for this asset'')) (\<lambda>_.
     let amount = assetDepreciation a db;
         accum = round2 (nadd (cents (fa_accumulatedDepreciation a)) amount) in
     bindE (require (0 < amount) 400 ''This asset is already fully depreciated'') (\<lambda>_.
     bindE (postDepreciation env a (the label) amount db) (\<lambda>(jid, db1).
     let e = \<lparr>fd_id = newId env db1, fd_institutionId = e_institutionId env, fd_assetId = fa_id a, fd_periodLabel = the label,
           fd_depreciationAmount = toDec2 amount, fd_accumulatedDepreciation = toDec2 accum,
           fd_netBookValue = toDec2 (round2 (nsub (cents (fa_acquisitionCost a)) accum)), fd_journalId = jid, fd_postedById = e_userId env\<rparr>
     in Inr (e, audit env ''asset.depreciation_posted'' ''asset'' (fa_id a)
          (updAsset (fa_id a) (\<lambda>a. a\<lparr>fa_accumulatedDepreciation := toDec2 accum\<rparr>)
            (db1\<lparr>db_next := Suc (db_next db1), db_depreciation := db_depreciation db1 @ [e]\<rparr>))))))))))"

section \<open>Disposal and verification\<close>

record disposalBody =
  hd_assetId :: string
  hd_disposalType :: disposalType
  hd_disposalDate :: string
  hd_saleProceeds :: "num option"
  hd_reason :: string

text \<open>An asset has at most one disposal, whatever became of it: the database refuses the second.\<close>

definition requestDisposal :: "env \<Rightarrow> disposalBody option \<Rightarrow> 'a asset_db_scheme \<Rightarrow> assetDisposal resp \<times> 'a asset_db_scheme" where
  "requestDisposal env body db = answer 202 db (
     bindE (parseBody (\<lambda>b. 0 \<le> GL_Routes.orKeep (hd_saleProceeds b) 0 \<and> 2 \<le> length (hd_reason b)) body) (\<lambda>b.
     bindE (require (hd_disposalType b = SALE \<longrightarrow> givenRate (hd_saleProceeds b)) 400 ''saleProceeds is required for a SALE disposal'') (\<lambda>_.
     bindE (ownAsset env (hd_assetId b) db) (\<lambda>a.
     bindE (require (fa_status a \<noteq> FA_DISPOSED) 400 ''This asset has already been disposed'') (\<lambda>_.
     bindE (orThrow Thrown (e_parseDate env (hd_disposalDate b))) (\<lambda>d.
     let nbv = round2 (nsub (cents (fa_acquisitionCost a)) (cents (fa_accumulatedDepreciation a)));
         z = \<lparr>fz_id = newId env db, fz_institutionId = e_institutionId env, fz_assetId = fa_id a, fz_disposalType = hd_disposalType b,
           fz_disposalDate = d, fz_saleProceeds = map_option toDec2 (hd_saleProceeds b), fz_netBookValueAtDisposal = toDec2 nbv,
           fz_gainLoss = toDec2 (round2 (nsub (GL_Routes.orKeep (hd_saleProceeds b) 0) nbv)), fz_reason = hd_reason b,
           fz_status = FZ_PENDING_APPROVAL, fz_requestedById = e_userId env, fz_approvedById = None, fz_journalId = None\<rparr>
     in if list_ex (\<lambda>x. fz_assetId x = fa_id a) (db_disposals db) then Inl Thrown
        else Inr (z, audit env ''asset_disposal.requested'' ''asset_disposal'' (fz_id z)
          (requestApproval env ASSET_DISPOSAL ''AssetDisposal'' (fz_id z) [] (hd_reason b)
            (db\<lparr>db_next := Suc (db_next db), db_disposals := db_disposals db @ [z]\<rparr>)))))))))"

record verificationBody =
  hv_assetId :: string
  hv_locationConfirmed :: bool
  hv_custodianConfirmed :: bool
  hv_condition :: assetCondition
  hv_latitude :: "num option"
  hv_longitude :: "num option"
  hv_notes :: "string option"

definition verificationVariance :: "verificationBody \<Rightarrow> bool" where
  "verificationVariance b \<longleftrightarrow> \<not> hv_locationConfirmed b \<or> \<not> hv_custodianConfirmed b \<or> hv_condition b = MISSING \<or> hv_condition b = DAMAGED"

definition verifyAsset :: "env \<Rightarrow> verificationBody option \<Rightarrow> 'a asset_db_scheme \<Rightarrow> verificationRecord resp \<times> 'a asset_db_scheme" where
  "verifyAsset env body db = answer 201 db (
     bindE (parseBody (\<lambda>_. True) body) (\<lambda>b.
     bindE (ownAsset env (hv_assetId b) db) (\<lambda>a.
     let v = \<lparr>fv_id = newId env db, fv_institutionId = e_institutionId env, fv_assetId = fa_id a, fv_verifiedById = e_userId env,
           fv_locationConfirmed = hv_locationConfirmed b, fv_custodianConfirmed = hv_custodianConfirmed b, fv_condition = hv_condition b,
           fv_latitude = hv_latitude b, fv_longitude = hv_longitude b, fv_notes = hv_notes b, fv_variance = verificationVariance b\<rparr>;
         db1 = db\<lparr>db_next := Suc (db_next db), db_verifications := db_verifications db @ [v]\<rparr>
     in Inr (v, audit env ''asset.verified'' ''asset'' (fa_id a)
          (if hv_condition b = MISSING then updAsset (fa_id a) (\<lambda>a. a\<lparr>fa_status := FA_LOST\<rparr>) db1 else db1)))))"

section \<open>Reports\<close>

definition netBookValue :: "asset \<Rightarrow> num" where
  "netBookValue a = round2 (nsub (cents (fa_acquisitionCost a)) (cents (fa_accumulatedDepreciation a)))"

definition assetRegister :: "env \<Rightarrow> 'a asset_db_scheme \<Rightarrow> (string \<times> assetStatus \<times> num \<times> num \<times> num) list" where
  "assetRegister env db = map (\<lambda>a. (fa_id a, fa_status a, cents (fa_acquisitionCost a), cents (fa_accumulatedDepreciation a), netBookValue a))
     (filter (\<lambda>a. fa_institutionId a = e_institutionId env) (db_assets db))"

definition heldAssets :: "env \<Rightarrow> 'a asset_db_scheme \<Rightarrow> asset list" where
  "heldAssets env db = filter (\<lambda>a. fa_institutionId a = e_institutionId env \<and> fa_status a \<noteq> FA_DISPOSED) (db_assets db)"

definition assetValuation :: "env \<Rightarrow> 'a asset_db_scheme \<Rightarrow> nat \<times> num \<times> num \<times> num" where
  "assetValuation env db =
     (let as = heldAssets env db;
          cost = round2 (nsum (map (\<lambda>a. cents (fa_acquisitionCost a)) as));
          accum = round2 (nsum (map (\<lambda>a. cents (fa_accumulatedDepreciation a)) as))
      in (length as, cost, accum, round2 (nsub cost accum)))"

text \<open>Age in months of 30.44 days, remaining life, and net book value.\<close>

definition assetLifecycle :: "env \<Rightarrow> 'a asset_db_scheme \<Rightarrow> (string \<times> int \<times> int \<times> num) list" where
  "assetLifecycle env db = map (\<lambda>a. (fa_id a,
     \<lfloor>ndiv (of_int (e_now env - fa_acquisitionDate a)) (nmul 86400000 (fl (3044 / 100)))\<rfloor>,
     max 0 (fa_usefulLifeMonths a - int (monthsElapsed (fa_id a) db)), netBookValue a)) (heldAssets env db)"

definition overdueMaintenance :: "env \<Rightarrow> 'a asset_db_scheme \<Rightarrow> (string \<times> time \<times> int) list" where
  "overdueMaintenance env db = map (\<lambda>s. (fm_assetId s, fm_nextDueDate s, (e_now env - fm_nextDueDate s) div msPerDay))
     (filter (\<lambda>s. fm_institutionId s = e_institutionId env \<and> fm_nextDueDate s < e_now env) (db_schedules db))"

definition assetsByBranch :: "env \<Rightarrow> 'a asset_db_scheme \<Rightarrow> (string \<times> nat \<times> num) list" where
  "assetsByBranch env db =
     (let as = heldAssets env db; key = (\<lambda>a. orMessage (fa_currentBranchId a) ''unassigned'');
          name = (\<lambda>a. if \<not> truthy (fa_currentBranchId a) then ''Unassigned''
            else (case find (\<lambda>(j, _). Some j = fa_currentBranchId a) (db_branches db) of
              None \<Rightarrow> ''Unknown'' | Some (_, n) \<Rightarrow> if n = [] then ''Unknown'' else n))
      in map (\<lambda>k. let own = filter (\<lambda>a. key a = k) as in
           (name (hd own), length own, round2 (nsum (map (\<lambda>a. cents (fa_acquisitionCost a)) own))))
         (rev (remdups (rev (map key as)))))"

section \<open>Transfers between branches\<close>

text \<open>A general ledger account is created with the settlement account; its code is unique at the institution.\<close>

definition settlementOf :: "string \<Rightarrow> 'a asset_db_scheme \<Rightarrow> settlementAccount option" where
  "settlementOf branch db = find (\<lambda>s. iz_branchId s = branch) (db_settlementAccounts db)"

definition createSettlementAccount ::
  "env \<Rightarrow> (string \<times> string \<times> string) option \<Rightarrow> 'a asset_db_scheme \<Rightarrow> settlementAccount resp \<times> 'a asset_db_scheme" where
  "createSettlementAccount env body db = answer 201 db (
     bindE (parseBody (\<lambda>_. True) body) (\<lambda>(branch, cd, name).
     bindE (require (settlementOf branch db = None) 400 ''This branch already has a settlement account'') (\<lambda>_.
     let a = \<lparr>ga_id = newId env db, ga_institutionId = e_institutionId env, ga_code = cd, ga_name = name, ga_category = LIABILITY,
           ga_parentId = None, ga_branchId = Some branch, ga_status = GA_ACTIVE, ga_balance = 0, ga_cashFlowActivity = None,
           ga_isLiquidAsset = False, ga_isVolatileLiability = False, ga_capitalTier = None, ga_baselRiskWeightPercent = None\<rparr>;
         s = \<lparr>iz_id = e_uuid env (Suc (db_next db)), iz_institutionId = e_institutionId env, iz_branchId = branch, iz_glAccountId = ga_id a\<rparr>
     in if list_ex (\<lambda>x. ga_institutionId x = e_institutionId env \<and> ga_code x = cd) (db_glAccounts db) then Inl Thrown
        else Inr (s, audit env ''branch_settlement_account.create'' ''branch_settlement_account'' (iz_id s)
          (db\<lparr>db_next := Suc (Suc (db_next db)), db_glAccounts := db_glAccounts db @ [a],
             db_settlementAccounts := db_settlementAccounts db @ [s]\<rparr>)))))"

record interBranchBody =
  hx_fromBranchId :: string
  hx_toBranchId :: string
  hx_fromGLAccountId :: string
  hx_toGLAccountId :: string
  hx_amount :: num
  hx_description :: string

text \<open>The two accounts are not looked up, and the settlement accounts are found by branch alone.\<close>

definition requestInterBranch :: "env \<Rightarrow> interBranchBody option \<Rightarrow> 'a asset_db_scheme \<Rightarrow> interBranchTransfer resp \<times> 'a asset_db_scheme" where
  "requestInterBranch env body db = answer 202 db (
     bindE (parseBody (\<lambda>b. 0 < hx_amount b \<and> 2 \<le> length (hx_description b)) body) (\<lambda>b.
     bindE (require (hx_fromBranchId b \<noteq> hx_toBranchId b) 400 ''Source and destination branches must differ'') (\<lambda>_.
     bindE (require (settlementOf (hx_fromBranchId b) db \<noteq> None \<and> settlementOf (hx_toBranchId b) db \<noteq> None) 400
       ''Both branches must have a settlement account set up first'') (\<lambda>_.
     let t = \<lparr>ix_id = newId env db, ix_institutionId = e_institutionId env, ix_fromBranchId = hx_fromBranchId b,
           ix_toBranchId = hx_toBranchId b, ix_fromGLAccountId = hx_fromGLAccountId b, ix_toGLAccountId = hx_toGLAccountId b,
           ix_amount = toDec2 (hx_amount b), ix_description = hx_description b, ix_status = IX_PENDING_APPROVAL, ix_journalId = None,
           ix_requestedById = e_userId env\<rparr>
     in Inr (t, audit env ''inter_branch_transfer.requested'' ''inter_branch_transfer'' (ix_id t)
          (requestApproval env INTER_BRANCH_TRANSFER ''InterBranchTransfer'' (ix_id t) [] (hx_description b)
            (db\<lparr>db_next := Suc (db_next db), db_interBranch := db_interBranch db @ [t]\<rparr>)))))))"

definition settlementPosition :: "glCategory \<Rightarrow> num \<Rightarrow> string" where
  "settlementPosition c bal = (if c \<in> {ASSET, EXPENSE} then (if 0 \<le> bal then ''Due From others'' else ''Due To others'')
     else (if 0 \<le> bal then ''Due To others'' else ''Due From others''))"

text \<open>Each settlement account with its balance and position, the net total, and whether it is zero.\<close>

definition outstandingBalances :: "env \<Rightarrow> 'a asset_db_scheme \<Rightarrow> ((string \<times> num \<times> string) list \<times> num \<times> bool) \<times> 'a asset_db_scheme" where
  "outstandingBalances env db =
     (let rows = concat (map (\<lambda>s. case accountById (iz_glAccountId s) db of None \<Rightarrow> []
            | Some a \<Rightarrow> [(iz_branchId s, cents (ga_balance a), settlementPosition (ga_category a) (cents (ga_balance a)))])
            (filter (\<lambda>s. iz_institutionId s = e_institutionId env) (db_settlementAccounts db)));
          net = round2 (nsum (map (fst \<circ> snd) rows))
      in ((rows, net, \<bar>net\<bar> < cents 1), audit env ''gl_report.generated'' ''gl_report'' ''inter-branch-outstanding'' db))"

end
