(* ===== verification/Loan_Services.thy ===== *)
theory Loan_Services
  imports Scheduler
begin

text \<open>
  Around a loan (\<open>routes/loan.routes.ts\<close>, the rest of the file): holders, promises to pay, penalties and
  their waivers, the arrears check on demand, credit assessment and override, guarantors, collateral,
  and the requests to restructure, reschedule and write off, which take effect only on approval.
\<close>

section \<open>Holders\<close>

abbreviation loanOf :: "env \<Rightarrow> string \<Rightarrow> 'a loan_db_scheme \<Rightarrow> terr + loan" where
  "loanOf env i db \<equiv> orThrow (Http 404 ''Loan not found'') (ownLoan env i db)"

definition addLoanHolder :: "env \<Rightarrow> string \<Rightarrow> (string \<times> holderRole) option \<Rightarrow> 'a loan_db_scheme \<Rightarrow> unit resp \<times> 'a loan_db_scheme" where
  "addLoanHolder env i body db = answer 202 db (
     bindE (parseBody (\<lambda>_. True) body) (\<lambda>(cid, role).
     bindE (loanOf env i db) (\<lambda>l.
     bindE (require (cid \<noteq> ln_customerId l) 400 ''This customer is already the primary holder'') (\<lambda>_.
     bindE (orThrow (Http 404 ''Customer not found'') (ownCustomer env cid db)) (\<lambda>_.
     Inr ((), audit env ''loan.holder_add_requested'' ''loan'' (ln_id l)
       (requestApproval env ACCOUNT_HOLDER_ADD ''Loan'' (ln_id l)
         [(''customerId'', JStr cid), (''role'', JStr (showHolderRole role)), (''loanId'', JStr (ln_id l))]
         (''Add '' @ showHolderRole role @ '' holder to loan'') db)))))))"

definition removeLoanHolder :: "env \<Rightarrow> string \<Rightarrow> string \<Rightarrow> 'a loan_db_scheme \<Rightarrow> unit resp \<times> 'a loan_db_scheme" where
  "removeLoanHolder env i holderId db = answer 204 db (
     bindE (loanOf env i db) (\<lambda>l.
     Inr ((), audit env ''loan.holder_remove'' ''loan'' (ln_id l)
       (db\<lparr>db_holders := updWhere (\<lambda>h. ah_id h = holderId \<and> ah_loanId h = Some (ln_id l))
          (\<lambda>h. h\<lparr>ah_deletedAt := Some (e_now env)\<rparr>) (db_holders db)\<rparr>))))"

section \<open>Promises to pay\<close>

record promiseBody =
  qb_promisedAmount :: num
  qb_promisedDate :: string
  qb_notes :: "string option"

definition recordPromise :: "env \<Rightarrow> string \<Rightarrow> promiseBody option \<Rightarrow> 'a loan_db_scheme \<Rightarrow> promiseToPay resp \<times> 'a loan_db_scheme" where
  "recordPromise env i body db = answer 201 db (
     bindE (parseBody (\<lambda>b. 0 < qb_promisedAmount b) body) (\<lambda>b.
     bindE (loanOf env i db) (\<lambda>l.
     bindE (orThrow Thrown (e_parseDate env (qb_promisedDate b))) (\<lambda>d.
     let p = \<lparr>pp_id = newId env db, pp_institutionId = e_institutionId env, pp_loanId = ln_id l,
           pp_promisedAmount = toDec2 (qb_promisedAmount b), pp_promisedDate = d, pp_status = PP_PENDING,
           pp_notes = qb_notes b, pp_recordedById = Some (e_userId env)\<rparr>
     in Inr (p, audit env ''loan.promise_to_pay_recorded'' ''loan'' (ln_id l)
          (db\<lparr>db_next := Suc (db_next db), db_promises := db_promises db @ [p]\<rparr>))))))"

text \<open>The status in the body, if it is one of the column.\<close>

definition resolvePromise :: "env \<Rightarrow> string \<Rightarrow> promiseStatus option \<Rightarrow> 'a loan_db_scheme \<Rightarrow> promiseToPay resp \<times> 'a loan_db_scheme" where
  "resolvePromise env i st db = answer 200 db (
     bindE (require (st \<in> {Some PP_KEPT, Some PP_BROKEN}) 400 ''status must be KEPT or BROKEN'') (\<lambda>_.
     bindE (orThrow (Http 404 ''Promise not found'')
       (find (\<lambda>p. pp_id p = i \<and> pp_institutionId p = e_institutionId env) (db_promises db))) (\<lambda>p.
     let f = (\<lambda>q. q\<lparr>pp_status := the st\<rparr>)
     in Inr (f p, db\<lparr>db_promises := updWhere (\<lambda>q. pp_id q = pp_id p) f (db_promises db)\<rparr>))))"

section \<open>Penalties\<close>

record penaltyBody =
  eb_installmentId :: "string option"
  eb_percentage :: bool
  eb_rateOrAmount :: num

definition penaltyAmount :: "loan \<Rightarrow> penaltyBody \<Rightarrow> num" where
  "penaltyAmount l b = (if \<not> eb_percentage b then round2 (eb_rateOrAmount b)
     else round2 (nmul (cents (ln_arrearsAmount l)) (ndiv (eb_rateOrAmount b) 100)))"

definition applyPenalty :: "env \<Rightarrow> string \<Rightarrow> penaltyBody option \<Rightarrow> 'a loan_db_scheme \<Rightarrow> loanPenalty resp \<times> 'a loan_db_scheme" where
  "applyPenalty env i body db = answer 201 db (
     bindE (parseBody (\<lambda>b. 0 < eb_rateOrAmount b) body) (\<lambda>b.
     bindE (loanOf env i db) (\<lambda>l.
     bindE (require (0 < penaltyAmount l b) 400
       ''Computed penalty amount must be greater than 0 - this loan may not currently be in arrears'') (\<lambda>_.
     let p = \<lparr>pe_id = newId env db, pe_institutionId = e_institutionId env, pe_loanId = ln_id l,
           pe_installmentId = eb_installmentId b, pe_percentage = eb_percentage b, pe_rateOrAmount = toDec2 (eb_rateOrAmount b),
           pe_amount = toDec2 (penaltyAmount l b), pe_status = PE_APPLIED, pe_waivedById = None, pe_waivedAt = None,
           pe_waivedReason = None\<rparr>
     in Inr (p, audit env ''loan.penalty_applied'' ''loan'' (ln_id l)
          (db\<lparr>db_next := Suc (db_next db), db_penalties := db_penalties db @ [p]\<rparr>))))))"

fun showPenaltyStatus :: "penaltyStatus \<Rightarrow> string" where
  "showPenaltyStatus PE_APPLIED = ''APPLIED''"
| "showPenaltyStatus PE_WAIVED = ''WAIVED''"
| "showPenaltyStatus PE_REVERSED = ''REVERSED''"

definition ownPenalty :: "env \<Rightarrow> string \<Rightarrow> 'a loan_db_scheme \<Rightarrow> terr + loanPenalty" where
  "ownPenalty env i db = orThrow (Http 404 ''Penalty not found'')
     (find (\<lambda>p. pe_id p = i \<and> pe_institutionId p = e_institutionId env) (db_penalties db))"

definition settlePenalty :: "env \<Rightarrow> penaltyStatus \<Rightarrow> string option \<Rightarrow> string \<Rightarrow> loanPenalty \<Rightarrow> 'a loan_db_scheme \<Rightarrow> loanPenalty \<times> 'a loan_db_scheme" where
  "settlePenalty env st reason action p db =
     (let f = (\<lambda>q. q\<lparr>pe_status := st, pe_waivedById := Some (e_userId env), pe_waivedAt := Some (e_now env),
            pe_waivedReason := Customer_Care.orKeep reason (pe_waivedReason q)\<rparr>)
      in (f p, audit env action ''loan'' (pe_loanId p)
           (db\<lparr>db_penalties := updWhere (\<lambda>q. pe_id q = pe_id p) f (db_penalties db)\<rparr>)))"

definition waivePenalty :: "env \<Rightarrow> string \<Rightarrow> string option \<Rightarrow> 'a loan_db_scheme \<Rightarrow> loanPenalty resp \<times> 'a loan_db_scheme" where
  "waivePenalty env i reason db = answer 200 db (
     bindE (ownPenalty env i db) (\<lambda>p.
     bindE (require (pe_status p = PE_APPLIED) 400
       (''Only an APPLIED penalty can be waived (currently '' @ showPenaltyStatus (pe_status p) @ '')'')) (\<lambda>_.
     Inr (settlePenalty env PE_WAIVED reason ''loan.penalty_waived'' p db))))"

definition reversePenalty :: "env \<Rightarrow> string \<Rightarrow> string option \<Rightarrow> 'a loan_db_scheme \<Rightarrow> loanPenalty resp \<times> 'a loan_db_scheme" where
  "reversePenalty env i reason db = answer 200 db (
     bindE (ownPenalty env i db) (\<lambda>p.
     bindE (require (pe_status p \<noteq> PE_REVERSED) 400 ''This penalty is already reversed'') (\<lambda>_.
     Inr (settlePenalty env PE_REVERSED reason ''loan.penalty_reversed'' p db))))"

definition runArrearsNow :: "env \<Rightarrow> 'a loan_db_scheme \<Rightarrow> unit resp \<times> 'a loan_db_scheme" where
  "runArrearsNow env db = (case runArrearsCheck env db of (Some e, db1) \<Rightarrow> answerError e db1 | (None, db1) \<Rightarrow> (ROk 200 (), db1))"

section \<open>Credit assessment\<close>

record assessmentBody =
  jb_monthlyIncome :: num
  jb_monthlyExpenses :: num
  jb_creditBureauChecked :: "bool option"
  jb_creditBureauNotes :: "string option"

text \<open>The other open loans of the customer, at any institution, each with its first unpaid installment.\<close>

definition otherLoans :: "loan \<Rightarrow> 'a loan_db_scheme \<Rightarrow> loan list" where
  "otherLoans l db = filter (\<lambda>x. ln_customerId x = ln_customerId l \<and> liveLoan x \<and> ln_id x \<noteq> ln_id l) (db_loans db)"

definition nextInstallment :: "string \<Rightarrow> loanInstallment list \<Rightarrow> loanInstallment option" where
  "nextInstallment i rs = (case sort_key li_installmentNumber (filter (\<lambda>r. li_loanId r = i \<and> li_status r \<in> {I_PENDING, I_PARTIALLY_PAID}) rs) of
     [] \<Rightarrow> None | r # _ \<Rightarrow> Some r)"

definition existingObligations :: "loan \<Rightarrow> 'a loan_db_scheme \<Rightarrow> num" where
  "existingObligations l db = round2 (nsum (map (\<lambda>x. case nextInstallment (ln_id x) (db_installments db) of
      None \<Rightarrow> 0 | Some r \<Rightarrow> cents (li_totalDue r)) (otherLoans l db)))"

definition loanCreditInput :: "(num \<Rightarrow> num \<Rightarrow> num) \<Rightarrow> loan \<Rightarrow> assessmentBody \<Rightarrow> 'a loan_db_scheme \<Rightarrow> terr + creditInput" where
  "loanCreditInput pow l b db =
     (case generateSchedule pow (cents (ln_principal l)) (ln_interestRate l) (ln_termMonths l) (ln_interestMethod l) (ln_createdAt l) of
        [] \<Rightarrow> Inl Thrown
      | s # _ \<Rightarrow> Inr \<lparr>ci_monthlyIncome = jb_monthlyIncome b, ci_monthlyExpenses = jb_monthlyExpenses b,
          ci_existingLoanObligations = existingObligations l db,
          ci_proposedInstallment = round2 (nadd (sr_principalDue s) (sr_interestDue s)),
          ci_customerRiskRating = customerRating (find (\<lambda>c. customer.cu_id c = ln_customerId l) (db_customers db)),
          ci_hasLoansInArrears = list_ex (\<lambda>x. ln_arrearsClassification x \<noteq> CURRENT) (otherLoans l db)\<rparr>)"

text \<open>The two ratios are stored with two decimals and three digits before them; a larger one is an error.\<close>

definition ratioFits :: "num \<Rightarrow> bool" where
  "ratioFits x \<longleftrightarrow> \<bar>toDec2 x\<bar> < 100000"

definition assessLoan :: "(num \<Rightarrow> num \<Rightarrow> num) \<Rightarrow> env \<Rightarrow> string \<Rightarrow> assessmentBody option \<Rightarrow> 'a loan_db_scheme \<Rightarrow> creditAssessment resp \<times> 'a loan_db_scheme" where
  "assessLoan pow env i body db = answer 201 db (
     bindE (parseBody (\<lambda>b. 0 \<le> jb_monthlyIncome b \<and> 0 \<le> jb_monthlyExpenses b) body) (\<lambda>b.
     bindE (loanOf env i db) (\<lambda>l.
     bindE (require (find (\<lambda>a. as_loanId a = ln_id l) (db_assessments db) = None) 400
       ''This loan already has a credit assessment - an assessment is not re-run, only overridden if needed'') (\<lambda>_.
     bindE (loanCreditInput pow l b db) (\<lambda>inp.
     let r = assessCredit inp;
         a = \<lparr>as_id = newId env db, as_institutionId = e_institutionId env, as_loanId = ln_id l,
           as_monthlyIncome = toDec2 (jb_monthlyIncome b), as_monthlyExpenses = toDec2 (jb_monthlyExpenses b),
           as_existingLoanObligations = toDec2 (ci_existingLoanObligations inp), as_proposedInstallment = toDec2 (ci_proposedInstallment inp),
           as_debtToIncomeRatio = toDec2 (cr_debtToIncomeRatio r), as_repaymentCapacityRatio = toDec2 (cr_repaymentCapacityRatio r),
           as_riskScore = cr_riskScore r, as_scoreBreakdown = cr_scoreBreakdown r, as_recommendation = cr_recommendation r,
           as_creditBureauChecked = GL_Routes.orKeep (jb_creditBureauChecked b) False, as_creditBureauNotes = jb_creditBureauNotes b,
           as_overridden = False, as_overriddenById = None, as_overriddenAt = None, as_overrideReason = None,
           as_assessedById = e_userId env\<rparr>
     in if \<not> ratioFits (cr_debtToIncomeRatio r) \<or> \<not> ratioFits (cr_repaymentCapacityRatio r) then Inl Thrown
        else Inr (a, audit env ''loan.credit_assessment_created'' ''loan'' (ln_id l)
          (db\<lparr>db_next := Suc (db_next db), db_assessments := db_assessments db @ [a]\<rparr>)))))))"

definition overrideAssessment :: "env \<Rightarrow> string \<Rightarrow> string option \<Rightarrow> 'a loan_db_scheme \<Rightarrow> creditAssessment resp \<times> 'a loan_db_scheme" where
  "overrideAssessment env i reason db = answer 200 db (
     bindE (require (truthy reason) 400 ''A reason is required to override a credit assessment'') (\<lambda>_.
     bindE (loanOf env i db) (\<lambda>l.
     bindE (orThrow (Http 404 ''No credit assessment exists for this loan yet'')
       (find (\<lambda>a. as_loanId a = ln_id l) (db_assessments db))) (\<lambda>a.
     let f = (\<lambda>x. x\<lparr>as_overridden := True, as_overriddenById := Some (e_userId env), as_overriddenAt := Some (e_now env),
            as_overrideReason := reason\<rparr>)
     in Inr (f a, audit env ''loan.credit_assessment_overridden'' ''loan'' (ln_id l)
          (db\<lparr>db_assessments := updWhere (\<lambda>x. as_id x = as_id a) f (db_assessments db)\<rparr>))))))"

section \<open>Guarantors\<close>

record guarantorBody =
  ub_fullName :: string
  ub_phone :: string
  ub_idType :: "string option"
  ub_idNumber :: "string option"
  ub_relationship :: string
  ub_monthlyIncome :: "num option"
  ub_guaranteeLimit :: num

definition guarantorSchema :: "guarantorBody \<Rightarrow> bool" where
  "guarantorSchema b \<longleftrightarrow> 2 \<le> length (ub_fullName b) \<and> 6 \<le> length (ub_phone b) \<and> ub_relationship b \<noteq> []
     \<and> (case ub_monthlyIncome b of None \<Rightarrow> True | Some x \<Rightarrow> 0 \<le> x) \<and> 0 < ub_guaranteeLimit b"

definition activeGuarantors :: "string \<Rightarrow> guarantor list \<Rightarrow> guarantor list" where
  "activeGuarantors i gs = filter (\<lambda>g. gr_loanId g = i \<and> gr_status g \<noteq> GR_RELEASED) gs"

definition totalPledged :: "string \<Rightarrow> guarantor list \<Rightarrow> num" where
  "totalPledged i gs = nsum (map (\<lambda>g. cents (gr_guaranteeLimit g)) (activeGuarantors i gs))"

definition registerGuarantor ::
  "(num \<Rightarrow> string) \<Rightarrow> env \<Rightarrow> string \<Rightarrow> guarantorBody option \<Rightarrow> 'a loan_db_scheme \<Rightarrow> guarantor resp \<times> 'a loan_db_scheme" where
  "registerGuarantor toLocale env i body db = answer 201 db (
     bindE (parseBody guarantorSchema body) (\<lambda>b.
     bindE (loanOf env i db) (\<lambda>l.
     let tot = nadd (totalPledged (ln_id l) (db_guarantors db)) (ub_guaranteeLimit b) in
     bindE (require (tot \<le> cents (ln_principal l)) 400 (''Total guarantee limits (GHS '' @ toLocale tot
       @ '') would exceed the loan principal (GHS '' @ toLocale (cents (ln_principal l)) @ '')'')) (\<lambda>_.
     let g = \<lparr>gr_id = newId env db, gr_institutionId = e_institutionId env, gr_loanId = ln_id l, gr_fullName = ub_fullName b,
           gr_phone = ub_phone b, gr_idType = ub_idType b, gr_idNumber = ub_idNumber b, gr_relationship = ub_relationship b,
           gr_monthlyIncome = map_option toDec2 (ub_monthlyIncome b), gr_guaranteeLimit = toDec2 (ub_guaranteeLimit b),
           gr_status = GR_PENDING, gr_approvedById = None, gr_approvedAt = None, gr_releasedById = None, gr_releasedAt = None,
           gr_releaseReason = None\<rparr>
     in Inr (g, audit env ''loan.guarantor_registered'' ''loan'' (ln_id l)
          (db\<lparr>db_next := Suc (db_next db), db_guarantors := db_guarantors db @ [g]\<rparr>))))))"

fun showGuarantorStatus :: "guarantorStatus \<Rightarrow> string" where
  "showGuarantorStatus GR_PENDING = ''PENDING''"
| "showGuarantorStatus GR_APPROVED = ''APPROVED''"
| "showGuarantorStatus GR_RELEASED = ''RELEASED''"

definition ownGuarantor :: "env \<Rightarrow> string \<Rightarrow> 'a loan_db_scheme \<Rightarrow> terr + guarantor" where
  "ownGuarantor env i db = orThrow (Http 404 ''Guarantor not found'')
     (find (\<lambda>g. gr_id g = i \<and> gr_institutionId g = e_institutionId env) (db_guarantors db))"

definition updGuarantor :: "string \<Rightarrow> (guarantor \<Rightarrow> guarantor) \<Rightarrow> 'a loan_db_scheme \<Rightarrow> 'a loan_db_scheme" where
  "updGuarantor i f db = db\<lparr>db_guarantors := updWhere (\<lambda>g. gr_id g = i) f (db_guarantors db)\<rparr>"

definition approveGuarantor :: "env \<Rightarrow> string \<Rightarrow> 'a loan_db_scheme \<Rightarrow> guarantor resp \<times> 'a loan_db_scheme" where
  "approveGuarantor env i db = answer 200 db (
     bindE (ownGuarantor env i db) (\<lambda>g.
     bindE (require (gr_status g = GR_PENDING) 400
       (''Only a PENDING guarantor can be approved (currently '' @ showGuarantorStatus (gr_status g) @ '')'')) (\<lambda>_.
     let f = (\<lambda>x. x\<lparr>gr_status := GR_APPROVED, gr_approvedById := Some (e_userId env), gr_approvedAt := Some (e_now env)\<rparr>)
     in Inr (f g, audit env ''loan.guarantor_approved'' ''loan'' (gr_loanId g) (updGuarantor (gr_id g) f db)))))"

definition releaseGuarantor :: "env \<Rightarrow> string \<Rightarrow> string option \<Rightarrow> 'a loan_db_scheme \<Rightarrow> guarantor resp \<times> 'a loan_db_scheme" where
  "releaseGuarantor env i reason db = answer 200 db (
     bindE (ownGuarantor env i db) (\<lambda>g.
     bindE (require (gr_status g \<noteq> GR_RELEASED) 400 ''This guarantor is already released'') (\<lambda>_.
     let f = (\<lambda>x. x\<lparr>gr_status := GR_RELEASED, gr_releasedById := Some (e_userId env), gr_releasedAt := Some (e_now env),
            gr_releaseReason := Customer_Care.orKeep reason (gr_releaseReason x)\<rparr>)
     in Inr (f g, audit env ''loan.guarantor_released'' ''loan'' (gr_loanId g) (updGuarantor (gr_id g) f db)))))"

section \<open>Collateral\<close>

record collateralBody =
  vb_type :: collateralType
  vb_description :: string
  vb_ownerName :: string
  vb_ownershipVerified :: "bool option"
  vb_estimatedValue :: num
  vb_valuationDate :: string
  vb_insuranceRequired :: "bool option"
  vb_insurancePolicyNo :: "string option"
  vb_insuranceExpiryDate :: "string option"

definition registerCollateral :: "env \<Rightarrow> string \<Rightarrow> collateralBody option \<Rightarrow> 'a loan_db_scheme \<Rightarrow> collateral resp \<times> 'a loan_db_scheme" where
  "registerCollateral env i body db = answer 201 db (
     bindE (parseBody (\<lambda>b. 2 \<le> length (vb_description b) \<and> 2 \<le> length (vb_ownerName b) \<and> 0 < vb_estimatedValue b) body) (\<lambda>b.
     bindE (loanOf env i db) (\<lambda>l.
     bindE (require (ln_status l \<in> {LN_APPROVED, LN_DISBURSED, LN_ACTIVE}) 400
       ''Collateral can only be linked to an APPROVED or later-stage loan'') (\<lambda>_.
     bindE (orThrow Thrown (e_parseDate env (vb_valuationDate b))) (\<lambda>d.
     bindE (givenDate env (vb_insuranceExpiryDate b)) (\<lambda>expiry.
     let c = \<lparr>cl_id = newId env db, cl_institutionId = e_institutionId env, cl_loanId = ln_id l, cl_type = vb_type b,
           cl_description = vb_description b, cl_ownerName = vb_ownerName b, cl_ownershipVerified = GL_Routes.orKeep (vb_ownershipVerified b) False,
           cl_estimatedValue = toDec2 (vb_estimatedValue b), cl_valuationDate = d, cl_valuedById = Some (e_userId env),
           cl_insuranceRequired = GL_Routes.orKeep (vb_insuranceRequired b) False, cl_insurancePolicyNo = vb_insurancePolicyNo b,
           cl_insuranceExpiryDate = expiry, cl_status = CL_PLEDGED, cl_releasedById = None, cl_releasedAt = None,
           cl_releaseReason = None, cl_realisedAt = None, cl_realisedAmount = None\<rparr>
     in Inr (c, audit env ''loan.collateral_registered'' ''loan'' (ln_id l)
          (db\<lparr>db_next := Suc (db_next db), db_collateral := db_collateral db @ [c]\<rparr>))))))))"

fun showCollateralStatus :: "collateralStatus \<Rightarrow> string" where
  "showCollateralStatus CL_PLEDGED = ''PLEDGED''"
| "showCollateralStatus CL_RELEASED = ''RELEASED''"
| "showCollateralStatus CL_REALISED = ''REALISED''"

definition ownCollateral :: "env \<Rightarrow> string \<Rightarrow> 'a loan_db_scheme \<Rightarrow> terr + collateral" where
  "ownCollateral env i db = orThrow (Http 404 ''Collateral not found'')
     (find (\<lambda>c. cl_id c = i \<and> cl_institutionId c = e_institutionId env) (db_collateral db))"

definition updCollateral :: "string \<Rightarrow> (collateral \<Rightarrow> collateral) \<Rightarrow> 'a loan_db_scheme \<Rightarrow> 'a loan_db_scheme" where
  "updCollateral i f db = db\<lparr>db_collateral := updWhere (\<lambda>c. cl_id c = i) f (db_collateral db)\<rparr>"

text \<open>A number in an unchecked body: absent, or anything.\<close>

definition revalueCollateral :: "env \<Rightarrow> string \<Rightarrow> num option \<Rightarrow> 'a loan_db_scheme \<Rightarrow> collateral resp \<times> 'a loan_db_scheme" where
  "revalueCollateral env i x db = answer 200 db (
     bindE (require (case x of None \<Rightarrow> False | Some v \<Rightarrow> 0 < v) 400 ''estimatedValue must be positive'') (\<lambda>_.
     bindE (ownCollateral env i db) (\<lambda>c.
     let f = (\<lambda>c. c\<lparr>cl_estimatedValue := toDec2 (the x), cl_valuationDate := e_now env, cl_valuedById := Some (e_userId env)\<rparr>)
     in Inr (f c, audit env ''loan.collateral_revalued'' ''loan'' (cl_loanId c) (updCollateral (cl_id c) f db)))))"

definition releaseCollateral :: "env \<Rightarrow> string \<Rightarrow> string option \<Rightarrow> 'a loan_db_scheme \<Rightarrow> collateral resp \<times> 'a loan_db_scheme" where
  "releaseCollateral env i reason db = answer 200 db (
     bindE (ownCollateral env i db) (\<lambda>c.
     bindE (require (cl_status c = CL_PLEDGED) 400
       (''Only PLEDGED collateral can be released (currently '' @ showCollateralStatus (cl_status c) @ '')'')) (\<lambda>_.
     let f = (\<lambda>x. x\<lparr>cl_status := CL_RELEASED, cl_releasedById := Some (e_userId env), cl_releasedAt := Some (e_now env),
            cl_releaseReason := Customer_Care.orKeep reason (cl_releaseReason x)\<rparr>)
     in Inr (f c, audit env ''loan.collateral_released'' ''loan'' (cl_loanId c) (updCollateral (cl_id c) f db)))))"

definition realiseCollateral :: "env \<Rightarrow> string \<Rightarrow> num option \<Rightarrow> 'a loan_db_scheme \<Rightarrow> collateral resp \<times> 'a loan_db_scheme" where
  "realiseCollateral env i x db = answer 200 db (
     bindE (require (case x of None \<Rightarrow> False | Some v \<Rightarrow> v \<noteq> 0 \<and> \<not> v < 0) 400 ''realisedAmount must be provided'') (\<lambda>_.
     bindE (ownCollateral env i db) (\<lambda>c.
     bindE (require (cl_status c = CL_PLEDGED) 400
       (''Only PLEDGED collateral can be realised (currently '' @ showCollateralStatus (cl_status c) @ '')'')) (\<lambda>_.
     let f = (\<lambda>c. c\<lparr>cl_status := CL_REALISED, cl_realisedAt := Some (e_now env), cl_realisedAmount := Some (toDec2 (the x))\<rparr>)
     in Inr (f c, audit env ''loan.collateral_realised'' ''loan'' (cl_loanId c) (updCollateral (cl_id c) f db))))))"

section \<open>Restructuring, rescheduling, write-off\<close>

record restructureBody =
  zb_newPrincipal :: num
  zb_newRate :: num
  zb_newTermMonths :: int
  zb_reason :: string

definition requestRestructure :: "env \<Rightarrow> string \<Rightarrow> restructureBody option \<Rightarrow> 'a loan_db_scheme \<Rightarrow> unit resp \<times> 'a loan_db_scheme" where
  "requestRestructure env i body db = answer 202 db (
     bindE (parseBody (\<lambda>b. 0 < zb_newPrincipal b \<and> 0 \<le> zb_newRate b \<and> 0 < zb_newTermMonths b \<and> 2 \<le> length (zb_reason b)) body) (\<lambda>b.
     bindE (loanOf env i db) (\<lambda>l.
     bindE (require (liveLoan l) 400 ''Only a disbursed/active loan can be restructured'') (\<lambda>_.
     let r = \<lparr>rs_id = newId env db, rs_loanId = ln_id l, rs_originalPrincipal = ln_principal l, rs_originalRate = ln_interestRate l,
           rs_originalTermMonths = ln_termMonths l, rs_newPrincipal = toDec2 (zb_newPrincipal b), rs_newRate = milli (toDec3 (zb_newRate b)),
           rs_newTermMonths = zb_newTermMonths b, rs_reason = zb_reason b, rs_requestedById = e_userId env, rs_appliedAt = None\<rparr>
     in Inr ((), audit env ''loan.restructure_requested'' ''loan'' (ln_id l)
          (requestApproval env LOAN_RESTRUCTURE ''LoanRestructure'' (rs_id r) [(''loanId'', JStr (ln_id l))] (zb_reason b)
            (db\<lparr>db_next := Suc (db_next db), db_restructures := db_restructures db @ [r]\<rparr>)))))))"

definition requestReschedule :: "env \<Rightarrow> string \<Rightarrow> (int \<times> string) option \<Rightarrow> 'a loan_db_scheme \<Rightarrow> unit resp \<times> 'a loan_db_scheme" where
  "requestReschedule env i body db = answer 202 db (
     bindE (parseBody (\<lambda>(shift, reason). shift \<noteq> 0 \<and> 2 \<le> length reason) body) (\<lambda>(shift, reason).
     bindE (loanOf env i db) (\<lambda>l.
     bindE (require (liveLoan l) 400 ''Only a disbursed/active loan can be rescheduled'') (\<lambda>_.
     let r = \<lparr>rd_id = newId env db, rd_loanId = ln_id l, rd_shiftDays = shift, rd_reason = reason, rd_requestedById = e_userId env,
           rd_appliedAt = None\<rparr>
     in Inr ((), audit env ''loan.reschedule_requested'' ''loan'' (ln_id l)
          (requestApproval env LOAN_RESCHEDULE ''LoanReschedule'' (rd_id r) [(''loanId'', JStr (ln_id l))] reason
            (db\<lparr>db_next := Suc (db_next db), db_reschedules := db_reschedules db @ [r]\<rparr>)))))))"

definition requestWriteOff :: "env \<Rightarrow> string \<Rightarrow> (num \<times> string) option \<Rightarrow> 'a loan_db_scheme \<Rightarrow> unit resp \<times> 'a loan_db_scheme" where
  "requestWriteOff env i body db = answer 202 db (
     bindE (parseBody (\<lambda>(amount, reason). 0 < amount \<and> 2 \<le> length reason) body) (\<lambda>(amount, reason).
     bindE (loanOf env i db) (\<lambda>l.
     bindE (require (liveLoan l) 400 ''Only a disbursed/active loan can be written off'') (\<lambda>_.
     let w = \<lparr>wo_id = newId env db, wo_loanId = ln_id l, wo_amount = toDec2 amount, wo_reason = reason, wo_recoveredAmount = 0,
           wo_requestedById = e_userId env, wo_appliedAt = None\<rparr>
     in Inr ((), audit env ''loan.write_off_requested'' ''loan'' (ln_id l)
          (requestApproval env LOAN_WRITE_OFF ''LoanWriteOff'' (wo_id w) [(''loanId'', JStr (ln_id l))] reason
            (db\<lparr>db_next := Suc (db_next db), db_writeOffs := db_writeOffs db @ [w]\<rparr>)))))))"

text \<open>The write-off is looked up without its institution.\<close>

definition recordRecovery :: "env \<Rightarrow> string \<Rightarrow> num option \<Rightarrow> 'a loan_db_scheme \<Rightarrow> loanWriteOff resp \<times> 'a loan_db_scheme" where
  "recordRecovery env i x db = answer 200 db (
     bindE (require (case x of None \<Rightarrow> False | Some v \<Rightarrow> 0 < v) 400 ''amount must be positive'') (\<lambda>_.
     bindE (orThrow (Http 404 ''Write-off not found'') (find (\<lambda>w. wo_id w = i) (db_writeOffs db))) (\<lambda>w.
     let f = (\<lambda>w. w\<lparr>wo_recoveredAmount := decAdd (wo_recoveredAmount w) (the x)\<rparr>)
     in Inr (f w, audit env ''loan.write_off_recovery_recorded'' ''loan'' (wo_loanId w)
          (db\<lparr>db_writeOffs := updWhere (\<lambda>w. wo_id w = i) f (db_writeOffs db)\<rparr>)))))"

end
