(* ===== verification/Customer_Merge.thy ===== *)
theory Customer_Merge
  imports Customers
begin

text \<open>
  Merging duplicate customers (\<open>lib/customerMerge.ts\<close> and the merge requests of
  \<open>routes/customer.routes.ts\<close>), and the documents of a customer (\<open>routes/documents.routes.ts\<close>). The ten
  models that refer to a customer are seen as tables of identifiers and customers. File storage and
  the checksum are parameters.
\<close>

section \<open>The models that refer to a customer\<close>

definition allRefModels :: "refModel list" where
  "allRefModels = [NEXT_OF_KIN, CUSTOMER_NOTE, BENEFICIARY, BENEFICIAL_OWNER, LOAN, SAVINGS_ACCOUNT, ACCOUNT_HOLDER,
     DOCUMENT, COLLECTION_ROUTE_CUSTOMER, COLLECTION_TRANSACTION]"

text \<open>Each row as its identifier and the customer it refers to.\<close>

fun refRows :: "refModel \<Rightarrow> 'a customer_db_scheme \<Rightarrow> (string \<times> string option) list" where
  "refRows NEXT_OF_KIN db = map (\<lambda>r. (nk_id r, Some (nk_customerId r))) (db_kin db)"
| "refRows CUSTOMER_NOTE db = map (\<lambda>r. (cn_id r, Some (cn_customerId r))) (db_notes db)"
| "refRows BENEFICIARY db = map (\<lambda>r. (be_id r, Some (be_customerId r))) (db_beneficiaries db)"
| "refRows BENEFICIAL_OWNER db = map (\<lambda>r. (bo_id r, Some (bo_customerId r))) (db_owners db)"
| "refRows LOAN db = map (\<lambda>r. (ln_id r, Some (ln_customerId r))) (db_loans db)"
| "refRows SAVINGS_ACCOUNT db = map (\<lambda>r. (sa_id r, Some (sa_customerId r))) (db_savings db)"
| "refRows ACCOUNT_HOLDER db = map (\<lambda>r. (ah_id r, Some (ah_customerId r))) (db_holders db)"
| "refRows DOCUMENT db = map (\<lambda>r. (dc_id r, dc_customerId r)) (db_documents db)"
| "refRows COLLECTION_ROUTE_CUSTOMER db = map (\<lambda>r. (rc_id r, Some (rc_customerId r))) (db_routeCustomers db)"
| "refRows COLLECTION_TRANSACTION db = map (\<lambda>r. (cx_id r, Some (cx_customerId r))) (db_collections db)"

text \<open>Setting the customer of the rows that satisfy a condition on the two.\<close>

fun setCustomer :: "refModel \<Rightarrow> (string \<Rightarrow> string option \<Rightarrow> bool) \<Rightarrow> string \<Rightarrow> 'a customer_db_scheme \<Rightarrow> 'a customer_db_scheme" where
  "setCustomer NEXT_OF_KIN P c db = db\<lparr>db_kin := updWhere (\<lambda>r. P (nk_id r) (Some (nk_customerId r))) (\<lambda>r. r\<lparr>nk_customerId := c\<rparr>) (db_kin db)\<rparr>"
| "setCustomer CUSTOMER_NOTE P c db = db\<lparr>db_notes := updWhere (\<lambda>r. P (cn_id r) (Some (cn_customerId r))) (\<lambda>r. r\<lparr>cn_customerId := c\<rparr>) (db_notes db)\<rparr>"
| "setCustomer BENEFICIARY P c db = db\<lparr>db_beneficiaries := updWhere (\<lambda>r. P (be_id r) (Some (be_customerId r))) (\<lambda>r. r\<lparr>be_customerId := c\<rparr>) (db_beneficiaries db)\<rparr>"
| "setCustomer BENEFICIAL_OWNER P c db = db\<lparr>db_owners := updWhere (\<lambda>r. P (bo_id r) (Some (bo_customerId r))) (\<lambda>r. r\<lparr>bo_customerId := c\<rparr>) (db_owners db)\<rparr>"
| "setCustomer LOAN P c db = db\<lparr>db_loans := updWhere (\<lambda>r. P (ln_id r) (Some (ln_customerId r))) (\<lambda>r. r\<lparr>ln_customerId := c\<rparr>) (db_loans db)\<rparr>"
| "setCustomer SAVINGS_ACCOUNT P c db = db\<lparr>db_savings := updWhere (\<lambda>r. P (sa_id r) (Some (sa_customerId r))) (\<lambda>r. r\<lparr>sa_customerId := c\<rparr>) (db_savings db)\<rparr>"
| "setCustomer ACCOUNT_HOLDER P c db = db\<lparr>db_holders := updWhere (\<lambda>r. P (ah_id r) (Some (ah_customerId r))) (\<lambda>r. r\<lparr>ah_customerId := c\<rparr>) (db_holders db)\<rparr>"
| "setCustomer DOCUMENT P c db = db\<lparr>db_documents := updWhere (\<lambda>r. P (dc_id r) (dc_customerId r)) (\<lambda>r. r\<lparr>dc_customerId := Some c\<rparr>) (db_documents db)\<rparr>"
| "setCustomer COLLECTION_ROUTE_CUSTOMER P c db = db\<lparr>db_routeCustomers := updWhere (\<lambda>r. P (rc_id r) (Some (rc_customerId r))) (\<lambda>r. r\<lparr>rc_customerId := c\<rparr>) (db_routeCustomers db)\<rparr>"
| "setCustomer COLLECTION_TRANSACTION P c db = db\<lparr>db_collections := updWhere (\<lambda>r. P (cx_id r) (Some (cx_customerId r))) (\<lambda>r. r\<lparr>cx_customerId := c\<rparr>) (db_collections db)\<rparr>"

section \<open>Merging and taking back\<close>

type_synonym reassignedRecord = "refModel \<times> string"

definition mergeModel :: "string \<Rightarrow> string \<Rightarrow> reassignedRecord list \<times> 'a customer_db_scheme \<Rightarrow> refModel \<Rightarrow> reassignedRecord list \<times> 'a customer_db_scheme" where
  "mergeModel primary merged = (\<lambda>(moved, db) m.
     (moved @ map (\<lambda>(i, _). (m, i)) (filter (\<lambda>(_, c). c = Some merged) (refRows m db)),
      setCustomer m (\<lambda>_ c. c = Some merged) primary db))"

definition setMergeState :: "string \<Rightarrow> bool \<Rightarrow> string option \<Rightarrow> 'a savings_db_scheme \<Rightarrow> terr + 'a savings_db_scheme" where
  "setMergeState i merged into db = (if find (\<lambda>c. customer.cu_id c = i) (db_customers db) = None then Inl Thrown
     else Inr (updCustomer i (\<lambda>c. c\<lparr>cu_merged := merged, cu_mergedIntoCustomerId := into\<rparr>) db))"

definition executeCustomerMerge :: "string \<Rightarrow> string \<Rightarrow> 'a customer_db_scheme \<Rightarrow> terr + reassignedRecord list \<times> 'a customer_db_scheme" where
  "executeCustomerMerge primary merged db =
     (let (recs, db1) = foldl (mergeModel primary merged) ([], db) allRefModels
      in bindE (setMergeState merged True (Some primary) db1) (\<lambda>db2. Inr (recs, db2)))"

definition rollbackRecord :: "string \<Rightarrow> reassignedRecord \<Rightarrow> 'a customer_db_scheme \<Rightarrow> terr + 'a customer_db_scheme" where
  "rollbackRecord merged r db = (if snd r \<notin> fst ` set (refRows (fst r) db) then Inl Thrown
     else Inr (setCustomer (fst r) (\<lambda>i _. i = snd r) merged db))"

definition rollbackCustomerMerge :: "string \<Rightarrow> reassignedRecord list \<Rightarrow> 'a customer_db_scheme \<Rightarrow> terr + 'a customer_db_scheme" where
  "rollbackCustomerMerge merged recs db = bindE (foldE (rollbackRecord merged) recs db) (setMergeState merged False None)"

section \<open>Requests\<close>

definition identityOf :: "customer \<Rightarrow> customerIdentity" where
  "identityOf c = \<lparr>customerIdentity.cu_id = customer.cu_id c, cu_fullName = colText ''fullName'' c, cu_phone = colText ''phone'' c,
     cu_email = colString ''email'' c, cu_idNumber = colString ''idNumber'' c\<rparr>"

definition unmerged :: "env \<Rightarrow> string \<Rightarrow> 'a savings_db_scheme \<Rightarrow> customer option" where
  "unmerged env i db = find (\<lambda>c. customer.cu_id c = i \<and> cu_institutionId c = e_institutionId env \<and> \<not> cu_merged c) (db_customers db)"

record duplicateCandidate =
  dp_customerA :: string
  dp_customerB :: string
  dp_score :: int
  dp_matchedFields :: "string list"

fun candidatePairs :: "customer list \<Rightarrow> duplicateCandidate list" where
  "candidatePairs [] = []"
| "candidatePairs (a # cs) = concat (map (\<lambda>b. case calculateCustomerSimilarity (identityOf a) (identityOf b) of
      (s, fs) \<Rightarrow> if 30 \<le> s then [\<lparr>dp_customerA = customer.cu_id a, dp_customerB = customer.cu_id b, dp_score = s, dp_matchedFields = fs\<rparr>] else []) cs)
     @ candidatePairs cs"

definition detectDuplicates :: "env \<Rightarrow> 'a savings_db_scheme \<Rightarrow> duplicateCandidate list" where
  "detectDuplicates env db = take 100 (sort_key (\<lambda>d. - dp_score d)
     (candidatePairs (filter (\<lambda>c. cu_institutionId c = e_institutionId env \<and> \<not> cu_merged c) (db_customers db))))"

definition requestMerge ::
  "conversions \<Rightarrow> env \<Rightarrow> (string \<times> string) option \<Rightarrow> 'a customer_db_scheme \<Rightarrow> mergeRecord resp \<times> 'a customer_db_scheme" where
  "requestMerge cv env body db = answer 202 db (
     bindE (parseBody (\<lambda>_. True) body) (\<lambda>(p, m).
     bindE (require (p \<noteq> m) 400 ''primaryCustomerId and mergedCustomerId must differ'') (\<lambda>_.
     bindE (orThrow (Http 404 ''Both customers must exist and not already be merged'') (unmerged env p db)) (\<lambda>primary.
     bindE (orThrow (Http 404 ''Both customers must exist and not already be merged'') (unmerged env m db)) (\<lambda>merged.
     let (score, fields) = calculateCustomerSimilarity (identityOf primary) (identityOf merged);
         r = \<lparr>mg_id = newId env db, mg_institutionId = e_institutionId env, mg_primaryCustomerId = customer.cu_id primary,
           mg_mergedCustomerId = customer.cu_id merged, mg_similarityScore = score, mg_matchedFields = fields, mg_status = MG_PENDING_APPROVAL,
           mg_reassignedRecords = None, mg_requestedById = e_userId env, mg_approvedById = None, mg_mergedAt = None,
           mg_rolledBackById = None, mg_rolledBackAt = None, mg_rollbackReason = None\<rparr>
     in Inr (r, audit env ''customer_merge.requested'' ''customer_merge_record'' (mg_id r)
          (requestApproval env CUSTOMER_MERGE ''CustomerMergeRecord'' (mg_id r) []
            (''Merge '' @ colText ''fullName'' merged @ '' into '' @ colText ''fullName'' primary @ '' - similarity '' @ cv_show cv (of_int score))
            (db\<lparr>db_next := Suc (db_next db), db_merges := db_merges db @ [r]\<rparr>))))))))"

definition updMerge :: "string \<Rightarrow> (mergeRecord \<Rightarrow> mergeRecord) \<Rightarrow> 'a customer_db_scheme \<Rightarrow> 'a customer_db_scheme" where
  "updMerge i f db = db\<lparr>db_merges := updWhere (\<lambda>r. mg_id r = i) f (db_merges db)\<rparr>"

text \<open>Any exception in the transaction is answered with 500; the text of the exception is left out.\<close>

definition rollbackMerge :: "env \<Rightarrow> string \<Rightarrow> string option \<Rightarrow> 'a customer_db_scheme \<Rightarrow> unit resp \<times> 'a customer_db_scheme" where
  "rollbackMerge env i reason db = answer 200 db (
     bindE (require (truthy reason) 400 ''A reason is required to roll back a merge'') (\<lambda>_.
     bindE (orThrow (Http 404 ''Approved merge record not found'')
       (find (\<lambda>r. mg_id r = i \<and> mg_institutionId r = e_institutionId env \<and> mg_status r = MG_APPROVED) (db_merges db))) (\<lambda>r.
     bindE (orThrow (Http 400 ''No reassignment record found to roll back'') (mg_reassignedRecords r)) (\<lambda>recs.
     case rollbackCustomerMerge (mg_mergedCustomerId r) recs db of
       Inl e \<Rightarrow> Inl (Http 500 ''Rollback failed, nothing was changed'')
     | Inr db1 \<Rightarrow> Inr ((), audit env ''customer_merge.rolled_back'' ''customer_merge_record'' (mg_id r)
         (updMerge (mg_id r) (\<lambda>x. x\<lparr>mg_status := MG_ROLLED_BACK, mg_rolledBackById := Some (e_userId env),
            mg_rolledBackAt := Some (e_now env), mg_rollbackReason := reason\<rparr>) db1))))))"

section \<open>Documents\<close>

record uploadedFile =
  uf_originalname :: string
  uf_mimetype :: string
  uf_size :: nat
  uf_bytes :: "nat list"

text \<open>The hosted store answers an upload with an error or not; the bytes are digested by SHA-256.\<close>

record fileStore =
  fs_upload :: "string \<Rightarrow> uploadedFile \<Rightarrow> string option"
  fs_sha256 :: "nat list \<Rightarrow> string"

text \<open>What the upload filter lets through; anything else is an error before the handler.\<close>

definition acceptedFile :: "uploadedFile \<Rightarrow> bool" where
  "acceptedFile f \<longleftrightarrow> uf_mimetype f \<in> {''image/jpeg'', ''image/png'', ''image/webp'', ''application/pdf''} \<and> uf_size f \<le> 10 * 1024 * 1024"

definition safeChar :: "char \<Rightarrow> char" where
  "safeChar c = (let n = of_char c :: nat in
     if 48 \<le> n \<and> n \<le> 57 \<or> 65 \<le> n \<and> n \<le> 90 \<or> 97 \<le> n \<and> n \<le> 122 \<or> c \<in> {CHR ''.'', CHR ''_'', CHR ''-''} then c else CHR ''_'')"

definition storagePath :: "env \<Rightarrow> string option \<Rightarrow> string \<Rightarrow> uploadedFile \<Rightarrow> string" where
  "storagePath env owner i f = e_institutionId env @ ''/'' @ (case owner of None \<Rightarrow> ''null'' | Some c \<Rightarrow> c) @ ''/'' @ i @ ''-'' @ map safeChar (uf_originalname f)"

record documentBody =
  ud_customerId :: string
  ud_documentType :: documentType
  ud_documentName :: "string option"
  ud_category :: "string option"
  ud_expiryDate :: "string option"

definition givenFile :: "uploadedFile option \<Rightarrow> terr + uploadedFile" where
  "givenFile f = (case f of None \<Rightarrow> Inl (Http 400 ''No file uploaded'') | Some x \<Rightarrow> if acceptedFile x then Inr x else Inl Thrown)"

definition putFile :: "fileStore \<Rightarrow> string \<Rightarrow> uploadedFile \<Rightarrow> terr + unit" where
  "putFile st path f = (case fs_upload st path f of None \<Rightarrow> Inr () | Some m \<Rightarrow> Inl (Http 500 (''Storage upload failed: '' @ m)))"

definition uploadDocument ::
  "fileStore \<Rightarrow> env \<Rightarrow> uploadedFile option \<Rightarrow> documentBody option \<Rightarrow> 'a customer_db_scheme \<Rightarrow> document resp \<times> 'a customer_db_scheme" where
  "uploadDocument st env file body db = answer 201 db (
     bindE (givenFile file) (\<lambda>f.
     bindE (parseBody (\<lambda>_. True) body) (\<lambda>b.
     bindE (customerOf env (ud_customerId b) db) (\<lambda>c.
     let path = storagePath env (Some (customer.cu_id c)) (newId env db) f in
     bindE (putFile st path f) (\<lambda>_.
     bindE (givenDate env (ud_expiryDate b)) (\<lambda>expiry.
     let d = \<lparr>dc_id = newId env db, dc_institutionId = e_institutionId env, dc_customerId = Some (customer.cu_id c),
           dc_documentName = orMessage (ud_documentName b) (uf_originalname f), dc_documentType = ud_documentType b,
           dc_category = ud_category b, dc_storageReference = path, dc_checksum = fs_sha256 st (uf_bytes f), dc_fileSize = uf_size f,
           dc_mimeType = uf_mimetype f, dc_versionNumber = 1, dc_expiryDate = expiry, dc_status = DS_UPLOADED,
           dc_uploadedById = Some (e_userId env), dc_replacesDocumentId = None\<rparr>
     in Inr (d, audit env ''document.upload'' ''document'' (dc_id d)
          (db\<lparr>db_next := Suc (db_next db), db_documents := db_documents db @ [d]\<rparr>))))))))"

definition ownDocument :: "env \<Rightarrow> string \<Rightarrow> 'a customer_db_scheme \<Rightarrow> terr + document" where
  "ownDocument env i db = orThrow (Http 404 ''Document not found'')
     (find (\<lambda>d. dc_id d = i \<and> dc_institutionId d = e_institutionId env) (db_documents db))"

definition setDocumentStatus :: "string \<Rightarrow> documentStatus \<Rightarrow> 'a customer_db_scheme \<Rightarrow> 'a customer_db_scheme" where
  "setDocumentStatus i s db = db\<lparr>db_documents := updWhere (\<lambda>d. dc_id d = i) (\<lambda>d. d\<lparr>dc_status := s\<rparr>) (db_documents db)\<rparr>"

text \<open>A document is replaced at most once: the reference to the old one is unique.\<close>

definition replaceDocument ::
  "fileStore \<Rightarrow> env \<Rightarrow> string \<Rightarrow> uploadedFile option \<Rightarrow> 'a customer_db_scheme \<Rightarrow> document resp \<times> 'a customer_db_scheme" where
  "replaceDocument st env i file db = answer 201 db (
     bindE (givenFile file) (\<lambda>f.
     bindE (ownDocument env i db) (\<lambda>old.
     let path = storagePath env (dc_customerId old) (newId env db) f in
     bindE (putFile st path f) (\<lambda>_.
     let d = \<lparr>dc_id = newId env db, dc_institutionId = e_institutionId env, dc_customerId = dc_customerId old,
           dc_documentName = dc_documentName old, dc_documentType = dc_documentType old, dc_category = dc_category old,
           dc_storageReference = path, dc_checksum = fs_sha256 st (uf_bytes f), dc_fileSize = uf_size f,
           dc_mimeType = uf_mimetype f, dc_versionNumber = dc_versionNumber old + 1, dc_expiryDate = dc_expiryDate old,
           dc_status = DS_UPLOADED, dc_uploadedById = Some (e_userId env), dc_replacesDocumentId = Some (dc_id old)\<rparr>
     in if list_ex (\<lambda>x. dc_replacesDocumentId x = Some (dc_id old)) (db_documents db) then Inl Thrown
        else Inr (d, audit env ''document.replace'' ''document'' (dc_id d)
          (setDocumentStatus (dc_id old) DS_ARCHIVED (db\<lparr>db_next := Suc (db_next db), db_documents := db_documents db @ [d]\<rparr>)))))))"

definition markDocument :: "env \<Rightarrow> documentStatus \<Rightarrow> string \<Rightarrow> string \<Rightarrow> 'a customer_db_scheme \<Rightarrow> unit resp \<times> 'a customer_db_scheme" where
  "markDocument env s action i db = answer 200 db (
     bindE (ownDocument env i db) (\<lambda>_.
     Inr ((), audit env action ''document'' i (setDocumentStatus i s db))))"

definition verifyDocument :: "env \<Rightarrow> string \<Rightarrow> 'a customer_db_scheme \<Rightarrow> unit resp \<times> 'a customer_db_scheme" where
  "verifyDocument env = markDocument env DS_VERIFIED ''document.verify''"

definition archiveDocument :: "env \<Rightarrow> string \<Rightarrow> 'a customer_db_scheme \<Rightarrow> unit resp \<times> 'a customer_db_scheme" where
  "archiveDocument env = markDocument env DS_ARCHIVED ''document.archive''"

definition disposeDocument :: "env \<Rightarrow> string \<Rightarrow> 'a customer_db_scheme \<Rightarrow> unit resp \<times> 'a customer_db_scheme" where
  "disposeDocument env i db = answer 204 db (
     bindE (ownDocument env i db) (\<lambda>d.
     Inr ((), audit env ''document.dispose'' ''document'' (dc_id d) (setDocumentStatus (dc_id d) DS_DISPOSED db))))"

end
