(* ===== verification/Approvals.thy ===== *)
theory Approvals
  imports Assets Loan_Services Customer_Merge
begin

text \<open>
  The approval of requests (\<open>routes/approvals.routes.ts\<close>). Every request of every module is approved or
  rejected here, by someone other than the one who made it, in one transaction with its effect:
  \<open>applyApproval\<close> has one definition for each case of the code. The cases that move money post a
  journal or write the cash ledger; a case that finds its conditions no longer met marks its target
  rejected, and the approval still counts as given.
\<close>

section \<open>Rows by their key\<close>

text \<open>\<open>update\<close> of one row: an exception when there is none.\<close>

definition updateOne :: "('r \<Rightarrow> bool) \<Rightarrow> ('r \<Rightarrow> 'r) \<Rightarrow> 'r list \<Rightarrow> terr + 'r list" where
  "updateOne P f t = (if list_ex P t then Inr (updWhere P f t) else Inl Thrown)"

lemma updateOne_Inr: "updateOne P f t = Inr t' \<longleftrightarrow> list_ex P t \<and> t' = updWhere P f t"
  by (auto simp: updateOne_def)

definition payloadText :: "string \<Rightarrow> approvalRow \<Rightarrow> string option" where
  "payloadText k r = (case map_of (ap_payload r) k of Some (JStr s) \<Rightarrow> if s = [] then None else Some s | _ \<Rightarrow> None)"

section \<open>Customers\<close>

definition customerStatuses :: "customerStatus list" where
  "customerStatuses = [CS_REGISTERED, CS_PENDING_VERIFICATION, CS_PENDING_APPROVAL, CS_VERIFIED, CS_ACTIVE,
     CS_DORMANT, CS_RESTRICTED, CS_SUSPENDED, CS_BLACKLISTED, CS_CLOSED, CS_ARCHIVED]"

definition readCustomerStatus :: "string \<Rightarrow> customerStatus option" where
  "readCustomerStatus s = find (\<lambda>st. showCustomerStatus st = s) customerStatuses"

definition updateCustomer :: "string \<Rightarrow> (customer \<Rightarrow> customer) \<Rightarrow> 'a savings_db_scheme \<Rightarrow> terr + 'a savings_db_scheme" where
  "updateCustomer i f db = bindE (updateOne (\<lambda>c. customer.cu_id c = i) f (db_customers db)) (\<lambda>t. Inr (db\<lparr>db_customers := t\<rparr>))"

text \<open>A status given by name; a value that is no status is refused by the database client.\<close>

definition setCustomerStatus :: "string \<Rightarrow> string \<Rightarrow> 'a savings_db_scheme \<Rightarrow> terr + 'a savings_db_scheme" where
  "setCustomerStatus i s db = bindE (orThrow Thrown (readCustomerStatus s)) (\<lambda>st. updateCustomer i (\<lambda>c. c\<lparr>cu_status := st\<rparr>) db)"

definition applyStatusChange :: "approvalRow \<Rightarrow> 'a savings_db_scheme \<Rightarrow> terr + 'a savings_db_scheme" where
  "applyStatusChange r db =
     (case map_of (ap_payload r) ''status'' of
        None \<Rightarrow> updateCustomer (ap_targetId r) (\<lambda>c. c) db
      | Some (JStr s) \<Rightarrow> setCustomerStatus (ap_targetId r) s db
      | Some _ \<Rightarrow> Inl Thrown)"

definition applyProfileUpdate :: "env \<Rightarrow> approvalRow \<Rightarrow> 'a savings_db_scheme \<Rightarrow> terr + 'a savings_db_scheme" where
  "applyProfileUpdate env r db =
     (if \<not> columnsAllowed env (ap_targetId r) (ap_payload r) db then Inl Thrown
      else updateCustomer (ap_targetId r) (\<lambda>c. (writeColumns (ap_payload r) c)\<lparr>cu_status := CS_ACTIVE\<rparr>) db)"

definition applyAdjudication :: "approvalRow \<Rightarrow> 'a savings_db_scheme \<Rightarrow> terr + 'a savings_db_scheme" where
  "applyAdjudication r db =
     bindE (setCustomerStatus (ap_targetId r) (case payloadText ''previousStatus'' r of None \<Rightarrow> ''REGISTERED'' | Some s \<Rightarrow> s) db)
       (updateCustomer (ap_targetId r) (writeColumns [(''watchlistFlag'', JBool False)]))"

text \<open>The customer, loan and savings account of a holder are foreign keys.\<close>

definition applyHolderAdd :: "env \<Rightarrow> approvalRow \<Rightarrow> 'a loan_db_scheme \<Rightarrow> terr + 'a loan_db_scheme" where
  "applyHolderAdd env r db =
     (let cid = payloadText ''customerId'' r; lid = payloadText ''loanId'' r; sid = payloadText ''savingsAccountId'' r in
      if \<not> list_ex (\<lambda>c. Some (customer.cu_id c) = cid) (db_customers db) \<or> payloadText ''role'' r = None
         \<or> lid \<noteq> None \<and> \<not> list_ex (\<lambda>l. Some (ln_id l) = lid) (db_loans db)
         \<or> sid \<noteq> None \<and> \<not> list_ex (\<lambda>a. Some (sa_id a) = sid) (db_savings db) then Inl Thrown
      else Inr (db\<lparr>db_next := Suc (db_next db), db_holders := db_holders db @
        [\<lparr>ah_id = newId env db, ah_institutionId = ap_institutionId r, ah_customerId = the cid, ah_role = the (payloadText ''role'' r),
          ah_loanId = lid, ah_savingsAccountId = sid, ah_addedById = Some (ap_requestedById r), ah_deletedAt = None\<rparr>]\<rparr>))"

definition applyMerge :: "env \<Rightarrow> approvalRow \<Rightarrow> 'a customer_db_scheme \<Rightarrow> terr + 'a customer_db_scheme" where
  "applyMerge env r db =
     bindE (orThrow Thrown (find (\<lambda>m. mg_id m = ap_targetId r) (db_merges db))) (\<lambda>m.
     bindE (executeCustomerMerge (mg_primaryCustomerId m) (mg_mergedCustomerId m) db) (\<lambda>(recs, db1).
     Inr (updMerge (mg_id m) (\<lambda>x. x\<lparr>mg_status := MG_APPROVED, mg_approvedById := Some (e_userId env), mg_mergedAt := Some (e_now env),
       mg_reassignedRecords := Some recs\<rparr>) db1)))"

section \<open>Products, rules, restrictions, commissions, settlements\<close>

definition setProductStatus :: "productStatus \<Rightarrow> approvalRow \<Rightarrow> 'a savings_db_scheme \<Rightarrow> terr + 'a savings_db_scheme" where
  "setProductStatus s r db = bindE (updateOne (\<lambda>p. pr_id p = ap_targetId r) (\<lambda>p. p\<lparr>pr_status := s\<rparr>) (db_products db)) (\<lambda>t. Inr (db\<lparr>db_products := t\<rparr>))"

definition setRuleStatus :: "ruleStatus \<Rightarrow> approvalRow \<Rightarrow> 'a savings_db_scheme \<Rightarrow> terr + 'a savings_db_scheme" where
  "setRuleStatus s r db = bindE (updateOne (\<lambda>p. br_id p = ap_targetId r) (\<lambda>p. p\<lparr>br_status := s\<rparr>) (db_businessRules db)) (\<lambda>t. Inr (db\<lparr>db_businessRules := t\<rparr>))"

definition updateRestriction :: "(savingsRestriction \<Rightarrow> savingsRestriction) \<Rightarrow> approvalRow \<Rightarrow> 'a savings_db_scheme \<Rightarrow> terr + 'a savings_db_scheme" where
  "updateRestriction f r db = bindE (updateOne (\<lambda>p. sr_id p = ap_targetId r) f (db_restrictions db)) (\<lambda>t. Inr (db\<lparr>db_restrictions := t\<rparr>))"

definition updateCommission :: "(commissionRecord \<Rightarrow> commissionRecord) \<Rightarrow> approvalRow \<Rightarrow> 'a collections_db_scheme \<Rightarrow> terr + 'a collections_db_scheme" where
  "updateCommission f r db = bindE (updateOne (\<lambda>p. cr_id p = ap_targetId r) f (db_commissions db)) (\<lambda>t. Inr (db\<lparr>db_commissions := t\<rparr>))"

definition reconcileSettlement :: "env \<Rightarrow> approvalRow \<Rightarrow> 'a collections_db_scheme \<Rightarrow> terr + 'a collections_db_scheme" where
  "reconcileSettlement env r db = bindE (updateOne (\<lambda>p. se_id p = ap_targetId r)
     (\<lambda>p. p\<lparr>se_status := SE_RECONCILED, se_reconciledById := Some (e_userId env), se_reconciledAt := Some (e_now env)\<rparr>) (db_settlements db))
     (\<lambda>t. Inr (db\<lparr>db_settlements := t\<rparr>))"

definition reconcileBalancing :: "env \<Rightarrow> approvalRow \<Rightarrow> 'a cash_db_scheme \<Rightarrow> terr + 'a cash_db_scheme" where
  "reconcileBalancing env r db = bindE (updateOne (\<lambda>p. cb_id p = ap_targetId r)
     (\<lambda>p. p\<lparr>cb_status := RECONCILED, cb_reconciledById := Some (e_userId env), cb_reconciledAt := Some (e_now env)\<rparr>) (db_balancings db))
     (\<lambda>t. Inr (db\<lparr>db_balancings := t\<rparr>))"

definition setEngagementStatus :: "engagementStatus \<Rightarrow> approvalRow \<Rightarrow> 'a audit_db_scheme \<Rightarrow> terr + 'a audit_db_scheme" where
  "setEngagementStatus s r db = bindE (updateOne (\<lambda>p. eg_id p = ap_targetId r) (\<lambda>p. p\<lparr>eg_status := s\<rparr>) (db_engagements db)) (\<lambda>t. Inr (db\<lparr>db_engagements := t\<rparr>))"

section \<open>Loans\<close>

text \<open>
  The unpaid installments are marked deleted but stay in the table; the new ones are numbered from one
  again. The schedule is flat, so the power function is not used.
\<close>

definition unpaid :: "string \<Rightarrow> loanInstallment \<Rightarrow> bool" where
  "unpaid loanId li \<longleftrightarrow> li_loanId li = loanId \<and> li_status li \<in> {I_PENDING, I_PARTIALLY_PAID}"

definition applyRestructure :: "env \<Rightarrow> approvalRow \<Rightarrow> 'a loan_db_scheme \<Rightarrow> terr + 'a loan_db_scheme" where
  "applyRestructure env r db =
     bindE (orThrow Thrown (find (\<lambda>x. rs_id x = ap_targetId r) (db_restructures db))) (\<lambda>x.
     let db1 = db\<lparr>db_installments := updWhere (unpaid (rs_loanId x)) (\<lambda>li. li\<lparr>li_deletedAt := Some (e_now env)\<rparr>) (db_installments db)\<rparr> in
     bindE (createInstallments env (rs_loanId x) (generateSchedule (\<lambda>b _. b) (cents (rs_newPrincipal x)) (rs_newRate x)
       (rs_newTermMonths x) ''FLAT'' (e_now env)) db1) (\<lambda>db2.
     bindE (updateOne (\<lambda>l. ln_id l = rs_loanId x) (\<lambda>l. l\<lparr>ln_principal := rs_newPrincipal x, ln_interestRate := rs_newRate x,
       ln_termMonths := rs_newTermMonths x\<rparr>) (db_loans db2)) (\<lambda>ls.
     Inr (db2\<lparr>db_loans := ls, db_restructures := updWhere (\<lambda>y. rs_id y = rs_id x) (\<lambda>y. y\<lparr>rs_appliedAt := Some (e_now env)\<rparr>) (db_restructures db2)\<rparr>))))"

definition applyReschedule :: "env \<Rightarrow> approvalRow \<Rightarrow> 'a loan_db_scheme \<Rightarrow> terr + 'a loan_db_scheme" where
  "applyReschedule env r db =
     bindE (orThrow Thrown (find (\<lambda>x. rd_id x = ap_targetId r) (db_reschedules db))) (\<lambda>x.
     Inr (db\<lparr>db_installments := updWhere (unpaid (rd_loanId x)) (\<lambda>li. li\<lparr>li_dueDate := plusDays (li_dueDate li) (rd_shiftDays x)\<rparr>) (db_installments db),
       db_reschedules := updWhere (\<lambda>y. rd_id y = rd_id x) (\<lambda>y. y\<lparr>rd_appliedAt := Some (e_now env)\<rparr>) (db_reschedules db)\<rparr>))"

definition applyWriteOff :: "env \<Rightarrow> approvalRow \<Rightarrow> 'a loan_db_scheme \<Rightarrow> terr + 'a loan_db_scheme" where
  "applyWriteOff env r db =
     bindE (orThrow Thrown (find (\<lambda>x. wo_id x = ap_targetId r) (db_writeOffs db))) (\<lambda>x.
     bindE (updateOne (\<lambda>l. ln_id l = wo_loanId x) (\<lambda>l. l\<lparr>ln_status := LN_WRITTEN_OFF\<rparr>) (db_loans db)) (\<lambda>ls.
     Inr (db\<lparr>db_loans := ls, db_writeOffs := updWhere (\<lambda>y. wo_id y = wo_id x) (\<lambda>y. y\<lparr>wo_appliedAt := Some (e_now env)\<rparr>) (db_writeOffs db)\<rparr>)))"

section \<open>Cash transfers\<close>

definition holderBalance :: "holderType \<Rightarrow> string \<Rightarrow> 'a cash_db_scheme \<Rightarrow> terr + int" where
  "holderBalance ty i db = orThrow Thrown (case ty of
     VAULT \<Rightarrow> map_option va_balance (find (\<lambda>v. va_id v = i) (db_vaults db))
   | TELLER \<Rightarrow> map_option te_currentHolding (find (\<lambda>t. te_id t = i) (db_tellers db)))"

text \<open>The balance after the change is what the update returns.\<close>

definition applyDelta :: "holderType \<Rightarrow> string \<Rightarrow> num \<Rightarrow> 'a cash_db_scheme \<Rightarrow> terr + int \<times> 'a cash_db_scheme" where
  "applyDelta ty i d db =
     bindE (case ty of
         VAULT \<Rightarrow> bindE (orThrow Thrown (increment va_id updVaultBalance i d (db_vaults db))) (\<lambda>t. Inr (db\<lparr>db_vaults := t\<rparr>))
       | TELLER \<Rightarrow> bindE (orThrow Thrown (increment te_id updHolding i d (db_tellers db))) (\<lambda>t. Inr (db\<lparr>db_tellers := t\<rparr>))) (\<lambda>db1.
     bindE (holderBalance ty i db1) (\<lambda>b. Inr (b, db1)))"

definition setCashTransfer :: "string \<Rightarrow> (cashTransfer \<Rightarrow> cashTransfer) \<Rightarrow> 'a cash_db_scheme \<Rightarrow> 'a cash_db_scheme" where
  "setCashTransfer i f db = db\<lparr>db_cashTransfers := updWhere (\<lambda>t. ct_id t = i) f (db_cashTransfers db)\<rparr>"

definition moveCash :: "env \<Rightarrow> cashTransfer \<Rightarrow> 'a cash_db_scheme \<Rightarrow> terr + 'a cash_db_scheme" where
  "moveCash env t db =
     (let amount = cents (ct_amount t) in
      bindE (applyDelta (ct_fromType t) (ct_fromId t) (- amount) db) (\<lambda>(source, db1).
      bindE (applyDelta (ct_toType t) (ct_toId t) amount db1) (\<lambda>(dest, db2).
      let db3 = snd (recordCash env (ct_institutionId t) (ct_fromType t) (ct_fromId t) TRANSFER_OUT amount source (Some (ct_reason t)) (e_userId env) db2);
          db4 = snd (recordCash env (ct_institutionId t) (ct_toType t) (ct_toId t) TRANSFER_IN amount dest (Some (ct_reason t)) (e_userId env) db3)
      in Inr (setCashTransfer (ct_id t) (\<lambda>x. x\<lparr>ct_status := CT_COMPLETED, ct_approvedById := Some (e_userId env), ct_completedAt := Some (e_now env)\<rparr>) db4))))"

definition applyCashTransfer :: "env \<Rightarrow> approvalRow \<Rightarrow> 'a cash_db_scheme \<Rightarrow> terr + 'a cash_db_scheme" where
  "applyCashTransfer env r db =
     bindE (orThrow Thrown (find (\<lambda>t. ct_id t = ap_targetId r) (db_cashTransfers db))) (\<lambda>t.
     bindE (holderBalance (ct_fromType t) (ct_fromId t) db) (\<lambda>b.
     if cents b < cents (ct_amount t) then Inr (setCashTransfer (ct_id t) (\<lambda>x. x\<lparr>ct_status := CT_REJECTED\<rparr>) db)
     else moveCash env t db))"

section \<open>Journals and periods\<close>

definition journalEntries :: "journal \<Rightarrow> entry list" where
  "journalEntries j = map (\<lambda>l. entry (jl_accountId l) (cents (jl_debit l)) (cents (jl_credit l))) (jo_lines j)"

definition updJournal :: "string \<Rightarrow> (journal \<Rightarrow> journal) \<Rightarrow> 'a gl_db_scheme \<Rightarrow> 'a gl_db_scheme" where
  "updJournal i f db = db\<lparr>db_journals := updWhere (\<lambda>j. jo_id j = i) f (db_journals db)\<rparr>"

definition accountActive :: "'a gl_db_scheme \<Rightarrow> entry \<Rightarrow> bool" where
  "accountActive db l \<longleftrightarrow> map_option ga_status (accountById (en_accountId l) db) = Some GA_ACTIVE"

text \<open>What stands against posting the journal now.\<close>

definition journalProblems :: "journal \<Rightarrow> 'a gl_db_scheme \<Rightarrow> string list" where
  "journalProblems j db =
     (if isBalanced (journalEntries j) then [] else [''debits no longer equal credits''])
   @ (if list_all (accountActive db) (journalEntries j) then [] else [''one or more accounts became inactive''])
   @ (case findPostablePeriod (jo_institutionId j) (jo_postingDate j) db of
        None \<Rightarrow> [''no financial period covers this posting date'']
      | Some p \<Rightarrow> if fp_status p = FP_OPEN then [] else [''the financial period is now '' @ showPeriodStatus (fp_status p)])"

definition applyJournalPosting :: "env \<Rightarrow> approvalRow \<Rightarrow> 'a gl_db_scheme \<Rightarrow> terr + 'a gl_db_scheme" where
  "applyJournalPosting env r db =
     bindE (orThrow Thrown (find (\<lambda>j. jo_id j = ap_targetId r) (db_journals db))) (\<lambda>j.
     if journalProblems j db \<noteq> []
     then Inr (updJournal (jo_id j) (\<lambda>x. x\<lparr>jo_status := J_REJECTED, jo_rejectionReason := Some (joinWith ''; '' (journalProblems j db))\<rparr>) db)
     else bindE (foldE postLine (withCategory db (journalEntries j)) db) (\<lambda>db1.
       Inr (updJournal (jo_id j) (\<lambda>x. x\<lparr>jo_status := J_POSTED, jo_postedById := Some (e_userId env), jo_postedAt := Some (e_now env)\<rparr>) db1)))"

definition setJournalDraft :: "approvalRow \<Rightarrow> 'a gl_db_scheme \<Rightarrow> terr + 'a gl_db_scheme" where
  "setJournalDraft r db = bindE (updateOne (\<lambda>j. jo_id j = ap_targetId r) (\<lambda>j. j\<lparr>jo_status := J_DRAFT\<rparr>) (db_journals db)) (\<lambda>t. Inr (db\<lparr>db_journals := t\<rparr>))"

text \<open>A period is opened again whatever its status was.\<close>

definition reopenPeriod :: "env \<Rightarrow> approvalRow \<Rightarrow> 'a gl_db_scheme \<Rightarrow> terr + 'a gl_db_scheme" where
  "reopenPeriod env r db = bindE (updateOne (\<lambda>p. fp_id p = ap_targetId r)
     (\<lambda>p. p\<lparr>fp_status := FP_OPEN, fp_reopenedById := Some (e_userId env), fp_reopenedAt := Some (e_now env)\<rparr>) (db_periods db))
     (\<lambda>t. Inr (db\<lparr>db_periods := t\<rparr>))"

definition setRecurringStatus :: "recurringStatus \<Rightarrow> approvalRow \<Rightarrow> 'a gl_db_scheme \<Rightarrow> terr + 'a gl_db_scheme" where
  "setRecurringStatus s r db = bindE (updateOne (\<lambda>p. rj_id p = ap_targetId r) (\<lambda>p. p\<lparr>rj_status := s\<rparr>) (db_recurring db)) (\<lambda>t. Inr (db\<lparr>db_recurring := t\<rparr>))"

section \<open>Transfers between branches\<close>

definition setInterBranch :: "string \<Rightarrow> (interBranchTransfer \<Rightarrow> interBranchTransfer) \<Rightarrow> 'a asset_db_scheme \<Rightarrow> 'a asset_db_scheme" where
  "setInterBranch i f db = db\<lparr>db_interBranch := updWhere (\<lambda>t. ix_id t = i) f (db_interBranch db)\<rparr>"

text \<open>The four lines: settlement and real account of the source, real and settlement account of the destination.\<close>

definition interBranchLines :: "settlementAccount \<Rightarrow> settlementAccount \<Rightarrow> interBranchTransfer \<Rightarrow> entry list" where
  "interBranchLines source dest t =
     (let amount = cents (ix_amount t) in
      [entry (iz_glAccountId source) amount 0, entry (ix_fromGLAccountId t) 0 amount,
       entry (ix_toGLAccountId t) amount 0, entry (iz_glAccountId dest) 0 amount])"

definition applyInterBranch :: "env \<Rightarrow> approvalRow \<Rightarrow> 'a asset_db_scheme \<Rightarrow> terr + 'a asset_db_scheme" where
  "applyInterBranch env r db =
     bindE (orThrow Thrown (find (\<lambda>t. ix_id t = ap_targetId r) (db_interBranch db))) (\<lambda>t.
     bindE (orThrow Thrown (settlementOf (ix_fromBranchId t) db)) (\<lambda>source.
     bindE (orThrow Thrown (settlementOf (ix_toBranchId t) db)) (\<lambda>dest.
     bindE (orThrow Thrown (accountById (ix_fromGLAccountId t) db)) (\<lambda>_.
     bindE (orThrow Thrown (accountById (ix_toGLAccountId t) db)) (\<lambda>_.
     if \<not> isBalanced (interBranchLines source dest t) then Inr (setInterBranch (ix_id t) (\<lambda>x. x\<lparr>ix_status := IX_REJECTED\<rparr>) db)
     else bindE (postJournal env (ix_institutionId t) AUTOMATIC (''Inter-branch transfer: '' @ ix_description t) (e_now env) (e_userId env)
            (ix_requestedById t) (withCategory db (interBranchLines source dest t)) db) (\<lambda>(j, db1).
       Inr (setInterBranch (ix_id t) (\<lambda>x. x\<lparr>ix_status := IX_POSTED, ix_journalId := Some (jo_id j)\<rparr>) db1)))))))"

section \<open>People, payroll and assets\<close>

definition applySalaryStructure :: "env \<Rightarrow> approvalRow \<Rightarrow> 'a payroll_db_scheme \<Rightarrow> terr + 'a payroll_db_scheme" where
  "applySalaryStructure env r db =
     bindE (orThrow Thrown (find (\<lambda>s. sy_id s = ap_targetId r) (db_structures db))) (\<lambda>s.
     Inr (updStructure (sy_id s) (\<lambda>x. x\<lparr>sy_status := SY_ACTIVE, sy_approvedById := Some (e_userId env)\<rparr>)
       (db\<lparr>db_structures := updWhere (\<lambda>x. sy_employeeId x = sy_employeeId s \<and> sy_institutionId x = sy_institutionId s \<and> sy_status x = SY_ACTIVE)
          (\<lambda>x. x\<lparr>sy_status := SY_SUPERSEDED\<rparr>) (db_structures db)\<rparr>)))"

definition setStructureStatus :: "structureStatus \<Rightarrow> approvalRow \<Rightarrow> 'a payroll_db_scheme \<Rightarrow> terr + 'a payroll_db_scheme" where
  "setStructureStatus st r db = bindE (updateOne (\<lambda>s. sy_id s = ap_targetId r) (\<lambda>s. s\<lparr>sy_status := st\<rparr>) (db_structures db)) (\<lambda>t. Inr (db\<lparr>db_structures := t\<rparr>))"

definition setRunStatus :: "runStatus \<Rightarrow> approvalRow \<Rightarrow> 'a payroll_db_scheme \<Rightarrow> terr + 'a payroll_db_scheme" where
  "setRunStatus st r db = bindE (updateOne (\<lambda>s. pn_id s = ap_targetId r) (\<lambda>s. s\<lparr>pn_status := st\<rparr>) (db_payRuns db)) (\<lambda>t. Inr (db\<lparr>db_payRuns := t\<rparr>))"

text \<open>The totals of the entries, and the lines of the accrual journal.\<close>

definition accrualInputs :: "payrollRun \<Rightarrow> payrollEntry list \<Rightarrow> payrollAccrualInputs" where
  "accrualInputs run zs =
     (let tot = (\<lambda>f. nsum (map (cents \<circ> f) zs)) in
      \<lparr>pa_totalGross = cents (pn_totalGross run), pa_totalPaye = tot pz_paye, pa_totalSsnitEmployee = tot pz_ssnitEmployee,
       pa_totalSsnitEmployerTier1 = tot pz_ssnitEmployerTier1, pa_totalTier2Employer = tot pz_tier2Employer,
       pa_totalOtherDeductions = tot pz_otherDeductions, pa_totalNet = cents (pn_totalNet run)\<rparr>)"

definition accrualLines :: "payrollRun \<Rightarrow> 'a payroll_db_scheme \<Rightarrow> entry list" where
  "accrualLines run db = buildPayrollAccrualLines (accrualInputs run (entriesOf (pn_id run) (db_payEntries db)))
     (\<lambda>p. the (accountIdByPurpose (pn_institutionId run) (db_payrollMappings db) p))"

text \<open>The journal, when every purpose is mapped, the period is open and the lines balance; otherwise there is none.\<close>

definition postAccrual :: "env \<Rightarrow> payrollRun \<Rightarrow> 'a payroll_db_scheme \<Rightarrow> terr + string option \<times> 'a payroll_db_scheme" where
  "postAccrual env run db =
     (let date = (case find (\<lambda>p. py_id p = pn_payrollPeriodId run) (db_payPeriods db) of None \<Rightarrow> e_now env | Some p \<Rightarrow> py_endDate p) in
      if \<not> list_all (\<lambda>p. truthy (accountIdByPurpose (pn_institutionId run) (db_payrollMappings db) p)) REQUIRED_ACCRUAL_PURPOSES
         \<or> map_option fp_status (findPostablePeriod (pn_institutionId run) date db) \<noteq> Some FP_OPEN
         \<or> \<not> isBalanced (accrualLines run db)
      then Inr (None, db)
      else bindE (postJournal env (pn_institutionId run) AUTOMATIC (''Payroll accrual - '' @ payPeriodName (pn_payrollPeriodId run) db)
             date (e_userId env) (e_userId env) (withCategory db (accrualLines run db)) db)
           (\<lambda>(j, db1). Inr (Some (jo_id j), db1)))"

definition applyPayrollRun :: "env \<Rightarrow> approvalRow \<Rightarrow> 'a payroll_db_scheme \<Rightarrow> terr + 'a payroll_db_scheme" where
  "applyPayrollRun env r db =
     bindE (orThrow Thrown (find (\<lambda>x. pn_id x = ap_targetId r) (db_payRuns db))) (\<lambda>run.
     bindE (postAccrual env run db) (\<lambda>(jid, db1).
     Inr (updRun (pn_id run) (\<lambda>x. x\<lparr>pn_status := PN_APPROVED, pn_approvedById := Some (e_userId env), pn_approvedAt := Some (e_now env),
       pn_accrualJournalId := jid\<rparr>) db1)))"

text \<open>A time that was not proposed stays.\<close>

definition applyCorrection :: "approvalRow \<Rightarrow> 'a people_db_scheme \<Rightarrow> terr + 'a people_db_scheme" where
  "applyCorrection r db =
     bindE (updateOne (\<lambda>a. at_id a = ap_targetId r) (\<lambda>a. a\<lparr>at_clockInAt := GL_Routes.orKeep (at_proposedClockInAt a) (at_clockInAt a),
        at_clockOutAt := Customer_Care.orKeep (at_proposedClockOutAt a) (at_clockOutAt a), at_correctionPending := False\<rparr>) (db_attendance db))
       (\<lambda>t. Inr (db\<lparr>db_attendance := t\<rparr>))"

definition dropCorrection :: "approvalRow \<Rightarrow> 'a people_db_scheme \<Rightarrow> terr + 'a people_db_scheme" where
  "dropCorrection r db =
     bindE (updateOne (\<lambda>a. at_id a = ap_targetId r) (\<lambda>a. a\<lparr>at_correctionPending := False, at_proposedClockInAt := None,
        at_proposedClockOutAt := None\<rparr>) (db_attendance db)) (\<lambda>t. Inr (db\<lparr>db_attendance := t\<rparr>))"

definition setAssetTransfer :: "(assetTransfer \<Rightarrow> assetTransfer) \<Rightarrow> string \<Rightarrow> 'a asset_db_scheme \<Rightarrow> terr + 'a asset_db_scheme" where
  "setAssetTransfer f i db = bindE (updateOne (\<lambda>t. fx_id t = i) f (db_assetTransfers db)) (\<lambda>t. Inr (db\<lparr>db_assetTransfers := t\<rparr>))"

definition applyAssetTransfer :: "env \<Rightarrow> approvalRow \<Rightarrow> 'a asset_db_scheme \<Rightarrow> terr + 'a asset_db_scheme" where
  "applyAssetTransfer env r db =
     bindE (orThrow Thrown (find (\<lambda>t. fx_id t = ap_targetId r) (db_assetTransfers db))) (\<lambda>t.
     setAssetTransfer (\<lambda>x. x\<lparr>fx_status := FX_APPROVED, fx_transferredAt := Some (e_now env)\<rparr>) (fx_id t)
       (updAsset (fx_assetId t) (\<lambda>a. a\<lparr>fa_currentEmployeeId := fx_toEmployeeId t, fa_currentDepartmentId := fx_toDepartmentId t,
          fa_currentBranchId := fx_toBranchId t\<rparr>) db))"

definition setDisposal :: "(assetDisposal \<Rightarrow> assetDisposal) \<Rightarrow> string \<Rightarrow> 'a asset_db_scheme \<Rightarrow> terr + 'a asset_db_scheme" where
  "setDisposal f i db = bindE (updateOne (\<lambda>z. fz_id z = i) f (db_disposals db)) (\<lambda>t. Inr (db\<lparr>db_disposals := t\<rparr>))"

definition disposalLines :: "assetDisposal \<Rightarrow> asset \<Rightarrow> 'a asset_db_scheme \<Rightarrow> entry list" where
  "disposalLines z a db = buildAssetDisposalLines (cents (fa_acquisitionCost a)) (cents (fa_accumulatedDepreciation a))
     (cents (GL_Routes.orKeep (fz_saleProceeds z) 0)) (\<lambda>p. orMessage (accountIdByPurpose (fz_institutionId z) (db_assetMappings db) p) [])"

text \<open>
  Only two of the purposes are required. A line for a purpose that is not mapped has no account, and the
  database client refuses the journal.
\<close>

definition postDisposal :: "env \<Rightarrow> assetDisposal \<Rightarrow> asset \<Rightarrow> 'a asset_db_scheme \<Rightarrow> terr + string option \<times> 'a asset_db_scheme" where
  "postDisposal env z a db =
     (if \<not> list_all (\<lambda>p. truthy (accountIdByPurpose (fz_institutionId z) (db_assetMappings db) p)) [''Fixed Asset'', ''Accumulated Depreciation'']
         \<or> map_option fp_status (findPostablePeriod (fz_institutionId z) (e_now env) db) \<noteq> Some FP_OPEN
         \<or> \<not> isBalanced (disposalLines z a db)
      then Inr (None, db)
      else if list_ex (\<lambda>l. en_accountId l = []) (disposalLines z a db) then Inl Thrown
      else bindE (postJournal env (fz_institutionId z) AUTOMATIC (''Asset disposal - '' @ fa_assetCode a @ '' - '' @ showDisposalType (fz_disposalType z))
             (e_now env) (e_userId env) (e_userId env) (withCategory db (disposalLines z a db)) db)
           (\<lambda>(j, db1). Inr (Some (jo_id j), db1)))"

definition applyAssetDisposal :: "env \<Rightarrow> approvalRow \<Rightarrow> 'a asset_db_scheme \<Rightarrow> terr + 'a asset_db_scheme" where
  "applyAssetDisposal env r db =
     bindE (orThrow Thrown (find (\<lambda>z. fz_id z = ap_targetId r) (db_disposals db))) (\<lambda>z.
     bindE (orThrow Thrown (find (\<lambda>a. fa_id a = fz_assetId z) (db_assets db))) (\<lambda>a.
     bindE (postDisposal env z a db) (\<lambda>(jid, db1).
     bindE (setDisposal (\<lambda>x. x\<lparr>fz_status := FZ_APPROVED, fz_approvedById := Some (e_userId env), fz_journalId := jid\<rparr>) (fz_id z) db1) (\<lambda>db2.
     Inr (updAsset (fa_id a) (\<lambda>a. a\<lparr>fa_status := FA_DISPOSED, fa_disposedAt := Some (fz_disposalDate z), fa_disposalReason := Some (fz_reason z)\<rparr>) db2)))))"

section \<open>Approving and rejecting\<close>

fun applyApproval :: "env \<Rightarrow> approvalType \<Rightarrow> approvalRow \<Rightarrow> 'a asset_db_scheme \<Rightarrow> terr + 'a asset_db_scheme" where
  "applyApproval env CUSTOMER_STATUS_CHANGE r db = applyStatusChange r db"
| "applyApproval env CUSTOMER_PROFILE_UPDATE r db = applyProfileUpdate env r db"
| "applyApproval env ACCOUNT_HOLDER_ADD r db = applyHolderAdd env r db"
| "applyApproval env PRODUCT_ACTIVATION r db = setProductStatus PS_ACTIVE r db"
| "applyApproval env BUSINESS_RULE_ACTIVATION r db = setRuleStatus BR_ACTIVE r db"
| "applyApproval env LOAN_RESTRUCTURE r db = applyRestructure env r db"
| "applyApproval env LOAN_RESCHEDULE r db = applyReschedule env r db"
| "applyApproval env LOAN_WRITE_OFF r db = applyWriteOff env r db"
| "applyApproval env COLLECTION_VARIANCE_ADJUSTMENT r db = reconcileSettlement env r db"
| "applyApproval env COMMISSION_PAYMENT r db = updateCommission (\<lambda>c. c\<lparr>cr_status := CM_PAID, cr_paidAt := Some (e_now env)\<rparr>) r db"
| "applyApproval env CASH_TRANSFER r db = applyCashTransfer env r db"
| "applyApproval env CASH_BALANCING_VARIANCE r db = reconcileBalancing env r db"
| "applyApproval env JOURNAL_POSTING r db = applyJournalPosting env r db"
| "applyApproval env FINANCIAL_PERIOD_REOPEN r db = reopenPeriod env r db"
| "applyApproval env RECURRING_JOURNAL_ACTIVATION r db = setRecurringStatus RJ_ACTIVE r db"
| "applyApproval env INTER_BRANCH_TRANSFER r db = applyInterBranch env r db"
| "applyApproval env SALARY_STRUCTURE_CHANGE r db = applySalaryStructure env r db"
| "applyApproval env PAYROLL_RUN_APPROVAL r db = applyPayrollRun env r db"
| "applyApproval env ATTENDANCE_CORRECTION r db = applyCorrection r db"
| "applyApproval env AUDIT_ENGAGEMENT_APPROVAL r db = setEngagementStatus EG_IN_PROGRESS r db"
| "applyApproval env ASSET_TRANSFER r db = applyAssetTransfer env r db"
| "applyApproval env ASSET_DISPOSAL r db = applyAssetDisposal env r db"
| "applyApproval env CUSTOMER_MERGE r db = applyMerge env r db"
| "applyApproval env SAVINGS_RESTRICTION_CREATE r db =
     updateRestriction (\<lambda>x. x\<lparr>sr_status := SR_ACTIVE, sr_approvedById := Some (e_userId env), sr_activatedAt := Some (e_now env)\<rparr>) r db"
| "applyApproval env SAVINGS_RESTRICTION_REMOVE r db =
     updateRestriction (\<lambda>x. x\<lparr>sr_status := SR_REMOVED, sr_removedById := Some (e_userId env), sr_removedAt := Some (e_now env)\<rparr>) r db"
| "applyApproval env BUSINESS_RULE_TRIGGERED r db = Inr db"
| "applyApproval env AML_ADJUDICATION r db = applyAdjudication r db"

text \<open>What a rejection does to the target; most kinds of request leave it alone.\<close>

definition revertCustomer :: "approvalRow \<Rightarrow> 'a savings_db_scheme \<Rightarrow> terr + 'a savings_db_scheme" where
  "revertCustomer r db = (case payloadText ''previousStatus'' r of None \<Rightarrow> Inr db | Some s \<Rightarrow> setCustomerStatus (ap_targetId r) s db)"

fun rejectEffect :: "approvalType \<Rightarrow> approvalRow \<Rightarrow> 'a asset_db_scheme \<Rightarrow> terr + 'a asset_db_scheme" where
  "rejectEffect CUSTOMER_STATUS_CHANGE r db = revertCustomer r db"
| "rejectEffect CUSTOMER_PROFILE_UPDATE r db = revertCustomer r db"
| "rejectEffect PRODUCT_ACTIVATION r db = setProductStatus PS_DRAFT r db"
| "rejectEffect BUSINESS_RULE_ACTIVATION r db = setRuleStatus BR_DRAFT r db"
| "rejectEffect COMMISSION_PAYMENT r db = updateCommission (\<lambda>c. c\<lparr>cr_status := CM_PENDING\<rparr>) r db"
| "rejectEffect SAVINGS_RESTRICTION_CREATE r db =
     updateRestriction (\<lambda>x. x\<lparr>sr_status := SR_REMOVED, sr_removalReason := Some ''Creation request rejected''\<rparr>) r db"
| "rejectEffect SAVINGS_RESTRICTION_REMOVE r db = updateRestriction (\<lambda>x. x\<lparr>sr_removalRequestedById := None\<rparr>) r db"
| "rejectEffect CASH_TRANSFER r db =
     bindE (updateOne (\<lambda>t. ct_id t = ap_targetId r) (\<lambda>t. t\<lparr>ct_status := CT_REJECTED\<rparr>) (db_cashTransfers db)) (\<lambda>t. Inr (db\<lparr>db_cashTransfers := t\<rparr>))"
| "rejectEffect ATTENDANCE_CORRECTION r db = dropCorrection r db"
| "rejectEffect AUDIT_ENGAGEMENT_APPROVAL r db = setEngagementStatus EG_PLANNED r db"
| "rejectEffect JOURNAL_POSTING r db = setJournalDraft r db"
| "rejectEffect RECURRING_JOURNAL_ACTIVATION r db = setRecurringStatus RJ_DRAFT r db"
| "rejectEffect SALARY_STRUCTURE_CHANGE r db = setStructureStatus SY_DRAFT r db"
| "rejectEffect PAYROLL_RUN_APPROVAL r db = setRunStatus PN_PROCESSED r db"
| "rejectEffect ASSET_TRANSFER r db = setAssetTransfer (\<lambda>t. t\<lparr>fx_status := FX_REJECTED\<rparr>) (ap_targetId r) db"
| "rejectEffect ASSET_DISPOSAL r db = setDisposal (\<lambda>z. z\<lparr>fz_status := FZ_REJECTED\<rparr>) (ap_targetId r) db"
| "rejectEffect CUSTOMER_MERGE r db =
     bindE (updateOne (\<lambda>m. mg_id m = ap_targetId r) (\<lambda>m. m\<lparr>mg_status := MG_REJECTED\<rparr>) (db_merges db)) (\<lambda>t. Inr (db\<lparr>db_merges := t\<rparr>))"
| "rejectEffect INTER_BRANCH_TRANSFER r db =
     bindE (updateOne (\<lambda>t. ix_id t = ap_targetId r) (\<lambda>t. t\<lparr>ix_status := IX_REJECTED\<rparr>) (db_interBranch db)) (\<lambda>t. Inr (db\<lparr>db_interBranch := t\<rparr>))"
| "rejectEffect _ r db = Inr db"

text \<open>
  The claim of the request: its status moves from pending in one guarded update, so that of two
  approvals only one finds it. An absent note leaves the column as it was.
\<close>

definition claimRequest :: "env \<Rightarrow> approvalStatus \<Rightarrow> string option \<Rightarrow> string \<Rightarrow> 'a core_db_scheme \<Rightarrow> terr + 'a core_db_scheme" where
  "claimRequest env st note i db =
     (let P = (\<lambda>r. ap_id r = i \<and> ap_status r = AP_PENDING) in
      bindE (require (countWhere P (db_approvals db) \<noteq> 0) 400 ''This request has already been resolved'') (\<lambda>_.
      Inr (db\<lparr>db_approvals := updWhere P (\<lambda>r. r\<lparr>ap_status := st, ap_resolvedById := Some (e_userId env), ap_resolvedAt := Some (e_now env),
        ap_resolutionNote := Customer_Care.orKeep note (ap_resolutionNote r)\<rparr>) (db_approvals db)\<rparr>)))"

text \<open>The checks before the transaction.\<close>

definition openRequest :: "env \<Rightarrow> string \<Rightarrow> string \<Rightarrow> 'a core_db_scheme \<Rightarrow> terr + approvalRow" where
  "openRequest env verb i db =
     bindE (orThrow (Http 404 ''Approval request not found'')
       (find (\<lambda>r. ap_id r = i \<and> ap_institutionId r = e_institutionId env) (db_approvals db))) (\<lambda>r.
     bindE (require (ap_status r = AP_PENDING) 400 ''This request has already been resolved'') (\<lambda>_.
     bindE (require (ap_requestedById r \<noteq> e_userId env) 403 (''Segregation of duties: cannot '' @ verb @ '' a request you submitted yourself'')) (\<lambda>_.
     Inr r)))"

definition resolveRequest ::
  "env \<Rightarrow> approvalStatus \<Rightarrow> string \<Rightarrow> (approvalRow \<Rightarrow> 'a asset_db_scheme \<Rightarrow> terr + 'a asset_db_scheme) \<Rightarrow> string \<Rightarrow> string option
    \<Rightarrow> 'a asset_db_scheme \<Rightarrow> unit resp \<times> 'a asset_db_scheme" where
  "resolveRequest env st verb effect i note db = answer 200 db (
     bindE (openRequest env verb i db) (\<lambda>r.
     bindE (claimRequest env st note (ap_id r) db) (\<lambda>db1.
     bindE (effect r db1) (\<lambda>db2.
     Inr ((), audit env (''approval.'' @ verb) ''approval_request'' (ap_id r) db2)))))"

definition approveRequest :: "env \<Rightarrow> string \<Rightarrow> string option \<Rightarrow> 'a asset_db_scheme \<Rightarrow> unit resp \<times> 'a asset_db_scheme" where
  "approveRequest env = resolveRequest env AP_APPROVED ''approve'' (\<lambda>r. applyApproval env (ap_type r) r)"

definition rejectRequest :: "env \<Rightarrow> string \<Rightarrow> string option \<Rightarrow> 'a asset_db_scheme \<Rightarrow> unit resp \<times> 'a asset_db_scheme" where
  "rejectRequest env = resolveRequest env AP_REJECTED ''reject'' (\<lambda>r. rejectEffect (ap_type r) r)"

end
