(* ===== verification/Merge_Safety.thy ===== *)
theory Merge_Safety
  imports Customer_Merge
begin

text \<open>
  A merge moves every row that refers to the merged customer, and its rollback, which follows the list
  captured at the merge, gives each row back, whatever was added in between.
\<close>

section \<open>The tables seen as references\<close>

definition giveTo :: "string \<Rightarrow> (string \<Rightarrow> string option \<Rightarrow> bool) \<Rightarrow> (string \<times> string option) list \<Rightarrow> (string \<times> string option) list" where
  "giveTo c P rows = map (\<lambda>r. (fst r, if P (fst r) (snd r) then Some c else snd r)) rows"

lemma refRows_setCustomer_same: "refRows m (setCustomer m P c db) = giveTo c P (refRows m db)"
  by (cases m) (simp_all add: giveTo_def updWhere_def)

lemma refRows_setCustomer_other: "m \<noteq> m' \<Longrightarrow> refRows m (setCustomer m' P c db) = refRows m db"
  by (cases m; cases m'; simp)

lemmas refRows_setCustomer = refRows_setCustomer_same refRows_setCustomer_other

lemma customers_setCustomer [simp]: "db_customers (setCustomer m P c db) = db_customers db"
  by (cases m) simp_all

lemma refRows_customers [simp]: "refRows m (updCustomer i f db) = refRows m db"
  by (cases m) (simp_all add: updCustomer_def)

lemma setMergeState_Inr:
  "setMergeState i b into db = Inr db' \<longleftrightarrow> find (\<lambda>c. customer.cu_id c = i) (db_customers db) \<noteq> None
     \<and> db' = updCustomer i (\<lambda>c. c\<lparr>cu_merged := b, cu_mergedIntoCustomerId := into\<rparr>) db"
  by (auto simp: setMergeState_def)

lemma allRefModels_all: "m \<in> set allRefModels"
  by (cases m) (simp_all add: allRefModels_def)

lemma allRefModels_distinct: "distinct allRefModels"
  by (simp add: allRefModels_def)

lemma ids_giveTo [simp]: "map fst (giveTo c P rows) = map fst rows" "fst ` set (giveTo c P rows) = fst ` set rows"
  by (simp_all add: giveTo_def image_image)

section \<open>Merging\<close>

lemma merge_models:
  assumes "foldl (mergeModel p m) (moved, db) ms = (recs, db')" and "distinct ms"
  shows "set recs = set moved \<union> {(k, i). k \<in> set ms \<and> (i, Some m) \<in> set (refRows k db)}
    \<and> (\<forall>k. refRows k db' = (if k \<in> set ms then giveTo p (\<lambda>_ c. c = Some m) (refRows k db) else refRows k db))
    \<and> db_customers db' = db_customers db"
  using assms
proof (induction ms arbitrary: moved db)
  case (Cons a ms)
  let ?db1 = "setCustomer a (\<lambda>_ c. c = Some m) p db"
  let ?moved = "moved @ map (\<lambda>(i, _). (a, i)) (filter (\<lambda>(_, c). c = Some m) (refRows a db))"
  have f: "foldl (mergeModel p m) (?moved, ?db1) ms = (recs, db')" and a: "a \<notin> set ms" "distinct ms"
    using Cons.prems by (simp_all add: mergeModel_def)
  have same: "refRows k ?db1 = refRows k db" if "k \<noteq> a" for k
    using that by (rule refRows_setCustomer_other)
  have "set ?moved = set moved \<union> {(k, i). k = a \<and> (i, Some m) \<in> set (refRows a db)}" by force
  moreover have "{(k, i). k \<in> set ms \<and> (i, Some m) \<in> set (refRows k ?db1)} = {(k, i). k \<in> set ms \<and> (i, Some m) \<in> set (refRows k db)}"
    using same a(1) by (metis (no_types, lifting))
  ultimately have recs: "set recs = set moved \<union> {(k, i). k \<in> set (a # ms) \<and> (i, Some m) \<in> set (refRows k db)}"
    using Cons.IH [OF f a(2)] by auto
  have "refRows k db' = (if k \<in> set (a # ms) then giveTo p (\<lambda>_ c. c = Some m) (refRows k db) else refRows k db)" for k
    using Cons.IH [OF f a(2)] a(1) same [of k] by (cases "k = a") (simp_all add: refRows_setCustomer_same)
  then show ?case using recs Cons.IH [OF f a(2)] by simp
qed simp

lemma merge_effect:
  assumes "executeCustomerMerge p m db = Inr (recs, db')"
  shows "set recs = {(k, i). (i, Some m) \<in> set (refRows k db)}"
    and "refRows k db' = giveTo p (\<lambda>_ c. c = Some m) (refRows k db)"
    and "db_customers db' = updWhere (\<lambda>c. customer.cu_id c = m) (\<lambda>c. c\<lparr>cu_merged := True, cu_mergedIntoCustomerId := Some p\<rparr>) (db_customers db)"
proof -
  obtain db1 where f: "foldl (mergeModel p m) ([], db) allRefModels = (recs, db1)"
    and d: "db' = updCustomer m (\<lambda>c. c\<lparr>cu_merged := True, cu_mergedIntoCustomerId := Some p\<rparr>) db1"
    using assms by (cases "foldl (mergeModel p m) ([], db) allRefModels")
      (auto simp: executeCustomerMerge_def bindE_Inr_iff setMergeState_Inr)
  note e = merge_models [OF f allRefModels_distinct]
  show "set recs = {(k, i). (i, Some m) \<in> set (refRows k db)}" using e allRefModels_all by simp
  show "refRows k db' = giveTo p (\<lambda>_ c. c = Some m) (refRows k db)"
    using e allRefModels_all by (simp add: d)
  show "db_customers db' = updWhere (\<lambda>c. customer.cu_id c = m) (\<lambda>c. c\<lparr>cu_merged := True, cu_mergedIntoCustomerId := Some p\<rparr>) (db_customers db)"
    using e by (simp add: d updCustomer_def)
qed

lemma merge_target:
  assumes "executeCustomerMerge p m db = Inr (recs, db')" shows "m \<in> customer.cu_id ` set (db_customers db)"
proof -
  obtain db1 where f: "foldl (mergeModel p m) ([], db) allRefModels = (recs, db1)"
    and d: "find (\<lambda>c. customer.cu_id c = m) (db_customers db1) \<noteq> None"
    using assms by (cases "foldl (mergeModel p m) ([], db) allRefModels")
      (auto simp: executeCustomerMerge_def bindE_Inr_iff setMergeState_Inr)
  then show ?thesis using merge_models [OF f allRefModels_distinct] by (auto simp: find_None_iff)
qed

section \<open>Taking back\<close>

lemma rollback_records:
  assumes "\<And>k i. (k, i) \<in> set recs \<Longrightarrow> i \<in> fst ` set (refRows k db)"
  shows "\<exists>db'. foldE (rollbackRecord m) recs db = Inr db' \<and> db_customers db' = db_customers db
     \<and> (\<forall>k. refRows k db' = giveTo m (\<lambda>i _. (k, i) \<in> set recs) (refRows k db))"
  using assms
proof (induction recs arbitrary: db)
  case Nil
  show ?case by (simp add: giveTo_def)
next
  case (Cons r recs)
  let ?db1 = "setCustomer (fst r) (\<lambda>i _. i = snd r) m db"
  have step: "rollbackRecord m r db = Inr ?db1"
    using Cons.prems [of "fst r" "snd r"] by (simp add: rollbackRecord_def)
  have ids: "fst ` set (refRows k ?db1) = fst ` set (refRows k db)" for k
    by (cases "k = fst r") (simp_all add: refRows_setCustomer)
  obtain db' where db': "foldE (rollbackRecord m) recs ?db1 = Inr db'" "db_customers db' = db_customers ?db1"
    "\<forall>k. refRows k db' = giveTo m (\<lambda>i _. (k, i) \<in> set recs) (refRows k ?db1)"
    using Cons.IH [of ?db1] Cons.prems ids by auto
  have "giveTo m (\<lambda>i _. (k, i) \<in> set recs) (refRows k ?db1) = giveTo m (\<lambda>i _. (k, i) \<in> set (r # recs)) (refRows k db)" for k
    by (cases "k = fst r") (auto simp: refRows_setCustomer giveTo_def prod_eq_iff)
  with db' step show ?case by simp
qed

lemma giveTo_back:
  assumes "distinct (map fst rows)"
  shows "giveTo m (\<lambda>i _. (i, Some m) \<in> set rows) (giveTo p (\<lambda>_ c. c = Some m) rows) = rows"
proof -
  have "(fst r, if (fst r, Some m) \<in> set rows then Some m else if snd r = Some m then Some p else snd r) = r"
    if r: "r \<in> set rows" for r
  proof (cases "(fst r, Some m) \<in> set rows")
    case True
    then show ?thesis using eq_key_imp_eq_value [OF assms, of "fst r" "Some m" "snd r"] r by (simp add: prod_eq_iff)
  next
    case False
    then have "snd r \<noteq> Some m" using r by (metis prod.collapse)
    then show ?thesis using False by simp
  qed
  then have "map (\<lambda>r. (fst r, if (fst r, Some m) \<in> set rows then Some m else if snd r = Some m then Some p else snd r)) rows = rows"
    by (intro map_idI)
  then show ?thesis
    unfolding giveTo_def map_map comp_def fst_conv snd_conv .
qed

text \<open>The state in which the rollback runs: the rows of the merge, with any others added after them.\<close>

definition grownFrom :: "'a customer_db_scheme \<Rightarrow> (refModel \<Rightarrow> (string \<times> string option) list) \<Rightarrow> 'a customer_db_scheme \<Rightarrow> bool" where
  "grownFrom db extra later \<longleftrightarrow> (\<forall>k. refRows k later = refRows k db @ extra k \<and> distinct (map fst (refRows k later)))
     \<and> customer.cu_id ` set (db_customers db) \<subseteq> customer.cu_id ` set (db_customers later)"

text \<open>Claim C15. Rolling a merge back returns every row to the customer it had before the merge, in all ten
  models, and leaves the rows that came after the merge where they are; it never fails while the rows exist.\<close>

theorem merge_rollback_restores:
  assumes merge: "executeCustomerMerge p m db = Inr (recs, merged)" and grown: "grownFrom merged extra later"
  shows "\<exists>db'. rollbackCustomerMerge m recs later = Inr db' \<and> (\<forall>k. refRows k db' = refRows k db @ extra k)"
proof -
  note e = merge_effect [OF merge]
  have rows: "refRows k later = giveTo p (\<lambda>_ c. c = Some m) (refRows k db) @ extra k" "distinct (map fst (refRows k later))" for k
    using grown unfolding grownFrom_def e(2) by blast+
  have d: "distinct (map fst (refRows k db))" and sep: "fst ` set (extra k) \<inter> fst ` set (refRows k db) = {}" for k
    using rows(2) [of k] by (simp_all add: rows(1) Int_commute)
  have mem: "i \<in> fst ` set (refRows k later)" if r: "(k, i) \<in> set recs" for k i
  proof -
    have "i \<in> fst ` set (refRows k db)" using r by (force simp: e(1))
    then show ?thesis by (simp add: rows(1) image_Un)
  qed
  obtain db1 where db1: "foldE (rollbackRecord m) recs later = Inr db1" "db_customers db1 = db_customers later"
    "\<And>k. refRows k db1 = giveTo m (\<lambda>i _. (k, i) \<in> set recs) (refRows k later)"
    using rollback_records [of recs later m] mem by blast
  have "(i, Some m) \<notin> set (refRows k db)" if "(i, x) \<in> set (extra k)" for i x k
    using that sep [of k] by force
  then have "giveTo m (\<lambda>i _. (k, i) \<in> set recs) (extra k) = extra k" for k
    unfolding giveTo_def e(1) by (intro map_idI) auto
  then have restored: "refRows k db1 = refRows k db @ extra k" for k
    using giveTo_back [OF d] by (simp add: db1(3) rows(1) e(1) giveTo_def)
  have "m \<in> customer.cu_id ` set (db_customers db)"
    by (rule merge_target [OF merge])
  moreover have "map customer.cu_id (db_customers merged) = map customer.cu_id (db_customers db)"
    unfolding e(3) by (rule map_updWhere) simp
  ultimately have "m \<in> customer.cu_id ` set (db_customers merged)" by (simp flip: set_map)
  then have "m \<in> customer.cu_id ` set (db_customers later)" using grown unfolding grownFrom_def by blast
  then have known: "find (\<lambda>c. customer.cu_id c = m) (db_customers db1) \<noteq> None"
    unfolding db1(2) find_None_iff by blast
  define db2 where "db2 = updCustomer m (\<lambda>c. c\<lparr>cu_merged := False, cu_mergedIntoCustomerId := None\<rparr>) db1"
  have "setMergeState m False None db1 = Inr db2" unfolding setMergeState_Inr db2_def using known by blast
  then have "rollbackCustomerMerge m recs later = Inr db2" by (simp add: rollbackCustomerMerge_def db1(1))
  moreover have "refRows k db2 = refRows k db @ extra k" for k by (simp add: db2_def restored)
  ultimately show ?thesis by blast
qed

text \<open>Nothing refers to the merged customer any more, and every row that did refers to the primary one.\<close>

lemma merge_moves_every_row:
  assumes "executeCustomerMerge p m db = Inr (recs, merged)" and "p \<noteq> m"
  shows "(i, Some m) \<notin> set (refRows k merged) \<and> ((i, x) \<in> set (refRows k db) \<longrightarrow> (i, if x = Some m then Some p else x) \<in> set (refRows k merged))"
  using assms(2) by (auto simp: merge_effect(2) [OF assms(1)] giveTo_def split: if_splits) force+

end
