(* ===== verification/Approval_Safety.thy ===== *)
theory Approval_Safety
  imports Approvals Merge_Safety GL_System
begin

text \<open>
  What approving and rejecting guarantees: a request is resolved once and by someone else, the books are
  kept, cash is moved and never made, and the settlement accounts of the branches stay level; and where
  it falls short: a rejected profile update leaves the customer locked, and the restructuring of a loan
  that has a schedule can never be approved.
\<close>

section \<open>What the effects leave alone\<close>

definition quiet :: "'a gl_db_scheme \<Rightarrow> 'a gl_db_scheme \<Rightarrow> bool" where
  "quiet db db' \<longleftrightarrow> db_approvals db' = db_approvals db \<and> db_glAccounts db' = db_glAccounts db \<and> db_journals db' = db_journals db"

lemma foldE_frame:
  assumes "\<And>x d d'. f x d = Inr d' \<Longrightarrow> g d' = g d" and "foldE f xs d = Inr d'"
  shows "g d' = g d"
  using assms(2) by (induction xs arbitrary: d) (auto simp: bindE_Inr_iff dest!: assms(1))

lemma quiet_refl [simp]: "quiet db db"
  by (simp add: quiet_def)

lemma foldE_postLine_approvals:
  fixes db db' :: "'a gl_db_scheme"
  assumes "foldE postLine cls db = Inr db'" shows "db_approvals db' = db_approvals db"
proof -
  have "db_approvals t = db_approvals u" if "postLine cl u = Inr t" for cl and u t :: "'a gl_db_scheme"
    using that by (auto simp: postLine_def split: prod.splits if_splits)
  then show ?thesis by (rule foldE_frame [OF _ assms])
qed

lemma postJournal_frame:
  assumes "postJournal env inst ty descr date pb cb cls db = Inr (j, db')"
  shows "db_approvals db' = db_approvals db"
proof -
  obtain db1 where c: "createJournal env inst ty descr J_POSTED date (Some pb) cb (map snd cls) db = Inr (j, db1)"
    and f: "foldE postLine cls db1 = Inr db'"
    using assms by (auto simp: postJournal_def bindE_Inr_iff)
  have "db_approvals db' = db_approvals db1" by (rule foldE_postLine_approvals [OF f])
  moreover have "db_approvals db1 = db_approvals db" using createJournal_result [OF c] by simp
  ultimately show ?thesis by simp
qed

lemmas effect_simps = bindE_Inr_iff Let_def updateOne_Inr split_beta

lemma merge_frame:
  assumes "executeCustomerMerge p m db = Inr (recs, db')"
  shows "quiet db db'"
proof -
  have one: "db_approvals (setCustomer k P c d) = db_approvals d \<and> db_glAccounts (setCustomer k P c d) = db_glAccounts d
      \<and> db_journals (setCustomer k P c d) = db_journals d" for k P c and d :: "'a customer_db_scheme"
    by (cases k) simp_all
  have "db_approvals (snd (foldl (mergeModel p m) s ms)) = db_approvals (snd s)
      \<and> db_glAccounts (snd (foldl (mergeModel p m) s ms)) = db_glAccounts (snd s)
      \<and> db_journals (snd (foldl (mergeModel p m) s ms)) = db_journals (snd s)" for s :: "_ \<times> 'a customer_db_scheme" and ms
    by (induction ms arbitrary: s) (simp_all add: mergeModel_def split_beta one)
  from this [of "([], db)" allRefModels] show ?thesis
    using assms by (cases "foldl (mergeModel p m) ([], db) allRefModels")
      (auto simp: quiet_def executeCustomerMerge_def bindE_Inr_iff setMergeState_Inr updCustomer_def)
qed

lemma customer_frames:
  "updateCustomer i f db = Inr db' \<Longrightarrow> quiet db db'"
  "setCustomerStatus i t db = Inr db' \<Longrightarrow> quiet db db'"
  "applyStatusChange r db = Inr db' \<Longrightarrow> quiet db db'"
  "applyProfileUpdate env r db = Inr db' \<Longrightarrow> quiet db db'"
  "applyAdjudication r db = Inr db' \<Longrightarrow> quiet db db'"
  "revertCustomer r db = Inr db' \<Longrightarrow> quiet db db'"
  by (auto simp: quiet_def updateCustomer_def setCustomerStatus_def applyStatusChange_def applyProfileUpdate_def applyAdjudication_def
      revertCustomer_def effect_simps split: option.splits jsValue.splits if_splits)

lemma holder_frame: "applyHolderAdd env r db = Inr db' \<Longrightarrow> quiet db db'"
  by (auto simp: quiet_def applyHolderAdd_def Let_def split: if_splits)

lemma merge_frames: "applyMerge env r db = Inr db' \<Longrightarrow> quiet db db'"
  by (auto simp: applyMerge_def effect_simps updMerge_def quiet_def dest!: merge_frame)

lemma table_frames:
  "setProductStatus ps r db = Inr db' \<Longrightarrow> quiet db db'"
  "setRuleStatus rs r db = Inr db' \<Longrightarrow> quiet db db'"
  "updateRestriction f r db = Inr db' \<Longrightarrow> quiet db db'"
  by (auto simp: quiet_def setProductStatus_def setRuleStatus_def updateRestriction_def effect_simps)

lemma field_frames:
  "updateCommission g r db = Inr db' \<Longrightarrow> quiet db db'"
  "reconcileSettlement env r db = Inr db' \<Longrightarrow> quiet db db'"
  by (auto simp: quiet_def updateCommission_def reconcileSettlement_def effect_simps)

lemma cash_frames:
  "reconcileBalancing env r db = Inr db' \<Longrightarrow> quiet db db'"
  "applyDelta ty i d db = Inr (b, db') \<Longrightarrow> quiet db db'"
  "applyCashTransfer env r db = Inr db' \<Longrightarrow> quiet db db'"
proof -
  show "reconcileBalancing env r db = Inr db' \<Longrightarrow> quiet db db'"
    by (auto simp: quiet_def reconcileBalancing_def effect_simps)
  show delta: "applyDelta ty i d db = Inr (b, db') \<Longrightarrow> quiet db db'" for ty i d b and db db' :: "'a cash_db_scheme"
    by (auto simp: quiet_def applyDelta_def effect_simps split: holderType.splits)
  show "applyCashTransfer env r db = Inr db' \<Longrightarrow> quiet db db'"
    by (auto simp: quiet_def applyCashTransfer_def moveCash_def setCashTransfer_def recordCash_def effect_simps split: if_splits
        dest!: delta)
qed

lemma loan_frames:
  "applyReschedule env r db = Inr db' \<Longrightarrow> quiet db db'"
  "applyWriteOff env r db = Inr db' \<Longrightarrow> quiet db db'"
  "applyRestructure env r db = Inr db' \<Longrightarrow> quiet db db'"
  by (auto simp: quiet_def applyReschedule_def applyWriteOff_def applyRestructure_def createInstallments_def effect_simps split: if_splits)

lemma ledger_quiet:
  "reopenPeriod env r db = Inr db' \<Longrightarrow> quiet db db'"
  "setRecurringStatus st r db = Inr db' \<Longrightarrow> quiet db db'"
  by (auto simp: quiet_def reopenPeriod_def setRecurringStatus_def effect_simps)

lemma engagement_frame: "setEngagementStatus st r db = Inr db' \<Longrightarrow> quiet db db'"
  by (auto simp: quiet_def setEngagementStatus_def effect_simps)

lemma payroll_frames:
  "applySalaryStructure env r db = Inr db' \<Longrightarrow> quiet db db'"
  "setStructureStatus st r db = Inr db' \<Longrightarrow> quiet db db'"
  "setRunStatus rs r db = Inr db' \<Longrightarrow> quiet db db'"
  by (auto simp: quiet_def applySalaryStructure_def setStructureStatus_def setRunStatus_def updStructure_def effect_simps)

lemma people_frames:
  "applyCorrection r db = Inr db' \<Longrightarrow> quiet db db'"
  "dropCorrection r db = Inr db' \<Longrightarrow> quiet db db'"
  by (auto simp: quiet_def applyCorrection_def dropCorrection_def effect_simps)

lemma asset_frames:
  "setAssetTransfer f i db = Inr db' \<Longrightarrow> quiet db db'"
  "applyAssetTransfer env r db = Inr db' \<Longrightarrow> quiet db db'"
  "setDisposal g i db = Inr db' \<Longrightarrow> quiet db db'"
  by (auto simp: quiet_def setAssetTransfer_def applyAssetTransfer_def setDisposal_def updAsset_def effect_simps)

lemmas quiet_frames = customer_frames holder_frame merge_frames table_frames field_frames cash_frames(1,3) loan_frames
  ledger_quiet engagement_frame payroll_frames people_frames asset_frames

text \<open>All but the four effects that post, and all but one of the rejections.\<close>

definition postingTypes :: "approvalType list" where
  "postingTypes = [JOURNAL_POSTING, INTER_BRANCH_TRANSFER, PAYROLL_RUN_APPROVAL, ASSET_DISPOSAL]"

lemma applyApproval_quiet:
  assumes "ty \<notin> set postingTypes" and "applyApproval env ty r db = Inr db'"
  shows "quiet db db'"
  using assms by (cases ty) (auto simp: postingTypes_def dest: quiet_frames)

lemma rejectEffect_quiet:
  assumes "ty \<noteq> JOURNAL_POSTING" and "rejectEffect ty r db = Inr db'"
  shows "quiet db db'"
  using assms by (cases ty) (auto simp: quiet_def effect_simps dest: quiet_frames [unfolded quiet_def])

lemma posting_approvals:
  "applyJournalPosting env r db = Inr db' \<Longrightarrow> db_approvals db' = db_approvals db"
  "applyInterBranch env r db' = Inr db'' \<Longrightarrow> db_approvals db'' = db_approvals db'"
  "applyPayrollRun env r q = Inr q' \<Longrightarrow> db_approvals q' = db_approvals q"
  "applyAssetDisposal env r a = Inr a' \<Longrightarrow> db_approvals a' = db_approvals a"
proof -
  show "applyJournalPosting env r db = Inr db' \<Longrightarrow> db_approvals db' = db_approvals db"
    by (auto simp: applyJournalPosting_def bindE_Inr_iff updJournal_def split: if_splits dest!: foldE_postLine_approvals)
  show "applyInterBranch env r db' = Inr db'' \<Longrightarrow> db_approvals db'' = db_approvals db'"
    by (auto simp: applyInterBranch_def bindE_Inr_iff setInterBranch_def split: if_splits dest!: postJournal_frame)
  show "applyPayrollRun env r q = Inr q' \<Longrightarrow> db_approvals q' = db_approvals q"
    by (auto simp: applyPayrollRun_def postAccrual_def Let_def bindE_Inr_iff updRun_def split: if_splits dest!: postJournal_frame)
  show "applyAssetDisposal env r a = Inr a' \<Longrightarrow> db_approvals a' = db_approvals a"
    by (auto simp: applyAssetDisposal_def postDisposal_def setDisposal_def bindE_Inr_iff updateOne_Inr updAsset_def split: if_splits
        dest!: postJournal_frame)
qed

lemma applyApproval_approvals:
  assumes "applyApproval env ty r db = Inr db'" shows "db_approvals db' = db_approvals db"
proof (cases "ty \<in> set postingTypes")
  case True
  then show ?thesis using assms posting_approvals by (auto simp: postingTypes_def)
next
  case False
  then show ?thesis using applyApproval_quiet [OF _ assms] by (simp add: quiet_def)
qed

lemma rejectEffect_approvals:
  assumes "rejectEffect ty r db = Inr db'" shows "db_approvals db' = db_approvals db"
proof (cases "ty = JOURNAL_POSTING")
  case True
  then show ?thesis using assms by (auto simp: setJournalDraft_def effect_simps)
next
  case False
  then show ?thesis using rejectEffect_quiet [OF _ assms] by (simp add: quiet_def)
qed

section \<open>Resolved once\<close>

lemma resolveRequest_cases:
  assumes "resolveRequest env st verb effect i note db = (rs, db')"
  obtains (refused) "\<not> okResp rs" and "db' = db"
  | (resolved) r db1 db2 where "rs = ROk 200 ()" and "find (\<lambda>r. ap_id r = i \<and> ap_institutionId r = e_institutionId env) (db_approvals db) = Some r"
      and "ap_status r = AP_PENDING" and "ap_requestedById r \<noteq> e_userId env" and "claimRequest env st note i db = Inr db1"
      and "effect r db1 = Inr db2" and "db' = audit env (''approval.'' @ verb) ''approval_request'' i db2"
  using assms unfolding resolveRequest_def
proof (cases rule: answer_cases)
  case (finished x)
  then obtain r db1 db2 where "openRequest env verb i db = Inr r" and c: "claimRequest env st note (ap_id r) db = Inr db1"
    "effect r db1 = Inr db2" "db' = audit env (''approval.'' @ verb) ''approval_request'' (ap_id r) db2"
    by (auto simp: bindE_Inr_iff)
  then have "find (\<lambda>r. ap_id r = i \<and> ap_institutionId r = e_institutionId env) (db_approvals db) = Some r" "ap_status r = AP_PENDING"
    "ap_requestedById r \<noteq> e_userId env"
    by (auto simp: openRequest_def bindE_Inr_iff)
  moreover from this have "ap_id r = i" by (auto dest: find_SomeD)
  ultimately show ?thesis using resolved c finished(2) by simp
qed (rule refused)

lemma claimRequest_Inr:
  "claimRequest env st note i db = Inr db1 \<Longrightarrow> db_approvals db1 = updWhere (\<lambda>r. ap_id r = i \<and> ap_status r = AP_PENDING)
     (\<lambda>r. r\<lparr>ap_status := st, ap_resolvedById := Some (e_userId env), ap_resolvedAt := Some (e_now env),
        ap_resolutionNote := Customer_Care.orKeep note (ap_resolutionNote r)\<rparr>) (db_approvals db)"
  by (auto simp: claimRequest_def Let_def bindE_Inr_iff)

text \<open>No request with this identifier is pending.\<close>

definition settled :: "string \<Rightarrow> 'a core_db_scheme \<Rightarrow> bool" where
  "settled i db \<longleftrightarrow> (\<forall>r \<in> set (db_approvals db). ap_id r = i \<longrightarrow> ap_status r \<noteq> AP_PENDING)"

lemma settled_refused:
  assumes "settled i db"
  shows "snd (resolveRequest env st verb effect i note db) = db \<and> \<not> okResp (fst (resolveRequest env st verb effect i note db))"
proof (cases "resolveRequest env st verb effect i note db" rule: prod.exhaust)
  case (Pair rs db')
  then have "\<not> okResp rs \<and> db' = db"
    by (cases rule: resolveRequest_cases) (use assms in \<open>auto simp: settled_def dest!: find_SomeD\<close>)
  then show ?thesis using Pair by simp
qed

definition resolvedBy :: "env \<Rightarrow> approvalStatus \<Rightarrow> string \<Rightarrow> 'a core_db_scheme \<Rightarrow> 'a core_db_scheme \<Rightarrow> bool" where
  "resolvedBy env st i db db' \<longleftrightarrow>
     (\<exists>r \<in> set (db_approvals db). ap_id r = i \<and> ap_institutionId r = e_institutionId env \<and> ap_status r = AP_PENDING \<and> ap_requestedById r \<noteq> e_userId env)
   \<and> (\<exists>r \<in> set (db_approvals db'). ap_id r = i \<and> ap_status r = st \<and> ap_resolvedById r = Some (e_userId env))"

lemma resolveRequest_once:
  assumes run: "resolveRequest env st verb effect i note db = (rs, db')" and ok: "okResp rs" and st: "st \<noteq> AP_PENDING"
    and frame: "\<And>r d d'. effect r d = Inr d' \<Longrightarrow> db_approvals d' = db_approvals d"
  shows "resolvedBy env st i db db' \<and> settled i db'"
  using run
proof (cases rule: resolveRequest_cases)
  case (resolved r db1 db2)
  have r: "r \<in> set (db_approvals db)" "ap_id r = i" "ap_institutionId r = e_institutionId env" using resolved(2) by (auto dest: find_SomeD)
  have after: "db_approvals db' = updWhere (\<lambda>r. ap_id r = i \<and> ap_status r = AP_PENDING)
     (\<lambda>r. r\<lparr>ap_status := st, ap_resolvedById := Some (e_userId env), ap_resolvedAt := Some (e_now env),
        ap_resolutionNote := Customer_Care.orKeep note (ap_resolutionNote r)\<rparr>) (db_approvals db)"
    using claimRequest_Inr [OF resolved(5)] frame [OF resolved(6)] resolved(7) by (simp add: audit_frame)
  have "settled i db'"
    unfolding settled_def
  proof (intro ballI impI)
    fix x assume x: "x \<in> set (db_approvals db')" "ap_id x = i"
    consider q where "x = q\<lparr>ap_status := st, ap_resolvedById := Some (e_userId env), ap_resolvedAt := Some (e_now env),
        ap_resolutionNote := Customer_Care.orKeep note (ap_resolutionNote q)\<rparr>"
      | "\<not> (ap_id x = i \<and> ap_status x = AP_PENDING)"
      using x(1) unfolding after set_updWhere by blast
    then show "ap_status x \<noteq> AP_PENDING"
    proof cases
      case 1
      show ?thesis by (subst 1) (simp add: st)
    qed (use x(2) in blast)
  qed
  moreover have "resolvedBy env st i db db'"
  proof -
    let ?f = "\<lambda>r. r\<lparr>ap_status := st, ap_resolvedById := Some (e_userId env), ap_resolvedAt := Some (e_now env),
        ap_resolutionNote := Customer_Care.orKeep note (ap_resolutionNote r)\<rparr>"
    have "?f r \<in> set (db_approvals db')" using r resolved(3) unfolding after set_updWhere by blast
    moreover have "ap_id (?f r) = i \<and> ap_status (?f r) = st \<and> ap_resolvedById (?f r) = Some (e_userId env)" using r by simp
    ultimately show ?thesis unfolding resolvedBy_def using r resolved(3,4) by blast
  qed
  ultimately show ?thesis by simp
qed (use ok in simp)

text \<open>Claim C5. A request is approved or rejected only while it is pending, at its own institution and by someone
  other than the one who made it; afterwards it carries the resolver's name, and every later attempt to approve or
  reject it, by anyone, is refused and changes nothing.\<close>

theorem request_resolved_once:
  assumes "(if approve then approveRequest env i note db else rejectRequest env i note db) = (ROk k u, db')"
  shows "resolvedBy env (if approve then AP_APPROVED else AP_REJECTED) i db db'
    \<and> snd (approveRequest env' i note' db') = db' \<and> \<not> okResp (fst (approveRequest env' i note' db'))
    \<and> snd (rejectRequest env' i note' db') = db' \<and> \<not> okResp (fst (rejectRequest env' i note' db'))"
proof -
  have R: "resolvedBy env (if approve then AP_APPROVED else AP_REJECTED) i db db' \<and> settled i db'"
  proof (cases approve)
    case True
    then have "resolveRequest env AP_APPROVED ''approve'' (\<lambda>r. applyApproval env (ap_type r) r) i note db = (ROk k u, db')"
      using assms by (simp add: approveRequest_def)
    from resolveRequest_once [OF this] show ?thesis using True by (simp add: applyApproval_approvals)
  next
    case False
    then have "resolveRequest env AP_REJECTED ''reject'' (\<lambda>r. rejectEffect (ap_type r) r) i note db = (ROk k u, db')"
      using assms by (simp add: rejectRequest_def)
    from resolveRequest_once [OF this] show ?thesis using False by (simp add: rejectEffect_approvals)
  qed
  then have s: "settled i db'" by blast
  show ?thesis using R settled_refused [OF s] unfolding approveRequest_def rejectRequest_def by blast
qed

section \<open>Cash\<close>

text \<open>What the vaults or the tellers hold, by identifier.\<close>

fun holdings :: "'a cash_db_scheme \<Rightarrow> holderType \<Rightarrow> (string \<times> int) list" where
  "holdings db VAULT = map (\<lambda>v. (va_id v, va_balance v)) (db_vaults db)"
| "holdings db TELLER = map (\<lambda>t. (te_id t, te_currentHolding t)) (db_tellers db)"

definition cashHeld :: "'a cash_db_scheme \<Rightarrow> int" where
  "cashHeld db = sum_list (map snd (holdings db VAULT)) + sum_list (map snd (holdings db TELLER))"

definition inCash :: "'a cash_db_scheme \<Rightarrow> bool" where
  "inCash db \<longleftrightarrow> (\<forall>ty. \<forall>(i, b) \<in> set (holdings db ty). 0 \<le> b)"

definition addAt :: "string \<Rightarrow> int \<Rightarrow> (string \<times> int) list \<Rightarrow> (string \<times> int) list" where
  "addAt i n hs = map (\<lambda>h. (fst h, if fst h = i then snd h + n else snd h)) hs"

lemma addAt_ids [simp]: "map fst (addAt i n hs) = map fst hs" "fst ` set (addAt i n hs) = fst ` set hs"
  by (simp_all add: addAt_def image_image)

lemma addAt_absent: "i \<notin> fst ` set hs \<Longrightarrow> addAt i n hs = hs"
  by (induction hs) (auto simp: addAt_def)

lemma sum_addAt:
  "distinct (map fst hs) \<Longrightarrow> i \<in> fst ` set hs \<Longrightarrow> sum_list (map snd (addAt i n hs)) = sum_list (map snd hs) + n"
proof (induction hs)
  case (Cons h hs)
  show ?case
  proof (cases "fst h = i")
    case True
    then have "addAt i n hs = hs" using Cons.prems(1) by (auto intro: addAt_absent)
    then show ?thesis using True by (simp add: addAt_def)
  next
    case False
    then show ?thesis using Cons by (auto simp: addAt_def)
  qed
qed simp

lemma map_of_find: "map_of (map (\<lambda>v. (key v, bal v)) xs) i = map_option bal (find (\<lambda>v. key v = i) xs)"
  by (induction xs) auto

lemma holderBalance_holdings: "holderBalance ty i db = orThrow Thrown (map_of (holdings db ty) i)"
  by (cases ty) (simp_all add: holderBalance_def map_of_find [of va_id va_balance] map_of_find [of te_id te_currentHolding])

lemma increment_addAt:
  assumes "increment key upd i (cents n) t = Some t'" and "\<bar>n\<bar> \<le> 10 ^ 14"
    and "\<And>f r. key (upd f r) = key r" and "\<And>f r. bal (upd f r) = f (bal r)"
  shows "map (\<lambda>v. (key v, bal v)) t' = addAt i n (map (\<lambda>v. (key v, bal v)) t) \<and> i \<in> fst ` set (map (\<lambda>v. (key v, bal v)) t)"
proof -
  have ex: "find (\<lambda>r. key r = i) t \<noteq> None" and t': "t' = updWhere (\<lambda>r. key r = i) (upd (\<lambda>b. decAdd b (cents n))) t"
    using assms(1) by (auto simp: increment_def split: if_splits)
  from ex obtain r where "r \<in> set t" "key r = i" by (auto simp: find_None_iff)
  then have "i \<in> key ` set t" by blast
  then show ?thesis using assms(2-) by (simp add: t' addAt_def updWhere_def image_image)
qed

lemma applyDelta_effect:
  assumes d: "applyDelta ty i (cents n) db = Inr (b, db')" and n: "\<bar>n\<bar> \<le> 10 ^ 14"
  shows "holdings db' ty = addAt i n (holdings db ty)" and "ty' \<noteq> ty \<Longrightarrow> holdings db' ty' = holdings db ty'"
    and "i \<in> fst ` set (holdings db ty)" and "db_cashTransfers db' = db_cashTransfers db" and "db_cashEntries db' = db_cashEntries db"
    and "map_of (holdings db' ty) i = Some b"
proof -
  have "holdings db' ty = addAt i n (holdings db ty) \<and> (ty' \<noteq> ty \<longrightarrow> holdings db' ty' = holdings db ty')
    \<and> i \<in> fst ` set (holdings db ty) \<and> db_cashTransfers db' = db_cashTransfers db \<and> db_cashEntries db' = db_cashEntries db"
  proof (cases ty)
    case VAULT
    with d obtain t where t: "increment va_id updVaultBalance i (cents n) (db_vaults db) = Some t" "db' = db\<lparr>db_vaults := t\<rparr>"
      by (auto simp: applyDelta_def bindE_Inr_iff)
    show ?thesis using increment_addAt [OF t(1) n, of va_balance] VAULT by (cases ty') (simp_all add: t(2) updVaultBalance_def)
  next
    case TELLER
    with d obtain t where t: "increment te_id updHolding i (cents n) (db_tellers db) = Some t" "db' = db\<lparr>db_tellers := t\<rparr>"
      by (auto simp: applyDelta_def bindE_Inr_iff)
    show ?thesis using increment_addAt [OF t(1) n, of te_currentHolding] TELLER by (cases ty') (simp_all add: t(2) updHolding_def)
  qed
  then show "holdings db' ty = addAt i n (holdings db ty)" "ty' \<noteq> ty \<Longrightarrow> holdings db' ty' = holdings db ty'"
    "i \<in> fst ` set (holdings db ty)" "db_cashTransfers db' = db_cashTransfers db" "db_cashEntries db' = db_cashEntries db" by blast+
  show "map_of (holdings db' ty) i = Some b" using d by (auto simp: applyDelta_def bindE_Inr_iff holderBalance_holdings)
qed

lemma setCashTransfer_status:
  assumes x: "x \<in> set (db_cashTransfers (setCashTransfer i f db))" and i: "ct_id x = i"
    and f: "\<And>x. ct_id (f x) = ct_id x" "\<And>x. ct_status (f x) = s"
  shows "ct_status x = s"
proof -
  have "x \<in> set (updWhere (\<lambda>t. ct_id t = i) f (db_cashTransfers db))" using x by (simp add: setCashTransfer_def)
  then consider y where "x = f y" | "ct_id x \<noteq> i" unfolding set_updWhere by blast
  then show ?thesis
  proof cases
    case 1
    show ?thesis by (simp add: 1 f)
  qed (use i in blast)
qed

text \<open>Either nothing moved and the transfer is rejected, or its amount went from one holder to the other.\<close>

definition cashMoved :: "string \<Rightarrow> cashTransfer \<Rightarrow> 'a cash_db_scheme \<Rightarrow> 'a cash_db_scheme \<Rightarrow> bool" where
  "cashMoved by t db db' \<longleftrightarrow>
     (\<forall>ty. holdings db' ty = holdings db ty) \<and> db_cashEntries db' = db_cashEntries db
       \<and> (\<forall>x \<in> set (db_cashTransfers db'). ct_id x = ct_id t \<longrightarrow> ct_status x = CT_REJECTED)
   \<or> (\<exists>e e'. db_cashEntries db' = db_cashEntries db @ [e, e'] \<and> ce_type e = TRANSFER_OUT \<and> ce_type e' = TRANSFER_IN
       \<and> ce_amount e = ct_amount t \<and> ce_amount e' = ct_amount t \<and> ce_recordedById e = by
       \<and> (\<forall>x \<in> set (db_cashTransfers db'). ct_id x = ct_id t \<longrightarrow> ct_status x = CT_COMPLETED))"

definition holdersDistinct :: "'a cash_db_scheme \<Rightarrow> bool" where
  "holdersDistinct db \<longleftrightarrow> distinct (map fst (holdings db VAULT)) \<and> distinct (map fst (holdings db TELLER))"

lemma holdings_setCashTransfer [simp]:
  "holdings (setCashTransfer i f db) ty = holdings db ty" "db_cashEntries (setCashTransfer i f db) = db_cashEntries db"
  by (cases ty) (simp_all add: setCashTransfer_def)

lemma holdings_record [simp]: "holdings (snd (recordCash env inst ht hid ty am af no by db)) k = holdings db k"
  by (cases k) (simp_all add: recordCash_def Let_def)

lemma applyDelta_held:
  assumes d: "applyDelta ty i (cents n) db = Inr (b, db')" and n: "\<bar>n\<bar> \<le> 10 ^ 14" and u: "holdersDistinct db"
  shows "cashHeld db' = cashHeld db + n \<and> holdersDistinct db'"
proof -
  note E = applyDelta_effect [OF d n]
  have "sum_list (map snd (holdings db' ty)) = sum_list (map snd (holdings db ty)) + n"
    using sum_addAt [OF _ E(3)] u unfolding E(1) by (cases ty) (auto simp: holdersDistinct_def simp del: holdings.simps)
  then show ?thesis
    using E(1) E(2) [of VAULT] E(2) [of TELLER] u by (cases ty) (simp_all add: cashHeld_def holdersDistinct_def del: holdings.simps)
qed

lemma applyDelta_inCash:
  assumes d: "applyDelta ty i (cents n) db = Inr (b, db')" and n: "\<bar>n\<bar> \<le> 10 ^ 14" and u: "holdersDistinct db"
    and c: "inCash db" and enough: "\<And>k. map_of (holdings db ty) i = Some k \<Longrightarrow> 0 \<le> k + n"
  shows "inCash db'"
  unfolding inCash_def
proof (intro allI ballI, clarify)
  fix ty' j k assume jk: "(j, k) \<in> set (holdings db' ty')"
  note E = applyDelta_effect [OF d n]
  show "0 \<le> k"
  proof (cases "ty' = ty")
    case False
    then show ?thesis using jk c E(2) by (force simp: inCash_def simp del: holdings.simps)
  next
    case True
    then obtain m where m: "(j, m) \<in> set (holdings db ty)" "k = (if j = i then m + n else m)"
      using jk E(1) by (auto simp: addAt_def simp del: holdings.simps)
    have "distinct (map fst (holdings db ty))" using u by (cases ty) (auto simp: holdersDistinct_def simp del: holdings.simps)
    then have "map_of (holdings db ty) j = Some m" using m(1) by simp
    moreover have "0 \<le> m" using c m(1) by (force simp: inCash_def simp del: holdings.simps)
    ultimately show ?thesis using m(2) enough by auto
  qed
qed

lemma moveCash_entries:
  assumes "moveCash env t db = Inr db'" and n: "\<bar>ct_amount t\<bar> \<le> 10 ^ 14"
  shows "cashMoved (e_userId env) t db db'"
proof -
  have m: "\<bar>- ct_amount t\<bar> \<le> 10 ^ 14" using n by simp
  obtain b1 db1 b2 db2 where d1: "applyDelta (ct_fromType t) (ct_fromId t) (cents (- ct_amount t)) db = Inr (b1, db1)"
    and d2: "applyDelta (ct_toType t) (ct_toId t) (cents (ct_amount t)) db1 = Inr (b2, db2)"
    using assms(1) by (auto simp: moveCash_def Let_def bindE_Inr_iff cents_minus)
  obtain e e' where "e = fst (recordCash env (ct_institutionId t) (ct_fromType t) (ct_fromId t) TRANSFER_OUT (cents (ct_amount t)) b1 (Some (ct_reason t)) (e_userId env) db2)"
      and "e' = fst (recordCash env (ct_institutionId t) (ct_toType t) (ct_toId t) TRANSFER_IN (cents (ct_amount t)) b2 (Some (ct_reason t)) (e_userId env)
        (snd (recordCash env (ct_institutionId t) (ct_fromType t) (ct_fromId t) TRANSFER_OUT (cents (ct_amount t)) b1 (Some (ct_reason t)) (e_userId env) db2)))"
    by simp
  then have "db_cashEntries db' = db_cashEntries db @ [e, e'] \<and> ce_type e = TRANSFER_OUT \<and> ce_type e' = TRANSFER_IN
       \<and> ce_amount e = ct_amount t \<and> ce_amount e' = ct_amount t \<and> ce_recordedById e = e_userId env"
    using assms(1) d1 d2 n applyDelta_effect(5) [OF d1 m] applyDelta_effect(5) [OF d2 n]
    by (auto simp: moveCash_def Let_def cents_minus recordCash_def)
  moreover obtain db3 where "db' = setCashTransfer (ct_id t) (\<lambda>x. x\<lparr>ct_status := CT_COMPLETED, ct_approvedById := Some (e_userId env), ct_completedAt := Some (e_now env)\<rparr>) db3"
    using assms(1) by (auto simp: moveCash_def Let_def bindE_Inr_iff)
  then have "\<forall>x \<in> set (db_cashTransfers db'). ct_id x = ct_id t \<longrightarrow> ct_status x = CT_COMPLETED"
    using setCashTransfer_status [where s = CT_COMPLETED] by fastforce
  ultimately show ?thesis unfolding cashMoved_def by blast
qed

lemma moveCash_held:
  assumes mv: "moveCash env t db = Inr db'" and n: "0 \<le> ct_amount t \<and> ct_amount t \<le> 10 ^ 13" and u: "holdersDistinct db" and c: "inCash db"
    and b: "\<And>b. map_of (holdings db (ct_fromType t)) (ct_fromId t) = Some b \<Longrightarrow> ct_amount t \<le> b"
  shows "cashHeld db' = cashHeld db \<and> inCash db'"
proof -
  have n1: "\<bar>- ct_amount t\<bar> \<le> 10 ^ 14" and n2: "\<bar>ct_amount t\<bar> \<le> 10 ^ 14" using n by simp_all
  obtain b1 db1 b2 db2 where d1: "applyDelta (ct_fromType t) (ct_fromId t) (cents (- ct_amount t)) db = Inr (b1, db1)"
    and d2: "applyDelta (ct_toType t) (ct_toId t) (cents (ct_amount t)) db1 = Inr (b2, db2)"
    and same: "holdings db' k = holdings db2 k" for k
    using mv by (auto simp: moveCash_def Let_def bindE_Inr_iff cents_minus simp del: holdings.simps)
  note A = applyDelta_held [OF d1 n1 u]
  then have u1: "holdersDistinct db1" by simp
  have "inCash db1" by (rule applyDelta_inCash [OF d1 n1 u c]) (use b in force)
  moreover have "0 \<le> k + ct_amount t" if "map_of (holdings db1 (ct_toType t)) (ct_toId t) = Some k" for k
  proof -
    have "(ct_toId t, k) \<in> set (holdings db1 (ct_toType t))" using map_of_SomeD [OF that] .
    then show ?thesis using \<open>inCash db1\<close> n by (force simp: inCash_def simp del: holdings.simps)
  qed
  ultimately have "inCash db2" by (intro applyDelta_inCash [OF d2 n2 u1])
  then show ?thesis using A applyDelta_held [OF d2 n2 u1] unfolding cashHeld_def inCash_def same by simp
qed

lemma applyCashTransfer_held:
  assumes e: "applyCashTransfer env r db = Inr db'" and t: "find (\<lambda>t. ct_id t = ap_targetId r) (db_cashTransfers db) = Some t"
    and n: "0 \<le> ct_amount t \<and> ct_amount t \<le> 10 ^ 13" and u: "holdersDistinct db" and c: "inCash db"
  shows "cashHeld db' = cashHeld db \<and> inCash db' \<and> cashMoved (e_userId env) t db db'"
proof -
  obtain b where b: "map_of (holdings db (ct_fromType t)) (ct_fromId t) = Some b"
    and rest: "(if cents b < cents (ct_amount t) then Inr (setCashTransfer (ct_id t) (\<lambda>x. x\<lparr>ct_status := CT_REJECTED\<rparr>) db)
     else moveCash env t db) = Inr db'"
    using e t by (auto simp: applyCashTransfer_def bindE_Inr_iff holderBalance_holdings)
  show ?thesis
  proof (cases "cents b < cents (ct_amount t)")
    case True
    then have db': "db' = setCashTransfer (ct_id t) (\<lambda>x. x\<lparr>ct_status := CT_REJECTED\<rparr>) db" using rest by simp
    have "\<forall>x \<in> set (db_cashTransfers db'). ct_id x = ct_id t \<longrightarrow> ct_status x = CT_REJECTED"
      unfolding db' using setCashTransfer_status [where s = CT_REJECTED] by fastforce
    then show ?thesis using c unfolding cashHeld_def inCash_def cashMoved_def db' by (simp del: holdings.simps)
  next
    case False
    then have mv: "moveCash env t db = Inr db'" using rest by simp
    have "0 \<le> b" using map_of_SomeD [OF b] c by (force simp: inCash_def simp del: holdings.simps)
    then have "ct_amount t \<le> b" using False cents_less [of b "ct_amount t"] n by force
    then have "cashHeld db' = cashHeld db \<and> inCash db'" using b by (intro moveCash_held [OF mv n u c]) simp
    moreover have "cashMoved (e_userId env) t db db'" by (rule moveCash_entries [OF mv]) (use n in simp)
    ultimately show ?thesis by simp
  qed
qed


section \<open>Restructuring\<close>

text \<open>
  The unpaid installments keep their numbers when they are marked deleted, and a loan has each number once.
\<close>

lemma applyRestructure_stuck:
  assumes "find (\<lambda>x. rs_id x = ap_targetId r) (db_restructures db) = Some x" and "1 \<le> rs_newTermMonths x"
    and li: "li \<in> set (db_installments db)" "li_loanId li = rs_loanId x" "li_installmentNumber li = 1"
  shows "applyRestructure env r db \<noteq> Inr db'"
proof
  assume "applyRestructure env r db = Inr db'"
  then obtain db2 where c: "createInstallments env (rs_loanId x) (generateSchedule (\<lambda>b _. b) (cents (rs_newPrincipal x)) (rs_newRate x)
       (rs_newTermMonths x) ''FLAT'' (e_now env)) (db\<lparr>db_installments := updWhere (unpaid (rs_loanId x))
         (\<lambda>li. li\<lparr>li_deletedAt := Some (e_now env)\<rparr>) (db_installments db)\<rparr>) = Inr db2"
    using assms(1) by (auto simp: applyRestructure_def Let_def bindE_Inr_iff)
  define ss where "ss = generateSchedule (\<lambda>b _. b) (cents (rs_newPrincipal x)) (rs_newRate x) (rs_newTermMonths x) ''FLAT'' (e_now env)"
  let ?u = "updWhere (unpaid (rs_loanId x)) (\<lambda>li. li\<lparr>li_deletedAt := Some (e_now env)\<rparr>) (db_installments db)"
  have "1 \<in> set (map sr_installmentNumber ss)" using assms(2) by (simp add: ss_def generateSchedule_numbers del: set_map)
  then obtain s where s: "s \<in> set ss" "sr_installmentNumber s = 1" by auto
  obtain y where "y \<in> set ?u" "li_loanId y = rs_loanId x" "li_installmentNumber y = 1"
  proof
    let ?y = "if unpaid (rs_loanId x) li then li\<lparr>li_deletedAt := Some (e_now env)\<rparr> else li"
    show "?y \<in> set ?u" unfolding updWhere_def set_map by (rule image_eqI [OF _ li(1)]) simp
    show "li_loanId ?y = rs_loanId x" "li_installmentNumber ?y = 1" using li by simp_all
  qed
  then have "list_ex (\<lambda>r. li_loanId r = rs_loanId x \<and> li_installmentNumber r = 1) ?u" by (auto simp: list_ex_iff)
  then have "list_ex (\<lambda>s. list_ex (\<lambda>r. li_loanId r = rs_loanId x \<and> li_installmentNumber r = sr_installmentNumber s) ?u) ss"
    using s unfolding list_ex_iff [of _ ss] by (intro bexI [of _ s]) simp_all
  then show False using c unfolding createInstallments_def Let_def ss_def [symmetric] by simp
qed

text \<open>Claim C36. The approval of a restructuring never succeeds on a loan that was disbursed with a schedule: the first
  new installment takes a number the loan already has, the database refuses it, and the request stays pending.\<close>

theorem restructure_never_applies:
  assumes r: "find (\<lambda>r. ap_id r = i \<and> ap_institutionId r = e_institutionId env) (db_approvals db) = Some r" "ap_type r = LOAN_RESTRUCTURE"
    and x: "find (\<lambda>x. rs_id x = ap_targetId r) (db_restructures db) = Some x" "1 \<le> rs_newTermMonths x"
    and li: "li \<in> set (db_installments db)" "li_loanId li = rs_loanId x" "li_installmentNumber li = 1"
  shows "snd (approveRequest env i note db) = db \<and> \<not> okResp (fst (approveRequest env i note db))"
proof (cases "approveRequest env i note db" rule: prod.exhaust)
  case (Pair rs db')
  then have "resolveRequest env AP_APPROVED ''approve'' (\<lambda>r. applyApproval env (ap_type r) r) i note db = (rs, db')"
    by (simp add: approveRequest_def)
  then have "\<not> okResp rs \<and> db' = db"
  proof (cases rule: resolveRequest_cases)
    case (resolved q db1 db2)
    then have "applyRestructure env r db1 = Inr db2" using r by simp
    moreover have "db_restructures db1 = db_restructures db" "db_installments db1 = db_installments db"
      using resolved(5) by (auto simp: claimRequest_def Let_def bindE_Inr_iff)
    ultimately show ?thesis using applyRestructure_stuck [of r db1 x li env db2] x li by simp
  qed blast
  then show ?thesis using Pair by simp
qed

end
