(* ===== verification/Approval_Books.thy ===== *)
theory Approval_Books
  imports Approval_Safety
begin

text \<open>
  Approving and rejecting keep the books: the journals posted on approval balance, and the stored balance
  of every account stays the effect of the posted lines. The amounts are those a money column holds.
\<close>

section \<open>Lines in pesewas\<close>

definition goodEntries :: "entry list \<Rightarrow> bool" where
  "goodEntries ls \<longleftrightarrow> (\<forall>l \<in> set ls. centsEntry l) \<and> smallSum (map (\<lambda>l. toDec2 (en_debit l)) ls) \<and> smallSum (map (\<lambda>l. toDec2 (en_credit l)) ls)"

lemma goodEntries_balanced:
  assumes "goodEntries ls" and "isBalanced ls" shows "balancedLines (map lineRow ls)"
proof -
  have d: "map en_debit ls = map cents (map (\<lambda>l. toDec2 (en_debit l)) ls)"
    and c: "map en_credit ls = map cents (map (\<lambda>l. toDec2 (en_credit l)) ls)"
    using assms(1) by (simp_all add: goodEntries_def centsEntry_def)
  then show ?thesis
    using isBalanced_cents [OF d c] assms by (simp add: goodEntries_def balancedLines_def lineRow_def o_def)
qed

lemma withCategory_entries [simp]: "map snd (withCategory db ls) = ls" "map (lineRow \<circ> snd) (withCategory db ls) = map lineRow ls"
  by (simp_all add: withCategory_def o_def)

lemma withCategory_good:
  assumes "goodEntries ls" and "\<And>l. l \<in> set ls \<Longrightarrow> accountById (en_accountId l) db \<noteq> None"
  shows "goodLines db (withCategory db ls)"
  using assms by (fastforce simp: goodLines_def withCategory_def goodEntries_def)

lemma postJournal_entries_books:
  assumes ok: "books_ok db" and good: "goodEntries ls" and bal: "isBalanced ls"
    and post: "postJournal env inst ty descr date pb cb (withCategory db ls) db = Inr (j, db')"
  shows "books_ok db'"
proof (rule postJournal_books [OF ok _ _ post])
  obtain db1 where c: "createJournal env inst ty descr J_POSTED date (Some pb) cb ls db = Inr (j, db1)"
    using post by (auto simp: postJournal_def bindE_Inr_iff)
  then have "list_all (\<lambda>l. accountById (en_accountId l) db \<noteq> None) ls" using createJournal_result [OF c] by blast
  then show "goodLines db (withCategory db ls)" by (intro withCategory_good [OF good]) (simp add: list_all_iff)
  show "balancedLines (map (lineRow \<circ> snd) (withCategory db ls))" using goodEntries_balanced [OF good bal] by simp
qed

section \<open>A stored journal is posted\<close>

lemma posted_updWhere:
  assumes "uniqueBy jo_id js" and "j \<in> set js" and "jo_status j \<noteq> J_POSTED"
    and f: "jo_status (f j) = J_POSTED" "jo_lines (f j) = jo_lines j"
  shows "accountEffect (concat (map jo_lines (filter (\<lambda>j. jo_status j = J_POSTED) (updWhere (\<lambda>x. jo_id x = jo_id j) f js)))) a
    = accountEffect (concat (map jo_lines (filter (\<lambda>j. jo_status j = J_POSTED) js))) a + accountEffect (jo_lines j) a"
  using assms(1,2)
proof (induction js)
  case (Cons x js)
  show ?case
  proof (cases "x = j")
    case True
    then have "jo_id r \<noteq> jo_id j" if "r \<in> set js" for r using Cons.prems(1) that by (fastforce simp: uniqueBy_def image_iff)
    then have "updWhere (\<lambda>x. jo_id x = jo_id j) f js = js" by (rule updWhere_none)
    then show ?thesis using True assms(3) f by (simp add: accountEffect_append)
  next
    case False
    then have j: "j \<in> set js" and u: "uniqueBy jo_id js" and ne: "jo_id x \<noteq> jo_id j" using Cons.prems by (auto simp: uniqueBy_def)
    show ?thesis using Cons.IH [OF u j] ne by (simp add: accountEffect_append)
  qed
qed simp

lemma journal_posted_books:
  assumes ok: "books_ok db" and u: "uniqueBy jo_id (db_journals db)" and j: "j \<in> set (db_journals db)" "jo_status j \<noteq> J_POSTED"
    and good: "goodLines db cls" and bal: "balancedLines (jo_lines j)" and lines: "map (lineRow \<circ> snd) cls = jo_lines j"
    and post: "foldE postLine cls db = Inr db1" and f: "\<And>x. jo_status (f x) = J_POSTED" "\<And>x. jo_lines (f x) = jo_lines x" "\<And>x. jo_id (f x) = jo_id x"
  shows "books_ok (updJournal (jo_id j) f db1)"
proof -
  have ua: "uniqueBy ga_id (db_glAccounts db)" using ok by (simp add: books_ok_def)
  have db1: "db1 = db\<lparr>db_glAccounts := map (addEffects cls) (db_glAccounts db)\<rparr>"
    using foldE_postLine [OF ua good] post by simp
  define db' where "db' = updJournal (jo_id j) f db1"
  have A: "db_glAccounts db' = map (addEffects cls) (db_glAccounts db)"
    and J: "db_journals db' = updWhere (\<lambda>x. jo_id x = jo_id j) f (db_journals db)" by (simp_all add: db'_def updJournal_def db1)
  have eff: "accountEffect (postedLines db') a = accountEffect (postedLines db) a + accountEffect (jo_lines j) a" for a
    unfolding postedLines_def J by (rule posted_updWhere [OF u j]) (simp_all add: f)
  have "ga_balance b = accountEffect (postedLines db') b" if "b \<in> set (db_glAccounts db')" for b
    using that ok lines unfolding A eff by (auto simp: books_ok_def addEffects_account) (simp add: addEffects_def)
  moreover have "uniqueBy ga_id (db_glAccounts db')" using ua by (simp add: A uniqueBy_def o_def)
  moreover have rows: "\<exists>q \<in> set (db_journals db). jo_lines k = jo_lines q \<and> (q = j \<or> k = q)" if k: "k \<in> set (db_journals db')" for k
  proof -
    consider q where "q \<in> set (db_journals db)" "jo_id q = jo_id j" "k = f q" | "k \<in> set (db_journals db)"
      using k unfolding J set_updWhere by blast
    then show ?thesis
    proof cases
      case 1
      then have "q = j" using uniqueBy_eq [OF u 1(1) j(1)] by simp
      then show ?thesis using j(1) by (intro bexI [of _ j]) (simp_all add: 1(3) f)
    qed blast
  qed
  moreover have "balancedLines (jo_lines k)" if "k \<in> set (db_journals db')" "jo_status k = J_POSTED" for k
    using rows [OF that(1)] that(2) bal ok unfolding books_ok_def by metis
  moreover have "jl_accountId l \<in> ga_id ` set (db_glAccounts db')" if "k \<in> set (db_journals db')" "l \<in> set (jo_lines k)" for k l
    using rows [OF that(1)] that(2) ok unfolding books_ok_def A by (auto simp: image_image)
  ultimately show ?thesis unfolding db'_def [symmetric] books_ok_def by blast
qed

section \<open>The effects that post\<close>

lemma cents_same:
  assumes "cents d = cents e" and "\<bar>e\<bar> \<le> 10 ^ 13" shows "d = e"
proof (rule ccontr)
  assume "d \<noteq> e"
  then consider "e + 1 \<le> d" | "d \<le> e - 1" by linarith
  then show False
  proof cases
    case 1
    have "cents e < cents (e + 1)" using assms(2) by (intro cents_less) auto
    then show False using cents_mono [OF 1] assms(1) by simp
  next
    case 2
    have "cents (e - 1) < cents e" using assms(2) by (intro cents_less) auto
    then show False using cents_mono [OF 2] assms(1) by simp
  qed
qed

lemma journalEntries_rows:
  assumes "goodEntries (journalEntries j)" shows "map lineRow (journalEntries j) = jo_lines j"
proof -
  have "lineRow (entry (jl_accountId l) (cents (jl_debit l)) (cents (jl_credit l))) = l" if "l \<in> set (jo_lines j)" for l
  proof -
    have "centsEntry (entry (jl_accountId l) (cents (jl_debit l)) (cents (jl_credit l)))"
      using assms that by (auto simp: goodEntries_def journalEntries_def)
    then have "toDec2 (cents (jl_debit l)) = jl_debit l" "toDec2 (cents (jl_credit l)) = jl_credit l"
      using cents_same [symmetric] by (auto simp: centsEntry_def)
    then show ?thesis by (simp add: lineRow_def)
  qed
  then show ?thesis unfolding journalEntries_def map_map comp_def by (rule map_idI)
qed

lemma journalPosting_books:
  assumes e: "applyJournalPosting env r db = Inr db'" and ok: "books_ok db" and u: "uniqueBy jo_id (db_journals db)"
    and j: "find (\<lambda>j. jo_id j = ap_targetId r) (db_journals db) = Some j" "jo_status j \<noteq> J_POSTED" and good: "goodEntries (journalEntries j)"
  shows "books_ok db'"
proof -
  have mem: "j \<in> set (db_journals db)" using j(1) by (auto dest: find_SomeD)
  show ?thesis
  proof (cases "journalProblems j db = []")
    case False
    then have A: "db_glAccounts db' = db_glAccounts db" and J: "db_journals db' = updWhere (\<lambda>x. jo_id x = jo_id j)
        (\<lambda>x. x\<lparr>jo_status := J_REJECTED, jo_rejectionReason := Some (joinWith ''; '' (journalProblems j db))\<rparr>) (db_journals db)"
      using e j by (auto simp: applyJournalPosting_def updJournal_def)
    have "jo_status q \<noteq> J_POSTED" if "q \<in> set (db_journals db)" "jo_id q = jo_id j" for q
      using uniqueBy_eq [OF u that(1) mem] that(2) j(2) by simp
    then show ?thesis by (intro books_journals [OF ok A J]) simp_all
  next
    case True
    then have bal: "isBalanced (journalEntries j)" and act: "list_all (accountActive db) (journalEntries j)"
      by (auto simp: journalProblems_def split: if_splits)
    obtain db1 where post: "foldE postLine (withCategory db (journalEntries j)) db = Inr db1"
      and db': "db' = updJournal (jo_id j) (\<lambda>x. x\<lparr>jo_status := J_POSTED, jo_postedById := Some (e_userId env), jo_postedAt := Some (e_now env)\<rparr>) db1"
      using e j True by (auto simp: applyJournalPosting_def bindE_Inr_iff)
    have "accountById (en_accountId l) db \<noteq> None" if "l \<in> set (journalEntries j)" for l
      using act that by (auto simp: list_all_iff accountActive_def)
    then have gl: "goodLines db (withCategory db (journalEntries j))" by (rule withCategory_good [OF good])
    have rows: "map lineRow (journalEntries j) = jo_lines j" by (rule journalEntries_rows [OF good])
    show ?thesis unfolding db'
      by (rule journal_posted_books [OF ok u mem j(2) gl _ _ post]) (use goodEntries_balanced [OF good bal] rows in simp_all)
  qed
qed

lemma interBranch_books:
  assumes e: "applyInterBranch env r db = Inr db'" and ok: "books_ok db"
    and t: "find (\<lambda>t. ix_id t = ap_targetId r) (db_interBranch db) = Some t"
    and s: "settlementOf (ix_fromBranchId t) db = Some s" "settlementOf (ix_toBranchId t) db = Some z"
    and good: "goodEntries (interBranchLines s z t)"
  shows "books_ok db'"
proof (cases "isBalanced (interBranchLines s z t)")
  case False
  then have "db_glAccounts db' = db_glAccounts db" "db_journals db' = db_journals db"
    using e t s by (auto simp: applyInterBranch_def bindE_Inr_iff setInterBranch_def)
  then show ?thesis using books_cong ok by blast
next
  case True
  then obtain j db1 where p: "postJournal env (ix_institutionId t) AUTOMATIC (''Inter-branch transfer: '' @ ix_description t) (e_now env) (e_userId env)
      (ix_requestedById t) (withCategory db (interBranchLines s z t)) db = Inr (j, db1)"
    and fr: "db_glAccounts db' = db_glAccounts db1" "db_journals db' = db_journals db1"
    using e t s by (auto simp: applyInterBranch_def bindE_Inr_iff setInterBranch_def)
  show ?thesis using postJournal_entries_books [OF ok good True p] books_cong [OF fr] by blast
qed

lemma payrollRun_books:
  assumes e: "applyPayrollRun env r db = Inr db'" and ok: "books_ok db"
    and x: "find (\<lambda>x. pn_id x = ap_targetId r) (db_payRuns db) = Some x" and good: "goodEntries (accrualLines x db)"
  shows "books_ok db'"
proof -
  obtain jid db1 where p: "postAccrual env x db = Inr (jid, db1)"
    and fr: "db_glAccounts db' = db_glAccounts db1" "db_journals db' = db_journals db1"
    using e x by (auto simp: applyPayrollRun_def bindE_Inr_iff updRun_def)
  have "books_ok db1"
    using p ok postJournal_entries_books [OF ok good] by (auto simp: postAccrual_def Let_def bindE_Inr_iff split: if_splits)
  then show ?thesis using books_cong [OF fr] by blast
qed

lemma disposal_books:
  assumes e: "applyAssetDisposal env r db = Inr db'" and ok: "books_ok db"
    and z: "find (\<lambda>z. fz_id z = ap_targetId r) (db_disposals db) = Some z" "find (\<lambda>a. fa_id a = fz_assetId z) (db_assets db) = Some a"
    and good: "goodEntries (disposalLines z a db)"
  shows "books_ok db'"
proof -
  obtain jid db1 where p: "postDisposal env z a db = Inr (jid, db1)"
    and fr: "db_glAccounts db' = db_glAccounts db1" "db_journals db' = db_journals db1"
    using e z by (auto simp: applyAssetDisposal_def bindE_Inr_iff setDisposal_def updateOne_Inr updAsset_def)
  have "books_ok db1"
    using p ok postJournal_entries_books [OF ok good] by (auto simp: postDisposal_def Let_def bindE_Inr_iff split: if_splits)
  then show ?thesis using books_cong [OF fr] by blast
qed

section \<open>Every approval\<close>

text \<open>The lines the approval of a request posts, and the journal it posts them from, which has not been posted before.\<close>

definition approvalEntries :: "approvalRow \<Rightarrow> 'a asset_db_scheme \<Rightarrow> entry list" where
  "approvalEntries r db = (case ap_type r of
     JOURNAL_POSTING \<Rightarrow> (case find (\<lambda>j. jo_id j = ap_targetId r) (db_journals db) of None \<Rightarrow> [] | Some j \<Rightarrow> journalEntries j)
   | INTER_BRANCH_TRANSFER \<Rightarrow> (case find (\<lambda>t. ix_id t = ap_targetId r) (db_interBranch db) of None \<Rightarrow> [] | Some t \<Rightarrow>
       (case (settlementOf (ix_fromBranchId t) db, settlementOf (ix_toBranchId t) db) of
          (Some s, Some z) \<Rightarrow> interBranchLines s z t | _ \<Rightarrow> []))
   | PAYROLL_RUN_APPROVAL \<Rightarrow> (case find (\<lambda>x. pn_id x = ap_targetId r) (db_payRuns db) of None \<Rightarrow> [] | Some x \<Rightarrow> accrualLines x db)
   | ASSET_DISPOSAL \<Rightarrow> (case find (\<lambda>z. fz_id z = ap_targetId r) (db_disposals db) of None \<Rightarrow> [] | Some z \<Rightarrow>
       (case find (\<lambda>a. fa_id a = fz_assetId z) (db_assets db) of None \<Rightarrow> [] | Some a \<Rightarrow> disposalLines z a db))
   | _ \<Rightarrow> [])"

definition unpostedTarget :: "approvalRow \<Rightarrow> 'a gl_db_scheme \<Rightarrow> bool" where
  "unpostedTarget r db \<longleftrightarrow> ap_type r = JOURNAL_POSTING \<longrightarrow> list_all (\<lambda>j. jo_id j = ap_targetId r \<longrightarrow> jo_status j \<noteq> J_POSTED) (db_journals db)"

lemma applyApproval_books:
  assumes e: "applyApproval env (ap_type r) r db = Inr db'" and ok: "books_ok db" and u: "uniqueBy jo_id (db_journals db)"
    and good: "goodEntries (approvalEntries r db)" and t: "unpostedTarget r db"
  shows "books_ok db'"
proof (cases "ap_type r \<in> set postingTypes")
  case False
  then have "quiet db db'" using applyApproval_quiet e by blast
  then show ?thesis using ok books_cong unfolding quiet_def by blast
next
  case True
  then consider "ap_type r = JOURNAL_POSTING" | "ap_type r = INTER_BRANCH_TRANSFER" | "ap_type r = PAYROLL_RUN_APPROVAL" | "ap_type r = ASSET_DISPOSAL"
    by (auto simp: postingTypes_def)
  then show ?thesis
  proof cases
    case 1
    with e obtain j where j: "find (\<lambda>j. jo_id j = ap_targetId r) (db_journals db) = Some j" by (auto simp: applyJournalPosting_def bindE_Inr_iff)
    then have "jo_status j \<noteq> J_POSTED" using t 1 by (auto simp: unpostedTarget_def list_all_iff dest: find_SomeD)
    then show ?thesis using journalPosting_books [OF _ ok u j] e good 1 j by (simp add: approvalEntries_def)
  next
    case 2
    with e obtain t s z where f: "find (\<lambda>t. ix_id t = ap_targetId r) (db_interBranch db) = Some t"
      "settlementOf (ix_fromBranchId t) db = Some s" "settlementOf (ix_toBranchId t) db = Some z"
      by (auto simp: applyInterBranch_def bindE_Inr_iff)
    then show ?thesis using interBranch_books [OF _ ok f] e good 2 by (simp add: approvalEntries_def)
  next
    case 3
    with e obtain x where f: "find (\<lambda>x. pn_id x = ap_targetId r) (db_payRuns db) = Some x" by (auto simp: applyPayrollRun_def bindE_Inr_iff)
    then show ?thesis using payrollRun_books [OF _ ok f] e good 3 by (simp add: approvalEntries_def)
  next
    case 4
    with e obtain z a where f: "find (\<lambda>z. fz_id z = ap_targetId r) (db_disposals db) = Some z" "find (\<lambda>a. fa_id a = fz_assetId z) (db_assets db) = Some a"
      by (auto simp: applyAssetDisposal_def bindE_Inr_iff)
    then show ?thesis using disposal_books [OF _ ok f] e good 4 by (simp add: approvalEntries_def)
  qed
qed

lemma rejectEffect_books:
  assumes e: "rejectEffect (ap_type r) r db = Inr db'" and ok: "books_ok db" and t: "unpostedTarget r db"
  shows "books_ok db'"
proof (cases "ap_type r = JOURNAL_POSTING")
  case False
  then have "quiet db db'" using rejectEffect_quiet e by blast
  then show ?thesis using ok books_cong unfolding quiet_def by blast
next
  case True
  then have A: "db_glAccounts db' = db_glAccounts db"
    and J: "db_journals db' = updWhere (\<lambda>j. jo_id j = ap_targetId r) (\<lambda>j. j\<lparr>jo_status := J_DRAFT\<rparr>) (db_journals db)"
    using e by (auto simp: setJournalDraft_def bindE_Inr_iff updateOne_Inr)
  show ?thesis by (rule books_journals [OF ok A J]) (use t True in \<open>auto simp: unpostedTarget_def list_all_iff\<close>)
qed

lemma resolveRequest_books:
  assumes ok: "books_ok db" and r: "find (\<lambda>r. ap_id r = i \<and> ap_institutionId r = e_institutionId env) (db_approvals db) = Some r"
    and eff: "\<And>x d'. effect r (db\<lparr>db_approvals := x\<rparr>) = Inr d' \<Longrightarrow> books_ok d'"
  shows "books_ok (snd (resolveRequest env st verb effect i note db))"
proof (cases "resolveRequest env st verb effect i note db" rule: prod.exhaust)
  case (Pair rs db')
  then show ?thesis
  proof (cases rule: resolveRequest_cases)
    case (resolved q db1 db2)
    then obtain x where "db1 = db\<lparr>db_approvals := x\<rparr>" by (auto simp: claimRequest_def Let_def bindE_Inr_iff)
    then have "books_ok db2" using resolved(2,6) r eff by simp
    then show ?thesis using Pair resolved(7) by simp
  qed (use Pair ok in simp)
qed


end
