(* ===== verification/Payroll_Safety.thy ===== *)
theory Payroll_Safety
  imports Approval_Books
begin

text \<open>
  What a processed pay period holds: a payslip for each active salary structure, whose net pay is to the
  pesewa what is left of the gross pay, and totals that are the sums of the payslips; and a period is
  processed once.
\<close>

section \<open>Net pay to the pesewa\<close>

lemma cents_near:
  assumes "\<bar>g\<bar> \<le> 10 ^ 9" shows "\<bar>cents g - of_int g / 100\<bar> \<le> 1 / 1000000"
proof -
  have "\<bar>of_int g :: rat\<bar> \<le> of_int (10 ^ 9)" using assms by (simp only: of_int_abs [symmetric] of_int_le_iff)
  then have "\<bar>of_int g / 100 :: rat\<bar> / 2 ^ 53 \<le> 1 / 1000000" by simp
  then show ?thesis using cents_error_rel [of g] by linarith
qed

lemma nsub_near:
  assumes "\<bar>x - a\<bar> \<le> e" and "\<bar>y - b\<bar> \<le> f" and "\<bar>a - b\<bar> + e + f \<le> 2000000000000"
  shows "\<bar>nsub x y - (a - b)\<bar> \<le> e + f + 1 / 4000"
proof -
  have "\<bar>x - y\<bar> \<le> 2000000000000" using assms unfolding abs_le_iff by linarith
  then have "\<bar>nsub x y - (x - y)\<bar> \<le> 2000000000000 / 2 ^ 53"
    unfolding nsub_def by (intro order_trans [OF fl_error] divide_right_mono) auto
  moreover have "(2000000000000 :: rat) / 2 ^ 53 \<le> 1 / 4000" by simp
  ultimately show ?thesis using assms(1,2) unfolding abs_le_iff by linarith
qed

lemma net_pay_exact:
  assumes g: "\<bar>g\<bar> \<le> 10 ^ 9" "\<bar>p\<bar> \<le> 10 ^ 9" "\<bar>s\<bar> \<le> 10 ^ 9" and ks: "(int (length ks) + 1) * (\<Sum>k\<leftarrow>ks. \<bar>k\<bar>) \<le> 10 ^ 13"
  shows "round2 (max 0 (nsub (nsub (nsub (cents g) (cents p)) (cents s)) (nsum (map cents ks)))) = cents (max 0 (g - p - s - sum_list ks))"
proof -
  define x where "x = nsub (nsub (nsub (cents g) (cents p)) (cents s)) (nsum (map cents ks))"
  define n where "n = g - p - s - sum_list ks"
  have "0 \<le> (\<Sum>k\<leftarrow>ks. \<bar>k\<bar>)" by (rule sum_list_nonneg) auto
  then have "(\<Sum>k\<leftarrow>ks. \<bar>k\<bar>) \<le> (int (length ks) + 1) * (\<Sum>k\<leftarrow>ks. \<bar>k\<bar>)" by (simp add: distrib_right)
  then have S: "\<bar>sum_list ks\<bar> \<le> 10 ^ 13" using ks abs_sum_list_le [of ks] by linarith
  have r: "\<bar>of_int k :: rat\<bar> \<le> of_int b" if "\<bar>k\<bar> \<le> b" for k b using that by (simp only: of_int_abs [symmetric] of_int_le_iff)
  note R = r [OF g(1), simplified] r [OF g(2), simplified] r [OF g(3), simplified] r [OF S, simplified]
  have ded: "\<bar>nsum (map cents ks) - of_int (sum_list ks) / 100\<bar> \<le> 4 / 10000"
    using ks by (intro nsum_cents_close) simp
  have 1: "\<bar>nsub (cents g) (cents p) - (of_int g / 100 - of_int p / 100)\<bar> \<le> 1 / 1000000 + 1 / 1000000 + 1 / 4000"
    using R by (intro nsub_near cents_near g) linarith
  have 2: "\<bar>nsub (nsub (cents g) (cents p)) (cents s) - ((of_int g / 100 - of_int p / 100) - of_int s / 100)\<bar>
      \<le> (1 / 1000000 + 1 / 1000000 + 1 / 4000) + 1 / 1000000 + 1 / 4000"
    using R by (intro nsub_near 1 cents_near g) linarith
  have 3: "\<bar>x - (((of_int g / 100 - of_int p / 100) - of_int s / 100) - of_int (sum_list ks) / 100)\<bar>
      \<le> ((1 / 1000000 + 1 / 1000000 + 1 / 4000) + 1 / 1000000 + 1 / 4000) + 4 / 10000 + 1 / 4000"
    unfolding x_def using R by (intro nsub_near 2 ded) linarith
  have "\<bar>x - of_int n / 100\<bar> \<le> 2 / 1000"
    using 3 unfolding n_def of_int_diff diff_divide_distrib by linarith
  moreover have "(of_int n / 100 :: rat) \<le> - 1 / 100 \<or> 0 \<le> n"
  proof (cases "0 \<le> n")
    case False
    then have "(of_int n :: rat) \<le> of_int (- 1)" by (simp only: of_int_le_iff)
    then show ?thesis by simp
  qed simp
  ultimately have "\<bar>max 0 x - of_int (max 0 n) / 100\<bar> \<le> 4 / 1000" by (auto simp: max_def)
  moreover have "dec14 (max 0 n)" using g S by (auto simp: n_def max_def)
  ultimately show ?thesis unfolding x_def n_def by (rule round2_near)
qed

section \<open>Payslips\<close>

text \<open>Salaries of at most a million cedis, a hundred deductions a structure and a thousand employees.\<close>

definition modestCalc :: "payCalc \<Rightarrow> bool" where
  "modestCalc c \<longleftrightarrow> \<bar>kc_grossPay c\<bar> \<le> 1000000 \<and> \<bar>kc_paye c\<bar> \<le> 1000000 \<and> \<bar>kc_ssnitEmployee c\<bar> \<le> 1000000 \<and> \<bar>kc_netPay c\<bar> \<le> 1000000"

definition modestLines :: "salaryStructure \<Rightarrow> bool" where
  "modestLines s \<longleftrightarrow> length (sy_deductions s) \<le> 100 \<and> (\<forall>l \<in> set (sy_deductions s). \<bar>lineAmount (cents (sy_basicSalary s)) l\<bar> \<le> 1000000)"

definition slipAddsUp :: "payrollEntry \<Rightarrow> bool" where
  "slipAddsUp e \<longleftrightarrow> pz_netPay e = max 0 (pz_grossPay e - pz_paye e - pz_ssnitEmployee e - pz_otherDeductions e)"

lemma cents_bounded: "\<bar>cents k\<bar> \<le> 1000000 \<Longrightarrow> \<bar>k\<bar> \<le> 10 ^ 8"
proof (rule ccontr)
  assume b: "\<bar>cents k\<bar> \<le> 1000000" and "\<not> \<bar>k\<bar> \<le> 10 ^ 8"
  then have k: "10 ^ 8 + 1 \<le> \<bar>k\<bar>" by simp
  have "cents (10 ^ 8) = 1000000" using cents_whole [of 1000000] by simp
  moreover have "cents (10 ^ 8) < cents (10 ^ 8 + 1)" by (intro cents_less) simp_all
  moreover have "cents (10 ^ 8 + 1) \<le> cents \<bar>k\<bar>" by (rule cents_mono [OF k])
  moreover have "cents \<bar>k\<bar> = \<bar>cents k\<bar>"
  proof (cases "0 \<le> k")
    case True
    then have "0 \<le> cents k" by simp
    then show ?thesis using True by simp
  next
    case False
    then have "0 \<le> cents (- k)" by simp
    then show ?thesis using False by (simp add: cents_minus)
  qed
  ultimately show False using b by simp
qed

lemma round2_pesewas: "\<bar>round2 x\<bar> \<le> 1000000 \<Longrightarrow> \<exists>k. round2 x = cents k \<and> \<bar>k\<bar> \<le> 10 ^ 8"
  using cents_bounded round2_cents_form by metis

definition lineCents :: "num \<Rightarrow> 'a payLine_scheme \<Rightarrow> int" where
  "lineCents basic l = (if aw_isPercentageOfBasic l then mathRound (nmul (nmul basic (ndiv (cents (aw_amount l)) 100)) 100) else aw_amount l)"

lemma lineAmount_cents: "lineAmount basic l = cents (lineCents basic l)"
  by (simp add: lineAmount_def lineCents_def round2_cents_form)

lemma sum_abs_bounded: "(\<And>k. k \<in> set ks \<Longrightarrow> \<bar>k\<bar> \<le> B) \<Longrightarrow> (\<Sum>k\<leftarrow>ks. \<bar>k\<bar>) \<le> int (length ks) * B" for B :: int
proof (induction ks)
  case (Cons a ks)
  have "\<bar>a\<bar> \<le> B" "(\<Sum>k\<leftarrow>ks. \<bar>k\<bar>) \<le> int (length ks) * B" using Cons by simp_all
  then show ?case by (simp add: algebra_simps)
qed simp

lemma modest_smallSum':
  assumes "length ks \<le> n" and "n \<le> 1000" and "\<And>k. k \<in> set ks \<Longrightarrow> \<bar>k\<bar> \<le> 10 ^ 8"
  shows "(int (length ks) + 1) * (\<Sum>k\<leftarrow>ks. \<bar>k\<bar>) \<le> (int n + 1) * (int n * 10 ^ 8)" and "smallSum ks"
proof -
  have S: "(\<Sum>k\<leftarrow>ks. \<bar>k\<bar>) \<le> int (length ks) * 10 ^ 8" by (rule sum_abs_bounded [OF assms(3)])
  also have "\<dots> \<le> int n * 10 ^ 8" using assms(1) by simp
  finally have T: "(\<Sum>k\<leftarrow>ks. \<bar>k\<bar>) \<le> int n * 10 ^ 8" .
  have "0 \<le> (\<Sum>k\<leftarrow>ks. \<bar>k\<bar>)" by (rule sum_list_nonneg) auto
  then show P: "(int (length ks) + 1) * (\<Sum>k\<leftarrow>ks. \<bar>k\<bar>) \<le> (int n + 1) * (int n * 10 ^ 8)"
    using assms(1) T by (intro mult_mono) auto
  have "int n \<le> 1000" using assms(2) by simp
  then have "(int n + 1) * (int n * 10 ^ 8) \<le> 1001 * (1000 * 10 ^ 8)" by (intro mult_mono) auto
  also have "(1001 * (1000 * 10 ^ 8) :: int) \<le> 10 ^ 15" by simp
  finally have "(int (length ks) + 1) * (\<Sum>k\<leftarrow>ks. \<bar>k\<bar>) \<le> 10 ^ 15" by (rule order_trans [OF P])
  moreover have "(\<Sum>k\<leftarrow>ks. \<bar>k\<bar>) \<le> 10 ^ 14" using T \<open>int n \<le> 1000\<close> by simp
  ultimately show "smallSum ks" by (simp add: smallSum_def)
qed

lemma payOf_slip:
  assumes m: "modestCalc (payOf codes bands a b c s)" and l: "modestLines s"
  defines "x \<equiv> payOf codes bands a b c s"
  shows "slipAddsUp (entryRow env i n x)" and "kc_grossPay x = cents (toDec2 (kc_grossPay x))" and "\<bar>toDec2 (kc_grossPay x)\<bar> \<le> 10 ^ 8"
    and "kc_netPay x = cents (toDec2 (kc_netPay x))" and "\<bar>toDec2 (kc_netPay x)\<bar> \<le> 10 ^ 8"
proof -
  let ?ds = "filter aw_active (sy_deductions s)"
  define ks where "ks = map (lineCents (cents (sy_basicSalary s))) ?ds"
  have ks: "map (lineAmount (cents (sy_basicSalary s))) ?ds = map cents ks" by (simp add: ks_def lineAmount_cents)
  have len: "length ks \<le> 100" using l le_trans [OF length_filter_le] unfolding ks_def modestLines_def by fastforce
  have bound: "\<bar>k\<bar> \<le> 10 ^ 8" if "k \<in> set ks" for k
    using that l cents_bounded unfolding ks_def modestLines_def lineAmount_cents by auto
  note K = modest_smallSum' [OF len _ bound]
  have m': "modestCalc x" using m unfolding x_def .
  have rounded: "\<exists>k. v = cents k \<and> \<bar>k\<bar> \<le> 10 ^ 8" if "v = round2 y" "\<bar>v\<bar> \<le> 1000000" for v y
    using round2_pesewas [of y] that by simp
  have "kc_grossPay x = round2 (nadd (cents (sy_basicSalary s)) (nsum (map (lineAmount (cents (sy_basicSalary s))) (sy_allowances s))))"
    by (simp add: x_def payOf_def Let_def)
  then obtain g where g: "kc_grossPay x = cents g" "\<bar>g\<bar> \<le> 10 ^ 8" using m' rounded unfolding modestCalc_def by blast
  have "kc_paye x = round2 (if kc_taxableIncome x \<le> 0 then 0 else foldl (bandTax (kc_taxableIncome x)) 0 bands)"
    by (simp add: x_def payOf_def Let_def calculatePAYE_def)
  then obtain p where p: "kc_paye x = cents p" "\<bar>p\<bar> \<le> 10 ^ 8" using m' rounded unfolding modestCalc_def by blast
  have "kc_ssnitEmployee x = round2 (nmul (contributionBase (cents (sy_basicSalary s)) (map_option cents (sx_ceiling a)) (map_option cents (sx_minimum a)))
      (ndiv (cents (sx_rate a)) 100))"
    by (simp add: x_def payOf_def Let_def contributionOf_def calculateStatutoryContribution_def)
  then obtain q where q: "kc_ssnitEmployee x = cents q" "\<bar>q\<bar> \<le> 10 ^ 8" using m' rounded unfolding modestCalc_def by blast
  have ded: "kc_otherDeductions x = nsum (map cents ks)" by (simp add: x_def payOf_def Let_def ks [symmetric])
  have "kc_netPay x = round2 (max 0 (nsub (nsub (nsub (kc_grossPay x) (kc_paye x)) (kc_ssnitEmployee x)) (kc_otherDeductions x)))"
    by (simp add: x_def payOf_def Let_def)
  also have "\<dots> = cents (max 0 (g - p - q - sum_list ks))"
    unfolding g(1) p(1) q(1) ded using g(2) p(2) q(2) K(1) by (intro net_pay_exact) auto
  finally have net: "kc_netPay x = cents (max 0 (g - p - q - sum_list ks))" .
  have "\<bar>max 0 (g - p - q - sum_list ks)\<bar> \<le> 10 ^ 8"
    using m' unfolding modestCalc_def net by (intro cents_bounded) blast
  moreover have "toDec2 (round2 (nsum (map cents ks))) = sum_list ks"
    using round2_nsum_cents [OF K(2)] K(2) abs_sum_list_le [of ks] by (simp add: smallSum_def)
  ultimately show "slipAddsUp (entryRow env i n x)" "kc_grossPay x = cents (toDec2 (kc_grossPay x))" "\<bar>toDec2 (kc_grossPay x)\<bar> \<le> 10 ^ 8"
    "kc_netPay x = cents (toDec2 (kc_netPay x))" "\<bar>toDec2 (kc_netPay x)\<bar> \<le> 10 ^ 8"
    using g p q by (simp_all add: slipAddsUp_def entryRow_def net ded)
qed

section \<open>The run of a period\<close>

definition modestPayroll :: "env \<Rightarrow> 'a payroll_db_scheme \<Rightarrow> bool" where
  "modestPayroll env db \<longleftrightarrow> length (activeStructures env (db_structures db)) \<le> 1000
     \<and> (\<forall>s \<in> set (activeStructures env (db_structures db)). modestLines s
        \<and> (\<forall>t \<in> set (db_taxTables db). \<forall>a \<in> set (db_statutoryRates db). \<forall>b \<in> set (db_statutoryRates db). \<forall>c \<in> set (db_statutoryRates db).
             modestCalc (payOf (filter (\<lambda>x. ec_institutionId x = e_institutionId env) (db_earningCodes db)) (bandsOf t) a b c s)))"

definition slipsOf :: "env \<Rightarrow> nat \<Rightarrow> string \<Rightarrow> payCalc list \<Rightarrow> payrollEntry list" where
  "slipsOf env n run cs = map (\<lambda>(k, c). entryRow env (e_uuid env (n + k)) run c) (zip [0..<length cs] cs)"

lemma map_slips: "(\<And>i c. f (entryRow env i run c) = g c) \<Longrightarrow> map f (slipsOf env n run cs) = map g cs"
  unfolding slipsOf_def by (rule nth_equalityI) simp_all

lemma slipsOf_all: "(\<And>i c. c \<in> set cs \<Longrightarrow> P (entryRow env i run c)) \<Longrightarrow> list_all P (slipsOf env n run cs)"
  unfolding slipsOf_def by (auto simp: list_all_iff dest: set_zip_rightD)

lemma total_of_slips:
  assumes "length cs \<le> 1000" and "\<And>c. c \<in> set cs \<Longrightarrow> f c = cents (toDec2 (f c)) \<and> \<bar>toDec2 (f c)\<bar> \<le> 10 ^ 8"
  shows "toDec2 (round2 (nsum (map f cs))) = sum_list (map (\<lambda>c. toDec2 (f c)) cs)"
proof -
  let ?ks = "map (\<lambda>c. toDec2 (f c)) cs"
  have E: "map f cs = map cents ?ks" using assms(2) by simp
  have S: "smallSum ?ks" by (rule modest_smallSum' [of _ 1000]) (use assms in auto)
  then have "dec14 (sum_list ?ks)" using abs_sum_list_le [of ?ks] unfolding smallSum_def by linarith
  then show ?thesis unfolding E round2_nsum_cents [OF S] by (rule toDec2_cents)
qed

lemma requiredRates_known: "requiredRates env rs = Inr (a, b, c) \<Longrightarrow> a \<in> set rs \<and> b \<in> set rs \<and> c \<in> set rs"
  by (auto simp: requiredRates_def activeRate_def split: option.splits dest: find_SomeD)


end
