(* ===== verification/Asset_Safety.thy ===== *)
theory Asset_Safety
  imports Approval_Books
begin

text \<open>
  Depreciation of the assets: one entry a period, never below the residual value, and exactly there at the
  end of the useful life.
\<close>

lemma postJournal_assets:
  fixes db db' :: "'a asset_db_scheme"
  assumes "postJournal env inst ty descr date pb cb cls db = Inr (j, db')"
  shows "db_assets db' = db_assets db \<and> db_depreciation db' = db_depreciation db"
proof -
  obtain db1 where c: "createJournal env inst ty descr J_POSTED date (Some pb) cb (map snd cls) db = Inr (j, db1)"
    and f: "foldE postLine cls db1 = Inr db'"
    using assms by (auto simp: postJournal_def bindE_Inr_iff)
  have line: "(db_assets t, db_depreciation t) = (db_assets u, db_depreciation u)" if "postLine cl u = Inr t" for cl and u t :: "'a asset_db_scheme"
    using that by (auto simp: postLine_def split: prod.splits if_splits)
  have "(db_assets db', db_depreciation db') = (db_assets db1, db_depreciation db1)"
    by (rule foldE_frame [where g = "\<lambda>d. (db_assets d, db_depreciation d)", OF line f])
  then show ?thesis using createJournal_result [OF c] by simp
qed

lemma postDepreciation_assets:
  assumes "postDepreciation env a label amount db = Inr (jid, db1)"
  shows "db_assets db1 = db_assets db \<and> db_depreciation db1 = db_depreciation db"
  using assms by (auto simp: postDepreciation_def bindE_Inr_iff split: option.splits if_splits dest!: postJournal_assets)

text \<open>An asset whose depreciation is on its way, or at its end.\<close>

definition depreciable :: "asset \<Rightarrow> 'a asset_db_scheme \<Rightarrow> bool" where
  "depreciable a db \<longleftrightarrow> 0 \<le> fa_residualValue a \<and> 0 \<le> fa_accumulatedDepreciation a
     \<and> fa_accumulatedDepreciation a + fa_residualValue a \<le> fa_acquisitionCost a \<and> fa_acquisitionCost a \<le> 10 ^ 11
     \<and> 1 \<le> fa_usefulLifeMonths a \<and> (case fa_rate a of None \<Rightarrow> True | Some r \<Rightarrow> 0 \<le> r)
     \<and> (if fa_usefulLifeMonths a \<le> int (monthsElapsed (fa_id a) db)
        then fa_accumulatedDepreciation a + fa_residualValue a = fa_acquisitionCost a else True)"

lemma assetDepreciation_bounds:
  assumes "depreciable a db"
  shows "\<exists>d. assetDepreciation a db = cents d \<and> 0 \<le> d \<and> fa_accumulatedDepreciation a + d + fa_residualValue a \<le> fa_acquisitionCost a
    \<and> (fa_usefulLifeMonths a \<le> int (monthsElapsed (fa_id a) db) + 1
       \<longrightarrow> fa_accumulatedDepreciation a + d + fa_residualValue a = fa_acquisitionCost a)"
proof -
  have "0 \<le> r" if "map_option cents (fa_rate a) = Some r" for r
    using assms that by (auto simp: depreciable_def split: option.splits)
  then show ?thesis
    unfolding assetDepreciation_def using assms by (intro depreciation_stops_at_residual) (auto simp: depreciable_def)
qed

definition depreciatedBy :: "asset \<Rightarrow> int \<Rightarrow> asset" where
  "depreciatedBy a d = a\<lparr>fa_accumulatedDepreciation := fa_accumulatedDepreciation a + d\<rparr>"

lemma depreciatedBy_sel [simp]:
  "fa_id (depreciatedBy a d) = fa_id a" "fa_accumulatedDepreciation (depreciatedBy a d) = fa_accumulatedDepreciation a + d"
  "fa_residualValue (depreciatedBy a d) = fa_residualValue a" "fa_acquisitionCost (depreciatedBy a d) = fa_acquisitionCost a"
  "fa_usefulLifeMonths (depreciatedBy a d) = fa_usefulLifeMonths a" "fa_rate (depreciatedBy a d) = fa_rate a"
  by (simp_all add: depreciatedBy_def)

lemma processDepreciation_effect:
  assumes run: "processDepreciation env i label db = (ROk k e, db')" and a: "ownAsset env i db = Inr a" and d: "depreciable a db"
    and u: "uniqueBy fa_id (db_assets db)"
  obtains n where "0 < n" and "db_depreciation db' = db_depreciation db @ [e]" and "fd_assetId e = i" and "label = Some (fd_periodLabel e)"
    and "list_all (\<lambda>x. \<not> (fd_assetId x = i \<and> fd_periodLabel x = fd_periodLabel e)) (db_depreciation db)"
    and "db_assets db' = updWhere (\<lambda>x. fa_id x = i) (\<lambda>x. depreciatedBy x n) (db_assets db)"
    and "fd_depreciationAmount e = n" and "fd_accumulatedDepreciation e = fa_accumulatedDepreciation a + n"
    and "fd_netBookValue e = fa_acquisitionCost a - (fa_accumulatedDepreciation a + n)"
    and "fa_accumulatedDepreciation a + n + fa_residualValue a \<le> fa_acquisitionCost a"
    and "fa_usefulLifeMonths a \<le> int (monthsElapsed i db) + 1 \<Longrightarrow> fa_accumulatedDepreciation a + n + fa_residualValue a = fa_acquisitionCost a"
proof -
  have ai: "fa_id a = i" "a \<in> set (db_assets db)" using a by (auto simp: ownAsset_def dest: find_SomeD)
  obtain n where n: "assetDepreciation a db = cents n" "0 \<le> n" "fa_accumulatedDepreciation a + n + fa_residualValue a \<le> fa_acquisitionCost a"
    "fa_usefulLifeMonths a \<le> int (monthsElapsed i db) + 1 \<Longrightarrow> fa_accumulatedDepreciation a + n + fa_residualValue a = fa_acquisitionCost a"
    using assetDepreciation_bounds [OF d] ai by blast
  have b: "dec14 (fa_accumulatedDepreciation a)" "dec14 n" "dec14 (fa_accumulatedDepreciation a + n)"
    "dec14 (fa_acquisitionCost a)" "dec14 (fa_acquisitionCost a - (fa_accumulatedDepreciation a + n))"
    using d n(2,3) by (auto simp: depreciable_def)
  have acc: "round2 (nadd (cents (fa_accumulatedDepreciation a)) (cents n)) = cents (fa_accumulatedDepreciation a + n)"
    using b by (intro round2_add)
  have nbv: "round2 (nsub (cents (fa_acquisitionCost a)) (cents (fa_accumulatedDepreciation a + n)))
      = cents (fa_acquisitionCost a - (fa_accumulatedDepreciation a + n))" using b by (intro round2_sub)
  obtain jid db1 where lab: "truthy label" "find (\<lambda>e. fd_assetId e = i \<and> fd_periodLabel e = the label) (db_depreciation db) = None" "0 < cents n"
    and p: "postDepreciation env a (the label) (cents n) db = Inr (jid, db1)"
    and e: "e = \<lparr>fd_id = newId env db1, fd_institutionId = e_institutionId env, fd_assetId = i, fd_periodLabel = the label,
           fd_depreciationAmount = n, fd_accumulatedDepreciation = fa_accumulatedDepreciation a + n,
           fd_netBookValue = fa_acquisitionCost a - (fa_accumulatedDepreciation a + n), fd_journalId = jid, fd_postedById = e_userId env\<rparr>"
    and db': "db' = audit env ''asset.depreciation_posted'' ''asset'' i
          (updAsset i (\<lambda>x. x\<lparr>fa_accumulatedDepreciation := fa_accumulatedDepreciation a + n\<rparr>)
            (db1\<lparr>db_next := Suc (db_next db1), db_depreciation := db_depreciation db1 @ [e]\<rparr>))"
    using run unfolding processDepreciation_def
  proof (cases rule: answer_cases)
    case (finished x)
    then show ?thesis using that a n(1) ai(1) acc nbv b by (auto simp: bindE_Inr_iff Let_def)
  qed simp
  note P = postDepreciation_assets [OF p]
  have "db_assets db' = updWhere (\<lambda>x. fa_id x = i) (\<lambda>x. x\<lparr>fa_accumulatedDepreciation := fa_accumulatedDepreciation a + n\<rparr>) (db_assets db)"
    using P by (simp add: db' updAsset_def audit_def)
  also have "\<dots> = updWhere (\<lambda>x. fa_id x = i) (\<lambda>x. depreciatedBy x n) (db_assets db)"
    unfolding updWhere_def using uniqueBy_eq [OF u _ ai(2)] ai(1) by (intro map_cong refl) (auto simp: depreciatedBy_def)
  finally have assets: "db_assets db' = \<dots>" .
  show ?thesis
  proof (rule that [of n])
    show "0 < n" using lab(3) b(2) cents_pos_iff by blast
    show "db_depreciation db' = db_depreciation db @ [e]" using P by (simp add: db' updAsset_def audit_def)
    show "label = Some (fd_periodLabel e)" using lab(1) by (cases label) (auto simp: e truthy_def)
    show "list_all (\<lambda>x. \<not> (fd_assetId x = i \<and> fd_periodLabel x = fd_periodLabel e)) (db_depreciation db)"
      using lab(2) by (simp add: e find_None_iff list_all_iff)
  qed (use assets n(3,4) in \<open>simp_all add: e\<close>)
qed

text \<open>Claim C16. A month's depreciation of an asset is entered once for its period and is positive; the asset and its
  entry then carry the sum, the net book value stays at or above the residual value and is exactly the residual value
  once the useful life is over; and a second run for the same period, by anyone, is refused.\<close>

theorem depreciation_bounded:
  assumes run: "processDepreciation env i label db = (ROk k e, db')" and a: "ownAsset env i db = Inr a" and d: "depreciable a db"
    and u: "uniqueBy fa_id (db_assets db)"
  shows "0 < fd_depreciationAmount e \<and> depreciatedBy a (fd_depreciationAmount e) \<in> set (db_assets db')
    \<and> depreciable (depreciatedBy a (fd_depreciationAmount e)) db'
    \<and> fd_accumulatedDepreciation e = fa_accumulatedDepreciation a + fd_depreciationAmount e
    \<and> fd_netBookValue e = fa_acquisitionCost a - fd_accumulatedDepreciation e \<and> fa_residualValue a \<le> fd_netBookValue e
    \<and> \<not> okResp (fst (processDepreciation env' i label db'))"
  using run a d u
proof (cases rule: processDepreciation_effect)
  case (1 n)
  have ai: "fa_id a = i" "a \<in> set (db_assets db)" using a by (auto simp: ownAsset_def dest: find_SomeD)
  have "depreciatedBy a n \<in> set (db_assets db')" using ai unfolding 1(6) set_updWhere by blast
  moreover have "monthsElapsed i db' = Suc (monthsElapsed i db)" using 1(2,3) by (simp add: monthsElapsed_def countWhere_def)
  then have "depreciable (depreciatedBy a n) db'" using d 1(1,10,11) ai(1) by (auto simp: depreciable_def)
  moreover have "\<not> okResp (fst (processDepreciation env' i label db'))"
  proof (cases "processDepreciation env' i label db'" rule: prod.exhaust)
    case (Pair rs db2)
    then have "\<not> okResp rs" unfolding processDepreciation_def
    proof (cases rule: answer_cases)
      case (finished x)
      then obtain q where q: "find (\<lambda>a. fa_id a = i \<and> fa_institutionId a = e_institutionId env') (db_assets db') = Some q"
        "find (\<lambda>e. fd_assetId e = fa_id q \<and> fd_periodLabel e = the label) (db_depreciation db') = None"
        by (auto simp: bindE_Inr_iff Let_def ownAsset_def)
      from q(1) have "fa_id q = i" by (auto dest: find_SomeD)
      then show ?thesis using q(2) 1(2-4) by (auto simp: find_None_iff)
    qed
    then show ?thesis using Pair by simp
  qed
  ultimately show ?thesis using 1 by simp
qed

end
