(* ===== verification/Approval_Examples.thy ===== *)
theory Approval_Examples
  imports Asset_Safety Scheduler_Examples
begin

text \<open>Sample requests, transfers and assets, on which the hypotheses of the theorems on approvals hold.\<close>

definition sampleCustomerDb :: "loan list \<Rightarrow> loanInstallment list \<Rightarrow> customer_db" where
  "sampleCustomerDb ls is = scheduler_db.extend (sampleJobsDb ls is [] [] []) (customer_db.fields [] [] [] [] [] [] [] [] [])"

definition sampleOfficeDb :: "approvalRow list \<Rightarrow> cashTransfer list \<Rightarrow> loanRestructure list \<Rightarrow> loanInstallment list \<Rightarrow> asset list \<Rightarrow> asset_db" where
  "sampleOfficeDb rs ts xs is as = people_db.extend (payroll_db.extend (customer_db.extend
     ((sampleCustomerDb [] is)\<lparr>db_approvals := rs, db_cashTransfers := ts, db_restructures := xs, db_vaults := [sampleVault, sampleVault\<lparr>va_id := ''v2''\<rparr>]\<rparr>)
     (payroll_db.fields [] [] [] [] [] [] [] [] [] [] [] [] [] [] [])) (people_db.fields [] [] []))
     (asset_db.fields [] as [] [] [] [] [] [] [] [] [] [])"

lemmas db_shapes = interest_db.defs savings_db.defs loan_db.defs cash_db.defs gl_db.defs core_db.defs crm_db.defs collections_db.defs
  audit_db.defs scheduler_db.defs customer_db.defs payroll_db.defs people_db.defs asset_db.defs

lemma sampleOfficeDb_sel [simp]:
  "db_approvals (sampleOfficeDb rs ts xs is as) = rs" "db_cashTransfers (sampleOfficeDb rs ts xs is as) = ts"
  "db_restructures (sampleOfficeDb rs ts xs is as) = xs" "db_installments (sampleOfficeDb rs ts xs is as) = is"
  "db_assets (sampleOfficeDb rs ts xs is as) = as" "db_depreciation (sampleOfficeDb rs ts xs is as) = []"
  "db_assetMappings (sampleOfficeDb rs ts xs is as) = []"
  "db_journals (sampleOfficeDb rs ts xs is as) = []" "db_next (sampleOfficeDb rs ts xs is as) = 5"
  "db_glAccounts (sampleOfficeDb rs ts xs is as) = [sampleAccount ''cash'' ASSET, sampleAccount ''bank'' ASSET, sampleAccount ''dep'' LIABILITY]"
  by (simp_all add: sampleOfficeDb_def sampleCustomerDb_def sampleJobsDb_def sampleFieldDb_def sampleLoanDb_def sampleInterestDb_def
      sampleSavingsDb_def db_shapes)

lemma sampleOfficeDb_vaults [simp]:
  "db_vaults (sampleOfficeDb rs ts xs is as) = [sampleVault, sampleVault\<lparr>va_id := ''v2''\<rparr>]" "db_tellers (sampleOfficeDb rs ts xs is as) = []"
  "db_audit (sampleOfficeDb rs ts xs is as) = []" "db_cashEntries (sampleOfficeDb rs ts xs is as) = []"
  by (simp_all add: sampleOfficeDb_def sampleCustomerDb_def sampleJobsDb_def sampleFieldDb_def sampleLoanDb_def sampleInterestDb_def
      sampleSavingsDb_def db_shapes)

definition sampleRequest :: "approvalType \<Rightarrow> approvalRow" where
  "sampleRequest ty = \<lparr>ap_id = ''a1'', ap_institutionId = ''i1'', ap_type = ty, ap_status = AP_PENDING, ap_targetType = ''Target'',
     ap_targetId = ''t1'', ap_payload = [], ap_reason = ''needed'', ap_requestedById = ''u2'', ap_resolvedById = None, ap_resolvedAt = None,
     ap_resolutionNote = None\<rparr>"

definition sampleCashTransfer :: cashTransfer where
  "sampleCashTransfer = \<lparr>ct_id = ''t1'', ct_institutionId = ''i1'', ct_fromType = VAULT, ct_fromId = ''v1'', ct_toType = VAULT, ct_toId = ''v2'',
     ct_amount = 4000, ct_isEmergency = False, ct_reason = ''float'', ct_status = CT_PENDING_APPROVAL, ct_requestedById = ''u2'',
     ct_approvedById = None, ct_completedAt = None\<rparr>"

definition sampleCashDb :: asset_db where
  "sampleCashDb = sampleOfficeDb [sampleRequest CASH_TRANSFER] [sampleCashTransfer] [] [] []"

lemma sampleRequest_found:
  "find (\<lambda>r. ap_id r = ''a1'' \<and> ap_institutionId r = e_institutionId sampleEnv) [sampleRequest ty] = Some (sampleRequest ty)"
  by (simp add: sampleRequest_def sampleEnv_def)

lemma sampleCash_approved: "fst (approveRequest sampleEnv ''a1'' None sampleCashDb) = ROk 200 ()"
proof -
  have b: "cents 4000 \<le> cents 10000" by (rule cents_mono) simp
  show ?thesis
    using b by (simp add: approveRequest_def resolveRequest_def openRequest_def claimRequest_def sampleCashDb_def sampleRequest_def sampleEnv_def
        sampleCashTransfer_def applyCashTransfer_def holderBalance_def sampleVault_def moveCash_def applyDelta_def increment_def answer_def
        countWhere_def Let_def recordCash_def setCashTransfer_def updVaultBalance_def require_def not_less split_beta)
qed

section \<open>Approvals\<close>

theorem request_resolved_once_witness:
  "resolvedBy sampleEnv AP_APPROVED ''a1'' sampleCashDb (snd (approveRequest sampleEnv ''a1'' None sampleCashDb))"
proof -
  have "approveRequest sampleEnv ''a1'' None sampleCashDb = (ROk 200 (), snd (approveRequest sampleEnv ''a1'' None sampleCashDb))"
    by (rule prod_eqI) (simp_all add: sampleCash_approved)
  then show ?thesis using request_resolved_once [of True sampleEnv "''a1''" None sampleCashDb 200 "()"] by simp
qed



definition sampleRestructure :: loanRestructure where
  "sampleRestructure = \<lparr>rs_id = ''t1'', rs_loanId = ''xx'', rs_originalPrincipal = 3000, rs_originalRate = 4, rs_originalTermMonths = 1,
     rs_newPrincipal = 2000, rs_newRate = 4, rs_newTermMonths = 6, rs_reason = ''relief'', rs_requestedById = ''u2'', rs_appliedAt = None\<rparr>"

theorem restructure_never_applies_witness:
  "\<not> okResp (fst (approveRequest sampleEnv ''a1'' None
      (sampleOfficeDb [sampleRequest LOAN_RESTRUCTURE] [] [sampleRestructure] [sampleInstallment ''k1'' 1] [])))"
proof -
  let ?r = "sampleRequest LOAN_RESTRUCTURE"
  have r: "ap_type ?r = LOAN_RESTRUCTURE" "ap_targetId ?r = ''t1''" by (simp_all add: sampleRequest_def)
  have li: "li_loanId (sampleInstallment ''k1'' 1) = ''xx''" "li_installmentNumber (sampleInstallment ''k1'' 1) = 1" by (simp_all add: sampleInstallment_def)
  have x: "rs_id sampleRestructure = ''t1''" "rs_loanId sampleRestructure = ''xx''" "rs_newTermMonths sampleRestructure = 6"
    by (simp_all add: sampleRestructure_def)
  show ?thesis
    using restructure_never_applies [of "''a1''" sampleEnv "sampleOfficeDb [?r] [] [sampleRestructure] [sampleInstallment ''k1'' 1] []" ?r
        sampleRestructure "sampleInstallment ''k1'' 1" None] sampleRequest_found [of LOAN_RESTRUCTURE]
    by (simp add: r li x del: find.simps) (simp add: r x)
qed

section \<open>Assets and merges\<close>

definition sampleAsset :: asset where
  "sampleAsset = \<lparr>fa_id = ''f1'', fa_institutionId = ''i1'', fa_categoryId = ''k1'', fa_assetCode = ''AST-1'', fa_name = ''Van'',
     fa_serialNumber = None, fa_manufacturer = None, fa_model = None, fa_acquisitionDate = 1600000000000, fa_acquisitionCost = 120000,
     fa_supplierName = None, fa_warrantyExpiryDate = None, fa_installationDate = None, fa_commissionedDate = None, fa_usefulLifeMonths = 1,
     fa_residualValue = 20000, fa_method = STRAIGHT_LINE, fa_rate = None, fa_accumulatedDepreciation = 0, fa_status = FA_ACTIVE,
     fa_currentEmployeeId = None, fa_currentDepartmentId = None, fa_currentBranchId = None, fa_barcodeValue = None, fa_qrCodeValue = None,
     fa_latitude = None, fa_longitude = None, fa_disposedAt = None, fa_disposalReason = None, fa_createdById = ''u1''\<rparr>"

theorem depreciation_bounded_witness:
  "\<exists>e db'. processDepreciation sampleEnv ''f1'' (Some ''January 2026'') (sampleOfficeDb [] [] [] [] [sampleAsset]) = (ROk 201 e, db')
     \<and> fd_netBookValue e = 20000 \<and> \<not> okResp (fst (processDepreciation sampleEnv ''f1'' (Some ''January 2026'') db'))"
proof -
  let ?db = "sampleOfficeDb [] [] [] [] [sampleAsset]"
  have own: "ownAsset sampleEnv ''f1'' ?db = Inr sampleAsset" by (simp add: ownAsset_def sampleAsset_def sampleEnv_def)
  have months: "monthsElapsed i ?db = 0" for i by (simp add: monthsElapsed_def countWhere_def)
  have dep: "depreciable sampleAsset ?db" by (simp add: depreciable_def months) (simp add: sampleAsset_def)
  have d: "assetDepreciation sampleAsset ?db = cents 100000"
  proof -
    obtain d where "assetDepreciation sampleAsset ?db = cents d"
      "fa_accumulatedDepreciation sampleAsset + d + fa_residualValue sampleAsset = fa_acquisitionCost sampleAsset"
      using assetDepreciation_bounds [OF dep] by (auto simp: months sampleAsset_def)
    moreover from this(2) have "d = 100000" by (simp add: sampleAsset_def)
    ultimately show ?thesis by simp
  qed
  have post: "postDepreciation sampleEnv sampleAsset l n ?db = Inr (None, ?db)" for l n
    by (simp add: postDepreciation_def accountIdByPurpose_def)
  have "0 < cents 100000" by (simp add: cents_pos_iff)
  then obtain e where run: "processDepreciation sampleEnv ''f1'' (Some ''January 2026'') ?db
      = (ROk 201 e, snd (processDepreciation sampleEnv ''f1'' (Some ''January 2026'') ?db))" and e: "fd_depreciationAmount e = 100000"
    using own d post by (simp add: processDepreciation_def answer_def Let_def truthy_def require_def) (simp add: sampleAsset_def)
  have "uniqueBy fa_id (db_assets ?db)" by (simp add: uniqueBy_def)
  then show ?thesis using depreciation_bounded [OF run own dep, of sampleEnv] e run
    by (intro exI [of _ e] exI conjI) (auto simp: sampleAsset_def)
qed

theorem merge_rollback_restores_witness:
  "\<exists>recs merged db'. executeCustomerMerge ''c2'' ''c1'' (sampleCustomerDb [] [] \<lparr>db_customers := [sampleCustomer, sampleCustomer\<lparr>customer.cu_id := ''c2''\<rparr>]\<rparr>)
       = Inr (recs, merged)
     \<and> (SAVINGS_ACCOUNT, ''s1'') \<in> set recs \<and> rollbackCustomerMerge ''c1'' recs merged = Inr db'
     \<and> refRows SAVINGS_ACCOUNT db' = [(''s1'', Some ''c1'')]"
proof -
  let ?db = "sampleCustomerDb [] [] \<lparr>db_customers := [sampleCustomer, sampleCustomer\<lparr>customer.cu_id := ''c2''\<rparr>]\<rparr>"
  obtain rs db1 where f: "foldl (mergeModel ''c2'' ''c1'') ([], ?db) allRefModels = (rs, db1)" by fastforce
  have "db_customers db1 = db_customers ?db" using merge_models [OF f allRefModels_distinct] by blast
  then have "find (\<lambda>c. customer.cu_id c = ''c1'') (db_customers db1) \<noteq> None" by (simp add: sampleCustomer_def)
  then obtain recs merged where m: "executeCustomerMerge ''c2'' ''c1'' ?db = Inr (recs, merged)"
    by (simp add: executeCustomerMerge_def f setMergeState_def)
  have rows: "refRows SAVINGS_ACCOUNT ?db = [(''s1'', Some ''c1'')]"
    by (simp add: sampleCustomerDb_def sampleJobsDb_def sampleFieldDb_def sampleLoanDb_def sampleInterestDb_def sampleSavingsDb_def db_shapes
        sampleSavings_def)
  have "distinct (map fst (refRows k ?db))" for k
    by (cases k) (simp_all add: sampleCustomerDb_def sampleJobsDb_def sampleFieldDb_def sampleLoanDb_def sampleInterestDb_def sampleSavingsDb_def
        db_shapes)
  then have "grownFrom merged (\<lambda>_. []) merged" by (simp add: grownFrom_def merge_effect [OF m])
  from merge_rollback_restores [OF m this] obtain db' where "rollbackCustomerMerge ''c1'' recs merged = Inr db'" "\<forall>k. refRows k db' = refRows k ?db"
    by auto
  moreover have "(SAVINGS_ACCOUNT, ''s1'') \<in> set recs" using merge_effect(1) [OF m] rows by simp
  ultimately have "rollbackCustomerMerge ''c1'' recs merged = Inr db' \<and> refRows SAVINGS_ACCOUNT db' = [(''s1'', Some ''c1'')] \<and> (SAVINGS_ACCOUNT, ''s1'') \<in> set recs"
    using rows by simp
  then show ?thesis using m by blast
qed

end
