(* ===== verification/Payroll_Examples.thy ===== *)
theory Payroll_Examples
  imports Payroll_Safety Approval_Examples
begin

text \<open>A sample payroll of one employee, on which the hypotheses of the theorem on payroll runs hold.\<close>

definition samplePayStructure :: salaryStructure where
  "samplePayStructure = \<lparr>sy_id = ''y1'', sy_institutionId = ''i1'', sy_employeeId = ''m1'', sy_payGroupId = None, sy_salaryGradeId = None,
     sy_basicSalary = 100000, sy_effectiveDate = 1600000000000, sy_status = SY_ACTIVE, sy_approvedById = None, sy_allowances = [],
     sy_deductions = [\<lparr>aw_codeId = ''d1'', aw_amount = 5000, aw_isPercentageOfBasic = False, aw_active = True\<rparr>]\<rparr>"

definition sampleRate :: "string \<Rightarrow> statutoryRate" where
  "sampleRate n = \<lparr>sx_id = n, sx_institutionId = ''i1'', sx_name = n, sx_rate = 0, sx_ceiling = None, sx_minimum = None,
     sx_effectiveDate = 1600000000000, sx_active = True\<rparr>"

definition sampleTaxTable :: taxTable where
  "sampleTaxTable = \<lparr>tt_id = ''t1'', tt_institutionId = ''i1'', tt_name = ''PAYE'', tt_effectiveDate = 1600000000000, tt_active = True, tt_bands = []\<rparr>"

definition samplePayrollDb :: payroll_db where
  "samplePayrollDb = customer_db.extend (sampleCustomerDb [] []) (payroll_db.fields [] [] []
     [\<lparr>py_id = ''q1'', py_institutionId = ''i1'', py_calendarId = ''k1'', py_name = ''January'', py_startDate = 1600000000000,
       py_endDate = 1602500000000, py_payDate = 1602500000000, py_status = PY_OPEN\<rparr>] [] [] [] [] [] [sampleTaxTable]
     [sampleRate ''SSNIT Employee'', sampleRate ''SSNIT Employer Tier 1'', sampleRate ''Tier 2 Employer''] [samplePayStructure] [] [] [])"

lemma samplePayrollDb_sel [simp]:
  "db_structures samplePayrollDb = [samplePayStructure]" "db_taxTables samplePayrollDb = [sampleTaxTable]" "db_payRuns samplePayrollDb = []"
  "db_statutoryRates samplePayrollDb = [sampleRate ''SSNIT Employee'', sampleRate ''SSNIT Employer Tier 1'', sampleRate ''Tier 2 Employer'']"
  "db_payPeriods samplePayrollDb = [\<lparr>py_id = ''q1'', py_institutionId = ''i1'', py_calendarId = ''k1'', py_name = ''January'',
     py_startDate = 1600000000000, py_endDate = 1602500000000, py_payDate = 1602500000000, py_status = PY_OPEN\<rparr>]"
  "db_earningCodes samplePayrollDb = []" "db_payEntries samplePayrollDb = []"
  by (simp_all add: samplePayrollDb_def sampleCustomerDb_def sampleJobsDb_def sampleFieldDb_def sampleLoanDb_def sampleInterestDb_def
      sampleSavingsDb_def db_shapes)

lemma samplePay_active: "activeStructures sampleEnv [samplePayStructure] = [samplePayStructure]"
  by (simp add: activeStructures_def samplePayStructure_def sampleEnv_def)

lemma samplePay_modest: "modestPayroll sampleEnv samplePayrollDb"
proof -
  have whole: "cents 100000 = 1000" "cents 5000 = 50" using cents_whole [of 1000] cents_whole [of 50] by simp_all
  have b: "bandsOf sampleTaxTable = []" by (simp add: bandsOf_def sampleTaxTable_def)
  have z: "contributionOf x (sampleRate n) = 0" for x n
    by (simp add: contributionOf_def sampleRate_def calculateStatutoryContribution_def num_ops)
  have "modestCalc (payOf [] [] (sampleRate l) (sampleRate m) (sampleRate n) samplePayStructure)" for l m n
  proof -
    have g: "round2 (nadd 1000 (nsum [])) = 1000" and d: "nsum [50] = (50 :: num)" and k: "round2 (max 0 (nsub (nsub (nsub 1000 0) 0) 50)) = 950"
      using round2_cents [of 100000] round2_cents [of 95000] whole cents_whole [of 950] by (simp_all add: num_ops nsum_def del: round2_cents)
    show ?thesis using g d k by (simp add: modestCalc_def payOf_def Let_def z whole samplePayStructure_def lineAmount_def calculatePAYE_def)
  qed
  then show ?thesis unfolding modestPayroll_def
    by (simp add: samplePay_active b modestLines_def) (simp add: samplePayStructure_def lineAmount_def whole)
qed

lemma samplePay_runs: "\<exists>r. fst (processPeriod sampleEnv ''q1'' samplePayrollDb) = ROk 201 r"
  by (simp add: processPeriod_def sampleEnv_def requiredRates_def activeRate_def sampleRate_def sampleTaxTable_def answer_def Let_def split_beta
      require_def)


end
