(* ===== verification/Spec2Isabelle.thy ===== *)
theory Spec2Isabelle
  imports Report_Ranges Scoring Portfolio_Risk Payroll_Assets GL_System Cash_Vault Auth_Safety
    Savings_Safety Interest_Safety Loan_Examples Collections_Examples Scheduler_Examples Payroll_Examples
begin

text \<open>
  Nexus EFOS: the server of a core banking system for savings and loans companies
  (\<open>src/api/src\<close>), as a shallow embedding. Each route handler is a function of the request and of
  the database that returns the answer and the database it leaves; the database is one record that
  every module extends by its tables, so that the modules compose the way they share tables in the code.
  A request body is \<open>None\<close> when the schema of the code refuses it by the type of a field, and the
  other conditions of the schema are tests of the handler.

  Language and platform. \<open>JS_Number\<close>: IEEE doubles as rationals with rounding, \<open>Math.round\<close>, the
  two-decimal columns and their conversions. \<open>JS_Date\<close>, \<open>JS_String\<close>: the calendar and the strings
  the code uses. \<open>Server\<close>: requests, answers, exceptions, transactions, the audit log and the
  approval requests. \<open>Prelude\<close>: tables as lists, updates by key, the error monad and the rules that
  take a handler apart step by step. Amounts in tables are integers of pesewas, as the decimal columns
  hold them; amounts in requests and calculations are numbers.

  Calculations. \<open>Loan_Schedule\<close> (\<open>lib/loanSchedule.ts\<close>), \<open>Portfolio_Risk\<close> (\<open>arrears.ts\<close>, \<open>portfolio.ts\<close>,
  \<open>capitalAdequacy.ts\<close>), \<open>Scoring\<close> (credit, delinquency, collectors, customers), \<open>Payroll_Assets\<close>
  (pay, statutory contributions, depreciation and their journals), \<open>Report_Ranges\<close>, \<open>Ledger\<close>
  (\<open>lib/generalLedger.ts\<close>, \<open>cashFlowStatement.ts\<close> and the reports of \<open>generalLedger.routes.ts\<close>).
  The lemmas relate each calculation to exact arithmetic on pesewas.

  Modules, in the order in which they build on each other.
  \<open>GL_Routes\<close> (accounts, journals, periods), \<open>GL_Books\<close> (the books: balances are the effects of the
  posted lines), \<open>GL_System\<close> (all runs of the module). \<open>Guarded_Balance\<close> is the interface of the guarded
  balance updates, which \<open>Cash_Vault\<close> (vaults, tellers, balancing) and \<open>Savings\<close> interpret on their
  tables. \<open>Security\<close>, \<open>Access\<close>, \<open>Auth\<close>, \<open>Auth_Safety\<close>: secrets, permissions, idempotency keys,
  sessions. \<open>Business_Rules\<close>. \<open>Savings\<close>, \<open>Savings_Services\<close>, \<open>Savings_Safety\<close>, \<open>Savings_Interest\<close>,
  \<open>Interest_Safety\<close>. \<open>Loans\<close>, \<open>Loan_Services\<close> (penalties, promises, assessment, guarantors,
  collateral, restructuring), \<open>Loan_Safety\<close>, \<open>Loan_Repayment\<close>, \<open>Loan_Lifecycle\<close>.
  \<open>Customer_Care\<close>: interactions, complaints, notifications. \<open>Collections\<close>, \<open>Collections_Safety\<close>: field
  collections. \<open>Internal_Audit\<close>. \<open>Scheduler\<close>, \<open>Scheduler_Safety\<close>, \<open>Instruction_Safety\<close>,
  \<open>Batch_Safety\<close>: the daily jobs. \<open>Customers\<close> (\<open>customer.routes.ts\<close>, \<open>watchlist.routes.ts\<close>): the register,
  with the columns of a customer that other modules do not read kept by name. \<open>Customer_Merge\<close>,
  \<open>Merge_Safety\<close> (\<open>lib/customerMerge.ts\<close>, \<open>documents.routes.ts\<close>): the merge as an action on the owner
  column of ten models, and its rollback. \<open>Payroll\<close>, \<open>Payroll_Safety\<close> (\<open>payroll.routes.ts\<close>,
  \<open>departments.routes.ts\<close>). \<open>People\<close> (\<open>hr.routes.ts\<close>). \<open>Assets\<close>, \<open>Asset_Safety\<close> (\<open>asset.routes.ts\<close>,
  \<open>interBranch.routes.ts\<close>). \<open>Approvals\<close> (\<open>approvals.routes.ts\<close>): the effect of each kind of request on
  the tables of all modules; \<open>Approval_Safety\<close> shows that a request is resolved once and by a second
  person, and what the approval of a cash transfer and of a restructuring does; \<open>Approval_Books\<close> that no
  approval breaks the books. Theories named \<open>Examples\<close> hold concrete states on which the hypotheses of
  the theorems hold.

  Groups of lemmas. For a handler \<open>h\<close>, the lemmas named \<open>h_cases\<close>, \<open>h_effect\<close> or \<open>h_Inr\<close> say what a
  successful answer implies, and those named \<open>frame\<close>, \<open>books\<close> or after a table say which tables it leaves
  alone; an answer that is an error leaves the database as it was when the code runs in a transaction.
  Invariants over all runs are shown by rule induction on the step relation of a module.

  Bounds. Numbers are rounded to 53 bits; where a theorem equates them with exact pesewas it asks for
  amounts a column holds: at most ten to the thirteenth pesewas for one amount, at most a thousand
  installments or employees and a hundred lines for one person, salaries of at most a million cedis and
  assets of at most a thousand million. Sums of that many such amounts stay below two to the fifty-third,
  so that two-decimal rounding finds the exact sum. Overflow of a column is an exception where the
  handler writes a number of unbounded size. There is no fuel: loops over dates have a measure.

  Not modelled. The order of steps inside one handler against those of another, except where the code
  guards an update by its condition: handlers are taken one after the other, so that serialisation
  conflicts and their answer 409 do not arise, and the daily jobs follow each other. The metadata of
  audit rows, client addresses, the wording of schema errors, the text of the errors of failed jobs and
  coordinates. Dashes in texts are written as hyphens and the server's time zone is that of Ghana, which
  is universal time. Handlers that only list or search rows, the rendering of documents, and the clients
  of hosted services. Hashing, encryption, one-time passwords, messaging, file storage and the conversion
  between numbers and texts are parameters. Users, roles, products and institutions are rows that the
  handlers read; their configuration pages, cheques, the import of old data, analytics and the web client
  are not part of the model.
\<close>

end
